(* ===== verification/Prelude.thy ===== *)
theory Prelude
  imports Main "HOL-Library.Word"
begin

text \<open>
  Shared vocabulary of the development.

  \<^item> Machine integers: \<open>u8\<close> \dots \<open>u256\<close> are words; \<open>i256\<close> is a 256-bit word read by \<^const>\<open>sint\<close>.
    The Rust and alloy arithmetic the program uses (\<open>checked_*\<close>, \<open>saturating_*\<close>, \<open>try_from\<close>) is
    defined once here, with its meaning over \<^typ>\<open>nat\<close> and \<^typ>\<open>int\<close>.
  \<^item> Results: \<open>Result<T, E>\<close> is \<open>'e + 'a\<close>; \<open>rbind\<close> is the question-mark operator, \<open>ok_or\<close> is
    \<open>Option::ok_or_else\<close>, \<open>rfold\<close> is a \<open>for\<close> loop whose body may return early with an error.
  \<^item> Interfaces for such loops: \<open>invariant_step\<close> (a property every step keeps is kept by the loop),
    \<open>framed_step\<close> (a part of the state no step touches is not touched by the loop),
    \<open>independent_steps\<close> (two kinds of step that commute can be reordered as whole loops) and
    \<open>separate_steps\<close> (steps on disjoint parts of the state commute).
  \<^item> Text: decimal and fixed-width hexadecimal rendering, as used in the identifiers the program
    derives, with the facts that make the renderings injective.
  \<^item> JSON values (\<open>serde_json::Value\<close>), which the program stores and inspects.
\<close>

section \<open>Machine integers\<close>

type_synonym u8 = "8 word"
type_synonym u32 = "32 word"
type_synonym i32 = "32 word"
type_synonym u64 = "64 word"
type_synonym u128 = "128 word"
type_synonym u256 = "256 word"
type_synonym i256 = "256 word"

definition checked_add :: "'a::len word \<Rightarrow> 'a word \<Rightarrow> 'a word option" where
  "checked_add a b = (if unat a + unat b < 2 ^ LENGTH('a) then Some (a + b) else None)"

definition checked_sub :: "'a::len word \<Rightarrow> 'a word \<Rightarrow> 'a word option" where
  "checked_sub a b = (if b \<le> a then Some (a - b) else None)"

definition checked_mul :: "'a::len word \<Rightarrow> 'a word \<Rightarrow> 'a word option" where
  "checked_mul a b = (if unat a * unat b < 2 ^ LENGTH('a) then Some (a * b) else None)"

definition saturating_add :: "'a::len word \<Rightarrow> 'a word \<Rightarrow> 'a word" where
  "saturating_add a b = (if unat a + unat b < 2 ^ LENGTH('a) then a + b else - 1)"

definition saturating_sub :: "'a::len word \<Rightarrow> 'a word \<Rightarrow> 'a word" where
  "saturating_sub a b = (if b \<le> a then a - b else 0)"

abbreviation u256_max :: u256 where
  "u256_max \<equiv> - 1"

definition i256_max :: i256 where
  "i256_max = word_of_int (2 ^ 255 - 1)"

text \<open>\<open>I256::try_from(U256)\<close> and \<open>U256::try_from(I256)\<close>: the bits are kept, values outside the
  target range are rejected.\<close>

definition i256_try_from_u256 :: "u256 \<Rightarrow> i256 option" where
  "i256_try_from_u256 v = (if unat v < 2 ^ 255 then Some v else None)"

definition u256_try_from_i256 :: "i256 \<Rightarrow> u256 option" where
  "u256_try_from_i256 v = (if 0 \<le> sint v then Some v else None)"

definition i256_clamp :: "int \<Rightarrow> int" where
  "i256_clamp i = max (- (2 ^ 255)) (min (2 ^ 255 - 1) i)"

definition i256_saturating_add :: "i256 \<Rightarrow> i256 \<Rightarrow> i256" where
  "i256_saturating_add a b = word_of_int (i256_clamp (sint a + sint b))"

section \<open>Results and loops that may fail\<close>

definition rbind :: "'e + 'a \<Rightarrow> ('a \<Rightarrow> 'e + 'b) \<Rightarrow> 'e + 'b" where
  "rbind m f = (case m of Inl e \<Rightarrow> Inl e | Inr x \<Rightarrow> f x)"

definition ok_or :: "'a option \<Rightarrow> 'e \<Rightarrow> 'e + 'a" where
  "ok_or o' e = (case o' of None \<Rightarrow> Inl e | Some x \<Rightarrow> Inr x)"

fun rfold :: "('s \<Rightarrow> 'x \<Rightarrow> 'e + 's) \<Rightarrow> 's \<Rightarrow> 'x list \<Rightarrow> 'e + 's" where
  "rfold f s [] = Inr s"
| "rfold f s (x # xs) = rbind (f s x) (\<lambda>s'. rfold f s' xs)"

definition is_ok :: "'e + 'a \<Rightarrow> bool" where
  "is_ok r = (case r of Inl _ \<Rightarrow> False | Inr _ \<Rightarrow> True)"

section \<open>Rendering of numbers\<close>

definition digit_char :: "nat \<Rightarrow> char" where
  "digit_char d = char_of (48 + d)"

fun dec_string :: "nat \<Rightarrow> string" where
  "dec_string n = (if n < 10 then [digit_char n] else dec_string (n div 10) @ [digit_char (n mod 10)])"

definition hex_char :: "nat \<Rightarrow> char" where
  "hex_char d = (if d < 10 then char_of (48 + d) else char_of (87 + d))"

fun hex_fixed :: "nat \<Rightarrow> nat \<Rightarrow> string" where
  "hex_fixed 0 n = []"
| "hex_fixed (Suc k) n = hex_fixed k (n div 16) @ [hex_char (n mod 16)]"

section \<open>JSON values\<close>

datatype json =
    JNull
  | JBool bool
  | JNum string
  | JStr string
  | JArr "json list"
  | JObj "(string \<times> json) list"

fun json_as_object :: "json \<Rightarrow> (string \<times> json) list option" where
  "json_as_object (JObj kvs) = Some kvs"
| "json_as_object _ = None"

fun json_get :: "json \<Rightarrow> string \<Rightarrow> json option" where
  "json_get (JObj kvs) k = map_of kvs k"
| "json_get _ k = None"

fun json_insert :: "string \<Rightarrow> json \<Rightarrow> (string \<times> json) list \<Rightarrow> (string \<times> json) list" where
  "json_insert k v [] = [(k, v)]"
| "json_insert k v ((k', v') # kvs) =
     (if k = k' then (k, v) # kvs else (k', v') # json_insert k v kvs)"

section \<open>Facts about machine integers\<close>

named_theorems checked_ops

lemma checked_add_Some [checked_ops]:
  "checked_add a b = Some c \<longleftrightarrow> unat a + unat b < 2 ^ LENGTH('a) \<and> c = a + b"
  for a :: "'a::len word"
  by (auto simp: checked_add_def)

lemma checked_sub_Some [checked_ops]: "checked_sub a b = Some c \<longleftrightarrow> b \<le> a \<and> c = a - b"
  by (auto simp: checked_sub_def)

lemma checked_mul_Some [checked_ops]:
  "checked_mul a b = Some c \<longleftrightarrow> unat a * unat b < 2 ^ LENGTH('a) \<and> c = a * b"
  for a :: "'a::len word"
  by (auto simp: checked_mul_def)

lemma unat_checked_add: "checked_add a b = Some c \<Longrightarrow> unat c = unat a + unat b"
  by (auto simp: checked_add_Some unat_word_ariths)

lemma unat_checked_sub: "checked_sub a b = Some c \<Longrightarrow> unat c = unat a - unat b \<and> unat b \<le> unat a"
  by (auto simp: checked_sub_Some unat_sub word_le_nat_alt)

lemma unat_checked_mul: "checked_mul a b = Some c \<Longrightarrow> unat c = unat a * unat b"
  by (auto simp: checked_mul_Some unat_word_ariths)

lemma unat_less: "unat w < 2 ^ LENGTH('a)" for w :: "'a::len word"
  by (rule unsigned_less)

lemma unat_saturating_add:
  "unat (saturating_add a b) = min (unat a + unat b) (2 ^ LENGTH('a) - 1)"
  for a :: "'a::len word"
  by (auto simp: saturating_add_def unat_word_ariths unsigned_minus_1_eq_mask mask_eq_exp_minus_1)

lemma unat_saturating_sub: "unat (saturating_sub a b) = unat a - unat b"
  by (auto simp: saturating_sub_def unat_sub word_le_nat_alt)

lemma i256_clamp_bounds: "- (2 ^ 255) \<le> i256_clamp i" "i256_clamp i < 2 ^ 255"
  by (auto simp: i256_clamp_def)

lemma i256_clamp_id [simp]: "- (2 ^ 255) \<le> i \<Longrightarrow> i < 2 ^ 255 \<Longrightarrow> i256_clamp i = i"
  by (auto simp: i256_clamp_def)

lemma sint_i256_of_int: "- (2 ^ 255) \<le> i \<Longrightarrow> i < 2 ^ 255 \<Longrightarrow> sint (word_of_int i :: i256) = i"
  by (simp add: sint_sbintrunc' signed_take_bit_int_eq_self)

lemma sint_i256_bounds: "- (2 ^ 255) \<le> sint (w :: i256)" "sint (w :: i256) < 2 ^ 255"
  using sint_ge [of w] sint_lt [of w] by simp_all

lemma sint_i256_saturating_add:
  "sint (i256_saturating_add a b) = i256_clamp (sint a + sint b)"
  unfolding i256_saturating_add_def
  by (rule sint_i256_of_int [OF i256_clamp_bounds])

lemma sint_i256_max: "sint i256_max = 2 ^ 255 - 1"
  unfolding i256_max_def by (rule sint_i256_of_int) simp_all


lemma sint_eq_unat: "unat (v :: u256) < 2 ^ 255 \<Longrightarrow> sint v = int (unat v)"
proof -
  assume lt: "unat v < 2 ^ 255"
  have "sint v = signed_take_bit 255 (uint v)"
    by (simp add: sint_uint)
  also have "\<dots> = uint v"
  proof (rule signed_take_bit_int_eq_self)
    show "- (2 ^ 255) \<le> uint v" by (rule order_trans [OF _ uint_ge_0]) simp
    show "uint v < 2 ^ 255" using lt by (simp only: uint_nat of_nat_less_numeral_power_cancel_iff)
  qed
  finally show ?thesis by (simp only: uint_nat)
qed

lemma unat_eq_sint: "0 \<le> sint (v :: i256) \<Longrightarrow> int (unat v) = sint v"
proof -
  assume nonneg: "0 \<le> sint v"
  have "uint v = uint (word_of_int (sint v) :: i256)" by simp
  also have "\<dots> = sint v mod 2 ^ 256" by (simp only: uint_word_of_int) simp
  also have "\<dots> = sint v"
    by (rule mod_pos_pos_trivial [OF nonneg], rule less_trans [OF sint_i256_bounds(2)]) simp
  finally show ?thesis by (simp only: uint_nat)
qed

section \<open>Facts about results and loops\<close>

named_theorems result_iff

lemma rbind_Inl [simp]: "rbind (Inl e) f = Inl e"
  by (simp add: rbind_def)

lemma rbind_Inr [simp]: "rbind (Inr x) f = f x"
  by (simp add: rbind_def)

lemma rbind_Inr_iff [result_iff]: "rbind m f = Inr y \<longleftrightarrow> (\<exists>x. m = Inr x \<and> f x = Inr y)"
  by (cases m) auto

lemma rbind_Inl_iff [result_iff]:
  "rbind m f = Inl e \<longleftrightarrow> m = Inl e \<or> (\<exists>x. m = Inr x \<and> f x = Inl e)"
  by (cases m) auto

lemma rbind_assoc: "rbind (rbind m f) g = rbind m (\<lambda>x. rbind (f x) g)"
  by (cases m) auto

lemma rbind_Inr_right [simp]: "rbind m Inr = m"
  by (cases m) auto

lemma rbind_cong [fundef_cong]:
  "m = m' \<Longrightarrow> (\<And>x. m' = Inr x \<Longrightarrow> f x = f' x) \<Longrightarrow> rbind m f = rbind m' f'"
  by (cases m) auto

lemma ok_or_None [simp]: "ok_or None e = Inl e"
  by (simp add: ok_or_def)

lemma ok_or_Some [simp]: "ok_or (Some x) e = Inr x"
  by (simp add: ok_or_def)

lemma ok_or_Inr_iff [result_iff]: "ok_or o' e = Inr x \<longleftrightarrow> o' = Some x"
  by (cases o') auto

lemma ok_or_Inl_iff [result_iff]: "ok_or o' e = Inl e' \<longleftrightarrow> o' = None \<and> e' = e"
  by (cases o') auto

lemma is_ok_simps [simp]: "is_ok (Inr x)" "\<not> is_ok (Inl e)"
  by (simp_all add: is_ok_def)

lemma is_ok_iff: "is_ok r \<longleftrightarrow> (\<exists>x. r = Inr x)"
  by (cases r) auto

lemma rfold_append: "rfold f s (xs @ ys) = rbind (rfold f s xs) (\<lambda>s'. rfold f s' ys)"
  by (induction xs arbitrary: s) (simp_all add: rbind_assoc)

lemma rfold_cong [fundef_cong]:
  assumes "s = s'" "xs = ys" and "\<And>t x. x \<in> set ys \<Longrightarrow> f t x = g t x"
  shows "rfold f s xs = rfold g s' ys"
  using assms(3) unfolding assms(1,2)
  by (induction ys arbitrary: s') (auto intro!: rbind_cong)

text \<open>
  A loop body that keeps a property, as an interface: the loop keeps it too. \<open>ok\<close> is what the loop's
  items have to satisfy for a step to keep the property.
\<close>

locale invariant_step =
  fixes step :: "'s \<Rightarrow> 'x \<Rightarrow> 'e + 's"
    and inv :: "'s \<Rightarrow> bool"
    and ok :: "'x \<Rightarrow> bool"
  assumes step_keeps: "step s x = Inr s' \<Longrightarrow> ok x \<Longrightarrow> inv s \<Longrightarrow> inv s'"
begin

lemma loop_keeps: "rfold step s xs = Inr s' \<Longrightarrow> list_all ok xs \<Longrightarrow> inv s \<Longrightarrow> inv s'"
  by (induction xs arbitrary: s) (auto simp: result_iff dest: step_keeps)

end

text \<open>A loop body that does not touch a part of the state (a view of it): neither does the loop.\<close>

locale framed_step =
  fixes step :: "'s \<Rightarrow> 'x \<Rightarrow> 'e + 's"
    and view :: "'s \<Rightarrow> 'v"
  assumes step_frame: "step s x = Inr s' \<Longrightarrow> view s' = view s"
begin

lemma loop_frame: "rfold step s xs = Inr s' \<Longrightarrow> view s' = view s"
  by (induction xs arbitrary: s) (auto simp: result_iff dest: step_frame)

end

text \<open>
  Two loop bodies over the same state that commute: whenever both succeed in one order they
  succeed in the other with the same result. Whole loops then commute as well.
\<close>

locale independent_steps =
  fixes f :: "'s \<Rightarrow> 'x \<Rightarrow> 'e + 's"
    and g :: "'s \<Rightarrow> 'y \<Rightarrow> 'e + 's"
  assumes commute: "rbind (f s x) (\<lambda>t. g t y) = Inr u \<longleftrightarrow> rbind (g s y) (\<lambda>t. f t x) = Inr u"
begin

lemma step_past_loop:
  "rbind (f s x) (\<lambda>t. rfold g t ys) = Inr u \<longleftrightarrow> rbind (rfold g s ys) (\<lambda>t. f t x) = Inr u"
proof (induction ys arbitrary: s u)
  case Nil
  show ?case by simp
next
  case (Cons y ys)
  have "rbind (f s x) (\<lambda>t. rfold g t (y # ys)) = Inr u
      \<longleftrightarrow> (\<exists>v. rbind (f s x) (\<lambda>t. g t y) = Inr v \<and> rfold g v ys = Inr u)"
    by (auto simp: result_iff)
  also have "\<dots> \<longleftrightarrow> (\<exists>v. rbind (g s y) (\<lambda>t. f t x) = Inr v \<and> rfold g v ys = Inr u)"
    by (simp only: commute)
  also have "\<dots> \<longleftrightarrow> (\<exists>w. g s y = Inr w \<and> rbind (f w x) (\<lambda>t. rfold g t ys) = Inr u)"
    by (auto simp: result_iff)
  also have "\<dots> \<longleftrightarrow> (\<exists>w. g s y = Inr w \<and> rbind (rfold g w ys) (\<lambda>t. f t x) = Inr u)"
    by (simp only: Cons.IH)
  also have "\<dots> \<longleftrightarrow> rbind (rfold g s (y # ys)) (\<lambda>t. f t x) = Inr u"
    by (auto simp: result_iff)
  finally show ?case .
qed

lemma loops_commute:
  "rbind (rfold f s xs) (\<lambda>t. rfold g t ys) = Inr u
    \<longleftrightarrow> rbind (rfold g s ys) (\<lambda>t. rfold f t xs) = Inr u"
proof (induction xs arbitrary: s u)
  case Nil
  show ?case by simp
next
  case (Cons x xs)
  have "rbind (rfold f s (x # xs)) (\<lambda>t. rfold g t ys) = Inr u
      \<longleftrightarrow> (\<exists>v. f s x = Inr v \<and> rbind (rfold f v xs) (\<lambda>t. rfold g t ys) = Inr u)"
    by (auto simp: result_iff)
  also have "\<dots> \<longleftrightarrow> (\<exists>v. f s x = Inr v \<and> rbind (rfold g v ys) (\<lambda>t. rfold f t xs) = Inr u)"
    by (simp only: Cons.IH)
  also have "\<dots> \<longleftrightarrow> (\<exists>w. rbind (f s x) (\<lambda>t. rfold g t ys) = Inr w \<and> rfold f w xs = Inr u)"
    by (auto simp: result_iff)
  also have "\<dots> \<longleftrightarrow> (\<exists>w. rbind (rfold g s ys) (\<lambda>t. f t x) = Inr w \<and> rfold f w xs = Inr u)"
    by (simp only: step_past_loop)
  also have "\<dots> \<longleftrightarrow> rbind (rfold g s ys) (\<lambda>t. rfold f t (x # xs)) = Inr u"
    by (auto simp: result_iff)
  finally show ?case .
qed

lemma loops_swap:
  "rfold f s xs = Inr t \<Longrightarrow> rfold g t ys = Inr u \<Longrightarrow>
     \<exists>t'. rfold g s ys = Inr t' \<and> rfold f t' xs = Inr u"
  using loops_commute [of s xs ys u] by (auto simp: result_iff)

lemma loops_swap_back:
  "rfold g s ys = Inr t \<Longrightarrow> rfold f t xs = Inr u \<Longrightarrow>
     \<exists>t'. rfold f s xs = Inr t' \<and> rfold g t' ys = Inr u"
  using loops_commute [of s xs ys u] by (auto simp: result_iff)

end

text \<open>
  The usual reason for two steps to commute: one works on a part of the state that the other
  neither reads nor writes. \<open>g\<close> acts only through \<open>view\<close> and \<open>put\<close>; \<open>f\<close> is indifferent to \<open>put\<close> and
  keeps the view.
\<close>

locale separate_steps =
  fixes f :: "'s \<Rightarrow> 'x \<Rightarrow> 'e + 's"
    and g :: "'s \<Rightarrow> 'y \<Rightarrow> 'e + 's"
    and view :: "'s \<Rightarrow> 'v"
    and put :: "'v \<Rightarrow> 's \<Rightarrow> 's"
    and part :: "'v \<Rightarrow> 'y \<Rightarrow> 'e + 'v"
  assumes g_via: "g s y = rbind (part (view s) y) (\<lambda>v. Inr (put v s))"
    and f_put: "f (put v s) x = rbind (f s x) (\<lambda>t. Inr (put v t))"
    and f_view: "f s x = Inr t \<Longrightarrow> view t = view s"
begin

lemma separate_commute:
  "rbind (f s x) (\<lambda>t. g t y) = Inr u \<longleftrightarrow> rbind (g s y) (\<lambda>t. f t x) = Inr u"
  by (auto simp: g_via f_put result_iff f_view)

end

sublocale separate_steps \<subseteq> independent_steps f g
  by unfold_locales (rule separate_commute)

section \<open>Facts about rendered numbers\<close>

declare dec_string.simps [simp del]

definition dec_value :: "string \<Rightarrow> nat" where
  "dec_value s = foldl (\<lambda>a c. 10 * a + (of_char c - 48)) 0 s"

lemma of_digit_char: "d < 10 \<Longrightarrow> of_char (digit_char d) - 48 = d"
  by (simp add: digit_char_def)

lemma dec_value_dec_string: "dec_value (dec_string n) = n"
proof (induction n rule: dec_string.induct)
  case (1 n)
  show ?case
  proof (cases "n < 10")
    case True
    then show ?thesis
      by (simp add: dec_string.simps [of n] dec_value_def of_digit_char)
  next
    case False
    with "1.IH" have "dec_value (dec_string (n div 10)) = n div 10" by simp
    with False show ?thesis
      by (simp add: dec_string.simps [of n] dec_value_def of_digit_char)
  qed
qed

lemma dec_string_inject [simp]: "dec_string m = dec_string n \<longleftrightarrow> m = n"
  by (metis dec_value_dec_string)

lemma length_hex_fixed [simp]: "length (hex_fixed k n) = k"
  by (induction k arbitrary: n) auto

lemma hex_char_inject: "d < 16 \<Longrightarrow> e < 16 \<Longrightarrow> hex_char d = hex_char e \<longleftrightarrow> d = e"
  by (auto simp: hex_char_def char_of_eq_iff take_bit_eq_mod)

lemma hex_fixed_inject:
  "m < 16 ^ k \<Longrightarrow> n < 16 ^ k \<Longrightarrow> hex_fixed k m = hex_fixed k n \<longleftrightarrow> m = n"
proof (induction k arbitrary: m n)
  case 0
  then show ?case by simp
next
  case (Suc k)
  have "m div 16 < 16 ^ k" "n div 16 < 16 ^ k"
    using Suc.prems by (auto simp: less_mult_imp_div_less mult.commute)
  then have "hex_fixed k (m div 16) = hex_fixed k (n div 16) \<longleftrightarrow> m div 16 = n div 16"
    by (rule Suc.IH)
  then show ?case
    by (auto simp: hex_char_inject) (metis div_mult_mod_eq)
qed

end
