(* ===== verification/Primitives.thy ===== *)
theory Primitives
  imports Prelude
begin

text \<open>
  The value types of \<^verbatim>\<open>asset-model/state/src/primitives\<close>: chain identifiers, addresses, instants and
  durations in unix seconds, decimal strings, and the references to protocols, pools, venues and
  markets. \<open>Decimal\<close> and \<open>Price\<close> are decimal strings in the source and here.
\<close>

section \<open>Chains and addresses\<close>

datatype (plugins del: quickcheck_random quickcheck_exhaustive quickcheck_bounded_forall
    quickcheck_full_exhaustive quickcheck_narrowing) chain_id = ChainId (as_str: string)

definition ethereum_mainnet :: chain_id where
  "ethereum_mainnet = ChainId ''eip155:1''"

definition arbitrum :: chain_id where
  "arbitrum = ChainId ''eip155:42161''"

definition base_chain :: chain_id where
  "base_chain = ChainId ''eip155:8453''"

type_synonym address = "160 word"
type_synonym spender = address

definition lowercase_hex :: "address \<Rightarrow> string" where
  "lowercase_hex a = ''0x'' @ hex_fixed 40 (unat a)"

record block_height =
  bh_number :: u64
  bh_time :: u64

section \<open>Time\<close>

type_synonym time = u64
type_synonym duration = u64

definition time_saturating_add :: "time \<Rightarrow> duration \<Rightarrow> time" where
  "time_saturating_add t d = saturating_add t d"

definition time_saturating_sub :: "time \<Rightarrow> duration \<Rightarrow> time" where
  "time_saturating_sub t d = saturating_sub t d"

definition time_since :: "time \<Rightarrow> time \<Rightarrow> duration" where
  "time_since t earlier = saturating_sub t earlier"

section \<open>Decimals and references\<close>

type_synonym decimal = string
type_synonym price = decimal
type_synonym basis_points = u32
type_synonym weight = u32

record protocol_ref =
  pr_name :: string
  pr_version :: "string option"
  pr_chain :: "chain_id option"
  pr_market :: "string option"

definition protocol_ref_new :: "string \<Rightarrow> protocol_ref" where
  "protocol_ref_new n = \<lparr>pr_name = n, pr_version = None, pr_chain = None, pr_market = None\<rparr>"

definition protocol_ref_with_chain :: "protocol_ref \<Rightarrow> chain_id \<Rightarrow> protocol_ref" where
  "protocol_ref_with_chain p c = p\<lparr>pr_chain := Some c\<rparr>"

record pool_ref =
  pool_protocol :: protocol_ref
  pool_addr :: "address option"
  pool_id :: "string option"
  fee_tier :: "weight option"

record venue_ref =
  venue_name :: string
  venue_chain :: "chain_id option"

definition venue_ref_new :: "string \<Rightarrow> venue_ref" where
  "venue_ref_new n = \<lparr>venue_name = n, venue_chain = None\<rparr>"

record market_ref =
  market_symbol :: string
  market_venue :: venue_ref

section \<open>Facts\<close>

lemma unat_time_since: "unat (time_since t earlier) = unat t - unat earlier"
  by (simp add: time_since_def unat_saturating_sub)

lemma length_lowercase_hex [simp]: "length (lowercase_hex a) = 42"
  by (simp add: lowercase_hex_def)

text \<open>The rendering used inside derived identifiers loses nothing.\<close>

lemma lowercase_hex_inject [simp]: "lowercase_hex a = lowercase_hex b \<longleftrightarrow> a = b"
proof -
  have bound: "unat x < 16 ^ 40" for x :: address
    using unsigned_less [of x] by simp
  show ?thesis
    by (simp add: lowercase_hex_def hex_fixed_inject [OF bound bound] word_unat_eq_iff)
qed

end
