(* ===== verification/LiveFields.thy ===== *)
theory LiveFields
  imports Primitives
begin

text \<open>
  \<^verbatim>\<open>asset-model/state/src/live_field\<close>: a value fetched from outside together with its provenance and
  freshness metadata, and the freshness tests the policies and the scheduler rely on.
\<close>

datatype oracle_provider = Pyth | Chainlink | RedStone | OtherOracle string

datatype auth_spec = AuthNone | Bearer string | HmacSig string | AuthCustom string

datatype registry_resource =
    TokenMeta chain_id address
  | ProtocolMap chain_id address
  | PoolMeta chain_id address
  | DecoderRegistry

datatype token_field_name = PriceUsd

datatype position_field_name =
    HealthFactor | Ltv | LiquidationThreshold | MarkPrice | LiqPrice | UnrealizedPnl | FundingOwed
  | Leverage

datatype pending_field_name = FieldStatus | FillRatio

datatype field_ref =
    TokenField string token_field_name
  | PositionField string position_field_name
  | PendingField string pending_field_name
  | GlobalField string

datatype data_source =
    OnchainView chain_id address string string
  | OracleFeed oracle_provider string
  | VenueApi string string "auth_spec option"
  | DerivedFrom "field_ref list" string
  | RegistryApi string registry_resource "string option"
  | UserSupplied

record confidence =
  deviation_bp :: basis_points
  conf_is_stale :: bool

definition confidence_fresh :: confidence where
  "confidence_fresh = \<lparr>deviation_bp = 0, conf_is_stale = False\<rparr>"

record 'a live_field =
  lf_value :: 'a
  lf_source :: data_source
  synced_at :: time
  ttl :: "duration option"
  lf_confidence :: "confidence option"

definition live_field_new :: "'a \<Rightarrow> data_source \<Rightarrow> time \<Rightarrow> 'a live_field" where
  "live_field_new v src t =
     \<lparr>lf_value = v, lf_source = src, synced_at = t, ttl = None, lf_confidence = None\<rparr>"

definition with_ttl :: "'a live_field \<Rightarrow> duration \<Rightarrow> 'a live_field" where
  "with_ttl f d = f\<lparr>ttl := Some d\<rparr>"

definition with_confidence :: "'a live_field \<Rightarrow> confidence \<Rightarrow> 'a live_field" where
  "with_confidence f c = f\<lparr>lf_confidence := Some c\<rparr>"

definition fresh_within :: "'a live_field \<Rightarrow> time \<Rightarrow> duration \<Rightarrow> bool" where
  "fresh_within f now window = (time_since now (synced_at f) \<le> window)"

definition is_stale :: "'a live_field \<Rightarrow> time \<Rightarrow> bool" where
  "is_stale f now =
     (case ttl f of
        Some d \<Rightarrow> time_since now (synced_at f) > d
      | None \<Rightarrow> (case lf_confidence f of Some c \<Rightarrow> conf_is_stale c | None \<Rightarrow> False))"

section \<open>Facts\<close>

lemma fresh_within_iff: "fresh_within f now w \<longleftrightarrow> unat now \<le> unat (synced_at f) + unat w"
  by (auto simp: fresh_within_def word_le_nat_alt unat_time_since)

text \<open>A field with a time to live is stale exactly when it is not fresh within it.\<close>

lemma is_stale_ttl_iff: "ttl f = Some d \<Longrightarrow> is_stale f now \<longleftrightarrow> \<not> fresh_within f now d"
  by (auto simp: is_stale_def fresh_within_def)

text \<open>Staleness is monotone in time.\<close>

lemma is_stale_mono: "is_stale f now \<Longrightarrow> now \<le> later \<Longrightarrow> is_stale f later"
  by (auto simp: is_stale_def word_le_nat_alt word_less_nat_alt unat_time_since
      split: option.splits)

end
