(* ===== verification/Tokens.thy ===== *)
theory Tokens
  imports LiveFields
begin

text \<open>
  \<^verbatim>\<open>asset-model/state/src/token\<close>: fungibility units (\<open>TokenKey\<close>), the semantic classification of a
  token, balances and holdings.
\<close>

section \<open>Keys\<close>

type_synonym token_id = u256

datatype token_key =
    Native chain_id
  | Erc20 chain_id address
  | Erc721 chain_id address token_id
  | Erc1155 chain_id address token_id

fun key_chain :: "token_key \<Rightarrow> chain_id" where
  "key_chain (Native c) = c"
| "key_chain (Erc20 c _) = c"
| "key_chain (Erc721 c _ _) = c"
| "key_chain (Erc1155 c _ _) = c"

fun key_contract :: "token_key \<Rightarrow> address option" where
  "key_contract (Native _) = None"
| "key_contract (Erc20 _ a) = Some a"
| "key_contract (Erc721 _ a _) = Some a"
| "key_contract (Erc1155 _ a _) = Some a"

fun key_token_id :: "token_key \<Rightarrow> token_id option" where
  "key_token_id (Erc721 _ _ i) = Some i"
| "key_token_id (Erc1155 _ _ i) = Some i"
| "key_token_id _ = None"

fun is_native :: "token_key \<Rightarrow> bool" where
  "is_native (Native _) = True"
| "is_native _ = False"

fun is_nft :: "token_key \<Rightarrow> bool" where
  "is_nft (Erc721 _ _ _) = True"
| "is_nft _ = False"

fun is_erc20 :: "token_key \<Rightarrow> bool" where
  "is_erc20 (Erc20 _ _) = True"
| "is_erc20 _ = False"

datatype token_ref = TokenRef (ref_key: token_key)

section \<open>Classification\<close>

datatype share_form = FungibleShare | NonFungibleShare

datatype range_spec =
    TickRange i32 i32 u128
  | BinRange u32 "(u32 \<times> u128) list"
  | CustomRange string json

datatype lp_shape =
    Pooled "weight list option"
  | Concentrated range_spec "(token_ref \<times> u256) list"
  | CustomShape string json

datatype fiat_currency = Usd | Eur | Krw | Jpy | Gbp

datatype peg_target = FiatPeg fiat_currency | TokenPeg token_ref

datatype base_category = Stable | Volatile | NativeWrap | GovernanceToken protocol_ref

datatype peg_kind = HardPeg | SoftPeg | RebasingPeg | ExchangeRate

datatype rebase_form = Rebasing | IndexForm

datatype rate_mode = VariableRate | StableRate | FixedRate

datatype unlock_schedule =
    CliffUnlock time
  | LinearUnlock time time
  | CooldownUnlock u64

datatype note_kind = PrincipalNote | YieldNote

datatype token_kind =
    BaseToken base_category "peg_target option"
  | NativeGas
  | Wrapped token_ref peg_kind
  | LpShare pool_ref "token_ref list" share_form lp_shape
  | YieldReceipt protocol_ref token_ref rebase_form
  | DebtReceipt protocol_ref token_ref rate_mode
  | StakeReceipt protocol_ref token_ref "unlock_schedule option" "u256 option"
  | PointsToken protocol_ref
  | MaturityNote protocol_ref token_ref time note_kind
  | UnknownToken

section \<open>Balances and holdings\<close>

datatype balance = Fungible u256 | Owned

definition zero_fungible :: balance where
  "zero_fungible = Fungible 0"

fun as_fungible :: "balance \<Rightarrow> u256 option" where
  "as_fungible (Fungible a) = Some a"
| "as_fungible Owned = None"

fun balance_is_zero :: "balance \<Rightarrow> bool" where
  "balance_is_zero (Fungible a) = (a = 0)"
| "balance_is_zero Owned = False"

record token_metadata =
  logo_url :: "string option"
  website_url :: "string option"
  description :: "string option"
  coingecko_id :: "string option"

definition metadata_is_empty :: "token_metadata \<Rightarrow> bool" where
  "metadata_is_empty m =
     (logo_url m = None \<and> website_url m = None \<and> description m = None \<and> coingecko_id m = None)"

record token_holding =
  th_key :: token_key
  th_kind :: token_kind
  symbol :: string
  decimals :: u8
  th_balance :: balance
  committed :: balance
  approved_to :: "address option"
  price_usd :: "price live_field option"
  metadata :: "token_metadata option"
  value_usd :: "price option"
  last_synced_at :: time
  th_source :: data_source

definition available :: "token_holding \<Rightarrow> u256 option" where
  "available h =
     (case (th_balance h, committed h) of
        (Fungible bal, Fungible cmt) \<Rightarrow> Some (saturating_sub bal cmt)
      | _ \<Rightarrow> None)"

section \<open>Facts\<close>

lemma is_erc20_iff: "is_erc20 k \<longleftrightarrow> (\<exists>c a. k = Erc20 c a)"
  by (cases k) auto

lemma is_nft_iff: "is_nft k \<longleftrightarrow> (\<exists>c a i. k = Erc721 c a i)"
  by (cases k) auto

lemma key_contract_None_iff: "key_contract k = None \<longleftrightarrow> is_native k"
  by (cases k) auto

lemma as_fungible_Some_iff: "as_fungible b = Some a \<longleftrightarrow> b = Fungible a"
  by (cases b) auto

end
