(* ===== verification/Positions.thy ===== *)
theory Positions
  imports Tokens
begin

text \<open>
  \<^verbatim>\<open>asset-model/state/src/position\<close>: rights and obligations a protocol tracks for the wallet that are
  not held as tokens (lending accounts, perpetual positions, airdrop claims, launchpad allocations,
  vesting schedules and the Hyperliquid account), with the merge operations of the Hyperliquid
  account that the sync runtime uses.
\<close>

section \<open>Lending, perpetuals, claims, vesting\<close>

type_synonym emode_category = u8

record lending_account =
  la_market :: market_ref
  collaterals :: "(token_ref \<times> u256) list"
  debts :: "(token_ref \<times> u256 \<times> rate_mode) list"
  emode :: "emode_category option"
  is_isolated :: bool
  health_factor :: "decimal live_field"
  ltv :: "decimal live_field"
  liquidation_threshold :: "decimal live_field"

datatype perp_side = Long | Short

datatype margin_mode = Isolated | Cross

record perp_position =
  pp_venue :: venue_ref
  pp_market :: market_ref
  pp_side :: perp_side
  size_base :: u256
  notional_usd :: u256
  collateral :: "(token_ref \<times> u256) list"
  entry_price :: price
  pp_margin_mode :: margin_mode
  mark_price :: "price live_field"
  liq_price :: "price option live_field"
  unrealized_pnl :: "i256 live_field"
  funding_owed :: "i256 live_field"
  leverage :: "decimal live_field"

record merkle_proof =
  leaf_index :: u64
  siblings :: "string list"

datatype claim_status = Eligible | Claimable | Claimed | ClaimExpired

record airdrop_claim =
  ac_source :: protocol_ref
  claimable :: token_ref
  ac_amount :: u256
  ac_proof :: "merkle_proof option"
  claim_window :: "(time \<times> time) option"
  ac_status :: claim_status

datatype vest_curve =
    LinearVest
  | Stepped "(time \<times> u256) list"
  | CustomVest string

record vest_schedule =
  vs_start :: time
  cliff :: "time option"
  vs_end :: "time option"
  curve :: vest_curve
  vs_total :: u256

record launchpad_allocation =
  platform :: protocol_ref
  sale_id :: string
  paid :: "(token_ref \<times> u256) list"
  allocated :: "token_ref \<times> u256"
  vest :: vest_schedule
  lp_claimed :: u256
  lp_claimable_now :: u256

record vesting_schedule =
  granter :: protocol_ref
  vest_token :: token_ref
  vest_plan :: vest_schedule
  vest_claimed :: u256
  vest_claimable_now :: u256

section \<open>The Hyperliquid account\<close>

record hl_position =
  hp_asset_index :: u32
  hp_symbol :: "string option"
  hp_is_long :: bool
  hp_size :: decimal
  hp_entry_price :: decimal

record hl_open_order =
  ho_asset_index :: u32
  ho_symbol :: "string option"
  ho_is_buy :: bool
  ho_price :: decimal
  ho_size :: decimal
  ho_reduce_only :: bool
  ho_tif :: string
  ho_oid :: "u64 option"
  ho_order_type :: "string option"
  ho_is_trigger :: "bool option"
  ho_trigger_price :: "decimal option"
  ho_trigger_condition :: "string option"
  ho_is_position_tpsl :: "bool option"

record hl_spot_balance =
  hs_coin :: string
  hs_token :: u32
  hs_total :: decimal
  hs_hold :: decimal
  hs_entry_ntl :: decimal
  hs_available_after_maintenance :: "decimal option"

record hl_staking_delegation =
  hd_validator :: address
  hd_amount :: decimal
  hd_locked_until_timestamp :: "u64 option"

record hl_staking_account =
  delegated :: decimal
  undelegated :: decimal
  total_pending_withdrawal :: decimal
  n_pending_withdrawals :: u32
  delegations :: "hl_staking_delegation list"

record hl_vault_equity =
  vault_address :: address
  vault_equity :: decimal
  vault_locked_until_timestamp :: "u64 option"

record hl_borrow_lend_balance =
  bl_basis :: decimal
  bl_value :: decimal

record hl_borrow_lend_token_state =
  bl_token :: u32
  bl_borrow :: hl_borrow_lend_balance
  bl_supply :: hl_borrow_lend_balance

record hl_borrow_lend_account =
  token_states :: "hl_borrow_lend_token_state list"
  bl_health :: "string option"
  bl_health_factor :: "decimal option"

record hl_leverage_setting =
  hv_asset_index :: u32
  is_cross :: bool
  hv_leverage :: u32

record hl_agent_approval =
  agent_address :: address
  agent_name :: "string option"

record hl_fill_summary =
  hf_tid :: u64
  hf_time :: u64
  hf_coin :: string
  closed_pnl :: decimal
  hf_px :: decimal
  hf_sz :: decimal

record equity_anchor =
  ea_value :: decimal
  anchored_at :: time
  trusted :: bool

record hl_account =
  perp_usdc :: "decimal option"
  perp_account_value_usd :: "decimal option"
  pending_outflow :: decimal
  hl_positions :: "hl_position list"
  open_orders :: "hl_open_order list"
  spot_balances :: "hl_spot_balance list"
  staking :: "hl_staking_account option"
  vault_equities :: "hl_vault_equity list"
  borrow_lend :: "hl_borrow_lend_account option"
  leverage_settings :: "hl_leverage_setting list"
  agents :: "hl_agent_approval list"
  equity_baseline :: "equity_anchor option"
  equity_hwm :: "decimal option"
  fill_window :: "hl_fill_summary list"
  cumulative_net_flow :: decimal
  ledger_cursor_ms :: u64

definition hl_account_default :: hl_account where
  "hl_account_default =
     \<lparr>perp_usdc = None, perp_account_value_usd = None, pending_outflow = ''0'', hl_positions = [],
      open_orders = [], spot_balances = [], staking = None, vault_equities = [], borrow_lend = None,
      leverage_settings = [], agents = [], equity_baseline = None, equity_hwm = None,
      fill_window = [], cumulative_net_flow = ''0'', ledger_cursor_ms = 0\<rparr>"

record core_fresh =
  cf_clearinghouse :: bool
  cf_open_orders :: bool
  cf_spot :: bool

definition merge_core :: "hl_account \<Rightarrow> hl_account \<Rightarrow> core_fresh \<Rightarrow> hl_account" where
  "merge_core self core which =
     (let s1 = (if cf_clearinghouse which
                then self\<lparr>perp_usdc := perp_usdc core,
                          perp_account_value_usd := perp_account_value_usd core,
                          hl_positions := hl_positions core,
                          leverage_settings := leverage_settings core\<rparr>
                else self);
          s2 = (if cf_open_orders which then s1\<lparr>open_orders := open_orders core\<rparr> else s1);
          s3 = (if cf_spot which then s2\<lparr>spot_balances := spot_balances core\<rparr> else s2)
      in s3)"

definition utc_day :: "time \<Rightarrow> u64" where
  "utc_day t = t div 86400"

section \<open>Positions\<close>

type_synonym position_id = string

datatype position_kind =
    LendingAccount lending_account
  | PerpPosition perp_position
  | AirdropClaim airdrop_claim
  | LaunchpadAllocation launchpad_allocation
  | VestingSchedule vesting_schedule
  | HyperliquidAccount hl_account

record position =
  pos_id :: position_id
  pos_protocol :: protocol_ref
  pos_chain :: "chain_id option"
  pos_kind :: position_kind
  pos_synced_at :: time
  pos_source :: data_source

end
