(* ===== verification/Approvals.thy ===== *)
theory Approvals
  imports Tokens "HOL-Library.Mapping"
begin

text \<open>
  \<^verbatim>\<open>asset-model/state/src/approval\<close>: the wallet's approvals, split by scope. A \<open>BTreeMap\<close> is a
  \<^typ>\<open>('k, 'v) mapping\<close>, a \<open>BTreeSet\<close> a set.
\<close>

record allowance_spec =
  alw_amount :: u256
  is_unlimited :: bool
  last_set_at :: time

definition allowance_spec_new :: "u256 \<Rightarrow> time \<Rightarrow> allowance_spec" where
  "allowance_spec_new amount t =
     \<lparr>alw_amount = amount, is_unlimited = (amount = u256_max), last_set_at = t\<rparr>"

definition allowance_spec_unlimited :: "time \<Rightarrow> allowance_spec" where
  "allowance_spec_unlimited t =
     \<lparr>alw_amount = u256_max, is_unlimited = True, last_set_at = t\<rparr>"

record permit2_allowance =
  p2_amount :: u256
  p2_expiration :: time
  p2_nonce :: u32

type_synonym contract_addr_key_t = "chain_id \<times> address"
type_synonym spender_key = "chain_id \<times> address \<times> spender"

record approval_set =
  erc20 :: "(contract_addr_key_t, (spender, allowance_spec) mapping) mapping"
  set_for_all :: "(contract_addr_key_t, spender set) mapping"
  permit2 :: "(spender_key, permit2_allowance) mapping"

definition approval_set_new :: approval_set where
  "approval_set_new = \<lparr>erc20 = Mapping.empty, set_for_all = Mapping.empty, permit2 = Mapping.empty\<rparr>"

definition allowance :: "approval_set \<Rightarrow> contract_addr_key_t \<Rightarrow> spender \<Rightarrow> allowance_spec option" where
  "allowance a k s = Option.bind (Mapping.lookup (erc20 a) k) (\<lambda>m. Mapping.lookup m s)"

definition has_set_for_all :: "approval_set \<Rightarrow> contract_addr_key_t \<Rightarrow> spender \<Rightarrow> bool" where
  "has_set_for_all a k s =
     (case Mapping.lookup (set_for_all a) k of None \<Rightarrow> False | Some ss \<Rightarrow> s \<in> ss)"

definition permit2_of :: "approval_set \<Rightarrow> spender_key \<Rightarrow> permit2_allowance option" where
  "permit2_of a k = Mapping.lookup (permit2 a) k"

section \<open>Well-formed approval sets\<close>

text \<open>
  What \<open>apply_approval_revoke\<close> maintains by removing emptied rows: no contract is listed with an
  empty set of spenders, and the unlimited flag of an allowance agrees with its amount.
\<close>

definition wf_allowance :: "allowance_spec \<Rightarrow> bool" where
  "wf_allowance al = (is_unlimited al = (alw_amount al = u256_max))"

definition wf_approvals :: "approval_set \<Rightarrow> bool" where
  "wf_approvals a =
     ((\<forall>k m. Mapping.lookup (erc20 a) k = Some m \<longrightarrow> \<not> Mapping.is_empty m) \<and>
      (\<forall>k ss. Mapping.lookup (set_for_all a) k = Some ss \<longrightarrow> ss \<noteq> {}) \<and>
      (\<forall>k s al. allowance a k s = Some al \<longrightarrow> wf_allowance al))"

section \<open>Facts\<close>

lemma allowance_spec_new_max: "allowance_spec_new u256_max t = allowance_spec_unlimited t"
  by (simp add: allowance_spec_new_def allowance_spec_unlimited_def)

lemma wf_allowance_new [simp]: "wf_allowance (allowance_spec_new amount t)"
  by (simp add: wf_allowance_def allowance_spec_new_def)

lemma wf_allowance_unlimited [simp]: "wf_allowance (allowance_spec_unlimited t)"
  by (simp add: wf_allowance_def allowance_spec_unlimited_def)

lemma wf_approvals_new: "wf_approvals approval_set_new"
  by (simp add: wf_approvals_def approval_set_new_def allowance_def)

lemma mapping_is_empty_iff: "Mapping.is_empty m \<longleftrightarrow> (\<forall>k. Mapping.lookup m k = None)"
  by (auto simp: Mapping.is_empty_def keys_dom_lookup)


lemma lookup_delete_if:
  "Mapping.lookup (Mapping.delete k m) k' = (if k = k' then None else Mapping.lookup m k')"
  by (cases "k = k'") (simp_all add: lookup_delete lookup_delete_neq)

lemma lookup_default_iff:
  "Mapping.lookup_default d m k = (case Mapping.lookup m k of None \<Rightarrow> d | Some v \<Rightarrow> v)"
  by (simp add: Mapping.lookup_default_def)

lemma wf_approvalsI:
  assumes "\<And>k m. Mapping.lookup (erc20 a) k = Some m \<Longrightarrow> \<not> Mapping.is_empty m"
    and "\<And>k ss. Mapping.lookup (set_for_all a) k = Some ss \<Longrightarrow> ss \<noteq> {}"
    and "\<And>k s al. allowance a k s = Some al \<Longrightarrow> wf_allowance al"
  shows "wf_approvals a"
  using assms unfolding wf_approvals_def by blast

lemma wf_approvalsD:
  assumes "wf_approvals a"
  shows "Mapping.lookup (erc20 a) k = Some m \<Longrightarrow> \<not> Mapping.is_empty m"
    and "Mapping.lookup (set_for_all a) k = Some ss \<Longrightarrow> ss \<noteq> {}"
    and "allowance a k s = Some al \<Longrightarrow> wf_allowance al"
  using assms unfolding wf_approvals_def by blast+

section \<open>Granting and revoking, through the lookups\<close>

definition grant_erc20 :: "contract_addr_key_t \<Rightarrow> spender \<Rightarrow> allowance_spec \<Rightarrow> approval_set \<Rightarrow> approval_set" where
  "grant_erc20 ck sp al a =
     a\<lparr>erc20 := Mapping.update ck
         (Mapping.update sp al (Mapping.lookup_default Mapping.empty (erc20 a) ck)) (erc20 a)\<rparr>"

definition revoke_erc20 :: "contract_addr_key_t \<Rightarrow> spender \<Rightarrow> approval_set \<Rightarrow> approval_set" where
  "revoke_erc20 ck sp a =
     (case Mapping.lookup (erc20 a) ck of
        None \<Rightarrow> a
      | Some m \<Rightarrow>
          let m' = Mapping.delete sp m in
          a\<lparr>erc20 := (if Mapping.is_empty m' then Mapping.delete ck (erc20 a)
                      else Mapping.update ck m' (erc20 a))\<rparr>)"

definition grant_for_all :: "contract_addr_key_t \<Rightarrow> spender \<Rightarrow> approval_set \<Rightarrow> approval_set" where
  "grant_for_all ck sp a =
     a\<lparr>set_for_all := Mapping.update ck
         (insert sp (Mapping.lookup_default {} (set_for_all a) ck)) (set_for_all a)\<rparr>"

definition revoke_for_all :: "contract_addr_key_t \<Rightarrow> spender \<Rightarrow> approval_set \<Rightarrow> approval_set" where
  "revoke_for_all ck sp a =
     (case Mapping.lookup (set_for_all a) ck of
        None \<Rightarrow> a
      | Some ss \<Rightarrow>
          let ss' = ss - {sp} in
          a\<lparr>set_for_all := (if ss' = {} then Mapping.delete ck (set_for_all a)
                            else Mapping.update ck ss' (set_for_all a))\<rparr>)"

lemma allowance_grant_erc20:
  "allowance (grant_erc20 ck sp al a) ck' sp'
    = (if ck' = ck \<and> sp' = sp then Some al else allowance a ck' sp')"
  by (auto simp: allowance_def grant_erc20_def lookup_update' lookup_default_iff split: option.splits)

lemma allowance_revoke_erc20:
  "allowance (revoke_erc20 ck sp a) ck' sp'
    = (if ck' = ck \<and> sp' = sp then None else allowance a ck' sp')"
proof (cases "Mapping.lookup (erc20 a) ck")
  case None
  then show ?thesis
    by (simp add: revoke_erc20_def allowance_def)
next
  case (Some m)
  show ?thesis
  proof (cases "Mapping.is_empty (Mapping.delete sp m)")
    case True
    then have "Mapping.lookup m sp'' = None" if "sp'' \<noteq> sp" for sp''
      using that by (auto simp: mapping_is_empty_iff lookup_delete_if split: if_splits)
    with Some True show ?thesis
      by (auto simp: revoke_erc20_def allowance_def lookup_delete_if)
  next
    case False
    with Some show ?thesis
      by (auto simp: revoke_erc20_def allowance_def lookup_update' lookup_delete_if)
  qed
qed

lemma has_set_for_all_grant:
  "has_set_for_all (grant_for_all ck sp a) ck' sp'
    \<longleftrightarrow> (ck' = ck \<and> sp' = sp) \<or> has_set_for_all a ck' sp'"
  by (auto simp: has_set_for_all_def grant_for_all_def lookup_update' lookup_default_iff
      split: option.splits)

lemma has_set_for_all_revoke:
  "has_set_for_all (revoke_for_all ck sp a) ck' sp'
    \<longleftrightarrow> \<not> (ck' = ck \<and> sp' = sp) \<and> has_set_for_all a ck' sp'"
  by (auto simp: has_set_for_all_def revoke_for_all_def lookup_update' lookup_delete_if Let_def
      split: option.splits)

lemma wf_grant_erc20:
  assumes "wf_approvals a" and "wf_allowance al"
  shows "wf_approvals (grant_erc20 ck sp al a)"
proof (rule wf_approvalsI)
  fix k m
  assume "Mapping.lookup (erc20 (grant_erc20 ck sp al a)) k = Some m"
  then show "\<not> Mapping.is_empty m"
    using wf_approvalsD(1) [OF assms(1), of k m]
    by (auto simp: grant_erc20_def lookup_update' mapping_is_empty_iff split: if_splits)
next
  fix k ss
  assume "Mapping.lookup (set_for_all (grant_erc20 ck sp al a)) k = Some ss"
  then show "ss \<noteq> {}"
    using wf_approvalsD(2) [OF assms(1), of k ss] by (simp add: grant_erc20_def)
next
  fix k s al'
  assume "allowance (grant_erc20 ck sp al a) k s = Some al'"
  then show "wf_allowance al'"
    using wf_approvalsD(3) [OF assms(1), of k s al'] assms(2)
    by (auto simp: allowance_grant_erc20 split: if_splits)
qed

lemma wf_revoke_erc20:
  assumes "wf_approvals a"
  shows "wf_approvals (revoke_erc20 ck sp a)"
proof (rule wf_approvalsI)
  fix k m
  assume "Mapping.lookup (erc20 (revoke_erc20 ck sp a)) k = Some m"
  then show "\<not> Mapping.is_empty m"
    using wf_approvalsD(1) [OF assms, of k m]
    by (auto simp: revoke_erc20_def lookup_update' lookup_delete_if Let_def
        split: if_splits option.splits)
next
  fix k ss
  assume "Mapping.lookup (set_for_all (revoke_erc20 ck sp a)) k = Some ss"
  then show "ss \<noteq> {}"
    using wf_approvalsD(2) [OF assms, of k ss]
    by (simp add: revoke_erc20_def Let_def split: option.splits)
next
  fix k s al
  assume "allowance (revoke_erc20 ck sp a) k s = Some al"
  then show "wf_allowance al"
    using wf_approvalsD(3) [OF assms, of k s al]
    by (auto simp: allowance_revoke_erc20 split: if_splits)
qed

lemma wf_grant_for_all: "wf_approvals a \<Longrightarrow> wf_approvals (grant_for_all ck sp a)"
  by (auto simp: wf_approvals_def grant_for_all_def lookup_update' allowance_def split: if_splits)

lemma wf_revoke_for_all: "wf_approvals a \<Longrightarrow> wf_approvals (revoke_for_all ck sp a)"
  by (auto simp: wf_approvals_def revoke_for_all_def lookup_update' lookup_delete_if allowance_def
      Let_def split: if_splits option.splits)

lemma wf_approvals_permit2: "wf_approvals (a\<lparr>permit2 := m\<rparr>) = wf_approvals a"
  by (simp add: wf_approvals_def allowance_def)

end
