(* ===== verification/Deltas.thy ===== *)
theory Deltas
  imports Positions Approvals
begin

text \<open>
  \<^verbatim>\<open>asset-model/state/src/delta\<close> and \<^verbatim>\<open>asset-model/state/src/pending\<close>: the typed change log a reducer
  produces and the pending (signed but unsettled) entries. A pending entry carries the delta its
  fill would cause, so the two are mutually recursive.
\<close>

section \<open>Token and position changes\<close>

datatype approval_scope = ScopeErc20 | ScopeSetForAll | ScopePermit2 | ScopeErc721Token

datatype token_change =
    BalanceDelta token_key i256
  | ApprovalSetChange token_key spender allowance_spec
  | ApprovalRevoke token_key spender approval_scope
  | Erc721ApprovedTo token_key "address option"
  | Mint token_key token_kind

datatype position_patch = PositionPatch (patch_fields: json)

datatype position_change =
    OpenPosition position
  | UpdatePosition position_id position_patch
  | ClosePosition position_id

section \<open>Pending entries\<close>

datatype asset_commitment =
    SpendCap token_ref u256
  | HardLock token_ref u256
  | PermitCap token_ref address u256
  | NoCommitment

fun cap_for :: "asset_commitment \<Rightarrow> token_key \<Rightarrow> u256" where
  "cap_for (SpendCap t m) k = (if ref_key t = k then m else 0)"
| "cap_for (PermitCap t _ m) k = (if ref_key t = k then m else 0)"
| "cap_for _ k = 0"

datatype order_kind = Dutch | LimitOrder | Rfq

datatype perp_order_kind = PerpLimit | StopMarket | StopLimit | TakeProfit

datatype pending_kind =
    OffchainLimitOrder venue_ref token_ref token_ref u256 u256 order_kind
  | PerpVenueOrder venue_ref market_ref perp_side u256 price perp_order_kind bool
  | SignedPermit2 token_ref address u256 time "u256 \<times> u8"
  | SignedPermit2Transfer token_ref address address u256 time "u256 \<times> u8" "string option"
  | SignedEIP2612 token_ref address u256 time u256

datatype nonce_key =
    Permit2Nonce u256 u8
  | Eip2612Nonce address u256
  | OrderHash string

type_synonym pending_id = string

datatype pending_status =
    Active | PartiallyFilled | Filled | Cancelled | Expired | Failed | UnknownStatus

record pending_lifecycle =
  pl_status :: pending_status
  valid_until :: "time option"
  pl_nonce :: "nonce_key option"
  on_chain_tx :: "string option"
  raw_status :: "string option"

definition is_active_or_partial :: "pending_lifecycle \<Rightarrow> bool" where
  "is_active_or_partial l = (pl_status l = Active \<or> pl_status l = PartiallyFilled)"

datatype pending_remove_reason =
    RemovedFilled | RemovedCancelled | RemovedExpired | RemovedReplaced | RemovedSuperSeded

section \<open>State deltas\<close>

text \<open>
  A pending entry holds the delta it will have when it fills, and a delta holds changes of pending entries: the two
  types of the source refer to each other. The entry and the change have the delta as a parameter here; \<open>pending_tx\<close>
  and \<open>pending_change\<close> are their instances at \<open>state_delta\<close>.
\<close>

datatype 'd pending_tx_of =
  PendingTx (ptx_id: pending_id) (ptx_kind: pending_kind) (ptx_commitment: asset_commitment)
    (fill_effect: 'd) (ptx_lifecycle: pending_lifecycle) (ptx_sync: data_source)
    (signed_at: time) (signature_payload: "u8 list")

datatype 'd pending_change_of =
    AddPending "'d pending_tx_of"
  | UpdatePending pending_id pending_status "decimal option"
  | RemovePending pending_id pending_remove_reason

datatype state_delta =
  StateDelta (token_changes: "token_change list") (position_changes: "position_change list")
    (pending_changes: "state_delta pending_change_of list") (gas_paid: "(token_ref \<times> u256) option")

type_synonym pending_tx = "state_delta pending_tx_of"

type_synonym pending_change = "state_delta pending_change_of"

definition state_delta_new :: state_delta where
  "state_delta_new = StateDelta [] [] [] None"

fun delta_is_empty :: "state_delta \<Rightarrow> bool" where
  "delta_is_empty (StateDelta ts ps qs g) = (ts = [] \<and> ps = [] \<and> qs = [] \<and> g = None)"

fun push_token_change :: "state_delta \<Rightarrow> token_change \<Rightarrow> state_delta" where
  "push_token_change (StateDelta ts ps qs g) c = StateDelta (ts @ [c]) ps qs g"

fun push_position_change :: "state_delta \<Rightarrow> position_change \<Rightarrow> state_delta" where
  "push_position_change (StateDelta ts ps qs g) c = StateDelta ts (ps @ [c]) qs g"

fun push_pending_change :: "state_delta \<Rightarrow> pending_change \<Rightarrow> state_delta" where
  "push_pending_change (StateDelta ts ps qs g) c = StateDelta ts ps (qs @ [c]) g"

fun with_lifecycle :: "pending_tx \<Rightarrow> pending_lifecycle \<Rightarrow> pending_tx" where
  "with_lifecycle (PendingTx i k c f _ s t p) l = PendingTx i k c f l s t p"

section \<open>Facts\<close>

lemma state_delta_new_sel [simp]:
  "token_changes state_delta_new = []" "position_changes state_delta_new = []"
  "pending_changes state_delta_new = []" "gas_paid state_delta_new = None"
  by (simp_all add: state_delta_new_def)

lemma push_token_change_sel [simp]:
  "token_changes (push_token_change d c) = token_changes d @ [c]"
  "position_changes (push_token_change d c) = position_changes d"
  "pending_changes (push_token_change d c) = pending_changes d"
  "gas_paid (push_token_change d c) = gas_paid d"
  by (cases d; simp)+

lemma push_position_change_sel [simp]:
  "token_changes (push_position_change d c) = token_changes d"
  "position_changes (push_position_change d c) = position_changes d @ [c]"
  "pending_changes (push_position_change d c) = pending_changes d"
  "gas_paid (push_position_change d c) = gas_paid d"
  by (cases d; simp)+

lemma push_pending_change_sel [simp]:
  "token_changes (push_pending_change d c) = token_changes d"
  "position_changes (push_pending_change d c) = position_changes d"
  "pending_changes (push_pending_change d c) = pending_changes d @ [c]"
  "gas_paid (push_pending_change d c) = gas_paid d"
  by (cases d; simp)+

lemma with_lifecycle_sel [simp]:
  "ptx_id (with_lifecycle p l) = ptx_id p"
  "ptx_commitment (with_lifecycle p l) = ptx_commitment p"
  "ptx_lifecycle (with_lifecycle p l) = l"
  by (cases p; simp)+

lemma delta_is_empty_iff: "delta_is_empty d \<longleftrightarrow> d = state_delta_new"
  by (cases d) (simp add: state_delta_new_def)

end
