(* ===== verification/Wallets.thy ===== *)
theory Wallets
  imports Deltas
begin

text \<open>
  \<^verbatim>\<open>asset-model/state/src/wallet.rs\<close>, \<^verbatim>\<open>eval_context.rs\<close> and the reducer errors of
  \<^verbatim>\<open>asset-model/transition/src/error.rs\<close>: the snapshot of one wallet, the context of one evaluation
  and the ways a reduction can fail. An error message is kept as its fixed text; the rendered
  arguments that the source interpolates are left out.
\<close>

record wallet_id =
  wid_address :: address
  wid_chains :: "chain_id set"

record wallet_state =
  ws_id :: wallet_id
  tokens :: "(token_key, token_holding) mapping"
  approvals :: approval_set
  positions :: "position list"
  pending :: "pending_tx list"
  block_heights :: "(chain_id, block_height) mapping"
  portfolio_value_usd :: "price option"

definition wallet_state_new :: "wallet_id \<Rightarrow> wallet_state" where
  "wallet_state_new i =
     \<lparr>ws_id = i, tokens = Mapping.empty, approvals = approval_set_new, positions = [], pending = [],
      block_heights = Mapping.empty, portfolio_value_usd = None\<rparr>"

definition available_balance :: "wallet_state \<Rightarrow> token_key \<Rightarrow> u256 option" where
  "available_balance s k = Option.bind (Mapping.lookup (tokens s) k) available"

datatype request_kind = Transaction | Signature | UserOperation

datatype simulation_mode = Preview | Commit

record eval_context =
  ec_chain :: chain_id
  now :: time
  action_index :: nat
  ec_request_kind :: request_kind
  simulation :: simulation_mode

definition eval_context_new :: "chain_id \<Rightarrow> time \<Rightarrow> request_kind \<Rightarrow> eval_context" where
  "eval_context_new c t k =
     \<lparr>ec_chain = c, now = t, action_index = 0, ec_request_kind = k, simulation = Preview\<rparr>"

definition with_action_index :: "eval_context \<Rightarrow> nat \<Rightarrow> eval_context" where
  "with_action_index ctx i = ctx\<lparr>action_index := i\<rparr>"

definition with_simulation :: "eval_context \<Rightarrow> simulation_mode \<Rightarrow> eval_context" where
  "with_simulation ctx m = ctx\<lparr>simulation := m\<rparr>"

datatype reducer_error =
    UnknownAction string
  | MissingField string
  | TokenNotFound token_key
  | PositionNotFound string
  | Invariant string
  | UnsupportedProtocol string string

type_synonym 'a reducer_result = "reducer_error + 'a"

abbreviation fail :: "string \<Rightarrow> 'a reducer_result" where
  "fail e \<equiv> Inl (Invariant e)"

end
