(* ===== verification/TokenActions.thy ===== *)
theory TokenActions
  imports Wallets
begin

text \<open>
  \<^verbatim>\<open>asset-model/action/src/token\<close>: the token actions a decoded transaction or signature can carry.
\<close>

record erc20_approve_action =
  eap_token :: token_ref
  eap_spender :: address
  eap_amount :: u256

record erc20_permit_action =
  epm_token :: token_ref
  epm_spender :: address
  epm_amount :: u256
  epm_deadline :: time
  epm_nonce :: "u256 live_field"

record erc20_transfer_action =
  etr_token :: token_ref
  etr_recipient :: address
  etr_amount :: u256

record nft_approve_action =
  nap_nft_key :: token_key
  nap_spender :: address

record nft_set_for_all_action =
  nsa_chain :: chain_id
  nsa_contract :: address
  nsa_spender :: address
  nsa_approved :: bool

record nft_transfer_action =
  ntr_nft_key :: token_key
  ntr_amount :: "u256 option"
  ntr_recipient :: address

record permit2_approve_action =
  p2a_token :: token_ref
  p2a_spender :: address
  p2a_amount :: u256
  p2a_expires_at :: time

record permit2_sign_action =
  p2s_token :: token_ref
  p2s_spender :: address
  p2s_amount :: u256
  p2s_expires_at :: time
  p2s_sig_deadline :: time
  p2s_nonce :: "(u256 \<times> u8) live_field"

record permit2_sign_transfer_action =
  p2t_token :: token_ref
  p2t_owner :: address
  p2t_spender :: address
  p2t_amount :: u256
  p2t_nonce :: "(u256 \<times> u8) live_field"
  p2t_sig_deadline :: time
  p2t_witness_type :: "string option"

record permit2_transfer_from_action =
  p2f_token :: token_ref
  p2f_owner :: address
  p2f_spender :: address
  p2f_recipient :: address
  p2f_amount :: u256
  p2f_permitted_amount :: u256
  p2f_nonce :: "(u256 \<times> u8) live_field"
  p2f_sig_deadline :: time
  p2f_witness_type :: "string option"

datatype revoke_scope =
    RevokeErc20 token_ref address
  | NftSingleToken token_key
  | NftSetForAll chain_id address address
  | Permit2Lockdown token_ref address
  | Permit2UnorderedNonce chain_id u256 u256

record revoke_approval_action =
  rva_scope :: revoke_scope

record wrap_native_action =
  wna_token :: token_ref
  wna_amount :: u256

record unwrap_native_action =
  una_token :: token_ref
  una_amount :: u256

datatype token_action =
    Erc20Approve erc20_approve_action
  | Erc20Permit erc20_permit_action
  | Permit2Approve permit2_approve_action
  | Permit2SignAllowance permit2_sign_action
  | Permit2SignTransfer permit2_sign_transfer_action
  | Permit2TransferFrom permit2_transfer_from_action
  | Erc20Transfer erc20_transfer_action
  | NftApprove nft_approve_action
  | NftSetApprovalForAll nft_set_for_all_action
  | NftTransfer nft_transfer_action
  | RevokeApproval revoke_approval_action
  | WrapNative wrap_native_action
  | UnwrapNative unwrap_native_action

fun token_action_tag :: "token_action \<Rightarrow> string" where
  "token_action_tag (Erc20Approve _) = ''erc20_approve''"
| "token_action_tag (Erc20Permit _) = ''erc20_permit''"
| "token_action_tag (Permit2Approve _) = ''permit2_approve''"
| "token_action_tag (Permit2SignAllowance _) = ''permit2_sign_allowance''"
| "token_action_tag (Permit2SignTransfer _) = ''permit2_sign_transfer''"
| "token_action_tag (Permit2TransferFrom _) = ''permit2_transfer_from''"
| "token_action_tag (Erc20Transfer _) = ''erc20_transfer''"
| "token_action_tag (NftApprove _) = ''nft_approve''"
| "token_action_tag (NftSetApprovalForAll _) = ''nft_set_approval_for_all''"
| "token_action_tag (NftTransfer _) = ''nft_transfer''"
| "token_action_tag (RevokeApproval _) = ''revoke_approval''"
| "token_action_tag (WrapNative _) = ''wrap_native''"
| "token_action_tag (UnwrapNative _) = ''unwrap_native''"

end
