(* ===== verification/DeltaEngine.thy ===== *)
theory DeltaEngine
  imports Wallets
begin

text \<open>
  \<^verbatim>\<open>asset-model/transition/src/helpers/delta.rs\<close>: applying a delta to a wallet and merging two deltas.

  Positions are patched through JSON. The serialisation of a position is derived by serde, which is
  not part of the repository, so the two conversions are an argument (\<open>position_serde\<close>) of the
  definitions that use them.
\<close>

section \<open>Numeric helpers\<close>

definition u256_to_signed_saturating :: "u256 \<Rightarrow> i256" where
  "u256_to_signed_saturating v = (case i256_try_from_u256 v of Some i \<Rightarrow> i | None \<Rightarrow> i256_max)"

definition signed_to_u256_saturating :: "i256 \<Rightarrow> u256" where
  "signed_to_u256_saturating v = (case u256_try_from_i256 v of Some u \<Rightarrow> u | None \<Rightarrow> 0)"

section \<open>Token changes\<close>

fun approval_scope_for_set :: "token_key \<Rightarrow> approval_scope" where
  "approval_scope_for_set (Native _) = ScopeErc20"
| "approval_scope_for_set (Erc20 _ _) = ScopeErc20"
| "approval_scope_for_set (Erc721 _ _ _) = ScopeSetForAll"
| "approval_scope_for_set (Erc1155 _ _ _) = ScopeSetForAll"

definition contract_addr_key :: "token_key \<Rightarrow> (chain_id \<times> address) reducer_result" where
  "contract_addr_key k =
     rbind (ok_or (key_contract k) (Invariant ''token key has no contract address''))
       (\<lambda>a. Inr (key_chain k, a))"

definition mint_stub_holding :: "token_key \<Rightarrow> token_kind \<Rightarrow> token_holding" where
  "mint_stub_holding k kind_hint =
     \<lparr>th_key = k, th_kind = kind_hint, symbol = '''', decimals = 0, th_balance = zero_fungible,
      committed = zero_fungible, approved_to = None, price_usd = None, metadata = None,
      value_usd = None, last_synced_at = 0,
      th_source = OnchainView (key_chain k) (case key_contract k of Some a \<Rightarrow> a | None \<Rightarrow> 0)
        ''balanceOf(address)'' ''erc20_balance''\<rparr>"

definition apply_balance_delta :: "wallet_state \<Rightarrow> token_key \<Rightarrow> i256 \<Rightarrow> wallet_state reducer_result" where
  "apply_balance_delta s k d =
     rbind (ok_or (Mapping.lookup (tokens s) k) (TokenNotFound k)) (\<lambda>h.
     rbind (ok_or (as_fungible (th_balance h)) (Invariant ''BalanceDelta on non-fungible holding''))
       (\<lambda>current.
         let signed = i256_saturating_add (u256_to_signed_saturating current) d
         in if sint signed < 0 then Inl (Invariant ''balance underflow applying delta'')
            else Inr (s\<lparr>tokens := Mapping.update k
              (h\<lparr>th_balance := Fungible (signed_to_u256_saturating signed)\<rparr>) (tokens s)\<rparr>)))"

definition apply_approval_set ::
  "wallet_state \<Rightarrow> token_key \<Rightarrow> address \<Rightarrow> allowance_spec \<Rightarrow> wallet_state reducer_result" where
  "apply_approval_set s k sp al =
     (case approval_scope_for_set k of
        ScopeErc20 \<Rightarrow> rbind (contract_addr_key k) (\<lambda>ck.
          let a = approvals s in
          Inr (s\<lparr>approvals := a\<lparr>erc20 := Mapping.update ck
            (Mapping.update sp al (Mapping.lookup_default Mapping.empty (erc20 a) ck)) (erc20 a)\<rparr>\<rparr>))
      | ScopeSetForAll \<Rightarrow> rbind (contract_addr_key k) (\<lambda>ck.
          let a = approvals s in
          Inr (s\<lparr>approvals := a\<lparr>set_for_all := Mapping.update ck
            (insert sp (Mapping.lookup_default {} (set_for_all a) ck)) (set_for_all a)\<rparr>\<rparr>))
      | ScopePermit2 \<Rightarrow> Inl (Invariant ''ApprovalSet scope cannot be inferred from key'')
      | ScopeErc721Token \<Rightarrow> Inl (Invariant ''ApprovalSet scope cannot be inferred from key''))"

definition apply_approval_revoke ::
  "wallet_state \<Rightarrow> token_key \<Rightarrow> address \<Rightarrow> approval_scope \<Rightarrow> wallet_state reducer_result" where
  "apply_approval_revoke s k sp scope =
     (case scope of
        ScopeErc20 \<Rightarrow> rbind (contract_addr_key k) (\<lambda>ck.
          let a = approvals s in
          case Mapping.lookup (erc20 a) ck of
            None \<Rightarrow> Inr s
          | Some m \<Rightarrow>
              let m' = Mapping.delete sp m in
              Inr (s\<lparr>approvals := a\<lparr>erc20 :=
                (if Mapping.is_empty m' then Mapping.delete ck (erc20 a)
                 else Mapping.update ck m' (erc20 a))\<rparr>\<rparr>))
      | ScopeSetForAll \<Rightarrow> rbind (contract_addr_key k) (\<lambda>ck.
          let a = approvals s in
          case Mapping.lookup (set_for_all a) ck of
            None \<Rightarrow> Inr s
          | Some ss \<Rightarrow>
              let ss' = ss - {sp} in
              Inr (s\<lparr>approvals := a\<lparr>set_for_all :=
                (if ss' = {} then Mapping.delete ck (set_for_all a)
                 else Mapping.update ck ss' (set_for_all a))\<rparr>\<rparr>))
      | ScopePermit2 \<Rightarrow> rbind (contract_addr_key k) (\<lambda>(c, a).
          Inr (s\<lparr>approvals := (approvals s)\<lparr>permit2 :=
            Mapping.delete (c, a, sp) (permit2 (approvals s))\<rparr>\<rparr>))
      | ScopeErc721Token \<Rightarrow>
          rbind (ok_or (Mapping.lookup (tokens s) k) (TokenNotFound k)) (\<lambda>h.
          Inr (s\<lparr>tokens := Mapping.update k (h\<lparr>approved_to := None\<rparr>) (tokens s)\<rparr>)))"

fun apply_token_change :: "wallet_state \<Rightarrow> token_change \<Rightarrow> wallet_state reducer_result" where
  "apply_token_change s (BalanceDelta k d) = apply_balance_delta s k d"
| "apply_token_change s (ApprovalSetChange k sp al) = apply_approval_set s k sp al"
| "apply_token_change s (ApprovalRevoke k sp scope) = apply_approval_revoke s k sp scope"
| "apply_token_change s (Erc721ApprovedTo k sp) =
     rbind (ok_or (Mapping.lookup (tokens s) k) (TokenNotFound k)) (\<lambda>h.
     Inr (s\<lparr>tokens := Mapping.update k (h\<lparr>approved_to := sp\<rparr>) (tokens s)\<rparr>))"
| "apply_token_change s (Mint k kind_hint) =
     (case Mapping.lookup (tokens s) k of
        Some _ \<Rightarrow> Inr s
      | None \<Rightarrow> Inr (s\<lparr>tokens := Mapping.update k (mint_stub_holding k kind_hint) (tokens s)\<rparr>))"

section \<open>Position and pending changes\<close>

record position_serde =
  to_value :: "position \<Rightarrow> string + json"
  from_value :: "json \<Rightarrow> string + position"

definition map_err :: "reducer_error \<Rightarrow> string + 'a \<Rightarrow> 'a reducer_result" where
  "map_err e r = (case r of Inl _ \<Rightarrow> Inl e | Inr x \<Rightarrow> Inr x)"

definition apply_position_patch ::
  "position_serde \<Rightarrow> position \<Rightarrow> position_patch \<Rightarrow> position reducer_result" where
  "apply_position_patch C target patch =
     (let fields = patch_fields patch in
      case json_get fields ''after'' of
        Some after \<Rightarrow>
          map_err (Invariant ''PositionPatch.after did not deserialise as Position'')
            (from_value C after)
      | None \<Rightarrow>
          rbind (map_err (Invariant ''Position serialise failed'') (to_value C target)) (\<lambda>as_json.
          rbind (ok_or (json_as_object as_json)
            (Invariant ''Position did not serialise as JSON object'')) (\<lambda>target_obj.
          rbind (ok_or (json_as_object fields)
            (Invariant ''PositionPatch.fields must be a JSON object'')) (\<lambda>patch_obj.
          map_err (Invariant ''Position re-deserialise failed'')
            (from_value C (JObj (fold (\<lambda>(k, v). json_insert k v) patch_obj target_obj)))))))"

text \<open>\<open>iter_mut().find(p)\<close> followed by an update of the element found.\<close>

fun update_first :: "('a \<Rightarrow> bool) \<Rightarrow> ('a \<Rightarrow> 'e + 'a) \<Rightarrow> 'e \<Rightarrow> 'a list \<Rightarrow> 'e + 'a list" where
  "update_first p f e [] = Inl e"
| "update_first p f e (x # xs) =
     (if p x then rbind (f x) (\<lambda>y. Inr (y # xs))
      else rbind (update_first p f e xs) (\<lambda>ys. Inr (x # ys)))"

fun apply_position_change ::
  "position_serde \<Rightarrow> wallet_state \<Rightarrow> position_change \<Rightarrow> wallet_state reducer_result" where
  "apply_position_change C s (OpenPosition p) = Inr (s\<lparr>positions := positions s @ [p]\<rparr>)"
| "apply_position_change C s (UpdatePosition i patch) =
     rbind (update_first (\<lambda>p. pos_id p = i) (\<lambda>p. apply_position_patch C p patch)
       (PositionNotFound i) (positions s))
       (\<lambda>ps. Inr (s\<lparr>positions := ps\<rparr>))"
| "apply_position_change C s (ClosePosition i) =
     (let ps = filter (\<lambda>p. pos_id p \<noteq> i) (positions s) in
      if length ps = length (positions s) then Inl (PositionNotFound i)
      else Inr (s\<lparr>positions := ps\<rparr>))"

fun apply_pending_change :: "wallet_state \<Rightarrow> pending_change \<Rightarrow> wallet_state reducer_result" where
  "apply_pending_change s (AddPending p) = Inr (s\<lparr>pending := pending s @ [p]\<rparr>)"
| "apply_pending_change s (UpdatePending i st partial_fill) =
     rbind (update_first (\<lambda>p. ptx_id p = i)
       (\<lambda>p. Inr (with_lifecycle p ((ptx_lifecycle p)\<lparr>pl_status := st\<rparr>)))
       (Invariant ''pending id not found for update'') (pending s))
       (\<lambda>qs. Inr (s\<lparr>pending := qs\<rparr>))"
| "apply_pending_change s (RemovePending i reason) =
     (let qs = filter (\<lambda>p. ptx_id p \<noteq> i) (pending s) in
      if length qs = length (pending s) then Inl (Invariant ''pending id not found for remove'')
      else Inr (s\<lparr>pending := qs\<rparr>))"

section \<open>Gas, whole deltas, merging\<close>

definition apply_gas_paid :: "wallet_state \<Rightarrow> token_ref \<Rightarrow> u256 \<Rightarrow> wallet_state reducer_result" where
  "apply_gas_paid s t amount =
     (let k = ref_key t in
      rbind (ok_or (Mapping.lookup (tokens s) k) (TokenNotFound k)) (\<lambda>h.
      rbind (ok_or (as_fungible (th_balance h)) (Invariant ''gas charged against non-fungible holding''))
        (\<lambda>current.
      rbind (ok_or (checked_sub current amount) (Invariant ''gas underflow'')) (\<lambda>next_amount.
      Inr (s\<lparr>tokens := Mapping.update k (h\<lparr>th_balance := Fungible next_amount\<rparr>) (tokens s)\<rparr>)))))"

definition apply_delta ::
  "position_serde \<Rightarrow> wallet_state \<Rightarrow> state_delta \<Rightarrow> wallet_state reducer_result" where
  "apply_delta C s d =
     rbind (rfold apply_token_change s (token_changes d)) (\<lambda>s1.
     rbind (rfold (apply_position_change C) s1 (position_changes d)) (\<lambda>s2.
     rbind (rfold apply_pending_change s2 (pending_changes d)) (\<lambda>s3.
     case gas_paid d of None \<Rightarrow> Inr s3 | Some (t, amount) \<Rightarrow> apply_gas_paid s3 t amount)))"

definition merge_delta :: "state_delta \<Rightarrow> state_delta \<Rightarrow> state_delta reducer_result" where
  "merge_delta a b =
     (let ts = token_changes a @ token_changes b;
          ps = position_changes a @ position_changes b;
          qs = pending_changes a @ pending_changes b
      in case (gas_paid a, gas_paid b) of
           (None, None) \<Rightarrow> Inr (StateDelta ts ps qs None)
         | (Some g, None) \<Rightarrow> Inr (StateDelta ts ps qs (Some g))
         | (None, Some g) \<Rightarrow> Inr (StateDelta ts ps qs (Some g))
         | (Some (tok_a, amt_a), Some (tok_b, amt_b)) \<Rightarrow>
             if ref_key tok_a \<noteq> ref_key tok_b
             then Inl (Invariant ''merge_delta: incompatible gas tokens'')
             else Inr (StateDelta ts ps qs (Some (tok_a, saturating_add amt_a amt_b))))"

section \<open>Facts about the numeric helpers\<close>

lemma sint_u256_to_signed_saturating:
  "sint (u256_to_signed_saturating v) = min (int (unat v)) (2 ^ 255 - 1)"
proof (cases "unat v < 2 ^ 255")
  case True
  then have "int (unat v) < 2 ^ 255"
    by (simp only: of_nat_less_numeral_power_cancel_iff)
  with True show ?thesis
    by (simp add: u256_to_signed_saturating_def i256_try_from_u256_def sint_eq_unat)
next
  case False
  then have "2 ^ 255 \<le> int (unat v)"
    by (simp only: numeral_power_le_of_nat_cancel_iff not_less)
  with False show ?thesis
    by (simp add: u256_to_signed_saturating_def i256_try_from_u256_def sint_i256_max)
qed

lemma signed_to_u256_saturating_id: "0 \<le> sint v \<Longrightarrow> signed_to_u256_saturating v = v"
  by (simp add: signed_to_u256_saturating_def u256_try_from_i256_def)

lemma unat_signed_to_u256_saturating:
  "0 \<le> sint v \<Longrightarrow> int (unat (signed_to_u256_saturating v)) = sint v"
  by (simp only: signed_to_u256_saturating_id unat_eq_sint)

lemma signed_roundtrip:
  "0 \<le> sint v \<Longrightarrow> u256_to_signed_saturating (signed_to_u256_saturating v) = v"
proof -
  assume nonneg: "0 \<le> sint v"
  have "int (unat v) < 2 ^ 255"
    using unat_eq_sint [OF nonneg] sint_i256_bounds(2) [of v] by simp
  then have "unat v < 2 ^ 255"
    by (simp only: of_nat_less_numeral_power_cancel_iff)
  with nonneg show ?thesis
    by (simp add: signed_to_u256_saturating_def u256_try_from_i256_def
        u256_to_signed_saturating_def i256_try_from_u256_def)
qed

section \<open>The three kinds of change work on separate parts of the wallet\<close>

definition position_part ::
  "position_serde \<Rightarrow> position list \<Rightarrow> position_change \<Rightarrow> position list reducer_result" where
  "position_part C ps c =
     (case c of
        OpenPosition p \<Rightarrow> Inr (ps @ [p])
      | UpdatePosition i patch \<Rightarrow>
          update_first (\<lambda>p. pos_id p = i) (\<lambda>p. apply_position_patch C p patch) (PositionNotFound i) ps
      | ClosePosition i \<Rightarrow>
          (let ps' = filter (\<lambda>p. pos_id p \<noteq> i) ps in
           if length ps' = length ps then Inl (PositionNotFound i) else Inr ps'))"

definition pending_part :: "pending_tx list \<Rightarrow> pending_change \<Rightarrow> pending_tx list reducer_result" where
  "pending_part qs c =
     (case c of
        AddPending p \<Rightarrow> Inr (qs @ [p])
      | UpdatePending i st pf \<Rightarrow>
          update_first (\<lambda>p. ptx_id p = i)
            (\<lambda>p. Inr (with_lifecycle p ((ptx_lifecycle p)\<lparr>pl_status := st\<rparr>)))
            (Invariant ''pending id not found for update'') qs
      | RemovePending i reason \<Rightarrow>
          (let qs' = filter (\<lambda>p. ptx_id p \<noteq> i) qs in
           if length qs' = length qs then Inl (Invariant ''pending id not found for remove'')
           else Inr qs'))"

abbreviation put_positions :: "position list \<Rightarrow> wallet_state \<Rightarrow> wallet_state" where
  "put_positions ps s \<equiv> s\<lparr>positions := ps\<rparr>"

abbreviation put_pending :: "pending_tx list \<Rightarrow> wallet_state \<Rightarrow> wallet_state" where
  "put_pending qs s \<equiv> s\<lparr>pending := qs\<rparr>"

lemmas token_step_defs =
  apply_balance_delta_def apply_approval_set_def apply_approval_revoke_def Let_def

lemma position_change_via:
  "apply_position_change C s c = rbind (position_part C (positions s) c) (\<lambda>ps. Inr (put_positions ps s))"
  by (cases c) (simp_all add: position_part_def Let_def)

lemma pending_change_via:
  "apply_pending_change s c = rbind (pending_part (pending s) c) (\<lambda>qs. Inr (put_pending qs s))"
  by (cases c) (simp_all add: pending_part_def Let_def)

lemma token_change_put_positions:
  "apply_token_change (put_positions ps s) c
    = rbind (apply_token_change s c) (\<lambda>t. Inr (put_positions ps t))"
  by (cases c)
    (auto simp: token_step_defs rbind_def ok_or_def
      split: sum.splits option.splits approval_scope.splits if_splits)

lemma token_change_put_pending:
  "apply_token_change (put_pending qs s) c
    = rbind (apply_token_change s c) (\<lambda>t. Inr (put_pending qs t))"
  by (cases c)
    (auto simp: token_step_defs rbind_def ok_or_def
      split: sum.splits option.splits approval_scope.splits if_splits)

lemma position_change_put_pending:
  "apply_position_change C (put_pending qs s) c
    = rbind (apply_position_change C s c) (\<lambda>t. Inr (put_pending qs t))"
  by (simp add: position_change_via rbind_def split: sum.splits)

lemma token_change_frame:
  "apply_token_change s c = Inr t \<Longrightarrow>
     positions t = positions s \<and> pending t = pending s \<and> ws_id t = ws_id s"
  by (cases c)
    (auto simp: token_step_defs result_iff
      split: option.splits approval_scope.splits if_splits)

lemma position_change_frame:
  "apply_position_change C s c = Inr t \<Longrightarrow>
     tokens t = tokens s \<and> approvals t = approvals s \<and> pending t = pending s \<and> ws_id t = ws_id s"
  by (auto simp: position_change_via result_iff)

lemma pending_change_frame:
  "apply_pending_change s c = Inr t \<Longrightarrow>
     tokens t = tokens s \<and> approvals t = approvals s \<and> positions t = positions s \<and> ws_id t = ws_id s"
  by (auto simp: pending_change_via result_iff)

interpretation tok_frame: framed_step apply_token_change "\<lambda>s. (positions s, pending s, ws_id s)"
  by unfold_locales (simp add: token_change_frame)

interpretation pos_frame: framed_step "apply_position_change C"
    "\<lambda>s. (tokens s, approvals s, pending s, ws_id s)" for C
  by unfold_locales (simp add: position_change_frame)

interpretation pend_frame: framed_step apply_pending_change
    "\<lambda>s. (tokens s, approvals s, positions s, ws_id s)"
  by unfold_locales (simp add: pending_change_frame)

interpretation tok_pos: separate_steps apply_token_change "apply_position_change C" positions
    put_positions "position_part C" for C
  by unfold_locales
    (simp_all add: position_change_via token_change_put_positions token_change_frame)

interpretation tok_pend: separate_steps apply_token_change apply_pending_change pending
    put_pending pending_part
  by unfold_locales
    (simp_all add: pending_change_via token_change_put_pending token_change_frame)

interpretation pos_pend: separate_steps "apply_position_change C" apply_pending_change pending
    put_pending pending_part for C
  by unfold_locales
    (simp_all add: pending_change_via position_change_put_pending position_change_frame)

section \<open>Merging is sequencing\<close>

lemma apply_delta_iff:
  "apply_delta C s d = Inr u \<longleftrightarrow>
     (\<exists>s1 s2 s3. rfold apply_token_change s (token_changes d) = Inr s1 \<and>
        rfold (apply_position_change C) s1 (position_changes d) = Inr s2 \<and>
        rfold apply_pending_change s2 (pending_changes d) = Inr s3 \<and>
        (case gas_paid d of None \<Rightarrow> Inr s3 | Some (t, amount) \<Rightarrow> apply_gas_paid s3 t amount) = Inr u)"
  by (auto simp: apply_delta_def result_iff)

lemma merge_delta_no_gas:
  "gas_paid a = None \<Longrightarrow>
     merge_delta a b = Inr (StateDelta (token_changes a @ token_changes b)
       (position_changes a @ position_changes b) (pending_changes a @ pending_changes b) (gas_paid b))"
  by (cases "gas_paid b") (simp_all add: merge_delta_def Let_def)

text \<open>The changes of two deltas, interleaved as the merged delta runs them and one after the other.\<close>

lemma interleave_changes:
  "(\<exists>x1 x2 x3 x4 x5. rfold apply_token_change s ta = Inr x1 \<and> rfold apply_token_change x1 tb = Inr x2 \<and>
      rfold (apply_position_change C) x2 pa = Inr x3 \<and> rfold (apply_position_change C) x3 pb = Inr x4 \<and>
      rfold apply_pending_change x4 qa = Inr x5 \<and> rfold apply_pending_change x5 qb = Inr u)
   \<longleftrightarrow>
   (\<exists>x1 x2 x3 x4 x5. rfold apply_token_change s ta = Inr x1 \<and> rfold (apply_position_change C) x1 pa = Inr x2 \<and>
      rfold apply_pending_change x2 qa = Inr x3 \<and> rfold apply_token_change x3 tb = Inr x4 \<and>
      rfold (apply_position_change C) x4 pb = Inr x5 \<and> rfold apply_pending_change x5 qb = Inr u)"
  (is "?merged \<longleftrightarrow> ?sequential")
proof
  assume ?merged
  then obtain x1 x2 x3 x4 x5 where
    run: "rfold apply_token_change s ta = Inr x1" "rfold apply_token_change x1 tb = Inr x2"
      "rfold (apply_position_change C) x2 pa = Inr x3" "rfold (apply_position_change C) x3 pb = Inr x4"
      "rfold apply_pending_change x4 qa = Inr x5" "rfold apply_pending_change x5 qb = Inr u"
    by blast
  from tok_pos.loops_swap [OF run(2,3)] obtain y2 where
    y2: "rfold (apply_position_change C) x1 pa = Inr y2" "rfold apply_token_change y2 tb = Inr x3"
    by blast
  from pos_pend.loops_swap [OF run(4,5)] obtain y4 where
    y4: "rfold apply_pending_change x3 qa = Inr y4" "rfold (apply_position_change C) y4 pb = Inr x5"
    by blast
  from tok_pend.loops_swap [OF y2(2) y4(1)] obtain y3 where
    "rfold apply_pending_change y2 qa = Inr y3" "rfold apply_token_change y3 tb = Inr y4"
    by blast
  with run(1) y2(1) y4(2) run(6) show ?sequential by blast
next
  assume ?sequential
  then obtain x1 x2 x3 x4 x5 where
    run: "rfold apply_token_change s ta = Inr x1" "rfold (apply_position_change C) x1 pa = Inr x2"
      "rfold apply_pending_change x2 qa = Inr x3" "rfold apply_token_change x3 tb = Inr x4"
      "rfold (apply_position_change C) x4 pb = Inr x5" "rfold apply_pending_change x5 qb = Inr u"
    by blast
  from tok_pend.loops_swap_back [OF run(3,4)] obtain y3 where
    y3: "rfold apply_token_change x2 tb = Inr y3" "rfold apply_pending_change y3 qa = Inr x4"
    by blast
  from tok_pos.loops_swap_back [OF run(2) y3(1)] obtain y2 where
    y2: "rfold apply_token_change x1 tb = Inr y2" "rfold (apply_position_change C) y2 pa = Inr y3"
    by blast
  from pos_pend.loops_swap_back [OF y3(2) run(5)] obtain y4 where
    "rfold (apply_position_change C) y3 pb = Inr y4" "rfold apply_pending_change y4 qa = Inr x5"
    by blast
  with run(1) y2 run(6) show ?merged by blast
qed

lemma merge_is_sequence:
  assumes "gas_paid a = None" and "merge_delta a b = Inr m"
  shows "apply_delta C s m = Inr u \<longleftrightarrow> rbind (apply_delta C s a) (\<lambda>t. apply_delta C t b) = Inr u"
proof -
  let ?gas = "\<lambda>s3. case gas_paid b of None \<Rightarrow> Inr s3 | Some (t, amount) \<Rightarrow> apply_gas_paid s3 t amount"
  have m: "m = StateDelta (token_changes a @ token_changes b)
       (position_changes a @ position_changes b) (pending_changes a @ pending_changes b) (gas_paid b)"
    using assms by (simp add: merge_delta_no_gas)
  have "apply_delta C s m = Inr u \<longleftrightarrow>
     (\<exists>v. (\<exists>x1 x2 x3 x4 x5. rfold apply_token_change s (token_changes a) = Inr x1 \<and>
        rfold apply_token_change x1 (token_changes b) = Inr x2 \<and>
        rfold (apply_position_change C) x2 (position_changes a) = Inr x3 \<and>
        rfold (apply_position_change C) x3 (position_changes b) = Inr x4 \<and>
        rfold apply_pending_change x4 (pending_changes a) = Inr x5 \<and>
        rfold apply_pending_change x5 (pending_changes b) = Inr v) \<and> ?gas v = Inr u)"
    unfolding m apply_delta_iff by (simp add: rfold_append rbind_Inr_iff) blast
  also have "\<dots> \<longleftrightarrow> rbind (apply_delta C s a) (\<lambda>t. apply_delta C t b) = Inr u"
    unfolding interleave_changes rbind_Inr_iff apply_delta_iff assms(1) by simp blast
  finally show ?thesis .
qed

section \<open>Well-formed wallets\<close>

text \<open>
  Every holding is filed under its own key and the approvals are well formed. The only change that
  can break this is an approval whose unlimited flag disagrees with its amount.
\<close>

definition wf_wallet :: "wallet_state \<Rightarrow> bool" where
  "wf_wallet s =
     ((\<forall>k h. Mapping.lookup (tokens s) k = Some h \<longrightarrow> th_key h = k) \<and> wf_approvals (approvals s))"

fun wf_token_change :: "token_change \<Rightarrow> bool" where
  "wf_token_change (ApprovalSetChange _ _ al) = wf_allowance al"
| "wf_token_change _ = True"

definition wf_delta :: "state_delta \<Rightarrow> bool" where
  "wf_delta d = list_all wf_token_change (token_changes d)"

lemma apply_approval_set_cases:
  "apply_approval_set s k sp al =
     rbind (contract_addr_key k) (\<lambda>ck.
       Inr (s\<lparr>approvals := (if approval_scope_for_set k = ScopeErc20
         then grant_erc20 ck sp al (approvals s) else grant_for_all ck sp (approvals s))\<rparr>))"
  by (cases k) (simp_all add: apply_approval_set_def grant_erc20_def grant_for_all_def Let_def)

lemma apply_approval_revoke_erc20:
  "apply_approval_revoke s k sp ScopeErc20 =
     rbind (contract_addr_key k) (\<lambda>ck. Inr (s\<lparr>approvals := revoke_erc20 ck sp (approvals s)\<rparr>))"
  by (auto simp: apply_approval_revoke_def revoke_erc20_def Let_def intro!: rbind_cong
      split: option.splits)

lemma apply_approval_revoke_for_all:
  "apply_approval_revoke s k sp ScopeSetForAll =
     rbind (contract_addr_key k) (\<lambda>ck. Inr (s\<lparr>approvals := revoke_for_all ck sp (approvals s)\<rparr>))"
  by (auto simp: apply_approval_revoke_def revoke_for_all_def Let_def intro!: rbind_cong
      split: option.splits)

lemma wf_wallet_update_tokens:
  "wf_wallet s \<Longrightarrow> th_key h = k \<Longrightarrow> wf_wallet (s\<lparr>tokens := Mapping.update k h (tokens s)\<rparr>)"
  by (auto simp: wf_wallet_def lookup_update')

lemma wf_wallet_update_approvals:
  "wf_wallet s \<Longrightarrow> (wf_approvals (approvals s) \<Longrightarrow> wf_approvals a) \<Longrightarrow>
     wf_wallet (s\<lparr>approvals := a\<rparr>)"
  by (simp add: wf_wallet_def)

lemma wf_wallet_key: "wf_wallet s \<Longrightarrow> Mapping.lookup (tokens s) k = Some h \<Longrightarrow> th_key h = k"
  by (simp add: wf_wallet_def)

lemma wf_apply_approval_revoke:
  "apply_approval_revoke s k sp scope = Inr s' \<Longrightarrow> wf_wallet s \<Longrightarrow> wf_wallet s'"
proof (cases scope)
  case ScopeErc20
  then show "apply_approval_revoke s k sp scope = Inr s' \<Longrightarrow> wf_wallet s \<Longrightarrow> wf_wallet s'"
    by (auto simp: apply_approval_revoke_erc20 result_iff
        intro: wf_wallet_update_approvals wf_revoke_erc20)
next
  case ScopeSetForAll
  then show "apply_approval_revoke s k sp scope = Inr s' \<Longrightarrow> wf_wallet s \<Longrightarrow> wf_wallet s'"
    by (auto simp: apply_approval_revoke_for_all result_iff
        intro: wf_wallet_update_approvals wf_revoke_for_all)
next
  case ScopePermit2
  then show "apply_approval_revoke s k sp scope = Inr s' \<Longrightarrow> wf_wallet s \<Longrightarrow> wf_wallet s'"
    by (auto simp: apply_approval_revoke_def result_iff wf_approvals_permit2
        intro!: wf_wallet_update_approvals)
next
  case ScopeErc721Token
  then show "apply_approval_revoke s k sp scope = Inr s' \<Longrightarrow> wf_wallet s \<Longrightarrow> wf_wallet s'"
    by (auto simp: apply_approval_revoke_def result_iff intro!: wf_wallet_update_tokens
        dest: wf_wallet_key)
qed

lemma wf_apply_token_change:
  "apply_token_change s c = Inr s' \<Longrightarrow> wf_token_change c \<Longrightarrow> wf_wallet s \<Longrightarrow> wf_wallet s'"
proof (induction s c rule: apply_token_change.induct)
  case (1 s k d)
  then show ?case
    by (auto simp: apply_balance_delta_def result_iff Let_def split: if_splits
        intro!: wf_wallet_update_tokens dest: wf_wallet_key)
next
  case (2 s k sp al)
  then show ?case
    by (auto simp: apply_approval_set_cases result_iff
        intro!: wf_wallet_update_approvals wf_grant_erc20 wf_grant_for_all)
next
  case (3 s k sp scope)
  then show ?case by (auto dest: wf_apply_approval_revoke)
next
  case (4 s k sp)
  then show ?case
    by (auto simp: result_iff intro!: wf_wallet_update_tokens dest: wf_wallet_key)
next
  case (5 s k kind)
  then show ?case
    by (auto simp: mint_stub_holding_def intro!: wf_wallet_update_tokens split: option.splits)
qed

interpretation tok_wf: invariant_step apply_token_change wf_wallet wf_token_change
  by unfold_locales (rule wf_apply_token_change)

lemma wf_apply_gas_paid: "apply_gas_paid s t amount = Inr s' \<Longrightarrow> wf_wallet s \<Longrightarrow> wf_wallet s'"
  by (auto simp: apply_gas_paid_def result_iff Let_def intro!: wf_wallet_update_tokens
      dest: wf_wallet_key)

lemma wf_wallet_cong:
  "tokens s' = tokens s \<Longrightarrow> approvals s' = approvals s \<Longrightarrow> wf_wallet s' = wf_wallet s"
  by (simp add: wf_wallet_def)

lemma apply_delta_keeps_wf:
  assumes "apply_delta C s d = Inr s'" and "wf_delta d" and "wf_wallet s"
  shows "wf_wallet s'"
proof -
  from assms(1) obtain s1 s2 s3 where
    run: "rfold apply_token_change s (token_changes d) = Inr s1"
      "rfold (apply_position_change C) s1 (position_changes d) = Inr s2"
      "rfold apply_pending_change s2 (pending_changes d) = Inr s3"
      "(case gas_paid d of None \<Rightarrow> Inr s3 | Some (t, amount) \<Rightarrow> apply_gas_paid s3 t amount) = Inr s'"
    by (auto simp: apply_delta_iff)
  have "wf_wallet s1"
    using tok_wf.loop_keeps [OF run(1)] assms(2,3) by (simp add: wf_delta_def)
  then have "wf_wallet s3"
    using pos_frame.loop_frame [OF run(2)] pend_frame.loop_frame [OF run(3)]
    by (simp add: wf_wallet_cong [of s3 s1])
  with run(4) show ?thesis
    by (auto split: option.splits dest: wf_apply_gas_paid)
qed

section \<open>Balance accounting\<close>

definition fungible_balance :: "wallet_state \<Rightarrow> token_key \<Rightarrow> u256 option" where
  "fungible_balance s k = Option.bind (Mapping.lookup (tokens s) k) (\<lambda>h. as_fungible (th_balance h))"

text \<open>What a list of changes adds to the balance of a key, and the part of it that are credits.\<close>

fun change_on :: "token_key \<Rightarrow> token_change \<Rightarrow> int" where
  "change_on k (BalanceDelta k' d) = (if k' = k then sint d else 0)"
| "change_on k _ = 0"

definition net_delta :: "token_key \<Rightarrow> token_change list \<Rightarrow> int" where
  "net_delta k cs = sum_list (map (change_on k) cs)"

definition gross_credit :: "token_key \<Rightarrow> token_change list \<Rightarrow> int" where
  "gross_credit k cs = sum_list (map (\<lambda>c. max 0 (change_on k c)) cs)"

definition gas_on :: "token_key \<Rightarrow> state_delta \<Rightarrow> int" where
  "gas_on k d = (case gas_paid d of None \<Rightarrow> 0 | Some (t, a) \<Rightarrow> if ref_key t = k then int (unat a) else 0)"

lemma fungible_balance_update:
  "fungible_balance (s\<lparr>tokens := Mapping.update k h (tokens s)\<rparr>) k'
    = (if k' = k then as_fungible (th_balance h) else fungible_balance s k')"
  by (simp add: fungible_balance_def lookup_update')

lemma fungible_balance_approvals [simp]:
  "fungible_balance (s\<lparr>approvals := a\<rparr>) k = fungible_balance s k"
  by (simp add: fungible_balance_def)

lemma fungible_balance_cong: "tokens s' = tokens s \<Longrightarrow> fungible_balance s' k = fungible_balance s k"
  by (simp add: fungible_balance_def)

lemma gross_credit_nonneg: "0 \<le> gross_credit k cs"
  by (auto simp: gross_credit_def intro!: sum_list_nonneg)

lemma net_gross_Cons [simp]:
  "net_delta k (c # cs) = change_on k c + net_delta k cs"
  "gross_credit k (c # cs) = max 0 (change_on k c) + gross_credit k cs"
  by (simp_all add: net_delta_def gross_credit_def)

lemma balance_delta_on_key:
  assumes "apply_balance_delta s k d = Inr s'" and "fungible_balance s k = Some b"
    and "int (unat b) + max 0 (sint d) < 2 ^ 255"
  shows "\<exists>b'. fungible_balance s' k = Some b' \<and> int (unat b') = int (unat b) + sint d"
proof -
  from assms(1,2) obtain h where h: "Mapping.lookup (tokens s) k = Some h" "th_balance h = Fungible b"
    and nonneg: "0 \<le> sint (i256_saturating_add (u256_to_signed_saturating b) d)"
    and s': "s' = s\<lparr>tokens := Mapping.update k (h\<lparr>th_balance := Fungible (signed_to_u256_saturating
      (i256_saturating_add (u256_to_signed_saturating b) d))\<rparr>) (tokens s)\<rparr>"
    by (auto simp: apply_balance_delta_def fungible_balance_def result_iff Let_def as_fungible_Some_iff
        bind_eq_Some_conv split: if_splits)
  have "sint (u256_to_signed_saturating b) = int (unat b)"
    using assms(3) by (simp add: sint_u256_to_signed_saturating)
  moreover have "- (2 ^ 255) \<le> int (unat b) + sint d"
    using sint_i256_bounds(1) [of d] of_nat_0_le_iff [of "unat b"] by linarith
  moreover have "int (unat b) + sint d < 2 ^ 255"
    using assms(3) by simp
  ultimately have "sint (i256_saturating_add (u256_to_signed_saturating b) d) = int (unat b) + sint d"
    by (simp only: sint_i256_saturating_add i256_clamp_id)
  with unat_signed_to_u256_saturating [OF nonneg] show ?thesis
    by (simp only: s' fungible_balance_update) simp
qed

lemma balance_delta_other_key:
  "apply_balance_delta s k d = Inr s' \<Longrightarrow> k' \<noteq> k \<Longrightarrow> fungible_balance s' k' = fungible_balance s k'"
  by (auto simp: apply_balance_delta_def result_iff Let_def fungible_balance_update split: if_splits)

lemma non_balance_change:
  assumes "apply_token_change s c = Inr s'" and "\<forall>k d. c \<noteq> BalanceDelta k d"
    and "fungible_balance s k = Some b"
  shows "fungible_balance s' k = Some b"
  using assms
proof (induction s c rule: apply_token_change.induct)
  case (2 s k' sp al)
  then show ?case by (auto simp: apply_approval_set_cases result_iff)
next
  case (3 s k' sp scope)
  then show ?case
    by (auto simp: apply_approval_revoke_def Let_def result_iff lookup_update'
        fungible_balance_def split: approval_scope.splits option.splits)
next
  case (4 s k' sp)
  then show ?case
    by (auto simp: result_iff lookup_update' fungible_balance_def)
next
  case (5 s k' kind)
  then show ?case
    by (auto simp: lookup_update' fungible_balance_def split: option.splits)
qed simp

lemma change_on_other: "\<forall>k d. c \<noteq> BalanceDelta k d \<Longrightarrow> change_on k c = 0"
  by (cases c) auto

lemma token_changes_balance:
  assumes "rfold apply_token_change s cs = Inr s'" and "fungible_balance s k = Some b"
    and "int (unat b) + gross_credit k cs < 2 ^ 255"
  shows "\<exists>b'. fungible_balance s' k = Some b' \<and> int (unat b') = int (unat b) + net_delta k cs"
  using assms
proof (induction cs arbitrary: s b)
  case Nil
  then show ?case by (simp add: net_delta_def)
next
  case (Cons c cs)
  from Cons.prems(1) obtain s1 where step: "apply_token_change s c = Inr s1"
    and rest: "rfold apply_token_change s1 cs = Inr s'"
    by (auto simp: result_iff)
  have credit: "int (unat b) + max 0 (change_on k c) < 2 ^ 255"
    using Cons.prems(3) gross_credit_nonneg [of k cs] by simp
  have "\<exists>b1. fungible_balance s1 k = Some b1 \<and> int (unat b1) = int (unat b) + change_on k c"
  proof (cases "\<exists>k' d. c = BalanceDelta k' d")
    case True
    then obtain k' d where c: "c = BalanceDelta k' d" by blast
    show ?thesis
    proof (cases "k' = k")
      case True
      with c step credit balance_delta_on_key [of s k d s1 b] Cons.prems(2) show ?thesis by simp
    next
      case False
      with c step balance_delta_other_key [of s k' d s1 k] Cons.prems(2) show ?thesis by simp
    qed
  next
    case False
    with step Cons.prems(2) show ?thesis
      using non_balance_change [of s c s1 k b] change_on_other [of c k] by simp
  qed
  then obtain b1 where b1: "fungible_balance s1 k = Some b1" "int (unat b1) = int (unat b) + change_on k c"
    by blast
  have "int (unat b1) + gross_credit k cs < 2 ^ 255"
    using Cons.prems(3) b1(2) by simp
  from Cons.IH [OF rest b1(1) this] b1(2) show ?case by (simp add: add.assoc)
qed

lemma gas_paid_balance:
  assumes "apply_gas_paid s t a = Inr s'" and "fungible_balance s k = Some b"
  shows "\<exists>b'. fungible_balance s' k = Some b' \<and>
           int (unat b') = int (unat b) - (if ref_key t = k then int (unat a) else 0)"
proof -
  from assms(1) obtain h c n where
    "Mapping.lookup (tokens s) (ref_key t) = Some h" "th_balance h = Fungible c" "checked_sub c a = Some n"
    "s' = s\<lparr>tokens := Mapping.update (ref_key t) (h\<lparr>th_balance := Fungible n\<rparr>) (tokens s)\<rparr>"
    by (auto simp: apply_gas_paid_def Let_def result_iff as_fungible_Some_iff)
  moreover from this(3) have "int (unat n) = int (unat c) - int (unat a)"
    using unat_checked_sub [of c a n] by (simp only: of_nat_diff)
  ultimately show ?thesis
    using assms(2) by (auto simp: fungible_balance_update) (auto simp: fungible_balance_def)
qed

lemma apply_delta_balance:
  assumes "apply_delta C s d = Inr s'" and "fungible_balance s k = Some b"
    and "int (unat b) + gross_credit k (token_changes d) < 2 ^ 255"
  shows "\<exists>b'. fungible_balance s' k = Some b' \<and>
           int (unat b') = int (unat b) + net_delta k (token_changes d) - gas_on k d"
proof -
  from assms(1) obtain s1 s2 s3 where
    run: "rfold apply_token_change s (token_changes d) = Inr s1"
      "rfold (apply_position_change C) s1 (position_changes d) = Inr s2"
      "rfold apply_pending_change s2 (pending_changes d) = Inr s3"
      "(case gas_paid d of None \<Rightarrow> Inr s3 | Some (t, amount) \<Rightarrow> apply_gas_paid s3 t amount) = Inr s'"
    by (auto simp: apply_delta_iff)
  from token_changes_balance [OF run(1) assms(2,3)] obtain b1 where
    "fungible_balance s1 k = Some b1" and b1: "int (unat b1) = int (unat b) + net_delta k (token_changes d)"
    by blast
  then have s3: "fungible_balance s3 k = Some b1"
    using pos_frame.loop_frame [OF run(2)] pend_frame.loop_frame [OF run(3)]
    by (simp add: fungible_balance_cong [of s3 s1])
  show ?thesis
  proof (cases "gas_paid d")
    case None
    with run(4) s3 b1 show ?thesis by (simp add: gas_on_def)
  next
    case (Some g)
    obtain t a where g: "g = (t, a)" by (cases g)
    with Some run(4) have "apply_gas_paid s3 t a = Inr s'" by simp
    from gas_paid_balance [OF this s3] Some g b1 show ?thesis
      by (simp add: gas_on_def)
  qed
qed

section \<open>Growing a delta by one change\<close>

text \<open>
  The helpers append to a delta while a reducer runs. Applying the longer delta is applying the old
  one and then the appended change, whatever its kind.
\<close>

lemma apply_push_token:
  assumes "gas_paid d = None" and "apply_delta C s d = Inr t"
  shows "apply_delta C s (push_token_change d c) = Inr u \<longleftrightarrow> apply_token_change t c = Inr u"
proof -
  have "merge_delta d (push_token_change state_delta_new c) = Inr (push_token_change d c)"
    using assms(1) by (cases d) (simp add: merge_delta_no_gas)
  from merge_is_sequence [OF assms(1) this] assms(2) show ?thesis
    by (simp add: apply_delta_def [of C t])
qed

lemma apply_push_position:
  assumes "gas_paid d = None" and "apply_delta C s d = Inr t"
  shows "apply_delta C s (push_position_change d c) = Inr u \<longleftrightarrow> apply_position_change C t c = Inr u"
proof -
  have "merge_delta d (push_position_change state_delta_new c) = Inr (push_position_change d c)"
    using assms(1) by (cases d) (simp add: merge_delta_no_gas)
  from merge_is_sequence [OF assms(1) this] assms(2) show ?thesis
    by (simp add: apply_delta_def [of C t])
qed

lemma apply_push_pending:
  assumes "gas_paid d = None" and "apply_delta C s d = Inr t"
  shows "apply_delta C s (push_pending_change d c) = Inr u \<longleftrightarrow> apply_pending_change t c = Inr u"
proof -
  have "merge_delta d (push_pending_change state_delta_new c) = Inr (push_pending_change d c)"
    using assms(1) by (cases d) (simp add: merge_delta_no_gas)
  from merge_is_sequence [OF assms(1) this] assms(2) show ?thesis
    by (simp add: apply_delta_def [of C t])
qed

lemma apply_delta_tokens:
  assumes "gas_paid d = None" and "apply_delta C s d = Inr t"
  shows "\<exists>s1. rfold apply_token_change s (token_changes d) = Inr s1 \<and> tokens s1 = tokens t \<and>
     approvals s1 = approvals t"
proof -
  from assms obtain s1 s2 where
    run: "rfold apply_token_change s (token_changes d) = Inr s1"
      "rfold (apply_position_change C) s1 (position_changes d) = Inr s2"
      "rfold apply_pending_change s2 (pending_changes d) = Inr t"
    by (auto simp: apply_delta_iff)
  with pos_frame.loop_frame [OF run(2)] pend_frame.loop_frame [OF run(3)] show ?thesis by simp
qed

lemma apply_delta_new [simp]: "apply_delta C s state_delta_new = Inr s"
  by (simp add: apply_delta_def)

end
