(* ===== verification/Balances.thy ===== *)
theory Balances
  imports DeltaEngine
begin

text \<open>
  \<^verbatim>\<open>asset-model/transition/src/helpers/balance.rs\<close>: the balance primitives the reducers use. Each reads
  the wallet and the delta built so far and appends one change; none touches the wallet.
\<close>

section \<open>Definitions\<close>

definition effective_signed_balance :: "wallet_state \<Rightarrow> state_delta \<Rightarrow> token_key \<Rightarrow> i256 reducer_result" where
  "effective_signed_balance s d k =
     rbind (ok_or (Mapping.lookup (tokens s) k) (TokenNotFound k)) (\<lambda>h.
     rbind (ok_or (as_fungible (th_balance h)) (Invariant ''expected fungible balance, found non-fungible''))
       (\<lambda>base.
         Inr (fold (\<lambda>tc acc.
                case tc of
                  BalanceDelta k' dl \<Rightarrow> if k' = k then i256_saturating_add acc dl else acc
                | _ \<Rightarrow> acc)
              (token_changes d) (u256_to_signed_saturating base))))"

definition debit :: "wallet_state \<Rightarrow> state_delta \<Rightarrow> token_key \<Rightarrow> u256 \<Rightarrow> state_delta reducer_result" where
  "debit s d k amount =
     rbind (effective_signed_balance s d k) (\<lambda>effective.
       let amount_signed = u256_to_signed_saturating amount
       in if sint effective < sint amount_signed then Inl (Invariant ''balance underflow'')
          else Inr (push_token_change d (BalanceDelta k (- amount_signed))))"

definition credit :: "wallet_state \<Rightarrow> state_delta \<Rightarrow> token_key \<Rightarrow> u256 \<Rightarrow> state_delta reducer_result" where
  "credit s d k amount =
     rbind (ok_or (Mapping.lookup (tokens s) k) (TokenNotFound k)) (\<lambda>h.
       if th_balance h = Owned
       then Inl (Invariant ''expected fungible balance, found non-fungible'')
       else Inr (push_token_change d (BalanceDelta k (u256_to_signed_saturating amount))))"

definition transfer ::
  "wallet_state \<Rightarrow> state_delta \<Rightarrow> token_key \<Rightarrow> address \<Rightarrow> u256 \<Rightarrow> state_delta reducer_result" where
  "transfer s d k recipient amount = debit s d k amount"

fun transfer_nft ::
  "wallet_state \<Rightarrow> state_delta \<Rightarrow> token_key \<Rightarrow> address \<Rightarrow> u256 option \<Rightarrow> state_delta reducer_result" where
  "transfer_nft s d (Erc1155 c a i) recipient amount =
     rbind (ok_or amount (Invariant ''transfer_nft on ERC1155 requires an explicit amount''))
       (\<lambda>amt. debit s d (Erc1155 c a i) amt)"
| "transfer_nft s d (Erc721 c a i) recipient amount =
     rbind (ok_or (Mapping.lookup (tokens s) (Erc721 c a i)) (TokenNotFound (Erc721 c a i)))
       (\<lambda>_. Inr (push_token_change d (BalanceDelta (Erc721 c a i) (- 1))))"
| "transfer_nft s d (Native c) recipient amount =
     Inl (Invariant ''transfer_nft requires Erc721 or Erc1155 key'')"
| "transfer_nft s d (Erc20 c a) recipient amount =
     Inl (Invariant ''transfer_nft requires Erc721 or Erc1155 key'')"

section \<open>The effective balance is the balance after the delta\<close>

lemma effective_eq_applied:
  assumes "rfold apply_token_change s cs = Inr s1" and "fungible_balance s k = Some b"
  shows "\<exists>b1. fungible_balance s1 k = Some b1 \<and>
     u256_to_signed_saturating b1 =
       fold (\<lambda>tc acc.
               case tc of
                 BalanceDelta k' dl \<Rightarrow> if k' = k then i256_saturating_add acc dl else acc
               | _ \<Rightarrow> acc) cs (u256_to_signed_saturating b)"
  using assms
proof (induction cs arbitrary: s b)
  case Nil
  then show ?case by simp
next
  case (Cons c cs)
  from Cons.prems(1) obtain t where step: "apply_token_change s c = Inr t"
    and rest: "rfold apply_token_change t cs = Inr s1"
    by (auto simp: result_iff)
  have "\<exists>b1. fungible_balance t k = Some b1 \<and> u256_to_signed_saturating b1 =
      (case c of
         BalanceDelta k' dl \<Rightarrow>
           if k' = k then i256_saturating_add (u256_to_signed_saturating b) dl
           else u256_to_signed_saturating b
       | _ \<Rightarrow> u256_to_signed_saturating b)"
  proof (cases "\<exists>k' dl. c = BalanceDelta k' dl")
    case True
    then obtain k' dl where c: "c = BalanceDelta k' dl" by blast
    show ?thesis
    proof (cases "k' = k")
      case True
      with c step Cons.prems(2) show ?thesis
        by (auto simp: apply_balance_delta_def fungible_balance_def result_iff Let_def
            bind_eq_Some_conv lookup_update' signed_roundtrip split: if_splits)
    next
      case False
      with c step balance_delta_other_key [of s k' dl t k] Cons.prems(2) show ?thesis by simp
    qed
  next
    case False
    with non_balance_change [OF step _ Cons.prems(2)] show ?thesis
      by (cases c) auto
  qed
  then obtain b1 where b1: "fungible_balance t k = Some b1"
    and eq: "u256_to_signed_saturating b1 =
      (case c of
         BalanceDelta k' dl \<Rightarrow>
           if k' = k then i256_saturating_add (u256_to_signed_saturating b) dl
           else u256_to_signed_saturating b
       | _ \<Rightarrow> u256_to_signed_saturating b)"
    by blast
  from Cons.IH [OF rest b1] show ?case
    by (simp add: eq cong: if_cong split: token_change.splits)
qed

lemma effective_signed_balance_iff:
  "effective_signed_balance s d k = Inr e \<Longrightarrow> \<exists>b. fungible_balance s k = Some b"
  by (auto simp: effective_signed_balance_def fungible_balance_def result_iff)

section \<open>What a debit or a credit appends can be applied\<close>

lemma sint_neg_saturated: "sint (- u256_to_signed_saturating a) = - sint (u256_to_signed_saturating a)"
proof -
  let ?v = "sint (u256_to_signed_saturating a)"
  have "0 \<le> ?v" by (simp add: sint_u256_to_signed_saturating)
  moreover have "?v < 2 ^ 255" by (rule sint_i256_bounds)
  ultimately have "sint (word_of_int (- ?v) :: i256) = - ?v"
    by (intro sint_i256_of_int) simp_all
  then show ?thesis by simp
qed

text \<open>
  The holdings with the balance of one token replaced: nothing else of that holding, and no other holding,
  differs.
\<close>

definition with_balance :: "(token_key, token_holding) mapping \<Rightarrow> token_key \<Rightarrow> u256 \<Rightarrow> (token_key, token_holding) mapping" where
  "with_balance ts k b =
     (case Mapping.lookup ts k of
        None \<Rightarrow> ts
      | Some h \<Rightarrow> Mapping.update k (h\<lparr>th_balance := Fungible b\<rparr>) ts)"

lemma with_balance_lookup:
  "Mapping.lookup (with_balance ts k b) k'
    = (if k' = k then map_option (\<lambda>h. h\<lparr>th_balance := Fungible b\<rparr>) (Mapping.lookup ts k) else Mapping.lookup ts k')"
  by (simp add: with_balance_def lookup_update' split: option.splits)

lemma with_balance_at:
  "fungible_balance s k = Some b0 \<Longrightarrow> fungible_balance (s\<lparr>tokens := with_balance (tokens s) k b\<rparr>) k = Some b"
  by (auto simp: fungible_balance_def with_balance_lookup bind_eq_Some_conv)

lemma with_balance_other:
  "k' \<noteq> k \<Longrightarrow> fungible_balance (s\<lparr>tokens := with_balance (tokens s) k b\<rparr>) k' = fungible_balance s k'"
  by (simp add: fungible_balance_def with_balance_lookup)

lemma apply_balance_delta_exact:
  assumes "fungible_balance s k = Some b"
    and "0 \<le> sint (u256_to_signed_saturating b) + sint d"
  shows "\<exists>b'. apply_balance_delta s k d = Inr (s\<lparr>tokens := with_balance (tokens s) k b'\<rparr>) \<and>
     int (unat b') = min (sint (u256_to_signed_saturating b) + sint d) (2 ^ 255 - 1)"
proof -
  let ?r = "i256_saturating_add (u256_to_signed_saturating b) d"
  have r: "sint ?r = min (sint (u256_to_signed_saturating b) + sint d) (2 ^ 255 - 1)"
    using assms(2) by (simp add: sint_i256_saturating_add i256_clamp_def)
  then have nonneg: "0 \<le> sint ?r" using assms(2) by simp
  from assms(1) obtain h where h: "Mapping.lookup (tokens s) k = Some h" "th_balance h = Fungible b"
    by (auto simp: fungible_balance_def bind_eq_Some_conv as_fungible_Some_iff)
  have "apply_balance_delta s k d
      = Inr (s\<lparr>tokens := with_balance (tokens s) k (signed_to_u256_saturating ?r)\<rparr>)"
    using nonneg h by (simp add: apply_balance_delta_def with_balance_def)
  moreover have "int (unat (signed_to_u256_saturating ?r))
      = min (sint (u256_to_signed_saturating b) + sint d) (2 ^ 255 - 1)"
    by (simp only: unat_signed_to_u256_saturating [OF nonneg] r)
  ultimately show ?thesis by blast
qed

lemma min_diff_clip:
  "0 \<le> a \<Longrightarrow> 0 \<le> m \<Longrightarrow> min (min u m + - min a m) m = min u m - min a m"
  for a m u :: int
  by (auto simp: min_def)

lemma effective_after_delta:
  assumes "gas_paid d = None" and "apply_delta C s d = Inr s1" and "fungible_balance s k = Some b"
  shows "\<exists>b1. fungible_balance s1 k = Some b1 \<and>
     effective_signed_balance s d k = Inr (u256_to_signed_saturating b1)"
proof -
  from apply_delta_tokens [OF assms(1,2)] obtain s0 where
    s0: "rfold apply_token_change s (token_changes d) = Inr s0" "tokens s0 = tokens s1"
    by blast
  from effective_eq_applied [OF s0(1) assms(3)] s0(2) assms(3) show ?thesis
    by (auto simp: effective_signed_balance_def fungible_balance_def bind_eq_Some_conv)
qed

lemma debit_exact:
  assumes "gas_paid d = None" and "apply_delta C s d = Inr s1" and "debit s d k amount = Inr d'"
  shows "\<exists>b1 b2. apply_delta C s d' = Inr (s1\<lparr>tokens := with_balance (tokens s1) k b2\<rparr>) \<and>
     fungible_balance s1 k = Some b1 \<and>
     int (unat b2) = min (int (unat b1)) (2 ^ 255 - 1) - min (int (unat amount)) (2 ^ 255 - 1)"
proof -
  let ?c = "- u256_to_signed_saturating amount"
  from assms(3) obtain e where e: "effective_signed_balance s d k = Inr e"
    and le: "sint (u256_to_signed_saturating amount) \<le> sint e"
    and d': "d' = push_token_change d (BalanceDelta k ?c)"
    by (auto simp: debit_def result_iff Let_def split: if_splits)
  from effective_signed_balance_iff [OF e] obtain b where "fungible_balance s k = Some b" by blast
  from effective_after_delta [OF assms(1,2) this] e obtain b1 where
    b1: "fungible_balance s1 k = Some b1" "e = u256_to_signed_saturating b1" by auto
  have "0 \<le> sint (u256_to_signed_saturating b1) + sint ?c"
    using le b1(2) by (simp add: sint_neg_saturated)
  from apply_balance_delta_exact [OF b1(1) this] obtain b2 where
    s2: "apply_balance_delta s1 k ?c = Inr (s1\<lparr>tokens := with_balance (tokens s1) k b2\<rparr>)"
    and b2: "int (unat b2) = min (sint (u256_to_signed_saturating b1) + sint ?c) (2 ^ 255 - 1)"
    by blast
  have "int (unat b2) = min (int (unat b1)) (2 ^ 255 - 1) - min (int (unat amount)) (2 ^ 255 - 1)"
    unfolding b2 sint_neg_saturated sint_u256_to_signed_saturating by (rule min_diff_clip) simp_all
  moreover have "apply_delta C s d' = Inr (s1\<lparr>tokens := with_balance (tokens s1) k b2\<rparr>)"
    unfolding d' using apply_push_token [OF assms(1,2)] s2 by simp
  ultimately show ?thesis using b1(1) by blast
qed

lemma credit_exact:
  assumes "gas_paid d = None" and "apply_delta C s d = Inr s1" and "credit s d k amount = Inr d'"
  shows "\<exists>b1 b2. apply_delta C s d' = Inr (s1\<lparr>tokens := with_balance (tokens s1) k b2\<rparr>) \<and>
     fungible_balance s1 k = Some b1 \<and>
     int (unat b2) =
       min (min (int (unat b1)) (2 ^ 255 - 1) + min (int (unat amount)) (2 ^ 255 - 1)) (2 ^ 255 - 1)"
proof -
  let ?c = "u256_to_signed_saturating amount"
  from assms(3) obtain h where h: "Mapping.lookup (tokens s) k = Some h" "th_balance h \<noteq> Owned"
    and d': "d' = push_token_change d (BalanceDelta k ?c)"
    by (auto simp: credit_def result_iff split: if_splits)
  then obtain b where "fungible_balance s k = Some b"
    by (cases "th_balance h") (auto simp: fungible_balance_def)
  from effective_after_delta [OF assms(1,2) this] obtain b1 where
    b1: "fungible_balance s1 k = Some b1" by blast
  have "0 \<le> sint (u256_to_signed_saturating b1) + sint ?c"
    by (simp add: sint_u256_to_signed_saturating)
  from apply_balance_delta_exact [OF b1 this] obtain b2 where
    s2: "apply_balance_delta s1 k ?c = Inr (s1\<lparr>tokens := with_balance (tokens s1) k b2\<rparr>)"
    and b2: "int (unat b2) = min (sint (u256_to_signed_saturating b1) + sint ?c) (2 ^ 255 - 1)"
    by blast
  moreover have "apply_delta C s d' = Inr (s1\<lparr>tokens := with_balance (tokens s1) k b2\<rparr>)"
    unfolding d' using apply_push_token [OF assms(1,2)] s2 by simp
  ultimately show ?thesis using b1 unfolding sint_u256_to_signed_saturating by blast
qed

text \<open>The same in terms of balances.\<close>

lemma debit_applied:
  assumes "gas_paid d = None" and "apply_delta C s d = Inr s1" and "debit s d k amount = Inr d'"
  shows "\<exists>ts b1 b2. apply_delta C s d' = Inr (s1\<lparr>tokens := ts\<rparr>) \<and>
     fungible_balance s1 k = Some b1 \<and> fungible_balance (s1\<lparr>tokens := ts\<rparr>) k = Some b2 \<and>
     (\<forall>k'. k' \<noteq> k \<longrightarrow> fungible_balance (s1\<lparr>tokens := ts\<rparr>) k' = fungible_balance s1 k') \<and>
     int (unat b2) = min (int (unat b1)) (2 ^ 255 - 1) - min (int (unat amount)) (2 ^ 255 - 1)"
  using debit_exact [OF assms] with_balance_at with_balance_other by blast

lemma credit_applied:
  assumes "gas_paid d = None" and "apply_delta C s d = Inr s1" and "credit s d k amount = Inr d'"
  shows "\<exists>ts b1 b2. apply_delta C s d' = Inr (s1\<lparr>tokens := ts\<rparr>) \<and>
     fungible_balance s1 k = Some b1 \<and> fungible_balance (s1\<lparr>tokens := ts\<rparr>) k = Some b2 \<and>
     (\<forall>k'. k' \<noteq> k \<longrightarrow> fungible_balance (s1\<lparr>tokens := ts\<rparr>) k' = fungible_balance s1 k') \<and>
     int (unat b2) =
       min (min (int (unat b1)) (2 ^ 255 - 1) + min (int (unat amount)) (2 ^ 255 - 1)) (2 ^ 255 - 1)"
  using credit_exact [OF assms] with_balance_at with_balance_other by blast

lemma debit_ok_iff:
  assumes "gas_paid d = None" and "apply_delta C s d = Inr s1" and "fungible_balance s k = Some b"
    and "fungible_balance s1 k = Some b1"
  shows "is_ok (debit s d k amount)
    \<longleftrightarrow> min (int (unat amount)) (2 ^ 255 - 1) \<le> min (int (unat b1)) (2 ^ 255 - 1)"
proof -
  have "effective_signed_balance s d k = Inr (u256_to_signed_saturating b1)"
    using effective_after_delta [OF assms(1-3)] assms(4) by auto
  then have "is_ok (debit s d k amount)
      \<longleftrightarrow> sint (u256_to_signed_saturating amount) \<le> sint (u256_to_signed_saturating b1)"
    by (simp add: debit_def Let_def is_ok_def not_less)
  then show ?thesis by (simp only: sint_u256_to_signed_saturating)
qed

lemma debit_missing: "fungible_balance s k = None \<Longrightarrow> \<not> is_ok (debit s d k amount)"
  using effective_signed_balance_iff [of s d k]
  by (cases "effective_signed_balance s d k") (auto simp: debit_def)

section \<open>Moving an ERC-721 token\<close>

text \<open>The change queued for an owned NFT is one that applying the delta rejects.\<close>

lemma erc721_change_rejected:
  assumes "Mapping.lookup (tokens s) (Erc721 c a i) = Some h" and "th_balance h = Owned"
    and "transfer_nft s state_delta_new (Erc721 c a i) recipient amount = Inr d"
  shows "apply_delta C s d = Inl (Invariant ''BalanceDelta on non-fungible holding'')"
  using assms by (auto simp: apply_delta_def apply_balance_delta_def)

end
