(* ===== verification/ApprovalHelpers.thy ===== *)
theory ApprovalHelpers
  imports DeltaEngine
begin

text \<open>
  \<^verbatim>\<open>asset-model/transition/src/helpers/approval.rs\<close>: the grant and revoke primitives of the reducers.
  Each appends one token change; the wallet argument the source carries is unused there and here.
\<close>

section \<open>Definitions\<close>

definition set_erc20_allowance ::
  "wallet_state \<Rightarrow> state_delta \<Rightarrow> time \<Rightarrow> token_ref \<Rightarrow> address \<Rightarrow> u256 \<Rightarrow> state_delta reducer_result" where
  "set_erc20_allowance s d set_at token sp amount =
     (if \<not> is_erc20 (ref_key token) then Inl (Invariant ''set_erc20_allowance on non-Erc20 token'')
      else
        let al = (if amount = u256_max then allowance_spec_unlimited set_at
                  else allowance_spec_new amount set_at)
        in Inr (push_token_change d (ApprovalSetChange (ref_key token) sp al)))"

definition revoke_erc20_allowance ::
  "wallet_state \<Rightarrow> state_delta \<Rightarrow> token_ref \<Rightarrow> address \<Rightarrow> state_delta reducer_result" where
  "revoke_erc20_allowance s d token sp =
     (if \<not> is_erc20 (ref_key token) then Inl (Invariant ''revoke_erc20_allowance on non-Erc20 token'')
      else Inr (push_token_change d (ApprovalRevoke (ref_key token) sp ScopeErc20)))"

definition set_for_all_helper ::
  "wallet_state \<Rightarrow> state_delta \<Rightarrow> time \<Rightarrow> chain_id \<Rightarrow> address \<Rightarrow> address \<Rightarrow> bool
     \<Rightarrow> state_delta reducer_result" where
  "set_for_all_helper s d set_at chain contract sp approved =
     (let placeholder_key = Erc721 chain contract 0
      in if approved
         then Inr (push_token_change d
                (ApprovalSetChange placeholder_key sp (allowance_spec_unlimited set_at)))
         else Inr (push_token_change d (ApprovalRevoke placeholder_key sp ScopeSetForAll)))"

definition set_nft_approve ::
  "wallet_state \<Rightarrow> state_delta \<Rightarrow> time \<Rightarrow> token_key \<Rightarrow> address \<Rightarrow> state_delta reducer_result" where
  "set_nft_approve s d set_at nft_key sp =
     (if \<not> is_nft nft_key then Inl (Invariant ''set_nft_approve requires TokenKey::Erc721'')
      else
        let mapped = (if sp = 0 then None else Some sp)
        in Inr (push_token_change d (Erc721ApprovedTo nft_key mapped)))"

definition revoke_permit2_allowance ::
  "wallet_state \<Rightarrow> state_delta \<Rightarrow> token_ref \<Rightarrow> address \<Rightarrow> state_delta reducer_result" where
  "revoke_permit2_allowance s d token sp =
     (if \<not> is_erc20 (ref_key token) then Inl (Invariant ''revoke_permit2_allowance on non-Erc20 token'')
      else Inr (push_token_change d (ApprovalRevoke (ref_key token) sp ScopePermit2)))"

definition upsert_permit2_allowance ::
  "wallet_state \<Rightarrow> state_delta \<Rightarrow> token_ref \<Rightarrow> spender \<Rightarrow> u256 \<Rightarrow> time \<Rightarrow> state_delta reducer_result" where
  "upsert_permit2_allowance s d token sp amount expires_at =
     (if \<not> is_erc20 (ref_key token) then Inl (Invariant ''upsert_permit2_allowance on non-Erc20 token'')
      else
        let al = \<lparr>alw_amount = amount, is_unlimited = (amount = u256_max), last_set_at = expires_at\<rparr>
        in Inr (push_token_change d (ApprovalSetChange (ref_key token) sp al)))"

section \<open>Facts\<close>

lemmas approval_helper_defs =
  set_erc20_allowance_def revoke_erc20_allowance_def set_for_all_helper_def set_nft_approve_def
  revoke_permit2_allowance_def upsert_permit2_allowance_def Let_def

lemma allowance_spec_literal:
  "\<lparr>alw_amount = amount, is_unlimited = (amount = u256_max), last_set_at = t\<rparr> = allowance_spec_new amount t"
  by (simp add: allowance_spec_new_def)

text \<open>The branch on the maximal amount makes no difference.\<close>

lemma set_erc20_allowance_eq:
  "set_erc20_allowance s d t token sp amount =
     (if \<not> is_erc20 (ref_key token) then Inl (Invariant ''set_erc20_allowance on non-Erc20 token'')
      else Inr (push_token_change d
        (ApprovalSetChange (ref_key token) sp (allowance_spec_new amount t))))"
  by (simp add: set_erc20_allowance_def allowance_spec_new_max)

text \<open>A single approval change applied to a wallet.\<close>

lemma apply_delta_single:
  "apply_delta C s (push_token_change state_delta_new c) = apply_token_change s c"
  by (simp add: apply_delta_def)

lemma apply_grant_erc20:
  "apply_delta C s (push_token_change state_delta_new (ApprovalSetChange (Erc20 c a) sp al))
    = Inr (s\<lparr>approvals := grant_erc20 (c, a) sp al (approvals s)\<rparr>)"
  by (simp add: apply_delta_single apply_approval_set_cases contract_addr_key_def)

lemma apply_revoke_erc20:
  "apply_delta C s (push_token_change state_delta_new (ApprovalRevoke (Erc20 c a) sp ScopeErc20))
    = Inr (s\<lparr>approvals := revoke_erc20 (c, a) sp (approvals s)\<rparr>)"
  by (simp add: apply_delta_single apply_approval_revoke_erc20 contract_addr_key_def)

lemma apply_grant_for_all:
  "apply_delta C s (push_token_change state_delta_new (ApprovalSetChange (Erc721 c a i) sp al))
    = Inr (s\<lparr>approvals := grant_for_all (c, a) sp (approvals s)\<rparr>)"
  by (simp add: apply_delta_single apply_approval_set_cases contract_addr_key_def)

lemma apply_revoke_for_all:
  "apply_delta C s (push_token_change state_delta_new (ApprovalRevoke (Erc721 c a i) sp ScopeSetForAll))
    = Inr (s\<lparr>approvals := revoke_for_all (c, a) sp (approvals s)\<rparr>)"
  by (simp add: apply_delta_single apply_approval_revoke_for_all contract_addr_key_def)

lemma apply_revoke_permit2:
  "apply_delta C s (push_token_change state_delta_new (ApprovalRevoke (Erc20 c a) sp ScopePermit2))
    = Inr (s\<lparr>approvals := (approvals s)\<lparr>permit2 := Mapping.delete (c, a, sp) (permit2 (approvals s))\<rparr>\<rparr>)"
  by (simp add: apply_delta_single apply_approval_revoke_def contract_addr_key_def)

end
