(* ===== verification/PositionHelpers.thy ===== *)
theory PositionHelpers
  imports DeltaEngine
begin

text \<open>
  \<^verbatim>\<open>asset-model/transition/src/helpers/position.rs\<close>: opening, mutating and closing positions through a
  delta. The closure an \<open>upsert_*\<close> caller passes is a function argument.
\<close>

section \<open>Definitions\<close>

fun exists_step :: "position_id \<Rightarrow> position_change \<Rightarrow> bool \<Rightarrow> bool" where
  "exists_step i (OpenPosition p) exists = (if pos_id p = i then True else exists)"
| "exists_step i (ClosePosition closed_id) exists = (if closed_id = i then False else exists)"
| "exists_step i (UpdatePosition _ _) exists = exists"

definition effective_exists :: "wallet_state \<Rightarrow> state_delta \<Rightarrow> position_id \<Rightarrow> bool" where
  "effective_exists s d i =
     fold (exists_step i) (position_changes d) (list_ex (\<lambda>p. pos_id p = i) (positions s))"

fun latest_queued :: "position_id \<Rightarrow> position_change list \<Rightarrow> position option option" where
  "latest_queued i [] = None"
| "latest_queued i (OpenPosition p # cs) =
     (if pos_id p = i then Some (Some p) else latest_queued i cs)"
| "latest_queued i (ClosePosition closed_id # cs) =
     (if closed_id = i then Some None else latest_queued i cs)"
| "latest_queued i (UpdatePosition _ _ # cs) = latest_queued i cs"

definition effective_position :: "wallet_state \<Rightarrow> state_delta \<Rightarrow> position_id \<Rightarrow> position option" where
  "effective_position s d i =
     (case latest_queued i (rev (position_changes d)) of
        Some r \<Rightarrow> r
      | None \<Rightarrow> find (\<lambda>p. pos_id p = i) (positions s))"

definition snapshot_patch :: "position_serde \<Rightarrow> position \<Rightarrow> position_patch" where
  "snapshot_patch C p =
     (let after = (case to_value C p of Inl _ \<Rightarrow> JNull | Inr j \<Rightarrow> j)
      in PositionPatch (JObj [(''after'', after)]))"

definition open_position :: "wallet_state \<Rightarrow> state_delta \<Rightarrow> position \<Rightarrow> state_delta reducer_result" where
  "open_position s d p =
     (if effective_exists s d (pos_id p) then Inl (Invariant ''position already exists'')
      else Inr (push_position_change d (OpenPosition p)))"

fun is_lending_kind :: "position_kind \<Rightarrow> bool" where
  "is_lending_kind (LendingAccount _) = True"
| "is_lending_kind _ = False"

fun is_perp_kind :: "position_kind \<Rightarrow> bool" where
  "is_perp_kind (PerpPosition _) = True"
| "is_perp_kind _ = False"

fun is_hl_kind :: "position_kind \<Rightarrow> bool" where
  "is_hl_kind (HyperliquidAccount _) = True"
| "is_hl_kind _ = False"

definition upsert_lending_account ::
  "position_serde \<Rightarrow> wallet_state \<Rightarrow> state_delta \<Rightarrow> position_id \<Rightarrow> (position \<Rightarrow> position)
     \<Rightarrow> state_delta reducer_result" where
  "upsert_lending_account C s d i mutate =
     rbind (ok_or (effective_position s d i) (PositionNotFound i)) (\<lambda>existing.
       if \<not> is_lending_kind (pos_kind existing)
       then Inl (Invariant ''position exists but is not a LendingAccount'')
       else
         let new_position = mutate existing in
         if \<not> is_lending_kind (pos_kind new_position)
         then Inl (Invariant ''mutate changed kind away from LendingAccount'')
         else Inr (push_position_change d (UpdatePosition i (snapshot_patch C new_position))))"

definition upsert_perp_position ::
  "position_serde \<Rightarrow> wallet_state \<Rightarrow> state_delta \<Rightarrow> position_id \<Rightarrow> (position \<Rightarrow> position)
     \<Rightarrow> state_delta reducer_result" where
  "upsert_perp_position C s d i mutate =
     rbind (ok_or (effective_position s d i) (PositionNotFound i)) (\<lambda>existing.
       if \<not> is_perp_kind (pos_kind existing)
       then Inl (Invariant ''position exists but is not a PerpPosition'')
       else
         let new_position = mutate existing in
         if \<not> is_perp_kind (pos_kind new_position)
         then Inl (Invariant ''mutate changed kind away from PerpPosition'')
         else Inr (push_position_change d (UpdatePosition i (snapshot_patch C new_position))))"

definition upsert_hl_account ::
  "position_serde \<Rightarrow> wallet_state \<Rightarrow> state_delta \<Rightarrow> position_id \<Rightarrow> (position \<Rightarrow> position)
     \<Rightarrow> state_delta reducer_result" where
  "upsert_hl_account C s d i mutate =
     rbind (ok_or (effective_position s d i) (PositionNotFound i)) (\<lambda>existing.
       if \<not> is_hl_kind (pos_kind existing)
       then Inl (Invariant ''position exists but is not a HyperliquidAccount'')
       else
         let new_position = mutate existing in
         if \<not> is_hl_kind (pos_kind new_position)
         then Inl (Invariant ''mutate changed kind away from HyperliquidAccount'')
         else Inr (push_position_change d (UpdatePosition i (snapshot_patch C new_position))))"

definition close_position :: "wallet_state \<Rightarrow> state_delta \<Rightarrow> position_id \<Rightarrow> state_delta reducer_result" where
  "close_position s d i =
     (if \<not> effective_exists s d i then Inl (PositionNotFound i)
      else Inr (push_position_change d (ClosePosition i)))"

section \<open>The update interface\<close>

text \<open>
  The three \<open>upsert_*\<close> helpers differ only in the kind of position they accept. Their common contract:
  an update of the effective position, of the accepted kind before and after, queued as a snapshot.
\<close>

locale position_upsert =
  fixes upsert :: "position_serde \<Rightarrow> wallet_state \<Rightarrow> state_delta \<Rightarrow> position_id \<Rightarrow> (position \<Rightarrow> position)
      \<Rightarrow> state_delta reducer_result"
    and accepts :: "position_kind \<Rightarrow> bool"
  assumes upsert_Inr: "upsert C s d i mutate = Inr d' \<longleftrightarrow>
      (\<exists>p. effective_position s d i = Some p \<and> accepts (pos_kind p) \<and> accepts (pos_kind (mutate p)) \<and>
           d' = push_position_change d (UpdatePosition i (snapshot_patch C (mutate p))))"
begin

lemma upsert_queues:
  "upsert C s d i mutate = Inr d' \<Longrightarrow>
     token_changes d' = token_changes d \<and> pending_changes d' = pending_changes d \<and>
     gas_paid d' = gas_paid d \<and>
     (\<exists>c. position_changes d' = position_changes d @ [c])"
  by (auto simp: upsert_Inr)

end

interpretation lending: position_upsert upsert_lending_account is_lending_kind
  by unfold_locales (auto simp: upsert_lending_account_def result_iff Let_def split: if_splits)

interpretation perp: position_upsert upsert_perp_position is_perp_kind
  by unfold_locales (auto simp: upsert_perp_position_def result_iff Let_def split: if_splits)

interpretation hl: position_upsert upsert_hl_account is_hl_kind
  by unfold_locales (auto simp: upsert_hl_account_def result_iff Let_def split: if_splits)

section \<open>Position lists with unique ids\<close>

definition unique_positions :: "wallet_state \<Rightarrow> bool" where
  "unique_positions s = distinct (map pos_id (positions s))"

definition position_ids :: "wallet_state \<Rightarrow> string set" where
  "position_ids s = pos_id ` set (positions s)"

text \<open>The position a codec writes is the position it reads back.\<close>

definition serde_ok :: "position_serde \<Rightarrow> position \<Rightarrow> bool" where
  "serde_ok C p = (case to_value C p of Inl _ \<Rightarrow> False | Inr j \<Rightarrow> from_value C j = Inr p)"

lemma snapshot_patch_roundtrip:
  "serde_ok C p \<Longrightarrow> apply_position_patch C q (snapshot_patch C p) = Inr p"
  by (auto simp: serde_ok_def apply_position_patch_def snapshot_patch_def map_err_def Let_def
      split: sum.splits)

lemma update_first_find:
  "find p xs = Some x \<Longrightarrow> f x = Inr y \<Longrightarrow>
     \<exists>ys zs. xs = ys @ x # zs \<and> (\<forall>z \<in> set ys. \<not> p z) \<and> update_first p f e xs = Inr (ys @ y # zs)"
proof (induction xs)
  case Nil
  then show ?case by simp
next
  case (Cons a xs)
  show ?case
  proof (cases "p a")
    case True
    with Cons.prems show ?thesis by (intro exI [of _ "[]"] exI [of _ xs]) simp
  next
    case False
    with Cons obtain ys zs where "xs = ys @ x # zs" "\<forall>z \<in> set ys. \<not> p z"
      "update_first p f e xs = Inr (ys @ y # zs)" by auto
    with False show ?thesis by (intro exI [of _ "a # ys"] exI [of _ zs]) simp
  qed
qed

text \<open>
  A queued update keeps ids when patching a position of the addressed id leaves its id alone; the
  snapshots queued by the \<open>upsert_*\<close> helpers do whenever the caller's closure does.
\<close>

definition id_keeping :: "position_serde \<Rightarrow> position_change \<Rightarrow> bool" where
  "id_keeping C c =
     (case c of
        UpdatePosition i patch \<Rightarrow>
          (\<forall>q p. pos_id q = i \<longrightarrow> apply_position_patch C q patch = Inr p \<longrightarrow> pos_id p = i)
      | _ \<Rightarrow> True)"

lemma update_first_ids:
  assumes "update_first (\<lambda>p. pos_id p = i) f e xs = Inr ys"
    and "\<And>q p. pos_id q = i \<Longrightarrow> f q = Inr p \<Longrightarrow> pos_id p = i"
  shows "map pos_id ys = map pos_id xs"
  using assms(1)
proof (induction xs arbitrary: ys)
  case (Cons x xs)
  show ?case
  proof (cases "pos_id x = i")
    case True
    with Cons.prems assms(2) [of x] show ?thesis by (auto simp: result_iff)
  next
    case False
    with Cons.prems Cons.IH show ?thesis by (auto simp: result_iff)
  qed
qed simp

fun track_ids :: "string list \<Rightarrow> position_change \<Rightarrow> string list" where
  "track_ids ids (OpenPosition p) = ids @ [pos_id p]"
| "track_ids ids (ClosePosition i) = filter (\<lambda>j. j \<noteq> i) ids"
| "track_ids ids (UpdatePosition _ _) = ids"

lemma position_change_ids:
  assumes "apply_position_change C s c = Inr s'" and "id_keeping C c"
  shows "map pos_id (positions s') = track_ids (map pos_id (positions s)) c"
proof (cases c)
  case (UpdatePosition i patch)
  with assms show ?thesis
    by (auto simp: result_iff id_keeping_def intro!: update_first_ids)
next
  case (ClosePosition i)
  with assms(1) show ?thesis
    by (auto simp: Let_def filter_map o_def split: if_splits)
qed (use assms(1) in auto)

lemma position_changes_ids:
  assumes "rfold (apply_position_change C) s cs = Inr s'" and "list_all (id_keeping C) cs"
  shows "map pos_id (positions s') = foldl track_ids (map pos_id (positions s)) cs"
  using assms
proof (induction cs arbitrary: s)
  case (Cons c cs)
  from Cons.prems obtain t where step: "apply_position_change C s c = Inr t"
    and rest: "rfold (apply_position_change C) t cs = Inr s'"
    by (auto simp: result_iff)
  with Cons.prems(2) Cons.IH [OF rest] position_change_ids [OF step] show ?case by simp
qed simp

lemma exists_step_tracked: "exists_step i c (i \<in> set ids) \<longleftrightarrow> i \<in> set (track_ids ids c)"
  by (cases c) auto

lemma effective_exists_tracked:
  "effective_exists s d i \<longleftrightarrow>
     i \<in> set (foldl track_ids (map pos_id (positions s)) (position_changes d))"
proof -
  have "fold (exists_step i) cs (i \<in> set ids) \<longleftrightarrow> i \<in> set (foldl track_ids ids cs)" for cs ids
    by (induction cs arbitrary: ids) (simp_all add: exists_step_tracked)
  moreover have "list_ex (\<lambda>p. pos_id p = i) (positions s) \<longleftrightarrow> i \<in> set (map pos_id (positions s))"
    by (auto simp: list_ex_iff)
  ultimately show ?thesis
    by (simp only: effective_exists_def)
qed

lemma effective_exists_applied:
  assumes "rfold (apply_position_change C) s (position_changes d) = Inr s'"
    and "list_all (id_keeping C) (position_changes d)"
  shows "effective_exists s d i \<longleftrightarrow> i \<in> position_ids s'"
  using position_changes_ids [OF assms]
  by (simp add: effective_exists_tracked position_ids_def flip: list.set_map)

lemma effective_exists_after:
  assumes "gas_paid d = None" and "apply_delta C s d = Inr s1"
    and "list_all (id_keeping C) (position_changes d)"
  shows "effective_exists s d i \<longleftrightarrow> i \<in> position_ids s1"
proof -
  from assms(1,2) obtain t1 t2 where
    run: "rfold apply_token_change s (token_changes d) = Inr t1"
      "rfold (apply_position_change C) t1 (position_changes d) = Inr t2"
      "rfold apply_pending_change t2 (pending_changes d) = Inr s1"
    by (auto simp: apply_delta_iff)
  have "effective_exists s d i = effective_exists t1 d i"
    using tok_frame.loop_frame [OF run(1)] by (simp add: effective_exists_def)
  moreover have "position_ids t2 = position_ids s1"
    using pend_frame.loop_frame [OF run(3)] by (simp add: position_ids_def)
  ultimately show ?thesis
    using effective_exists_applied [OF run(2) assms(3)] by simp
qed

lemma open_position_delta:
  assumes "gas_paid d = None" and "apply_delta C s d = Inr s1"
    and "list_all (id_keeping C) (position_changes d)" and "unique_positions s1"
    and "open_position s d p = Inr d'"
  shows "apply_delta C s d' = Inr (s1\<lparr>positions := positions s1 @ [p]\<rparr>) \<and>
    unique_positions (s1\<lparr>positions := positions s1 @ [p]\<rparr>)"
proof -
  from assms(5) have fresh: "\<not> effective_exists s d (pos_id p)"
    and d': "d' = push_position_change d (OpenPosition p)"
    by (auto simp: open_position_def split: if_splits)
  from fresh have "pos_id p \<notin> position_ids s1"
    using effective_exists_after [OF assms(1-3)] by simp
  moreover have "apply_delta C s d' = Inr (s1\<lparr>positions := positions s1 @ [p]\<rparr>)"
    unfolding d' apply_push_position [OF assms(1,2)] by simp
  ultimately show ?thesis
    using assms(4) by (auto simp: unique_positions_def position_ids_def)
qed

lemma close_position_delta:
  assumes "gas_paid d = None" and "apply_delta C s d = Inr s1"
    and "list_all (id_keeping C) (position_changes d)"
  shows "(i \<in> position_ids s1 \<and> (\<exists>d'. close_position s d i = Inr d' \<and>
      apply_delta C s d' = Inr (s1\<lparr>positions := filter (\<lambda>p. pos_id p \<noteq> i) (positions s1)\<rparr>)))
    \<or> (i \<notin> position_ids s1 \<and> close_position s d i = Inl (PositionNotFound i))"
proof (cases "i \<in> position_ids s1")
  case True
  then obtain p where "p \<in> set (positions s1)" "pos_id p = i"
    by (auto simp: position_ids_def)
  then have "length (filter (\<lambda>p. pos_id p \<noteq> i) (positions s1)) < length (positions s1)"
    by (intro length_filter_less) auto
  then have "apply_delta C s (push_position_change d (ClosePosition i))
      = Inr (s1\<lparr>positions := filter (\<lambda>p. pos_id p \<noteq> i) (positions s1)\<rparr>)"
    unfolding apply_push_position [OF assms(1,2)] by simp
  with True show ?thesis
    using effective_exists_after [OF assms] by (simp add: close_position_def)
next
  case False
  then show ?thesis
    using effective_exists_after [OF assms] by (simp add: close_position_def)
qed

section \<open>Updating a position\<close>

context position_upsert
begin

lemma upsert_applied:
  assumes "upsert C s state_delta_new i mutate = Inr d"
    and "\<And>p. find (\<lambda>p. pos_id p = i) (positions s) = Some p \<Longrightarrow> serde_ok C (mutate p)"
  shows "\<exists>p before after. positions s = before @ p # after \<and> pos_id p = i \<and>
     i \<notin> pos_id ` set before \<and>
     apply_delta C s d = Inr (s\<lparr>positions := before @ mutate p # after\<rparr>)"
proof -
  from assms(1) obtain p where found: "find (\<lambda>p. pos_id p = i) (positions s) = Some p"
    and d: "d = push_position_change state_delta_new (UpdatePosition i (snapshot_patch C (mutate p)))"
    by (auto simp: upsert_Inr effective_position_def)
  have patched: "apply_position_patch C p (snapshot_patch C (mutate p)) = Inr (mutate p)"
    by (rule snapshot_patch_roundtrip [OF assms(2) [OF found]])
  from update_first_find [OF found, where f = "\<lambda>q. apply_position_patch C q (snapshot_patch C (mutate p))",
      OF patched, of "PositionNotFound i"]
  obtain before after where "positions s = before @ p # after" "\<forall>z \<in> set before. pos_id z \<noteq> i"
    "update_first (\<lambda>p. pos_id p = i) (\<lambda>q. apply_position_patch C q (snapshot_patch C (mutate p)))
       (PositionNotFound i) (positions s) = Inr (before @ mutate p # after)"
    by blast
  moreover have "pos_id p = i"
    using found by (auto simp: find_Some_iff)
  ultimately show ?thesis
    by (intro exI [of _ p] exI [of _ before] exI [of _ after]) (auto simp: d apply_delta_def)
qed

text \<open>
  A queued update is not part of the effective position, so a second update starts again from the
  committed position and its snapshot replaces the first one.
\<close>

lemma second_upsert_forgets_first:
  assumes "upsert C s state_delta_new i first = Inr d1" and "upsert C s d1 i second = Inr d2"
  shows "\<exists>p. find (\<lambda>p. pos_id p = i) (positions s) = Some p \<and>
     position_changes d2 =
       [UpdatePosition i (snapshot_patch C (first p)), UpdatePosition i (snapshot_patch C (second p))]"
  using assms by (auto simp: upsert_Inr effective_position_def)

lemma second_upsert_applied:
  assumes "upsert C s state_delta_new i first = Inr d1" and "upsert C s d1 i second = Inr d2"
    and found: "find (\<lambda>p. pos_id p = i) (positions s) = Some p"
    and "serde_ok C (first p)" and same: "pos_id (first p) = i" and "serde_ok C (second p)"
  shows "\<exists>before after. positions s = before @ p # after \<and>
     apply_delta C s d2 = Inr (s\<lparr>positions := before @ second p # after\<rparr>)"
proof -
  let ?patch = "\<lambda>f q. apply_position_patch C q (snapshot_patch C (f p))"
  let ?upd = "\<lambda>f. update_first (\<lambda>p. pos_id p = i) (?patch f) (PositionNotFound i)"
  have changes: "position_changes d2 = [UpdatePosition i (snapshot_patch C (first p)),
      UpdatePosition i (snapshot_patch C (second p))]"
    and rest: "token_changes d2 = []" "pending_changes d2 = []" "gas_paid d2 = None"
    using second_upsert_forgets_first [OF assms(1,2)] found assms(1,2) by (auto simp: upsert_Inr)
  have patched: "?patch first q = Inr (first p)" "?patch second q = Inr (second p)" for q
    by (rule snapshot_patch_roundtrip, fact)+
  from update_first_find [OF found, of "?patch first", OF patched(1), of "PositionNotFound i"] obtain before after where
    split: "positions s = before @ p # after" "\<forall>z \<in> set before. pos_id z \<noteq> i"
    and one: "?upd first (positions s) = Inr (before @ first p # after)"
    by blast
  have "?upd second (before @ first p # after) = Inr (before @ second p # after)"
    using split(2) same patched(2) by (induction before) auto
  with one have "apply_delta C s d2 = Inr (s\<lparr>positions := before @ second p # after\<rparr>)"
    by (simp add: apply_delta_def changes rest)
  with split(1) show ?thesis by blast
qed

end

end
