(* ===== verification/TokenEffects.thy ===== *)
theory TokenEffects
  imports TokenActions Balances ApprovalHelpers PositionHelpers
begin

text \<open>
  \<^verbatim>\<open>asset-model/transition/src/effect/token.rs\<close>: what each token action does to a wallet, as a delta.
  On-chain approvals and transfers become token changes, off-chain signatures become pending entries.
\<close>

section \<open>Pending identifiers\<close>

definition pending_user_source :: data_source where
  "pending_user_source = UserSupplied"

definition pending_id_for_eip2612 :: "string \<Rightarrow> string \<Rightarrow> string \<Rightarrow> string" where
  "pending_id_for_eip2612 token_addr_hex spender_hex nonce =
     ''eip2612:'' @ token_addr_hex @ '':'' @ spender_hex @ '':'' @ nonce"

definition pending_id_for_permit2 :: "string \<Rightarrow> string \<Rightarrow> string \<Rightarrow> u8 \<Rightarrow> string" where
  "pending_id_for_permit2 token_addr_hex spender_hex w bit' =
     ''permit2:'' @ token_addr_hex @ '':'' @ spender_hex @ '':'' @ w @ '':'' @ dec_string (unat bit')"

definition pending_id_for_permit2_transfer ::
  "string \<Rightarrow> string \<Rightarrow> string \<Rightarrow> string \<Rightarrow> u8 \<Rightarrow> string" where
  "pending_id_for_permit2_transfer token_addr_hex owner_hex spender_hex w bit' =
     ''permit2-transfer:'' @ token_addr_hex @ '':'' @ owner_hex @ '':'' @ spender_hex @ '':'' @ w @ '':''
       @ dec_string (unat bit')"

section \<open>Reducers\<close>

definition wrap_native_apply ::
  "wrap_native_action \<Rightarrow> wallet_state \<Rightarrow> eval_context \<Rightarrow> state_delta reducer_result" where
  "wrap_native_apply a s ctx = Inr state_delta_new"

definition unwrap_native_apply ::
  "unwrap_native_action \<Rightarrow> wallet_state \<Rightarrow> eval_context \<Rightarrow> state_delta reducer_result" where
  "unwrap_native_apply a s ctx = Inr state_delta_new"

definition erc20_approve_apply ::
  "erc20_approve_action \<Rightarrow> wallet_state \<Rightarrow> eval_context \<Rightarrow> state_delta reducer_result" where
  "erc20_approve_apply a s ctx =
     set_erc20_allowance s state_delta_new (now ctx) (eap_token a) (eap_spender a) (eap_amount a)"

definition erc20_permit_apply ::
  "erc20_permit_action \<Rightarrow> wallet_state \<Rightarrow> eval_context \<Rightarrow> state_delta reducer_result" where
  "erc20_permit_apply a s ctx =
     (case ref_key (epm_token a) of
        Erc20 _ token_addr \<Rightarrow>
          let nonce_value = lf_value (epm_nonce a);
              i = pending_id_for_eip2612 (lowercase_hex token_addr) (lowercase_hex (epm_spender a))
                    (dec_string (unat nonce_value));
              p = PendingTx i
                    (SignedEIP2612 (epm_token a) (epm_spender a) (epm_amount a) (epm_deadline a) nonce_value)
                    (PermitCap (epm_token a) (epm_spender a) (epm_amount a))
                    state_delta_new
                    \<lparr>pl_status = Active, valid_until = Some (epm_deadline a),
                     pl_nonce = Some (Eip2612Nonce token_addr nonce_value), on_chain_tx = None,
                     raw_status = None\<rparr>
                    pending_user_source (now ctx) []
          in Inr (push_pending_change state_delta_new (AddPending p))
      | _ \<Rightarrow> Inl (Invariant ''Erc20PermitAction.token must be Erc20''))"

definition permit2_approve_apply ::
  "permit2_approve_action \<Rightarrow> wallet_state \<Rightarrow> eval_context \<Rightarrow> state_delta reducer_result" where
  "permit2_approve_apply a s ctx =
     upsert_permit2_allowance s state_delta_new (p2a_token a) (p2a_spender a) (p2a_amount a)
       (p2a_expires_at a)"

definition permit2_sign_apply ::
  "permit2_sign_action \<Rightarrow> wallet_state \<Rightarrow> eval_context \<Rightarrow> state_delta reducer_result" where
  "permit2_sign_apply a s ctx =
     (case ref_key (p2s_token a) of
        Erc20 _ token_addr \<Rightarrow>
          let (w, bit') = lf_value (p2s_nonce a);
              i = pending_id_for_permit2 (lowercase_hex token_addr) (lowercase_hex (p2s_spender a))
                    (dec_string (unat w)) bit';
              p = PendingTx i
                    (SignedPermit2 (p2s_token a) (p2s_spender a) (p2s_amount a) (p2s_expires_at a) (w, bit'))
                    (PermitCap (p2s_token a) (p2s_spender a) (p2s_amount a))
                    state_delta_new
                    \<lparr>pl_status = Active, valid_until = Some (p2s_expires_at a),
                     pl_nonce = Some (Permit2Nonce w bit'), on_chain_tx = None, raw_status = None\<rparr>
                    pending_user_source (now ctx) []
          in Inr (push_pending_change state_delta_new (AddPending p))
      | _ \<Rightarrow> Inl (Invariant ''Permit2SignAction.token must be Erc20''))"

definition permit2_sign_transfer_apply ::
  "permit2_sign_transfer_action \<Rightarrow> wallet_state \<Rightarrow> eval_context \<Rightarrow> state_delta reducer_result" where
  "permit2_sign_transfer_apply a s ctx =
     (if p2t_owner a \<noteq> wid_address (ws_id s) then Inr state_delta_new
      else
        case ref_key (p2t_token a) of
          Erc20 _ token_addr \<Rightarrow>
            let (w, bit') = lf_value (p2t_nonce a);
                i = pending_id_for_permit2_transfer (lowercase_hex token_addr)
                      (lowercase_hex (p2t_owner a)) (lowercase_hex (p2t_spender a))
                      (dec_string (unat w)) bit';
                p = PendingTx i
                      (SignedPermit2Transfer (p2t_token a) (p2t_owner a) (p2t_spender a) (p2t_amount a)
                        (p2t_sig_deadline a) (w, bit') (p2t_witness_type a))
                      (PermitCap (p2t_token a) (p2t_spender a) (p2t_amount a))
                      state_delta_new
                      \<lparr>pl_status = Active, valid_until = Some (p2t_sig_deadline a),
                       pl_nonce = Some (Permit2Nonce w bit'), on_chain_tx = None, raw_status = None\<rparr>
                      pending_user_source (now ctx) []
            in Inr (push_pending_change state_delta_new (AddPending p))
        | _ \<Rightarrow> Inl (Invariant ''Permit2SignTransferAction.token must be Erc20''))"

definition permit2_transfer_from_apply ::
  "permit2_transfer_from_action \<Rightarrow> wallet_state \<Rightarrow> eval_context \<Rightarrow> state_delta reducer_result" where
  "permit2_transfer_from_apply a s ctx =
     (if p2f_owner a \<noteq> wid_address (ws_id s) then Inr state_delta_new
      else if \<not> is_erc20 (ref_key (p2f_token a))
      then Inl (Invariant ''Permit2TransferFromAction.token must be Erc20'')
      else transfer s state_delta_new (ref_key (p2f_token a)) (p2f_recipient a) (p2f_amount a))"

definition erc20_transfer_apply ::
  "erc20_transfer_action \<Rightarrow> wallet_state \<Rightarrow> eval_context \<Rightarrow> state_delta reducer_result" where
  "erc20_transfer_apply a s ctx =
     transfer s state_delta_new (ref_key (etr_token a)) (etr_recipient a) (etr_amount a)"

definition nft_approve_apply ::
  "nft_approve_action \<Rightarrow> wallet_state \<Rightarrow> eval_context \<Rightarrow> state_delta reducer_result" where
  "nft_approve_apply a s ctx =
     set_nft_approve s state_delta_new (now ctx) (nap_nft_key a) (nap_spender a)"

definition nft_set_for_all_apply ::
  "nft_set_for_all_action \<Rightarrow> wallet_state \<Rightarrow> eval_context \<Rightarrow> state_delta reducer_result" where
  "nft_set_for_all_apply a s ctx =
     set_for_all_helper s state_delta_new (now ctx) (nsa_chain a) (nsa_contract a) (nsa_spender a)
       (nsa_approved a)"

definition nft_transfer_apply ::
  "nft_transfer_action \<Rightarrow> wallet_state \<Rightarrow> eval_context \<Rightarrow> state_delta reducer_result" where
  "nft_transfer_apply a s ctx =
     transfer_nft s state_delta_new (ntr_nft_key a) (ntr_recipient a) (ntr_amount a)"

definition revoke_approval_apply ::
  "revoke_approval_action \<Rightarrow> wallet_state \<Rightarrow> eval_context \<Rightarrow> state_delta reducer_result" where
  "revoke_approval_apply a s ctx =
     (case rva_scope a of
        RevokeErc20 token sp \<Rightarrow> revoke_erc20_allowance s state_delta_new token sp
      | NftSingleToken nft_key \<Rightarrow> set_nft_approve s state_delta_new 0 nft_key 0
      | NftSetForAll chain contract sp \<Rightarrow>
          set_for_all_helper s state_delta_new 0 chain contract sp False
      | Permit2Lockdown token sp \<Rightarrow> revoke_permit2_allowance s state_delta_new token sp
      | Permit2UnorderedNonce _ _ _ \<Rightarrow> Inr state_delta_new)"

fun token_action_apply ::
  "token_action \<Rightarrow> wallet_state \<Rightarrow> eval_context \<Rightarrow> state_delta reducer_result" where
  "token_action_apply (Erc20Approve a) = erc20_approve_apply a"
| "token_action_apply (Erc20Permit a) = erc20_permit_apply a"
| "token_action_apply (Permit2Approve a) = permit2_approve_apply a"
| "token_action_apply (Permit2SignAllowance a) = permit2_sign_apply a"
| "token_action_apply (Permit2SignTransfer a) = permit2_sign_transfer_apply a"
| "token_action_apply (Permit2TransferFrom a) = permit2_transfer_from_apply a"
| "token_action_apply (Erc20Transfer a) = erc20_transfer_apply a"
| "token_action_apply (NftApprove a) = nft_approve_apply a"
| "token_action_apply (NftSetApprovalForAll a) = nft_set_for_all_apply a"
| "token_action_apply (NftTransfer a) = nft_transfer_apply a"
| "token_action_apply (RevokeApproval a) = revoke_approval_apply a"
| "token_action_apply (WrapNative a) = wrap_native_apply a"
| "token_action_apply (UnwrapNative a) = unwrap_native_apply a"

section \<open>The contract of a reducer\<close>

text \<open>
  What every reducer promises about the delta it returns: it is well formed and charges no gas.
  The multicall relies on the second point, since merging deltas is sequencing only without gas.
\<close>

locale reducer =
  fixes reduce :: "'a \<Rightarrow> wallet_state \<Rightarrow> eval_context \<Rightarrow> state_delta reducer_result"
  assumes reduce_no_gas: "reduce a s ctx = Inr d \<Longrightarrow> gas_paid d = None"
    and reduce_wf: "reduce a s ctx = Inr d \<Longrightarrow> wf_delta d"
begin

lemma reduce_keeps_wf:
  "reduce a s ctx = Inr d \<Longrightarrow> apply_delta C s d = Inr s' \<Longrightarrow> wf_wallet s \<Longrightarrow> wf_wallet s'"
  by (blast intro: apply_delta_keeps_wf dest: reduce_wf)

text \<open>Two reductions in a row, the second on the state after the first, merge into one delta.\<close>

lemma reduce_twice_merges:
  assumes "reduce a s ctx = Inr d1" and "apply_delta C s d1 = Inr t"
    and "reduce b t ctx' = Inr d2" and "apply_delta C t d2 = Inr u"
  shows "\<exists>m. merge_delta d1 d2 = Inr m \<and> gas_paid m = None \<and> apply_delta C s m = Inr u"
proof -
  note gas = reduce_no_gas [OF assms(1)] reduce_no_gas [OF assms(3)]
  from merge_delta_no_gas [OF gas(1), of d2] gas(2) obtain m where
    m: "merge_delta d1 d2 = Inr m" "gas_paid m = None"
    by simp
  with merge_is_sequence [OF gas(1) m(1)] assms(2,4) show ?thesis by simp
qed

end

section \<open>Token actions honour the contract\<close>

lemmas token_effect_defs =
  wrap_native_apply_def unwrap_native_apply_def erc20_approve_apply_def erc20_permit_apply_def
  permit2_approve_apply_def permit2_sign_apply_def permit2_sign_transfer_apply_def
  permit2_transfer_from_apply_def erc20_transfer_apply_def nft_approve_apply_def
  nft_set_for_all_apply_def nft_transfer_apply_def revoke_approval_apply_def

lemma wf_delta_new [simp]: "wf_delta state_delta_new"
  by (simp add: wf_delta_def)

lemma wf_delta_push_token [simp]:
  "wf_delta (push_token_change d c) \<longleftrightarrow> wf_delta d \<and> wf_token_change c"
  by (simp add: wf_delta_def)

lemma wf_delta_push_pending [simp]: "wf_delta (push_pending_change d c) = wf_delta d"
  by (simp add: wf_delta_def)

lemma debit_no_gas_wf: "debit s d k a = Inr d' \<Longrightarrow> gas_paid d' = gas_paid d \<and> wf_delta d' = wf_delta d"
  by (auto simp: debit_def result_iff Let_def split: if_splits)

lemma credit_no_gas_wf: "credit s d k a = Inr d' \<Longrightarrow> gas_paid d' = gas_paid d \<and> wf_delta d' = wf_delta d"
  by (auto simp: credit_def result_iff split: if_splits)

lemma transfer_nft_no_gas_wf:
  "transfer_nft s d k r a = Inr d' \<Longrightarrow> gas_paid d' = gas_paid d \<and> wf_delta d' = wf_delta d"
  by (cases k) (auto simp: result_iff dest: debit_no_gas_wf)

lemma token_action_contract:
  "token_action_apply a s ctx = Inr d \<Longrightarrow> gas_paid d = None \<and> wf_delta d"
  by (cases a)
    (auto simp: token_effect_defs approval_helper_defs transfer_def allowance_spec_literal
      dest!: debit_no_gas_wf transfer_nft_no_gas_wf
      split: token_key.splits if_splits revoke_scope.splits prod.splits)

interpretation token: reducer token_action_apply
  by unfold_locales (simp_all add: token_action_contract)

section \<open>Identifiers can be taken apart\<close>

lemma digit_char_not_colon: "d < 10 \<Longrightarrow> digit_char d \<noteq> CHR '':''"
  by (auto simp: digit_char_def char_of_eq_iff take_bit_eq_mod)

lemma dec_string_no_colon: "CHR '':'' \<notin> set (dec_string n)"
proof (induction n rule: dec_string.induct)
  case (1 n)
  then show ?case
    by (auto simp: dec_string.simps [of n] digit_char_not_colon [symmetric])
qed

lemma dec_string_colon_inject:
  "dec_string m @ CHR '':'' # xs = dec_string n @ CHR '':'' # ys \<longleftrightarrow> m = n \<and> xs = ys"
proof
  assume eq: "dec_string m @ CHR '':'' # xs = dec_string n @ CHR '':'' # ys"
  have split: "takeWhile (\<lambda>c. c \<noteq> CHR '':'') (dec_string k @ CHR '':'' # zs) = dec_string k" for k zs
    using dec_string_no_colon [of k] by (subst takeWhile_append2) auto
  have "dec_string m = dec_string n"
    using arg_cong [OF eq, of "takeWhile (\<lambda>c. c \<noteq> CHR '':'')"] by (simp only: split)
  with eq show "m = n \<and> xs = ys" by simp
qed simp

end
