(* ===== verification/Fixtures.thy ===== *)
theory Fixtures
  imports TokenEffects
begin

text \<open>
  Concrete wallets, tokens and actions at which the properties are instantiated. Nothing here models
  code: these are inputs for the definitions.
\<close>

definition usdc :: token_key where
  "usdc = Erc20 ethereum_mainnet 0xA0b86991c6218b36c1d19D4a2e9Eb0cE3606eB48"

definition ether :: token_key where
  "ether = Native ethereum_mainnet"

definition punk :: token_key where
  "punk = Erc721 ethereum_mainnet 0xb47e3cd837dDF8e4c57F05d70Ab865de6e193BBB 7"

definition alice :: address where
  "alice = 0xa11ce"

definition router :: address where
  "router = 0xbeef"

definition sample_holding :: "token_key \<Rightarrow> balance \<Rightarrow> token_holding" where
  "sample_holding k b =
     \<lparr>th_key = k, th_kind = BaseToken Stable None, symbol = ''TOK'', decimals = 6, th_balance = b,
      committed = zero_fungible, approved_to = None, price_usd = None, metadata = None,
      value_usd = None, last_synced_at = 0, th_source = UserSupplied\<rparr>"

definition sample_wallet :: wallet_state where
  "sample_wallet =
     (wallet_state_new \<lparr>wid_address = alice, wid_chains = {ethereum_mainnet}\<rparr>)
       \<lparr>tokens := Mapping.update usdc (sample_holding usdc (Fungible 1000))
         (Mapping.update ether (sample_holding ether (Fungible 5))
         (Mapping.update punk (sample_holding punk Owned) Mapping.empty))\<rparr>"

definition sample_ctx :: eval_context where
  "sample_ctx = eval_context_new ethereum_mainnet 1738000000 Transaction"

definition sample_position :: position where
  "sample_position =
     \<lparr>pos_id = ''hl:account'', pos_protocol = protocol_ref_new ''hyperliquid'', pos_chain = None,
      pos_kind = HyperliquidAccount hl_account_default, pos_synced_at = 0, pos_source = UserSupplied\<rparr>"

text \<open>A codec that knows one position; enough to run the snapshot path on it.\<close>

definition one_position_serde :: "position \<Rightarrow> position_serde" where
  "one_position_serde p =
     \<lparr>to_value = (\<lambda>q. if q = p then Inr (JStr ''p'') else Inl ''unsupported''),
      from_value = (\<lambda>j. if j = JStr ''p'' then Inr p else Inl ''unsupported'')\<rparr>"

definition sample_serde :: position_serde where
  "sample_serde = one_position_serde sample_position"

lemmas fixture_defs =
  usdc_def ether_def punk_def alice_def router_def sample_holding_def sample_wallet_def
  sample_ctx_def sample_position_def wallet_state_new_def zero_fungible_def

lemma sample_keys [simp]:
  "usdc \<noteq> ether" "ether \<noteq> usdc" "usdc \<noteq> punk" "punk \<noteq> usdc" "ether \<noteq> punk" "punk \<noteq> ether"
  "is_erc20 usdc" "\<not> is_erc20 ether" "\<not> is_erc20 punk"
  by (simp_all add: usdc_def ether_def punk_def)

lemma sample_tokens [simp]:
  "Mapping.lookup (tokens sample_wallet) usdc = Some (sample_holding usdc (Fungible 1000))"
  "Mapping.lookup (tokens sample_wallet) ether = Some (sample_holding ether (Fungible 5))"
  "Mapping.lookup (tokens sample_wallet) punk = Some (sample_holding punk Owned)"
  by (simp_all add: sample_wallet_def lookup_update')

lemma sample_holding_sel [simp]:
  "th_balance (sample_holding k b) = b" "th_key (sample_holding k b) = k"
  by (simp_all add: sample_holding_def)

lemma sample_fungible [simp]:
  "fungible_balance sample_wallet usdc = Some 1000" "fungible_balance sample_wallet ether = Some 5"
  by (simp_all add: fungible_balance_def)

lemma sample_wallet_sel [simp]:
  "approvals sample_wallet = approval_set_new" "positions sample_wallet = []"
  "pending sample_wallet = []" "wid_address (ws_id sample_wallet) = alice"
  by (simp_all add: sample_wallet_def wallet_state_new_def)

lemma sample_wallet_wf: "wf_wallet sample_wallet"
  by (auto simp: wf_wallet_def sample_wallet_def wallet_state_new_def wf_approvals_new lookup_update'
      split: if_splits)

lemma sample_position_sel [simp]:
  "pos_id sample_position = ''hl:account''" "is_hl_kind (pos_kind sample_position)"
  by (simp_all add: sample_position_def)

lemma one_position_serde_ok: "serde_ok (one_position_serde p) p"
  by (simp add: serde_ok_def one_position_serde_def)

end
