(* ===== verification/WalletProperties.thy ===== *)
theory WalletProperties
  imports Fixtures
begin

text \<open>
  The properties of the delta layer: what a delta does to a wallet, what the balance, approval and
  position helpers promise about the delta they grow, and what the token reducers amount to once
  their delta is applied.
\<close>

section \<open>Deltas\<close>

text \<open>C24. Merging two deltas is running them one after the other, when the first charges no gas: the
  merge always succeeds, and the merged delta leads to a wallet exactly when applying the first delta
  and then the second one does.\<close>

theorem merge_delta_sequences:
  assumes "gas_paid a = None"
  shows "\<exists>m. merge_delta a b = Inr m \<and>
    (\<forall>C s u. apply_delta C s m = Inr u \<longleftrightarrow> rbind (apply_delta C s a) (\<lambda>t. apply_delta C t b) = Inr u)"
  using merge_delta_no_gas [OF assms, of b] merge_is_sequence [OF assms] by blast

theorem merge_delta_sequences_witness:
  "\<exists>m. merge_delta (push_token_change state_delta_new (BalanceDelta usdc (- 3)))
      (push_token_change state_delta_new (BalanceDelta usdc 8)) = Inr m \<and>
    (\<forall>C s u. apply_delta C s m = Inr u \<longleftrightarrow>
      rbind (apply_delta C s (push_token_change state_delta_new (BalanceDelta usdc (- 3))))
        (\<lambda>t. apply_delta C t (push_token_change state_delta_new (BalanceDelta usdc 8))) = Inr u)"
  by (rule merge_delta_sequences) simp

text \<open>With gas in the first delta merging is not sequencing: gas is charged once, after all
  changes. Here the first delta cannot be applied because the wallet holds less than its gas, but
  merged with a later credit of the same token it goes through.\<close>

theorem merge_delta_defers_gas:
  "\<exists>s a b m. merge_delta a b = Inr m \<and> \<not> is_ok (rbind (apply_delta C s a) (\<lambda>t. apply_delta C t b)) \<and>
     is_ok (apply_delta C s m)"
proof -
  let ?a = "StateDelta [] [] [] (Some (TokenRef ether, 9))"
  let ?b = "push_token_change state_delta_new (BalanceDelta ether 7)"
  have "merge_delta ?a ?b
      = Inr (StateDelta [BalanceDelta ether 7] [] [] (Some (TokenRef ether, 9)))"
    by (simp add: merge_delta_def state_delta_new_def)
  moreover have "\<not> is_ok (rbind (apply_delta C sample_wallet ?a) (\<lambda>t. apply_delta C t ?b))"
    by (simp add: apply_delta_def apply_gas_paid_def checked_sub_def is_ok_def)
  moreover have "i256_saturating_add (u256_to_signed_saturating 5) 7 = 12"
    by (simp add: i256_saturating_add_def u256_to_signed_saturating_def i256_try_from_u256_def
        i256_clamp_def)
  then have "is_ok (apply_delta C sample_wallet
      (StateDelta [BalanceDelta ether 7] [] [] (Some (TokenRef ether, 9))))"
    by (simp add: apply_delta_def apply_balance_delta_def apply_gas_paid_def checked_sub_def is_ok_def
        lookup_update' signed_to_u256_saturating_def u256_try_from_i256_def)
  ultimately show ?thesis by blast
qed

text \<open>C26. Applying a well-formed delta to a well-formed wallet yields a well-formed wallet: every
  holding is filed under its own key, no contract is listed with an empty table of spenders, and the
  unlimited flag of every allowance agrees with its amount.\<close>

theorem apply_delta_wf:
  assumes "apply_delta C s d = Inr s'" and "wf_delta d" and "wf_wallet s"
  shows "wf_wallet s'"
  using assms by (rule apply_delta_keeps_wf)

theorem apply_delta_wf_witness:
  "\<exists>s'. apply_delta sample_serde sample_wallet (push_token_change state_delta_new
      (ApprovalSetChange usdc router (allowance_spec_new 50 1))) = Inr s' \<and> wf_wallet s'"
proof -
  obtain s' where s': "apply_delta sample_serde sample_wallet (push_token_change state_delta_new
      (ApprovalSetChange usdc router (allowance_spec_new 50 1))) = Inr s'"
    by (simp add: usdc_def apply_grant_erc20)
  from apply_delta_wf [OF s' _ sample_wallet_wf] s' show ?thesis by simp
qed

text \<open>C25. Balance accounting is exact: when a delta applies, the new balance of a fungible holding is
  the old one plus the sum of the balance changes for its key, minus the gas charged in that token.
  The side condition says the running balance stays below the signed 256-bit limit; above it the code
  saturates.\<close>

theorem apply_delta_accounting:
  assumes "apply_delta C s d = Inr s'" and "fungible_balance s k = Some b"
    and "int (unat b) + gross_credit k (token_changes d) < 2 ^ 255"
  shows "\<exists>b'. fungible_balance s' k = Some b' \<and>
    int (unat b') = int (unat b) + net_delta k (token_changes d) - gas_on k d"
  using assms by (rule apply_delta_balance)

theorem apply_delta_accounting_witness:
  "\<exists>s' b'. apply_delta sample_serde sample_wallet (StateDelta [] [] [] (Some (TokenRef ether, 2))) = Inr s' \<and>
    fungible_balance s' ether = Some b' \<and> int (unat b') = 3"
proof -
  obtain s' where s': "apply_delta sample_serde sample_wallet (StateDelta [] [] [] (Some (TokenRef ether, 2))) = Inr s'"
    by (simp add: apply_delta_def apply_gas_paid_def checked_sub_def)
  from apply_delta_accounting [OF s', of ether 5] s' show ?thesis
    by (simp add: gross_credit_def net_delta_def gas_on_def)
qed

section \<open>Balances\<close>

text \<open>C27. What a debit appends can be applied, and it takes exactly the amount: if the delta so far
  leads to a wallet, the delta after a successful debit leads to the same wallet with the holding
  reduced by the amount (both read through the signed 256-bit clamp) and all other balances unchanged.\<close>

theorem debit_takes_amount:
  assumes "gas_paid d = None" and "apply_delta C s d = Inr s1" and "debit s d k amount = Inr d'"
  shows "\<exists>ts b1 b2. apply_delta C s d' = Inr (s1\<lparr>tokens := ts\<rparr>) \<and>
    fungible_balance s1 k = Some b1 \<and> fungible_balance (s1\<lparr>tokens := ts\<rparr>) k = Some b2 \<and>
    (\<forall>k'. k' \<noteq> k \<longrightarrow> fungible_balance (s1\<lparr>tokens := ts\<rparr>) k' = fungible_balance s1 k') \<and>
    int (unat b2) = min (int (unat b1)) (2 ^ 255 - 1) - min (int (unat amount)) (2 ^ 255 - 1)"
  using assms by (rule debit_applied)

theorem debit_takes_amount_witness:
  "\<exists>d'. debit sample_wallet state_delta_new usdc 300 = Inr d' \<and>
    (\<exists>ts b2. apply_delta sample_serde sample_wallet d' = Inr (sample_wallet\<lparr>tokens := ts\<rparr>) \<and>
       fungible_balance (sample_wallet\<lparr>tokens := ts\<rparr>) usdc = Some b2 \<and> int (unat b2) = 700)"
proof -
  obtain d' where d': "debit sample_wallet state_delta_new usdc 300 = Inr d'"
    using debit_ok_iff [of state_delta_new sample_serde sample_wallet sample_wallet usdc 1000 1000 300]
    by (auto simp: is_ok_def split: sum.splits)
  from debit_takes_amount [of state_delta_new sample_serde sample_wallet sample_wallet usdc 300, OF _ _ this] d'
  show ?thesis by auto
qed

text \<open>A debit succeeds exactly when the balance, after everything queued so far, covers the amount;
  otherwise it is an error and nothing is queued.\<close>

theorem debit_guard:
  assumes "gas_paid d = None" and "apply_delta C s d = Inr s1" and "fungible_balance s k = Some b"
    and "fungible_balance s1 k = Some b1" and "int (unat b1) < 2 ^ 255 - 1"
  shows "(\<exists>d'. debit s d k amount = Inr d') \<longleftrightarrow> unat amount \<le> unat b1"
proof -
  have "(\<exists>d'. debit s d k amount = Inr d') \<longleftrightarrow> is_ok (debit s d k amount)"
    by (cases "debit s d k amount") (auto simp: is_ok_def)
  then show ?thesis
    using debit_ok_iff [OF assms(1-4), of amount] assms(5)
    by (simp only: min_le_iff_disj min.absorb1 less_imp_le zle_int) auto
qed

theorem debit_guard_witness:
  "\<not> (\<exists>d'. debit sample_wallet state_delta_new usdc 1001 = Inr d') \<and>
   (\<exists>d'. debit sample_wallet state_delta_new usdc 1000 = Inr d')"
  using debit_guard [of state_delta_new sample_serde sample_wallet sample_wallet usdc 1000 1000 1001]
    debit_guard [of state_delta_new sample_serde sample_wallet sample_wallet usdc 1000 1000 1000]
  by simp

text \<open>C30. Moving an ERC-721 token out of a wallet cannot be carried out: the transfer queues a balance
  change of minus one on the owned holding, and applying that delta is rejected.\<close>

theorem erc721_transfer_not_applicable:
  assumes "Mapping.lookup (tokens s) (Erc721 c a i) = Some h" and "th_balance h = Owned"
    and "ntr_nft_key act = Erc721 c a i" and "nft_transfer_apply act s ctx = Inr d"
  shows "apply_delta C s d = Inl (Invariant ''BalanceDelta on non-fungible holding'')"
  using erc721_change_rejected [OF assms(1,2)] assms(3,4) by (simp add: nft_transfer_apply_def)

theorem erc721_transfer_not_applicable_witness:
  "\<exists>d. nft_transfer_apply \<lparr>ntr_nft_key = punk, ntr_amount = None, ntr_recipient = router\<rparr>
      sample_wallet sample_ctx = Inr d \<and>
    apply_delta sample_serde sample_wallet d = Inl (Invariant ''BalanceDelta on non-fungible holding'')"
proof -
  let ?act = "\<lparr>ntr_nft_key = punk, ntr_amount = None, ntr_recipient = router\<rparr>"
  obtain d where d: "nft_transfer_apply ?act sample_wallet sample_ctx = Inr d"
    using sample_tokens(3) by (simp add: nft_transfer_apply_def punk_def)
  have held: "Mapping.lookup (tokens sample_wallet)
      (Erc721 ethereum_mainnet 0xb47e3cd837dDF8e4c57F05d70Ab865de6e193BBB 7)
      = Some (sample_holding punk Owned)"
    using sample_tokens(3) by (simp add: punk_def)
  from erc721_transfer_not_applicable [OF held _ _ d, of sample_serde] d show ?thesis
    by (simp add: punk_def)
qed

section \<open>Approvals\<close>

text \<open>C28. Applying an ERC-20 approval sets exactly the allowance of that token and spender to the
  approved amount, stamped with the evaluation time, and leaves every other allowance, every
  collection-wide approval and the rest of the wallet as they were.\<close>

theorem erc20_approve_sets_allowance:
  assumes "ref_key (eap_token act) = Erc20 c a" and "erc20_approve_apply act s ctx = Inr d"
  shows "\<exists>ap. apply_delta C s d = Inr (s\<lparr>approvals := ap\<rparr>) \<and>
    (\<forall>ck sp. allowance ap ck sp =
       (if ck = (c, a) \<and> sp = eap_spender act
        then Some (allowance_spec_new (eap_amount act) (now ctx)) else allowance (approvals s) ck sp)) \<and>
    (\<forall>ck sp. has_set_for_all ap ck sp = has_set_for_all (approvals s) ck sp) \<and>
    permit2 ap = permit2 (approvals s)"
proof -
  have "apply_delta C s d = Inr (s\<lparr>approvals := grant_erc20 (c, a) (eap_spender act)
      (allowance_spec_new (eap_amount act) (now ctx)) (approvals s)\<rparr>)"
    using assms by (auto simp: erc20_approve_apply_def set_erc20_allowance_eq apply_grant_erc20)
  then show ?thesis
    by (intro exI conjI, assumption)
      (simp_all add: allowance_grant_erc20, simp_all add: grant_erc20_def has_set_for_all_def)
qed

theorem erc20_approve_sets_allowance_witness:
  "\<exists>d ap. erc20_approve_apply \<lparr>eap_token = TokenRef usdc, eap_spender = router, eap_amount = 50\<rparr>
      sample_wallet sample_ctx = Inr d \<and> apply_delta sample_serde sample_wallet d = Inr (sample_wallet\<lparr>approvals := ap\<rparr>) \<and>
    allowance ap (ethereum_mainnet, 0xA0b86991c6218b36c1d19D4a2e9Eb0cE3606eB48) router
      = Some (allowance_spec_new 50 (now sample_ctx))"
proof -
  let ?act = "\<lparr>eap_token = TokenRef usdc, eap_spender = router, eap_amount = 50\<rparr>"
  obtain d where d: "erc20_approve_apply ?act sample_wallet sample_ctx = Inr d"
    by (simp add: erc20_approve_apply_def set_erc20_allowance_eq)
  from erc20_approve_sets_allowance [OF _ d, of ethereum_mainnet
      "0xA0b86991c6218b36c1d19D4a2e9Eb0cE3606eB48" sample_serde] d
  show ?thesis by (auto simp: usdc_def)
qed

text \<open>Revoking an ERC-20 allowance that was just granted restores the view every reader has of the
  approvals: the pair has no allowance, and all other entries are those of the original wallet.\<close>

theorem revoke_undoes_approve:
  assumes "ref_key (eap_token act) = Erc20 c a"
    and "erc20_approve_apply act s ctx = Inr d1" and "apply_delta C s d1 = Inr s1"
    and "rva_scope rvk = RevokeErc20 (eap_token act) (eap_spender act)"
    and "revoke_approval_apply rvk s1 ctx' = Inr d2"
  shows "\<exists>s2. apply_delta C s1 d2 = Inr s2 \<and>
    (\<forall>ck sp. allowance (approvals s2) ck sp =
       (if ck = (c, a) \<and> sp = eap_spender act then None else allowance (approvals s) ck sp)) \<and>
    (wf_wallet s \<longrightarrow> wf_wallet s2)"
proof -
  have s1: "s1 = s\<lparr>approvals := grant_erc20 (c, a) (eap_spender act)
      (allowance_spec_new (eap_amount act) (now ctx)) (approvals s)\<rparr>"
    using assms(1-3) by (auto simp: erc20_approve_apply_def set_erc20_allowance_eq apply_grant_erc20)
  have s2: "apply_delta C s1 d2
      = Inr (s1\<lparr>approvals := revoke_erc20 (c, a) (eap_spender act) (approvals s1)\<rparr>)"
    using assms(1,4,5)
    by (auto simp: revoke_approval_apply_def revoke_erc20_allowance_def apply_revoke_erc20)
  have "wf_wallet s \<longrightarrow> wf_wallet (s1\<lparr>approvals := revoke_erc20 (c, a) (eap_spender act) (approvals s1)\<rparr>)"
    by (simp add: s1 wf_wallet_def wf_revoke_erc20 wf_grant_erc20)
  with s2 show ?thesis
    by (auto simp: s1 allowance_revoke_erc20 allowance_grant_erc20)
qed

theorem revoke_undoes_approve_witness:
  "\<exists>d1 s1 d2 s2.
     erc20_approve_apply \<lparr>eap_token = TokenRef usdc, eap_spender = router, eap_amount = 50\<rparr>
       sample_wallet sample_ctx = Inr d1 \<and> apply_delta sample_serde sample_wallet d1 = Inr s1 \<and>
     revoke_approval_apply \<lparr>rva_scope = RevokeErc20 (TokenRef usdc) router\<rparr> s1 sample_ctx = Inr d2 \<and>
     apply_delta sample_serde s1 d2 = Inr s2 \<and> wf_wallet s2"
proof -
  let ?act = "\<lparr>eap_token = TokenRef usdc, eap_spender = router, eap_amount = 50\<rparr>"
  let ?rev = "\<lparr>rva_scope = RevokeErc20 (TokenRef usdc) router\<rparr>"
  obtain d1 where d1: "erc20_approve_apply ?act sample_wallet sample_ctx = Inr d1"
    by (simp add: erc20_approve_apply_def set_erc20_allowance_eq)
  then obtain s1 where s1: "apply_delta sample_serde sample_wallet d1 = Inr s1"
    by (auto simp: erc20_approve_apply_def set_erc20_allowance_eq usdc_def apply_grant_erc20)
  obtain d2 where d2: "revoke_approval_apply ?rev s1 sample_ctx = Inr d2"
    by (simp add: revoke_approval_apply_def revoke_erc20_allowance_def)
  have "ref_key (eap_token ?act) = Erc20 ethereum_mainnet 0xA0b86991c6218b36c1d19D4a2e9Eb0cE3606eB48"
    by (simp add: usdc_def)
  from revoke_undoes_approve [OF this d1 s1 _ d2] d1 s1 d2 sample_wallet_wf show ?thesis by auto
qed

text \<open>Toggling a collection-wide approval: after \<open>setApprovalForAll\<close> is applied, the operator is
  approved for the collection exactly when the flag was true, and no other collection or operator is
  affected.\<close>

theorem set_approval_for_all_toggles:
  "\<exists>d s2. nft_set_for_all_apply act s ctx = Inr d \<and> apply_delta C s d = Inr s2 \<and>
    tokens s2 = tokens s \<and>
    (\<forall>ck sp. has_set_for_all (approvals s2) ck sp \<longleftrightarrow>
       (if ck = (nsa_chain act, nsa_contract act) \<and> sp = nsa_spender act then nsa_approved act
        else has_set_for_all (approvals s) ck sp))"
proof (cases "nsa_approved act")
  case True
  then show ?thesis
    by (auto simp: nft_set_for_all_apply_def set_for_all_helper_def apply_grant_for_all
        has_set_for_all_grant)
next
  case False
  then show ?thesis
    by (auto simp: nft_set_for_all_apply_def set_for_all_helper_def apply_revoke_for_all
        has_set_for_all_revoke)
qed

text \<open>A Permit2 approval is recorded as an ERC-20 allowance granted to the Permit2 spender: after
  it is applied the Permit2 table is what it was, and the plain allowance table holds the amount with
  the expiry in the place of the time it was set.\<close>

theorem permit2_approve_lands_in_erc20:
  assumes "ref_key (p2a_token act) = Erc20 c a" and "permit2_approve_apply act s ctx = Inr d"
  shows "\<exists>s2. apply_delta C s d = Inr s2 \<and> permit2 (approvals s2) = permit2 (approvals s) \<and>
    allowance (approvals s2) (c, a) (p2a_spender act)
      = Some (allowance_spec_new (p2a_amount act) (p2a_expires_at act))"
proof -
  have "apply_delta C s d = Inr (s\<lparr>approvals := grant_erc20 (c, a) (p2a_spender act)
      (allowance_spec_new (p2a_amount act) (p2a_expires_at act)) (approvals s)\<rparr>)"
    using assms
    by (auto simp: permit2_approve_apply_def upsert_permit2_allowance_def allowance_spec_literal
        apply_grant_erc20)
  then show ?thesis by (auto simp: allowance_grant_erc20) (simp add: grant_erc20_def)
qed

theorem permit2_approve_lands_in_erc20_witness:
  "\<exists>d s2. permit2_approve_apply \<lparr>p2a_token = TokenRef usdc, p2a_spender = router, p2a_amount = 50,
       p2a_expires_at = 99\<rparr> sample_wallet sample_ctx = Inr d \<and>
     apply_delta sample_serde sample_wallet d = Inr s2 \<and> permit2 (approvals s2) = Mapping.empty"
proof -
  let ?act = "\<lparr>p2a_token = TokenRef usdc, p2a_spender = router, p2a_amount = 50, p2a_expires_at = 99\<rparr>"
  obtain d where d: "permit2_approve_apply ?act sample_wallet sample_ctx = Inr d"
    by (simp add: permit2_approve_apply_def upsert_permit2_allowance_def)
  have "ref_key (p2a_token ?act) = Erc20 ethereum_mainnet 0xA0b86991c6218b36c1d19D4a2e9Eb0cE3606eB48"
    by (simp add: usdc_def)
  from permit2_approve_lands_in_erc20 [OF this d, of sample_serde] d show ?thesis
    by (auto simp: approval_set_new_def)
qed

section \<open>Positions\<close>

text \<open>C29. Opening a position keeps position ids unique: when the delta so far leads to a wallet with
  unique ids, the helper's guard makes the extended delta lead to that wallet with the new position
  appended, and ids are still unique. The hypothesis on queued updates says patches keep the id of
  the position they address.\<close>

theorem open_position_keeps_unique:
  assumes "gas_paid d = None" and "apply_delta C s d = Inr s1"
    and "list_all (id_keeping C) (position_changes d)" and "unique_positions s1"
    and "open_position s d p = Inr d'"
  shows "apply_delta C s d' = Inr (s1\<lparr>positions := positions s1 @ [p]\<rparr>) \<and>
    unique_positions (s1\<lparr>positions := positions s1 @ [p]\<rparr>)"
  using assms by (rule open_position_delta)

theorem open_position_keeps_unique_witness:
  "\<exists>d'. open_position sample_wallet state_delta_new sample_position = Inr d' \<and>
    apply_delta sample_serde sample_wallet d' = Inr (sample_wallet\<lparr>positions := [sample_position]\<rparr>)"
proof -
  obtain d' where d': "open_position sample_wallet state_delta_new sample_position = Inr d'"
    by (simp add: open_position_def effective_exists_def)
  from open_position_keeps_unique [OF _ _ _ _ d', of sample_serde sample_wallet] d' show ?thesis
    by (simp add: unique_positions_def)
qed

text \<open>Closing a position removes every position of that id and nothing else, and it is an error
  exactly when no such position exists after the changes queued so far.\<close>

theorem close_position_removes:
  assumes "gas_paid d = None" and "apply_delta C s d = Inr s1"
    and "list_all (id_keeping C) (position_changes d)"
  shows "(i \<in> position_ids s1 \<and> (\<exists>d'. close_position s d i = Inr d' \<and>
      apply_delta C s d' = Inr (s1\<lparr>positions := filter (\<lambda>p. pos_id p \<noteq> i) (positions s1)\<rparr>)))
    \<or> (i \<notin> position_ids s1 \<and> close_position s d i = Inl (PositionNotFound i))"
  using assms by (rule close_position_delta)

theorem close_position_removes_witness:
  "close_position sample_wallet state_delta_new ''nope'' = Inl (PositionNotFound ''nope'')"
  using close_position_removes [of state_delta_new sample_serde
    sample_wallet sample_wallet "''nope''"]
  by (simp add: position_ids_def)

text \<open>Mutating the Hyperliquid account through a snapshot: when the codec reads back what it wrote
  for the new position, applying the delta replaces the first position with that id by the mutated one
  and keeps every other position, the order and the rest of the wallet.\<close>

theorem upsert_hl_account_replaces:
  assumes "upsert_hl_account C s state_delta_new i mutate = Inr d"
    and "\<And>p. find (\<lambda>p. pos_id p = i) (positions s) = Some p \<Longrightarrow> serde_ok C (mutate p)"
  shows "\<exists>p before after. positions s = before @ p # after \<and> pos_id p = i \<and>
     i \<notin> pos_id ` set before \<and>
     apply_delta C s d = Inr (s\<lparr>positions := before @ mutate p # after\<rparr>)"
  using assms by (rule hl.upsert_applied)

theorem upsert_hl_account_replaces_witness:
  "\<exists>d. upsert_hl_account (one_position_serde (sample_position\<lparr>pos_synced_at := 9\<rparr>))
      (sample_wallet\<lparr>positions := [sample_position]\<rparr>) state_delta_new ''hl:account''
      (\<lambda>p. p\<lparr>pos_synced_at := 9\<rparr>) = Inr d \<and>
    apply_delta (one_position_serde (sample_position\<lparr>pos_synced_at := 9\<rparr>))
      (sample_wallet\<lparr>positions := [sample_position]\<rparr>) d
      = Inr (sample_wallet\<lparr>positions := [sample_position\<lparr>pos_synced_at := 9\<rparr>]\<rparr>)"
proof -
  let ?C = "one_position_serde (sample_position\<lparr>pos_synced_at := 9\<rparr>)"
  let ?s = "sample_wallet\<lparr>positions := [sample_position]\<rparr>"
  obtain d where d: "upsert_hl_account ?C ?s state_delta_new ''hl:account'' (\<lambda>p. p\<lparr>pos_synced_at := 9\<rparr>) = Inr d"
    by (simp add: upsert_hl_account_def effective_position_def Let_def)
  have "find (\<lambda>p. pos_id p = ''hl:account'') (positions ?s) = Some p \<Longrightarrow>
      serde_ok ?C (p\<lparr>pos_synced_at := 9\<rparr>)" for p
    by (auto simp: one_position_serde_ok split: if_splits)
  from upsert_hl_account_replaces [OF d this] d show ?thesis
    by (auto simp: Cons_eq_append_conv)
qed

text \<open>Two updates of the same position in one delta do not compose: the second one starts again
  from the committed position, and because it is queued as a whole snapshot, applying the delta leaves
  the position as if the first update had not happened.\<close>

theorem second_update_forgets_first:
  assumes "upsert_hl_account C s state_delta_new i first = Inr d1"
    and "upsert_hl_account C s d1 i second = Inr d2"
    and "find (\<lambda>p. pos_id p = i) (positions s) = Some p"
    and "serde_ok C (first p)" and "pos_id (first p) = i" and "serde_ok C (second p)"
  shows "\<exists>before after. positions s = before @ p # after \<and>
     apply_delta C s d2 = Inr (s\<lparr>positions := before @ second p # after\<rparr>)"
  using assms by (rule hl.second_upsert_applied)

theorem second_update_forgets_first_witness:
  "\<exists>d1 d2. upsert_hl_account (one_position_serde sample_position)
      (sample_wallet\<lparr>positions := [sample_position]\<rparr>) state_delta_new ''hl:account'' id = Inr d1 \<and>
    upsert_hl_account (one_position_serde sample_position)
      (sample_wallet\<lparr>positions := [sample_position]\<rparr>) d1 ''hl:account'' id = Inr d2 \<and>
    apply_delta (one_position_serde sample_position)
      (sample_wallet\<lparr>positions := [sample_position]\<rparr>) d2
      = Inr (sample_wallet\<lparr>positions := [sample_position]\<rparr>)"
proof -
  let ?C = "one_position_serde sample_position"
  let ?s = "sample_wallet\<lparr>positions := [sample_position]\<rparr>"
  obtain d1 where d1: "upsert_hl_account ?C ?s state_delta_new ''hl:account'' id = Inr d1"
    by (simp add: upsert_hl_account_def effective_position_def)
  then have "position_changes d1 = [UpdatePosition ''hl:account'' (snapshot_patch ?C sample_position)]"
    by (simp add: hl.upsert_Inr effective_position_def)
  then obtain d2 where d2: "upsert_hl_account ?C ?s d1 ''hl:account'' id = Inr d2"
    by (simp add: upsert_hl_account_def effective_position_def)
  from second_update_forgets_first [OF d1 d2, of sample_position] d1 d2 show ?thesis
    by (auto simp: one_position_serde_ok Cons_eq_append_conv)
qed

section \<open>Token reducers\<close>

text \<open>Every token action keeps the wallet well formed: whatever delta its reducer returns, applying
  it to a well-formed wallet gives a well-formed wallet.\<close>

theorem token_action_keeps_wf:
  assumes "token_action_apply a s ctx = Inr d" and "apply_delta C s d = Inr s'" and "wf_wallet s"
  shows "wf_wallet s'"
  using assms by (rule token.reduce_keeps_wf)

theorem token_action_keeps_wf_witness:
  "\<exists>d s'. token_action_apply (Erc20Approve
      \<lparr>eap_token = TokenRef usdc, eap_spender = router, eap_amount = u256_max\<rparr>) sample_wallet sample_ctx = Inr d \<and>
    apply_delta sample_serde sample_wallet d = Inr s' \<and> wf_wallet s'"
proof -
  let ?a = "Erc20Approve \<lparr>eap_token = TokenRef usdc, eap_spender = router, eap_amount = u256_max\<rparr>"
  obtain d where d: "token_action_apply ?a sample_wallet sample_ctx = Inr d"
    by (simp add: erc20_approve_apply_def set_erc20_allowance_eq)
  then obtain s' where s': "apply_delta sample_serde sample_wallet d = Inr s'"
    by (auto simp: erc20_approve_apply_def set_erc20_allowance_eq usdc_def apply_grant_erc20)
  from token_action_keeps_wf [OF d s' sample_wallet_wf] d s' show ?thesis by blast
qed

text \<open>Signing an EIP-2612 permit changes nothing on chain: applying its delta only appends one
  pending entry, active until the permit's deadline, whose commitment caps what the spender may take of
  that token at the signed amount and of any other token at nothing.\<close>

theorem erc20_permit_only_pends:
  assumes "ref_key (epm_token a) = Erc20 c t"
  shows "\<exists>d p. erc20_permit_apply a s ctx = Inr d \<and>
    apply_delta C s d = Inr (s\<lparr>pending := pending s @ [p]\<rparr>) \<and>
    is_active_or_partial (ptx_lifecycle p) \<and> valid_until (ptx_lifecycle p) = Some (epm_deadline a) \<and>
    pl_nonce (ptx_lifecycle p) = Some (Eip2612Nonce t (lf_value (epm_nonce a))) \<and>
    (\<forall>k. cap_for (ptx_commitment p) k = (if k = Erc20 c t then epm_amount a else 0))"
  using assms
  by (auto simp: erc20_permit_apply_def apply_delta_def is_active_or_partial_def Let_def)

theorem erc20_permit_only_pends_witness:
  "\<exists>d p. erc20_permit_apply \<lparr>epm_token = TokenRef usdc, epm_spender = router, epm_amount = 50,
       epm_deadline = 99, epm_nonce = live_field_new 3 UserSupplied 0\<rparr> sample_wallet sample_ctx = Inr d \<and>
    apply_delta sample_serde sample_wallet d = Inr (sample_wallet\<lparr>pending := [p]\<rparr>) \<and>
    cap_for (ptx_commitment p) usdc = 50"
proof -
  let ?a = "\<lparr>epm_token = TokenRef usdc, epm_spender = router, epm_amount = 50,
       epm_deadline = 99, epm_nonce = live_field_new 3 UserSupplied 0\<rparr>"
  have "ref_key (epm_token ?a) = Erc20 ethereum_mainnet 0xA0b86991c6218b36c1d19D4a2e9Eb0cE3606eB48"
    by (simp add: usdc_def)
  from erc20_permit_only_pends [OF this, of sample_wallet sample_ctx sample_serde] obtain d p where
    "erc20_permit_apply ?a sample_wallet sample_ctx = Inr d"
    "apply_delta sample_serde sample_wallet d = Inr (sample_wallet\<lparr>pending := [p]\<rparr>)"
    "cap_for (ptx_commitment p) usdc = 50"
    by (auto simp: usdc_def)
  then show ?thesis by blast
qed

text \<open>A Permit2 signature transfer of somebody else's tokens leaves the wallet untouched, and one
  of the wallet's own tokens is recorded as a pending cap without moving the balance yet.\<close>

theorem permit2_sign_transfer_owner:
  assumes "ref_key (p2t_token a) = Erc20 c t"
  shows "\<exists>d. permit2_sign_transfer_apply a s ctx = Inr d \<and>
    (if p2t_owner a \<noteq> wid_address (ws_id s) then apply_delta C s d = Inr s
     else \<exists>p. apply_delta C s d = Inr (s\<lparr>pending := pending s @ [p]\<rparr>) \<and>
       cap_for (ptx_commitment p) (Erc20 c t) = p2t_amount a)"
  using assms
  by (auto simp: permit2_sign_transfer_apply_def apply_delta_def [of _ _ "push_pending_change _ _"]
      split: prod.splits)

theorem permit2_sign_transfer_owner_witness:
  "\<exists>d. permit2_sign_transfer_apply \<lparr>p2t_token = TokenRef usdc, p2t_owner = router, p2t_spender = router,
       p2t_amount = 50, p2t_nonce = live_field_new (0, 1) UserSupplied 0, p2t_sig_deadline = 99,
       p2t_witness_type = None\<rparr> sample_wallet sample_ctx = Inr d \<and>
    apply_delta sample_serde sample_wallet d = Inr sample_wallet"
proof -
  let ?a = "\<lparr>p2t_token = TokenRef usdc, p2t_owner = router, p2t_spender = router, p2t_amount = 50,
       p2t_nonce = live_field_new (0, 1) UserSupplied 0, p2t_sig_deadline = 99, p2t_witness_type = None\<rparr>"
  have "ref_key (p2t_token ?a) = Erc20 ethereum_mainnet 0xA0b86991c6218b36c1d19D4a2e9Eb0cE3606eB48"
    by (simp add: usdc_def)
  from permit2_sign_transfer_owner [OF this, of sample_wallet sample_ctx sample_serde] show ?thesis
    by (auto simp: alice_def router_def)
qed

section \<open>Pending identifiers\<close>

text \<open>The derived identifiers of pending signatures do not collide on one chain: equal ids mean
  equal token, parties and nonce, for each of the three kinds of signature.\<close>

theorem pending_ids_injective:
  "(pending_id_for_eip2612 (lowercase_hex t) (lowercase_hex p) (dec_string n) =
      pending_id_for_eip2612 (lowercase_hex t') (lowercase_hex p') (dec_string n')
      \<longleftrightarrow> t = t' \<and> p = p' \<and> n = n') \<and>
   (pending_id_for_permit2 (lowercase_hex t) (lowercase_hex p) (dec_string n) b =
      pending_id_for_permit2 (lowercase_hex t') (lowercase_hex p') (dec_string n') b'
      \<longleftrightarrow> t = t' \<and> p = p' \<and> n = n' \<and> b = b') \<and>
   (pending_id_for_permit2_transfer (lowercase_hex t) (lowercase_hex q) (lowercase_hex p) (dec_string n) b =
      pending_id_for_permit2_transfer (lowercase_hex t') (lowercase_hex q') (lowercase_hex p') (dec_string n') b'
      \<longleftrightarrow> t = t' \<and> q = q' \<and> p = p' \<and> n = n' \<and> b = b')"
  by (simp add: pending_id_for_eip2612_def pending_id_for_permit2_def pending_id_for_permit2_transfer_def
      dec_string_colon_inject word_unat_eq_iff conj_assoc)

text \<open>The identifiers leave out the chain: permits for the same contract address, spender and nonce
  on two chains get the same id, so after both are pending, removing one by its id removes both.\<close>

theorem permit_ids_ignore_chain:
  assumes "epm_token a = TokenRef (Erc20 c t)" and "b = a\<lparr>epm_token := TokenRef (Erc20 c' t)\<rparr>"
    and "erc20_permit_apply a s ctx = Inr d1" and "apply_delta C s d1 = Inr s1"
    and "erc20_permit_apply b s1 ctx = Inr d2" and "apply_delta C s1 d2 = Inr s2"
    and "pending s = []"
  shows "\<exists>p q. pending s2 = [p, q] \<and> ptx_id p = ptx_id q \<and>
    apply_pending_change s2 (RemovePending (ptx_id p) reason) = Inr (s2\<lparr>pending := []\<rparr>)"
proof -
  let ?i = "pending_id_for_eip2612 (lowercase_hex t) (lowercase_hex (epm_spender a))
    (dec_string (unat (lf_value (epm_nonce a))))"
  have "map ptx_id (pending s2) = [?i, ?i]"
    using assms by (auto simp: erc20_permit_apply_def apply_delta_def Let_def)
  then obtain p q where "pending s2 = [p, q]" "ptx_id p = ?i" "ptx_id q = ?i"
    by (auto simp: map_eq_Cons_conv)
  then show ?thesis by auto
qed

theorem permit_ids_ignore_chain_witness:
  "\<exists>s1 d1 d2 s2 p q. erc20_permit_apply \<lparr>epm_token = TokenRef (Erc20 ethereum_mainnet 1), epm_spender = router,
       epm_amount = 50, epm_deadline = 99, epm_nonce = live_field_new 3 UserSupplied 0\<rparr>
       sample_wallet sample_ctx = Inr d1 \<and> apply_delta sample_serde sample_wallet d1 = Inr s1 \<and>
    erc20_permit_apply \<lparr>epm_token = TokenRef (Erc20 arbitrum 1), epm_spender = router,
       epm_amount = 50, epm_deadline = 99, epm_nonce = live_field_new 3 UserSupplied 0\<rparr>
       s1 sample_ctx = Inr d2 \<and> apply_delta sample_serde s1 d2 = Inr s2 \<and> pending s2 = [p, q] \<and>
    apply_pending_change s2 (RemovePending (ptx_id p) RemovedCancelled) = Inr (s2\<lparr>pending := []\<rparr>)"
proof -
  let ?a = "\<lparr>epm_token = TokenRef (Erc20 ethereum_mainnet 1), epm_spender = router, epm_amount = 50,
    epm_deadline = 99, epm_nonce = live_field_new 3 UserSupplied 0\<rparr>"
  let ?b = "\<lparr>epm_token = TokenRef (Erc20 arbitrum 1), epm_spender = router, epm_amount = 50,
    epm_deadline = 99, epm_nonce = live_field_new 3 UserSupplied 0\<rparr>"
  obtain d1 where d1: "erc20_permit_apply ?a sample_wallet sample_ctx = Inr d1"
    by (simp add: erc20_permit_apply_def Let_def)
  then obtain s1 where s1: "apply_delta sample_serde sample_wallet d1 = Inr s1"
    by (auto simp: erc20_permit_apply_def apply_delta_def Let_def)
  obtain d2 where d2: "erc20_permit_apply ?b s1 sample_ctx = Inr d2"
    by (simp add: erc20_permit_apply_def Let_def)
  then obtain s2 where s2: "apply_delta sample_serde s1 d2 = Inr s2"
    by (auto simp: erc20_permit_apply_def apply_delta_def Let_def)
  from permit_ids_ignore_chain [OF _ _ d1 s1 d2 s2, of ethereum_mainnet 1 arbitrum RemovedCancelled]
    d1 s1 d2 s2 show ?thesis by fastforce
qed

end
