(* ===== verification/AmmMath.thy ===== *)
theory AmmMath
  imports AmmActions Wallets
begin

text \<open>
  \<^verbatim>\<open>asset-model/transition/src/effect/amm\<close>, the per-venue quote functions: \<^verbatim>\<open>uniswap_v2.rs\<close>,
  \<^verbatim>\<open>sushi_v2.rs\<close>, \<^verbatim>\<open>uniswap_v3.rs\<close>, \<^verbatim>\<open>uniswap_v4.rs\<close>, \<^verbatim>\<open>curve_v1.rs\<close>, \<^verbatim>\<open>curve_v2.rs\<close>,
  \<^verbatim>\<open>balancer_v2.rs\<close>, \<^verbatim>\<open>balancer_v3.rs\<close>, \<^verbatim>\<open>trader_joe_lb.rs\<close> and \<^verbatim>\<open>maverick_v2.rs\<close>. All arithmetic is
  checked 256-bit arithmetic; each overflow is an error value.

  The state, context and action arguments of the source's quote functions are unused there and left
  out. The Maverick quote parses numbers out of JSON with the \<open>ruint\<close> and \<open>serde_json\<close> libraries;
  those two conversions are the argument \<open>number_readers\<close>.
\<close>

section \<open>Checked arithmetic with an error text\<close>

abbreviation mul_or :: "string \<Rightarrow> u256 \<Rightarrow> u256 \<Rightarrow> u256 reducer_result" where
  "mul_or e a b \<equiv> ok_or (checked_mul a b) (Invariant e)"

abbreviation add_or :: "string \<Rightarrow> u256 \<Rightarrow> u256 \<Rightarrow> u256 reducer_result" where
  "add_or e a b \<equiv> ok_or (checked_add a b) (Invariant e)"

abbreviation sub_or :: "string \<Rightarrow> u256 \<Rightarrow> u256 \<Rightarrow> u256 reducer_result" where
  "sub_or e a b \<equiv> ok_or (checked_sub a b) (Invariant e)"

section \<open>Constant product\<close>

fun uniswap_v2_quote :: "pool_state \<Rightarrow> u256 \<Rightarrow> u256 reducer_result" where
  "uniswap_v2_quote (XyConstant reserve_in reserve_out fee_bp) amount_in =
     (if 10000 \<le> fee_bp then fail ''uniswap_v2 fee_bp out of range (must be < 10000)''
      else
        let fee_multiplier = ucast (10000 - fee_bp) :: u256 in
        rbind (mul_or ''uniswap_v2 amount_in_with_fee overflow'' amount_in fee_multiplier)
          (\<lambda>amount_in_with_fee.
        rbind (mul_or ''uniswap_v2 numerator overflow'' reserve_out amount_in_with_fee) (\<lambda>numerator.
        rbind (mul_or ''uniswap_v2 denominator base overflow'' reserve_in 10000) (\<lambda>denom_base.
        rbind (add_or ''uniswap_v2 denominator overflow'' denom_base amount_in_with_fee) (\<lambda>denominator.
          if denominator = 0 then fail ''uniswap_v2 zero denominator (empty pool)''
          else Inr (numerator div denominator))))))"
| "uniswap_v2_quote _ amount_in = fail ''non-XyConstant pool_state for uniswap_v2 swap''"

definition sushi_v2_quote :: "pool_state \<Rightarrow> u256 \<Rightarrow> u256 reducer_result" where
  "sushi_v2_quote pool_state amount_in = uniswap_v2_quote pool_state amount_in"

section \<open>Concentrated liquidity, active tick only\<close>

definition q96 :: u256 where
  "q96 = push_bit 96 1"

fun concentrated_swap_math :: "pool_state \<Rightarrow> u256 \<Rightarrow> string \<Rightarrow> u256 reducer_result" where
  "concentrated_swap_math (ConcentratedPool sqrt_price_x96 tick liquidity ticks) amount_in protocol_tag =
     (if liquidity = 0 then fail (protocol_tag @ '' quote: zero active liquidity'')
      else if sqrt_price_x96 = 0 then fail (protocol_tag @ '' quote: zero sqrt_price_x96'')
      else
        let l = ucast liquidity :: u256; sp = sqrt_price_x96 in
        if amount_in = 0 then Inr 0
        else
          rbind (mul_or (protocol_tag @ '' quote: L*sp overflow'') l sp) (\<lambda>num_l_sp.
          rbind (mul_or (protocol_tag @ '' quote: L*sp*Q96 overflow'') num_l_sp q96) (\<lambda>numerator.
          rbind (mul_or (protocol_tag @ '' quote: L*Q96 overflow'') l q96) (\<lambda>denom_l_q96.
          rbind (mul_or (protocol_tag @ '' quote: amount_in*sp overflow'') amount_in sp) (\<lambda>denom_in_sp.
          rbind (add_or (protocol_tag @ '' quote: denominator overflow'') denom_l_q96 denom_in_sp)
            (\<lambda>denominator.
          let sqrt_price_next = numerator div denominator in
          rbind (sub_or (protocol_tag @ '' quote: sqrt_price_next > sp (direction violation)'') sp
            sqrt_price_next) (\<lambda>sp_drop.
          rbind (mul_or (protocol_tag @ '' quote: L*(sp-sp_next) overflow'') l sp_drop) (\<lambda>out_num.
          Inr (out_num div q96)))))))))"
| "concentrated_swap_math _ amount_in protocol_tag =
     fail (''non-Concentrated pool_state for '' @ protocol_tag @ '' swap'')"

definition uniswap_v3_quote :: "pool_state \<Rightarrow> u256 \<Rightarrow> u256 reducer_result" where
  "uniswap_v3_quote pool_state amount_in = concentrated_swap_math pool_state amount_in ''uniswap_v3''"

definition uniswap_v4_quote :: "pool_state \<Rightarrow> u256 \<Rightarrow> u256 reducer_result" where
  "uniswap_v4_quote pool_state amount_in = concentrated_swap_math pool_state amount_in ''uniswap_v4''"

section \<open>Stable swap\<close>

definition max_iter :: nat where
  "max_iter = 255"

text \<open>\<open>n^n\<close> by repeated checked multiplication: the loop \<open>for _ in 0..n\<close>.\<close>

fun pow_loop :: "string \<Rightarrow> u256 \<Rightarrow> nat \<Rightarrow> u256 \<Rightarrow> u256 reducer_result" where
  "pow_loop e n 0 acc = Inr acc"
| "pow_loop e n (Suc k) acc = rbind (mul_or e acc n) (\<lambda>acc'. pow_loop e n k acc')"

text \<open>The two loops of one round of \<open>get_D\<close>: \<open>D_P\<close> over the balances, and the round itself.\<close>

definition d_p_step :: "u256 \<Rightarrow> u256 \<Rightarrow> u256 \<Rightarrow> u256 \<Rightarrow> u256 reducer_result" where
  "d_p_step n d d_p x =
     (if x = 0 then fail ''curve_v1 D: zero balance''
      else
        rbind (mul_or ''curve_v1 D: x*n overflow'' x n) (\<lambda>denom.
        rbind (mul_or ''curve_v1 D: D_P*D overflow'' d_p d) (\<lambda>m. Inr (m div denom))))"

definition d_round :: "u256 list \<Rightarrow> u256 \<Rightarrow> u256 \<Rightarrow> u256 \<Rightarrow> u256 \<Rightarrow> u256 reducer_result" where
  "d_round balances n ann s d =
     rbind (rfold (d_p_step n d) d balances) (\<lambda>d_p.
     rbind (mul_or ''curve_v1 D: Ann*S overflow'' ann s) (\<lambda>ann_s.
     rbind (mul_or ''curve_v1 D: n*D_P overflow'' n d_p) (\<lambda>n_dp.
     rbind (add_or ''curve_v1 D: num_pre overflow'' ann_s n_dp) (\<lambda>num_pre.
     rbind (mul_or ''curve_v1 D: numerator overflow'' num_pre d) (\<lambda>num.
     rbind (sub_or ''curve_v1 D: (Ann-1) underflow'' ann 1) (\<lambda>ann_minus_one.
     rbind (mul_or ''curve_v1 D: (Ann-1)*D overflow'' ann_minus_one d) (\<lambda>term_a.
     rbind (add_or ''curve_v1 D: (n+1) overflow'' n 1) (\<lambda>n1.
     rbind (mul_or ''curve_v1 D: (n+1)*D_P overflow'' n1 d_p) (\<lambda>term_b.
     rbind (add_or ''curve_v1 D: denominator overflow'' term_a term_b) (\<lambda>denom.
       if denom = 0 then fail ''curve_v1 D: zero denominator'' else Inr (num div denom)))))))))))"

definition within_one :: "u256 \<Rightarrow> u256 \<Rightarrow> bool" where
  "within_one x y = ((if x > y then x - y else y - x) \<le> 1)"

text \<open>\<open>for _ in 0..MAX_ITER\<close> with an early return once two rounds agree to within one unit.\<close>

fun newton :: "string \<Rightarrow> (u256 \<Rightarrow> u256 reducer_result) \<Rightarrow> nat \<Rightarrow> u256 \<Rightarrow> u256 reducer_result" where
  "newton e round 0 x = fail e"
| "newton e round (Suc fuel) x =
     rbind (round x) (\<lambda>x'. if within_one x' x then Inr x' else newton e round fuel x')"

definition compute_d :: "u256 list \<Rightarrow> u32 \<Rightarrow> u256 reducer_result" where
  "compute_d balances a =
     (if 2 ^ 32 \<le> length balances then fail ''curve_v1 D: too many coins''
      else if length balances = 0 then fail ''curve_v1 D: empty balances''
      else
        let n = of_nat (length balances) :: u256 in
        rbind (rfold (\<lambda>s b. add_or ''curve_v1 D: S overflow'' s b) 0 balances) (\<lambda>s.
          if s = 0 then Inr 0
          else
            rbind (pow_loop ''curve_v1 D: n^n overflow'' n (length balances) 1) (\<lambda>n_pow_n.
            rbind (mul_or ''curve_v1 D: Ann overflow'' (ucast a) n_pow_n) (\<lambda>ann.
            newton ''curve_v1 D: newton diverged'' (d_round balances n ann s) max_iter s))))"

definition y_acc_step ::
  "nat \<Rightarrow> nat \<Rightarrow> u256 \<Rightarrow> u256 \<Rightarrow> u256 \<Rightarrow> u256 \<times> u256 \<Rightarrow> nat \<times> u256 \<Rightarrow> (u256 \<times> u256) reducer_result" where
  "y_acc_step i j new_x_i n d acc kb =
     (let (s_prime, c) = acc; (k, b_k) = kb in
      if k = j then Inr (s_prime, c)
      else
        let x_k = (if k = i then new_x_i else b_k) in
        if x_k = 0 then fail ''curve_v1 y: zero x_k''
        else
          rbind (add_or ''curve_v1 y: S' overflow'' s_prime x_k) (\<lambda>s_prime'.
          rbind (mul_or ''curve_v1 y: x_k*n overflow'' x_k n) (\<lambda>denom.
          rbind (mul_or ''curve_v1 y: c*D overflow'' c d) (\<lambda>m. Inr (s_prime', m div denom)))))"

definition y_round :: "u256 \<Rightarrow> u256 \<Rightarrow> u256 \<Rightarrow> u256 \<Rightarrow> u256 reducer_result" where
  "y_round b c d y =
     rbind (mul_or ''curve_v1 y: y^2 overflow'' y y) (\<lambda>y_sq.
     rbind (add_or ''curve_v1 y: num overflow'' y_sq c) (\<lambda>num.
     rbind (mul_or ''curve_v1 y: 2y overflow'' y 2) (\<lambda>two_y.
     rbind (add_or ''curve_v1 y: 2y+b overflow'' two_y b) (\<lambda>two_y_plus_b.
     rbind (sub_or ''curve_v1 y: 2y+b-D underflow'' two_y_plus_b d) (\<lambda>denom.
       if denom = 0 then fail ''curve_v1 y: zero denominator'' else Inr (num div denom))))))"

definition compute_y ::
  "u256 list \<Rightarrow> nat \<Rightarrow> nat \<Rightarrow> u256 \<Rightarrow> u32 \<Rightarrow> u256 \<Rightarrow> u256 reducer_result" where
  "compute_y balances i j new_x_i a d =
     (if 2 ^ 32 \<le> length balances then fail ''curve_v1 y: too many coins''
      else if length balances \<le> i \<or> length balances \<le> j \<or> i = j
      then fail ''curve_v1 y: bad indices''
      else
        let n = of_nat (length balances) :: u256 in
        rbind (pow_loop ''curve_v1 y: n^n overflow'' n (length balances) 1) (\<lambda>n_pow_n.
        rbind (mul_or ''curve_v1 y: Ann overflow'' (ucast a) n_pow_n) (\<lambda>ann.
          if ann = 0 then fail ''curve_v1 y: zero Ann''
          else
            rbind (rfold (y_acc_step i j new_x_i n d) (0, d) (enumerate 0 balances)) (\<lambda>(s_prime, c0).
            rbind (mul_or ''curve_v1 y: Ann*n overflow'' ann n) (\<lambda>denom_final.
            rbind (mul_or ''curve_v1 y: c*D overflow'' c0 d) (\<lambda>m.
            let c = m div denom_final in
            rbind (add_or ''curve_v1 y: b overflow'' s_prime (d div ann)) (\<lambda>b.
            newton ''curve_v1 y: newton diverged'' (y_round b c d) max_iter d)))))))"

definition charge_fee :: "string \<Rightarrow> string \<Rightarrow> u256 \<Rightarrow> u32 \<Rightarrow> u256 reducer_result" where
  "charge_fee e1 e2 dy_pre_fee fee_bp =
     rbind (mul_or e1 dy_pre_fee (ucast fee_bp)) (\<lambda>m. sub_or e2 dy_pre_fee (m div 10000))"

fun curve_v1_quote :: "pool_state \<Rightarrow> u256 \<Rightarrow> u256 reducer_result" where
  "curve_v1_quote (StableV1 balances a fee_bp) amount_in =
     (if length balances < 2 then fail ''curve_v1 needs >= 2 coins''
      else if 10000 \<le> fee_bp then fail ''curve_v1 fee_bp out of range (must be < 10000)''
      else if amount_in = 0 then Inr 0
      else
        rbind (compute_d balances a) (\<lambda>d.
        rbind (add_or ''curve_v1: x_i + amount_in overflow'' (balances ! 0) amount_in) (\<lambda>new_x_i.
        rbind (compute_y balances 0 1 new_x_i a d) (\<lambda>new_y.
        rbind (sub_or ''curve_v1: new_y < 1 (underflow)'' new_y 1) (\<lambda>new_y_minus_one.
        rbind (sub_or ''curve_v1: balance[j] < new_y (no out)'' (balances ! 1) new_y_minus_one)
          (\<lambda>dy_pre_fee.
        charge_fee ''curve_v1: fee numerator overflow'' ''curve_v1: dy - fee underflow''
          dy_pre_fee fee_bp))))))"
| "curve_v1_quote _ amount_in = fail ''non-StableV1 pool_state for curve_v1 swap''"

section \<open>Crypto swap, two coins\<close>

definition price_precision :: u256 where
  "price_precision = 10 ^ 18"

fun curve_v2_quote :: "pool_state \<Rightarrow> u256 \<Rightarrow> u256 reducer_result" where
  "curve_v2_quote (Cryptoswap balances price_scale a_gamma fee_bp) amount_in =
     (if length balances \<noteq> 2 then fail ''curve_v2 twocrypto simplification needs 2 coins''
      else if price_scale = [] then fail ''curve_v2: empty price_scale''
      else if price_scale ! 0 = 0 then fail ''curve_v2: zero price_scale[0]''
      else if 10000 \<le> fee_bp then fail ''curve_v2 fee_bp out of range (must be < 10000)''
      else if amount_in = 0 then Inr 0
      else
        let price = price_scale ! 0; xp0 = balances ! 0 in
        rbind (mul_or ''curve_v2: xp1 mul overflow'' (balances ! 1) price) (\<lambda>m.
        let xp1 = m div price_precision in
        if xp0 = 0 \<or> xp1 = 0 then fail ''curve_v2: zero scaled balance''
        else
          rbind (mul_or ''curve_v2: numerator overflow'' xp1 amount_in) (\<lambda>numerator.
          rbind (add_or ''curve_v2: denominator overflow'' xp0 amount_in) (\<lambda>denominator.
          if denominator = 0 then fail ''curve_v2: zero denominator''
          else
            let dy_scaled = numerator div denominator in
            rbind (mul_or ''curve_v2: dy descale overflow'' dy_scaled price_precision) (\<lambda>m2.
            charge_fee ''curve_v2: fee numerator overflow'' ''curve_v2: dy - fee underflow''
              (m2 div price) fee_bp)))))"
| "curve_v2_quote _ amount_in = fail ''non-Cryptoswap pool_state for curve_v2 swap''"

section \<open>Balancer\<close>

definition quote_weighted :: "u256 list \<Rightarrow> u64 list \<Rightarrow> u32 \<Rightarrow> u256 \<Rightarrow> u256 reducer_result" where
  "quote_weighted balances weights fee_bp amount_in =
     (if length balances < 2 \<or> length weights < 2
      then fail ''balancer_v2 weighted: needs >= 2 coins/weights''
      else if length balances \<noteq> length weights
      then fail ''balancer_v2 weighted: balances/weights length mismatch''
      else if 10000 \<le> fee_bp then fail ''balancer_v2 weighted fee_bp out of range (must be < 10000)''
      else
        let bal_in = balances ! 0; bal_out = balances ! 1 in
        if bal_in = 0 \<or> bal_out = 0 then fail ''balancer_v2 weighted: zero pool balance''
        else
          let w_in = ucast (weights ! 0) :: u256; w_out = ucast (weights ! 1) :: u256 in
          if w_in = 0 \<or> w_out = 0 then fail ''balancer_v2 weighted: zero weight''
          else
            let fee_multiplier = ucast (10000 - fee_bp) :: u256 in
            rbind (mul_or ''balancer_v2 weighted: in-fee overflow'' amount_in fee_multiplier) (\<lambda>m.
            let amount_in_after_fee = m div 10000 in
            rbind (mul_or ''balancer_v2 weighted: numer_inner overflow'' amount_in_after_fee w_in)
              (\<lambda>numer_inner.
            rbind (mul_or ''balancer_v2 weighted: numerator overflow'' bal_out numer_inner) (\<lambda>numerator.
            rbind (mul_or ''balancer_v2 weighted: denom_a overflow'' bal_in w_out) (\<lambda>denom_a.
            rbind (add_or ''balancer_v2 weighted: denominator overflow'' denom_a numer_inner)
              (\<lambda>denominator.
              if denominator = 0 then fail ''balancer_v2 weighted: zero denominator''
              else Inr (numerator div denominator)))))))"

definition quote_stable :: "u256 list \<Rightarrow> u32 \<Rightarrow> u32 \<Rightarrow> u256 \<Rightarrow> u256 reducer_result" where
  "quote_stable balances amp fee_bp amount_in =
     (if length balances < 2 then fail ''balancer_v2 stable: needs >= 2 coins''
      else if 10000 \<le> fee_bp then fail ''balancer_v2 stable fee_bp out of range (must be < 10000)''
      else
        let fee_multiplier = ucast (10000 - fee_bp) :: u256 in
        rbind (mul_or ''balancer_v2 stable: in-fee overflow'' amount_in fee_multiplier) (\<lambda>m.
        let amount_in_after_fee = m div 10000 in
        rbind (compute_d balances amp) (\<lambda>d.
        rbind (add_or ''balancer_v2 stable: x_i + in overflow'' (balances ! 0) amount_in_after_fee)
          (\<lambda>new_x_i.
        rbind (compute_y balances 0 1 new_x_i amp d) (\<lambda>new_y.
        rbind (sub_or ''balancer_v2 stable: new_y < 1 underflow'' new_y 1) (\<lambda>new_y_minus_one.
        sub_or ''balancer_v2 stable: bal[j] < new_y'' (balances ! 1) new_y_minus_one))))))"

definition balancer_v2_quote :: "pool_state \<Rightarrow> u256 \<Rightarrow> u256 reducer_result" where
  "balancer_v2_quote pool_state amount_in =
     (if amount_in = 0 then Inr 0
      else case pool_state of
        WeightedPool balances weights fee_bp \<Rightarrow> quote_weighted balances weights fee_bp amount_in
      | StablePool balances amp fee_bp \<Rightarrow> quote_stable balances amp fee_bp amount_in
      | _ \<Rightarrow> fail ''balancer_v2: only Weighted / Stable PoolState are wired today'')"

definition balancer_v3_quote :: "pool_state \<Rightarrow> u256 \<Rightarrow> u256 reducer_result" where
  "balancer_v3_quote pool_state amount_in = balancer_v2_quote pool_state amount_in"

section \<open>Bin-based pools, active bin only\<close>

fun trader_joe_lb_quote :: "pool_state \<Rightarrow> u256 \<Rightarrow> u256 reducer_result" where
  "trader_joe_lb_quote (LiquidityBook active_bin_id bins variable_fee_bp) amount_in =
     (if bins = [] then fail ''trader_joe_lb: empty bins''
      else if 10000 \<le> variable_fee_bp
      then fail ''trader_joe_lb variable_fee_bp out of range (must be < 10000)''
      else if amount_in = 0 then Inr 0
      else
        rbind (ok_or (find (\<lambda>b. bin_id b = active_bin_id) bins)
          (Invariant ''trader_joe_lb: active_bin_id not in bins'')) (\<lambda>active.
        if bin_reserve_in active = 0 \<or> bin_reserve_out active = 0
        then fail ''trader_joe_lb: zero active-bin reserve''
        else
          let fee_multiplier = ucast (10000 - variable_fee_bp) :: u256 in
          rbind (mul_or ''trader_joe_lb: in-fee overflow'' amount_in fee_multiplier) (\<lambda>m.
          let amount_in_after_fee = m div 10000 in
          rbind (mul_or ''trader_joe_lb: numerator overflow'' (bin_reserve_out active) amount_in_after_fee)
            (\<lambda>numerator.
          rbind (add_or ''trader_joe_lb: denominator overflow'' (bin_reserve_in active) amount_in_after_fee)
            (\<lambda>denominator.
            if denominator = 0 then fail ''trader_joe_lb: zero denominator''
            else Inr (numerator div denominator))))))"
| "trader_joe_lb_quote _ amount_in = fail ''non-LiquidityBook pool_state for trader_joe_lb swap''"

record number_readers =
  read_u256 :: "string \<Rightarrow> u256 option"
  read_u64 :: "json \<Rightarrow> u64 option"

definition pull_u256 :: "number_readers \<Rightarrow> json \<Rightarrow> string \<Rightarrow> u256 reducer_result" where
  "pull_u256 R raw key =
     rbind (case json_get raw key of
         Some (JStr s) \<Rightarrow> Inr s
       | _ \<Rightarrow> fail ''maverick_v2 raw payload: missing or non-string'')
       (\<lambda>s. ok_or (read_u256 R s) (Invariant ''maverick_v2 raw payload: bad U256''))"

definition pull_u32 :: "number_readers \<Rightarrow> json \<Rightarrow> string \<Rightarrow> u32 reducer_result" where
  "pull_u32 R raw key =
     rbind (ok_or (Option.bind (json_get raw key) (read_u64 R))
       (Invariant ''maverick_v2 raw payload: missing or non-number''))
       (\<lambda>n. if unat n < 2 ^ 32 then Inr (ucast n)
            else fail ''maverick_v2 raw payload: overflows u32'')"

fun maverick_v2_quote :: "number_readers \<Rightarrow> pool_state \<Rightarrow> u256 \<Rightarrow> u256 reducer_result" where
  "maverick_v2_quote R (Maverick mode raw) amount_in =
     (if amount_in = 0 then Inr 0
      else
        rbind (pull_u256 R raw ''reserve_in'') (\<lambda>reserve_in.
        rbind (pull_u256 R raw ''reserve_out'') (\<lambda>reserve_out.
        rbind (pull_u32 R raw ''fee_bp'') (\<lambda>fee_bp.
        if 10000 \<le> fee_bp then fail ''maverick_v2 fee_bp out of range (must be < 10000)''
        else if reserve_in = 0 \<or> reserve_out = 0 then fail ''maverick_v2: zero active-bin reserve''
        else
          let fee_multiplier = ucast (10000 - fee_bp) :: u256 in
          rbind (mul_or ''maverick_v2: in-fee overflow'' amount_in fee_multiplier) (\<lambda>m.
          let amount_in_after_fee = m div 10000 in
          rbind (mul_or ''maverick_v2: numerator overflow'' reserve_out amount_in_after_fee) (\<lambda>numerator.
          rbind (add_or ''maverick_v2: denominator overflow'' reserve_in amount_in_after_fee) (\<lambda>denominator.
            if denominator = 0 then fail ''maverick_v2: zero denominator''
            else Inr (numerator div denominator))))))))"
| "maverick_v2_quote R _ amount_in = fail ''non-Maverick pool_state for maverick_v2 swap''"

end
