(* ===== verification/AmmQuotes.thy ===== *)
theory AmmQuotes
  imports AmmMath
begin

text \<open>
  What the quote functions promise, stated over natural numbers: exact results of the closed forms,
  the constant-product invariant, monotonicity, and a cap on the output of every venue.
\<close>

section \<open>Checked operations, read as equations between natural numbers\<close>

lemma mul_or_iff: "ok_or (checked_mul a b) e = Inr c \<longleftrightarrow> unat c = unat a * unat b"
  for a b c :: "'a::len word"
proof
  assume "ok_or (checked_mul a b) e = Inr c"
  then show "unat c = unat a * unat b" by (simp add: ok_or_Inr_iff unat_checked_mul)
next
  assume eq: "unat c = unat a * unat b"
  then have "unat a * unat b < 2 ^ LENGTH('a)" using unat_less [of c] by simp
  moreover have "c = a * b"
    using eq calculation by (simp add: word_unat_eq_iff unat_word_ariths)
  ultimately show "ok_or (checked_mul a b) e = Inr c" by (simp add: checked_mul_def)
qed

lemma add_or_iff: "ok_or (checked_add a b) e = Inr c \<longleftrightarrow> unat c = unat a + unat b"
  for a b c :: "'a::len word"
proof
  assume "ok_or (checked_add a b) e = Inr c"
  then show "unat c = unat a + unat b" by (simp add: ok_or_Inr_iff unat_checked_add)
next
  assume eq: "unat c = unat a + unat b"
  then have "unat a + unat b < 2 ^ LENGTH('a)" using unat_less [of c] by simp
  moreover have "c = a + b"
    using eq calculation by (simp add: word_unat_eq_iff unat_word_ariths)
  ultimately show "ok_or (checked_add a b) e = Inr c" by (simp add: checked_add_def)
qed

lemma sub_or_iff: "ok_or (checked_sub a b) e = Inr c \<longleftrightarrow> unat a = unat b + unat c"
  for a b c :: "'a::len word"
proof
  assume "ok_or (checked_sub a b) e = Inr c"
  then show "unat a = unat b + unat c" by (auto simp: ok_or_Inr_iff dest: unat_checked_sub)
next
  assume eq: "unat a = unat b + unat c"
  then have "b \<le> a" by (simp add: word_le_nat_alt)
  moreover have "c = a - b"
    using eq calculation by (simp add: word_unat_eq_iff unat_sub word_le_nat_alt)
  ultimately show "ok_or (checked_sub a b) e = Inr c" by (simp add: checked_sub_def)
qed

lemmas arith_iff = rbind_Inr_iff mul_or_iff add_or_iff sub_or_iff

lemma word_of_product:
  "n < 2 ^ LENGTH('a) \<Longrightarrow> \<exists>c :: 'a::len word. unat c = n"
  by (intro exI [of _ "of_nat n"]) (simp add: unat_of_nat)

lemma unat_ucast_u256:
  assumes "LENGTH('a) \<le> 256"
  shows "unat (ucast (x :: 'a::len word) :: u256) = unat x"
proof -
  have "unat x < 2 ^ 256"
    by (rule less_le_trans [OF unat_less power_increasing [OF assms]]) simp
  then show ?thesis
    by (simp add: unsigned_ucast_eq take_bit_nat_eq_self)
qed

lemma fee_multiplier: "\<not> 10000 \<le> f \<Longrightarrow> unat (ucast (10000 - f) :: u256) = 10000 - unat f"
  for f :: u32
proof -
  assume "\<not> 10000 \<le> f"
  then have le: "f \<le> 10000" by simp
  have "unat (ucast (10000 - f) :: u256) = unat (10000 - f)"
    by (rule unat_ucast_u256) simp
  also have "\<dots> = unat (10000 :: u32) - unat f"
    using le by (simp add: unat_sub)
  finally show ?thesis by simp
qed

lemma fee_below: "\<not> 10000 \<le> f \<Longrightarrow> unat f < 10000" for f :: u32
  by (simp add: word_le_nat_alt)

lemma zero_word_iff: "x = 0 \<longleftrightarrow> unat x = 0" for x :: "'a::len word"
  by (simp add: unat_eq_0)

section \<open>The constant product\<close>

lemma product_step:
  fixes ri ro a m w :: nat
  assumes "m \<le> 10000" and "w = a * m" and "0 < ri * 10000 + w"
  defines "out \<equiv> ro * w div (ri * 10000 + w)"
  shows "out \<le> ro" and "ri * ro \<le> (ri + a) * (ro - out)"
proof -
  let ?D = "ri * 10000 + w"
  have bound: "out * ?D \<le> ro * w"
    unfolding out_def by simp
  then have "out * ?D \<le> ro * ?D"
    by (rule order_trans) simp
  with assms(3) show le: "out \<le> ro" by simp
  have "ri * ro * 10000 = ro * ?D - ro * w"
    by (simp add: algebra_simps)
  also have "\<dots> \<le> ro * ?D - out * ?D"
    using bound by simp
  also have "\<dots> = (ro - out) * ?D"
    by (simp add: diff_mult_distrib)
  also have "\<dots> \<le> (ro - out) * ((ri + a) * 10000)"
    using assms(1,2) by (intro mult_le_mono2) (simp add: algebra_simps)
  finally have "ri * ro * 10000 \<le> (ri + a) * (ro - out) * 10000"
    by (simp only: ac_simps)
  then show "ri * ro \<le> (ri + a) * (ro - out)" by simp
qed

lemma uniswap_v2_exact:
  assumes "uniswap_v2_quote (XyConstant ri ro f) a = Inr out"
  shows "unat f < 10000" and "0 < unat ri * 10000 + unat a * (10000 - unat f)"
    and "unat out = unat ro * (unat a * (10000 - unat f))
           div (unat ri * 10000 + unat a * (10000 - unat f))"
  using assms
  by (auto simp: arith_iff fee_multiplier zero_word_iff unat_div Let_def
      word_le_nat_alt split: if_splits)

lemma uniswap_v2_total:
  assumes "unat f < 10000" and "0 < unat ri * 10000 + unat a * (10000 - unat f)"
    and "unat ro * (unat a * (10000 - unat f)) < 2 ^ 256"
    and "unat a * (10000 - unat f) < 2 ^ 256"
    and "unat ri * 10000 + unat a * (10000 - unat f) < 2 ^ 256"
  shows "is_ok (uniswap_v2_quote (XyConstant ri ro f) a)"
proof -
  have f: "\<not> 10000 \<le> f" using assms(1) by (simp add: word_le_nat_alt)
  obtain w where w: "unat (w :: u256) = unat a * (10000 - unat f)"
    using word_of_product [where 'a = 256] assms(4) by auto
  obtain n where n: "unat (n :: u256) = unat ro * unat w"
    using word_of_product [where 'a = 256] assms(3) w by auto
  have "unat ri * 10000 < 2 ^ 256" using assms(5) by simp
  then obtain b where b: "unat (b :: u256) = unat ri * 10000"
    using word_of_product [where 'a = 256, of "unat ri * 10000"] by auto
  obtain d where d: "unat (d :: u256) = unat b + unat w"
    using word_of_product [where 'a = 256] assms(5) b w by auto
  have "mul_or e a (ucast (10000 - f)) = Inr w" "mul_or e ro w = Inr n" "mul_or e ri 10000 = Inr b"
    "add_or e b w = Inr d" for e
    using w n b d f by (simp_all add: arith_iff fee_multiplier)
  moreover have "d \<noteq> 0" using d b w assms(2) by (auto simp: zero_word_iff)
  ultimately show ?thesis using f by simp
qed

text \<open>A larger input never gets a smaller output.\<close>

lemma product_out_mono:
  fixes ri ro w w' :: nat
  assumes "w \<le> w'" and "0 < ri + w"
  shows "ro * w div (ri + w) \<le> ro * w' div (ri + w')"
proof -
  have "0 < ri + w'" using assms by linarith
  have bound: "ro * w div (ri + w) * (ri + w) \<le> ro * w" by simp
  also have "\<dots> \<le> ro * (ri + w)" by simp
  finally have le: "ro * w div (ri + w) \<le> ro" using assms(2) by (simp only: mult_le_cancel2)
  from bound
  have "ro * w div (ri + w) * ri \<le> (ro - ro * w div (ri + w)) * w"
    by (simp add: algebra_simps diff_mult_distrib)
  also have "\<dots> \<le> (ro - ro * w div (ri + w)) * w'"
    using assms(1) by simp
  finally have "ro * w div (ri + w) * ri + ro * w div (ri + w) * w' \<le> ro * w'"
    using mult_le_mono1 [OF le, of w'] by (simp add: diff_mult_distrib le_diff_conv2)
  then have "ro * w div (ri + w) * (ri + w') \<le> ro * w'"
    by (simp add: algebra_simps)
  with \<open>0 < ri + w'\<close> show ?thesis
    by (simp add: less_eq_div_iff_mult_less_eq)
qed

section \<open>Concentrated liquidity\<close>

lemma unat_q96: "unat q96 = 2 ^ 96"
  by (simp add: q96_def)

lemma concentrated_exact:
  assumes "concentrated_swap_math (ConcentratedPool sp tick l ticks) a tag = Inr out"
  shows "unat out \<le> unat l * unat sp div 2 ^ 96"
proof -
  have widen: "unat (ucast l :: u256) = unat l"
    by (rule unat_ucast_u256) simp
  show ?thesis
  proof (cases "a = 0")
    case True
    with assms show ?thesis by (simp add: Let_def split: if_splits)
  next
    case False
    with assms obtain after drop num :: u256 where "unat sp = unat after + unat drop"
      "unat num = unat l * unat drop" "out = num div q96"
      by (auto simp: arith_iff Let_def widen split: if_splits)
    then show ?thesis
      by (simp add: unat_div unat_q96 div_le_mono)
  qed
qed

text \<open>The guard against a rising price can never fire, and neither can the last overflow check.\<close>

lemma price_never_rises:
  fixes l sp x q :: nat
  assumes "0 < l" and "0 < q"
  shows "l * sp * q div (l * q + x * sp) \<le> sp"
proof -
  have "l * sp * q \<le> sp * (l * q + x * sp)"
    by (simp add: algebra_simps)
  moreover have "0 < l * q + x * sp" using assms by simp
  ultimately show ?thesis
    using div_le_mono [of "l * sp * q" "sp * (l * q + x * sp)" "l * q + x * sp"] by simp
qed

lemma concentrated_never_rises:
  "concentrated_swap_math ps a tag
     \<noteq> fail (tag @ '' quote: sqrt_price_next > sp (direction violation)'')"
proof (cases ps)
  case (ConcentratedPool sp tick l ticks)
  have "\<not> sp < num div den"
    if "unat num = unat l * unat sp * unat q96" "unat den = unat l * unat q96 + unat a * unat sp"
      "l \<noteq> 0" for num den :: u256
    using price_never_rises [of "unat l" "2 ^ 96" "unat sp" "unat a"] that
    by (simp add: word_less_nat_alt unat_div unat_q96 unat_gt_0 del: unat_eq_0)
  then have "checked_sub sp (num div den) \<noteq> None"
    if "unat num = unat l * unat sp * unat q96" "unat den = unat l * unat q96 + unat a * unat sp"
      "l \<noteq> 0" for num den :: u256
    using that by (auto simp: checked_sub_def not_less)
  then show ?thesis
    unfolding ConcentratedPool
    by (auto simp: rbind_Inl_iff ok_or_Inl_iff Let_def mul_or_iff add_or_iff
        unat_ucast_u256 [where 'a = 128, simplified])
qed (simp_all)

section \<open>Stable swap\<close>

text \<open>
  The Newton loop runs at most \<open>max_iter\<close> rounds and never gets stuck; what it returns is one round
  away from a value it differs from by at most one unit.
\<close>

lemma newton_result:
  "newton e round fuel x = Inr y \<Longrightarrow> \<exists>z. round z = Inr y \<and> within_one y z"
  by (induction fuel arbitrary: x) (auto simp: rbind_Inr_iff split: if_splits)

lemma newton_numeral:
  "newton e round (numeral k) x =
     rbind (round x) (\<lambda>x'. if within_one x' x then Inr x' else newton e round (pred_numeral k) x')"
  by (simp add: numeral_eq_Suc)

lemma within_one_iff: "within_one x y \<longleftrightarrow> unat x \<le> unat y + 1 \<and> unat y \<le> unat x + 1"
  by (auto simp: within_one_def word_le_nat_alt word_less_nat_alt unat_sub)

lemma y_round_exact:
  assumes "y_round b c d y = Inr y'"
  shows "unat d < 2 * unat y + unat b \<and>
    unat y' = (unat y * unat y + unat c) div (2 * unat y + unat b - unat d)"
proof -
  from assms obtain sq num two sum den :: u256 where
    run: "unat sq = unat y * unat y" "unat num = unat sq + unat c" "unat two = unat y * 2"
      "unat sum = unat two + unat b" "unat sum = unat d + unat den" "den \<noteq> 0" "y' = num div den"
    by (auto simp: y_round_def arith_iff split: if_splits)
  then have "unat den = 2 * unat y + unat b - unat d" "0 < unat den"
    by (simp_all add: unat_gt_0)
  with run show ?thesis by (simp add: unat_div)
qed

lemma charge_fee_exact:
  assumes "charge_fee e1 e2 dy f = Inr out"
  shows "unat out = unat dy - unat dy * unat f div 10000" and "unat out \<le> unat dy"
  using assms by (auto simp: charge_fee_def arith_iff unat_div unat_ucast_u256)

lemma curve_v1_bound:
  assumes "curve_v1_quote (StableV1 bs a f) x = Inr out"
  shows "unat out \<le> unat (bs ! 1)"
proof (cases "x = 0")
  case True
  with assms show ?thesis by (simp split: if_splits)
next
  case False
  with assms obtain dy ym :: u256 where "unat (bs ! 1) = unat ym + unat dy"
    and fee: "charge_fee ''curve_v1: fee numerator overflow'' ''curve_v1: dy - fee underflow'' dy f = Inr out"
    by (auto simp: arith_iff split: if_splits)
  with charge_fee_exact(2) [OF fee] show ?thesis by simp
qed

text \<open>
  Two-coin pools in closed form. \<open>two_coin_d\<close> says that \<open>D\<close> is one round of the invariant solver away
  from a value at most one unit off, \<open>two_coin_y\<close> says the same of the new output balance.
\<close>

definition two_coin_d :: "nat \<Rightarrow> nat \<Rightarrow> nat \<Rightarrow> nat \<Rightarrow> bool" where
  "two_coin_d amp x0 x1 d =
     (\<exists>z. d \<le> z + 1 \<and> z \<le> d + 1 \<and>
       (let dp = (z * z div (x0 * 2)) * z div (x1 * 2); ann = amp * 4
        in d = (ann * (x0 + x1) + 2 * dp) * z div ((ann - 1) * z + 3 * dp)))"

definition two_coin_y :: "nat \<Rightarrow> nat \<Rightarrow> nat \<Rightarrow> nat \<Rightarrow> bool" where
  "two_coin_y amp nx d y =
     (\<exists>z. y \<le> z + 1 \<and> z \<le> y + 1 \<and>
       (let ann = amp * 4; c = (d * d div (nx * 2)) * d div (ann * 2); b = nx + d div ann
        in y = (z * z + c) div (2 * z + b - d)))"

lemma d_round_exact:
  assumes "rfold (d_p_step n z) z bs = Inr dp" and "d_round bs n ann s z = Inr d"
  shows "1 \<le> unat ann \<and>
    unat d = (unat ann * unat s + unat n * unat dp) * unat z
      div ((unat ann - 1) * unat z + (unat n + 1) * unat dp)"
proof -
  from assms obtain ann_s where r1: "unat ann_s = unat ann * unat s"
    and k1: "rbind (mul_or ''curve_v1 D: n*D_P overflow'' n dp) (\<lambda>n_dp.
     rbind (add_or ''curve_v1 D: num_pre overflow'' ann_s n_dp) (\<lambda>num_pre.
     rbind (mul_or ''curve_v1 D: numerator overflow'' num_pre z) (\<lambda>num.
     rbind (sub_or ''curve_v1 D: (Ann-1) underflow'' ann 1) (\<lambda>ann_minus_one.
     rbind (mul_or ''curve_v1 D: (Ann-1)*D overflow'' ann_minus_one z) (\<lambda>term_a.
     rbind (add_or ''curve_v1 D: (n+1) overflow'' n 1) (\<lambda>n1.
     rbind (mul_or ''curve_v1 D: (n+1)*D_P overflow'' n1 dp) (\<lambda>term_b.
     rbind (add_or ''curve_v1 D: denominator overflow'' term_a term_b) (\<lambda>denom.
       if denom = 0 then fail ''curve_v1 D: zero denominator'' else Inr (num div denom))))))))) = Inr d"
    unfolding d_round_def by (simp only: rbind_Inr rbind_Inr_iff mul_or_iff) blast
  from k1 obtain n_dp pre num am1 ta n1 tb den :: "256 word" where
    run: "unat n_dp = unat n * unat dp" "unat pre = unat ann_s + unat n_dp"
      "unat num = unat pre * unat z" "unat ann = 1 + unat am1" "unat ta = unat am1 * unat z"
      "unat n1 = unat n + 1" "unat tb = unat n1 * unat dp" "unat den = unat ta + unat tb" "d = num div den"
    by (simp only: arith_iff unat_1) (elim exE conjE, rule that, (assumption | simp split: if_splits)+)
  then show ?thesis by (simp add: unat_div r1)
qed

lemma d_round_two:
  assumes "d_round [x0, x1] 2 ann s z = Inr d"
  shows "let dp = (unat z * unat z div (unat x0 * 2)) * unat z div (unat x1 * 2)
    in unat d = (unat ann * unat s + 2 * dp) * unat z div ((unat ann - 1) * unat z + 3 * dp)"
proof -
  let ?dp = "(unat z * unat z div (unat x0 * 2)) * unat z div (unat x1 * 2)"
  from assms obtain dp where dp: "rfold (d_p_step 2 z) z [x0, x1] = Inr dp"
    by (auto simp: d_round_def rbind_Inr_iff)
  then have "unat dp = ?dp"
    by (auto simp: d_p_step_def arith_iff unat_div split: if_splits)
  with d_round_exact [OF dp assms] show ?thesis by (simp add: Let_def)
qed

lemma compute_d_two:
  assumes "compute_d [x0, x1] amp = Inr d" and "d \<noteq> 0"
  shows "two_coin_d (unat amp) (unat x0) (unat x1) (unat d)"
proof -
  from assms obtain s ann :: u256 where
    run: "unat s = unat x0 + unat x1" "unat ann = unat amp * 4"
      "newton ''curve_v1 D: newton diverged'' (d_round [x0, x1] 2 ann s) max_iter s = Inr d"
    by (auto simp: compute_d_def arith_iff Let_def unat_ucast_u256 split: if_splits)
  from newton_result [OF run(3)] obtain z where
    z: "d_round [x0, x1] 2 ann s z = Inr d" "within_one d z" by blast
  from d_round_two [OF z(1)] z(2) run(1,2) show ?thesis
    unfolding two_coin_d_def within_one_iff by (intro exI [of _ "unat z"]) (simp add: Let_def)
qed

lemma compute_y_two:
  assumes "compute_y [x0, x1] 0 1 nx amp d = Inr y"
  shows "two_coin_y (unat amp) (unat nx) (unat d) (unat y)"
proof -
  have acc: "unat s = unat nx \<and> unat c = unat d * unat d div (unat nx * 2)"
    if "rfold (y_acc_step 0 1 nx 2 d) (0, d) (enumerate 0 [x0, x1]) = Inr (s, c)" for s c
    using that by (auto simp: y_acc_step_def arith_iff unat_div Let_def split: if_splits)
  from assms obtain ann s c0 df m b :: u256 where
    run: "unat ann = unat amp * 4"
      "rfold (y_acc_step 0 1 nx 2 d) (0, d) (enumerate 0 [x0, x1]) = Inr (s, c0)"
      "unat df = 8 * unat amp" "unat m = unat c0 * unat d" "unat b = unat s + unat (d div ann)"
      "newton ''curve_v1 y: newton diverged'' (y_round b (m div df) d) max_iter d = Inr y"
    by (auto simp: compute_y_def arith_iff Let_def unat_ucast_u256
        simp del: rfold.simps enumerate_simps split: if_splits)
  from newton_result [OF run(6)] obtain z where
    z: "y_round b (m div df) d z = Inr y" "within_one y z" by blast
  from y_round_exact [OF z(1)] z(2) run(1,3-5) acc [OF run(2)] show ?thesis
    unfolding two_coin_y_def within_one_iff
    by (intro exI [of _ "unat z"]) (simp add: Let_def unat_div)
qed

text \<open>With an invariant of zero the new balance is zero, which the quote refuses.\<close>

lemma compute_y_zero:
  assumes "compute_y [x0, x1] 0 1 nx amp 0 = Inr y"
  shows "y = 0"
proof -
  from assms obtain b m df :: u256 where m: "unat m = 0"
    and run: "newton ''curve_v1 y: newton diverged'' (y_round b (m div df) 0) max_iter 0 = Inr y"
    by (auto simp: compute_y_def arith_iff Let_def simp del: rfold.simps enumerate_simps split: if_splits)
  from m have "m = 0" by (simp add: unat_eq_zero)
  then have first: "y' = 0" if "y_round b (m div df) 0 0 = Inr y'" for y'
    using y_round_exact [OF that] by (simp add: unat_eq_zero)
  from run obtain y' where "y_round b (m div df) 0 0 = Inr y'" "y' = y"
    unfolding max_iter_def newton_numeral by (auto simp: rbind_Inr_iff within_one_iff dest: first split: if_splits)
  with first show ?thesis by simp
qed

lemma curve_v1_exact:
  assumes "curve_v1_quote (StableV1 [x0, x1] amp f) x = Inr out" and "x \<noteq> 0"
  shows "\<exists>d nx (y :: u256). compute_d [x0, x1] amp = Inr d \<and> d \<noteq> 0 \<and> unat nx = unat x0 + unat x \<and>
    compute_y [x0, x1] 0 1 nx amp d = Inr y \<and>
    two_coin_y (unat amp) (unat x0 + unat x) (unat d) (unat y) \<and>
    1 \<le> unat y \<and> unat y \<le> unat x1 + 1 \<and>
    unat out = (unat x1 + 1 - unat y) - (unat x1 + 1 - unat y) * unat f div 10000"
proof -
  from assms obtain d new_x y ym dy :: u256 where
    run: "compute_d [x0, x1] amp = Inr d" "unat new_x = unat x0 + unat x"
      "compute_y [x0, x1] 0 1 new_x amp d = Inr y" "unat y = 1 + unat ym" "unat x1 = unat ym + unat dy"
    and fee: "charge_fee ''curve_v1: fee numerator overflow'' ''curve_v1: dy - fee underflow'' dy f = Inr out"
    by (auto simp: arith_iff split: if_splits)
  have dy: "unat dy = unat x1 + 1 - unat y" "unat y \<le> unat x1 + 1" "1 \<le> unat y"
    using run(4,5) by simp_all
  have "unat out = (unat x1 + 1 - unat y) - (unat x1 + 1 - unat y) * unat f div 10000"
    using charge_fee_exact(1) [OF fee] by (simp only: dy(1))
  moreover have "two_coin_y (unat amp) (unat x0 + unat x) (unat d) (unat y)"
    using compute_y_two [OF run(3)] run(2) by simp
  moreover have "d \<noteq> 0" using compute_y_zero run(3) dy(3) by fastforce
  ultimately show ?thesis using run(1-3) dy(2,3) by blast
qed

lemma quote_stable_bound:
  assumes "quote_stable bs amp f x = Inr out"
  shows "unat out \<le> unat (bs ! 1)"
  using assms by (auto simp: quote_stable_def arith_iff Let_def split: if_splits)

section \<open>Two-coin crypto swap\<close>

lemma scaled_product_bound:
  fixes b price prec x0 a :: nat
  assumes "0 < price" and "0 < x0 + a" and "0 < prec"
  shows "(b * price div prec) * a div (x0 + a) * prec div price \<le> b"
proof -
  let ?xp = "b * price div prec"
  have "?xp * a div (x0 + a) \<le> ?xp"
    using assms(2) div_le_mono [of "?xp * a" "?xp * (x0 + a)" "x0 + a"] by simp
  then have "?xp * a div (x0 + a) * prec \<le> b * price"
    using div_times_less_eq_dividend [of "b * price" prec] mult_le_mono1 order_trans by blast
  then show ?thesis
    using assms(1) div_le_mono [of _ "b * price" price] by force
qed

lemma curve_v2_bound:
  assumes "curve_v2_quote (Cryptoswap bs ps g f) x = Inr out"
  shows "unat out \<le> unat (bs ! 1)"
proof (cases "x = 0")
  case True
  with assms show ?thesis by (simp split: if_splits)
next
  case False
  have prec: "unat price_precision = 10 ^ 18" by (simp add: price_precision_def)
  from False assms obtain m num den m2 :: u256 where
    run: "unat m = unat (bs ! 1) * unat (ps ! 0)" "unat num = unat (m div price_precision) * unat x"
      "unat den = unat (bs ! 0) + unat x" "den \<noteq> 0" "ps ! 0 \<noteq> 0"
      "unat m2 = unat (num div den) * unat price_precision"
    and fee: "charge_fee ''curve_v2: fee numerator overflow'' ''curve_v2: dy - fee underflow''
      (m2 div (ps ! 0)) f = Inr out"
    by (auto simp: arith_iff Let_def split: if_splits)
  have "unat out \<le> unat (m2 div (ps ! 0))" by (rule charge_fee_exact(2) [OF fee])
  also have "\<dots> \<le> unat (bs ! 1)"
    using scaled_product_bound [of "unat (ps ! 0)" "unat (bs ! 0)" "unat x" "10 ^ 18" "unat (bs ! 1)"] run
    by (simp add: unat_div prec zero_word_iff)
  finally show ?thesis .
qed

section \<open>Weighted, bin and directional pools\<close>

lemma product_bound: "0 < x + y \<Longrightarrow> ro * y div (x + y) \<le> ro" for x y ro :: nat
  using div_le_mono [of "ro * y" "ro * (x + y)" "x + y"] by simp

lemma quote_weighted_bound:
  assumes "quote_weighted bs ws f x = Inr out"
  shows "unat out \<le> unat (bs ! 1)"
  using assms
  by (auto simp: quote_weighted_def arith_iff Let_def unat_div zero_word_iff split: if_splits
      intro!: product_bound)

lemma balancer_v2_bound:
  assumes "balancer_v2_quote ps x = Inr out"
  shows "(\<exists>bs ws f. ps = WeightedPool bs ws f \<and> unat out \<le> unat (bs ! 1)) \<or>
    (\<exists>bs amp f. ps = StablePool bs amp f \<and> unat out \<le> unat (bs ! 1)) \<or> out = 0"
  using assms
  by (auto simp: balancer_v2_quote_def split: if_splits pool_state.splits
      dest: quote_weighted_bound quote_stable_bound)

lemma trader_joe_bound:
  assumes "trader_joe_lb_quote (LiquidityBook i bins f) x = Inr out" and "x \<noteq> 0"
  shows "\<exists>b. find (\<lambda>b. bin_id b = i) bins = Some b \<and> unat out \<le> unat (bin_reserve_out b)"
proof -
  from assms obtain b where b: "find (\<lambda>b. bin_id b = i) bins = Some b"
    by (auto simp: rbind_Inr_iff ok_or_Inr_iff split: if_splits)
  with assms have "unat out \<le> unat (bin_reserve_out b)"
    by (auto simp: arith_iff Let_def unat_div zero_word_iff split: if_splits intro!: product_bound)
  with b show ?thesis by blast
qed

lemma maverick_bound:
  assumes "maverick_v2_quote R (Maverick mode raw) x = Inr out" and "x \<noteq> 0"
  shows "\<exists>ro. pull_u256 R raw ''reserve_out'' = Inr ro \<and> unat out \<le> unat ro"
proof -
  from assms obtain ro where ro: "pull_u256 R raw ''reserve_out'' = Inr ro"
    by (auto simp: rbind_Inr_iff split: if_splits)
  with assms have "unat out \<le> unat ro"
    by (auto simp: arith_iff Let_def unat_div zero_word_iff split: if_splits intro!: product_bound)
  with ro show ?thesis by blast
qed

end
