(* ===== verification/ReducerContract.thy ===== *)
theory ReducerContract
  imports TokenEffects PositionHelpers
begin

text \<open>
  Deltas that charge no gas and are well formed, which is what every reducer returns, and that the
  helpers the reducers call keep a delta so.
\<close>

definition plain_delta :: "state_delta \<Rightarrow> bool" where
  "plain_delta d = (gas_paid d = None \<and> wf_delta d)"

lemma plain_delta_new [simp]: "plain_delta state_delta_new"
  by (simp add: plain_delta_def)

lemma plain_delta_push [simp]:
  "plain_delta (push_token_change d c) \<longleftrightarrow> plain_delta d \<and> wf_token_change c"
  "plain_delta (push_pending_change d p) = plain_delta d"
  "plain_delta (push_position_change d q) = plain_delta d"
  by (auto simp: plain_delta_def wf_delta_def)

lemma debit_plain: "debit s d k x = Inr d' \<Longrightarrow> plain_delta d \<Longrightarrow> plain_delta d'"
  by (auto simp: plain_delta_def dest: debit_no_gas_wf)

lemma credit_plain: "credit s d k x = Inr d' \<Longrightarrow> plain_delta d \<Longrightarrow> plain_delta d'"
  by (auto simp: plain_delta_def dest: credit_no_gas_wf)

lemma transfer_nft_plain: "transfer_nft s d k r x = Inr d' \<Longrightarrow> plain_delta d \<Longrightarrow> plain_delta d'"
  by (auto simp: plain_delta_def dest: transfer_nft_no_gas_wf)

lemma open_position_plain: "open_position s d p = Inr d' \<Longrightarrow> plain_delta d \<Longrightarrow> plain_delta d'"
  by (auto simp: open_position_def split: if_splits)

lemma close_position_plain: "close_position s d i = Inr d' \<Longrightarrow> plain_delta d \<Longrightarrow> plain_delta d'"
  by (auto simp: close_position_def split: if_splits)

context position_upsert
begin

lemma upsert_plain: "upsert C s d i mutate = Inr d' \<Longrightarrow> plain_delta d \<Longrightarrow> plain_delta d'"
  by (auto simp: upsert_Inr)

end

lemmas plain_helpers = debit_plain credit_plain transfer_nft_plain open_position_plain
  close_position_plain lending.upsert_plain perp.upsert_plain hl.upsert_plain

end
