(* ===== verification/AmmEffects.thy ===== *)
theory AmmEffects
  imports AmmQuotes ReducerContract
begin

text \<open>
  \<^verbatim>\<open>asset-model/transition/src/effect/amm\<close>, the reducers: \<^verbatim>\<open>swap.rs\<close> with the aggregator checks of
  \<^verbatim>\<open>aggregator.rs\<close>, \<^verbatim>\<open>gsm_swap.rs\<close>, \<^verbatim>\<open>add_liquidity.rs\<close>, \<^verbatim>\<open>remove_liquidity.rs\<close>, \<^verbatim>\<open>collect_fees.rs\<close> and
  \<^verbatim>\<open>intent_order.rs\<close>.
\<close>

section \<open>Aggregator checks\<close>

definition known_safe_executors :: "string \<Rightarrow> address list option" where
  "known_safe_executors =
     [''one_inch_v6'' \<mapsto> [0x111111125421ca6dc452d289314280a0f8842a65]]"

fun discriminator :: "aggregator_kind \<Rightarrow> string option" where
  "discriminator OneInchV6 = Some ''one_inch_v6''"
| "discriminator _ = None"

fun is_custom_aggregator :: "aggregator_kind \<Rightarrow> bool" where
  "is_custom_aggregator (CustomAggregator _) = True"
| "is_custom_aggregator _ = False"

definition verify_executor :: "aggregator_meta \<Rightarrow> unit reducer_result" where
  "verify_executor meta =
     (case am_executor meta of
        None \<Rightarrow> Inr ()
      | Some executor \<Rightarrow>
          if is_custom_aggregator (am_aggregator meta)
          then fail ''custom aggregator executor verification not supported''
          else case discriminator (am_aggregator meta) of
            None \<Rightarrow> fail ''unknown executor for aggregator''
          | Some key \<Rightarrow>
              (case known_safe_executors key of
                 None \<Rightarrow> fail ''no executor allow-list entry for aggregator''
               | Some allowed \<Rightarrow>
                   if executor \<in> set allowed then Inr () else fail ''unknown executor for aggregator''))"

definition is_ascii_hexdigit :: "char \<Rightarrow> bool" where
  "is_ascii_hexdigit c =
     (let n = of_char c :: nat in
      (48 \<le> n \<and> n \<le> 57) \<or> (65 \<le> n \<and> n \<le> 70) \<or> (97 \<le> n \<and> n \<le> 102))"

definition verify_calldata_hash :: "aggregator_meta \<Rightarrow> unit reducer_result" where
  "verify_calldata_hash meta =
     (let h = raw_calldata_hash meta in
      if take 2 h \<noteq> ''0x'' \<or> length h \<noteq> 66
      then fail ''invalid raw_calldata_hash format: expected 0x + 64 hex chars''
      else if \<not> list_all is_ascii_hexdigit (drop 2 h)
      then fail ''invalid raw_calldata_hash format: non-hex digit''
      else Inr ())"

definition permit_bundle_default_ttl :: duration where
  "permit_bundle_default_ttl = 3600"

fun swap_amount_in :: "swap_direction \<Rightarrow> u256" where
  "swap_amount_in (ExactInput amount_in _) = amount_in"
| "swap_amount_in (ExactOutput max_amount_in _) = max_amount_in"

definition apply_permit_bundle ::
  "wallet_state \<Rightarrow> state_delta \<Rightarrow> eval_context \<Rightarrow> aggregator_meta \<Rightarrow> swap_action
     \<Rightarrow> state_delta reducer_result" where
  "apply_permit_bundle s d ctx meta swap =
     (if \<not> permit_bundled meta then Inr d
      else
        let token = sp_token_in (sw_params swap);
            spender_addr = (case am_executor meta of Some e \<Rightarrow> e | None \<Rightarrow> am_router meta);
            amount = swap_amount_in (sp_direction (sw_params swap));
            expires_at = time_saturating_add (now ctx) permit_bundle_default_ttl
        in upsert_permit2_allowance s d token spender_addr amount expires_at)"

section \<open>Swaps\<close>

definition hop_quote :: "number_readers \<Rightarrow> u256 \<Rightarrow> route_hop \<Rightarrow> u256 reducer_result" where
  "hop_quote R hop_in hop =
     (let ps = rh_pool_state hop in
      case rh_venue hop of
        UniswapV2 _ _ _ \<Rightarrow> uniswap_v2_quote ps hop_in
      | SushiV2 _ _ \<Rightarrow> sushi_v2_quote ps hop_in
      | UniswapV3 _ _ _ \<Rightarrow> uniswap_v3_quote ps hop_in
      | UniswapV4 _ _ _ hooks \<Rightarrow>
          if hooks \<noteq> 0 then Inl (UnsupportedProtocol ''swap'' ''uniswap_v4_with_hooks'')
          else uniswap_v4_quote ps hop_in
      | CurveV1 _ _ _ _ \<Rightarrow> curve_v1_quote ps hop_in
      | CurveV2 _ _ \<Rightarrow> curve_v2_quote ps hop_in
      | BalancerV2 _ _ _ _ \<Rightarrow> balancer_v2_quote ps hop_in
      | BalancerV3 _ _ _ \<Rightarrow> balancer_v3_quote ps hop_in
      | TraderJoeLB _ _ _ \<Rightarrow> trader_joe_lb_quote ps hop_in
      | MaverickV2 _ _ \<Rightarrow> maverick_v2_quote R ps hop_in
      | AggregatorRoute _ _ _ _ \<Rightarrow> Inl (UnsupportedProtocol ''swap'' ''aggregator_route'')
      | AaveGsm _ _ \<Rightarrow> Inl (UnsupportedProtocol ''swap'' ''aave_gsm''))"

definition path_step :: "number_readers \<Rightarrow> u256 \<Rightarrow> u256 \<Rightarrow> route_path \<Rightarrow> u256 reducer_result" where
  "path_step R total_amount_in total_out path =
     rbind (mul_or ''swap: path_amount_in numerator overflow'' total_amount_in (ucast (share_bp path)))
       (\<lambda>m.
     rbind (rfold (hop_quote R) (m div 10000) (hops path)) (\<lambda>hop_out.
     Inr (saturating_add total_out hop_out)))"

definition route_out :: "number_readers \<Rightarrow> swap_action \<Rightarrow> u256 reducer_result" where
  "route_out R a =
     rfold (path_step R (swap_amount_in (sp_direction (sw_params a)))) 0
       (sr_paths (lf_value (sl_route (sw_live_inputs a))))"

fun below_floor :: "swap_direction \<Rightarrow> u256 \<Rightarrow> bool" where
  "below_floor (ExactInput _ min_amount_out) total_out = (total_out < min_amount_out)"
| "below_floor (ExactOutput _ _) total_out = False"

definition aggregator_hooks ::
  "swap_action \<Rightarrow> wallet_state \<Rightarrow> eval_context \<Rightarrow> state_delta reducer_result" where
  "aggregator_hooks a s ctx =
     (case (sw_venue a, sr_aggregator (lf_value (sl_route (sw_live_inputs a)))) of
        (AggregatorRoute _ _ _ _, Some agg_meta) \<Rightarrow>
          rbind (verify_executor agg_meta) (\<lambda>_.
          rbind (verify_calldata_hash agg_meta) (\<lambda>_.
          if permit_bundled agg_meta then apply_permit_bundle s state_delta_new ctx agg_meta a
          else Inr state_delta_new))
      | _ \<Rightarrow> Inr state_delta_new)"

definition swap_apply ::
  "number_readers \<Rightarrow> swap_action \<Rightarrow> wallet_state \<Rightarrow> eval_context \<Rightarrow> state_delta reducer_result" where
  "swap_apply R a s ctx =
     (let total_amount_in = swap_amount_in (sp_direction (sw_params a)) in
      rbind (route_out R a) (\<lambda>total_out.
      if below_floor (sp_direction (sw_params a)) total_out then fail ''swap slippage: out < min''
      else
        rbind (aggregator_hooks a s ctx) (\<lambda>d.
        rbind (debit s d (ref_key (sp_token_in (sw_params a))) total_amount_in) (\<lambda>d'.
        case sp_token_out (sw_params a) of
          Some token_out \<Rightarrow> credit s d' (ref_key token_out) total_out
        | None \<Rightarrow> Inr d'))))"

definition gsm_swap_apply ::
  "gsm_swap_action \<Rightarrow> wallet_state \<Rightarrow> eval_context \<Rightarrow> state_delta reducer_result" where
  "gsm_swap_apply a s ctx = Inr state_delta_new"

section \<open>Adding liquidity\<close>

definition hex_nibble :: "char \<Rightarrow> nat reducer_result" where
  "hex_nibble ch =
     (let c = of_char ch :: nat in
      if 48 \<le> c \<and> c \<le> 57 then Inr (c - 48)
      else if 97 \<le> c \<and> c \<le> 102 then Inr (c - 97 + 10)
      else if 65 \<le> c \<and> c \<le> 70 then Inr (c - 65 + 10)
      else fail ''balancer pool_id contains non-hex byte'')"

definition strip_0x :: "string \<Rightarrow> string" where
  "strip_0x s = (if take 2 s = ''0x'' then drop 2 s else s)"

text \<open>The byte \<open>(hi << 4) | lo\<close> of two nibbles, appended to the big-endian value read so far.\<close>

definition address_byte :: "string \<Rightarrow> nat \<Rightarrow> nat \<Rightarrow> nat reducer_result" where
  "address_byte stripped acc i =
     rbind (hex_nibble (stripped ! (i * 2))) (\<lambda>hi.
     rbind (hex_nibble (stripped ! (i * 2 + 1))) (\<lambda>lo. Inr (256 * acc + (16 * hi + lo))))"

definition pool_id_to_address :: "string \<Rightarrow> address reducer_result" where
  "pool_id_to_address pid =
     (let stripped = strip_0x pid in
      if length stripped < 40 then fail ''balancer pool_id too short to extract LP address''
      else rbind (rfold (address_byte stripped) 0 [0..<20]) (\<lambda>n. Inr (of_nat n)))"

fun venue_tag :: "amm_venue \<Rightarrow> string" where
  "venue_tag (TraderJoeLB _ _ _) = ''trader_joe_lb''"
| "venue_tag v = amm_venue_name v"

fun pooled_lp_key :: "amm_venue \<Rightarrow> token_key reducer_result" where
  "pooled_lp_key (UniswapV2 chain pool _) = Inr (Erc20 chain pool)"
| "pooled_lp_key (SushiV2 chain pool) = Inr (Erc20 chain pool)"
| "pooled_lp_key (CurveV1 chain pool _ _) = Inr (Erc20 chain pool)"
| "pooled_lp_key (CurveV2 chain pool) = Inr (Erc20 chain pool)"
| "pooled_lp_key (MaverickV2 chain pool) = Inr (Erc20 chain pool)"
| "pooled_lp_key (BalancerV2 chain _ pid _) =
     rbind (pool_id_to_address pid) (\<lambda>a. Inr (Erc20 chain a))"
| "pooled_lp_key (BalancerV3 chain pid _) =
     rbind (pool_id_to_address pid) (\<lambda>a. Inr (Erc20 chain a))"
| "pooled_lp_key v = Inl (UnsupportedProtocol ''add_liquidity'' (venue_tag v))"

fun is_concentrated_venue :: "amm_venue \<Rightarrow> bool" where
  "is_concentrated_venue (UniswapV3 _ _ _) = True"
| "is_concentrated_venue (UniswapV4 _ _ _ _) = True"
| "is_concentrated_venue (TraderJoeLB _ _ _) = True"
| "is_concentrated_venue _ = False"

definition require_concentrated_venue :: "amm_venue \<Rightarrow> string \<Rightarrow> unit reducer_result" where
  "require_concentrated_venue v action =
     (if is_concentrated_venue v then Inr () else Inl (UnsupportedProtocol action (venue_tag v)))"

definition concentrated_underlyings :: "wallet_state \<Rightarrow> token_key \<Rightarrow> (token_ref \<times> token_ref) reducer_result" where
  "concentrated_underlyings s nft_key =
     rbind (ok_or (Mapping.lookup (tokens s) nft_key) (TokenNotFound nft_key)) (\<lambda>h.
     case th_kind h of
       LpShare _ underlyings _ (Concentrated _ _) \<Rightarrow>
         (case underlyings of
            [a, b] \<Rightarrow> Inr (a, b)
          | _ \<Rightarrow> fail ''concentrated LP: expected 2 underlyings'')
     | _ \<Rightarrow> fail ''concentrated lifecycle action targeted a holding that is not LpShare(Concentrated)'')"

definition ensure_mint_stub :: "wallet_state \<Rightarrow> state_delta \<Rightarrow> token_key \<Rightarrow> token_kind \<Rightarrow> state_delta" where
  "ensure_mint_stub s d k kind_hint =
     (if Mapping.lookup (tokens s) k = None then push_token_change d (Mint k kind_hint) else d)"

definition raw_credit :: "state_delta \<Rightarrow> token_key \<Rightarrow> u256 \<Rightarrow> state_delta" where
  "raw_credit d k amount = push_token_change d (BalanceDelta k (u256_to_signed_saturating amount))"

definition pooled_lp_kind_hint :: "token_ref list \<Rightarrow> token_kind" where
  "pooled_lp_kind_hint underlyings =
     LpShare \<lparr>pool_protocol = protocol_ref_new ''unknown'', pool_addr = None, pool_id = None, fee_tier = None\<rparr>
       underlyings FungibleShare (Pooled None)"

fun venue_chain_of :: "amm_venue \<Rightarrow> chain_id" where
  "venue_chain_of (UniswapV2 chain _ _) = chain"
| "venue_chain_of (UniswapV3 chain _ _) = chain"
| "venue_chain_of (UniswapV4 chain _ _ _) = chain"
| "venue_chain_of (SushiV2 chain _) = chain"
| "venue_chain_of (CurveV1 chain _ _ _) = chain"
| "venue_chain_of (CurveV2 chain _) = chain"
| "venue_chain_of (BalancerV2 chain _ _ _) = chain"
| "venue_chain_of (BalancerV3 chain _ _) = chain"
| "venue_chain_of (TraderJoeLB chain _ _) = chain"
| "venue_chain_of (MaverickV2 chain _) = chain"
| "venue_chain_of (AaveGsm chain _) = chain"
| "venue_chain_of (AggregatorRoute chain _ _ _) = chain"

definition debit_each :: "wallet_state \<Rightarrow> state_delta \<Rightarrow> (token_ref \<times> u256) list \<Rightarrow> state_delta reducer_result" where
  "debit_each s d ts = rfold (\<lambda>d (t, amount). debit s d (ref_key t) amount) d ts"

definition credit_each :: "wallet_state \<Rightarrow> state_delta \<Rightarrow> (token_ref \<times> u256) list \<Rightarrow> state_delta reducer_result" where
  "credit_each s d ts = rfold (\<lambda>d (t, amount). credit s d (ref_key t) amount) d ts"

definition credit_nonzero :: "wallet_state \<Rightarrow> state_delta \<Rightarrow> (token_ref \<times> u256) list \<Rightarrow> state_delta reducer_result" where
  "credit_nonzero s d ts =
     rfold (\<lambda>d (t, amount). if amount \<noteq> 0 then credit s d (ref_key t) amount else Inr d) d ts"

definition add_liquidity_apply ::
  "add_liquidity_action \<Rightarrow> wallet_state \<Rightarrow> eval_context \<Rightarrow> state_delta reducer_result" where
  "add_liquidity_apply a s ctx =
     (case al_params a of
        AddPooled ts min_lp_out recipient \<Rightarrow>
          if ts = [] then fail ''add_liquidity pooled: tokens list is empty''
          else
            rbind (debit_each s state_delta_new ts) (\<lambda>d.
            rbind (pooled_lp_key (al_venue a)) (\<lambda>lp_key.
            if Mapping.lookup (tokens s) lp_key \<noteq> None then credit s d lp_key min_lp_out
            else Inr (raw_credit (ensure_mint_stub s d lp_key (pooled_lp_kind_hint (map fst ts)))
                   lp_key min_lp_out)))
      | ConcentratedMint pool_pair amount_desired amount_min rng recipient \<Rightarrow>
          rbind (require_concentrated_venue (al_venue a) ''add_liquidity'') (\<lambda>_.
          let chain = venue_chain_of (al_venue a) in
          if key_chain (ref_key (fst pool_pair)) \<noteq> chain \<or> key_chain (ref_key (snd pool_pair)) \<noteq> chain
          then fail ''concentrated mint pool_pair token chain mismatch vs venue chain''
          else
            rbind (debit s state_delta_new (ref_key (fst pool_pair)) (fst amount_desired)) (\<lambda>d.
            debit s d (ref_key (snd pool_pair)) (snd amount_desired)))
      | ConcentratedIncrease nft_key amount_desired amount_min \<Rightarrow>
          rbind (require_concentrated_venue (al_venue a) ''add_liquidity'') (\<lambda>_.
          rbind (concentrated_underlyings s nft_key) (\<lambda>(token_a, token_b).
          rbind (debit s state_delta_new (ref_key token_a) (fst amount_desired)) (\<lambda>d.
          debit s d (ref_key token_b) (snd amount_desired)))))"

section \<open>Removing liquidity and collecting fees\<close>

fun is_pooled_venue :: "amm_venue \<Rightarrow> bool" where
  "is_pooled_venue (UniswapV2 _ _ _) = True"
| "is_pooled_venue (SushiV2 _ _) = True"
| "is_pooled_venue (CurveV1 _ _ _ _) = True"
| "is_pooled_venue (CurveV2 _ _) = True"
| "is_pooled_venue (BalancerV2 _ _ _ _) = True"
| "is_pooled_venue (BalancerV3 _ _ _) = True"
| "is_pooled_venue (MaverickV2 _ _) = True"
| "is_pooled_venue _ = False"

definition require_pooled_venue :: "amm_venue \<Rightarrow> string \<Rightarrow> unit reducer_result" where
  "require_pooled_venue v action =
     (if is_pooled_venue v then Inr () else Inl (UnsupportedProtocol action (venue_tag v)))"

fun concentrated_liquidity_is_zero :: "range_spec \<Rightarrow> bool" where
  "concentrated_liquidity_is_zero (TickRange _ _ liquidity) = (liquidity = 0)"
| "concentrated_liquidity_is_zero _ = False"

definition remove_liquidity_apply ::
  "remove_liquidity_action \<Rightarrow> wallet_state \<Rightarrow> eval_context \<Rightarrow> state_delta reducer_result" where
  "remove_liquidity_apply a s ctx =
     (let fees = lf_value (rl_fees_owed (rl_live_inputs a)) in
      case rl_params a of
        PooledBurn lp_token lp_amount min_out recipient \<Rightarrow>
          rbind (require_pooled_venue (rl_venue a) ''remove_liquidity'') (\<lambda>_.
          rbind (debit s state_delta_new (ref_key lp_token) lp_amount) (\<lambda>d.
          rbind (credit_each s d min_out) (\<lambda>d. credit_nonzero s d fees)))
      | PooledBurnOneCoin lp_token lp_amount token_out min_out recipient \<Rightarrow>
          rbind (require_pooled_venue (rl_venue a) ''remove_liquidity'') (\<lambda>_.
          rbind (debit s state_delta_new (ref_key lp_token) lp_amount) (\<lambda>d.
          rbind (credit s d (ref_key token_out) min_out) (\<lambda>d. credit_nonzero s d fees)))
      | PooledBurnImbalance lp_token max_lp_burn amounts_out recipient \<Rightarrow>
          rbind (require_pooled_venue (rl_venue a) ''remove_liquidity'') (\<lambda>_.
          rbind (debit s state_delta_new (ref_key lp_token) max_lp_burn) (\<lambda>d.
          rbind (credit_each s d amounts_out) (\<lambda>d. credit_nonzero s d fees)))
      | ConcentratedDecrease nft_key liquidity_burn amount_min \<Rightarrow>
          rbind (require_concentrated_venue (rl_venue a) ''remove_liquidity'') (\<lambda>_.
          rbind (concentrated_underlyings s nft_key) (\<lambda>_.
          if liquidity_burn = 0
          then fail ''remove_liquidity concentrated_decrease: liquidity_burn is zero''
          else Inr state_delta_new))
      | ConcentratedBurn nft_key \<Rightarrow>
          rbind (require_concentrated_venue (rl_venue a) ''remove_liquidity'') (\<lambda>_.
          rbind (ok_or (Mapping.lookup (tokens s) nft_key) (TokenNotFound nft_key)) (\<lambda>h.
          case th_kind h of
            LpShare _ _ _ (Concentrated rng _) \<Rightarrow>
              if \<not> concentrated_liquidity_is_zero rng
              then fail ''remove_liquidity concentrated_burn: NFT has non-zero liquidity''
              else transfer_nft s state_delta_new nft_key 0 None
          | _ \<Rightarrow> fail ''concentrated_burn targeted a holding that is not LpShare(Concentrated)'')))"

definition collect_fees_apply ::
  "collect_fees_action \<Rightarrow> wallet_state \<Rightarrow> eval_context \<Rightarrow> state_delta reducer_result" where
  "collect_fees_apply a s ctx =
     rbind (require_concentrated_venue (cf_venue a) ''collect_fees'') (\<lambda>_.
     rbind (concentrated_underlyings s (cf_nft_key a)) (\<lambda>_.
     credit_nonzero s state_delta_new (lf_value (cf_fees_owed a))))"

section \<open>Intent orders\<close>

fun map_order_kind :: "intent_order_kind \<Rightarrow> order_kind" where
  "map_order_kind IntentDutch = Dutch"
| "map_order_kind IntentLimit = LimitOrder"
| "map_order_kind IntentRfq = Rfq"

fun project_venue :: "intent_venue \<Rightarrow> venue_ref \<times> address" where
  "project_venue (UniswapX chain reactor) =
     (\<lparr>venue_name = ''uniswap_x'', venue_chain = Some chain\<rparr>, reactor)"
| "project_venue (CowSwap chain settlement) =
     (\<lparr>venue_name = ''cow_swap'', venue_chain = Some chain\<rparr>, settlement)"
| "project_venue (OneInchFusion chain) =
     (\<lparr>venue_name = ''one_inch_fusion'', venue_chain = Some chain\<rparr>, 0)"
| "project_venue (Bebop chain) = (\<lparr>venue_name = ''bebop'', venue_chain = Some chain\<rparr>, 0)"
| "project_venue (OneInchLimitOrder chain verifying_contract) =
     (\<lparr>venue_name = ''one_inch_limit_order'', venue_chain = Some chain\<rparr>, verifying_contract)"

definition pending_id_for_intent :: "string \<Rightarrow> string \<Rightarrow> string \<Rightarrow> string \<Rightarrow> u64 \<Rightarrow> string" where
  "pending_id_for_intent venue sell_hex buy_hex sell_amount valid_until_unix =
     ''intent:'' @ venue @ '':'' @ sell_hex @ '':'' @ buy_hex @ '':'' @ sell_amount @ '':''
       @ dec_string (unat valid_until_unix)"

definition contract_hex :: "token_key \<Rightarrow> string" where
  "contract_hex k = (case key_contract k of None \<Rightarrow> ''native'' | Some addr \<Rightarrow> lowercase_hex addr)"

definition sign_intent_order_apply ::
  "sign_intent_order_action \<Rightarrow> wallet_state \<Rightarrow> eval_context \<Rightarrow> state_delta reducer_result" where
  "sign_intent_order_apply a s ctx =
     (let (vr, sp) = project_venue (si_venue a);
          i = pending_id_for_intent (venue_name vr) (contract_hex (ref_key (si_sell a)))
                (contract_hex (ref_key (si_buy a))) (dec_string (unat (si_sell_amount a))) (si_valid_until a);
          p = PendingTx i
                (OffchainLimitOrder vr (si_sell a) (si_buy a) (si_sell_amount a) (si_buy_min a)
                  (map_order_kind (si_order_kind a)))
                (PermitCap (si_sell a) sp (si_sell_amount a))
                state_delta_new
                \<lparr>pl_status = Active, valid_until = Some (si_valid_until a), pl_nonce = None,
                 on_chain_tx = None, raw_status = None\<rparr>
                UserSupplied (now ctx) []
      in Inr (push_pending_change state_delta_new (AddPending p)))"

definition settle_intent_order_apply ::
  "settle_intent_order_action \<Rightarrow> wallet_state \<Rightarrow> eval_context \<Rightarrow> state_delta reducer_result" where
  "settle_intent_order_apply a s ctx = Inr state_delta_new"

definition cancel_intent_order_apply ::
  "cancel_intent_order_action \<Rightarrow> wallet_state \<Rightarrow> eval_context \<Rightarrow> state_delta reducer_result" where
  "cancel_intent_order_apply a s ctx =
     Inr (push_pending_change state_delta_new (RemovePending (ci_order_hash a) RemovedCancelled))"

definition pre_sign_intent_order_apply ::
  "pre_sign_intent_order_action \<Rightarrow> wallet_state \<Rightarrow> eval_context \<Rightarrow> state_delta reducer_result" where
  "pre_sign_intent_order_apply a s ctx =
     (if \<not> ps_signed a
      then Inr (push_pending_change state_delta_new (RemovePending (ps_order_hash a) RemovedCancelled))
      else Inr state_delta_new)"

fun amm_action_apply ::
  "number_readers \<Rightarrow> amm_action \<Rightarrow> wallet_state \<Rightarrow> eval_context \<Rightarrow> state_delta reducer_result" where
  "amm_action_apply R (Swap a) = swap_apply R a"
| "amm_action_apply R (GsmSwap a) = gsm_swap_apply a"
| "amm_action_apply R (AddLiquidity a) = add_liquidity_apply a"
| "amm_action_apply R (RemoveLiquidity a) = remove_liquidity_apply a"
| "amm_action_apply R (CollectFees a) = collect_fees_apply a"
| "amm_action_apply R (SignIntentOrder a) = sign_intent_order_apply a"
| "amm_action_apply R (SettleIntentOrder a) = settle_intent_order_apply a"
| "amm_action_apply R (CancelIntentOrder a) = cancel_intent_order_apply a"
| "amm_action_apply R (PreSignIntentOrder a) = pre_sign_intent_order_apply a"

section \<open>The reducer contract\<close>

interpretation debit_loop: invariant_step "\<lambda>d (t, amount). debit s d (ref_key t) amount" plain_delta
    "\<lambda>_. True" for s
  by unfold_locales (auto elim: debit_plain)

interpretation credit_loop: invariant_step "\<lambda>d (t, amount). credit s d (ref_key t) amount" plain_delta
    "\<lambda>_. True" for s
  by unfold_locales (auto elim: credit_plain)

interpretation credit_nonzero_loop: invariant_step
    "\<lambda>d (t, amount). if amount \<noteq> 0 then credit s d (ref_key t) amount else Inr d" plain_delta
    "\<lambda>_. True" for s
  by unfold_locales (auto elim: credit_plain split: if_splits)

lemma debit_each_plain: "debit_each s d ts = Inr d' \<Longrightarrow> plain_delta d \<Longrightarrow> plain_delta d'"
  unfolding debit_each_def by (rule debit_loop.loop_keeps) (simp_all add: list_all_iff)

lemma credit_each_plain: "credit_each s d ts = Inr d' \<Longrightarrow> plain_delta d \<Longrightarrow> plain_delta d'"
  unfolding credit_each_def by (rule credit_loop.loop_keeps) (simp_all add: list_all_iff)

lemma credit_nonzero_plain: "credit_nonzero s d ts = Inr d' \<Longrightarrow> plain_delta d \<Longrightarrow> plain_delta d'"
  unfolding credit_nonzero_def by (rule credit_nonzero_loop.loop_keeps) (simp_all add: list_all_iff)

lemmas plain_steps = debit_plain credit_plain debit_each_plain credit_each_plain
  credit_nonzero_plain transfer_nft_plain

lemma aggregator_hooks_cases:
  assumes "aggregator_hooks a s ctx = Inr d"
  obtains "d = state_delta_new"
  | c t sp amount e where "d = push_token_change state_delta_new
      (ApprovalSetChange (Erc20 c t) sp (allowance_spec_new amount e))"
  using assms
  by (auto simp: aggregator_hooks_def apply_permit_bundle_def upsert_permit2_allowance_def is_erc20_iff
      allowance_spec_literal rbind_Inr_iff Let_def
      split: amm_venue.splits option.splits if_splits)

lemma aggregator_hooks_plain: "aggregator_hooks a s ctx = Inr d \<Longrightarrow> plain_delta d"
  by (erule aggregator_hooks_cases) simp_all

lemma swap_plain: "swap_apply R a s ctx = Inr d \<Longrightarrow> plain_delta d"
  by (auto simp: swap_apply_def rbind_Inr_iff Let_def split: if_splits option.splits
      elim!: plain_steps aggregator_hooks_plain)

lemma add_liquidity_plain: "add_liquidity_apply a s ctx = Inr d \<Longrightarrow> plain_delta d"
  by (auto simp: add_liquidity_apply_def rbind_Inr_iff raw_credit_def ensure_mint_stub_def Let_def
      split: add_liquidity_params.splits if_splits elim!: plain_steps)

lemma concentrated_burn_plain:
  "(case kind of
      LpShare _ _ _ (Concentrated rng _) \<Rightarrow>
        if \<not> concentrated_liquidity_is_zero rng
        then fail ''remove_liquidity concentrated_burn: NFT has non-zero liquidity''
        else transfer_nft s state_delta_new k 0 None
    | _ \<Rightarrow> fail ''concentrated_burn targeted a holding that is not LpShare(Concentrated)'') = Inr d
    \<Longrightarrow> plain_delta d"
proof (cases kind)
  case (LpShare p u f shape)
  then show "(case kind of
      LpShare _ _ _ (Concentrated rng _) \<Rightarrow>
        if \<not> concentrated_liquidity_is_zero rng
        then fail ''remove_liquidity concentrated_burn: NFT has non-zero liquidity''
        else transfer_nft s state_delta_new k 0 None
    | _ \<Rightarrow> fail ''concentrated_burn targeted a holding that is not LpShare(Concentrated)'') = Inr d
    \<Longrightarrow> plain_delta d"
    by (cases shape) (auto split: if_splits elim!: transfer_nft_plain)
qed simp_all

lemma remove_liquidity_plain: "remove_liquidity_apply a s ctx = Inr d \<Longrightarrow> plain_delta d"
  by (auto simp: remove_liquidity_apply_def rbind_Inr_iff Let_def
      split: remove_liquidity_params.splits if_splits
      elim!: plain_steps dest!: concentrated_burn_plain)

lemma amm_action_plain: "amm_action_apply R a s ctx = Inr d \<Longrightarrow> plain_delta d"
  by (cases a)
    (auto simp: gsm_swap_apply_def collect_fees_apply_def sign_intent_order_apply_def
      settle_intent_order_apply_def cancel_intent_order_apply_def pre_sign_intent_order_apply_def
      rbind_Inr_iff split: prod.splits if_splits
      elim!: swap_plain add_liquidity_plain remove_liquidity_plain plain_steps)

interpretation amm: reducer "amm_action_apply R" for R
  by unfold_locales (auto dest: amm_action_plain simp: plain_delta_def)

section \<open>No hop pays out more than its pool holds\<close>

definition pool_cap :: "number_readers \<Rightarrow> pool_state \<Rightarrow> nat" where
  "pool_cap R ps =
     (case ps of
        XyConstant _ reserve_out _ \<Rightarrow> unat reserve_out
      | ConcentratedPool sp _ l _ \<Rightarrow> unat l * unat sp div 2 ^ 96
      | StableV1 bs _ _ \<Rightarrow> unat (bs ! 1)
      | Cryptoswap bs _ _ _ \<Rightarrow> unat (bs ! 1)
      | WeightedPool bs _ _ \<Rightarrow> unat (bs ! 1)
      | StablePool bs _ _ \<Rightarrow> unat (bs ! 1)
      | LiquidityBook i bins _ \<Rightarrow>
          (case find (\<lambda>b. bin_id b = i) bins of Some b \<Rightarrow> unat (bin_reserve_out b) | None \<Rightarrow> 0)
      | Maverick _ raw \<Rightarrow>
          (case pull_u256 R raw ''reserve_out'' of Inr ro \<Rightarrow> unat ro | Inl _ \<Rightarrow> 0)
      | CustomPool _ _ \<Rightarrow> 0)"

text \<open>
  What the route walk needs from a venue: a quote whose result stays under a cap that depends only on
  the hop.
\<close>

locale capped_quote =
  fixes quote :: "u256 \<Rightarrow> 'hop \<Rightarrow> u256 reducer_result" and cap :: "'hop \<Rightarrow> nat"
  assumes quote_capped: "quote x hop = Inr out \<Longrightarrow> unat out \<le> cap hop"
begin

lemma walk_capped: "rfold quote x hs = Inr out \<Longrightarrow> hs \<noteq> [] \<Longrightarrow> unat out \<le> cap (last hs)"
  by (induction hs arbitrary: x) (auto simp: rbind_Inr_iff dest: quote_capped)

end

lemma uniswap_v2_bound:
  "uniswap_v2_quote (XyConstant ri ro f) a = Inr out \<Longrightarrow> unat out \<le> unat ro"
  using product_step(1) [of "10000 - unat f" "unat a * (10000 - unat f)" "unat a" "unat ri" "unat ro"]
    uniswap_v2_exact [of ri ro f a out] by simp

lemma uniswap_v2_capped: "uniswap_v2_quote ps x = Inr out \<Longrightarrow> unat out \<le> pool_cap R ps"
  using uniswap_v2_bound by (cases ps) (auto simp: pool_cap_def simp del: uniswap_v2_quote.simps(1))

lemma concentrated_capped: "concentrated_swap_math ps x tag = Inr out \<Longrightarrow> unat out \<le> pool_cap R ps"
  using concentrated_exact
  by (cases ps) (auto simp: pool_cap_def simp del: concentrated_swap_math.simps(1))

lemma curve_v1_capped: "curve_v1_quote ps x = Inr out \<Longrightarrow> unat out \<le> pool_cap R ps"
  using curve_v1_bound by (cases ps) (auto simp: pool_cap_def simp del: curve_v1_quote.simps(1))

lemma curve_v2_capped: "curve_v2_quote ps x = Inr out \<Longrightarrow> unat out \<le> pool_cap R ps"
  using curve_v2_bound by (cases ps) (auto simp: pool_cap_def simp del: curve_v2_quote.simps(1))

lemma balancer_capped: "balancer_v2_quote ps x = Inr out \<Longrightarrow> unat out \<le> pool_cap R ps"
  by (auto simp: pool_cap_def dest!: balancer_v2_bound)

lemma trader_joe_capped:
  assumes "trader_joe_lb_quote ps x = Inr out"
  shows "unat out \<le> pool_cap R ps"
proof (cases ps)
  case (LiquidityBook i bins f)
  show ?thesis
  proof (cases "x = 0")
    case True
    with assms LiquidityBook show ?thesis by (simp split: if_splits)
  next
    case False
    with assms LiquidityBook trader_joe_bound show ?thesis by (fastforce simp: pool_cap_def)
  qed
qed (use assms in simp_all)

lemma maverick_capped:
  assumes "maverick_v2_quote R ps x = Inr out"
  shows "unat out \<le> pool_cap R ps"
proof (cases ps)
  case (Maverick mode raw)
  show ?thesis
  proof (cases "x = 0")
    case True
    with assms Maverick show ?thesis by simp
  next
    case False
    with assms Maverick maverick_bound show ?thesis by (fastforce simp: pool_cap_def)
  qed
qed (use assms in simp_all)

lemma hop_quote_capped: "hop_quote R x hop = Inr out \<Longrightarrow> unat out \<le> pool_cap R (rh_pool_state hop)"
  by (auto simp: hop_quote_def sushi_v2_quote_def uniswap_v3_quote_def uniswap_v4_quote_def
      balancer_v3_quote_def Let_def split: amm_venue.splits if_splits
      intro: uniswap_v2_capped concentrated_capped curve_v1_capped curve_v2_capped balancer_capped
        trader_joe_capped maverick_capped)

interpretation venues: capped_quote "hop_quote R" "\<lambda>hop. pool_cap R (rh_pool_state hop)" for R
  by unfold_locales (rule hop_quote_capped)

text \<open>What a path can yield at most: the cap of its last hop, or its share of the input without hops.\<close>

definition path_cap :: "number_readers \<Rightarrow> u256 \<Rightarrow> route_path \<Rightarrow> nat" where
  "path_cap R total_in path =
     (if hops path = [] then unat total_in * unat (share_bp path) div 10000
      else pool_cap R (rh_pool_state (last (hops path))))"

lemma path_step_capped:
  assumes "path_step R x t p = Inr t'"
  shows "unat t' \<le> unat t + path_cap R x p"
proof -
  from assms obtain m out where m: "unat m = unat x * unat (ucast (share_bp p) :: u256)"
    and walk: "rfold (hop_quote R) (m div 10000) (hops p) = Inr out" and t': "t' = saturating_add t out"
    by (auto simp: path_step_def rbind_Inr_iff mul_or_iff)
  have "unat out \<le> path_cap R x p"
  proof (cases "hops p = []")
    case True
    with walk have "out = m div 10000" by simp
    then have "unat out = unat m div 10000" by (simp add: unat_div)
    with m True show ?thesis by (simp add: path_cap_def unat_ucast_u256)
  next
    case False
    with venues.walk_capped [OF walk] show ?thesis by (simp add: path_cap_def)
  qed
  then show ?thesis by (simp add: t' unat_saturating_add)
qed

lemma route_capped:
  "rfold (path_step R x) t ps = Inr out \<Longrightarrow> unat out \<le> unat t + sum_list (map (path_cap R x) ps)"
proof (induction ps arbitrary: t)
  case (Cons p ps)
  then obtain t' where "path_step R x t p = Inr t'" "rfold (path_step R x) t' ps = Inr out"
    by (auto simp: rbind_Inr_iff)
  with Cons.IH [of t'] path_step_capped [of R x t p t'] show ?case by simp
qed simp

section \<open>What a swap does to the wallet\<close>

text \<open>
  The allowance a swap may change: a bundled permit of an aggregator route grants the executor (or the
  router) the input amount of the input token until an hour from now.
\<close>

definition permit_grant :: "swap_action \<Rightarrow> eval_context \<Rightarrow> approval_set \<Rightarrow> approval_set" where
  "permit_grant a ctx ap =
     (case (sw_venue a, sr_aggregator (lf_value (sl_route (sw_live_inputs a))), ref_key (sp_token_in (sw_params a))) of
        (AggregatorRoute _ _ _ _, Some meta, Erc20 chain token) \<Rightarrow>
          if permit_bundled meta
          then grant_erc20 (chain, token) (case am_executor meta of Some e \<Rightarrow> e | None \<Rightarrow> am_router meta)
                 (allowance_spec_new (swap_amount_in (sp_direction (sw_params a)))
                   (time_saturating_add (now ctx) 3600)) ap
          else ap
      | _ \<Rightarrow> ap)"

lemma aggregator_hooks_applied:
  assumes "aggregator_hooks a s ctx = Inr d"
  shows "apply_delta C s d = Inr (s\<lparr>approvals := permit_grant a ctx (approvals s)\<rparr>)"
  using assms
  by (auto simp: aggregator_hooks_def apply_permit_bundle_def upsert_permit2_allowance_def is_erc20_iff
      allowance_spec_literal permit_grant_def permit_bundle_default_ttl_def rbind_Inr_iff apply_grant_erc20 Let_def
      split: amm_venue.splits option.splits if_splits token_key.splits)

lemma swap_applied:
  assumes "swap_apply R a s ctx = Inr d" and "sp_token_out (sw_params a) = Some tout"
    and "ref_key (sp_token_in (sw_params a)) \<noteq> ref_key tout"
  shows "\<exists>out bi bi' bo bo'. route_out R a = Inr out \<and>
    \<not> below_floor (sp_direction (sw_params a)) out \<and>
    apply_delta C s d = Inr (s\<lparr>approvals := permit_grant a ctx (approvals s),
      tokens := with_balance (with_balance (tokens s) (ref_key (sp_token_in (sw_params a))) bi') (ref_key tout) bo'\<rparr>) \<and>
    fungible_balance s (ref_key (sp_token_in (sw_params a))) = Some bi \<and>
    int (unat bi') = min (int (unat bi)) (2 ^ 255 - 1)
      - min (int (unat (swap_amount_in (sp_direction (sw_params a))))) (2 ^ 255 - 1) \<and>
    fungible_balance s (ref_key tout) = Some bo \<and>
    int (unat bo') = min (min (int (unat bo)) (2 ^ 255 - 1) + min (int (unat out)) (2 ^ 255 - 1)) (2 ^ 255 - 1)"
proof -
  let ?kin = "ref_key (sp_token_in (sw_params a))" and ?kout = "ref_key tout"
  let ?x = "swap_amount_in (sp_direction (sw_params a))" and ?ap = "permit_grant a ctx (approvals s)"
  from assms(1,2) obtain out d0 d1 where out: "route_out R a = Inr out"
    and floor: "\<not> below_floor (sp_direction (sw_params a)) out"
    and d0: "aggregator_hooks a s ctx = Inr d0" and d1: "debit s d0 ?kin ?x = Inr d1"
    and d: "credit s d1 ?kout out = Inr d"
    by (auto simp: swap_apply_def rbind_Inr_iff Let_def split: if_splits)
  note s0 = aggregator_hooks_applied [OF d0, of C]
  have gas: "gas_paid d0 = None" "gas_paid d1 = None"
    using aggregator_hooks_plain [OF d0] debit_plain [OF d1] by (auto simp: plain_delta_def)
  from debit_exact [OF gas(1) s0 d1] obtain b1 b2 where
    s1: "apply_delta C s d1 = Inr (s\<lparr>approvals := ?ap, tokens := with_balance (tokens s) ?kin b2\<rparr>)"
    and b1: "fungible_balance s ?kin = Some b1"
      "int (unat b2) = min (int (unat b1)) (2 ^ 255 - 1) - min (int (unat ?x)) (2 ^ 255 - 1)"
    by (auto simp: fungible_balance_def simp del: min.bounded_iff)
  from credit_exact [OF gas(2) s1 d] obtain c1 c2 where
    s2: "apply_delta C s d = Inr (s\<lparr>approvals := ?ap,
      tokens := with_balance (with_balance (tokens s) ?kin b2) ?kout c2\<rparr>)"
    and c1: "fungible_balance (s\<lparr>approvals := ?ap, tokens := with_balance (tokens s) ?kin b2\<rparr>) ?kout = Some c1"
      "int (unat c2) = min (min (int (unat c1)) (2 ^ 255 - 1) + min (int (unat out)) (2 ^ 255 - 1)) (2 ^ 255 - 1)"
    by (auto simp del: min.bounded_iff)
  have "fungible_balance s ?kout = Some c1"
    using c1(1) with_balance_other [OF assms(3) [symmetric], of s b2] by (simp add: fungible_balance_def)
  with out floor b1 s2 c1(2) show ?thesis by blast
qed

text \<open>An exact-output swap never looks at the amount it is asked for.\<close>

lemma exact_output_unread:
  "swap_apply R (a\<lparr>sw_params := (sw_params a)\<lparr>sp_direction := ExactOutput m x\<rparr>\<rparr>)
    = swap_apply R (a\<lparr>sw_params := (sw_params a)\<lparr>sp_direction := ExactOutput m y\<rparr>\<rparr>)"
proof -
  let ?a = "\<lambda>z. a\<lparr>sw_params := (sw_params a)\<lparr>sp_direction := ExactOutput m z\<rparr>\<rparr>"
  have "apply_permit_bundle s d ctx meta (?a x) = apply_permit_bundle s d ctx meta (?a y)" for s d ctx meta
    by (simp add: apply_permit_bundle_def)
  then have "aggregator_hooks (?a x) s ctx = aggregator_hooks (?a y) s ctx" for s ctx
    by (cases "sw_venue a"; cases "sr_aggregator (lf_value (sl_route (sw_live_inputs a)))")
      (simp_all add: aggregator_hooks_def)
  then show ?thesis by (intro ext) (simp add: swap_apply_def route_out_def)
qed

section \<open>Pool identifiers\<close>

lemma hex_nibble_hex_char: "d < 16 \<Longrightarrow> hex_nibble (hex_char d) = Inr d"
  by (auto simp: hex_nibble_def hex_char_def Let_def)

lemma hex_fixed_nth: "i < k \<Longrightarrow> hex_fixed k n ! i = hex_char (n div 16 ^ (k - 1 - i) mod 16)"
proof (induction k arbitrary: n i)
  case (Suc k)
  show ?case
  proof (cases "i < k")
    case True
    with Suc.IH [of i "n div 16"] have "hex_fixed k (n div 16) ! i = hex_char (n div 16 div 16 ^ (k - 1 - i) mod 16)"
      by simp
    moreover have "n div 16 div 16 ^ (k - 1 - i) = n div 16 ^ (k - i)"
      using True by (simp add: div_mult2_eq [symmetric] power_Suc [symmetric] Suc_diff_Suc)
    ultimately show ?thesis
      using True by (simp add: nth_append)
  next
    case False
    with Suc.prems have "i = k" by simp
    then show ?thesis by (simp add: nth_append)
  qed
qed simp

lemma base_256_digits: "256 * (m div 256) + (16 * (m div 16 mod 16) + m mod 16) = (m :: nat)"
proof -
  have "m div 256 = m div 16 div 16" by (simp add: div_mult2_eq [symmetric])
  then show ?thesis
    using mult_div_mod_eq [of 16 m] mult_div_mod_eq [of 16 "m div 16"] by linarith
qed

lemma address_bytes_read:
  assumes "k \<le> 20" and "n < 16 ^ 40"
  shows "rfold (address_byte (hex_fixed 40 n @ rest)) 0 [0..<k] = Inr (n div 256 ^ (20 - k))"
  using assms(1)
proof (induction k)
  case 0
  then show ?case using assms(2) by (simp add: power_mult [symmetric])
next
  case (Suc k)
  let ?m = "n div 256 ^ (20 - Suc k)"
  have "256 ^ (20 - k) = 256 ^ (20 - Suc k) * (256 :: nat)"
    using Suc.prems by (simp add: power_Suc2 [symmetric] Suc_diff_Suc del: power_Suc)
  then have split: "n div 256 ^ (20 - k) = ?m div 256" by (simp add: div_mult2_eq)
  have "(16 :: nat) ^ (39 - 2 * k) = 256 ^ (20 - Suc k) * 16" "(16 :: nat) ^ (38 - 2 * k) = 256 ^ (20 - Suc k)"
  proof -
    have "(256 :: nat) ^ (20 - Suc k) = 16 ^ (2 * (19 - k))" by (simp add: power_mult)
    moreover have "38 - 2 * k = 2 * (19 - k)" "39 - 2 * k = Suc (2 * (19 - k))" using Suc.prems by simp_all
    ultimately show "(16 :: nat) ^ (39 - 2 * k) = 256 ^ (20 - Suc k) * 16"
      "(16 :: nat) ^ (38 - 2 * k) = 256 ^ (20 - Suc k)" by simp_all
  qed
  moreover have "n div 16 div 256 ^ (19 - k) = ?m div 16"
    by (simp add: div_mult2_eq [symmetric] mult.commute)
  ultimately have "address_byte (hex_fixed 40 n @ rest) (?m div 256) k
      = Inr (256 * (?m div 256) + (16 * (?m div 16 mod 16) + ?m mod 16))"
    using Suc.prems
    by (simp add: address_byte_def nth_append hex_fixed_nth hex_nibble_hex_char div_mult2_eq mult.commute)
  also have "256 * (?m div 256) + (16 * (?m div 16 mod 16) + ?m mod 16) = ?m"
    by (rule base_256_digits)
  finally show ?case
    using Suc.IH Suc.prems by (simp add: rfold_append split)
qed

end
