(* ===== verification/AmmProperties.thy ===== *)
theory AmmProperties
  imports AmmEffects Fixtures
begin

text \<open>
  The properties of the AMM domain: the quote formulas, the route walk, what a swap does to the wallet,
  the aggregator checks, and the life of an intent order.
\<close>

section \<open>Sample inputs\<close>

definition no_readers :: number_readers where
  "no_readers = \<lparr>read_u256 = (\<lambda>_. None), read_u64 = (\<lambda>_. None)\<rparr>"

definition sample_venue :: amm_venue where
  "sample_venue = UniswapV2 ethereum_mainnet 1 2"

definition sample_route :: swap_route where
  "sample_route =
     \<lparr>sr_paths = [\<lparr>share_bp = 10000,
        hops = [\<lparr>rh_token_in = TokenRef usdc, rh_token_out = TokenRef ether, rh_venue = sample_venue,
          rh_pool_state = XyConstant 1000 1000 30, effective_fee_bp = 30, rh_estimated_out = 9\<rparr>],
        rp_estimated_out = 9\<rparr>],
      sr_aggregator = None\<rparr>"

definition sample_swap :: swap_action where
  "sample_swap =
     \<lparr>sw_venue = sample_venue,
      sw_params = \<lparr>sp_token_in = TokenRef usdc, sp_token_out = Some (TokenRef ether),
        sp_direction = ExactInput 10 9, sp_recipient = alice, sp_slippage_bp = 50\<rparr>,
      sw_live_inputs = \<lparr>sl_route = live_field_new sample_route UserSupplied 0,
        expected_amount_out = live_field_new 9 UserSupplied 0,
        price_impact_bp = live_field_new 0 UserSupplied 0,
        gas_estimate = live_field_new 0 UserSupplied 0\<rparr>\<rparr>"

definition sample_order :: sign_intent_order_action where
  "sample_order =
     \<lparr>si_venue = Bebop ethereum_mainnet, si_sell = TokenRef usdc, si_buy = TokenRef ether,
      si_sell_amount = 10, si_buy_min = 9, si_order_kind = IntentLimit, si_recipient = alice,
      si_valid_until = 99, si_expected_fill_price = live_field_new ''1'' UserSupplied 0,
      si_competing_orders = live_field_new 0 UserSupplied 0\<rparr>"

lemmas sample_swap_defs = sample_swap_def sample_route_def sample_venue_def no_readers_def live_field_new_def

lemma sample_route_out: "route_out no_readers sample_swap = Inr 9"
  by (simp add: route_out_def path_step_def hop_quote_def sample_swap_defs checked_mul_def checked_add_def
      checked_sub_def Let_def saturating_add_def)

lemma sample_debit: "debit sample_wallet state_delta_new usdc 10
    = Inr (push_token_change state_delta_new (BalanceDelta usdc (- 10)))"
  by (simp add: debit_def effective_signed_balance_def u256_to_signed_saturating_def
      i256_try_from_u256_def Let_def)

lemma sample_order_signed:
  "\<exists>d s1. sign_intent_order_apply sample_order sample_wallet sample_ctx = Inr d \<and>
     apply_delta sample_serde sample_wallet d = Inr s1"
  by (simp add: sign_intent_order_apply_def sample_order_def apply_delta_def)

lemma sample_swap_sel [simp]:
  "sw_venue sample_swap = sample_venue" "sp_token_in (sw_params sample_swap) = TokenRef usdc"
  "sp_token_out (sw_params sample_swap) = Some (TokenRef ether)"
  "sp_direction (sw_params sample_swap) = ExactInput 10 9"
  "lf_value (sl_route (sw_live_inputs sample_swap)) = sample_route"
  by (simp_all add: sample_swap_def live_field_new_def)

lemma sample_swap_ok: "is_ok (swap_apply no_readers sample_swap sample_wallet sample_ctx)"
  by (simp add: swap_apply_def aggregator_hooks_def is_ok_def sample_debit credit_def sample_route_out
      sample_venue_def)

section \<open>Quotes\<close>

text \<open>C31. The constant-product quote: a successful quote is the exact floor of the published formula,
  never exceeds the output reserve, and the product of the reserves after the swap is at least the
  product before it.\<close>

theorem uniswap_v2_constant_product:
  assumes "uniswap_v2_quote (XyConstant ri ro f) a = Inr out"
  shows "unat out = unat ro * (unat a * (10000 - unat f)) div (unat ri * 10000 + unat a * (10000 - unat f)) \<and>
    unat out \<le> unat ro \<and> unat ri * unat ro \<le> (unat ri + unat a) * (unat ro - unat out)"
proof (intro conjI)
  let ?w = "unat a * (10000 - unat f)"
  note exact = uniswap_v2_exact [OF assms]
  show "unat out = unat ro * ?w div (unat ri * 10000 + ?w)" by (rule exact(3))
  show "unat out \<le> unat ro"
    unfolding exact(3) by (rule product_step(1) [OF _ refl exact(2)]) simp
  show "unat ri * unat ro \<le> (unat ri + unat a) * (unat ro - unat out)"
    unfolding exact(3) by (rule product_step(2) [OF _ refl exact(2)]) simp
qed

theorem uniswap_v2_constant_product_witness:
  "\<exists>out. uniswap_v2_quote (XyConstant 1000000 2000000 30) 1000 = Inr out \<and> unat out = 1992 \<and>
     1000000 * 2000000 \<le> (1000000 + 1000) * (2000000 - unat out)"
proof -
  have "is_ok (uniswap_v2_quote (XyConstant 1000000 2000000 30) 1000)"
    by (rule uniswap_v2_total) simp_all
  then obtain out where out: "uniswap_v2_quote (XyConstant 1000000 2000000 30) 1000 = Inr out"
    by (auto simp: is_ok_def split: sum.splits)
  from uniswap_v2_constant_product [OF out] out show ?thesis by simp
qed

text \<open>Quotes are monotone: on the same pool, a larger input never gets a smaller output.\<close>

theorem uniswap_v2_monotone:
  assumes "uniswap_v2_quote (XyConstant ri ro f) a = Inr out"
    and "uniswap_v2_quote (XyConstant ri ro f) a' = Inr out'" and "a \<le> a'"
  shows "out \<le> out'"
proof -
  have "unat a * (10000 - unat f) \<le> unat a' * (10000 - unat f)"
    using assms(3) by (simp add: word_le_nat_alt)
  from product_out_mono [OF this uniswap_v2_exact(2) [OF assms(1)], of "unat ro"] show ?thesis
    by (simp add: word_le_nat_alt uniswap_v2_exact(3) [OF assms(1)] uniswap_v2_exact(3) [OF assms(2)])
qed

theorem uniswap_v2_monotone_witness:
  "\<exists>out out'. uniswap_v2_quote (XyConstant 1000 1000 30) 10 = Inr out \<and>
     uniswap_v2_quote (XyConstant 1000 1000 30) 20 = Inr out' \<and> out \<le> out'"
proof -
  have "is_ok (uniswap_v2_quote (XyConstant 1000 1000 30) x)" if "x \<in> {10, 20}" for x
    using that by (intro uniswap_v2_total) auto
  then obtain out out' where o: "uniswap_v2_quote (XyConstant 1000 1000 30) 10 = Inr out"
    "uniswap_v2_quote (XyConstant 1000 1000 30) 20 = Inr out'"
    by (fastforce simp: is_ok_def split: sum.splits)
  from uniswap_v2_monotone [OF o] o show ?thesis by simp
qed

text \<open>C32. The concentrated-liquidity quote moves the price down, never up: its direction guard cannot
  fire, and its output is at most what the active liquidity holds at the current price.\<close>

theorem concentrated_quote_safe:
  "concentrated_swap_math ps a tag \<noteq> fail (tag @ '' quote: sqrt_price_next > sp (direction violation)'') \<and>
   (\<forall>sp t l ts out. ps = ConcentratedPool sp t l ts \<and> concentrated_swap_math ps a tag = Inr out
      \<longrightarrow> unat out \<le> unat l * unat sp div 2 ^ 96)"
  using concentrated_never_rises [of ps a tag] concentrated_exact by blast

theorem concentrated_quote_safe_witness:
  "\<exists>out. concentrated_swap_math (ConcentratedPool (2 ^ 96) 0 1000000 []) 1000 ''uniswap_v3'' = Inr out \<and>
     unat out \<le> 1000000"
proof -
  let ?ps = "ConcentratedPool (2 ^ 96) 0 1000000 []"
  have "is_ok (concentrated_swap_math ?ps 1000 ''uniswap_v3'')"
    by (simp add: Let_def checked_mul_def checked_add_def checked_sub_def q96_def is_ok_def)
  then obtain out where "concentrated_swap_math ?ps 1000 ''uniswap_v3'' = Inr out"
    by (auto simp: is_ok_def split: sum.splits)
  with concentrated_quote_safe [of ?ps 1000 "''uniswap_v3''"] show ?thesis by simp
qed




section \<open>Routes and swaps\<close>

text \<open>The output a route is credited with is bounded by the pools it goes through: it is at most the
  sum over its paths of what the last pool of the path can pay (its output reserve), whatever the hops
  before it claim.\<close>

theorem route_out_bounded:
  assumes "route_out R a = Inr out"
  shows "unat out \<le> sum_list (map (path_cap R (swap_amount_in (sp_direction (sw_params a))))
    (sr_paths (lf_value (sl_route (sw_live_inputs a)))))"
  using route_capped [OF assms [unfolded route_out_def]] by simp

theorem route_out_bounded_witness:
  "route_out no_readers sample_swap = Inr 9 \<and> (9 :: nat) \<le> 1000"
  using route_out_bounded [OF sample_route_out] sample_route_out
  by (simp add: sample_swap_defs path_cap_def pool_cap_def)

text \<open>C34. A swap between two different tokens, when it succeeds, can always be applied, and this is all it
  does: the balance of the input token falls by the input amount, that of the output token grows by the
  routed output (both read through the signed 256-bit clamp), no other balance, holding, position or
  pending entry changes, and the only allowance that can change is the bundled permit of an aggregator
  route. An exact-input swap receives at least its minimum.\<close>

theorem swap_moves_amounts:
  assumes "swap_apply R a s ctx = Inr d" and "sp_token_out (sw_params a) = Some tout"
    and "ref_key (sp_token_in (sw_params a)) \<noteq> ref_key tout"
  shows "\<exists>out bi bi' bo bo'. route_out R a = Inr out \<and>
    (\<forall>x m. sp_direction (sw_params a) = ExactInput x m \<longrightarrow> m \<le> out) \<and>
    apply_delta C s d = Inr (s\<lparr>approvals := permit_grant a ctx (approvals s),
      tokens := with_balance (with_balance (tokens s) (ref_key (sp_token_in (sw_params a))) bi') (ref_key tout) bo'\<rparr>) \<and>
    fungible_balance s (ref_key (sp_token_in (sw_params a))) = Some bi \<and>
    int (unat bi') = min (int (unat bi)) (2 ^ 255 - 1)
      - min (int (unat (swap_amount_in (sp_direction (sw_params a))))) (2 ^ 255 - 1) \<and>
    fungible_balance s (ref_key tout) = Some bo \<and>
    int (unat bo') = min (min (int (unat bo)) (2 ^ 255 - 1) + min (int (unat out)) (2 ^ 255 - 1)) (2 ^ 255 - 1)"
proof -
  have floor: "\<forall>x m. sp_direction (sw_params a) = ExactInput x m \<longrightarrow> m \<le> out"
    if "\<not> below_floor (sp_direction (sw_params a)) out" for out
    using that by (auto simp: not_less)
  from swap_applied [OF assms, of C] show ?thesis using floor by blast
qed

lemma word_of_amount: "int (unat (b :: u256)) = n \<Longrightarrow> b = word_of_int n"
  by auto

theorem swap_moves_amounts_witness:
  "\<exists>d. swap_apply no_readers sample_swap sample_wallet sample_ctx = Inr d \<and>
     apply_delta sample_serde sample_wallet d =
       Inr (sample_wallet\<lparr>tokens := with_balance (with_balance (tokens sample_wallet) usdc 990) ether 14\<rparr>)"
proof -
  from sample_swap_ok obtain d where d: "swap_apply no_readers sample_swap sample_wallet sample_ctx = Inr d"
    by (auto simp: is_ok_def split: sum.splits)
  have swap: "sp_token_out (sw_params sample_swap) = Some (TokenRef ether)"
    "ref_key (sp_token_in (sw_params sample_swap)) = usdc"
    "swap_amount_in (sp_direction (sw_params sample_swap)) = 10"
    "permit_grant sample_swap sample_ctx ap = ap" for ap
    by (simp_all add: sample_swap_defs permit_grant_def sample_venue_def)
  from swap_moves_amounts [OF d swap(1), of sample_serde] sample_route_out
  obtain bi' bo' where s': "apply_delta sample_serde sample_wallet d = Inr (sample_wallet\<lparr>approvals := approvals sample_wallet,
      tokens := with_balance (with_balance (tokens sample_wallet) usdc bi') ether bo'\<rparr>)"
    "int (unat bi') = 990" "int (unat bo') = 14"
    by (auto simp: swap)
  from s'(2,3) [THEN word_of_amount] have "bi' = 990" "bo' = 14" by simp_all
  with d s'(1) show ?thesis by simp
qed

text \<open>An exact-output swap never looks at the amount it is asked for, so it may be credited less.\<close>

theorem exact_output_is_unchecked:
  "swap_apply R (a\<lparr>sw_params := (sw_params a)\<lparr>sp_direction := ExactOutput m x\<rparr>\<rparr>)
    = swap_apply R (a\<lparr>sw_params := (sw_params a)\<lparr>sp_direction := ExactOutput m y\<rparr>\<rparr>)"
  by (rule exact_output_unread)

text \<open>The aggregator checks gate the swap: a swap that succeeds through an aggregator route with
  metadata names no executor or the one allow-listed 1inch v6 router, and its calldata hash is
  \<open>0x\<close> followed by 64 hexadecimal digits.\<close>

theorem aggregator_swap_checked:
  assumes "swap_apply R a s ctx = Inr d" and "sw_venue a = AggregatorRoute c rt nm ex"
    and "sr_aggregator (lf_value (sl_route (sw_live_inputs a))) = Some meta"
  shows "(am_executor meta = None \<or> am_aggregator meta = OneInchV6 \<and>
      am_executor meta = Some 0x111111125421ca6dc452d289314280a0f8842a65) \<and>
    (\<exists>ds. raw_calldata_hash meta = ''0x'' @ ds \<and> length ds = 64 \<and> (\<forall>h\<in>set ds. is_ascii_hexdigit h))"
proof -
  from assms have checks: "verify_executor meta = Inr ()" "verify_calldata_hash meta = Inr ()"
    by (auto simp: swap_apply_def aggregator_hooks_def rbind_Inr_iff Let_def split: if_splits)
  from checks(1) have "am_executor meta = None \<or> am_aggregator meta = OneInchV6 \<and>
      am_executor meta = Some 0x111111125421ca6dc452d289314280a0f8842a65"
    by (cases "am_aggregator meta")
      (auto simp: verify_executor_def known_safe_executors_def split: option.splits if_splits)
  moreover have "raw_calldata_hash meta = ''0x'' @ drop 2 (raw_calldata_hash meta)"
    "length (drop 2 (raw_calldata_hash meta)) = 64" "\<forall>h\<in>set (drop 2 (raw_calldata_hash meta)). is_ascii_hexdigit h"
    using checks(2) append_take_drop_id [of 2 "raw_calldata_hash meta"]
    by (auto simp: verify_calldata_hash_def Let_def list_all_iff simp del: append_take_drop_id split: if_splits)
  ultimately show ?thesis by blast
qed

definition sample_meta :: aggregator_meta where
  "sample_meta = \<lparr>am_aggregator = OneInchV6, am_router = router,
     am_executor = Some 0x111111125421ca6dc452d289314280a0f8842a65,
     raw_calldata_hash = ''0x'' @ replicate 64 CHR ''a'', permit_bundled = False, am_referrer = None,
     referrer_fee_bp = 0\<rparr>"

definition sample_aggregated :: swap_action where
  "sample_aggregated = sample_swap\<lparr>sw_venue := AggregatorRoute ethereum_mainnet router ''1inch'' None,
     sw_live_inputs := (sw_live_inputs sample_swap)\<lparr>sl_route :=
       live_field_new (sample_route\<lparr>sr_aggregator := Some sample_meta\<rparr>) UserSupplied 0\<rparr>\<rparr>"

theorem aggregator_swap_checked_witness:
  "is_ok (swap_apply no_readers sample_aggregated sample_wallet sample_ctx) \<and>
   am_executor sample_meta \<noteq> None \<and> (\<exists>ds. raw_calldata_hash sample_meta = ''0x'' @ ds \<and> length ds = 64)"
proof -
  have "route_out no_readers sample_aggregated = route_out no_readers sample_swap"
    by (simp add: route_out_def sample_aggregated_def live_field_new_def)
  moreover have "verify_executor sample_meta = Inr ()" "verify_calldata_hash sample_meta = Inr ()"
    by (simp_all add: verify_executor_def verify_calldata_hash_def sample_meta_def known_safe_executors_def
        is_ascii_hexdigit_def list_all_iff)
  ultimately have ok: "is_ok (swap_apply no_readers sample_aggregated sample_wallet sample_ctx)"
    by (simp add: swap_apply_def aggregator_hooks_def is_ok_def sample_debit credit_def sample_route_out
        sample_aggregated_def live_field_new_def, simp add: sample_meta_def)
  then obtain d where d: "swap_apply no_readers sample_aggregated sample_wallet sample_ctx = Inr d"
    by (auto simp: is_ok_def split: sum.splits)
  have "sw_venue sample_aggregated = AggregatorRoute ethereum_mainnet router ''1inch'' None"
    "sr_aggregator (lf_value (sl_route (sw_live_inputs sample_aggregated))) = Some sample_meta"
    by (simp_all add: sample_aggregated_def live_field_new_def)
  from aggregator_swap_checked [OF d this] ok show ?thesis by (auto simp: sample_meta_def)
qed

section \<open>Liquidity\<close>

text \<open>Reading the LP token address off a Balancer pool id: the id starts with the pool's address in
  hexadecimal, and the reader returns exactly that address whatever follows it.\<close>

theorem pool_id_address_roundtrip:
  "pool_id_to_address (lowercase_hex a @ rest) = Inr a"
proof -
  have "unat a < 16 ^ 40" using unsigned_less [of a] by simp
  from address_bytes_read [OF _ this, of 20 rest] show ?thesis
    by (simp add: pool_id_to_address_def lowercase_hex_def strip_0x_def Let_def)
qed

text \<open>Burning an empty concentrated position emits a change that the delta engine always refuses:
  the NFT holding is an ownership flag, and the change is a balance change.\<close>

theorem concentrated_burn_not_applicable:
  assumes "rl_params a = ConcentratedBurn (Erc721 c t i)" and "remove_liquidity_apply a s ctx = Inr d"
    and "Mapping.lookup (tokens s) (Erc721 c t i) = Some h" and "th_balance h = Owned"
  shows "apply_delta C s d = Inl (Invariant ''BalanceDelta on non-fungible holding'')"
proof -
  from assms(1-3) have "transfer_nft s state_delta_new (Erc721 c t i) 0 None = Inr d"
    by (auto simp: remove_liquidity_apply_def rbind_Inr_iff Let_def
        split: token_kind.splits lp_shape.splits if_splits)
  with assms(3,4) show ?thesis by (intro erc721_change_rejected)
qed

definition sample_lp_wallet :: wallet_state where
  "sample_lp_wallet = sample_wallet\<lparr>tokens := Mapping.update punk
     ((sample_holding punk Owned)\<lparr>th_kind := LpShare \<lparr>pool_protocol = protocol_ref_new ''uniswap_v3'',
        pool_addr = None, pool_id = None, fee_tier = None\<rparr> [] FungibleShare
        (Concentrated (TickRange 0 1 0) [])\<rparr>) (tokens sample_wallet)\<rparr>"

definition sample_burn :: remove_liquidity_action where
  "sample_burn = \<lparr>rl_venue = UniswapV3 ethereum_mainnet 1 500, rl_params = ConcentratedBurn punk,
     rl_live_inputs = \<lparr>rl_pool_state = live_field_new (XyConstant 0 0 0) UserSupplied 0,
       rl_fees_owed = live_field_new [] UserSupplied 0\<rparr>\<rparr>"

theorem concentrated_burn_not_applicable_witness:
  "\<exists>d. remove_liquidity_apply sample_burn sample_lp_wallet sample_ctx = Inr d \<and>
     apply_delta sample_serde sample_lp_wallet d = Inl (Invariant ''BalanceDelta on non-fungible holding'')"
proof -
  let ?k = "Erc721 ethereum_mainnet 0xb47e3cd837dDF8e4c57F05d70Ab865de6e193BBB 7"
  obtain d where d: "remove_liquidity_apply sample_burn sample_lp_wallet sample_ctx = Inr d"
    by (simp add: remove_liquidity_apply_def sample_burn_def sample_lp_wallet_def punk_def
        require_concentrated_venue_def live_field_new_def)
  have k: "rl_params sample_burn = ConcentratedBurn ?k"
    by (simp add: sample_burn_def punk_def)
  obtain h where "Mapping.lookup (tokens sample_lp_wallet) ?k = Some h" "th_balance h = Owned"
    by (simp add: sample_lp_wallet_def punk_def)
  from concentrated_burn_not_applicable [OF k d this] d show ?thesis by blast
qed

section \<open>Intent orders\<close>

text \<open>A signed intent order cannot be cancelled by the hash of the order: signing files it under an
  id that starts with \<open>intent:\<close>, cancelling removes the entry whose id is the order hash, so with a
  hash of any other form the cancellation is refused and the order stays pending.\<close>

theorem cancel_misses_signed_order:
  assumes "sign_intent_order_apply a s ctx = Inr d1" and "apply_delta C s d1 = Inr s1"
    and "pending s = []" and "cancel_intent_order_apply b s1 ctx' = Inr d2"
    and "take 7 (ci_order_hash b) \<noteq> ''intent:''"
  shows "apply_delta C s1 d2 = Inl (Invariant ''pending id not found for remove'')"
proof -
  from assms(1-3) obtain p where "pending s1 = [p]" "take 7 (ptx_id p) = ''intent:''"
    by (auto simp: sign_intent_order_apply_def pending_id_for_intent_def apply_delta_def Let_def
        split: prod.splits)
  with assms(4,5) show ?thesis
    by (auto simp: cancel_intent_order_apply_def apply_delta_def)
qed

theorem cancel_misses_signed_order_witness:
  "\<exists>d1 s1 d2. sign_intent_order_apply sample_order sample_wallet sample_ctx = Inr d1 \<and>
     apply_delta sample_serde sample_wallet d1 = Inr s1 \<and>
     cancel_intent_order_apply \<lparr>ci_venue = Bebop ethereum_mainnet, ci_order_hash = ''0x1234'',
       ci_signature = None\<rparr> s1 sample_ctx = Inr d2 \<and>
     apply_delta sample_serde s1 d2 = Inl (Invariant ''pending id not found for remove'')"
proof -
  let ?b = "\<lparr>ci_venue = Bebop ethereum_mainnet, ci_order_hash = ''0x1234'', ci_signature = None\<rparr>"
  obtain d1 s1 where s1: "sign_intent_order_apply sample_order sample_wallet sample_ctx = Inr d1"
    "apply_delta sample_serde sample_wallet d1 = Inr s1"
    using sample_order_signed by blast
  obtain d2 where d2: "cancel_intent_order_apply ?b s1 sample_ctx = Inr d2"
    by (simp add: cancel_intent_order_apply_def)
  from cancel_misses_signed_order [OF s1 _ d2] s1 d2 show ?thesis by fastforce
qed

section \<open>The reducer contract\<close>

text \<open>Every AMM action that reduces and applies keeps a well-formed wallet well formed.\<close>

theorem amm_action_keeps_wf:
  "amm_action_apply R a s ctx = Inr d \<Longrightarrow> apply_delta C s d = Inr s' \<Longrightarrow> wf_wallet s \<Longrightarrow> wf_wallet s'"
  by (rule amm.reduce_keeps_wf)

theorem amm_action_keeps_wf_witness:
  "\<exists>d s'. amm_action_apply no_readers (SignIntentOrder sample_order) sample_wallet sample_ctx = Inr d \<and>
     apply_delta sample_serde sample_wallet d = Inr s' \<and> wf_wallet s'"
proof -
  obtain d s' where "amm_action_apply no_readers (SignIntentOrder sample_order) sample_wallet sample_ctx = Inr d"
    "apply_delta sample_serde sample_wallet d = Inr s'"
    using sample_order_signed by auto
  with amm_action_keeps_wf [OF this sample_wallet_wf] show ?thesis by blast
qed

end
