(* ===== verification/LendingActions.thy ===== *)
theory LendingActions
  imports Deltas
begin

text \<open>
  \<^verbatim>\<open>asset-model/action/src/lending\<close>: lending venues, the reserve and user snapshots an action carries, and
  the lending actions.
\<close>

section \<open>Venues\<close>

datatype lending_venue =
    AaveV3 chain_id address "u8 option"
  | AaveV2 chain_id address
  | CompoundV3 chain_id address token_ref
  | CompoundV2 chain_id address
  | MorphoBlue chain_id string
  | MorphoOptimizer chain_id address
  | Spark chain_id address
  | Fluid chain_id address
  | MetaMorpho chain_id address
  | CrvUsd chain_id address token_ref
  | LlamaLend chain_id address token_ref
  | AaveV3Periphery chain_id address

fun lending_venue_name :: "lending_venue \<Rightarrow> string" where
  "lending_venue_name (AaveV3 _ _ _) = ''aave_v3''"
| "lending_venue_name (AaveV2 _ _) = ''aave_v2''"
| "lending_venue_name (CompoundV3 _ _ _) = ''compound_v3''"
| "lending_venue_name (CompoundV2 _ _) = ''compound_v2''"
| "lending_venue_name (MorphoBlue _ _) = ''morpho_blue''"
| "lending_venue_name (MorphoOptimizer _ _) = ''morpho_optimizer''"
| "lending_venue_name (Spark _ _) = ''spark''"
| "lending_venue_name (Fluid _ _) = ''fluid''"
| "lending_venue_name (MetaMorpho _ _) = ''metamorpho''"
| "lending_venue_name (CrvUsd _ _ _) = ''crv_usd''"
| "lending_venue_name (LlamaLend _ _ _) = ''llama_lend''"
| "lending_venue_name (AaveV3Periphery _ _) = ''aave_v3_periphery''"

section \<open>Snapshots\<close>

record reserve_state =
  total_supply :: u256
  total_borrow :: u256
  utilization_bp :: u32
  supply_cap :: "u256 option"
  borrow_cap :: "u256 option"
  ltv_bp :: u32
  liquidation_threshold_bp :: u32
  liquidation_bonus_bp :: u32
  reserve_factor_bp :: u32
  is_frozen :: bool
  is_paused :: bool

record user_lending_state =
  uls_health_factor :: decimal
  total_collat_usd :: u256
  total_debt_usd :: u256
  available_borrow_usd :: u256

section \<open>Actions\<close>

record supply_live_inputs =
  su_reserve_state :: "reserve_state live_field"
  supply_apy :: "decimal live_field"
  a_token_price_usd :: "price live_field"
  eligible_as_collat :: "bool live_field"
  su_user_state_before :: "user_lending_state live_field"

record supply_action =
  su_venue :: lending_venue
  su_asset :: token_ref
  su_amount :: u256
  su_on_behalf_of :: "address option"
  su_live_inputs :: supply_live_inputs

record withdraw_live_inputs =
  wd_reserve_state :: "reserve_state live_field"
  available_to_withdraw :: "u256 live_field"
  wd_user_state_before :: "user_lending_state live_field"

record withdraw_action =
  wd_venue :: lending_venue
  wd_asset :: token_ref
  wd_amount :: u256
  wd_recipient :: address
  wd_live_inputs :: withdraw_live_inputs

record borrow_live_inputs =
  bo_reserve_state :: "reserve_state live_field"
  bo_user_state_before :: "user_lending_state live_field"
  bo_asset_price_usd :: "price live_field"
  bo_current_borrow_rate :: "decimal live_field"
  available_liquidity :: "u256 live_field"

record borrow_action =
  bo_venue :: lending_venue
  bo_asset :: token_ref
  bo_amount :: u256
  bo_rate_mode :: rate_mode
  bo_on_behalf_of :: "address option"
  bo_live_inputs :: borrow_live_inputs

record buy_collateral_action =
  bc_venue :: lending_venue
  bc_collateral_asset :: token_ref
  bc_base_asset :: token_ref
  bc_min_collateral_amount :: u256
  bc_base_amount :: u256
  bc_recipient :: address

record repay_live_inputs =
  re_reserve_state :: "reserve_state live_field"
  re_current_debt :: "u256 live_field"
  re_user_state_before :: "user_lending_state live_field"

record repay_action =
  re_venue :: lending_venue
  re_asset :: token_ref
  re_amount :: u256
  re_rate_mode :: rate_mode
  re_on_behalf_of :: "address option"
  re_use_a_tokens :: bool
  re_live_inputs :: repay_live_inputs

record swap_rate_mode_live_inputs =
  current_debts :: "(u256 \<times> u256) live_field"
  rates :: "(decimal \<times> decimal) live_field"

record swap_rate_mode_action =
  sr_venue :: lending_venue
  sr_asset :: token_ref
  sr_new_mode :: rate_mode
  sr_live_inputs :: swap_rate_mode_live_inputs

record e_mode_config =
  em_ltv_bp :: u32
  em_liquidation_threshold_bp :: u32
  em_liquidation_bonus_bp :: u32
  price_source :: "address option"
  assets_in_category :: "token_ref list"
  em_category :: "emode_category option"

record set_e_mode_live_inputs =
  category_config :: "e_mode_config live_field"
  em_user_state_before :: "user_lending_state live_field"

record set_e_mode_action =
  em_venue :: lending_venue
  category_id :: u8
  em_on_behalf_of :: "address option"
  em_live_inputs :: set_e_mode_live_inputs

record set_collateral_live_inputs =
  sc_reserve_state :: "reserve_state live_field"
  sc_user_state_before :: "user_lending_state live_field"

record set_collateral_action =
  sc_venue :: lending_venue
  sc_asset :: token_ref
  sc_on_behalf_of :: "address option"
  sc_live_inputs :: set_collateral_live_inputs

record delegate_borrow_action =
  db_venue :: lending_venue
  db_asset :: token_ref
  db_delegatee :: address
  db_amount :: u256
  db_rate_mode :: rate_mode

record liquidate_live_inputs =
  victim_state :: "user_lending_state live_field"
  liquidation_bonus :: "u32 live_field"
  debt_asset_price :: "price live_field"
  collat_asset_price :: "price live_field"

record liquidate_action =
  lq_venue :: lending_venue
  victim :: address
  debt_asset :: token_ref
  collat_asset :: token_ref
  debt_to_cover :: u256
  receive_a_token :: bool
  lq_live_inputs :: liquidate_live_inputs

record set_authorization_action =
  sa_chain :: chain_id
  sa_protocol :: address
  sa_authorizer :: "address option"
  sa_authorized :: address
  sa_is_authorized :: bool

datatype lending_periphery_kind =
    SwapCollateral | RepayWithCollateral | DebtSwap | Migration | WithdrawSwap | RawPeriphery

record periphery_operation_action =
  po_venue :: lending_venue
  po_adapter :: address
  po_kind :: lending_periphery_kind
  po_asset_in :: "token_ref option"
  po_asset_out :: "token_ref option"
  po_amount :: "u256 option"
  po_limit_amount :: "u256 option"
  po_user :: "address option"
  po_recipient :: "address option"
  po_calldata :: string

datatype lending_action =
    Supply supply_action
  | Withdraw withdraw_action
  | Borrow borrow_action
  | BuyCollateral buy_collateral_action
  | Repay repay_action
  | SwapRateMode swap_rate_mode_action
  | SetEMode set_e_mode_action
  | EnableCollateral set_collateral_action
  | DisableCollateral set_collateral_action
  | DelegateBorrow delegate_borrow_action
  | Liquidate liquidate_action
  | SetAuthorization set_authorization_action
  | PeripheryOperation periphery_operation_action

fun lending_action_tag :: "lending_action \<Rightarrow> string" where
  "lending_action_tag (Supply _) = ''supply''"
| "lending_action_tag (Withdraw _) = ''withdraw''"
| "lending_action_tag (Borrow _) = ''borrow''"
| "lending_action_tag (BuyCollateral _) = ''buy_collateral''"
| "lending_action_tag (Repay _) = ''repay''"
| "lending_action_tag (SwapRateMode _) = ''swap_rate_mode''"
| "lending_action_tag (SetEMode _) = ''set_e_mode''"
| "lending_action_tag (EnableCollateral _) = ''enable_collateral''"
| "lending_action_tag (DisableCollateral _) = ''disable_collateral''"
| "lending_action_tag (DelegateBorrow _) = ''delegate_borrow''"
| "lending_action_tag (Liquidate _) = ''liquidate''"
| "lending_action_tag (SetAuthorization _) = ''set_authorization''"
| "lending_action_tag (PeripheryOperation _) = ''periphery_operation''"

fun lending_venue_of :: "lending_action \<Rightarrow> string option" where
  "lending_venue_of (Supply a) = Some (lending_venue_name (su_venue a))"
| "lending_venue_of (Withdraw a) = Some (lending_venue_name (wd_venue a))"
| "lending_venue_of (Borrow a) = Some (lending_venue_name (bo_venue a))"
| "lending_venue_of (BuyCollateral a) = Some (lending_venue_name (bc_venue a))"
| "lending_venue_of (Repay a) = Some (lending_venue_name (re_venue a))"
| "lending_venue_of (SwapRateMode a) = Some (lending_venue_name (sr_venue a))"
| "lending_venue_of (SetEMode a) = Some (lending_venue_name (em_venue a))"
| "lending_venue_of (EnableCollateral a) = Some (lending_venue_name (sc_venue a))"
| "lending_venue_of (DisableCollateral a) = Some (lending_venue_name (sc_venue a))"
| "lending_venue_of (DelegateBorrow a) = Some (lending_venue_name (db_venue a))"
| "lending_venue_of (Liquidate a) = Some (lending_venue_name (lq_venue a))"
| "lending_venue_of (SetAuthorization _) = None"
| "lending_venue_of (PeripheryOperation a) = Some (lending_venue_name (po_venue a))"

end
