(* ===== verification/Decimals.thy ===== *)
theory Decimals
  imports Complex_Main Primitives
begin

text \<open>
  The decimal numbers the program computes with. \<^verbatim>\<open>rust_decimal::Decimal\<close> is a third-party type: a value
  denotes a rational number, arithmetic is carried out exactly and then fitted into its 96-bit
  mantissa. What the program uses of it, and of the integer parsers of \<^verbatim>\<open>alloy\<close>, is the argument
  \<open>decimal_lib\<close>: \<open>dl_parse\<close> is \<open>Decimal::from_str\<close>, \<open>dl_show\<close> is \<open>normalize().to_string()\<close>, \<open>dl_fit\<close> the
  fitting of an exact result, \<open>dl_i256\<close> and \<open>dl_u256\<close> are \<open>I256::from_dec_str\<close> and \<open>U256::from_str\<close>.
  The panic of \<open>rust_decimal\<close> on overflow is outside this interface.
\<close>

record decimal_lib =
  dl_parse :: "string \<Rightarrow> rat option"
  dl_show :: "rat \<Rightarrow> string"
  dl_fit :: "rat \<Rightarrow> rat"
  dl_i256 :: "string \<Rightarrow> i256 option"
  dl_u256 :: "string \<Rightarrow> u256 option"

definition d_add :: "decimal_lib \<Rightarrow> rat \<Rightarrow> rat \<Rightarrow> rat" where
  "d_add D a b = dl_fit D (a + b)"

definition d_sub :: "decimal_lib \<Rightarrow> rat \<Rightarrow> rat \<Rightarrow> rat" where
  "d_sub D a b = dl_fit D (a - b)"

definition d_mul :: "decimal_lib \<Rightarrow> rat \<Rightarrow> rat \<Rightarrow> rat" where
  "d_mul D a b = dl_fit D (a * b)"

definition d_div :: "decimal_lib \<Rightarrow> rat \<Rightarrow> rat \<Rightarrow> rat" where
  "d_div D a b = dl_fit D (a / b)"

text \<open>\<open>Decimal::trunc\<close>, \<open>Decimal::round\<close> (to the nearest, ties to even) and \<open>ToPrimitive::to_u32\<close>.\<close>

definition d_trunc :: "rat \<Rightarrow> int" where
  "d_trunc x = (if 0 \<le> x then floor x else ceiling x)"

definition d_round_even :: "rat \<Rightarrow> int" where
  "d_round_even x =
     (let f = floor x; r = x - of_int f in
      if r < 1 / 2 then f else if 1 / 2 < r then f + 1 else if even f then f else f + 1)"

definition d_to_u32 :: "int \<Rightarrow> u32 option" where
  "d_to_u32 i = (if 0 \<le> i \<and> i < 2 ^ 32 then Some (word_of_int i) else None)"

section \<open>Facts\<close>

text \<open>The numbers the type holds: a 96-bit mantissa over a power of ten with at most 28 decimals.\<close>

definition decimal_value :: "rat \<Rightarrow> bool" where
  "decimal_value x \<longleftrightarrow> (\<exists>m s. s \<le> 28 \<and> \<bar>m\<bar> < 2 ^ 96 \<and> x = of_int m / 10 ^ s)"

text \<open>
  What the library promises: a result within the range is fitted to a value of the type with no other value
  between it and the exact result, a whole number is read back as itself up to the 96-bit limit and rejected
  beyond it, only values of the type are read, and the text of a value reads as that value.
\<close>

definition decimal_laws :: "decimal_lib \<Rightarrow> bool" where
  "decimal_laws D \<longleftrightarrow>
     (\<forall>x. \<bar>x\<bar> \<le> 2 ^ 96 - 1 \<longrightarrow> decimal_value (dl_fit D x)) \<and>
     (\<forall>x r. \<bar>x\<bar> \<le> 2 ^ 96 - 1 \<longrightarrow> decimal_value r \<longrightarrow>
        (r \<le> x \<longrightarrow> r \<le> dl_fit D x) \<and> (x \<le> r \<longrightarrow> dl_fit D x \<le> r)) \<and>
     (\<forall>n. dl_parse D (dec_string n) = (if n < 2 ^ 96 then Some (of_nat n) else None)) \<and>
     (\<forall>s x. dl_parse D s = Some x \<longrightarrow> decimal_value x) \<and>
     (\<forall>x. decimal_value x \<longrightarrow> dl_parse D (dl_show D x) = Some x)"

lemma decimal_value_scaled: "n < 2 ^ 96 \<Longrightarrow> s \<le> 28 \<Longrightarrow> decimal_value (of_nat n / 10 ^ s)"
  unfolding decimal_value_def by (rule exI [of _ "int n"], rule exI [of _ s]) simp

lemma decimal_value_nat: "n < 2 ^ 96 \<Longrightarrow> decimal_value (of_nat n)"
  using decimal_value_scaled [of n 0] by simp

lemma decimal_value_range:
  assumes "decimal_value x"
  shows "\<bar>x\<bar> \<le> 2 ^ 96 - 1"
proof -
  obtain m s where m: "\<bar>m\<bar> < 2 ^ 96" and x: "x = of_int m / 10 ^ s"
    using assms by (auto simp: decimal_value_def)
  have "\<bar>x\<bar> = of_int \<bar>m\<bar> / 10 ^ s" by (simp add: x)
  also have "\<dots> \<le> of_int \<bar>m\<bar> / 1" by (intro divide_left_mono) simp_all
  also have "\<dots> \<le> of_int (2 ^ 96 - 1)" unfolding div_by_1 of_int_le_iff using m by linarith
  finally show ?thesis by simp
qed

text \<open>A value of the type is not rounded, and whole numbers below the limit are values.\<close>

lemma fit_value: "decimal_laws D \<Longrightarrow> decimal_value x \<Longrightarrow> dl_fit D x = x"
  using decimal_value_range [of x] unfolding decimal_laws_def by (meson antisym order_refl)

lemma fit_nat: "decimal_laws D \<Longrightarrow> n < 2 ^ 96 \<Longrightarrow> dl_fit D (of_nat n) = of_nat n"
  by (simp add: fit_value decimal_value_nat)

lemma fit_bounds:
  assumes "decimal_laws D" and "\<bar>x\<bar> \<le> 2 ^ 96 - 1" and "decimal_value r"
  shows "r \<le> x \<Longrightarrow> r \<le> dl_fit D x" and "x \<le> r \<Longrightarrow> dl_fit D x \<le> r"
  using assms unfolding decimal_laws_def by blast+

lemma parse_law:
  assumes "decimal_laws D"
  shows "dl_parse D (dec_string n) = (if n < 2 ^ 96 then Some (of_nat n) else None)"
    and "dl_parse D s = Some x \<Longrightarrow> decimal_value x"
    and "decimal_value y \<Longrightarrow> dl_parse D (dl_show D y) = Some y"
    and "\<bar>x\<bar> \<le> 2 ^ 96 - 1 \<Longrightarrow> decimal_value (dl_fit D x)"
  using assms unfolding decimal_laws_def by blast+

lemma d_round_even_near: "\<bar>x - of_int (d_round_even x)\<bar> \<le> 1 / 2"
proof -
  define f where "f = floor x"
  have "of_int f \<le> x" "x < of_int f + 1" using floor_correct [of x] by (simp_all add: f_def)
  then show ?thesis
    unfolding d_round_even_def f_def [symmetric] Let_def by (auto simp: abs_if)
qed

lemma round_even_ge: "of_int i \<le> x \<Longrightarrow> i \<le> d_round_even x"
  by (auto simp: d_round_even_def Let_def le_floor_iff intro: le_floor_iff [THEN iffD2] order_trans)

lemma round_even_minus: "d_round_even (- x) = - d_round_even x"
proof (cases "of_int \<lfloor>x\<rfloor> = x")
  case True
  define i where "i = \<lfloor>x\<rfloor>"
  have "x = of_int i" using True by (simp only: i_def)
  then show ?thesis by (simp add: d_round_even_def Let_def)
next
  case False
  define f where "f = \<lfloor>x\<rfloor>"
  have "of_int f \<noteq> x" "of_int f \<le> x" "x < of_int f + 1"
    using False floor_correct [of x] by (simp_all add: f_def)
  then have "\<lfloor>- x\<rfloor> = - f - 1" by (intro floor_unique) auto
  then show ?thesis
    unfolding d_round_even_def f_def [symmetric] Let_def by auto
qed

end
