(* ===== verification/LendingMath.thy ===== *)
theory LendingMath
  imports LendingActions Decimals Wallets
begin

text \<open>
  The venue arithmetic of \<^verbatim>\<open>asset-model/transition/src/effect/lending\<close>: the shared interest-rate curve and
  receipt conversion of \<^verbatim>\<open>shared.rs\<close>, and the per-venue files \<^verbatim>\<open>aave_v2.rs\<close>, \<^verbatim>\<open>aave_v3.rs\<close>, \<^verbatim>\<open>spark.rs\<close>,
  \<^verbatim>\<open>compound_v2.rs\<close>, \<^verbatim>\<open>compound_v3.rs\<close>, \<^verbatim>\<open>fluid.rs\<close>, \<^verbatim>\<open>morpho_blue.rs\<close> and \<^verbatim>\<open>morpho_optimizer.rs\<close>.
  Error texts keep their fixed part; the values interpolated into them are left out.
\<close>

section \<open>Shared conversions and rates\<close>

definition asset_to_scaled_balance :: "reserve_state \<Rightarrow> u256 \<Rightarrow> string \<Rightarrow> u256 reducer_result" where
  "asset_to_scaled_balance reserve asset_amount tag =
     (if total_supply reserve < total_borrow reserve
      then fail (tag @ '' reserve invariant: total_supply < total_borrow'')
      else Inr asset_amount)"

definition scaled_balance_to_asset :: "reserve_state \<Rightarrow> u256 \<Rightarrow> string \<Rightarrow> u256 reducer_result" where
  "scaled_balance_to_asset reserve scaled_amount tag =
     (if total_supply reserve < total_borrow reserve
      then fail (tag @ '' reserve invariant: total_supply < total_borrow'')
      else Inr scaled_amount)"

definition pad4 :: "nat \<Rightarrow> string" where
  "pad4 n = (let s = dec_string n in replicate (4 - length s) CHR ''0'' @ s)"

definition strip_trailing_zeros :: "string \<Rightarrow> string" where
  "strip_trailing_zeros s = rev (dropWhile (\<lambda>c. c = CHR ''0'') (rev s))"

definition bp_to_decimal :: "u64 \<Rightarrow> decimal" where
  "bp_to_decimal bp =
     (let i = bp div 10000; frac = bp mod 10000 in
      if frac = 0 then dec_string (unat i)
      else dec_string (unat i) @ ''.'' @ strip_trailing_zeros (pad4 (unat frac)))"

definition two_slope_rate_bp :: "u32 \<Rightarrow> u32 \<Rightarrow> u32 \<Rightarrow> u32 \<Rightarrow> u32 \<Rightarrow> u64" where
  "two_slope_rate_bp utilization base_rate slope1 slope2 optimal =
     (if utilization \<le> optimal
      then ucast base_rate + (ucast slope1 * ucast utilization) div ucast optimal
      else
        let excess = ucast (utilization - optimal); span = ucast (10000 - optimal)
        in ucast base_rate + ucast slope1 + (ucast slope2 * excess) div span)"

definition two_slope_borrow_apr :: "u32 \<Rightarrow> u32 \<Rightarrow> u32 \<Rightarrow> u32 \<Rightarrow> u32 \<Rightarrow> string + decimal" where
  "two_slope_borrow_apr utilization base_rate slope1 slope2 optimal =
     (if utilization > 10000 then Inl ''utilization bp > 10000 (>100 %)''
      else if optimal = 0 \<or> optimal \<ge> 10000 then Inl ''optimal bp out of (0, 10000) range''
      else Inr (bp_to_decimal (two_slope_rate_bp utilization base_rate slope1 slope2 optimal)))"

definition bp_to_rust_decimal :: "u32 \<Rightarrow> rat" where
  "bp_to_rust_decimal bp = of_nat (unat bp) / 10000"

definition shared_parse_decimal :: "decimal_lib \<Rightarrow> decimal \<Rightarrow> string + rat" where
  "shared_parse_decimal D d = ok_or (dl_parse D d) ''invalid Decimal''"

definition rust_decimal_to_state :: "decimal_lib \<Rightarrow> rat \<Rightarrow> decimal" where
  "rust_decimal_to_state D d = dl_show D d"

definition supply_apr_from_borrow :: "decimal_lib \<Rightarrow> decimal \<Rightarrow> u32 \<Rightarrow> u32 \<Rightarrow> string + decimal" where
  "supply_apr_from_borrow D borrow_apr utilization reserve_factor =
     (if utilization > 10000 then Inl ''utilization bp > 10000''
      else if reserve_factor > 10000 then Inl ''reserve_factor bp > 10000''
      else
        rbind (shared_parse_decimal D borrow_apr) (\<lambda>borrow_dec.
          let util_factor = bp_to_rust_decimal utilization;
              rf_factor = bp_to_rust_decimal (10000 - reserve_factor)
          in Inr (rust_decimal_to_state D (d_mul D (d_mul D borrow_dec util_factor) rf_factor))))"

definition rate_err :: "string \<Rightarrow> string + 'a \<Rightarrow> 'a reducer_result" where
  "rate_err prefix r = (case r of Inl msg \<Rightarrow> fail (prefix @ msg) | Inr x \<Rightarrow> Inr x)"

section \<open>Aave and Spark\<close>

definition aave_v2_asset_to_atokens :: "reserve_state \<Rightarrow> u256 \<Rightarrow> u256 reducer_result" where
  "aave_v2_asset_to_atokens reserve amount = asset_to_scaled_balance reserve amount ''aave_v2''"

definition aave_v2_atokens_to_asset :: "reserve_state \<Rightarrow> u256 \<Rightarrow> u256 reducer_result" where
  "aave_v2_atokens_to_asset reserve amount = scaled_balance_to_asset reserve amount ''aave_v2''"

definition aave_v2_current_borrow_rate :: "reserve_state \<Rightarrow> decimal reducer_result" where
  "aave_v2_current_borrow_rate reserve =
     rate_err ''aave_v2 rate: '' (two_slope_borrow_apr (utilization_bp reserve) 0 400 7500 8000)"

definition aave_v3_asset_to_atokens :: "reserve_state \<Rightarrow> u256 \<Rightarrow> u256 reducer_result" where
  "aave_v3_asset_to_atokens reserve amount = asset_to_scaled_balance reserve amount ''aave_v3''"

definition aave_v3_atokens_to_asset :: "reserve_state \<Rightarrow> u256 \<Rightarrow> u256 reducer_result" where
  "aave_v3_atokens_to_asset reserve amount = scaled_balance_to_asset reserve amount ''aave_v3''"

definition aave_v3_current_borrow_rate :: "reserve_state \<Rightarrow> decimal reducer_result" where
  "aave_v3_current_borrow_rate reserve =
     rate_err ''aave_v3 rate: '' (two_slope_borrow_apr (utilization_bp reserve) 0 400 6000 8000)"

definition spark_asset_to_atokens :: "reserve_state \<Rightarrow> u256 \<Rightarrow> u256 reducer_result" where
  "spark_asset_to_atokens reserve amount = asset_to_scaled_balance reserve amount ''spark''"

definition spark_atokens_to_asset :: "reserve_state \<Rightarrow> u256 \<Rightarrow> u256 reducer_result" where
  "spark_atokens_to_asset reserve amount = scaled_balance_to_asset reserve amount ''spark''"

definition spark_current_borrow_rate :: "reserve_state \<Rightarrow> decimal reducer_result" where
  "spark_current_borrow_rate reserve =
     rate_err ''spark rate: '' (two_slope_borrow_apr (utilization_bp reserve) 0 400 6000 8000)"

section \<open>Compound\<close>

definition underlying_to_ctoken :: "reserve_state \<Rightarrow> u256 \<Rightarrow> u256 reducer_result" where
  "underlying_to_ctoken reserve amount = asset_to_scaled_balance reserve amount ''compound_v2''"

definition ctoken_to_underlying :: "reserve_state \<Rightarrow> u256 \<Rightarrow> u256 reducer_result" where
  "ctoken_to_underlying reserve amount = scaled_balance_to_asset reserve amount ''compound_v2''"

definition compound_v2_current_borrow_rate :: "reserve_state \<Rightarrow> decimal reducer_result" where
  "compound_v2_current_borrow_rate reserve =
     rate_err ''compound_v2 rate: '' (two_slope_borrow_apr (utilization_bp reserve) 0 500 10900 8000)"

definition compound_v2_current_supply_rate :: "decimal_lib \<Rightarrow> reserve_state \<Rightarrow> decimal reducer_result" where
  "compound_v2_current_supply_rate D reserve =
     rbind (compound_v2_current_borrow_rate reserve) (\<lambda>borrow.
       rate_err ''compound_v2 supply rate: ''
         (supply_apr_from_borrow D borrow (utilization_bp reserve) (reserve_factor_bp reserve)))"

definition principal_to_present_value :: "reserve_state \<Rightarrow> u256 \<Rightarrow> u256 reducer_result" where
  "principal_to_present_value reserve amount = asset_to_scaled_balance reserve amount ''compound_v3''"

definition present_value_to_principal :: "reserve_state \<Rightarrow> u256 \<Rightarrow> u256 reducer_result" where
  "present_value_to_principal reserve amount = scaled_balance_to_asset reserve amount ''compound_v3''"

definition compound_v3_current_borrow_rate :: "reserve_state \<Rightarrow> decimal reducer_result" where
  "compound_v3_current_borrow_rate reserve =
     rate_err ''compound_v3 rate: '' (two_slope_borrow_apr (utilization_bp reserve) 150 350 17000 9300)"

definition compound_v3_current_supply_rate :: "decimal_lib \<Rightarrow> reserve_state \<Rightarrow> decimal reducer_result" where
  "compound_v3_current_supply_rate D reserve =
     rbind (compound_v3_current_borrow_rate reserve) (\<lambda>borrow.
       rate_err ''compound_v3 supply rate: ''
         (supply_apr_from_borrow D borrow (utilization_bp reserve) (reserve_factor_bp reserve)))"

section \<open>Vault shares: Fluid and Morpho\<close>

definition asset_to_fluid_shares :: "reserve_state \<Rightarrow> u256 \<Rightarrow> u256 reducer_result" where
  "asset_to_fluid_shares vault asset_amount =
     (let total_assets = total_supply vault; total_shares = total_supply vault in
      rbind (ok_or (checked_add total_shares 1) (Invariant ''fluid: virtual shares overflow'')) (\<lambda>numer_factor.
      rbind (ok_or (checked_add total_assets 1) (Invariant ''fluid: virtual assets overflow'')) (\<lambda>denom.
      rbind (ok_or (checked_mul asset_amount numer_factor) (Invariant ''fluid: asset_to_shares overflow'')) (\<lambda>numer.
      if denom = 0 then fail ''fluid: zero denominator (impossible with virtual offset)''
      else Inr (numer div denom)))))"

definition fluid_shares_to_asset :: "reserve_state \<Rightarrow> u256 \<Rightarrow> u256 reducer_result" where
  "fluid_shares_to_asset vault share_amount =
     (let total_assets = total_supply vault; total_shares = total_supply vault in
      rbind (ok_or (checked_add total_assets 1) (Invariant ''fluid: virtual assets overflow'')) (\<lambda>numer_factor.
      rbind (ok_or (checked_add total_shares 1) (Invariant ''fluid: virtual shares overflow'')) (\<lambda>denom.
      rbind (ok_or (checked_mul share_amount numer_factor) (Invariant ''fluid: shares_to_asset overflow'')) (\<lambda>numer.
      if denom = 0 then fail ''fluid: zero denominator (impossible with virtual offset)''
      else Inr (numer div denom)))))"

definition fluid_current_borrow_rate :: "reserve_state \<Rightarrow> decimal reducer_result" where
  "fluid_current_borrow_rate vault =
     rate_err ''fluid rate: '' (two_slope_borrow_apr (utilization_bp vault) 0 400 6000 8000)"

definition virtual_shares :: u256 where
  "virtual_shares = 1000000"

definition virtual_assets :: u256 where
  "virtual_assets = 1"

definition shares_to_assets :: "u256 \<Rightarrow> u256 \<Rightarrow> u256 \<Rightarrow> u256 reducer_result" where
  "shares_to_assets market_total_assets market_total_shares shares =
     rbind (ok_or (checked_add market_total_assets virtual_assets)
       (Invariant ''morpho_blue: virtual assets overflow'')) (\<lambda>numer_factor.
     rbind (ok_or (checked_add market_total_shares virtual_shares)
       (Invariant ''morpho_blue: virtual shares overflow'')) (\<lambda>denom.
     if denom = 0 then fail ''morpho_blue: zero denominator''
     else
       rbind (ok_or (checked_mul shares numer_factor)
         (Invariant ''morpho_blue: shares_to_assets multiplication overflow'')) (\<lambda>numer.
       Inr (numer div denom))))"

definition assets_to_shares :: "u256 \<Rightarrow> u256 \<Rightarrow> u256 \<Rightarrow> u256 reducer_result" where
  "assets_to_shares market_total_assets market_total_shares assets =
     rbind (ok_or (checked_add market_total_shares virtual_shares)
       (Invariant ''morpho_blue: virtual shares overflow'')) (\<lambda>numer_factor.
     rbind (ok_or (checked_add market_total_assets virtual_assets)
       (Invariant ''morpho_blue: virtual assets overflow'')) (\<lambda>denom.
     if denom = 0 then fail ''morpho_blue: zero denominator''
     else
       rbind (ok_or (checked_mul assets numer_factor)
         (Invariant ''morpho_blue: assets_to_shares multiplication overflow'')) (\<lambda>numer.
       Inr (numer div denom))))"

definition morpho_blue_current_borrow_rate :: "reserve_state \<Rightarrow> decimal reducer_result" where
  "morpho_blue_current_borrow_rate irm = Inl (UnsupportedProtocol ''current_borrow_rate'' ''morpho_blue'')"

definition midpoint_decimal :: "decimal_lib \<Rightarrow> decimal \<Rightarrow> decimal \<Rightarrow> decimal reducer_result" where
  "midpoint_decimal D a b =
     rbind (ok_or (dl_parse D a) (Invariant ''midpoint a parse'')) (\<lambda>a.
     rbind (ok_or (dl_parse D b) (Invariant ''midpoint b parse'')) (\<lambda>b.
       Inr (dl_show D (d_div D (d_add D a b) 2))))"

definition blend_decimal :: "decimal_lib \<Rightarrow> decimal \<Rightarrow> decimal \<Rightarrow> u32 \<Rightarrow> decimal reducer_result" where
  "blend_decimal D a b weight_bp =
     (if weight_bp > 10000 then fail ''blend weight bp > 10000''
      else
        rbind (ok_or (dl_parse D a) (Invariant ''blend a parse'')) (\<lambda>a_dec.
        rbind (ok_or (dl_parse D b) (Invariant ''blend b parse'')) (\<lambda>b_dec.
          let w = bp_to_rust_decimal weight_bp; inv_w = bp_to_rust_decimal (10000 - weight_bp)
          in Inr (dl_show D (d_add D (d_mul D a_dec w) (d_mul D b_dec inv_w))))))"

definition morpho_pool_rates :: "decimal_lib \<Rightarrow> reserve_state \<Rightarrow> (decimal \<times> decimal) reducer_result" where
  "morpho_pool_rates D reserve =
     rbind (rate_err ''morpho_optimizer pool rate: ''
       (two_slope_borrow_apr (utilization_bp reserve) 0 400 6000 8000)) (\<lambda>pool_borrow.
     rbind (rate_err ''morpho_optimizer pool supply: ''
       (supply_apr_from_borrow D pool_borrow (utilization_bp reserve) (reserve_factor_bp reserve)))
       (\<lambda>pool_supply. Inr (pool_borrow, pool_supply)))"

definition p2p_supply_rate :: "decimal_lib \<Rightarrow> reserve_state \<Rightarrow> decimal reducer_result" where
  "p2p_supply_rate D reserve =
     rbind (morpho_pool_rates D reserve) (\<lambda>(pool_borrow, pool_supply).
     rbind (midpoint_decimal D pool_supply pool_borrow) (\<lambda>p2p_mid.
       let supply_match_bp = 10000 - min (utilization_bp reserve) 10000
       in blend_decimal D p2p_mid pool_supply supply_match_bp))"

definition p2p_borrow_rate :: "decimal_lib \<Rightarrow> reserve_state \<Rightarrow> decimal reducer_result" where
  "p2p_borrow_rate D reserve =
     rbind (morpho_pool_rates D reserve) (\<lambda>(pool_borrow, pool_supply).
     rbind (midpoint_decimal D pool_supply pool_borrow) (\<lambda>p2p_mid.
       let borrow_match_bp = 10000 - min (utilization_bp reserve) 10000
       in blend_decimal D p2p_mid pool_borrow borrow_match_bp))"

definition asset_to_optimizer_shares :: "reserve_state \<Rightarrow> u256 \<Rightarrow> u256 reducer_result" where
  "asset_to_optimizer_shares reserve amount = asset_to_scaled_balance reserve amount ''morpho_optimizer''"

end
