(* ===== verification/Derived.thy ===== *)
theory Derived
  imports Decimals Wallets
begin

text \<open>
  \<^verbatim>\<open>asset-model/transition/src/helpers/derived.rs\<close>: health factor, loan-to-value, profit and loss, and the
  fallback liquidation price, recomputed with decimal arithmetic from amounts and prices.
\<close>

definition derived_parse_decimal :: "decimal_lib \<Rightarrow> decimal \<Rightarrow> rat reducer_result" where
  "derived_parse_decimal D d = ok_or (dl_parse D d) (Invariant ''invalid Decimal string'')"

definition u256_to_decimal :: "decimal_lib \<Rightarrow> u256 \<Rightarrow> rat reducer_result" where
  "u256_to_decimal D amount =
     ok_or (dl_parse D (dec_string (unat amount))) (Invariant ''U256 exceeds rust_decimal range'')"

definition decimal_to_state :: "decimal_lib \<Rightarrow> rat \<Rightarrow> decimal" where
  "decimal_to_state D d = dl_show D d"

definition lookup_price :: "decimal_lib \<Rightarrow> token_ref \<Rightarrow> (token_ref \<times> decimal) list \<Rightarrow> rat reducer_result" where
  "lookup_price D token table =
     rbind (ok_or (map_of table token) (Invariant ''missing price for token''))
       (derived_parse_decimal D)"

definition lookup_lt_bp :: "token_ref \<Rightarrow> (token_ref \<times> u32) list \<Rightarrow> u32 reducer_result" where
  "lookup_lt_bp token table =
     ok_or (map_of table token) (Invariant ''missing liquidation threshold for token'')"

definition hf_infinity :: decimal where
  "hf_infinity = ''999999999''"

definition collat_step ::
  "decimal_lib \<Rightarrow> (token_ref \<times> decimal) list \<Rightarrow> (token_ref \<times> u32) list \<Rightarrow> rat \<Rightarrow> token_ref \<times> u256
     \<Rightarrow> rat reducer_result" where
  "collat_step D prices lts acc c =
     (case c of (token, amount) \<Rightarrow>
       rbind (lookup_price D token prices) (\<lambda>price.
       rbind (lookup_lt_bp token lts) (\<lambda>lt_bp.
       rbind (u256_to_decimal D amount) (\<lambda>amt.
         let lt_factor = d_div D (of_nat (unat lt_bp)) 10000
         in Inr (d_add D acc (d_mul D (d_mul D amt price) lt_factor))))))"

definition value_step ::
  "decimal_lib \<Rightarrow> (token_ref \<times> decimal) list \<Rightarrow> rat \<Rightarrow> token_ref \<times> u256 \<Rightarrow> rat reducer_result" where
  "value_step D prices acc c =
     (case c of (token, amount) \<Rightarrow>
       rbind (lookup_price D token prices) (\<lambda>price.
       rbind (u256_to_decimal D amount) (\<lambda>amt.
         Inr (d_add D acc (d_mul D amt price)))))"

abbreviation debt_pairs :: "lending_account \<Rightarrow> (token_ref \<times> u256) list" where
  "debt_pairs la \<equiv> map (\<lambda>(t, amount, _). (t, amount)) (debts la)"

definition recompute_health_factor ::
  "decimal_lib \<Rightarrow> lending_account \<Rightarrow> (token_ref \<times> decimal) list \<Rightarrow> (token_ref \<times> decimal) list
     \<Rightarrow> (token_ref \<times> u32) list \<Rightarrow> decimal reducer_result" where
  "recompute_health_factor D la collateral_prices debt_prices liquidation_thresholds =
     rbind (rfold (collat_step D collateral_prices liquidation_thresholds) 0 (collaterals la))
       (\<lambda>weighted_collat.
     rbind (rfold (value_step D debt_prices) 0 (debt_pairs la)) (\<lambda>total_debt.
       if total_debt = 0 then Inr hf_infinity
       else Inr (decimal_to_state D (d_div D weighted_collat total_debt))))"

definition recompute_ltv ::
  "decimal_lib \<Rightarrow> lending_account \<Rightarrow> (token_ref \<times> decimal) list \<Rightarrow> (token_ref \<times> decimal) list
     \<Rightarrow> decimal reducer_result" where
  "recompute_ltv D la collateral_prices debt_prices =
     rbind (rfold (value_step D collateral_prices) 0 (collaterals la)) (\<lambda>total_collat.
     rbind (rfold (value_step D debt_prices) 0 (debt_pairs la)) (\<lambda>total_debt.
       if total_debt = 0 then Inr ''0''
       else if total_collat = 0 then fail ''LTV undefined: debt > 0 with zero collateral''
       else Inr (decimal_to_state D (d_div D total_debt total_collat))))"

text \<open>The text of a truncated result is that of an integer, without a fractional part.\<close>

definition recompute_perp_pnl ::
  "decimal_lib \<Rightarrow> perp_position \<Rightarrow> price \<Rightarrow> i256 reducer_result" where
  "recompute_perp_pnl D p mark_px =
     rbind (derived_parse_decimal D mark_px) (\<lambda>mark.
     rbind (derived_parse_decimal D (entry_price p)) (\<lambda>entry.
     rbind (u256_to_decimal D (size_base p)) (\<lambda>size.
       let diff = (case pp_side p of Long \<Rightarrow> d_sub D mark entry | Short \<Rightarrow> d_sub D entry mark);
           pnl = d_mul D size diff;
           pnl_int = d_trunc pnl
       in ok_or (dl_i256 D (dl_show D (of_int pnl_int))) (Invariant ''PnL overflows SignedI256''))))"

definition recompute_liq_price :: "decimal_lib \<Rightarrow> perp_position \<Rightarrow> price option reducer_result" where
  "recompute_liq_price D p =
     (if size_base p = 0 then Inr None
      else
        rbind (derived_parse_decimal D (entry_price p)) (\<lambda>entry.
        rbind (u256_to_decimal D (size_base p)) (\<lambda>size.
        rbind (rfold (\<lambda>acc (_, amount). rbind (u256_to_decimal D amount) (\<lambda>amt. Inr (d_add D acc amt)))
                 0 (collateral p)) (\<lambda>free_margin.
          let buffer = d_div D free_margin size;
              liq = (case pp_side p of Long \<Rightarrow> d_sub D entry buffer | Short \<Rightarrow> d_add D entry buffer);
              liq = (if liq < 0 then 0 else liq)
          in Inr (Some (decimal_to_state D liq))))))"

section \<open>Exact values\<close>

lemma u256_to_decimal_exact:
  "decimal_laws D \<Longrightarrow> u256_to_decimal D a = (if unat a < 2 ^ 96 then Inr (of_nat (unat a))
     else Inl (Invariant ''U256 exceeds rust_decimal range''))"
  by (simp add: u256_to_decimal_def parse_law(1))

lemma map_of_total: "t \<in> fst ` set xs \<Longrightarrow> \<exists>v. map_of xs t = Some v"
  by (metis domIff dom_map_of_conv_image_fst not_None_eq)

text \<open>
  With one price \<open>m / 10^s\<close> for every token, a sum of values is that price times the sum of the amounts, and
  nothing is rounded as long as the mantissas stay below the 96-bit limit.
\<close>

lemma value_fold_exact:
  assumes laws: "decimal_laws D" and px: "dl_parse D px = Some (of_nat m / 10 ^ s)" "0 < m" "s \<le> 28"
  shows "\<forall>t \<in> fst ` set cs. map_of prices t = Some px \<Longrightarrow>
    m * (n + sum_list (map (unat \<circ> snd) cs)) < 2 ^ 96 \<Longrightarrow>
    rfold (value_step D prices) (of_nat (m * n) / 10 ^ s) cs
      = Inr (of_nat (m * (n + sum_list (map (unat \<circ> snd) cs))) / 10 ^ s)"
proof (induction cs arbitrary: n)
  case (Cons c cs)
  obtain t a where c: "c = (t, a)" by fastforce
  have le: "m * k < 2 ^ 96" if "k \<le> n + sum_list (map (unat \<circ> snd) (c # cs))" for k
    using mult_le_mono2 [OF that, of m] Cons.prems(2) by (rule le_less_trans)
  have a: "m * unat a < 2 ^ 96" "m * (n + unat a) < 2 ^ 96" by (rule le; simp add: c)+
  have "unat a \<le> m * unat a" using px(2) by simp
  then have "unat a < 2 ^ 96" using a(1) by (rule le_less_trans)
  moreover have "of_nat (unat a) * (of_nat m / 10 ^ s) = (of_nat (m * unat a) / 10 ^ s :: rat)"
    "of_nat (m * n) / 10 ^ s + of_nat (m * unat a) / 10 ^ s = (of_nat (m * (n + unat a)) / 10 ^ s :: rat)"
    by (simp_all add: field_simps)
  moreover have "map_of prices t = Some px" using Cons.prems(1) by (simp add: c)
  moreover have "dl_fit D (of_nat (m * unat a) / 10 ^ s) = of_nat (m * unat a) / 10 ^ s"
    "dl_fit D (of_nat (m * (n + unat a)) / 10 ^ s) = of_nat (m * (n + unat a)) / 10 ^ s"
    by (simp_all only: fit_value [OF laws decimal_value_scaled [OF a(1) px(3)]]
        fit_value [OF laws decimal_value_scaled [OF a(2) px(3)]])
  ultimately have "value_step D prices (of_nat (m * n) / 10 ^ s) c = Inr (of_nat (m * (n + unat a)) / 10 ^ s)"
    unfolding c value_step_def d_mul_def d_add_def lookup_price_def derived_parse_decimal_def
      u256_to_decimal_exact [OF laws]
    by (simp only: prod.case px(1) ok_or_Some rbind_Inr if_True)
  with Cons.IH [of "n + unat a"] Cons.prems show ?case by (simp add: c o_def add.assoc)
qed simp

lemma collat_fold_exact:
  assumes laws: "decimal_laws D" and px: "dl_parse D px = Some (of_nat m / 10 ^ s)" "0 < m" "s \<le> 24"
  shows "\<forall>t \<in> fst ` set cs. map_of prices t = Some px \<and> map_of lts t = Some bp \<Longrightarrow>
    m * max 1 (unat bp) * (n + sum_list (map (unat \<circ> snd) cs)) < 2 ^ 96 \<Longrightarrow>
    rfold (collat_step D prices lts) (of_nat (m * unat bp * n) / 10 ^ (s + 4)) cs
      = Inr (of_nat (m * unat bp * (n + sum_list (map (unat \<circ> snd) cs))) / 10 ^ (s + 4))"
proof (induction cs arbitrary: n)
  case (Cons c cs)
  obtain t a where c: "c = (t, a)" by fastforce
  let ?w = "m * max 1 (unat bp)"
  have le: "j * k < 2 ^ 96" if "j \<le> ?w" "k \<le> n + sum_list (map (unat \<circ> snd) (c # cs))" for j k
    using mult_le_mono [OF that] Cons.prems(2) by (rule le_less_trans)
  have w: "m \<le> ?w" "1 \<le> ?w" "m * unat bp \<le> ?w" using px(2) by simp_all
  have a: "m * unat a < 2 ^ 96" "1 * unat a < 2 ^ 96" "m * unat bp * unat a < 2 ^ 96"
    "m * unat bp * (n + unat a) < 2 ^ 96"
    by (rule le [OF w(1)], simp add: c, rule le [OF w(2)], simp add: c, rule le [OF w(3)], simp add: c,
        rule le [OF w(3)], simp add: c)
  have "unat bp < 2 ^ LENGTH(32)" by (rule unsigned_less)
  then have bp: "unat bp < 2 ^ 96" by simp
  have eq: "of_nat (unat a) * (of_nat m / 10 ^ s) = (of_nat (m * unat a) / 10 ^ s :: rat)"
    "of_nat (m * unat a) / 10 ^ s * (of_nat (unat bp) / 10 ^ 4) = (of_nat (m * unat bp * unat a) / 10 ^ (s + 4) :: rat)"
    "of_nat (m * unat bp * n) / 10 ^ (s + 4) + of_nat (m * unat bp * unat a) / 10 ^ (s + 4)
      = (of_nat (m * unat bp * (n + unat a)) / 10 ^ (s + 4) :: rat)"
    by (simp_all add: field_simps power_add)
  note fits = fit_value [OF laws decimal_value_scaled]
  have fitted: "dl_fit D (of_nat (m * unat a) / 10 ^ s) = of_nat (m * unat a) / 10 ^ s"
    "dl_fit D (of_nat (unat bp) / 10 ^ 4) = of_nat (unat bp) / 10 ^ 4"
    "dl_fit D (of_nat (m * unat bp * unat a) / 10 ^ (s + 4)) = of_nat (m * unat bp * unat a) / 10 ^ (s + 4)"
    "dl_fit D (of_nat (m * unat bp * (n + unat a)) / 10 ^ (s + 4)) = of_nat (m * unat bp * (n + unat a)) / 10 ^ (s + 4)"
    using px(3) by (simp_all only: fits [OF a(1)] fits [OF bp] fits [OF a(3)] fits [OF a(4)])
  have ten4: "(10000 :: rat) = 10 ^ 4" by simp
  have maps: "map_of prices t = Some px" "map_of lts t = Some bp" using Cons.prems(1) by (simp_all add: c)
  have "collat_step D prices lts (of_nat (m * unat bp * n) / 10 ^ (s + 4)) c
      = Inr (of_nat (m * unat bp * (n + unat a)) / 10 ^ (s + 4))"
    unfolding c collat_step_def d_mul_def d_add_def d_div_def ten4 lookup_price_def lookup_lt_bp_def
      derived_parse_decimal_def u256_to_decimal_exact [OF laws]
    using a(2) by (simp only: prod.case maps px(1) ok_or_Some rbind_Inr mult_1 if_True Let_def eq fitted)
  with Cons.IH [of "n + unat a"] Cons.prems show ?case by (simp add: c o_def add.assoc)
qed simp

end
