(* ===== verification/LendingEffects.thy ===== *)
theory LendingEffects
  imports LendingMath Derived ReducerContract
begin

text \<open>
  \<^verbatim>\<open>asset-model/transition/src/effect/lending\<close>: the helpers of \<^verbatim>\<open>mod.rs\<close> that edit a lending account, and the
  reducer of every lending action. An address is rendered as its lower-case hexadecimal form
  (its \<^verbatim>\<open>Debug\<close> output).
\<close>

section \<open>Accounts\<close>

fun position_id_for_venue :: "lending_venue \<Rightarrow> position_id" where
  "position_id_for_venue (AaveV3 chain pool market_id) =
     ''aave_v3:'' @ as_str chain @ '':'' @ lowercase_hex pool @ '':''
       @ dec_string (unat (case market_id of None \<Rightarrow> 0 | Some m \<Rightarrow> m))"
| "position_id_for_venue (AaveV2 chain pool) = ''aave_v2:'' @ as_str chain @ '':'' @ lowercase_hex pool"
| "position_id_for_venue (Spark chain pool) = ''spark:'' @ as_str chain @ '':'' @ lowercase_hex pool"
| "position_id_for_venue (CompoundV3 chain comet _) = ''compound_v3:'' @ as_str chain @ '':'' @ lowercase_hex comet"
| "position_id_for_venue (CompoundV2 chain comptroller) =
     ''compound_v2:'' @ as_str chain @ '':'' @ lowercase_hex comptroller"
| "position_id_for_venue (MorphoBlue chain market_id) = ''morpho_blue:'' @ as_str chain @ '':'' @ market_id"
| "position_id_for_venue (MorphoOptimizer chain vault) =
     ''morpho_optimizer:'' @ as_str chain @ '':'' @ lowercase_hex vault"
| "position_id_for_venue (Fluid chain vault) = ''fluid:'' @ as_str chain @ '':'' @ lowercase_hex vault"
| "position_id_for_venue (MetaMorpho chain vault) = ''metamorpho:'' @ as_str chain @ '':'' @ lowercase_hex vault"
| "position_id_for_venue (CrvUsd chain controller _) = ''crv_usd:'' @ as_str chain @ '':'' @ lowercase_hex controller"
| "position_id_for_venue (LlamaLend chain controller _) =
     ''llama_lend:'' @ as_str chain @ '':'' @ lowercase_hex controller"
| "position_id_for_venue (AaveV3Periphery chain adapter) =
     ''aave_v3_periphery:'' @ as_str chain @ '':'' @ lowercase_hex adapter"

fun lending_venue_tag :: "lending_venue \<Rightarrow> string" where
  "lending_venue_tag (AaveV3 _ _ _) = ''aave_v3''"
| "lending_venue_tag (AaveV2 _ _) = ''aave_v2''"
| "lending_venue_tag (Spark _ _) = ''spark''"
| "lending_venue_tag (CompoundV3 _ _ _) = ''compound_v3''"
| "lending_venue_tag (CompoundV2 _ _) = ''compound_v2''"
| "lending_venue_tag (MorphoBlue _ _) = ''morpho_blue''"
| "lending_venue_tag (MorphoOptimizer _ _) = ''morpho_optimizer''"
| "lending_venue_tag (Fluid _ _) = ''fluid''"
| "lending_venue_tag (MetaMorpho _ _) = ''metamorpho''"
| "lending_venue_tag (CrvUsd _ _ _) = ''crv_usd''"
| "lending_venue_tag (LlamaLend _ _ _) = ''llama_lend''"
| "lending_venue_tag (AaveV3Periphery _ _) = ''aave_v3_periphery''"

fun lending_venue_chain :: "lending_venue \<Rightarrow> chain_id" where
  "lending_venue_chain (AaveV3 chain _ _) = chain"
| "lending_venue_chain (AaveV2 chain _) = chain"
| "lending_venue_chain (Spark chain _) = chain"
| "lending_venue_chain (CompoundV3 chain _ _) = chain"
| "lending_venue_chain (CompoundV2 chain _) = chain"
| "lending_venue_chain (MorphoBlue chain _) = chain"
| "lending_venue_chain (MorphoOptimizer chain _) = chain"
| "lending_venue_chain (Fluid chain _) = chain"
| "lending_venue_chain (MetaMorpho chain _) = chain"
| "lending_venue_chain (CrvUsd chain _ _) = chain"
| "lending_venue_chain (LlamaLend chain _ _) = chain"
| "lending_venue_chain (AaveV3Periphery chain _) = chain"

definition position_exists :: "wallet_state \<Rightarrow> state_delta \<Rightarrow> position_id \<Rightarrow> bool" where
  "position_exists s d pid =
     fold (exists_step pid) (position_changes d) (list_ex (\<lambda>p. pos_id p = pid) (positions s))"

fun merge_entry :: "'k \<Rightarrow> u256 \<Rightarrow> ('k \<times> u256) list \<Rightarrow> ('k \<times> u256) list" where
  "merge_entry k amount [] = [(k, amount)]"
| "merge_entry k amount ((k', v) # es) =
     (if k' = k then (k', saturating_add v amount) # es else (k', v) # merge_entry k amount es)"

fun reduce_entry :: "string \<Rightarrow> string \<Rightarrow> 'k \<Rightarrow> u256 \<Rightarrow> ('k \<times> u256) list
    \<Rightarrow> (('k \<times> u256) list \<times> u256) reducer_result" where
  "reduce_entry missing short k amount [] = fail missing"
| "reduce_entry missing short k amount ((k', v) # es) =
     (if k' = k
      then if v < amount then fail short
           else let new_amount = v - amount in
                if new_amount = 0 then Inr (es, new_amount) else Inr ((k', new_amount) # es, new_amount)
      else rbind (reduce_entry missing short k amount es) (\<lambda>(es', n). Inr ((k', v) # es', n)))"

definition merge_collateral :: "lending_account \<Rightarrow> token_ref \<Rightarrow> u256 \<Rightarrow> lending_account" where
  "merge_collateral la asset amount = la\<lparr>collaterals := merge_entry asset amount (collaterals la)\<rparr>"

definition reduce_collateral ::
  "lending_account \<Rightarrow> token_ref \<Rightarrow> u256 \<Rightarrow> (lending_account \<times> u256) reducer_result" where
  "reduce_collateral la asset amount =
     rbind (reduce_entry ''withdraw: asset not present in collaterals'' ''withdraw: amount > collateral''
         asset amount (collaterals la))
       (\<lambda>(cs, n). Inr (la\<lparr>collaterals := cs\<rparr>, n))"

text \<open>A debt row is identified by its token and rate mode together.\<close>

abbreviation debt_rows :: "lending_account \<Rightarrow> ((token_ref \<times> rate_mode) \<times> u256) list" where
  "debt_rows la \<equiv> map (\<lambda>(t, amount, r). ((t, r), amount)) (debts la)"

abbreviation put_debt_rows :: "((token_ref \<times> rate_mode) \<times> u256) list \<Rightarrow> lending_account \<Rightarrow> lending_account" where
  "put_debt_rows rows la \<equiv> la\<lparr>debts := map (\<lambda>((t, r), amount). (t, amount, r)) rows\<rparr>"

definition merge_debt :: "lending_account \<Rightarrow> token_ref \<Rightarrow> u256 \<Rightarrow> rate_mode \<Rightarrow> lending_account" where
  "merge_debt la asset amount mode = put_debt_rows (merge_entry (asset, mode) amount (debt_rows la)) la"

definition reduce_debt ::
  "lending_account \<Rightarrow> token_ref \<Rightarrow> u256 \<Rightarrow> rate_mode \<Rightarrow> (lending_account \<times> u256) reducer_result" where
  "reduce_debt la asset amount mode =
     rbind (reduce_entry ''repay: asset not present in debts for rate_mode'' ''repay: amount > debt''
         (asset, mode) amount (debt_rows la))
       (\<lambda>(rows, n). Inr (put_debt_rows rows la, n))"

definition threshold_to_bp :: "decimal_lib \<Rightarrow> decimal \<Rightarrow> u32" where
  "threshold_to_bp D value =
     (case dl_parse D value of
        None \<Rightarrow> 0
      | Some d \<Rightarrow> (case d_to_u32 (d_round_even (d_mul D d 10000)) of None \<Rightarrow> 0 | Some bp \<Rightarrow> bp))"

definition build_price_tables ::
  "decimal_lib \<Rightarrow> lending_account \<Rightarrow> price \<Rightarrow> token_ref
     \<Rightarrow> (token_ref \<times> decimal) list \<times> (token_ref \<times> decimal) list \<times> (token_ref \<times> u32) list" where
  "build_price_tables D la asset_price referenced_asset =
     (let collat_prices = map (\<lambda>(token, _). (token, asset_price)) (collaterals la);
          lts = map (\<lambda>(token, _). (token, threshold_to_bp D (lf_value (liquidation_threshold la))))
                  (collaterals la);
          debt_prices = map (\<lambda>(token, _, _). (token, asset_price)) (debts la);
          seen = list_ex (\<lambda>(t, _). t = referenced_asset) collat_prices;
          collat_prices = (if seen then collat_prices else collat_prices @ [(referenced_asset, asset_price)]);
          lts = (if seen then lts
                 else lts @ [(referenced_asset, threshold_to_bp D (lf_value (liquidation_threshold la)))]);
          debt_prices = (if list_ex (\<lambda>(t, _). t = referenced_asset) debt_prices then debt_prices
                         else debt_prices @ [(referenced_asset, asset_price)])
      in (collat_prices, debt_prices, lts))"

text \<open>Rewriting the account inside a position, as the closures passed to \<open>upsert_lending_account\<close> do.\<close>

definition on_account :: "(lending_account \<Rightarrow> lending_account) \<Rightarrow> position \<Rightarrow> position" where
  "on_account f p =
     (case pos_kind p of LendingAccount la \<Rightarrow> p\<lparr>pos_kind := LendingAccount (f la)\<rparr> | _ \<Rightarrow> p)"

definition ignore_err :: "(lending_account \<Rightarrow> (lending_account \<times> u256) reducer_result) \<Rightarrow> lending_account
    \<Rightarrow> lending_account" where
  "ignore_err f la = (case f la of Inl _ \<Rightarrow> la | Inr (la', _) \<Rightarrow> la')"

definition find_position :: "wallet_state \<Rightarrow> position_id \<Rightarrow> position reducer_result" where
  "find_position s pid = ok_or (find (\<lambda>p. pos_id p = pid) (positions s)) (PositionNotFound pid)"

definition lending_account_of :: "string \<Rightarrow> position \<Rightarrow> lending_account reducer_result" where
  "lending_account_of msg p = (case pos_kind p of LendingAccount la \<Rightarrow> Inr la | _ \<Rightarrow> fail msg)"

section \<open>Supply\<close>

definition supply_derived_live_field :: "decimal \<Rightarrow> eval_context \<Rightarrow> decimal live_field" where
  "supply_derived_live_field v ctx = live_field_new v (DerivedFrom [] ''lending_supply_init'') (now ctx)"

definition new_lending_account :: "supply_action \<Rightarrow> eval_context \<Rightarrow> position" where
  "new_lending_account a ctx =
     (let tag = lending_venue_tag (su_venue a);
          acct = \<lparr>la_market = \<lparr>market_symbol = tag, market_venue = venue_ref_new tag\<rparr>,
            collaterals = [(su_asset a, su_amount a)], debts = [], emode = None, is_isolated = False,
            health_factor = supply_derived_live_field ''999999999'' ctx,
            ltv = supply_derived_live_field ''0'' ctx,
            liquidation_threshold = supply_derived_live_field
              (''0.'' @ pad4 (unat (liquidation_threshold_bp (lf_value (su_reserve_state (su_live_inputs a)))))) ctx\<rparr>
      in \<lparr>pos_id = position_id_for_venue (su_venue a), pos_protocol = protocol_ref_new tag,
          pos_chain = Some (lending_venue_chain (su_venue a)), pos_kind = LendingAccount acct,
          pos_synced_at = now ctx, pos_source = UserSupplied\<rparr>)"

definition receipt_amount :: "lending_venue \<Rightarrow> reserve_state \<Rightarrow> u256 \<Rightarrow> u256 reducer_result" where
  "receipt_amount v reserve amount =
     (case v of
        AaveV3 _ _ _ \<Rightarrow> aave_v3_asset_to_atokens reserve amount
      | AaveV2 _ _ \<Rightarrow> aave_v2_asset_to_atokens reserve amount
      | Spark _ _ \<Rightarrow> spark_asset_to_atokens reserve amount
      | CompoundV2 _ _ \<Rightarrow> underlying_to_ctoken reserve amount
      | CompoundV3 _ _ _ \<Rightarrow> principal_to_present_value reserve amount
      | MorphoOptimizer _ _ \<Rightarrow> asset_to_optimizer_shares reserve amount
      | Fluid _ _ \<Rightarrow> asset_to_fluid_shares reserve amount
      | MetaMorpho _ _ \<Rightarrow> asset_to_fluid_shares reserve amount
      | CrvUsd _ _ _ \<Rightarrow> Inr amount
      | LlamaLend _ _ _ \<Rightarrow> Inr amount
      | MorphoBlue _ _ \<Rightarrow> Inl (UnsupportedProtocol ''supply'' ''morpho_blue'')
      | AaveV3Periphery _ _ \<Rightarrow> Inl (UnsupportedProtocol ''supply'' ''aave_v3_periphery''))"

definition over_cap :: "u256 option \<Rightarrow> u256 \<Rightarrow> u256 \<Rightarrow> bool" where
  "over_cap cap current amount = (case cap of None \<Rightarrow> False | Some c \<Rightarrow> c < saturating_add current amount)"

definition supply_apply ::
  "position_serde \<Rightarrow> supply_action \<Rightarrow> wallet_state \<Rightarrow> eval_context \<Rightarrow> state_delta reducer_result" where
  "supply_apply C a s ctx =
     (let reserve = lf_value (su_reserve_state (su_live_inputs a)); tag = lending_venue_tag (su_venue a) in
      if is_paused reserve then fail (''supply rejected: reserve paused for venue '' @ tag)
      else if is_frozen reserve then fail (''supply rejected: reserve frozen for venue '' @ tag)
      else if over_cap (supply_cap reserve) (total_supply reserve) (su_amount a)
      then fail ''supply rejected: total_supply + amount > supply_cap''
      else
        rbind (receipt_amount (su_venue a) reserve (su_amount a)) (\<lambda>_.
        rbind (debit s state_delta_new (ref_key (su_asset a)) (su_amount a)) (\<lambda>d.
        let pid = position_id_for_venue (su_venue a) in
        if position_exists s d pid
        then upsert_lending_account C s d pid
               (on_account (\<lambda>la. merge_collateral la (su_asset a) (su_amount a)))
        else if lf_value (eligible_as_collat (su_live_inputs a))
        then open_position s d (new_lending_account a ctx)
        else open_position s d (on_account (\<lambda>la. la\<lparr>collaterals := []\<rparr>) (new_lending_account a ctx)))))"

section \<open>Withdraw, borrow, repay\<close>

definition intended :: "u256 \<Rightarrow> u256 \<Rightarrow> u256" where
  "intended amount hint = (if amount = u256_max then hint else amount)"

definition withdraw_apply ::
  "position_serde \<Rightarrow> withdraw_action \<Rightarrow> wallet_state \<Rightarrow> eval_context \<Rightarrow> state_delta reducer_result" where
  "withdraw_apply C a s ctx =
     (if is_paused (lf_value (wd_reserve_state (wd_live_inputs a)))
      then fail (''withdraw rejected: reserve paused for venue '' @ lending_venue_tag (wd_venue a))
      else
        let pid = position_id_for_venue (wd_venue a) in
        if \<not> position_exists s state_delta_new pid then Inl (PositionNotFound pid)
        else
          let amount = intended (wd_amount a) (lf_value (available_to_withdraw (wd_live_inputs a))) in
          rbind (upsert_lending_account C s state_delta_new pid
                   (on_account (ignore_err (\<lambda>la. reduce_collateral la (wd_asset a) amount)))) (\<lambda>d.
          rbind (find_position s pid) (\<lambda>pos.
          rbind (case pos_kind pos of
                   LendingAccount la \<Rightarrow> rbind (reduce_collateral la (wd_asset a) amount) (\<lambda>_. Inr ())
                 | _ \<Rightarrow> Inr ()) (\<lambda>_.
          if wd_recipient a = wid_address (ws_id s) then credit s d (ref_key (wd_asset a)) amount
          else Inr d))))"

definition hf_is_safe :: "decimal_lib \<Rightarrow> decimal \<Rightarrow> bool reducer_result" where
  "hf_is_safe D hf =
     rbind (ok_or (dl_parse D hf) (Invariant ''borrow: HF Decimal parse failed'')) (\<lambda>parsed. Inr (1 \<le> parsed))"

definition borrow_preview_safe :: "decimal_lib \<Rightarrow> borrow_action \<Rightarrow> lending_account \<Rightarrow> bool reducer_result" where
  "borrow_preview_safe D a la =
     (let preview = merge_debt la (bo_asset a) (bo_amount a) (bo_rate_mode a);
          (collat_prices, debt_prices, lts) =
            build_price_tables D preview (lf_value (bo_asset_price_usd (bo_live_inputs a))) (bo_asset a)
      in rbind (recompute_health_factor D preview collat_prices debt_prices lts) (hf_is_safe D))"

definition borrow_apply ::
  "decimal_lib \<Rightarrow> position_serde \<Rightarrow> borrow_action \<Rightarrow> wallet_state \<Rightarrow> eval_context
     \<Rightarrow> state_delta reducer_result" where
  "borrow_apply D C a s ctx =
     (let reserve = lf_value (bo_reserve_state (bo_live_inputs a)); tag = lending_venue_tag (bo_venue a) in
      if is_paused reserve then fail (''borrow rejected: reserve paused for venue '' @ tag)
      else if is_frozen reserve then fail (''borrow rejected: reserve frozen for venue '' @ tag)
      else if lf_value (available_liquidity (bo_live_inputs a)) < bo_amount a
      then fail ''borrow rejected: available_liquidity < amount''
      else if over_cap (borrow_cap reserve) (total_borrow reserve) (bo_amount a)
      then fail ''borrow rejected: total_borrow + amount > borrow_cap''
      else
        let pid = position_id_for_venue (bo_venue a) in
        if \<not> position_exists s state_delta_new pid then Inl (PositionNotFound pid)
        else
          rbind (upsert_lending_account C s state_delta_new pid
            (on_account (\<lambda>la. merge_debt la (bo_asset a) (bo_amount a) (bo_rate_mode a)))) (\<lambda>d.
          rbind (find_position s pid) (\<lambda>existing_pos.
          rbind (lending_account_of ''borrow: position is not a LendingAccount'' existing_pos) (\<lambda>la.
          rbind (borrow_preview_safe D a la) (\<lambda>safe.
          if \<not> safe then fail ''borrow rejected: post-borrow HF < 1.0''
          else credit s d (ref_key (bo_asset a)) (bo_amount a))))))"

definition repay_apply ::
  "position_serde \<Rightarrow> repay_action \<Rightarrow> wallet_state \<Rightarrow> eval_context \<Rightarrow> state_delta reducer_result" where
  "repay_apply C a s ctx =
     (if is_paused (lf_value (re_reserve_state (re_live_inputs a)))
      then fail (''repay rejected: reserve paused for venue '' @ lending_venue_tag (re_venue a))
      else
        let pid = position_id_for_venue (re_venue a) in
        if \<not> position_exists s state_delta_new pid then Inl (PositionNotFound pid)
        else
          let amount = intended (re_amount a) (lf_value (re_current_debt (re_live_inputs a))) in
          rbind (upsert_lending_account C s state_delta_new pid
                   (on_account (ignore_err (\<lambda>la. reduce_debt la (re_asset a) amount (re_rate_mode a))))) (\<lambda>d.
          rbind (find_position s pid) (\<lambda>pos.
          rbind (case pos_kind pos of
                   LendingAccount la \<Rightarrow>
                     rbind (reduce_debt la (re_asset a) amount (re_rate_mode a)) (\<lambda>_. Inr ())
                 | _ \<Rightarrow> Inr ()) (\<lambda>_.
          debit s d (ref_key (re_asset a)) amount))))"

section \<open>Rate mode, e-mode, collateral flags, delegation\<close>

fun other_mode :: "rate_mode \<Rightarrow> rate_mode" where
  "other_mode VariableRate = StableRate"
| "other_mode FixedRate = StableRate"
| "other_mode StableRate = VariableRate"

fun is_aave :: "lending_venue \<Rightarrow> bool" where
  "is_aave (AaveV2 _ _) = True"
| "is_aave (AaveV3 _ _ _) = True"
| "is_aave _ = False"

fun honours_emode :: "lending_venue \<Rightarrow> bool" where
  "honours_emode (AaveV3 _ _ _) = True"
| "honours_emode (Spark _ _) = True"
| "honours_emode _ = False"

definition swap_rate_mode_apply ::
  "position_serde \<Rightarrow> swap_rate_mode_action \<Rightarrow> wallet_state \<Rightarrow> eval_context \<Rightarrow> state_delta reducer_result" where
  "swap_rate_mode_apply C a s ctx =
     (if \<not> is_aave (sr_venue a)
      then Inl (UnsupportedProtocol ''swap_rate_mode'' (lending_venue_tag (sr_venue a)))
      else
        let pid = position_id_for_venue (sr_venue a) in
        if \<not> position_exists s state_delta_new pid then Inl (PositionNotFound pid)
        else
          rbind (find_position s pid) (\<lambda>pos.
          rbind (lending_account_of ''swap_rate_mode: position is not a LendingAccount'' pos) (\<lambda>la.
          let source_mode = other_mode (sr_new_mode a) in
          rbind (ok_or (map_of (debt_rows la) (sr_asset a, source_mode))
                   (Invariant ''swap_rate_mode: no debt entry for asset in mode'')) (\<lambda>source_amount.
          upsert_lending_account C s state_delta_new pid
            (on_account (\<lambda>la.
               merge_debt (ignore_err (\<lambda>la. reduce_debt la (sr_asset a) source_amount source_mode) la)
                 (sr_asset a) source_amount (sr_new_mode a)))))))"

definition set_e_mode_apply ::
  "position_serde \<Rightarrow> set_e_mode_action \<Rightarrow> wallet_state \<Rightarrow> eval_context \<Rightarrow> state_delta reducer_result" where
  "set_e_mode_apply C a s ctx =
     (if \<not> honours_emode (em_venue a)
      then Inl (UnsupportedProtocol ''set_emode'' (lending_venue_tag (em_venue a)))
      else
        let pid = position_id_for_venue (em_venue a) in
        if \<not> position_exists s state_delta_new pid then Inl (PositionNotFound pid)
        else
          rbind (find_position s pid) (\<lambda>pos.
          rbind (lending_account_of ''set_emode: position is not a LendingAccount'' pos) (\<lambda>la.
          let allowed = assets_in_category (lf_value (category_config (em_live_inputs a))) in
          if category_id a \<noteq> 0 \<and> list_ex (\<lambda>(t, _). t \<notin> set allowed) (collaterals la)
          then fail ''set_emode rejected: collateral not in target category''
          else if category_id a \<noteq> 0 \<and> list_ex (\<lambda>(t, _, _). t \<notin> set allowed) (debts la)
          then fail ''set_emode rejected: debt not in target category''
          else
            upsert_lending_account C s state_delta_new pid
              (on_account (\<lambda>la. la\<lparr>emode := (if category_id a = 0 then None else Some (category_id a))\<rparr>)))))"

definition set_collateral_apply ::
  "position_serde \<Rightarrow> set_collateral_action \<Rightarrow> wallet_state \<Rightarrow> eval_context \<Rightarrow> bool \<Rightarrow> state_delta reducer_result" where
  "set_collateral_apply C a s ctx enable =
     (if is_paused (lf_value (sc_reserve_state (sc_live_inputs a)))
      then fail (''set_collateral rejected: reserve paused for venue '' @ lending_venue_tag (sc_venue a))
      else
        let pid = position_id_for_venue (sc_venue a) in
        if \<not> position_exists s state_delta_new pid then Inl (PositionNotFound pid)
        else
          upsert_lending_account C s state_delta_new pid
            (on_account (\<lambda>la.
               if enable
               then if list_ex (\<lambda>(t, _). t = sc_asset a) (collaterals la) then la
                    else la\<lparr>collaterals := collaterals la @ [(sc_asset a, 0)]\<rparr>
               else la\<lparr>collaterals := filter (\<lambda>(t, _). t \<noteq> sc_asset a) (collaterals la)\<rparr>)))"

definition delegate_borrow_apply ::
  "delegate_borrow_action \<Rightarrow> wallet_state \<Rightarrow> eval_context \<Rightarrow> state_delta reducer_result" where
  "delegate_borrow_apply a s ctx =
     (if \<not> is_aave (db_venue a)
      then Inl (UnsupportedProtocol ''delegate_borrow'' (lending_venue_tag (db_venue a)))
      else Inr (push_token_change state_delta_new
             (ApprovalSetChange (ref_key (db_asset a)) (db_delegatee a) (allowance_spec_new (db_amount a) (now ctx)))))"

section \<open>Liquidation and the rest\<close>

definition liquidate_parse_decimal :: "decimal_lib \<Rightarrow> decimal \<Rightarrow> rat reducer_result" where
  "liquidate_parse_decimal D d = ok_or (dl_parse D d) (Invariant ''liquidate: HF parse'')"

definition before_dot :: "string \<Rightarrow> string" where
  "before_dot s = takeWhile (\<lambda>c. c \<noteq> CHR ''.'') s"

definition parse_price_to_u256 :: "decimal_lib \<Rightarrow> decimal \<Rightarrow> u256 reducer_result" where
  "parse_price_to_u256 D px =
     rbind (ok_or (dl_parse D px) (Invariant ''liquidate: price parse'')) (\<lambda>parsed.
       let scaled = d_round_even (d_mul D parsed 1000000) in
       if scaled < 0 then fail ''liquidate: negative price encountered''
       else ok_or (dl_u256 D (before_dot (dl_show D (of_int scaled)))) (Invariant ''liquidate: price U256''))"

definition liquidate_apply ::
  "decimal_lib \<Rightarrow> liquidate_action \<Rightarrow> wallet_state \<Rightarrow> eval_context \<Rightarrow> state_delta reducer_result" where
  "liquidate_apply D a s ctx =
     (let inputs = lq_live_inputs a in
      rbind (liquidate_parse_decimal D (uls_health_factor (lf_value (victim_state inputs)))) (\<lambda>hf.
      if 1 \<le> hf then fail ''liquidate rejected: victim HF >= 1.0 (position is healthy)''
      else
        let bonus_bp = lf_value (liquidation_bonus inputs) in
        if bonus_bp > 10000 then fail ''liquidate: bonus_bp > 10000''
        else
          rbind (parse_price_to_u256 D (lf_value (debt_asset_price inputs))) (\<lambda>debt_price.
          rbind (ok_or (checked_mul (debt_to_cover a) debt_price)
                   (Invariant ''liquidate: debt value overflow'')) (\<lambda>debt_value_usd.
          rbind (ok_or (checked_mul debt_value_usd (ucast (10000 + bonus_bp)))
                   (Invariant ''liquidate: bonus apply overflow'')) (\<lambda>raised.
          let collat_value_usd = raised div 10000 in
          rbind (parse_price_to_u256 D (lf_value (collat_asset_price inputs))) (\<lambda>collat_price.
          if collat_price = 0 then fail ''liquidate: collateral price is zero''
          else
            let collat_amount = collat_value_usd div collat_price in
            rbind (debit s state_delta_new (ref_key (debt_asset a)) (debt_to_cover a)) (\<lambda>d.
            credit s d (ref_key (collat_asset a)) collat_amount)))))))"

definition buy_collateral_apply ::
  "buy_collateral_action \<Rightarrow> wallet_state \<Rightarrow> eval_context \<Rightarrow> state_delta reducer_result" where
  "buy_collateral_apply a s ctx = Inr state_delta_new"

definition set_authorization_apply ::
  "set_authorization_action \<Rightarrow> wallet_state \<Rightarrow> eval_context \<Rightarrow> state_delta reducer_result" where
  "set_authorization_apply a s ctx = Inr state_delta_new"

definition periphery_operation_apply ::
  "periphery_operation_action \<Rightarrow> wallet_state \<Rightarrow> eval_context \<Rightarrow> state_delta reducer_result" where
  "periphery_operation_apply a s ctx = Inr state_delta_new"

fun lending_action_apply ::
  "decimal_lib \<Rightarrow> position_serde \<Rightarrow> lending_action \<Rightarrow> wallet_state \<Rightarrow> eval_context
     \<Rightarrow> state_delta reducer_result" where
  "lending_action_apply D C (Supply a) s ctx = supply_apply C a s ctx"
| "lending_action_apply D C (Withdraw a) s ctx = withdraw_apply C a s ctx"
| "lending_action_apply D C (Borrow a) s ctx = borrow_apply D C a s ctx"
| "lending_action_apply D C (BuyCollateral a) s ctx = buy_collateral_apply a s ctx"
| "lending_action_apply D C (Repay a) s ctx = repay_apply C a s ctx"
| "lending_action_apply D C (SwapRateMode a) s ctx = swap_rate_mode_apply C a s ctx"
| "lending_action_apply D C (SetEMode a) s ctx = set_e_mode_apply C a s ctx"
| "lending_action_apply D C (EnableCollateral a) s ctx = set_collateral_apply C a s ctx True"
| "lending_action_apply D C (DisableCollateral a) s ctx = set_collateral_apply C a s ctx False"
| "lending_action_apply D C (DelegateBorrow a) s ctx = delegate_borrow_apply a s ctx"
| "lending_action_apply D C (Liquidate a) s ctx = liquidate_apply D a s ctx"
| "lending_action_apply D C (SetAuthorization a) s ctx = set_authorization_apply a s ctx"
| "lending_action_apply D C (PeripheryOperation a) s ctx = periphery_operation_apply a s ctx"

section \<open>The reducer contract\<close>

lemma lending_action_plain: "lending_action_apply D C a s ctx = Inr d \<Longrightarrow> plain_delta d"
  by (cases a)
    (auto simp: supply_apply_def withdraw_apply_def borrow_apply_def repay_apply_def swap_rate_mode_apply_def
      set_e_mode_apply_def set_collateral_apply_def delegate_borrow_apply_def liquidate_apply_def
      buy_collateral_apply_def set_authorization_apply_def periphery_operation_apply_def rbind_Inr_iff Let_def
      split: if_splits dest!: plain_helpers)

interpretation lending_domain: reducer "lending_action_apply D C" for D C
  by unfold_locales (use lending_action_plain in \<open>auto simp: plain_delta_def\<close>)

end
