(* ===== verification/LendingFacts.thy ===== *)
theory LendingFacts
  imports LendingEffects
begin

text \<open>
  Facts about the lending domain: account rows as a ledger, the interest-rate curve over the natural
  numbers, vault shares, and the health-factor preview of a borrow.
\<close>

lemma find_first: "\<forall>x \<in> set xs. \<not> P x \<Longrightarrow> P y \<Longrightarrow> find P (xs @ y # ys) = Some y"
  by (induction xs) auto

section \<open>Account rows as a ledger\<close>

text \<open>The abstract account: how much it holds of each key, and which keys it lists.\<close>

definition entry_amount :: "('k \<times> u256) list \<Rightarrow> 'k \<Rightarrow> nat" where
  "entry_amount es k = (case map_of es k of None \<Rightarrow> 0 | Some v \<Rightarrow> unat v)"

definition distinct_rows :: "('k \<times> u256) list \<Rightarrow> bool" where
  "distinct_rows es = distinct (map fst es)"

lemma merge_entry_keys: "fst ` set (merge_entry k amount es) = insert k (fst ` set es)"
  by (induction k amount es rule: merge_entry.induct) auto

lemma merge_entry_distinct: "distinct_rows es \<Longrightarrow> distinct_rows (merge_entry k amount es)"
  by (induction k amount es rule: merge_entry.induct)
    (auto simp: distinct_rows_def merge_entry_keys)

lemma merge_entry_amount:
  "entry_amount (merge_entry k amount es) k' =
     (if k' = k then min (entry_amount es k + unat amount) (2 ^ 256 - 1) else entry_amount es k')"
proof (induction k amount es rule: merge_entry.induct)
  case (1 k amount)
  have "unat amount \<le> 2 ^ 256 - 1" using unat_less [of amount] by simp
  then show ?case by (simp add: entry_amount_def)
next
  case (2 k amount row v es)
  then show ?case by (auto simp: entry_amount_def unat_saturating_add)
qed

lemma reduce_entry_cases:
  assumes "reduce_entry m sh k amount es = Inr (es', n)"
  obtains (hit) v rest where "es = (k, v) # rest" "amount \<le> v" "n = v - amount"
      "es' = (if v - amount = 0 then rest else (k, v - amount) # rest)"
    | (miss) row v rest rest' where "es = (row, v) # rest" "row \<noteq> k"
      "reduce_entry m sh k amount rest = Inr (rest', n)" "es' = (row, v) # rest'"
proof (cases es)
  case Nil
  with assms show ?thesis by simp
next
  case (Cons e rest)
  obtain row v where e: "e = (row, v)" by fastforce
  show ?thesis
  proof (cases "row = k")
    case True
    with assms Cons e show ?thesis by (intro hit [of v rest]) (auto simp: Let_def not_less split: if_splits)
  next
    case False
    with assms Cons e show ?thesis by (auto simp: rbind_Inr_iff intro: miss)
  qed
qed

lemma reduce_entry_keys:
  "reduce_entry m sh k amount es = Inr (es', n) \<Longrightarrow> fst ` set es' \<subseteq> fst ` set es"
proof (induction es arbitrary: es')
  case (Cons e es)
  from Cons.prems show ?case
    by (cases rule: reduce_entry_cases) (use Cons.IH in auto)
qed simp

lemma reduce_entry_distinct:
  "reduce_entry m sh k amount es = Inr (es', n) \<Longrightarrow> distinct_rows es \<Longrightarrow> distinct_rows es'"
proof (induction es arbitrary: es')
  case (Cons e es)
  from Cons.prems(1) show ?case
  proof (cases rule: reduce_entry_cases)
    case (miss row v rest rest')
    with Cons.IH [of rest'] Cons.prems(2) reduce_entry_keys [OF miss(3)] show ?thesis
      by (auto simp: distinct_rows_def)
  qed (use Cons.prems(2) in \<open>auto simp: distinct_rows_def\<close>)
qed simp

lemma reduce_entry_ok_iff:
  "is_ok (reduce_entry m sh k amount es) \<longleftrightarrow> k \<in> fst ` set es \<and> unat amount \<le> entry_amount es k"
proof (induction m sh k amount es rule: reduce_entry.induct)
  case (2 m sh k amount k' v es)
  show ?case
  proof (cases "k' = k")
    case True
    then show ?thesis by (auto simp: is_ok_def entry_amount_def Let_def word_less_nat_alt)
  next
    case False
    with 2 show ?thesis
      by (auto simp: is_ok_def entry_amount_def rbind_def split: sum.splits prod.splits)
  qed
qed (simp add: is_ok_def)

lemma reduce_entry_amount:
  assumes "reduce_entry m sh k amount es = Inr (es', n)" and "distinct_rows es"
  shows "unat n = entry_amount es k - unat amount \<and>
    entry_amount es' k' = (if k' = k then entry_amount es k - unat amount else entry_amount es k')"
  using assms
proof (induction es arbitrary: es')
  case (Cons e es)
  from Cons.prems(1) show ?case
  proof (cases rule: reduce_entry_cases)
    case (hit v rest)
    with Cons.prems(2) have "map_of rest k = None"
      by (simp add: distinct_rows_def map_of_eq_None_iff)
    moreover have "unat (v - amount) = unat v - unat amount"
      using hit(2) by (simp add: unat_sub)
    ultimately show ?thesis
      using hit by (auto simp: entry_amount_def word_unat_eq_iff)
  next
    case (miss row v rest rest')
    with Cons.prems(2) have "distinct_rows es" by (simp add: distinct_rows_def)
    with Cons.IH [of rest'] miss show ?thesis by (auto simp: entry_amount_def)
  qed
qed simp

section \<open>The interest-rate curve\<close>

text \<open>The curve over the natural numbers: no 64-bit step of the code overflows.\<close>

definition rate_curve :: "nat \<Rightarrow> nat \<Rightarrow> nat \<Rightarrow> nat \<Rightarrow> nat \<Rightarrow> nat" where
  "rate_curve u base s1 s2 opt =
     (if u \<le> opt then base + s1 * u div opt else base + s1 + s2 * (u - opt) div (10000 - opt))"

lemma unat_ucast_u64 [simp]: "unat (ucast (x :: u32) :: u64) = unat x"
proof -
  have "unat x < 2 ^ 64" by (rule less_trans [OF unat_less]) simp
  then show ?thesis by (simp add: unsigned_ucast_eq take_bit_nat_eq_self)
qed

lemma u64_product:
  fixes x y :: u32
  assumes "unat y \<le> 10000"
  shows "unat (ucast x * ucast y :: u64) = unat x * unat y"
proof -
  have "unat x * unat y \<le> 2 ^ 32 * 10000"
    using assms unat_less [of x] by (intro mult_mono) simp_all
  then show ?thesis by (simp add: unat_word_ariths)
qed

lemma rate_term_bound: "n \<le> m \<Longrightarrow> s * n div m \<le> (s :: nat)"
proof (cases "m = 0")
  case False
  assume "n \<le> m"
  then have "s * n div m \<le> s * m div m" by (intro div_le_mono) simp
  with False show ?thesis by simp
qed simp

lemma rate_exact:
  assumes "utilization \<le> 10000" and "optimal < 10000"
  shows "unat (two_slope_rate_bp utilization base s1 s2 optimal)
    = rate_curve (unat utilization) (unat base) (unat s1) (unat s2) (unat optimal)"
proof -
  have u: "unat utilization \<le> 10000" "unat optimal < 10000"
    using assms by (simp_all add: word_le_nat_alt word_less_nat_alt)
  have small: "unat w < 2 ^ 32" for w :: u32 using unat_less [of w] by simp
  show ?thesis
  proof (cases "utilization \<le> optimal")
    case True
    then have le: "unat utilization \<le> unat optimal" by (simp add: word_le_nat_alt)
    let ?q = "(ucast s1 * ucast utilization :: u64) div ucast optimal"
    have q: "unat ?q = unat s1 * unat utilization div unat optimal"
      using u by (simp add: unat_div u64_product)
    then have "unat ?q < 2 ^ 32"
      using rate_term_bound [OF le, of "unat s1"] small [of s1] by simp
    then have "unat (ucast base + ?q) = unat base + unat ?q"
      using small [of base] by (simp add: unat_word_ariths)
    with True le q show ?thesis by (simp add: two_slope_rate_bp_def rate_curve_def)
  next
    case False
    then have gt: "\<not> unat utilization \<le> unat optimal" by (simp add: word_le_nat_alt)
    let ?q = "(ucast s2 * ucast (utilization - optimal) :: u64) div ucast (10000 - optimal)"
    have e: "unat (utilization - optimal) = unat utilization - unat optimal"
      "unat (10000 - optimal) = 10000 - unat optimal"
      using False u gt by (simp_all add: unat_sub word_le_nat_alt)
    then have q: "unat ?q = unat s2 * (unat utilization - unat optimal) div (10000 - unat optimal)"
      using u by (simp add: unat_div u64_product)
    have "unat utilization - unat optimal \<le> 10000 - unat optimal" using u by simp
    from rate_term_bound [OF this, of "unat s2"] q have "unat ?q < 2 ^ 32"
      using small [of s2] by linarith
    then have "unat (ucast base + ucast s1 + ?q) = unat base + unat s1 + unat ?q"
      using small [of base] small [of s1] by (simp add: unat_word_ariths)
    with False gt q show ?thesis by (simp add: two_slope_rate_bp_def rate_curve_def Let_def)
  qed
qed

lemma rate_curve_bound: "u \<le> 10000 \<Longrightarrow> opt < 10000 \<Longrightarrow> rate_curve u base s1 s2 opt \<le> base + s1 + s2"
  using rate_term_bound [of u opt s1] rate_term_bound [of "u - opt" "10000 - opt" s2]
  by (auto simp: rate_curve_def)

lemma rate_curve_mono:
  assumes "u \<le> u'" and "u' \<le> 10000"
  shows "rate_curve u base s1 s2 opt \<le> rate_curve u' base s1 s2 opt"
proof (cases "u \<le> opt \<and> opt < u'")
  case True
  with rate_term_bound [of u opt s1] show ?thesis by (simp add: rate_curve_def)
next
  case False
  with assms show ?thesis by (auto simp: rate_curve_def intro!: div_le_mono mult_le_mono)
qed

section \<open>Vault shares\<close>

lemma share_round_trip:
  fixes x a b :: nat
  shows "(x * b div a) * a div b \<le> x"
proof (cases "b = 0")
  case False
  have "(x * b div a) * a \<le> x * b" by simp
  then have "(x * b div a) * a div b \<le> x * b div b" by (rule div_le_mono)
  with False show ?thesis by simp
qed simp

lemma assets_to_shares_exact:
  "assets_to_shares A S x = Inr sh \<Longrightarrow> unat sh = unat x * (unat S + 1000000) div (unat A + 1)"
  by (auto simp: assets_to_shares_def rbind_Inr_iff checked_ops ok_or_Inr_iff virtual_shares_def
      virtual_assets_def unat_div unat_word_ariths split: if_splits)

lemma shares_to_assets_exact:
  "shares_to_assets A S sh = Inr x \<Longrightarrow> unat x = unat sh * (unat A + 1) div (unat S + 1000000)"
  by (auto simp: shares_to_assets_def rbind_Inr_iff checked_ops ok_or_Inr_iff virtual_shares_def
      virtual_assets_def unat_div unat_word_ariths split: if_splits)

section \<open>The health-factor preview\<close>

abbreviation amount_sum :: "('k \<times> u256) list \<Rightarrow> nat" where
  "amount_sum es \<equiv> sum_list (map (unat \<circ> snd) es)"

lemma map_of_constant:
  "t \<in> fst ` set xs \<Longrightarrow> map_of (map (\<lambda>(t, _). (t, v)) xs) t = Some v"
  by (induction xs) auto

lemma map_of_constant_rows:
  "t \<in> fst ` set xs \<Longrightarrow> map_of (map (\<lambda>(t, _, _). (t, v)) xs) t = Some v"
  by (induction xs) auto

lemma price_tables_constant:
  assumes "build_price_tables D la px asset = (cp, dp, lts)"
  shows "\<forall>t \<in> fst ` set (collaterals la).
      map_of cp t = Some px \<and> map_of lts t = Some (threshold_to_bp D (lf_value (liquidation_threshold la)))"
    and "\<forall>t \<in> fst ` set (debt_pairs la). map_of dp t = Some px"
proof -
  have "map_of cp t = Some px \<and> map_of lts t = Some (threshold_to_bp D (lf_value (liquidation_threshold la)))"
    if "t \<in> fst ` set (collaterals la)" for t
    using assms map_of_constant [OF that, of px]
      map_of_constant [OF that, of "threshold_to_bp D (lf_value (liquidation_threshold la))"]
    by (auto simp: build_price_tables_def Let_def map_add_find_right split: if_splits)
  then show "\<forall>t \<in> fst ` set (collaterals la).
      map_of cp t = Some px \<and> map_of lts t = Some (threshold_to_bp D (lf_value (liquidation_threshold la)))"
    by blast
  have "map_of dp t = Some px" if "t \<in> fst ` set (debts la)" for t
    using assms map_of_constant_rows [OF that, of px]
    by (auto simp: build_price_tables_def Let_def map_add_find_right split: if_splits)
  moreover have "fst ` set (debt_pairs la) = fst ` set (debts la)" by force
  ultimately show "\<forall>t \<in> fst ` set (debt_pairs la). map_of dp t = Some px" by metis
qed

text \<open>Rounding to a neighbouring value of the type never crosses 1, and a ratio of small whole numbers below 1
  stays below it.\<close>

lemma fit_ratio_vs_one:
  assumes laws: "decimal_laws D" and "0 < b" "b \<le> 10 ^ 28" "a < 2 ^ 96"
  shows "decimal_value (dl_fit D (of_nat a / of_nat b))"
    and "1 \<le> dl_fit D (of_nat a / of_nat b) \<longleftrightarrow> b \<le> a"
proof -
  let ?x = "of_nat a / of_nat b :: rat"
  have pos: "0 < (of_nat b :: rat)" using assms(2) by simp
  have "?x \<le> of_nat a / 1" using assms(2) by (intro divide_left_mono) simp_all
  also have "\<dots> \<le> of_nat (2 ^ 96 - 1)" unfolding div_by_1 of_nat_le_iff using assms(4) by linarith
  finally have range: "\<bar>?x\<bar> \<le> 2 ^ 96 - 1" using pos by simp
  show "decimal_value (dl_fit D ?x)" by (rule parse_law(4) [OF laws range])
  show "1 \<le> dl_fit D ?x \<longleftrightarrow> b \<le> a"
  proof (cases "b \<le> a")
    case True
    then have "1 \<le> ?x" using pos by (simp add: pos_le_divide_eq)
    then show ?thesis
      using fit_bounds(1) [OF laws range, of 1] decimal_value_nat [of 1] True by simp
  next
    case False
    define r :: rat where "r = of_nat (10 ^ 28 - 1) / 10 ^ 28"
    have "a \<le> b - 1" using False by simp
    then have "?x \<le> of_nat (b - 1) / of_nat b" using pos by (intro divide_right_mono) simp_all
    also have "\<dots> = 1 - 1 / of_nat b" using assms(2) pos by (simp add: of_nat_diff field_simps)
    also have "\<dots> \<le> 1 - 1 / 10 ^ 28"
    proof -
      have "(of_nat b :: rat) \<le> of_nat (10 ^ 28)" unfolding of_nat_le_iff by (rule assms(3))
      then have "1 / (10 :: rat) ^ 28 \<le> 1 / of_nat b" using pos by (intro divide_left_mono) simp_all
      then show ?thesis by simp
    qed
    also have "\<dots> = r" by (simp add: r_def)
    finally have "?x \<le> r" .
    moreover have "decimal_value r" unfolding r_def by (rule decimal_value_scaled) simp_all
    ultimately have "dl_fit D ?x \<le> r" by (intro fit_bounds(2) [OF laws range])
    moreover have "r < 1" by (simp add: r_def)
    ultimately show ?thesis using False by linarith
  qed
qed

text \<open>
  As long as nothing has to be rounded on the way, the preview compares plain token amounts: the same
  price stands for every collateral and every debt, so it cancels, and the final division cannot move
  the ratio across 1.
\<close>

lemma borrow_preview_amounts:
  fixes D :: decimal_lib and a :: borrow_action and la :: lending_account
  defines "bp \<equiv> unat (threshold_to_bp D (lf_value (liquidation_threshold la)))"
    and "owed \<equiv> amount_sum (debt_pairs (merge_debt la (bo_asset a) (bo_amount a) (bo_rate_mode a)))"
    and "collat \<equiv> amount_sum (collaterals la)"
  assumes laws: "decimal_laws D"
    and px: "dl_parse D (lf_value (bo_asset_price_usd (bo_live_inputs a))) = Some (of_nat m / 10 ^ s)" "0 < m" "s \<le> 24"
    and fits: "m * max 1 bp * collat < 2 ^ 96" "m * owed < 2 ^ 96" "owed \<le> 10 ^ 24"
  shows "borrow_preview_safe D a la = Inr (10000 * owed \<le> bp * collat)"
proof -
  let ?la = "merge_debt la (bo_asset a) (bo_amount a) (bo_rate_mode a)"
  obtain cp dp lts where tables: "build_price_tables D ?la
      (lf_value (bo_asset_price_usd (bo_live_inputs a))) (bo_asset a) = (cp, dp, lts)"
    by (metis surj_pair)
  have same: "collaterals ?la = collaterals la" "liquidation_threshold ?la = liquidation_threshold la"
    by (simp_all add: merge_debt_def)
  note const = price_tables_constant [OF tables, unfolded same]
  have w: "rfold (collat_step D cp lts) 0 (collaterals la) = Inr (of_nat (m * bp * collat) / 10 ^ (s + 4))"
    using collat_fold_exact [OF laws px const(1), of 0] fits(1) by (simp add: bp_def collat_def)
  have t: "rfold (value_step D dp) 0 (debt_pairs ?la) = Inr (of_nat (m * owed) / 10 ^ s)"
    using value_fold_exact [OF laws px(1,2) _ const(2), of 0] px(3) fits(2) by (simp add: owed_def)
  have preview: "borrow_preview_safe D a la
      = rbind (if (of_nat (m * owed) / 10 ^ s :: rat) = 0 then Inr hf_infinity
          else Inr (dl_show D (dl_fit D (of_nat (m * bp * collat) / 10 ^ (s + 4) / (of_nat (m * owed) / 10 ^ s)))))
          (hf_is_safe D)"
    by (simp only: borrow_preview_safe_def Let_def tables prod.case recompute_health_factor_def w t same
        rbind_Inr decimal_to_state_def d_div_def)
  show ?thesis
  proof (cases "owed = 0")
    case True
    have "dec_string 999999999 = hf_infinity"
      by (simp add: hf_infinity_def dec_string.simps digit_char_def char_of_def bit_Suc_0_iff)
    then have "dl_parse D hf_infinity = Some 999999999" using parse_law(1) [OF laws, of 999999999] by simp
    then show ?thesis by (simp add: preview True hf_is_safe_def)
  next
    case False
    have ratio: "of_nat (m * bp * collat) / 10 ^ (s + 4) / (of_nat (m * owed) / 10 ^ s)
        = (of_nat (bp * collat) / of_nat (10000 * owed) :: rat)"
      using px(2) False by (simp add: field_simps power_add)
    have "1 * bp \<le> m * max 1 bp" using px(2) by (intro mult_le_mono) simp_all
    then have "bp * collat \<le> m * max 1 bp * collat" by (simp add: mult_le_mono1)
    then have small: "bp * collat < 2 ^ 96" using fits(1) by (rule le_less_trans)
    have "0 < 10000 * owed" "10000 * owed \<le> 10 ^ 28" using False fits(3) by simp_all
    note fit = fit_ratio_vs_one [OF laws this small]
    have "(of_nat (m * owed) / 10 ^ s :: rat) \<noteq> 0" using px(2) False by simp
    then show ?thesis
      unfolding preview ratio by (simp only: if_False rbind_Inr hf_is_safe_def parse_law(3) [OF laws fit(1)] ok_or_Some fit(2))
  qed
qed

end
