(* ===== verification/DecimalFixtures.thy ===== *)
theory DecimalFixtures
  imports Derived
begin

text \<open>
  A decimal library that keeps the laws of the real one, at which the properties that depend on the decimal
  library are instantiated: a 96-bit mantissa with up to 28 decimals, results rounded half to even at the
  largest scale that fits, texts printed without trailing zeros. Nothing here models code.
\<close>

fun fit_at :: "nat \<Rightarrow> rat \<Rightarrow> rat" where
  "fit_at 0 x = of_int (d_round_even x)"
| "fit_at (Suc s) x =
     (let m = d_round_even (x * 10 ^ Suc s)
      in if \<bar>m\<bar> < 2 ^ 96 then of_int m / 10 ^ Suc s else fit_at s x)"

fun fixed_digits :: "nat \<Rightarrow> nat \<Rightarrow> string" where
  "fixed_digits 0 n = []"
| "fixed_digits (Suc k) n = fixed_digits k (n div 10) @ [digit_char (n mod 10)]"

definition least_scale :: "rat \<Rightarrow> nat" where
  "least_scale x = (case find (\<lambda>s. of_int \<lfloor>x * 10 ^ s\<rfloor> = x * 10 ^ s) [0..<29] of Some s \<Rightarrow> s | None \<Rightarrow> 28)"

definition show_decimal :: "rat \<Rightarrow> string" where
  "show_decimal x =
     (let s = least_scale x; m = nat \<lfloor>\<bar>x\<bar> * 10 ^ s\<rfloor>
      in (if x < 0 then ''-'' else []) @ dec_string (m div 10 ^ s)
         @ (if s = 0 then [] else CHR ''.'' # fixed_digits s (m mod 10 ^ s)))"

definition is_dec_digit :: "char \<Rightarrow> bool" where
  "is_dec_digit c = (48 \<le> (of_char c :: nat) \<and> (of_char c :: nat) < 58)"

definition parse_decimal_text :: "string \<Rightarrow> rat option" where
  "parse_decimal_text text =
     (let neg = (take 1 text = ''-''); t = (if neg then drop 1 text else text);
          whole = takeWhile (\<lambda>c. c \<noteq> CHR ''.'') t; dec = drop (Suc (length whole)) t;
          m = dec_value (whole @ dec)
      in if whole \<noteq> [] \<and> list_all is_dec_digit (whole @ dec) \<and> length dec \<le> 28 \<and> m < 2 ^ 96
         then Some ((if neg then - 1 else 1) * (of_nat m / 10 ^ length dec)) else None)"

definition decimal96 :: decimal_lib where
  "decimal96 =
     \<lparr>dl_parse = parse_decimal_text, dl_show = show_decimal, dl_fit = fit_at 28,
      dl_i256 = (\<lambda>s. Some (of_nat (dec_value s))), dl_u256 = (\<lambda>s. Some (of_nat (dec_value s)))\<rparr>"

lemma fit_at_minus: "fit_at s (- x) = - fit_at s x"
  by (induction s) (simp_all add: round_even_minus Let_def)

lemma round_even_up:
  assumes "2 ^ 96 \<le> d_round_even (10 * y)"
  shows "7922816251426433759354395034 \<le> d_round_even y"
proof -
  have "(2 ^ 96 :: rat) \<le> of_int (d_round_even (10 * y))"
    using assms by (metis of_int_le_iff of_int_numeral of_int_power)
  then have "2 ^ 96 - 1 / 2 \<le> 10 * y" using d_round_even_near [of "10 * y"] by linarith
  moreover have "y - 1 / 2 \<le> of_int (d_round_even y)" using d_round_even_near [of y] by linarith
  ultimately have "(7922816251426433759354395033 :: rat) < of_int (d_round_even y)" by simp
  then have "7922816251426433759354395033 < d_round_even y"
    by (metis of_int_less_iff of_int_numeral)
  then show ?thesis by simp
qed

lemma scale_above:
  assumes big: "s = 28 \<or> 2 ^ 96 \<le> \<bar>d_round_even (x * 10 ^ Suc s)\<bar>"
    and r: "\<bar>m\<bar> < 2 ^ 96" "t \<le> 28" "of_int m / 10 ^ t \<le> x"
  shows "(of_int m :: rat) / 10 ^ t \<le> of_int (d_round_even (x * 10 ^ s)) / 10 ^ s"
proof (cases "t \<le> s")
  case True
  have scaled: "of_int m / 10 ^ t = of_int (m * 10 ^ (s - t)) / (10 :: rat) ^ s"
  proof -
    have "(10 :: rat) ^ s = 10 ^ t * 10 ^ (s - t)" using True by (simp flip: power_add)
    then show ?thesis by simp
  qed
  have "of_int (m * 10 ^ (s - t)) \<le> x * 10 ^ s"
    using r(3) unfolding scaled by (simp add: pos_divide_le_eq)
  then have "of_int (m * 10 ^ (s - t)) \<le> (of_int (d_round_even (x * 10 ^ s)) :: rat)"
    by (simp only: of_int_le_iff round_even_ge)
  then show ?thesis unfolding scaled by (intro divide_right_mono) simp_all
next
  case False
  define y where "y = x * 10 ^ s"
  from big r(2) False have far: "2 ^ 96 \<le> \<bar>d_round_even (10 * y)\<bar>"
    by (auto simp: y_def mult.assoc mult.left_commute)
  have m: "\<bar>of_int m\<bar> \<le> (2 ^ 96 - 1 :: rat)"
  proof -
    have "of_int \<bar>m\<bar> \<le> (of_int (2 ^ 96 - 1) :: rat)" unfolding of_int_le_iff using r(1) by linarith
    then show ?thesis by simp
  qed
  have p: "(10 :: rat) ^ Suc s \<le> 10 ^ t" using False by (intro power_increasing) simp_all
  have near: "\<bar>of_int m / 10 ^ t\<bar> \<le> (2 ^ 96 - 1) / (10 :: rat) ^ Suc s"
    unfolding abs_divide using m p by (intro frac_le) simp_all
  show ?thesis
  proof (cases "0 \<le> d_round_even (10 * y)")
    case True
    have "7922816251426433759354395034 \<le> d_round_even y" by (rule round_even_up) (use far True in simp)
    then have "(7922816251426433759354395034 :: rat) \<le> of_int (d_round_even y)"
      by (metis of_int_le_iff of_int_numeral)
    then have "7922816251426433759354395034 / 10 ^ s \<le> of_int (d_round_even y) / (10 :: rat) ^ s"
      by (intro divide_right_mono) simp_all
    moreover have "(2 ^ 96 - 1) / (10 :: rat) ^ Suc s \<le> 7922816251426433759354395034 / 10 ^ s"
      by (simp add: field_simps)
    ultimately show ?thesis using near unfolding y_def by linarith
  next
    case False
    with far have "d_round_even (10 * y) \<le> - (2 ^ 96)" by linarith
    then have "of_int (d_round_even (10 * y)) \<le> (- (2 ^ 96) :: rat)"
      by (metis of_int_le_iff of_int_minus of_int_numeral of_int_power)
    then have "10 * y \<le> - (2 ^ 96) + 1 / 2" using d_round_even_near [of "10 * y"] by linarith
    moreover have "10 * y = x * 10 ^ Suc s" by (simp add: y_def)
    moreover have "- ((2 ^ 96 - 1) / 10 ^ Suc s) \<le> x" using near r(3) by linarith
    then have "- (2 ^ 96 - 1) \<le> x * 10 ^ Suc s" by (simp add: field_simps)
    ultimately show ?thesis by linarith
  qed
qed

lemma fit_at_above:
  assumes "\<bar>m\<bar> < 2 ^ 96" "t \<le> 28" "of_int m / 10 ^ t \<le> x"
  shows "s = 28 \<or> 2 ^ 96 \<le> \<bar>d_round_even (x * 10 ^ Suc s)\<bar> \<Longrightarrow> of_int m / 10 ^ t \<le> fit_at s x"
proof (induction s)
  case 0
  with scale_above [OF 0 assms] show ?case by simp
next
  case (Suc s)
  with scale_above [OF Suc.prems assms] show ?case by (auto simp: Let_def not_less simp del: power_Suc)
qed

lemma fit_at_value:
  assumes "\<bar>x\<bar> \<le> 2 ^ 96 - 1"
  shows "s \<le> 28 \<Longrightarrow> decimal_value (fit_at s x)"
proof (induction s)
  case 0
  have "\<bar>d_round_even x\<bar> \<le> 2 ^ 96 - 1"
  proof -
    have "of_int (- (2 ^ 96 - 1)) \<le> x" "of_int (- (2 ^ 96 - 1)) \<le> - x" using assms by auto
    from this [THEN round_even_ge] show ?thesis by (simp add: round_even_minus)
  qed
  then show ?case
    unfolding decimal_value_def by (intro exI [of _ "d_round_even x"] exI [of _ 0]) simp
next
  case (Suc s)
  then show ?case
    by (auto simp: Let_def decimal_value_def simp del: power_Suc intro!: exI [of _ "Suc s"])
qed

lemma fit_faithful:
  assumes "decimal_value r"
  shows "r \<le> x \<Longrightarrow> r \<le> fit_at 28 x" and "x \<le> r \<Longrightarrow> fit_at 28 x \<le> r"
proof -
  obtain m t where m: "\<bar>m\<bar> < 2 ^ 96" "t \<le> 28" and r: "r = of_int m / 10 ^ t"
    using assms by (auto simp: decimal_value_def)
  show "r \<le> fit_at 28 x" if "r \<le> x" using fit_at_above [OF m, of x 28] that by (simp add: r)
  show "fit_at 28 x \<le> r" if "x \<le> r"
  proof -
    have "of_int (- m) / 10 ^ t \<le> fit_at 28 (- x)"
      by (rule fit_at_above) (use m that in \<open>simp_all add: r\<close>)
    then show ?thesis by (simp add: fit_at_minus r)
  qed
qed

section \<open>Texts\<close>

lemma is_dec_digit_char: "d < 10 \<Longrightarrow> is_dec_digit (digit_char d)"
  by (simp add: is_dec_digit_def digit_char_def)

lemma dec_string_digits: "list_all is_dec_digit (dec_string n) \<and> dec_string n \<noteq> []"
  by (induction n rule: dec_string.induct)
    (subst dec_string.simps, auto simp: dec_string.simps is_dec_digit_char)

lemma fixed_digits_facts:
  "length (fixed_digits k n) = k" "list_all is_dec_digit (fixed_digits k n)"
  by (induction k arbitrary: n) (simp_all add: is_dec_digit_char)

lemma dec_value_append: "dec_value (a @ b) = dec_value a * 10 ^ length b + dec_value b"
proof (induction b rule: rev_induct)
  case (snoc c b)
  then show ?case by (simp add: dec_value_def algebra_simps flip: append_assoc)
qed (simp add: dec_value_def)

lemma dec_value_fixed: "dec_value (fixed_digits k n) = n mod 10 ^ k"
proof (induction k arbitrary: n)
  case (Suc k)
  have "n mod 10 ^ Suc k = 10 * (n div 10 mod 10 ^ k) + n mod 10"
    by (simp add: mod_mult2_eq)
  then show ?case
    by (simp add: Suc dec_value_append) (simp add: dec_value_def of_digit_char)
qed (simp add: dec_value_def)

lemma digit_not_point: "is_dec_digit c \<Longrightarrow> c \<noteq> CHR ''.'' \<and> c \<noteq> CHR ''-''"
  by (auto simp: is_dec_digit_def)

lemma parse_point_text:
  assumes "whole \<noteq> []" "list_all is_dec_digit whole" "list_all is_dec_digit dec"
    and "dec_value (whole @ dec) = m" "length dec = s"
  shows "parse_decimal_text ((if neg then ''-'' else []) @ whole @ (if s = 0 then [] else CHR ''.'' # dec))
    = (if s \<le> 28 \<and> m < 2 ^ 96 then Some ((if neg then - 1 else 1) * (of_nat m / 10 ^ s)) else None)"
proof -
  let ?t = "whole @ (if s = 0 then [] else CHR ''.'' # dec)"
  have "takeWhile (\<lambda>c. c \<noteq> CHR ''.'') ?t = whole"
    using assms(2) by (auto simp: takeWhile_append list_all_iff dest: digit_not_point)
  moreover have "take 1 ?t \<noteq> ''-''"
    using assms(1,2) by (cases whole) (auto dest: digit_not_point)
  moreover have "drop (Suc (length whole)) ?t = dec" using assms(5) by (cases dec) auto
  ultimately show ?thesis
    using assms by (cases neg) (simp_all add: parse_decimal_text_def Let_def)
qed

lemma parse_dec_string: "parse_decimal_text (dec_string n) = (if n < 2 ^ 96 then Some (of_nat n) else None)"
  using parse_point_text [of "dec_string n" "[]" n 0 False] dec_string_digits [of n]
  by (simp add: dec_value_dec_string)

lemma find_least:
  assumes "P k" "k < n"
  shows "\<exists>s. find P [0..<n] = Some s \<and> P s \<and> s \<le> k"
proof -
  have "find P [0..<n] \<noteq> None" using assms by (auto simp: find_None_iff)
  then obtain s where s: "find P [0..<n] = Some s" by blast
  then obtain i where "i < n" "P ([0..<n] ! i)" "s = [0..<n] ! i" "\<forall>j<i. \<not> P ([0..<n] ! j)"
    by (auto simp: find_Some_iff)
  then have "P s" "\<forall>j < s. \<not> P j" by auto
  with s assms(1) show ?thesis by (metis not_le_imp_less)
qed

lemma show_decimal_parses:
  assumes "decimal_value x"
  shows "parse_decimal_text (show_decimal x) = Some x"
proof -
  obtain m t where m: "\<bar>m\<bar> < 2 ^ 96" "t \<le> 28" and x: "x = of_int m / 10 ^ t"
    using assms by (auto simp: decimal_value_def)
  have "of_int \<lfloor>x * 10 ^ t\<rfloor> = x * 10 ^ t" by (simp add: x)
  from find_least [of "\<lambda>s. of_int \<lfloor>x * 10 ^ s\<rfloor> = x * 10 ^ s", OF this, of 29] m(2) obtain s where
    s: "least_scale x = s" "of_int \<lfloor>x * 10 ^ s\<rfloor> = x * 10 ^ s" "s \<le> t"
    by (auto simp: least_scale_def)
  define n where "n = nat \<lfloor>\<bar>x\<bar> * 10 ^ s\<rfloor>"
  have "\<bar>x\<bar> * 10 ^ s = of_int \<bar>\<lfloor>x * 10 ^ s\<rfloor>\<bar>"
    using s(2) by (metis abs_mult abs_numeral of_int_abs power_abs)
  then have n: "of_nat n = \<bar>x\<bar> * 10 ^ s" unfolding n_def by simp
  have "(of_nat (n * 10 ^ (t - s)) :: rat) = of_int \<bar>m\<bar>"
  proof -
    have "(10 :: rat) ^ t = 10 ^ s * 10 ^ (t - s)" using s(3) by (simp flip: power_add)
    then show ?thesis by (simp add: n x)
  qed
  then have "int (n * 10 ^ (t - s)) = \<bar>m\<bar>" by (metis of_int_eq_iff of_int_of_nat_eq)
  moreover have "int n \<le> int (n * 10 ^ (t - s))" by (simp only: of_nat_le_iff) simp
  ultimately have "int n < 2 ^ 96" using m(1) by linarith
  then have small: "n < 2 ^ 96" by simp
  have text_value: "dec_value (dec_string (n div 10 ^ s) @ fixed_digits s (n mod 10 ^ s)) = n"
    unfolding dec_value_append dec_value_dec_string dec_value_fixed fixed_digits_facts mod_mod_trivial
    by (rule div_mult_mod_eq)
  have "show_decimal x = (if x < 0 then ''-'' else []) @ dec_string (n div 10 ^ s)
      @ (if s = 0 then [] else CHR ''.'' # fixed_digits s (n mod 10 ^ s))"
    unfolding show_decimal_def s(1) Let_def n_def ..
  also have "parse_decimal_text \<dots> = Some ((if x < 0 then - 1 else 1) * (of_nat n / 10 ^ s))"
    using dec_string_digits [of "n div 10 ^ s"] s(3) m(2) small
    by (subst parse_point_text [OF _ _ _ text_value]) (simp_all add: fixed_digits_facts)
  also have "(if x < 0 then - 1 else 1) * (of_nat n / 10 ^ s) = x"
    by (simp add: n abs_if)
  finally show ?thesis .
qed

lemma parsed_value:
  assumes "parse_decimal_text text = Some x"
  shows "decimal_value x"
proof -
  obtain m s where m: "m < 2 ^ 96" "s \<le> 28" and x: "x = of_nat m / 10 ^ s \<or> x = - (of_nat m / 10 ^ s)"
    using assms by (auto simp: parse_decimal_text_def Let_def split: if_splits)
  have "x = of_int (int m) / 10 ^ s \<or> x = of_int (- int m) / 10 ^ s" using x by simp
  moreover have "\<bar>int m\<bar> < 2 ^ 96" "\<bar>- int m\<bar> < 2 ^ 96" using m(1) by simp_all
  ultimately show ?thesis unfolding decimal_value_def using m(2) by blast
qed

lemma decimal96_ok: "decimal_laws decimal96"
  using fit_at_value [of _ 28]
  by (simp add: decimal_laws_def decimal96_def fit_faithful parse_dec_string show_decimal_parses)
    (blast intro: parsed_value)

text \<open>Whole numbers are computed with, printed and read exactly.\<close>

lemma decimal96_numeral:
  "(numeral k :: nat) < 2 ^ 96 \<Longrightarrow> dl_fit decimal96 (numeral k) = numeral k"
  "dl_fit decimal96 0 = 0" "dl_fit decimal96 1 = 1"
  using fit_nat [OF decimal96_ok, of "numeral k"] fit_nat [OF decimal96_ok, of 0] fit_nat [OF decimal96_ok, of 1]
  by simp_all

lemma decimal96_whole: "dl_show decimal96 (of_nat n) = dec_string n"
proof -
  have "least_scale (of_nat n) = 0"
    by (simp add: least_scale_def upt_conv_Cons)
  then show ?thesis by (simp add: decimal96_def show_decimal_def)
qed

lemma decimal96_reads:
  "n < 2 ^ 96 \<Longrightarrow> dl_parse decimal96 (dec_string n) = Some (of_nat n)"
  "dl_i256 decimal96 (dec_string n) = Some (of_nat n)" "dl_u256 decimal96 (dec_string n) = Some (of_nat n)"
  by (simp_all add: decimal96_def parse_dec_string dec_value_dec_string)

lemma sample_texts: "dec_string 1 = ''1''" "dec_string 3000 = ''3000''"
  by (simp_all add: dec_string.simps digit_char_def char_of_def bit_Suc_0_iff)

end
