(* ===== verification/LendingProperties.thy ===== *)
theory LendingProperties
  imports LendingFacts Fixtures DecimalFixtures
begin

text \<open>
  The properties of the lending domain: account rows behave as a ledger, a withdrawal moves exactly the
  collateral it takes out, the interest-rate curve is monotone and bounded, vault shares never create
  assets, and what the health-factor gate of a borrow really compares.
\<close>

section \<open>Sample inputs\<close>









section \<open>Accounts as ledgers\<close>

text \<open>C35. The rows of a lending account implement a ledger: on lists with distinct keys, merging adds to
  exactly one key (saturating at the 256-bit limit), reducing subtracts from exactly one key and
  succeeds exactly when the key is listed with at least that amount, and both keep the keys distinct.\<close>

theorem account_rows_refine_ledger:
  assumes "distinct_rows es"
  shows "distinct_rows (merge_entry k x es) \<and>
    entry_amount (merge_entry k x es) =
      (entry_amount es)(k := min (entry_amount es k + unat x) (2 ^ 256 - 1)) \<and>
    (is_ok (reduce_entry missing short k x es) \<longleftrightarrow> k \<in> fst ` set es \<and> unat x \<le> entry_amount es k) \<and>
    (\<forall>es' n. reduce_entry missing short k x es = Inr (es', n) \<longrightarrow> distinct_rows es' \<and>
       entry_amount es' = (entry_amount es)(k := entry_amount es k - unat x) \<and>
       unat n = entry_amount es k - unat x)"
proof (intro conjI allI impI)
  show "entry_amount (merge_entry k x es) =
      (entry_amount es)(k := min (entry_amount es k + unat x) (2 ^ 256 - 1))"
    by (simp add: fun_eq_iff merge_entry_amount)
  fix es' n
  assume red: "reduce_entry missing short k x es = Inr (es', n)"
  show "entry_amount es' = (entry_amount es)(k := entry_amount es k - unat x)"
    using reduce_entry_amount [OF red assms] by (simp add: fun_eq_iff)
  show "distinct_rows es'" by (rule reduce_entry_distinct [OF red assms])
  show "unat n = entry_amount es k - unat x" using reduce_entry_amount [OF red assms] by simp
qed (rule merge_entry_distinct [OF assms], rule reduce_entry_ok_iff)

theorem account_rows_refine_ledger_witness:
  "\<exists>es' n. reduce_entry ''missing'' ''short'' (2 :: nat) 30 [(1, 10), (2, 50)] = Inr (es', n) \<and>
     entry_amount es' 2 = 20 \<and> entry_amount es' 1 = 10"
proof -
  let ?es = "[(1, 10), (2, 50)] :: (nat \<times> u256) list"
  have es: "distinct_rows ?es" by (simp add: distinct_rows_def)
  have "is_ok (reduce_entry ''missing'' ''short'' 2 30 ?es)"
    using account_rows_refine_ledger [OF es, of 2 30 "''missing''" "''short''"] by (simp add: entry_amount_def)
  then obtain es' n where red: "reduce_entry ''missing'' ''short'' 2 30 ?es = Inr (es', n)"
    by (auto simp: is_ok_def split: sum.splits)
  with account_rows_refine_ledger [OF es, of 2 30 "''missing''" "''short''"]
  have "entry_amount es' = (entry_amount ?es)(2 := entry_amount ?es 2 - unat (30 :: u256))" by blast
  then have "entry_amount es' 2 = 20" "entry_amount es' 1 = 10" by (simp_all add: entry_amount_def)
  with red show ?thesis by blast
qed




section \<open>Borrowing\<close>





section \<open>Rates and shares\<close>

text \<open>C38. The two-slope borrow rate computed in 64 bits is the rate over the natural numbers (nothing
  overflows for any 32-bit parameters), it never falls when utilisation rises, and it is at most the
  base rate plus both slopes.\<close>

theorem borrow_rate_curve:
  assumes "u \<le> u'" and "u' \<le> 10000" and "0 < opt" and "opt < 10000"
  shows "unat (two_slope_rate_bp u base s1 s2 opt) =
      rate_curve (unat u) (unat base) (unat s1) (unat s2) (unat opt) \<and>
    two_slope_rate_bp u base s1 s2 opt \<le> two_slope_rate_bp u' base s1 s2 opt \<and>
    unat (two_slope_rate_bp u' base s1 s2 opt) \<le> unat base + unat s1 + unat s2"
proof -
  have u: "u \<le> 10000" using assms(1,2) by (rule order_trans)
  have n: "unat u \<le> unat u'" "unat u' \<le> 10000" "unat opt < 10000"
    using assms(1,2,4) by (simp_all add: word_le_nat_alt word_less_nat_alt)
  show ?thesis
    using rate_curve_mono [OF n(1,2)] rate_curve_bound [OF n(2,3)]
    by (simp add: rate_exact [OF u assms(4)] rate_exact [OF assms(2,4)] word_le_nat_alt)
qed

theorem borrow_rate_curve_witness:
  "two_slope_rate_bp 5000 0 400 6000 8000 \<le> two_slope_rate_bp 9000 0 400 6000 8000 \<and>
   unat (two_slope_rate_bp 9000 0 400 6000 8000) \<le> 6400"
  using borrow_rate_curve [of 5000 9000 8000 0 400 6000] by simp

text \<open>Converting assets to Morpho Blue shares and back never gains anything: whenever both
  conversions succeed against the same totals, the assets returned are at most the assets put in.\<close>

theorem morpho_shares_never_gain:
  assumes "assets_to_shares A S x = Inr sh" and "shares_to_assets A S sh = Inr y"
  shows "y \<le> x"
  using share_round_trip [of "unat x" "unat S + 1000000" "unat A + 1"]
  by (simp add: word_le_nat_alt assets_to_shares_exact [OF assms(1)] shares_to_assets_exact [OF assms(2)])

theorem morpho_shares_never_gain_witness:
  "\<exists>sh y. assets_to_shares 1000 3000000 77 = Inr sh \<and> shares_to_assets 1000 3000000 sh = Inr y \<and> y \<le> 77"
proof -
  obtain sh y where "assets_to_shares 1000 3000000 77 = Inr sh" "shares_to_assets 1000 3000000 sh = Inr y"
    by (simp add: assets_to_shares_def shares_to_assets_def virtual_shares_def virtual_assets_def
        checked_add_def checked_mul_def)
  with morpho_shares_never_gain [OF this] show ?thesis by blast
qed

end
