(* ===== verification/PerpActions.thy ===== *)
theory PerpActions
  imports Deltas
begin

text \<open>
  \<^verbatim>\<open>asset-model/action/src/perp\<close>: venues, sizes and order options of perpetual futures, the live inputs
  an action carries, and the perpetual actions.
\<close>

section \<open>Venues and sizes\<close>

datatype perp_venue =
    Hyperliquid chain_id
  | GmxV2 chain_id
  | DyDxV4 chain_id
  | Vertex chain_id
  | Aevo chain_id
  | Drift chain_id
  | JupiterPerps chain_id
  | Synthetix chain_id
  | GenericPerp chain_id address

fun perp_venue_name :: "perp_venue \<Rightarrow> string" where
  "perp_venue_name (Hyperliquid _) = ''hyperliquid''"
| "perp_venue_name (GmxV2 _) = ''gmx_v2''"
| "perp_venue_name (DyDxV4 _) = ''dy_dx_v4''"
| "perp_venue_name (Vertex _) = ''vertex''"
| "perp_venue_name (Aevo _) = ''aevo''"
| "perp_venue_name (Drift _) = ''drift''"
| "perp_venue_name (JupiterPerps _) = ''jupiter_perps''"
| "perp_venue_name (Synthetix _) = ''synthetix''"
| "perp_venue_name (GenericPerp _ _) = ''generic''"

datatype size_spec =
    BaseAmount u256
  | QuoteAmount u256
  | LeverageImplied u256 decimal
  | BaseDecimal decimal

datatype time_in_force = Gtc | Ioc | Fok | PostOnly | Gtd time

datatype stop_order_kind = StopMarketOrder | StopLimitOrder | TakeProfitOrder | TakeProfitLimitOrder

record perp_account_state =
  total_collateral_usd :: u256
  used_margin_usd :: u256
  free_margin_usd :: u256
  open_positions :: "(market_ref \<times> u256) list"

record perp_position_live =
  pl_size_base :: u256
  pl_notional_usd :: u256
  pl_entry_price :: price
  pl_mark_price :: price
  pl_liq_price :: "price option"
  pl_unrealized_pnl :: i256

section \<open>Actions\<close>

record open_perp_live_inputs =
  op_mark_price :: "price live_field"
  oracle_price :: "price live_field"
  funding_rate :: "decimal live_field"
  available_oi :: "u256 live_field"
  op_max_leverage :: "decimal live_field"
  initial_margin_bp :: "u32 live_field"
  maintenance_bp :: "u32 live_field"
  fee_taker_bp :: "u32 live_field"
  fee_maker_bp :: "u32 live_field"
  op_user_account_state :: "perp_account_state live_field"

record open_perp_action =
  op_venue :: perp_venue
  op_market :: market_ref
  op_side :: perp_side
  op_size :: size_spec
  op_leverage :: decimal
  op_collateral :: "token_ref \<times> u256"
  op_margin_mode :: margin_mode
  op_slippage_bp :: u32
  op_reduce_only :: bool
  op_live_inputs :: open_perp_live_inputs

record close_perp_live_inputs =
  cp_mark_price :: "price live_field"
  unrealized_pnl_now :: "i256 live_field"
  cp_funding_accrued :: "i256 live_field"
  cp_fee_bp :: "u32 live_field"

record close_perp_action =
  cp_venue :: perp_venue
  cp_position_id :: position_id
  cp_size :: "size_spec option"
  cp_slippage_bp :: u32
  cp_live_inputs :: close_perp_live_inputs

record increase_perp_action =
  ip_venue :: perp_venue
  ip_position_id :: position_id
  ip_size :: size_spec
  add_collateral :: "(token_ref \<times> u256) option"
  ip_slippage_bp :: u32
  ip_live_inputs :: open_perp_live_inputs

record decrease_perp_action =
  dp_venue :: perp_venue
  dp_position_id :: position_id
  dp_size :: size_spec
  dp_slippage_bp :: u32
  dp_live_inputs :: close_perp_live_inputs

record adjust_margin_live_inputs =
  position_state :: "perp_position_live live_field"
  free_margin_after :: "u256 live_field"

record adjust_margin_action =
  am_venue :: perp_venue
  am_position_id :: "position_id option"
  am_market :: "market_ref option"
  am_side :: "perp_side option"
  am_delta :: i256
  am_live_inputs :: "adjust_margin_live_inputs option"

record change_leverage_live_inputs =
  ch_max_leverage :: "decimal live_field"
  ch_affected_positions :: "position_id list live_field"
  new_liq_prices :: "(position_id \<times> price option) list live_field"

record change_leverage_action =
  ch_venue :: perp_venue
  ch_market :: market_ref
  new_leverage :: decimal
  ch_live_inputs :: "change_leverage_live_inputs option"

record change_margin_mode_live_inputs =
  mm_affected_positions :: "position_id list live_field"
  margin_reallocation :: "(position_id \<times> u256) list live_field"

record change_margin_mode_action =
  mm_venue :: perp_venue
  mm_market :: market_ref
  new_mode :: margin_mode
  mm_live_inputs :: change_margin_mode_live_inputs

datatype order_type =
    LimitType price time_in_force
  | StopType price stop_order_kind "price option"
  | TwapType u32 bool

record place_order_live_inputs =
  pl_order_mark_price :: "price live_field"
  best_bid_ask :: "(price \<times> price) live_field"
  open_orders_count :: "u32 live_field"
  pl_user_account_state :: "perp_account_state live_field"

record place_order_action =
  pl_venue :: perp_venue
  pl_market :: market_ref
  pl_side :: perp_side
  pl_size :: size_spec
  pl_reduce_only :: bool
  pl_order_type :: order_type
  pl_live_inputs :: "place_order_live_inputs option"

record cancel_order_action =
  co_venue :: perp_venue
  order_id :: string

record claim_funding_live_inputs =
  cl_claimable :: "(token_ref \<times> u256) list live_field"

record claim_funding_action =
  cl_venue :: perp_venue
  cl_market :: "market_ref option"
  cl_live_inputs :: claim_funding_live_inputs

datatype perp_action =
    PerpOpen open_perp_action
  | PerpClose close_perp_action
  | PerpIncrease increase_perp_action
  | PerpDecrease decrease_perp_action
  | AdjustMargin adjust_margin_action
  | ChangeLeverage change_leverage_action
  | ChangeMarginMode change_margin_mode_action
  | PlaceOrder place_order_action
  | CancelOrder cancel_order_action
  | ClaimFunding claim_funding_action

fun perp_action_tag :: "perp_action \<Rightarrow> string" where
  "perp_action_tag (PerpOpen _) = ''open_position''"
| "perp_action_tag (PerpClose _) = ''close_position''"
| "perp_action_tag (PerpIncrease _) = ''increase_position''"
| "perp_action_tag (PerpDecrease _) = ''decrease_position''"
| "perp_action_tag (AdjustMargin _) = ''adjust_margin''"
| "perp_action_tag (ChangeLeverage _) = ''change_leverage''"
| "perp_action_tag (ChangeMarginMode _) = ''change_margin_mode''"
| "perp_action_tag (PlaceOrder _) = ''place_order''"
| "perp_action_tag (CancelOrder _) = ''cancel_order''"
| "perp_action_tag (ClaimFunding _) = ''claim_funding''"

fun perp_venue_of :: "perp_action \<Rightarrow> string option" where
  "perp_venue_of (PerpOpen a) = Some (perp_venue_name (op_venue a))"
| "perp_venue_of (PerpClose a) = Some (perp_venue_name (cp_venue a))"
| "perp_venue_of (PerpIncrease a) = Some (perp_venue_name (ip_venue a))"
| "perp_venue_of (PerpDecrease a) = Some (perp_venue_name (dp_venue a))"
| "perp_venue_of (AdjustMargin a) = Some (perp_venue_name (am_venue a))"
| "perp_venue_of (ChangeLeverage a) = Some (perp_venue_name (ch_venue a))"
| "perp_venue_of (ChangeMarginMode a) = Some (perp_venue_name (mm_venue a))"
| "perp_venue_of (PlaceOrder a) = Some (perp_venue_name (pl_venue a))"
| "perp_venue_of (CancelOrder a) = Some (perp_venue_name (co_venue a))"
| "perp_venue_of (ClaimFunding a) = Some (perp_venue_name (cl_venue a))"

end
