(* ===== verification/PerpMath.thy ===== *)
theory PerpMath
  imports PerpActions Decimals Wallets
begin

text \<open>
  \<^verbatim>\<open>asset-model/transition/src/effect/perp/math.rs\<close>, \<^verbatim>\<open>common.rs\<close> and the per-venue files: size resolution,
  margin, liquidation price, profit and funding of perpetual positions, venue tags and derived
  identifiers. The wallet and context parameters of the venue functions, which they ignore, are left
  out. Error texts keep their fixed part, with a hyphen for the dash.
\<close>

section \<open>Decimals\<close>

definition perp_parse_decimal :: "decimal_lib \<Rightarrow> decimal \<Rightarrow> rat reducer_result" where
  "perp_parse_decimal D d = ok_or (dl_parse D d) (Invariant ''invalid Decimal string'')"

definition perp_u256_to_decimal :: "decimal_lib \<Rightarrow> u256 \<Rightarrow> rat reducer_result" where
  "perp_u256_to_decimal D amount =
     ok_or (dl_parse D (dec_string (unat amount))) (Invariant ''U256 exceeds rust_decimal range'')"

definition perp_decimal_to_state :: "decimal_lib \<Rightarrow> rat \<Rightarrow> decimal" where
  "perp_decimal_to_state D d = dl_show D d"

text \<open>The text of a truncated decimal is that of an integer.\<close>

definition trunc_text :: "decimal_lib \<Rightarrow> rat \<Rightarrow> string" where
  "trunc_text D d = dl_show D (of_int (d_trunc d))"

definition decimal_trunc_to_signed :: "decimal_lib \<Rightarrow> rat \<Rightarrow> i256 reducer_result" where
  "decimal_trunc_to_signed D d =
     ok_or (dl_i256 D (trunc_text D d)) (Invariant ''decimal overflows SignedI256'')"

definition decimal_trunc_to_u256 :: "decimal_lib \<Rightarrow> rat \<Rightarrow> string \<Rightarrow> u256 reducer_result" where
  "decimal_trunc_to_u256 D d label =
     (if d < 0 then fail (label @ '': expected non-negative'')
      else ok_or (dl_u256 D (trunc_text D d)) (Invariant (label @ '': U256 parse failed'')))"

section \<open>Signed 256-bit integers\<close>

definition i256_checked_add :: "i256 \<Rightarrow> i256 \<Rightarrow> i256 option" where
  "i256_checked_add a b =
     (if - (2 ^ 255) \<le> sint a + sint b \<and> sint a + sint b < 2 ^ 255 then Some (a + b) else None)"

definition i256_checked_sub :: "i256 \<Rightarrow> i256 \<Rightarrow> i256 option" where
  "i256_checked_sub a b =
     (if - (2 ^ 255) \<le> sint a - sint b \<and> sint a - sint b < 2 ^ 255 then Some (a - b) else None)"

definition unsigned_abs :: "i256 \<Rightarrow> u256" where
  "unsigned_abs a = word_of_int \<bar>sint a\<bar>"

definition signed_text :: "i256 \<Rightarrow> string" where
  "signed_text a = (if sint a < 0 then ''-'' else []) @ dec_string (nat \<bar>sint a\<bar>)"

section \<open>Sizes, margin and prices\<close>

fun resolve_size_base :: "decimal_lib \<Rightarrow> size_spec \<Rightarrow> price \<Rightarrow> u256 reducer_result" where
  "resolve_size_base D (BaseAmount amount) mark = Inr amount"
| "resolve_size_base D (QuoteAmount amount_usd) mark =
     rbind (perp_parse_decimal D mark) (\<lambda>mark_d.
       if mark_d = 0 then fail ''resolve_size_base: mark price is zero''
       else
         rbind (perp_u256_to_decimal D amount_usd) (\<lambda>usd.
           decimal_trunc_to_u256 D (d_div D usd mark_d) ''size_base from QuoteAmount''))"
| "resolve_size_base D (LeverageImplied coll_amount lev_text) mark =
     rbind (perp_parse_decimal D mark) (\<lambda>mark_d.
       if mark_d = 0 then fail ''resolve_size_base: mark price is zero''
       else
         rbind (perp_u256_to_decimal D coll_amount) (\<lambda>coll.
         rbind (perp_parse_decimal D lev_text) (\<lambda>lev.
           decimal_trunc_to_u256 D (d_div D (d_mul D coll lev) mark_d) ''size_base from LeverageImplied'')))"
| "resolve_size_base D (BaseDecimal _) mark =
     fail ''resolve_size_base: BaseDecimal size is off-chain-only (no on-chain reducer support)''"

definition notional_of :: "decimal_lib \<Rightarrow> u256 \<Rightarrow> price \<Rightarrow> rat reducer_result" where
  "notional_of D base mark =
     rbind (perp_parse_decimal D mark) (\<lambda>mark_d.
     rbind (perp_u256_to_decimal D base) (\<lambda>sz. Inr (d_mul D sz mark_d)))"

definition required_initial_margin_common ::
  "decimal_lib \<Rightarrow> string \<Rightarrow> open_perp_action \<Rightarrow> open_perp_live_inputs \<Rightarrow> u256 reducer_result" where
  "required_initial_margin_common D venue_label a live =
     rbind (perp_parse_decimal D (lf_value (op_mark_price live))) (\<lambda>mark.
     if mark = 0 then fail (venue_label @ '': mark price is zero'')
     else
     rbind (perp_parse_decimal D (op_leverage a)) (\<lambda>lev.
     if lev = 0 then fail (venue_label @ '': leverage is zero'')
     else
     rbind (perp_parse_decimal D (lf_value (op_max_leverage live))) (\<lambda>max_lev.
     if max_lev \<noteq> 0 \<and> lev > max_lev then fail (venue_label @ '': leverage exceeds venue max'')
     else
     rbind (resolve_size_base D (op_size a) (lf_value (op_mark_price live))) (\<lambda>size_base.
     rbind (perp_u256_to_decimal D size_base) (\<lambda>size.
       let notional = d_mul D size mark;
           fee_taker = of_nat (unat (lf_value (fee_taker_bp live)));
           margin = d_add D (d_div D notional lev) (d_div D (d_mul D fee_taker notional) 10000)
       in decimal_trunc_to_u256 D margin (venue_label @ ''::required_initial_margin''))))))"

definition liquidation_price_simple ::
  "decimal_lib \<Rightarrow> string \<Rightarrow> open_perp_action \<Rightarrow> open_perp_live_inputs \<Rightarrow> price option reducer_result" where
  "liquidation_price_simple D venue_label a live =
     rbind (resolve_size_base D (op_size a) (lf_value (op_mark_price live))) (\<lambda>size_base.
     if size_base = 0 then Inr None
     else
     rbind (perp_parse_decimal D (lf_value (op_mark_price live))) (\<lambda>mark.
     rbind (perp_u256_to_decimal D size_base) (\<lambda>size.
       let notional = d_mul D size mark;
           maintenance = d_div D (d_mul D notional (of_nat (unat (lf_value (maintenance_bp live))))) 10000
       in
       rbind (perp_u256_to_decimal D (free_margin_usd (lf_value (op_user_account_state live)))) (\<lambda>free_margin.
       if size = 0 then fail (venue_label @ '': size_base resolved to zero (post-quote-check)'')
       else
         let buffer = d_div D (d_sub D free_margin maintenance) size;
             liq = (case op_side a of Long \<Rightarrow> d_sub D mark buffer | Short \<Rightarrow> d_add D mark buffer);
             liq = (if liq < 0 then 0 else liq)
         in Inr (Some (perp_decimal_to_state D liq))))))"

definition liquidation_price_deferred :: "string \<Rightarrow> perp_venue \<Rightarrow> price option reducer_result" where
  "liquidation_price_deferred venue_label venue =
     Inl (UnsupportedProtocol ''open_perp.liquidation_price''
       (venue_label @ '' - deferred (requires venue subgraph state)''))"

definition unrealized_pnl_common ::
  "decimal_lib \<Rightarrow> u256 \<Rightarrow> price \<Rightarrow> price \<Rightarrow> bool \<Rightarrow> i256 reducer_result" where
  "unrealized_pnl_common D base entry mark is_long =
     rbind (perp_parse_decimal D entry) (\<lambda>entry_d.
     rbind (perp_parse_decimal D mark) (\<lambda>mark_d.
     rbind (perp_u256_to_decimal D base) (\<lambda>size.
       let diff = (if is_long then d_sub D mark_d entry_d else d_sub D entry_d mark_d)
       in decimal_trunc_to_signed D (d_mul D size diff))))"

definition funding_accrued_common ::
  "decimal_lib \<Rightarrow> u256 \<Rightarrow> decimal \<Rightarrow> u32 \<Rightarrow> i256 reducer_result" where
  "funding_accrued_common D base rate_text hours_elapsed =
     rbind (perp_parse_decimal D rate_text) (\<lambda>rate.
     rbind (perp_u256_to_decimal D base) (\<lambda>size.
       decimal_trunc_to_signed D
         (d_div D (d_mul D (d_mul D size rate) (of_nat (unat hours_elapsed))) 24)))"

section \<open>Venues\<close>

definition hyperliquid_required_initial_margin ::
  "decimal_lib \<Rightarrow> open_perp_action \<Rightarrow> open_perp_live_inputs \<Rightarrow> u256 reducer_result" where
  "hyperliquid_required_initial_margin D a live = required_initial_margin_common D ''hyperliquid'' a live"

definition hyperliquid_liquidation_price ::
  "decimal_lib \<Rightarrow> open_perp_action \<Rightarrow> open_perp_live_inputs \<Rightarrow> price option reducer_result" where
  "hyperliquid_liquidation_price D a live = liquidation_price_simple D ''hyperliquid'' a live"

definition hyperliquid_unrealized_pnl :: "decimal_lib \<Rightarrow> u256 \<Rightarrow> price \<Rightarrow> price \<Rightarrow> bool \<Rightarrow> i256 reducer_result" where
  "hyperliquid_unrealized_pnl D base entry mark is_long = unrealized_pnl_common D base entry mark is_long"

definition hyperliquid_funding_accrued :: "decimal_lib \<Rightarrow> u256 \<Rightarrow> decimal \<Rightarrow> u32 \<Rightarrow> i256 reducer_result" where
  "hyperliquid_funding_accrued D base rate hours = funding_accrued_common D base rate hours"

definition aevo_required_initial_margin ::
  "decimal_lib \<Rightarrow> open_perp_action \<Rightarrow> open_perp_live_inputs \<Rightarrow> u256 reducer_result" where
  "aevo_required_initial_margin D a live = required_initial_margin_common D ''aevo'' a live"

definition aevo_liquidation_price ::
  "decimal_lib \<Rightarrow> open_perp_action \<Rightarrow> open_perp_live_inputs \<Rightarrow> price option reducer_result" where
  "aevo_liquidation_price D a live = liquidation_price_simple D ''aevo'' a live"

definition aevo_unrealized_pnl :: "decimal_lib \<Rightarrow> u256 \<Rightarrow> price \<Rightarrow> price \<Rightarrow> bool \<Rightarrow> i256 reducer_result" where
  "aevo_unrealized_pnl D base entry mark is_long = unrealized_pnl_common D base entry mark is_long"

definition aevo_funding_accrued :: "decimal_lib \<Rightarrow> u256 \<Rightarrow> decimal \<Rightarrow> u32 \<Rightarrow> i256 reducer_result" where
  "aevo_funding_accrued D base rate hours = funding_accrued_common D base rate hours"

definition dydx_v4_required_initial_margin ::
  "decimal_lib \<Rightarrow> open_perp_action \<Rightarrow> open_perp_live_inputs \<Rightarrow> u256 reducer_result" where
  "dydx_v4_required_initial_margin D a live = required_initial_margin_common D ''dydx_v4'' a live"

definition dydx_v4_liquidation_price ::
  "decimal_lib \<Rightarrow> open_perp_action \<Rightarrow> open_perp_live_inputs \<Rightarrow> price option reducer_result" where
  "dydx_v4_liquidation_price D a live = liquidation_price_simple D ''dydx_v4'' a live"

definition dydx_v4_unrealized_pnl :: "decimal_lib \<Rightarrow> u256 \<Rightarrow> price \<Rightarrow> price \<Rightarrow> bool \<Rightarrow> i256 reducer_result" where
  "dydx_v4_unrealized_pnl D base entry mark is_long = unrealized_pnl_common D base entry mark is_long"

definition dydx_v4_funding_accrued :: "decimal_lib \<Rightarrow> u256 \<Rightarrow> decimal \<Rightarrow> u32 \<Rightarrow> i256 reducer_result" where
  "dydx_v4_funding_accrued D base rate hours = funding_accrued_common D base rate hours"

definition vertex_required_initial_margin ::
  "decimal_lib \<Rightarrow> open_perp_action \<Rightarrow> open_perp_live_inputs \<Rightarrow> u256 reducer_result" where
  "vertex_required_initial_margin D a live = required_initial_margin_common D ''vertex'' a live"

definition vertex_liquidation_price ::
  "decimal_lib \<Rightarrow> open_perp_action \<Rightarrow> open_perp_live_inputs \<Rightarrow> price option reducer_result" where
  "vertex_liquidation_price D a live = liquidation_price_simple D ''vertex'' a live"

definition vertex_unrealized_pnl :: "decimal_lib \<Rightarrow> u256 \<Rightarrow> price \<Rightarrow> price \<Rightarrow> bool \<Rightarrow> i256 reducer_result" where
  "vertex_unrealized_pnl D base entry mark is_long = unrealized_pnl_common D base entry mark is_long"

definition vertex_funding_accrued :: "decimal_lib \<Rightarrow> u256 \<Rightarrow> decimal \<Rightarrow> u32 \<Rightarrow> i256 reducer_result" where
  "vertex_funding_accrued D base rate hours = funding_accrued_common D base rate hours"

definition drift_required_initial_margin ::
  "decimal_lib \<Rightarrow> open_perp_action \<Rightarrow> open_perp_live_inputs \<Rightarrow> u256 reducer_result" where
  "drift_required_initial_margin D a live = required_initial_margin_common D ''drift'' a live"

definition drift_liquidation_price ::
  "decimal_lib \<Rightarrow> open_perp_action \<Rightarrow> open_perp_live_inputs \<Rightarrow> price option reducer_result" where
  "drift_liquidation_price D a live = liquidation_price_simple D ''drift'' a live"

definition drift_unrealized_pnl :: "decimal_lib \<Rightarrow> u256 \<Rightarrow> price \<Rightarrow> price \<Rightarrow> bool \<Rightarrow> i256 reducer_result" where
  "drift_unrealized_pnl D base entry mark is_long = unrealized_pnl_common D base entry mark is_long"

definition drift_funding_accrued :: "decimal_lib \<Rightarrow> u256 \<Rightarrow> decimal \<Rightarrow> u32 \<Rightarrow> i256 reducer_result" where
  "drift_funding_accrued D base rate hours = funding_accrued_common D base rate hours"

definition gmx_v2_required_initial_margin ::
  "decimal_lib \<Rightarrow> open_perp_action \<Rightarrow> open_perp_live_inputs \<Rightarrow> u256 reducer_result" where
  "gmx_v2_required_initial_margin D a live = required_initial_margin_common D ''gmx_v2'' a live"

definition gmx_v2_liquidation_price ::
  "decimal_lib \<Rightarrow> open_perp_action \<Rightarrow> open_perp_live_inputs \<Rightarrow> price option reducer_result" where
  "gmx_v2_liquidation_price D a live = liquidation_price_deferred ''gmx_v2'' (op_venue a)"

definition gmx_v2_unrealized_pnl :: "decimal_lib \<Rightarrow> u256 \<Rightarrow> price \<Rightarrow> price \<Rightarrow> bool \<Rightarrow> i256 reducer_result" where
  "gmx_v2_unrealized_pnl D base entry mark is_long = unrealized_pnl_common D base entry mark is_long"

definition gmx_v2_funding_accrued :: "decimal_lib \<Rightarrow> u256 \<Rightarrow> decimal \<Rightarrow> u32 \<Rightarrow> i256 reducer_result" where
  "gmx_v2_funding_accrued D base rate hours = funding_accrued_common D base rate hours"

definition jupiter_perps_required_initial_margin ::
  "decimal_lib \<Rightarrow> open_perp_action \<Rightarrow> open_perp_live_inputs \<Rightarrow> u256 reducer_result" where
  "jupiter_perps_required_initial_margin D a live = required_initial_margin_common D ''jupiter_perps'' a live"

definition jupiter_perps_liquidation_price ::
  "decimal_lib \<Rightarrow> open_perp_action \<Rightarrow> open_perp_live_inputs \<Rightarrow> price option reducer_result" where
  "jupiter_perps_liquidation_price D a live = liquidation_price_deferred ''jupiter_perps'' (op_venue a)"

definition jupiter_perps_unrealized_pnl :: "decimal_lib \<Rightarrow> u256 \<Rightarrow> price \<Rightarrow> price \<Rightarrow> bool \<Rightarrow> i256 reducer_result" where
  "jupiter_perps_unrealized_pnl D base entry mark is_long = unrealized_pnl_common D base entry mark is_long"

definition jupiter_perps_funding_accrued :: "decimal_lib \<Rightarrow> u256 \<Rightarrow> decimal \<Rightarrow> u32 \<Rightarrow> i256 reducer_result" where
  "jupiter_perps_funding_accrued D base rate hours = funding_accrued_common D base rate hours"

definition synthetix_required_initial_margin ::
  "decimal_lib \<Rightarrow> open_perp_action \<Rightarrow> open_perp_live_inputs \<Rightarrow> u256 reducer_result" where
  "synthetix_required_initial_margin D a live = required_initial_margin_common D ''synthetix'' a live"

definition synthetix_liquidation_price ::
  "decimal_lib \<Rightarrow> open_perp_action \<Rightarrow> open_perp_live_inputs \<Rightarrow> price option reducer_result" where
  "synthetix_liquidation_price D a live = liquidation_price_deferred ''synthetix'' (op_venue a)"

definition synthetix_unrealized_pnl :: "decimal_lib \<Rightarrow> u256 \<Rightarrow> price \<Rightarrow> price \<Rightarrow> bool \<Rightarrow> i256 reducer_result" where
  "synthetix_unrealized_pnl D base entry mark is_long = unrealized_pnl_common D base entry mark is_long"

definition synthetix_funding_accrued :: "decimal_lib \<Rightarrow> u256 \<Rightarrow> decimal \<Rightarrow> u32 \<Rightarrow> i256 reducer_result" where
  "synthetix_funding_accrued D base rate hours = funding_accrued_common D base rate hours"

fun perp_venue_tag :: "perp_venue \<Rightarrow> string" where
  "perp_venue_tag (Hyperliquid _) = ''hyperliquid''"
| "perp_venue_tag (GmxV2 _) = ''gmx_v2''"
| "perp_venue_tag (DyDxV4 _) = ''dydx_v4''"
| "perp_venue_tag (Vertex _) = ''vertex''"
| "perp_venue_tag (Aevo _) = ''aevo''"
| "perp_venue_tag (Drift _) = ''drift''"
| "perp_venue_tag (JupiterPerps _) = ''jupiter_perps''"
| "perp_venue_tag (Synthetix _) = ''synthetix''"
| "perp_venue_tag (GenericPerp _ _) = ''generic_perp''"

fun perp_venue_chain :: "perp_venue \<Rightarrow> chain_id" where
  "perp_venue_chain (Hyperliquid c) = c"
| "perp_venue_chain (GmxV2 c) = c"
| "perp_venue_chain (DyDxV4 c) = c"
| "perp_venue_chain (Vertex c) = c"
| "perp_venue_chain (Aevo c) = c"
| "perp_venue_chain (Drift c) = c"
| "perp_venue_chain (JupiterPerps c) = c"
| "perp_venue_chain (Synthetix c) = c"
| "perp_venue_chain (GenericPerp c _) = c"

definition perp_venue_ref :: "perp_venue \<Rightarrow> venue_ref" where
  "perp_venue_ref v = \<lparr>venue_name = perp_venue_tag v, venue_chain = Some (perp_venue_chain v)\<rparr>"

fun is_orderbook_venue :: "perp_venue \<Rightarrow> bool" where
  "is_orderbook_venue (Hyperliquid _) = True"
| "is_orderbook_venue (Aevo _) = True"
| "is_orderbook_venue (DyDxV4 _) = True"
| "is_orderbook_venue _ = False"

fun side_tag :: "perp_side \<Rightarrow> string" where
  "side_tag Long = ''long''"
| "side_tag Short = ''short''"

definition synth_position_id :: "perp_venue \<Rightarrow> string \<Rightarrow> perp_side \<Rightarrow> string" where
  "synth_position_id v market side = perp_venue_tag v @ '':'' @ market @ '':'' @ side_tag side"

definition pending_id_for_limit_order :: "perp_venue \<Rightarrow> string \<Rightarrow> perp_side \<Rightarrow> price \<Rightarrow> string" where
  "pending_id_for_limit_order v market side px =
     ''limit:'' @ perp_venue_tag v @ '':'' @ market @ '':'' @ side_tag side @ '':'' @ px"

fun stop_kind_tag :: "stop_order_kind \<Rightarrow> string" where
  "stop_kind_tag StopMarketOrder = ''stop_market''"
| "stop_kind_tag StopLimitOrder = ''stop_limit''"
| "stop_kind_tag TakeProfitOrder = ''take_profit''"
| "stop_kind_tag TakeProfitLimitOrder = ''take_profit_limit''"

definition pending_id_for_stop_order ::
  "perp_venue \<Rightarrow> string \<Rightarrow> perp_side \<Rightarrow> stop_order_kind \<Rightarrow> price \<Rightarrow> string" where
  "pending_id_for_stop_order v market side kind trigger =
     stop_kind_tag kind @ '':'' @ perp_venue_tag v @ '':'' @ market @ '':'' @ side_tag side @ '':'' @ trigger"

definition pending_id_for_twap_order :: "perp_venue \<Rightarrow> string \<Rightarrow> perp_side \<Rightarrow> u32 \<Rightarrow> string" where
  "pending_id_for_twap_order v market side duration_minutes =
     ''twap:'' @ perp_venue_tag v @ '':'' @ market @ '':'' @ side_tag side @ '':'' @
       dec_string (unat duration_minutes)"

fun perp_order_kind_from_stop :: "stop_order_kind \<Rightarrow> perp_order_kind" where
  "perp_order_kind_from_stop StopMarketOrder = StopMarket"
| "perp_order_kind_from_stop StopLimitOrder = StopLimit"
| "perp_order_kind_from_stop TakeProfitLimitOrder = StopLimit"
| "perp_order_kind_from_stop TakeProfitOrder = TakeProfit"

definition perp_pending_source :: data_source where
  "perp_pending_source = UserSupplied"

end
