(* ===== verification/PerpEffects.thy ===== *)
theory PerpEffects
  imports PerpMath Balances PositionHelpers ReducerContract
begin

text \<open>
  The reducers of \<^verbatim>\<open>asset-model/transition/src/effect/perp\<close>, one per action. An absolute value printed in
  decimal and read back (\<open>from_str_radix\<close> of \<open>unsigned_abs\<close>) is that value.
\<close>

section \<open>Opening\<close>

definition dispatch_required_initial_margin :: "decimal_lib \<Rightarrow> open_perp_action \<Rightarrow> u256 reducer_result" where
  "dispatch_required_initial_margin D a =
     (let live = op_live_inputs a in
      case op_venue a of
        Hyperliquid _ \<Rightarrow> hyperliquid_required_initial_margin D a live
      | Aevo _ \<Rightarrow> aevo_required_initial_margin D a live
      | DyDxV4 _ \<Rightarrow> dydx_v4_required_initial_margin D a live
      | GmxV2 _ \<Rightarrow> gmx_v2_required_initial_margin D a live
      | Vertex _ \<Rightarrow> vertex_required_initial_margin D a live
      | Drift _ \<Rightarrow> drift_required_initial_margin D a live
      | JupiterPerps _ \<Rightarrow> jupiter_perps_required_initial_margin D a live
      | Synthetix _ \<Rightarrow> synthetix_required_initial_margin D a live
      | GenericPerp _ _ \<Rightarrow> required_initial_margin_common D ''generic_perp'' a live)"

definition dispatch_liquidation_price :: "decimal_lib \<Rightarrow> open_perp_action \<Rightarrow> price option reducer_result" where
  "dispatch_liquidation_price D a =
     (let live = op_live_inputs a in
      case op_venue a of
        Hyperliquid _ \<Rightarrow> hyperliquid_liquidation_price D a live
      | Aevo _ \<Rightarrow> aevo_liquidation_price D a live
      | DyDxV4 _ \<Rightarrow> dydx_v4_liquidation_price D a live
      | GmxV2 _ \<Rightarrow> gmx_v2_liquidation_price D a live
      | Vertex _ \<Rightarrow> vertex_liquidation_price D a live
      | Drift _ \<Rightarrow> drift_liquidation_price D a live
      | JupiterPerps _ \<Rightarrow> jupiter_perps_liquidation_price D a live
      | Synthetix _ \<Rightarrow> synthetix_liquidation_price D a live
      | GenericPerp _ _ \<Rightarrow> liquidation_price_simple D ''generic_perp'' a live)"

definition contains_text :: "string \<Rightarrow> string \<Rightarrow> bool" where
  "contains_text hay needle =
     list_ex (\<lambda>i. take (length needle) (drop i hay) = needle) [0..<Suc (length hay)]"

definition tolerate_deferred :: "price option reducer_result \<Rightarrow> price option reducer_result" where
  "tolerate_deferred r =
     (case r of
        Inr p \<Rightarrow> Inr p
      | Inl (UnsupportedProtocol action protocol) \<Rightarrow>
          if contains_text protocol ''deferred'' then Inr None else r
      | Inl e \<Rightarrow> Inl e)"

definition chain_for_venue :: "perp_venue \<Rightarrow> chain_id option" where
  "chain_for_venue v = None"

definition opened_position ::
  "open_perp_action \<Rightarrow> eval_context \<Rightarrow> u256 \<Rightarrow> u256 \<Rightarrow> price option \<Rightarrow> position" where
  "opened_position a ctx base notional liq =
     (let live = op_live_inputs a in
      \<lparr>pos_id = synth_position_id (op_venue a) (market_symbol (op_market a)) (op_side a),
       pos_protocol = protocol_ref_new (perp_venue_tag (op_venue a)),
       pos_chain = chain_for_venue (op_venue a),
       pos_kind = PerpPosition
         \<lparr>pp_venue = perp_venue_ref (op_venue a), pp_market = op_market a, pp_side = op_side a,
          size_base = base, notional_usd = notional, collateral = [op_collateral a],
          entry_price = lf_value (op_mark_price live), pp_margin_mode = op_margin_mode a,
          mark_price = live_field_new (lf_value (op_mark_price live)) (lf_source (op_mark_price live)) (now ctx),
          liq_price = live_field_new liq UserSupplied (now ctx),
          unrealized_pnl = live_field_new 0 UserSupplied (now ctx),
          funding_owed = live_field_new 0 UserSupplied (now ctx),
          leverage = live_field_new (op_leverage a) UserSupplied (now ctx)\<rparr>,
       pos_synced_at = now ctx, pos_source = UserSupplied\<rparr>)"

definition active_lifecycle :: "time option \<Rightarrow> pending_lifecycle" where
  "active_lifecycle until =
     \<lparr>pl_status = Active, valid_until = until, pl_nonce = None, on_chain_tx = None, raw_status = None\<rparr>"

definition open_pending ::
  "open_perp_action \<Rightarrow> eval_context \<Rightarrow> u256 \<Rightarrow> u256 \<Rightarrow> position \<Rightarrow> pending_tx" where
  "open_pending a ctx required_margin base p =
     PendingTx (perp_venue_tag (op_venue a) @ '':open:'' @ pos_id p)
       (PerpVenueOrder (perp_venue_ref (op_venue a)) (op_market a) (op_side a) base
          (lf_value (op_mark_price (op_live_inputs a))) PerpLimit (op_reduce_only a))
       (HardLock (fst (op_collateral a)) required_margin)
       (push_position_change state_delta_new (OpenPosition p))
       (active_lifecycle None) perp_pending_source (now ctx) []"

definition open_perp_apply ::
  "decimal_lib \<Rightarrow> open_perp_action \<Rightarrow> wallet_state \<Rightarrow> eval_context \<Rightarrow> state_delta reducer_result" where
  "open_perp_apply D a s ctx =
     (let live = op_live_inputs a; mark = lf_value (op_mark_price live) in
      rbind (dispatch_required_initial_margin D a) (\<lambda>required_margin.
      if free_margin_usd (lf_value (op_user_account_state live)) < required_margin
      then fail ''open_perp: free_margin_usd < required_margin''
      else
      rbind (resolve_size_base D (op_size a) mark) (\<lambda>base.
      if lf_value (available_oi live) < base then fail ''open_perp: available_oi < size_base''
      else
      rbind (tolerate_deferred (dispatch_liquidation_price D a)) (\<lambda>liq.
      rbind (if is_orderbook_venue (op_venue a) then Inr state_delta_new
             else debit s state_delta_new (ref_key (fst (op_collateral a))) (snd (op_collateral a))) (\<lambda>d.
      rbind (notional_of D base mark) (\<lambda>notional_decimal.
      rbind (ok_or (dl_u256 D (trunc_text D notional_decimal))
               (Invariant ''open_perp: notional_usd U256 parse'')) (\<lambda>notional.
        let p = opened_position a ctx base notional liq in
        if is_orderbook_venue (op_venue a)
        then Inr (push_pending_change d (AddPending (open_pending a ctx required_margin base p)))
        else open_position s d p)))))))"

section \<open>Changing an open position\<close>

definition on_perp :: "(perp_position \<Rightarrow> perp_position) \<Rightarrow> position \<Rightarrow> position" where
  "on_perp f p = (case pos_kind p of PerpPosition pp \<Rightarrow> p\<lparr>pos_kind := PerpPosition (f pp)\<rparr> | _ \<Rightarrow> p)"

definition find_perp :: "string \<Rightarrow> wallet_state \<Rightarrow> position_id \<Rightarrow> perp_position reducer_result" where
  "find_perp label s i =
     rbind (ok_or (find (\<lambda>p. pos_id p = i) (positions s)) (PositionNotFound i)) (\<lambda>p.
       case pos_kind p of
         PerpPosition pp \<Rightarrow> Inr pp
       | _ \<Rightarrow> fail (label @ '': position is not a PerpPosition''))"

fun add_to_rows :: "token_ref \<Rightarrow> u256 \<Rightarrow> (token_ref \<times> u256) list \<Rightarrow> (token_ref \<times> u256) list" where
  "add_to_rows tok amt [] = [(tok, amt)]"
| "add_to_rows tok amt ((t, a) # rows) =
     (if t = tok then (t, saturating_add a amt) # rows else (t, a) # add_to_rows tok amt rows)"

definition increase_perp_apply ::
  "decimal_lib \<Rightarrow> position_serde \<Rightarrow> increase_perp_action \<Rightarrow> wallet_state \<Rightarrow> eval_context
     \<Rightarrow> state_delta reducer_result" where
  "increase_perp_apply D C a s ctx =
     (if is_orderbook_venue (ip_venue a) then fail ''increase_perp: orderbook venue requires PlaceOrderAction''
      else
      let mark_text = lf_value (op_mark_price (ip_live_inputs a)) in
      rbind (find_perp ''increase_perp'' s (ip_position_id a)) (\<lambda>old_perp.
      rbind (resolve_size_base D (ip_size a) mark_text) (\<lambda>delta_size.
      if delta_size = 0 then fail ''increase_perp: resolved size change is zero''
      else
      rbind (perp_u256_to_decimal D (size_base old_perp)) (\<lambda>old_size.
      rbind (ok_or (checked_add (size_base old_perp) delta_size)
               (Invariant ''increase_perp: size addition overflow'')) (\<lambda>new_size_u256.
      rbind (perp_u256_to_decimal D new_size_u256) (\<lambda>new_size.
      rbind (perp_parse_decimal D (entry_price old_perp)) (\<lambda>old_entry.
      rbind (perp_parse_decimal D mark_text) (\<lambda>mark.
      rbind (perp_u256_to_decimal D delta_size) (\<lambda>delta_size_d.
      let new_entry_d = d_div D (d_add D (d_mul D old_size old_entry) (d_mul D delta_size_d mark)) new_size in
      rbind (case add_collateral a of
               Some (tok, amount) \<Rightarrow> debit s state_delta_new (ref_key tok) amount
             | None \<Rightarrow> Inr state_delta_new) (\<lambda>d.
      rbind (ok_or (dl_u256 D (trunc_text D (d_mul D new_size mark)))
               (Invariant ''increase_perp: notional U256 parse'')) (\<lambda>new_notional_u256.
        upsert_perp_position C s d (ip_position_id a)
          (on_perp (\<lambda>pp. pp\<lparr>size_base := new_size_u256, notional_usd := new_notional_u256,
             entry_price := perp_decimal_to_state D new_entry_d,
             collateral := (case add_collateral a of
                              Some (tok, amt) \<Rightarrow> add_to_rows tok amt (collateral pp)
                            | None \<Rightarrow> collateral pp)\<rparr>)))))))))))))"

definition settle_cash ::
  "wallet_state \<Rightarrow> state_delta \<Rightarrow> token_key \<Rightarrow> i256 \<Rightarrow> state_delta reducer_result" where
  "settle_cash s d k cash_delta =
     (if sint cash_delta > 0 then credit s d k (unsigned_abs cash_delta)
      else if sint cash_delta < 0 then debit s d k (unsigned_abs cash_delta)
      else Inr d)"

definition first_collateral :: "string \<Rightarrow> perp_position \<Rightarrow> (token_ref \<times> u256) reducer_result" where
  "first_collateral label pp =
     (case collateral pp of c # _ \<Rightarrow> Inr c | [] \<Rightarrow> fail (label @ '': position has no collateral''))"

definition decrease_perp_apply ::
  "decimal_lib \<Rightarrow> position_serde \<Rightarrow> decrease_perp_action \<Rightarrow> wallet_state \<Rightarrow> eval_context
     \<Rightarrow> state_delta reducer_result" where
  "decrease_perp_apply D C a s ctx =
     (if is_orderbook_venue (dp_venue a) then fail ''decrease_perp: orderbook venue requires PlaceOrderAction''
      else
      let live = dp_live_inputs a; mark_text = lf_value (cp_mark_price live) in
      rbind (find_perp ''decrease_perp'' s (dp_position_id a)) (\<lambda>old_perp.
      rbind (resolve_size_base D (dp_size a) mark_text) (\<lambda>delta_size.
      if delta_size = 0 then fail ''decrease_perp: resolved size change is zero''
      else if delta_size > size_base old_perp then fail ''decrease_perp: size change > open size_base''
      else if delta_size = size_base old_perp
      then fail ''decrease_perp: size change equals open size - use ClosePerpAction for full close''
      else
      rbind (perp_u256_to_decimal D (size_base old_perp)) (\<lambda>old_size_d.
      rbind (perp_u256_to_decimal D delta_size) (\<lambda>delta_size_d.
      rbind (ok_or (dl_parse D (signed_text (lf_value (unrealized_pnl_now live))))
               (Invariant ''decrease_perp: pnl parse'')) (\<lambda>pnl_d.
      let realized = d_div D (d_mul D pnl_d delta_size_d) old_size_d in
      rbind (perp_parse_decimal D mark_text) (\<lambda>mark.
      let notional = d_mul D delta_size_d mark;
          fee = d_div D (d_mul D notional (of_nat (unat (lf_value (cp_fee_bp live))))) 10000
      in
      rbind (ok_or (dl_parse D (signed_text (lf_value (cp_funding_accrued live))))
               (Invariant ''decrease_perp: funding parse'')) (\<lambda>funding_d.
      let cash_delta_d = d_add D (d_sub D realized fee) funding_d in
      rbind (ok_or (dl_i256 D (trunc_text D cash_delta_d))
               (Invariant ''decrease_perp: cash_delta overflow'')) (\<lambda>cash_delta.
      rbind (first_collateral ''decrease_perp'' old_perp) (\<lambda>(collateral_token, _).
      rbind (settle_cash s state_delta_new (ref_key collateral_token) cash_delta) (\<lambda>d.
      rbind (ok_or (checked_sub (size_base old_perp) delta_size)
               (Invariant ''decrease_perp: size subtraction underflow'')) (\<lambda>new_size.
      rbind (perp_u256_to_decimal D new_size) (\<lambda>new_size_d.
      rbind (ok_or (dl_u256 D (trunc_text D (d_mul D new_size_d mark)))
               (Invariant ''decrease_perp: notional U256 parse'')) (\<lambda>new_notional_u256.
        upsert_perp_position C s d (dp_position_id a)
          (on_perp (\<lambda>pp. pp\<lparr>size_base := new_size, notional_usd := new_notional_u256\<rparr>))))))))))))))))"

definition close_perp_apply ::
  "decimal_lib \<Rightarrow> close_perp_action \<Rightarrow> wallet_state \<Rightarrow> eval_context \<Rightarrow> state_delta reducer_result" where
  "close_perp_apply D a s ctx =
     (if cp_size a \<noteq> None
      then fail ''close_perp: partial close (size = Some) deferred - use DecreasePerpAction''
      else
      let live = cp_live_inputs a in
      rbind (find_perp ''close_perp'' s (cp_position_id a)) (\<lambda>pp.
      rbind (notional_of D (size_base pp) (lf_value (cp_mark_price live))) (\<lambda>notional.
      let fee = d_div D (d_mul D notional (of_nat (unat (lf_value (cp_fee_bp live))))) 10000 in
      rbind (ok_or (dl_i256 D (trunc_text D fee)) (Invariant ''close_perp: fee overflow'')) (\<lambda>fee_signed.
      rbind (ok_or (i256_checked_sub (lf_value (unrealized_pnl_now live)) fee_signed)
               (Invariant ''close_perp: cash_delta subtraction overflow'')) (\<lambda>net.
      rbind (ok_or (i256_checked_add net (lf_value (cp_funding_accrued live)))
               (Invariant ''close_perp: cash_delta addition overflow'')) (\<lambda>cash_delta.
      rbind (first_collateral ''close_perp'' pp) (\<lambda>(collateral_token, locked_amount).
      rbind (credit s state_delta_new (ref_key collateral_token) locked_amount) (\<lambda>d.
      rbind (settle_cash s d (ref_key collateral_token) cash_delta) (\<lambda>d'.
        Inr (push_position_change d' (ClosePosition (cp_position_id a))))))))))))"

section \<open>Margin, leverage and margin mode\<close>

definition set_first_amount :: "u256 \<Rightarrow> (token_ref \<times> u256) list \<Rightarrow> (token_ref \<times> u256) list" where
  "set_first_amount amt rows = (case rows of [] \<Rightarrow> [] | (t, _) # rest \<Rightarrow> (t, amt) # rest)"

definition adjust_margin_apply ::
  "position_serde \<Rightarrow> adjust_margin_action \<Rightarrow> wallet_state \<Rightarrow> eval_context \<Rightarrow> state_delta reducer_result" where
  "adjust_margin_apply C a s ctx =
     rbind (ok_or (am_live_inputs a) (MissingField ''adjust_margin.live_inputs'')) (\<lambda>li.
     rbind (ok_or (am_position_id a) (MissingField ''adjust_margin.position_id'')) (\<lambda>i.
     rbind (find_perp ''adjust_margin'' s i) (\<lambda>pp.
     rbind (first_collateral ''adjust_margin'' pp) (\<lambda>(collateral_token, current_locked).
     let amount = unsigned_abs (am_delta a); k = ref_key collateral_token in
     rbind (if sint (am_delta a) > 0
            then rbind (debit s state_delta_new k amount) (\<lambda>d.
                   Inr (d, saturating_add current_locked amount))
            else if sint (am_delta a) < 0
            then if lf_value (free_margin_after li) = 0
                 then fail ''adjust_margin: withdrawal would leave zero free margin (liquidatable)''
                 else if current_locked < amount then fail ''adjust_margin: withdraw > locked''
                 else rbind (credit s state_delta_new k amount) (\<lambda>d. Inr (d, current_locked - amount))
            else fail ''adjust_margin: delta is zero (no-op)'') (\<lambda>(d, new_amount).
       upsert_perp_position C s d i
         (on_perp (\<lambda>pp. pp\<lparr>collateral := set_first_amount new_amount (collateral pp)\<rparr>)))))))"

definition change_leverage_step ::
  "position_serde \<Rightarrow> change_leverage_action \<Rightarrow> (position_id \<times> price option) list \<Rightarrow> wallet_state
     \<Rightarrow> eval_context \<Rightarrow> state_delta \<Rightarrow> position_id \<Rightarrow> state_delta reducer_result" where
  "change_leverage_step C a liq_prices s ctx d i =
     rbind (find_perp ''change_leverage'' s i) (\<lambda>_.
       let new_liq = map_option snd (find (\<lambda>(j, _). j = i) liq_prices) in
       upsert_perp_position C s d i
         (on_perp (\<lambda>pp.
            let pp' = pp\<lparr>leverage := live_field_new (new_leverage a) UserSupplied (now ctx)\<rparr>
            in case new_liq of
                 Some liq \<Rightarrow> pp'\<lparr>liq_price := live_field_new liq UserSupplied (now ctx)\<rparr>
               | None \<Rightarrow> pp')))"

definition change_leverage_apply ::
  "decimal_lib \<Rightarrow> position_serde \<Rightarrow> change_leverage_action \<Rightarrow> wallet_state \<Rightarrow> eval_context
     \<Rightarrow> state_delta reducer_result" where
  "change_leverage_apply D C a s ctx =
     rbind (ok_or (ch_live_inputs a) (MissingField ''change_leverage.live_inputs'')) (\<lambda>li.
     rbind (perp_parse_decimal D (new_leverage a)) (\<lambda>new_lev.
     rbind (perp_parse_decimal D (lf_value (ch_max_leverage li))) (\<lambda>max_lev.
     if max_lev \<noteq> 0 \<and> new_lev > max_lev then fail ''change_leverage: requested > max''
     else if new_lev = 0 then fail ''change_leverage: leverage must be > 0''
     else rfold (change_leverage_step C a (lf_value (new_liq_prices li)) s ctx) state_delta_new
            (lf_value (ch_affected_positions li)))))"

definition change_margin_mode_step ::
  "position_serde \<Rightarrow> change_margin_mode_action \<Rightarrow> wallet_state \<Rightarrow> state_delta \<Rightarrow> position_id
     \<Rightarrow> state_delta reducer_result" where
  "change_margin_mode_step C a s d i =
     rbind (find_perp ''change_margin_mode'' s i) (\<lambda>_.
       let new_amount = map_option snd (find (\<lambda>(j, _). j = i) (lf_value (margin_reallocation (mm_live_inputs a))))
       in upsert_perp_position C s d i
            (on_perp (\<lambda>pp.
               let pp' = pp\<lparr>pp_margin_mode := new_mode a\<rparr>
               in case new_amount of
                    Some amt \<Rightarrow> pp'\<lparr>collateral := set_first_amount amt (collateral pp')\<rparr>
                  | None \<Rightarrow> pp')))"

definition change_margin_mode_apply ::
  "position_serde \<Rightarrow> change_margin_mode_action \<Rightarrow> wallet_state \<Rightarrow> eval_context
     \<Rightarrow> state_delta reducer_result" where
  "change_margin_mode_apply C a s ctx =
     rfold (change_margin_mode_step C a s) state_delta_new (lf_value (mm_affected_positions (mm_live_inputs a)))"

section \<open>Orders and funding\<close>

definition max_open_orders_soft_cap :: u32 where
  "max_open_orders_soft_cap = 100"

definition order_pending ::
  "place_order_action \<Rightarrow> eval_context \<Rightarrow> pending_id \<Rightarrow> u256 \<Rightarrow> price \<Rightarrow> perp_order_kind \<Rightarrow> time option
     \<Rightarrow> pending_tx" where
  "order_pending a ctx i base px kind until =
     PendingTx i
       (PerpVenueOrder (perp_venue_ref (pl_venue a)) (pl_market a) (pl_side a) base px kind (pl_reduce_only a))
       NoCommitment state_delta_new (active_lifecycle until) perp_pending_source (now ctx) []"

fun gtd_until :: "time_in_force \<Rightarrow> time option" where
  "gtd_until (Gtd until) = Some until"
| "gtd_until _ = None"

definition limit_pending ::
  "decimal_lib \<Rightarrow> place_order_action \<Rightarrow> place_order_live_inputs \<Rightarrow> price \<Rightarrow> time_in_force \<Rightarrow> eval_context
     \<Rightarrow> pending_tx reducer_result" where
  "limit_pending D a li px tif ctx =
     (if lf_value (open_orders_count li) \<ge> max_open_orders_soft_cap
      then fail ''place_order: open_orders_count >= soft cap''
      else
      rbind (perp_parse_decimal D px) (\<lambda>limit.
      rbind (perp_parse_decimal D (fst (lf_value (best_bid_ask li)))) (\<lambda>bid.
      rbind (perp_parse_decimal D (snd (lf_value (best_bid_ask li)))) (\<lambda>ask.
      let mid = d_div D (d_add D bid ask) 2;
          bracket_lo = d_mul D mid (1 / 2);
          bracket_hi = d_mul D mid (3 / 2)
      in
      if limit < bracket_lo \<or> limit > bracket_hi
      then fail ''place_order: limit price outside 50 % of mid-spread bracket''
      else
      rbind (resolve_size_base D (pl_size a) (lf_value (pl_order_mark_price li))) (\<lambda>base.
      if base = 0 then fail ''place_order: resolved size_base is zero''
      else
        Inr (order_pending a ctx
               (pending_id_for_limit_order (pl_venue a) (market_symbol (pl_market a)) (pl_side a) px)
               base px PerpLimit (gtd_until tif)))))))"

definition stop_pending ::
  "decimal_lib \<Rightarrow> place_order_action \<Rightarrow> place_order_live_inputs \<Rightarrow> price \<Rightarrow> stop_order_kind \<Rightarrow> price option
     \<Rightarrow> eval_context \<Rightarrow> pending_tx reducer_result" where
  "stop_pending D a li trigger_price kind limit_price ctx =
     (if (kind = StopLimitOrder \<or> kind = TakeProfitLimitOrder) \<and> limit_price = None
      then fail ''place_order: order kind requires limit_price''
      else
      rbind (perp_parse_decimal D trigger_price) (\<lambda>trigger.
      rbind (perp_parse_decimal D (lf_value (pl_order_mark_price li))) (\<lambda>mark.
      let is_stop = (kind = StopMarketOrder \<or> kind = StopLimitOrder);
          want_below = (is_stop \<and> pl_side a = Long \<or> \<not> is_stop \<and> pl_side a = Short);
          valid_side = (if want_below then trigger < mark else trigger > mark)
      in
      if \<not> valid_side then fail ''place_order: trigger is on the wrong side of mark''
      else
      rbind (resolve_size_base D (pl_size a) (lf_value (pl_order_mark_price li))) (\<lambda>base.
        Inr (order_pending a ctx
               (pending_id_for_stop_order (pl_venue a) (market_symbol (pl_market a)) (pl_side a) kind trigger_price)
               base trigger_price (perp_order_kind_from_stop kind) None)))))"

definition twap_pending ::
  "decimal_lib \<Rightarrow> place_order_action \<Rightarrow> place_order_live_inputs \<Rightarrow> u32 \<Rightarrow> eval_context
     \<Rightarrow> pending_tx reducer_result" where
  "twap_pending D a li duration_minutes ctx =
     rbind (resolve_size_base D (pl_size a) (lf_value (pl_order_mark_price li))) (\<lambda>base.
       if base = 0 then fail ''place_order: resolved size_base is zero''
       else
         Inr (order_pending a ctx
                (pending_id_for_twap_order (pl_venue a) (market_symbol (pl_market a)) (pl_side a) duration_minutes)
                base (lf_value (pl_order_mark_price li)) PerpLimit None))"

definition place_order_apply ::
  "decimal_lib \<Rightarrow> place_order_action \<Rightarrow> wallet_state \<Rightarrow> eval_context \<Rightarrow> state_delta reducer_result" where
  "place_order_apply D a s ctx =
     rbind (ok_or (pl_live_inputs a) (MissingField ''place_order.live_inputs'')) (\<lambda>li.
     rbind (case pl_order_type a of
              LimitType px tif \<Rightarrow> limit_pending D a li px tif ctx
            | StopType trigger kind limit_price \<Rightarrow> stop_pending D a li trigger kind limit_price ctx
            | TwapType duration_minutes _ \<Rightarrow> twap_pending D a li duration_minutes ctx) (\<lambda>p.
       Inr (push_pending_change state_delta_new (AddPending p))))"

definition cancel_order_apply ::
  "cancel_order_action \<Rightarrow> wallet_state \<Rightarrow> eval_context \<Rightarrow> state_delta reducer_result" where
  "cancel_order_apply a s ctx =
     Inr (push_pending_change state_delta_new (RemovePending (order_id a) RemovedCancelled))"

definition claim_funding_step :: "wallet_state \<Rightarrow> state_delta \<Rightarrow> token_ref \<times> u256 \<Rightarrow> state_delta reducer_result" where
  "claim_funding_step s d c =
     (case c of (token, amount) \<Rightarrow> if amount = 0 then Inr d else credit s d (ref_key token) amount)"

definition claim_funding_apply ::
  "claim_funding_action \<Rightarrow> wallet_state \<Rightarrow> eval_context \<Rightarrow> state_delta reducer_result" where
  "claim_funding_apply a s ctx =
     rfold (claim_funding_step s) state_delta_new (lf_value (cl_claimable (cl_live_inputs a)))"

fun perp_action_apply ::
  "decimal_lib \<Rightarrow> position_serde \<Rightarrow> perp_action \<Rightarrow> wallet_state \<Rightarrow> eval_context
     \<Rightarrow> state_delta reducer_result" where
  "perp_action_apply D C (PerpOpen a) s ctx = open_perp_apply D a s ctx"
| "perp_action_apply D C (PerpClose a) s ctx = close_perp_apply D a s ctx"
| "perp_action_apply D C (PerpIncrease a) s ctx = increase_perp_apply D C a s ctx"
| "perp_action_apply D C (PerpDecrease a) s ctx = decrease_perp_apply D C a s ctx"
| "perp_action_apply D C (AdjustMargin a) s ctx = adjust_margin_apply C a s ctx"
| "perp_action_apply D C (ChangeLeverage a) s ctx = change_leverage_apply D C a s ctx"
| "perp_action_apply D C (ChangeMarginMode a) s ctx = change_margin_mode_apply C a s ctx"
| "perp_action_apply D C (PlaceOrder a) s ctx = place_order_apply D a s ctx"
| "perp_action_apply D C (CancelOrder a) s ctx = cancel_order_apply a s ctx"
| "perp_action_apply D C (ClaimFunding a) s ctx = claim_funding_apply a s ctx"

section \<open>The reducer contract\<close>

lemma settle_cash_plain: "settle_cash s d k c = Inr d' \<Longrightarrow> plain_delta d \<Longrightarrow> plain_delta d'"
  by (auto simp: settle_cash_def split: if_splits dest: plain_helpers)

lemma rfold_plain:
  "(\<And>d x d'. step d x = Inr d' \<Longrightarrow> plain_delta d \<Longrightarrow> plain_delta d') \<Longrightarrow>
     rfold step d xs = Inr d' \<Longrightarrow> plain_delta d \<Longrightarrow> plain_delta d'"
  by (induction xs arbitrary: d) (auto simp: result_iff)

lemma change_leverage_step_plain:
  "change_leverage_step C a liq s ctx d i = Inr d' \<Longrightarrow> plain_delta d \<Longrightarrow> plain_delta d'"
  by (auto simp: change_leverage_step_def result_iff Let_def dest: plain_helpers)

lemma change_margin_mode_step_plain:
  "change_margin_mode_step C a s d i = Inr d' \<Longrightarrow> plain_delta d \<Longrightarrow> plain_delta d'"
  by (auto simp: change_margin_mode_step_def result_iff Let_def dest: plain_helpers)

lemma claim_funding_step_plain: "claim_funding_step s d c = Inr d' \<Longrightarrow> plain_delta d \<Longrightarrow> plain_delta d'"
  by (auto simp: claim_funding_step_def split: prod.splits if_splits dest: plain_helpers)

lemma open_perp_plain: "open_perp_apply D a s ctx = Inr d \<Longrightarrow> plain_delta d"
  by (auto simp: open_perp_apply_def rbind_Inr_iff Let_def split: if_splits dest!: plain_helpers)

lemma increase_perp_plain: "increase_perp_apply D C a s ctx = Inr d \<Longrightarrow> plain_delta d"
  by (auto simp: increase_perp_apply_def rbind_Inr_iff Let_def split: if_splits option.splits prod.splits
      dest!: plain_helpers)

lemma decrease_perp_plain: "decrease_perp_apply D C a s ctx = Inr d \<Longrightarrow> plain_delta d"
  by (auto simp: decrease_perp_apply_def rbind_Inr_iff Let_def split: if_splits
      dest!: plain_helpers settle_cash_plain)

lemma close_perp_plain: "close_perp_apply D a s ctx = Inr d \<Longrightarrow> plain_delta d"
  by (auto simp: close_perp_apply_def rbind_Inr_iff Let_def split: if_splits
      dest!: plain_helpers settle_cash_plain)

lemma adjust_margin_plain: "adjust_margin_apply C a s ctx = Inr d \<Longrightarrow> plain_delta d"
  by (auto simp: adjust_margin_apply_def rbind_Inr_iff Let_def split: if_splits dest!: plain_helpers)

lemma change_leverage_plain: "change_leverage_apply D C a s ctx = Inr d \<Longrightarrow> plain_delta d"
  by (auto simp: change_leverage_apply_def rbind_Inr_iff split: if_splits
      intro: rfold_plain [OF change_leverage_step_plain])

lemma change_margin_mode_plain: "change_margin_mode_apply C a s ctx = Inr d \<Longrightarrow> plain_delta d"
  by (auto simp: change_margin_mode_apply_def intro: rfold_plain [OF change_margin_mode_step_plain])

lemma claim_funding_plain: "claim_funding_apply a s ctx = Inr d \<Longrightarrow> plain_delta d"
  by (auto simp: claim_funding_apply_def intro: rfold_plain [OF claim_funding_step_plain])

lemma perp_action_plain: "perp_action_apply D C a s ctx = Inr d \<Longrightarrow> plain_delta d"
  by (cases a)
    (auto simp: place_order_apply_def cancel_order_apply_def rbind_Inr_iff
      dest: open_perp_plain increase_perp_plain decrease_perp_plain close_perp_plain adjust_margin_plain
        change_leverage_plain change_margin_mode_plain claim_funding_plain)

interpretation perp_domain: reducer "perp_action_apply D C" for D C
  by unfold_locales (use perp_action_plain in \<open>auto simp: plain_delta_def\<close>)

end
