(* ===== verification/PerpProperties.thy ===== *)
theory PerpProperties
  imports PerpEffects Fixtures DecimalFixtures
begin

text \<open>
  The properties of the perpetuals domain: what opening on an order book commits, that increasing a
  position keeps its cost basis, and how closing settles.
\<close>

section \<open>Settling cash\<close>

lemma unat_unsigned_abs: "int (unat (unsigned_abs c)) = \<bar>sint c\<bar>"
proof -
  have "\<bar>sint c\<bar> \<le> 2 ^ 255" using sint_i256_bounds [of c] by linarith
  then show ?thesis by (simp add: unsigned_abs_def unsigned_of_int take_bit_int_eq_self)
qed

lemma clipped_sum: "0 \<le> a \<Longrightarrow> 0 \<le> b \<Longrightarrow> a + b \<le> m \<Longrightarrow> min (min a m + min b m) m = a + b"
  for a b m :: int
  by (simp add: min_def)

lemma settle_cash_applied:
  assumes "gas_paid d = None" and "apply_delta C s d = Inr s1" and "settle_cash s d k c = Inr d'"
    and "fungible_balance s1 k = Some b1" and "int (unat b1) + \<bar>sint c\<bar> < 2 ^ 255"
  shows "\<exists>ts b2. apply_delta C s d' = Inr (s1\<lparr>tokens := ts\<rparr>) \<and>
    fungible_balance (s1\<lparr>tokens := ts\<rparr>) k = Some b2 \<and>
    (\<forall>k'. k' \<noteq> k \<longrightarrow> fungible_balance (s1\<lparr>tokens := ts\<rparr>) k' = fungible_balance s1 k') \<and>
    int (unat b2) = int (unat b1) + sint c"
proof -
  consider (gain) "sint c > 0" | (loss) "sint c < 0" | (even) "sint c = 0" by linarith
  then show ?thesis
  proof cases
    case gain
    with assms(3) have "credit s d k (unsigned_abs c) = Inr d'" by (simp add: settle_cash_def)
    from credit_applied [OF assms(1,2) this] obtain ts b2 where
      "apply_delta C s d' = Inr (s1\<lparr>tokens := ts\<rparr>)" "fungible_balance (s1\<lparr>tokens := ts\<rparr>) k = Some b2"
      "\<forall>k'. k' \<noteq> k \<longrightarrow> fungible_balance (s1\<lparr>tokens := ts\<rparr>) k' = fungible_balance s1 k'"
      "int (unat b2) = min (min (int (unat b1)) (2 ^ 255 - 1) + min \<bar>sint c\<bar> (2 ^ 255 - 1)) (2 ^ 255 - 1)"
      using assms(4) unat_unsigned_abs [of c] by auto
    moreover from this(4) have "int (unat b2) = int (unat b1) + sint c"
      using gain assms(5) clipped_sum [of "int (unat b1)" "\<bar>sint c\<bar>" "2 ^ 255 - 1"] by linarith
    ultimately show ?thesis by blast
  next
    case loss
    with assms(3) have "debit s d k (unsigned_abs c) = Inr d'" by (simp add: settle_cash_def)
    from debit_applied [OF assms(1,2) this] obtain ts b2 where
      "apply_delta C s d' = Inr (s1\<lparr>tokens := ts\<rparr>)" "fungible_balance (s1\<lparr>tokens := ts\<rparr>) k = Some b2"
      "\<forall>k'. k' \<noteq> k \<longrightarrow> fungible_balance (s1\<lparr>tokens := ts\<rparr>) k' = fungible_balance s1 k'"
      "int (unat b2) = min (int (unat b1)) (2 ^ 255 - 1) - min \<bar>sint c\<bar> (2 ^ 255 - 1)"
      using assms(4) unat_unsigned_abs [of c] by auto
    moreover from this(4) have "int (unat b2) = int (unat b1) + sint c"
      using loss assms(5) by linarith
    ultimately show ?thesis by blast
  next
    case even
    with assms(3) have "d' = d" by (simp add: settle_cash_def)
    with assms(2,4) even show ?thesis by (intro exI [of _ "tokens s1"]) auto
  qed
qed

lemma checked_signed:
  "i256_checked_add a b = Some c \<Longrightarrow> sint c = sint a + sint b"
  "i256_checked_sub a b = Some c \<Longrightarrow> sint c = sint a - sint b"
  using sint_i256_of_int [of "sint a + sint b"] sint_i256_of_int [of "sint a - sint b"]
  by (auto simp: i256_checked_add_def i256_checked_sub_def split: if_splits)

lemma find_perp_Inr:
  "find_perp label s i = Inr pp \<longleftrightarrow>
     (\<exists>p. find (\<lambda>p. pos_id p = i) (positions s) = Some p \<and> pos_kind p = PerpPosition pp)"
proof (cases "find (\<lambda>p. pos_id p = i) (positions s)")
  case (Some p)
  then show ?thesis by (cases "pos_kind p") (simp_all add: find_perp_def)
qed (simp add: find_perp_def)

lemmas perp_margin_defs =
  hyperliquid_required_initial_margin_def aevo_required_initial_margin_def dydx_v4_required_initial_margin_def
  gmx_v2_required_initial_margin_def vertex_required_initial_margin_def drift_required_initial_margin_def
  jupiter_perps_required_initial_margin_def synthetix_required_initial_margin_def

section \<open>Closing\<close>

text \<open>C39. Closing a position that succeeds can be applied: exactly the positions of that id are
  removed, and the balance of its first collateral token rises by the locked margin plus profit minus
  fee plus funding (all within the signed 256-bit range). No other balance changes, so further
  collateral rows of the position are not returned.\<close>

theorem close_perp_settles:
  fixes D a s pp locked fee b
  defines "live \<equiv> cp_live_inputs a"
  defines "cash \<equiv> sint (lf_value (unrealized_pnl_now live)) - sint fee + sint (lf_value (cp_funding_accrued live))"
  assumes ok: "close_perp_apply D a s ctx = Inr d"
    and p: "find (\<lambda>p. pos_id p = cp_position_id a) (positions s) = Some p" "pos_kind p = PerpPosition pp"
    and rows: "collateral pp = (tok, locked) # rest"
    and fee: "notional_of D (size_base pp) (lf_value (cp_mark_price live)) = Inr n"
      "dl_i256 D (trunc_text D (d_div D (d_mul D n (of_nat (unat (lf_value (cp_fee_bp live))))) 10000)) = Some fee"
    and b: "fungible_balance s (ref_key tok) = Some b"
    and small: "int (unat b) + int (unat locked) + \<bar>cash\<bar> < 2 ^ 255"
  shows "\<exists>ts b'. apply_delta C s d =
      Inr (s\<lparr>tokens := ts, positions := filter (\<lambda>p. pos_id p \<noteq> cp_position_id a) (positions s)\<rparr>) \<and>
    fungible_balance (s\<lparr>tokens := ts\<rparr>) (ref_key tok) = Some b' \<and>
    int (unat b') = int (unat b) + int (unat locked) + cash \<and>
    (\<forall>k. k \<noteq> ref_key tok \<longrightarrow> fungible_balance (s\<lparr>tokens := ts\<rparr>) k = fungible_balance s k)"
proof -
  let ?k = "ref_key tok" and ?i = "cp_position_id a"
  have found: "find_perp ''close_perp'' s ?i = Inr pp" using p by (simp add: find_perp_Inr)
  from ok [unfolded close_perp_apply_def] found fee obtain net c d0 d1 where
    cash: "i256_checked_sub (lf_value (unrealized_pnl_now live)) fee = Some net"
      "i256_checked_add net (lf_value (cp_funding_accrued live)) = Some c"
    and d0: "credit s state_delta_new ?k locked = Inr d0" and d1: "settle_cash s d0 ?k c = Inr d1"
    and d: "d = push_position_change d1 (ClosePosition ?i)"
    by (auto simp: result_iff Let_def live_def first_collateral_def rows split: if_splits)
  have c: "sint c = cash" using checked_signed(2) [OF cash(1)] checked_signed(1) [OF cash(2)] by (simp add: cash_def)
  have g0: "gas_paid d0 = None" using credit_plain [OF d0] by (simp add: plain_delta_def)
  have g1: "gas_paid d1 = None"
    using settle_cash_plain [OF d1] credit_plain [OF d0] by (simp add: plain_delta_def)
  from credit_applied [where C = C, OF _ apply_delta_new d0] b obtain ts0 b0 where
    s0: "apply_delta C s d0 = Inr (s\<lparr>tokens := ts0\<rparr>)" "fungible_balance (s\<lparr>tokens := ts0\<rparr>) ?k = Some b0"
      "\<forall>k'. k' \<noteq> ?k \<longrightarrow> fungible_balance (s\<lparr>tokens := ts0\<rparr>) k' = fungible_balance s k'"
    and b0: "int (unat b0) =
      min (min (int (unat b)) (2 ^ 255 - 1) + min (int (unat locked)) (2 ^ 255 - 1)) (2 ^ 255 - 1)"
    by auto
  have b0: "int (unat b0) = int (unat b) + int (unat locked)"
    using b0 small clipped_sum [of "int (unat b)" "int (unat locked)" "2 ^ 255 - 1"] by linarith
  then have "int (unat b0) + \<bar>sint c\<bar> < 2 ^ 255" using small c by simp
  from settle_cash_applied [OF g0 s0(1) d1 s0(2) this] obtain ts b' where
    s1: "apply_delta C s d1 = Inr (s\<lparr>tokens := ts\<rparr>)" "fungible_balance (s\<lparr>tokens := ts\<rparr>) ?k = Some b'"
      "\<forall>k'. k' \<noteq> ?k \<longrightarrow> fungible_balance (s\<lparr>tokens := ts\<rparr>) k' = fungible_balance s k'"
      "int (unat b') = int (unat b0) + sint c"
    using s0(3) by auto
  have "p \<in> set (positions s)" "pos_id p = ?i" using p(1) by (auto simp: find_Some_iff)
  then have "length (filter (\<lambda>p. pos_id p \<noteq> ?i) (positions s)) < length (positions s)"
    by (intro length_filter_less) auto
  then have "apply_delta C s d =
      Inr (s\<lparr>tokens := ts, positions := filter (\<lambda>p. pos_id p \<noteq> ?i) (positions s)\<rparr>)"
    unfolding d apply_push_position [OF g1 s1(1)] by simp
  with s1 b0 c show ?thesis by fastforce
qed

definition sample_perp :: perp_position where
  "sample_perp = \<lparr>pp_venue = venue_ref_new ''vertex'', pp_market = \<lparr>market_symbol = ''ETH'', market_venue = venue_ref_new ''vertex''\<rparr>,
     pp_side = Long, size_base = 1, notional_usd = 3000, collateral = [(TokenRef usdc, 100), (TokenRef ether, 2)],
     entry_price = ''3000'', pp_margin_mode = Isolated, mark_price = live_field_new ''3000'' UserSupplied 0,
     liq_price = live_field_new None UserSupplied 0, unrealized_pnl = live_field_new 0 UserSupplied 0,
     funding_owed = live_field_new 0 UserSupplied 0, leverage = live_field_new ''1'' UserSupplied 0\<rparr>"

definition perp_wallet :: wallet_state where
  "perp_wallet = sample_wallet\<lparr>positions := [sample_position\<lparr>pos_id := ''p'', pos_kind := PerpPosition sample_perp\<rparr>]\<rparr>"

definition sample_close :: close_perp_action where
  "sample_close = \<lparr>cp_venue = Vertex ethereum_mainnet, cp_position_id = ''p'', cp_size = None, cp_slippage_bp = 0,
     cp_live_inputs = \<lparr>cp_mark_price = live_field_new ''3000'' UserSupplied 0,
       unrealized_pnl_now = live_field_new 50 UserSupplied 0,
       cp_funding_accrued = live_field_new 0 UserSupplied 0, cp_fee_bp = live_field_new 10 UserSupplied 0\<rparr>\<rparr>"

lemma sample_trunc: "trunc_text decimal96 (of_nat n) = dec_string n"
  using decimal96_whole [of n] by (simp add: trunc_text_def d_trunc_def)

lemmas sample_reads =
  decimal96_reads(1) [of 3000, unfolded sample_texts, simplified]
  decimal96_reads(1) [of 1, unfolded sample_texts, simplified]

lemmas sample_decimal_defs = d_add_def d_sub_def d_mul_def d_div_def decimal96_numeral

lemma sample_fee:
  "notional_of decimal96 1 ''3000'' = Inr 3000"
  "dl_i256 decimal96 (trunc_text decimal96 (d_div decimal96 (d_mul decimal96 3000 10) 10000)) = Some 3"
  using sample_trunc [of 3] decimal96_reads(2) [of 3] decimal96_reads(1) [of 1]
  by (simp_all add: notional_of_def perp_parse_decimal_def perp_u256_to_decimal_def sample_reads sample_decimal_defs)

lemma sample_close_runs: "is_ok (close_perp_apply decimal96 sample_close perp_wallet sample_ctx)"
  by (simp add: close_perp_apply_def sample_close_def perp_wallet_def find_perp_def live_field_new_def
      sample_perp_def sample_fee i256_checked_sub_def i256_checked_add_def first_collateral_def credit_def
      settle_cash_def Let_def)

theorem close_perp_settles_witness:
  "\<exists>d ts b'. close_perp_apply decimal96 sample_close perp_wallet sample_ctx = Inr d \<and>
     apply_delta sample_serde perp_wallet d = Inr (perp_wallet\<lparr>tokens := ts, positions := []\<rparr>) \<and>
     fungible_balance (perp_wallet\<lparr>tokens := ts\<rparr>) usdc = Some b' \<and> int (unat b') = 1147 \<and>
     fungible_balance (perp_wallet\<lparr>tokens := ts\<rparr>) ether = Some 5"
proof -
  obtain d where d: "close_perp_apply decimal96 sample_close perp_wallet sample_ctx = Inr d"
    using sample_close_runs by (auto simp: is_ok_iff)
  let ?p = "sample_position\<lparr>pos_id := ''p'', pos_kind := PerpPosition sample_perp\<rparr>"
  have balances: "fungible_balance perp_wallet usdc = Some 1000" "fungible_balance perp_wallet ether = Some 5"
    by (simp_all add: perp_wallet_def fungible_balance_def)
  have close: "cp_position_id sample_close = ''p''" "lf_value (cp_mark_price (cp_live_inputs sample_close)) = ''3000''"
    "lf_value (unrealized_pnl_now (cp_live_inputs sample_close)) = 50"
    "lf_value (cp_funding_accrued (cp_live_inputs sample_close)) = 0" "lf_value (cp_fee_bp (cp_live_inputs sample_close)) = 10"
    by (simp_all add: sample_close_def live_field_new_def)
  have found: "find (\<lambda>p. pos_id p = cp_position_id sample_close) (positions perp_wallet) = Some ?p"
    "pos_kind ?p = PerpPosition sample_perp"
    "collateral sample_perp = (TokenRef usdc, 100) # [(TokenRef ether, 2)]" "size_base sample_perp = 1"
    by (simp_all add: perp_wallet_def close sample_perp_def)
  have rest: "filter (\<lambda>p. pos_id p \<noteq> ''p'') (positions perp_wallet) = []"
    by (simp add: perp_wallet_def)
  show ?thesis
    using close_perp_settles [OF d found(1-3), where n = 3000 and fee = 3 and b = 1000 and C = sample_serde]
      d balances
    by (auto simp: close found(4) sample_fee rest)
qed

section \<open>Opening\<close>

text \<open>C40. Opening a position on an order-book venue only signs an order: applying the delta appends one
  pending entry and changes nothing else. The order is for the size that the action's size resolves to at
  the mark price, within the available open interest. The entry locks exactly the required margin, the
  notional over the leverage plus the taker fee, truncated, which is covered by the free margin; the
  leverage is not zero and within the venue's maximum (if it has one). Filling the order opens exactly the
  position of this venue, market and side with that size, notional, collateral and entry price.\<close>

theorem open_perp_orderbook_only_signs:
  fixes D a s
  defines "live \<equiv> op_live_inputs a" and "mark_text \<equiv> lf_value (op_mark_price (op_live_inputs a))"
  assumes ok: "open_perp_apply D a s ctx = Inr d" and book: "is_orderbook_venue (op_venue a)"
  shows "\<exists>margin base notional p pp size mark lev max_lev.
    apply_delta C s d = Inr (s\<lparr>pending := pending s @ [open_pending a ctx margin base p]\<rparr>) \<and>
    resolve_size_base D (op_size a) mark_text = Inr base \<and> base \<le> lf_value (available_oi live) \<and>
    dl_parse D (dec_string (unat base)) = Some size \<and> dl_parse D mark_text = Some mark \<and> mark \<noteq> 0 \<and>
    dl_parse D (op_leverage a) = Some lev \<and> lev \<noteq> 0 \<and>
    dl_parse D (lf_value (op_max_leverage live)) = Some max_lev \<and> (max_lev = 0 \<or> lev \<le> max_lev) \<and>
    (let value = d_mul D size mark; fee = d_mul D (of_nat (unat (lf_value (fee_taker_bp live)))) value;
         m = d_add D (d_div D value lev) (d_div D fee 10000)
     in 0 \<le> m \<and> dl_u256 D (trunc_text D m) = Some margin \<and> dl_u256 D (trunc_text D value) = Some notional) \<and>
    margin \<le> free_margin_usd (lf_value (op_user_account_state live)) \<and>
    ptx_commitment (open_pending a ctx margin base p) = HardLock (fst (op_collateral a)) margin \<and>
    position_changes (fill_effect (open_pending a ctx margin base p)) = [OpenPosition p] \<and>
    pos_id p = synth_position_id (op_venue a) (market_symbol (op_market a)) (op_side a) \<and>
    pos_kind p = PerpPosition pp \<and> pp_market pp = op_market a \<and> pp_side pp = op_side a \<and>
    size_base pp = base \<and> notional_usd pp = notional \<and> collateral pp = [op_collateral a] \<and>
    entry_price pp = mark_text"
proof -
  from ok book obtain margin base liq v notional where
    margin: "dispatch_required_initial_margin D a = Inr margin"
      "margin \<le> free_margin_usd (lf_value (op_user_account_state live))"
    and base: "resolve_size_base D (op_size a) mark_text = Inr base" "base \<le> lf_value (available_oi live)"
    and worth: "notional_of D base mark_text = Inr v" "dl_u256 D (trunc_text D v) = Some notional"
    and d: "d = push_pending_change state_delta_new
      (AddPending (open_pending a ctx margin base (opened_position a ctx base notional liq)))"
    by (auto simp: open_perp_apply_def result_iff Let_def live_def mark_text_def not_less split: if_splits)
  from margin(1) obtain label where "required_initial_margin_common D label a live = Inr margin"
    by (cases "op_venue a") (auto simp: dispatch_required_initial_margin_def live_def Let_def perp_margin_defs)
  then obtain mark lev max_lev size where
    parsed: "dl_parse D mark_text = Some mark" "mark \<noteq> 0" "dl_parse D (op_leverage a) = Some lev" "lev \<noteq> 0"
      "dl_parse D (lf_value (op_max_leverage live)) = Some max_lev" "max_lev = 0 \<or> lev \<le> max_lev"
      "dl_parse D (dec_string (unat base)) = Some size"
    and m: "0 \<le> d_add D (d_div D (d_mul D size mark) lev)
        (d_div D (d_mul D (of_nat (unat (lf_value (fee_taker_bp live)))) (d_mul D size mark)) 10000)"
      "dl_u256 D (trunc_text D (d_add D (d_div D (d_mul D size mark) lev)
        (d_div D (d_mul D (of_nat (unat (lf_value (fee_taker_bp live)))) (d_mul D size mark)) 10000))) = Some margin"
    using base(1)
    by (auto simp: required_initial_margin_common_def perp_parse_decimal_def perp_u256_to_decimal_def
        decimal_trunc_to_u256_def result_iff Let_def not_less live_def mark_text_def split: if_splits)
  have v: "v = d_mul D size mark"
    using worth(1) parsed(1,7) by (auto simp: notional_of_def perp_parse_decimal_def perp_u256_to_decimal_def result_iff)
  define p where "p = opened_position a ctx base notional liq"
  have applied: "apply_delta C s d = Inr (s\<lparr>pending := pending s @ [open_pending a ctx margin base p]\<rparr>)"
    by (simp add: d p_def apply_delta_def)
  obtain pp where pp: "pos_kind p = PerpPosition pp" "pp_market pp = op_market a" "pp_side pp = op_side a"
    "size_base pp = base" "notional_usd pp = notional" "collateral pp = [op_collateral a]" "entry_price pp = mark_text"
    by (simp add: p_def opened_position_def mark_text_def Let_def)
  have entry: "pos_id p = synth_position_id (op_venue a) (market_symbol (op_market a)) (op_side a)"
    "ptx_commitment (open_pending a ctx margin base p) = HardLock (fst (op_collateral a)) margin"
    "position_changes (fill_effect (open_pending a ctx margin base p)) = [OpenPosition p]"
    by (simp_all add: p_def open_pending_def opened_position_def Let_def)
  show ?thesis
    unfolding Let_def
    by (intro exI conjI)
      (fact applied base parsed m worth(2) [unfolded v] margin(2) entry pp)+
qed

definition sample_live :: open_perp_live_inputs where
  "sample_live = \<lparr>op_mark_price = live_field_new ''3000'' UserSupplied 0, oracle_price = live_field_new ''3000'' UserSupplied 0,
     funding_rate = live_field_new ''0'' UserSupplied 0, available_oi = live_field_new 100 UserSupplied 0,
     op_max_leverage = live_field_new ''3000'' UserSupplied 0, initial_margin_bp = live_field_new 0 UserSupplied 0,
     maintenance_bp = live_field_new 0 UserSupplied 0, fee_taker_bp = live_field_new 10 UserSupplied 0,
     fee_maker_bp = live_field_new 0 UserSupplied 0,
     op_user_account_state = live_field_new \<lparr>total_collateral_usd = 9000, used_margin_usd = 0,
       free_margin_usd = 9000, open_positions = []\<rparr> UserSupplied 0\<rparr>"

definition sample_open :: open_perp_action where
  "sample_open = \<lparr>op_venue = Hyperliquid arbitrum, op_market = \<lparr>market_symbol = ''ETH'', market_venue = venue_ref_new ''hyperliquid''\<rparr>,
     op_side = Long, op_size = BaseAmount 2, op_leverage = ''1'', op_collateral = (TokenRef usdc, 100),
     op_margin_mode = Isolated, op_slippage_bp = 0, op_reduce_only = False, op_live_inputs = sample_live\<rparr>"

lemma sample_margin: "dispatch_required_initial_margin decimal96 sample_open = Inr 6006"
  using sample_trunc [of 6006] decimal96_reads(3) [of 6006] decimal96_reads(1) [of 2]
  by (simp add: dispatch_required_initial_margin_def sample_open_def sample_live_def live_field_new_def Let_def
      perp_margin_defs required_initial_margin_common_def perp_parse_decimal_def perp_u256_to_decimal_def
      sample_reads sample_decimal_defs decimal_trunc_to_u256_def)

lemma sample_liquidation: "is_ok (tolerate_deferred (dispatch_liquidation_price decimal96 sample_open))"
  using decimal96_reads(1) [of 2] decimal96_reads(1) [of 9000]
  by (simp add: dispatch_liquidation_price_def sample_open_def sample_live_def live_field_new_def Let_def
      hyperliquid_liquidation_price_def liquidation_price_simple_def perp_parse_decimal_def
      perp_u256_to_decimal_def sample_reads tolerate_deferred_def)

lemma sample_open_runs: "is_ok (open_perp_apply decimal96 sample_open sample_wallet sample_ctx)"
proof -
  obtain liq where "tolerate_deferred (dispatch_liquidation_price decimal96 sample_open) = Inr liq"
    using sample_liquidation by (auto simp: is_ok_iff)
  moreover have "notional_of decimal96 2 ''3000'' = Inr 6000"
    using decimal96_reads(1) [of 2]
    by (simp add: notional_of_def perp_parse_decimal_def perp_u256_to_decimal_def sample_reads sample_decimal_defs)
  moreover have "dl_u256 decimal96 (trunc_text decimal96 6000) = Some 6000"
    using sample_trunc [of 6000] decimal96_reads(3) [of 6000] by simp
  moreover have open': "is_orderbook_venue (op_venue sample_open)" "op_size sample_open = BaseAmount 2"
    "lf_value (op_mark_price (op_live_inputs sample_open)) = ''3000''"
    "lf_value (available_oi (op_live_inputs sample_open)) = 100"
    "free_margin_usd (lf_value (op_user_account_state (op_live_inputs sample_open))) = 9000"
    by (simp_all add: sample_open_def sample_live_def live_field_new_def)
  ultimately show ?thesis
    by (simp add: open_perp_apply_def sample_margin Let_def)
qed

theorem open_perp_orderbook_only_signs_witness:
  "\<exists>d p. open_perp_apply decimal96 sample_open sample_wallet sample_ctx = Inr d \<and>
     apply_delta sample_serde sample_wallet d
       = Inr (sample_wallet\<lparr>pending := [open_pending sample_open sample_ctx 6006 2 p]\<rparr>)"
proof -
  obtain d where d: "open_perp_apply decimal96 sample_open sample_wallet sample_ctx = Inr d"
    using sample_open_runs by (auto simp: is_ok_iff)
  have book: "is_orderbook_venue (op_venue sample_open)" by (simp add: sample_open_def)
  have sample: "op_size sample_open = BaseAmount 2" "lf_value (op_mark_price (op_live_inputs sample_open)) = ''3000''"
    "op_leverage sample_open = ''1''" "lf_value (fee_taker_bp (op_live_inputs sample_open)) = 10"
    by (simp_all add: sample_open_def sample_live_def live_field_new_def)
  have margin: "dl_u256 decimal96 (trunc_text decimal96 6006) = Some 6006"
    using sample_trunc [of 6006] decimal96_reads(3) [of 6006] by simp
  from open_perp_orderbook_only_signs [OF d book, of sample_serde] decimal96_reads(1) [of 2] margin
  obtain p where "apply_delta sample_serde sample_wallet d
      = Inr (sample_wallet\<lparr>pending := [open_pending sample_open sample_ctx 6006 2 p]\<rparr>)"
    by (auto simp: sample sample_reads sample_decimal_defs Let_def)
  with d show ?thesis by blast
qed

section \<open>Increasing\<close>

lemma weighted_mean_between:
  fixes e m x y :: "'a::linordered_field"
  assumes "0 \<le> x" and "0 < y"
  shows "min e m \<le> (x * e + y * m) / (x + y)" and "(x * e + y * m) / (x + y) \<le> max e m"
proof -
  have pos: "0 < x + y" using assms by simp
  have "min e m * (x + y) \<le> x * e + y * m"
    using add_mono [OF mult_left_mono [of "min e m" e x] mult_left_mono [of "min e m" m y]] assms
    by (simp add: algebra_simps)
  then show "min e m \<le> (x * e + y * m) / (x + y)" using pos by (simp add: pos_le_divide_eq)
  have "x * e + y * m \<le> max e m * (x + y)"
    using add_mono [OF mult_left_mono [of e "max e m" x] mult_left_mono [of m "max e m" y]] assms
    by (simp add: algebra_simps)
  then show "(x * e + y * m) / (x + y) \<le> max e m" using pos by (simp add: pos_divide_le_eq)
qed

text \<open>Increasing a position that succeeds queues one update: the size grows by exactly the resolved amount
  without wrapping, and, as long as the decimal type holds the two costs and their sum, the new entry price
  is the cost basis (the sum of both costs) over the new size, rounded once, and lies between the old entry
  price and the mark.\<close>

theorem increase_perp_keeps_cost_basis:
  fixes D a s pp
  defines "mark \<equiv> lf_value (op_mark_price (ip_live_inputs a))" and "held \<equiv> of_nat (unat (size_base pp)) :: rat"
  assumes laws: "decimal_laws D"
    and ok: "increase_perp_apply D C a s ctx = Inr d"
    and p: "find (\<lambda>p. pos_id p = ip_position_id a) (positions s) = Some p" "pos_kind p = PerpPosition pp"
    and prices: "dl_parse D (entry_price pp) = Some e" "dl_parse D mark = Some m"
    and holds: "\<And>base. resolve_size_base D (ip_size a) mark = Inr base \<Longrightarrow>
      decimal_value (held * e) \<and> decimal_value (of_nat (unat base) * m) \<and>
      decimal_value (held * e + of_nat (unat base) * m)"
  shows "\<exists>base pp' e'. resolve_size_base D (ip_size a) mark = Inr base \<and>
    position_changes d = [UpdatePosition (ip_position_id a) (snapshot_patch C (p\<lparr>pos_kind := PerpPosition pp'\<rparr>))] \<and>
    unat (size_base pp') = unat (size_base pp) + unat base \<and> entry_price pp' = dl_show D e' \<and>
    e' = dl_fit D ((held * e + of_nat (unat base) * m) / of_nat (unat (size_base pp'))) \<and>
    min e m \<le> e' \<and> e' \<le> max e m"
proof -
  let ?i = "ip_position_id a"
  have found: "find_perp ''increase_perp'' s ?i = Inr pp" using p by (simp add: find_perp_Inr)
  have dec: "perp_u256_to_decimal D w = Inr r \<longleftrightarrow> unat w < 2 ^ 96 \<and> r = of_nat (unat w)" for w r
    using parse_law(1) [OF laws, of "unat w"] by (auto simp: perp_u256_to_decimal_def ok_or_Inr_iff)
  note run = ok [unfolded increase_perp_apply_def, folded mark_def]
  let ?f = "\<lambda>q. case add_collateral a of Some (tok, amt) \<Rightarrow> add_to_rows tok amt (collateral q) | None \<Rightarrow> collateral q"
  let ?mean = "\<lambda>base total. d_div D (d_add D (d_mul D held e) (d_mul D (of_nat (unat base)) m)) (of_nat (unat total))"
  obtain base total notional d0 where
    base: "resolve_size_base D (ip_size a) mark = Inr base" "base \<noteq> 0"
    and total: "checked_add (size_base pp) base = Some total"
    and paid: "(case add_collateral a of Some (tok, amount) \<Rightarrow> debit s state_delta_new (ref_key tok) amount
      | None \<Rightarrow> Inr state_delta_new) = Inr d0"
    and d: "upsert_perp_position C s d0 ?i (on_perp (\<lambda>q. q\<lparr>size_base := total, notional_usd := notional,
        entry_price := dl_show D (?mean base total), collateral := ?f q\<rparr>)) = Inr d"
    using run found
    by (auto simp: rbind_Inr_iff ok_or_Inr_iff dec perp_parse_decimal_def prices held_def
        perp_decimal_to_state_def Let_def split: if_splits)
  have d0: "position_changes d0 = []"
    using paid by (auto simp: debit_def rbind_Inr_iff Let_def split: option.splits prod.splits if_splits)
  have sum: "unat total = unat (size_base pp) + unat base" by (rule unat_checked_add [OF total])
  have pos: "0 < (of_nat (unat base) :: rat)" using base(2) by (simp only: of_nat_0_less_iff unat_gt_0 not_False_eq_True)
  let ?q = "(held * e + of_nat (unat base) * m) / of_nat (unat total)"
  have mean: "?mean base total = dl_fit D ?q"
    using holds [OF base(1)] by (simp add: d_div_def d_add_def d_mul_def fit_value [OF laws])
  have between: "min e m \<le> ?q" "?q \<le> max e m"
    unfolding sum of_nat_add held_def by (rule weighted_mean_between [OF of_nat_0_le_iff pos])+
  have em: "decimal_value (min e m)" "decimal_value (max e m)"
    using parse_law(2) [OF laws] prices by (auto simp: min_def max_def)
  have "\<bar>?q\<bar> \<le> 2 ^ 96 - 1"
    using between em [THEN decimal_value_range] by linarith
  from fit_bounds(1) [OF laws this em(1) between(1)] fit_bounds(2) [OF laws this em(2) between(2)]
  have "min e m \<le> ?mean base total" "?mean base total \<le> max e m" unfolding mean .
  moreover from d d0 p have "position_changes d = [UpdatePosition ?i (snapshot_patch C (p\<lparr>pos_kind := PerpPosition
      (pp\<lparr>size_base := total, notional_usd := notional, entry_price := dl_show D (?mean base total),
        collateral := ?f pp\<rparr>)\<rparr>))]"
    by (auto simp: perp.upsert_Inr effective_position_def on_perp_def)
  ultimately show ?thesis using base(1) sum mean by fastforce
qed

definition sample_increase :: increase_perp_action where
  "sample_increase = \<lparr>ip_venue = Vertex ethereum_mainnet, ip_position_id = ''p'', ip_size = BaseAmount 2,
     add_collateral = None, ip_slippage_bp = 0, ip_live_inputs = sample_live\<rparr>"

lemma sample_increase_runs: "is_ok (increase_perp_apply decimal96 C sample_increase perp_wallet sample_ctx)"
proof -
  have "dl_u256 decimal96 (trunc_text decimal96 9000) = Some 9000"
    using sample_trunc [of 9000] decimal96_reads(3) [of 9000] by simp
  then show ?thesis
    using decimal96_reads(1) [of 1] decimal96_reads(1) [of 2] decimal96_reads(1) [of 3]
    by (simp add: increase_perp_apply_def sample_increase_def sample_live_def live_field_new_def perp_wallet_def
        find_perp_def sample_perp_def perp_u256_to_decimal_def perp_parse_decimal_def sample_reads
        sample_decimal_defs checked_add_def upsert_perp_position_def effective_position_def on_perp_def Let_def)
qed

theorem increase_perp_keeps_cost_basis_witness:
  "\<exists>d pp' e'. increase_perp_apply decimal96 sample_serde sample_increase perp_wallet sample_ctx = Inr d \<and>
     position_changes d = [UpdatePosition ''p'' (snapshot_patch sample_serde
       (sample_position\<lparr>pos_id := ''p'', pos_kind := PerpPosition pp'\<rparr>))] \<and>
     unat (size_base pp') = 3 \<and> e' = 3000 \<and> entry_price pp' = dl_show decimal96 e'"
proof -
  let ?p = "sample_position\<lparr>pos_id := ''p'', pos_kind := PerpPosition sample_perp\<rparr>"
  obtain d where d: "increase_perp_apply decimal96 sample_serde sample_increase perp_wallet sample_ctx = Inr d"
    using sample_increase_runs by (auto simp: is_ok_iff)
  have inc: "ip_position_id sample_increase = ''p''" "ip_size sample_increase = BaseAmount 2"
    "lf_value (op_mark_price (ip_live_inputs sample_increase)) = ''3000''"
    by (simp_all add: sample_increase_def sample_live_def live_field_new_def)
  have found: "find (\<lambda>p. pos_id p = ip_position_id sample_increase) (positions perp_wallet) = Some ?p"
    "pos_kind ?p = PerpPosition sample_perp"
    by (simp_all add: perp_wallet_def inc)
  have prices: "dl_parse decimal96 (entry_price sample_perp) = Some 3000"
    "dl_parse decimal96 (lf_value (op_mark_price (ip_live_inputs sample_increase))) = Some 3000"
    by (simp_all add: inc sample_perp_def sample_reads)
  have size: "unat (size_base sample_perp) = 1" by (simp add: sample_perp_def)
  have "decimal_value 3000" "decimal_value 6000" "decimal_value 9000"
    using decimal_value_nat [of 3000] decimal_value_nat [of 6000] decimal_value_nat [of 9000] by simp_all
  then have holds: "decimal_value (of_nat (unat (size_base sample_perp)) * 3000) \<and>
      decimal_value (of_nat (unat base) * 3000) \<and>
      decimal_value (of_nat (unat (size_base sample_perp)) * 3000 + of_nat (unat base) * 3000)"
    if "resolve_size_base decimal96 (ip_size sample_increase)
      (lf_value (op_mark_price (ip_live_inputs sample_increase))) = Inr base" for base
    using that by (auto simp: inc size)
  from increase_perp_keeps_cost_basis [OF decimal96_ok d found prices holds] obtain pp' e' where
    "position_changes d = [UpdatePosition ''p'' (snapshot_patch sample_serde (?p\<lparr>pos_kind := PerpPosition pp'\<rparr>))]"
    "unat (size_base pp') = 3" "entry_price pp' = dl_show decimal96 e'" "3000 \<le> e'" "e' \<le> 3000"
    by (auto simp: inc size)
  with d show ?thesis by (fastforce intro: antisym)
qed

end
