(* ===== verification/PolicyTypes.thy ===== *)
theory PolicyTypes
  imports Deltas
begin

text \<open>
  The data of the policy engine: action metadata (\<^verbatim>\<open>asset-model/action/src/lib.rs\<close>), action views
  (\<^verbatim>\<open>action/src/view.rs\<close>), manifests, triggers and planned calls (\<^verbatim>\<open>policy-engine/src/policy_rpc\<close>), lowered
  requests and what the host adds to them (\<^verbatim>\<open>lowering_v2\<close>), the rows of the schema resolver (\<^verbatim>\<open>schema\<close>) and
  the values that cross the WASM boundary (\<^verbatim>\<open>policy-engine-wasm/src\<close>).
\<close>

section \<open>Action metadata and views\<close>

record eip712_domain =
  dom_name :: string
  dom_version :: "string option"
  dom_chain_id :: "u64 option"
  verifying_contract :: "address option"
  dom_salt :: "string option"

datatype action_nature =
    OnchainTx chain_id u64 u256 "u256 live_field" u256
  | OffchainSig eip712_domain time "nonce_key option"

record action_meta =
  submitted_at :: time
  submitter :: address
  nature :: action_nature

record action_view =
  vw_domain :: string
  vw_action_tag :: "string option"
  vw_venue_name :: "string option"

section \<open>Manifests\<close>

datatype policy_rpc_error =
    InvalidManifest string
  | SelectorError string
  | RpcResult string
  | RpcSchema string
  | SystemFail string string

datatype trigger_scope = ScopeInner | ScopeOuter

datatype trigger_field = ActionDomain | ActionTag | ActionVenue | TxChainId | TxFrom | TxTo

datatype trigger_constraint =
    ConEq string
  | ConNe string
  | ConIn "string list"
  | ConNin "string list"

record trigger =
  trg_scope :: trigger_scope
  trg_where :: "(trigger_field \<times> trigger_constraint) list"

datatype projection_type =
    ProjString | ProjLong | ProjBool | ProjDecimal | ProjUsdValuation | ProjWindowStats | ProjSetString

fun cedar_type :: "projection_type \<Rightarrow> string" where
  "cedar_type ProjString = ''String''"
| "cedar_type ProjLong = ''Long''"
| "cedar_type ProjBool = ''Bool''"
| "cedar_type ProjDecimal = ''decimal''"
| "cedar_type ProjUsdValuation = ''UsdValuation''"
| "cedar_type ProjWindowStats = ''WindowStats''"
| "cedar_type ProjSetString = ''Set<String>''"

record context_projection =
  prj_kind :: string
  prj_field :: string
  prj_type :: projection_type
  prj_from :: string
  prj_required :: bool

record call_spec =
  spec_id :: string
  spec_method :: string
  spec_params :: "(string \<times> json) list"
  spec_outputs :: "context_projection list"
  spec_optional :: bool

record manifest =
  man_id :: string
  schema_version :: u64
  man_trigger :: trigger
  man_rpc :: "call_spec list"
  custom_fields :: "(string \<times> string) list"

section \<open>Triggers, selectors and planned calls\<close>

record tx_view =
  txv_chain_id :: string
  txv_from :: string
  txv_to :: string

record selector_roots =
  root_tx :: json
  root_action :: json
  root_context :: json
  root_result :: json
  root_params :: json

record planned_call =
  pc_manifest_id :: string
  pc_call_id :: string
  pc_method :: string
  pc_params :: json
  pc_outputs :: "context_projection list"
  pc_optional :: bool

section \<open>Lowered requests\<close>

type_synonym token_decimals = "string \<rightharpoonup> u8"
type_synonym account_leverage = "string \<rightharpoonup> int"

record market_enrichment =
  me_max_leverage :: "int option"
  me_leverage_type :: "string option"
  me_notional_usd :: "int option"
  me_position_roe_bps :: "int option"
  me_liquidation_distance_bps :: "int option"
  me_has_open_position :: "bool option"

record account_enrichment =
  ae_account_value_usd :: "int option"
  ae_margin_used_ratio_bps :: "int option"

record order_enrichment =
  oe_markets :: "string \<rightharpoonup> market_enrichment"
  oe_account :: account_enrichment

definition order_enrichment_default :: order_enrichment where
  "order_enrichment_default =
     \<lparr>oe_markets = Map.empty,
      oe_account = \<lparr>ae_account_value_usd = None, ae_margin_used_ratio_bps = None\<rparr>\<rparr>"

record lowered_action =
  la_principal :: string
  la_action_uid :: string
  la_resource :: string
  la_context :: json

record tx_meta =
  txm_from :: string
  txm_to :: string

datatype lower_error = Unsupported string

record lower_ctx =
  lc_meta :: action_meta
  lc_tx :: tx_meta
  lc_decimals :: token_decimals
  lc_leverage :: account_leverage
  lc_enrichment :: order_enrichment
  lc_nonce_text :: "nonce_key \<Rightarrow> string option"
  lc_u256_of :: "string \<Rightarrow> u256 option"

record lower_env =
  le_nonce_text :: "nonce_key \<Rightarrow> string option"
  le_u256_of :: "string \<Rightarrow> u256 option"

section \<open>Schema rows and the WASM boundary\<close>

record action_entry =
  ent_domain :: string
  ent_action_tag :: "string option"
  ent_schema :: string
  pascal_stub :: string

record tx_input =
  ti_chain_id :: string
  ti_from :: string
  ti_to :: string

record bundle_input =
  bi_policy :: string
  bi_manifest :: manifest

record engine_error_dto =
  err_kind :: string
  err_message :: string

record matched_policy_dto =
  mpd_policy_id :: string
  mpd_reason :: "string option"
  mpd_severity :: string
  mpd_origin :: string

datatype verdict_dto = DtoPass | DtoWarn "matched_policy_dto list" | DtoFail "matched_policy_dto list"

end
