(* ===== verification/DistributionActions.thy ===== *)
theory DistributionActions
  imports Deltas
begin

text \<open>
  \<^verbatim>\<open>asset-model/action/src/airdrop\<close>, \<^verbatim>\<open>asset-model/action/src/launchpad\<close> and
  \<^verbatim>\<open>asset-model/action/src/hyperliquid_core\<close>: claims, sales and the actions on a Hyperliquid account.
\<close>

section \<open>Airdrops\<close>

datatype claim_target =
    MerkleDistributor chain_id address u64
  | SignatureDistributor chain_id address
  | StakingClaim chain_id address

record claim_donation =
  do_amount :: u256
  do_token :: token_ref
  do_claim_amount :: u256

record claim_airdrop_live_inputs =
  is_still_claimable :: "bool live_field"
  actual_amount :: "u256 live_field"
  claim_token :: "token_ref live_field"
  ca_claim_window :: "(time \<times> time) option live_field"

record claim_airdrop_action =
  ca_source :: protocol_ref
  claim_target :: claim_target
  ca_recipient :: address
  ca_proof :: "merkle_proof option"
  ca_sig :: "string option"
  donation :: "claim_donation option"
  ca_live_inputs :: claim_airdrop_live_inputs

datatype governance_power_type = VotingAndProposition | VotingPower | PropositionPower

record delegate_live_inputs =
  current_delegate :: "address option live_field"
  voting_power :: "u256 live_field"

record delegate_governance_action =
  dg_token :: token_ref
  dg_delegatee :: address
  power_type :: governance_power_type
  dg_live_inputs :: delegate_live_inputs

datatype airdrop_action =
    AirdropClaimAction claim_airdrop_action
  | AirdropDelegate delegate_governance_action

fun airdrop_action_tag :: "airdrop_action \<Rightarrow> string" where
  "airdrop_action_tag (AirdropClaimAction _) = ''claim''"
| "airdrop_action_tag (AirdropDelegate _) = ''delegate''"

section \<open>Launchpads\<close>

record sale_state =
  is_active :: bool
  total_committed :: u256
  hard_cap :: "u256 option"
  soft_cap :: "u256 option"
  sale_window :: "time \<times> time"
  sale_vest_schedule :: "vest_schedule option"

record commit_live_inputs =
  co_sale_state :: "sale_state live_field"
  user_cap :: "u256 live_field"
  user_committed :: "u256 live_field"
  expected_token_price :: "price option live_field"

record commit_action =
  co_platform :: protocol_ref
  co_sale_id :: string
  co_pay_token :: token_ref
  co_amount :: u256
  co_recipient :: address
  co_live_inputs :: commit_live_inputs

record claim_allocation_live_inputs =
  cal_allocated :: "(token_ref \<times> u256) live_field"
  refund_due :: "u256 live_field"
  is_claimable :: "bool live_field"

record claim_allocation_action =
  cal_platform :: protocol_ref
  cal_sale_id :: string
  cal_recipient :: address
  cal_live_inputs :: claim_allocation_live_inputs

record claim_vested_live_inputs =
  cv_claimable_now :: "u256 live_field"
  next_unlock :: "(time \<times> u256) option live_field"

record claim_vested_action =
  cv_position_id :: position_id
  cv_amount :: "u256 option"
  cv_live_inputs :: claim_vested_live_inputs

record refund_live_inputs =
  refund_amount :: "u256 live_field"
  refund_token :: "token_ref live_field"

record refund_action =
  rf_platform :: protocol_ref
  rf_sale_id :: string
  rf_recipient :: address
  rf_live_inputs :: refund_live_inputs

record withdraw_commit_live_inputs =
  withdrawable :: "u256 live_field"
  wc_sale_state :: "sale_state live_field"

record withdraw_commit_action =
  wc_platform :: protocol_ref
  wc_sale_id :: string
  wc_amount :: "u256 option"
  wc_live_inputs :: withdraw_commit_live_inputs

datatype launchpad_action =
    CommitSale commit_action
  | ClaimAllocation claim_allocation_action
  | ClaimVested claim_vested_action
  | Refund refund_action
  | WithdrawCommit withdraw_commit_action

fun launchpad_action_tag :: "launchpad_action \<Rightarrow> string" where
  "launchpad_action_tag (CommitSale _) = ''commit''"
| "launchpad_action_tag (ClaimAllocation _) = ''claim_allocation''"
| "launchpad_action_tag (ClaimVested _) = ''claim_vested''"
| "launchpad_action_tag (Refund _) = ''refund''"
| "launchpad_action_tag (WithdrawCommit _) = ''withdraw_commit''"

section \<open>Hyperliquid core\<close>

record hl_withdraw_action =
  hlw_destination :: address
  hlw_amount :: decimal

record hl_usd_send_action =
  hlu_destination :: address
  hlu_amount :: decimal

record hl_spot_send_action =
  hls_destination :: address
  hls_token :: string
  hls_amount :: decimal

record hl_usd_class_transfer_action =
  hlc_amount :: decimal
  hlc_to_perp :: bool

record hl_send_asset_action =
  hla_destination :: address
  hla_source_dex :: string
  hla_destination_dex :: string
  hla_token :: string
  hla_amount :: decimal

record hl_send_to_evm_with_data_action =
  hle_token :: string
  hle_amount :: decimal
  hle_source_dex :: string
  hle_destination_recipient :: address
  hle_data :: string

record hl_vault_transfer_action =
  hlv_vault_address :: address
  hlv_is_deposit :: bool
  hlv_usd :: decimal

record hl_sub_account_transfer_action =
  hlb_sub_account_user :: address
  hlb_is_deposit :: bool
  hlb_usd :: decimal

record hl_token_delegate_action =
  hlt_validator :: address
  hlt_is_undelegate :: bool
  hlt_wei :: decimal

datatype hyperliquid_core_action =
    HlWithdraw hl_withdraw_action
  | HlUsdSend hl_usd_send_action
  | HlSpotSend hl_spot_send_action
  | HlUsdClassTransfer hl_usd_class_transfer_action
  | HlSendAsset hl_send_asset_action
  | HlSendToEvmWithData hl_send_to_evm_with_data_action
  | HlCDeposit decimal
  | HlCWithdraw decimal
  | HlVaultTransfer hl_vault_transfer_action
  | HlSubAccountTransfer hl_sub_account_transfer_action
  | HlTokenDelegate hl_token_delegate_action
  | HlUnknown string

fun hyperliquid_core_action_tag :: "hyperliquid_core_action \<Rightarrow> string" where
  "hyperliquid_core_action_tag (HlWithdraw _) = ''hl_withdraw''"
| "hyperliquid_core_action_tag (HlUsdSend _) = ''hl_usd_send''"
| "hyperliquid_core_action_tag (HlSpotSend _) = ''hl_spot_send''"
| "hyperliquid_core_action_tag (HlUsdClassTransfer _) = ''hl_usd_class_transfer''"
| "hyperliquid_core_action_tag (HlSendAsset _) = ''hl_send_asset''"
| "hyperliquid_core_action_tag (HlSendToEvmWithData _) = ''hl_send_to_evm_with_data''"
| "hyperliquid_core_action_tag (HlCDeposit _) = ''hl_c_deposit''"
| "hyperliquid_core_action_tag (HlCWithdraw _) = ''hl_c_withdraw''"
| "hyperliquid_core_action_tag (HlVaultTransfer _) = ''hl_vault_transfer''"
| "hyperliquid_core_action_tag (HlSubAccountTransfer _) = ''hl_sub_account_transfer''"
| "hyperliquid_core_action_tag (HlTokenDelegate _) = ''hl_token_delegate''"
| "hyperliquid_core_action_tag (HlUnknown _) = ''hl_unknown''"

end
