(* ===== verification/DistributionEffects.thy ===== *)
theory DistributionEffects
  imports DistributionActions Decimals Balances PositionHelpers ReducerContract
begin

text \<open>
  The reducers of \<^verbatim>\<open>asset-model/transition/src/effect/airdrop.rs\<close>, \<^verbatim>\<open>launchpad.rs\<close> and \<^verbatim>\<open>hyperliquid_core\<close>.
\<close>

section \<open>Airdrops\<close>

definition validate_claim_target :: "claim_airdrop_action \<Rightarrow> unit reducer_result" where
  "validate_claim_target a =
     (case claim_target a of
        MerkleDistributor _ _ _ \<Rightarrow>
          if ca_proof a = None then Inl (MissingField ''ClaimAirdropAction.proof for MerkleDistributor'')
          else Inr ()
      | SignatureDistributor _ _ \<Rightarrow>
          if ca_sig a = None then Inl (MissingField ''ClaimAirdropAction.sig for SignatureDistributor'')
          else Inr ()
      | StakingClaim _ _ \<Rightarrow> Inr ())"

definition airdrop_position_id :: "claim_airdrop_action \<Rightarrow> string" where
  "airdrop_position_id a = ''airdrop:'' @ pr_name (ca_source a) @ '':'' @ lowercase_hex (ca_recipient a)"

definition claimed_position :: "claim_airdrop_action \<Rightarrow> eval_context \<Rightarrow> position" where
  "claimed_position a ctx =
     (let live = ca_live_inputs a; token = lf_value (claim_token live) in
      \<lparr>pos_id = airdrop_position_id a, pos_protocol = ca_source a,
       pos_chain = Some (key_chain (ref_key token)),
       pos_kind = AirdropClaim
         \<lparr>ac_source = ca_source a, claimable = token, ac_amount = lf_value (actual_amount live),
          ac_proof = ca_proof a, claim_window = lf_value (ca_claim_window live), ac_status = Claimed\<rparr>,
       pos_synced_at = now ctx, pos_source = UserSupplied\<rparr>)"

definition claim_airdrop_apply ::
  "claim_airdrop_action \<Rightarrow> wallet_state \<Rightarrow> eval_context \<Rightarrow> state_delta reducer_result" where
  "claim_airdrop_apply a s ctx =
     (let live = ca_live_inputs a in
      if \<not> lf_value (is_still_claimable live) then fail ''airdrop claim is no longer claimable''
      else if (case lf_value (ca_claim_window live) of
                 Some (start, until) \<Rightarrow> now ctx < start \<or> now ctx > until
               | None \<Rightarrow> False)
      then fail ''airdrop claim is outside its valid window''
      else
        rbind (validate_claim_target a) (\<lambda>_.
        rbind (credit s state_delta_new (ref_key (lf_value (claim_token live))) (lf_value (actual_amount live)))
          (\<lambda>d. Inr (push_position_change d (OpenPosition (claimed_position a ctx))))))"

definition delegate_governance_apply ::
  "delegate_governance_action \<Rightarrow> wallet_state \<Rightarrow> eval_context \<Rightarrow> state_delta reducer_result" where
  "delegate_governance_apply a s ctx =
     (if is_erc20 (ref_key (dg_token a)) then Inr state_delta_new
      else fail ''DelegateGovernanceAction.token must be Erc20'')"

fun airdrop_action_apply ::
  "airdrop_action \<Rightarrow> wallet_state \<Rightarrow> eval_context \<Rightarrow> state_delta reducer_result" where
  "airdrop_action_apply (AirdropClaimAction a) s ctx = claim_airdrop_apply a s ctx"
| "airdrop_action_apply (AirdropDelegate a) s ctx = delegate_governance_apply a s ctx"

section \<open>Launchpads\<close>

definition launchpad_position_id :: "string \<Rightarrow> string \<Rightarrow> address \<Rightarrow> string" where
  "launchpad_position_id platform_name sale recipient =
     ''launchpad:'' @ platform_name @ '':'' @ sale @ '':'' @ lowercase_hex recipient"

fun queued_launchpad :: "position_id \<Rightarrow> position_change list \<Rightarrow> position option option" where
  "queued_launchpad i [] = None"
| "queued_launchpad i (OpenPosition p # cs) = (if pos_id p = i then Some (Some p) else queued_launchpad i cs)"
| "queued_launchpad i (ClosePosition j # cs) = (if j = i then Some None else queued_launchpad i cs)"
| "queued_launchpad i (UpdatePosition _ _ # cs) = queued_launchpad i cs"

definition effective_launchpad_position :: "wallet_state \<Rightarrow> state_delta \<Rightarrow> position_id \<Rightarrow> position option" where
  "effective_launchpad_position s d i =
     (case queued_launchpad i (rev (position_changes d)) of
        Some r \<Rightarrow> r
      | None \<Rightarrow> find (\<lambda>p. pos_id p = i) (positions s))"

definition push_position_update :: "position_serde \<Rightarrow> state_delta \<Rightarrow> position \<Rightarrow> state_delta" where
  "push_position_update C d p =
     (let after = (case to_value C p of Inl _ \<Rightarrow> JNull | Inr j \<Rightarrow> j)
      in push_position_change d (UpdatePosition (pos_id p) (PositionPatch (JObj [(''after'', after)]))))"

definition as_allocation :: "position \<Rightarrow> launchpad_allocation reducer_result" where
  "as_allocation p =
     (case pos_kind p of
        LaunchpadAllocation al \<Rightarrow> Inr al
      | _ \<Rightarrow> fail ''position exists but is not a LaunchpadAllocation'')"

fun add_paid :: "token_ref \<Rightarrow> u256 \<Rightarrow> (token_ref \<times> u256) list \<Rightarrow> (token_ref \<times> u256) list reducer_result" where
  "add_paid tok amt [] = Inr [(tok, amt)]"
| "add_paid tok amt ((t, a) # rows) =
     (if t = tok
      then rbind (ok_or (checked_add a amt) (Invariant ''paid sum overflow'')) (\<lambda>total. Inr ((t, total) # rows))
      else rbind (add_paid tok amt rows) (\<lambda>rows'. Inr ((t, a) # rows')))"

definition committed_position :: "commit_action \<Rightarrow> eval_context \<Rightarrow> position_id \<Rightarrow> position" where
  "committed_position a ctx i =
     (let default_vest = \<lparr>vs_start = now ctx, cliff = None, vs_end = Some (now ctx), curve = LinearVest, vs_total = 0\<rparr>
      in \<lparr>pos_id = i, pos_protocol = co_platform a, pos_chain = Some (key_chain (ref_key (co_pay_token a))),
          pos_kind = LaunchpadAllocation
            \<lparr>platform = co_platform a, sale_id = co_sale_id a, paid = [(co_pay_token a, co_amount a)],
             allocated = (co_pay_token a, 0),
             vest = (case sale_vest_schedule (lf_value (co_sale_state (co_live_inputs a))) of
                       Some v \<Rightarrow> v | None \<Rightarrow> default_vest),
             lp_claimed = 0, lp_claimable_now = 0\<rparr>,
          pos_synced_at = now ctx, pos_source = UserSupplied\<rparr>)"

definition commit_guard :: "commit_action \<Rightarrow> eval_context \<Rightarrow> unit reducer_result" where
  "commit_guard a ctx =
     (let live = co_live_inputs a; sale = lf_value (co_sale_state live) in
      if \<not> is_active sale then fail ''launchpad commit rejected: sale is not active''
      else if now ctx < fst (sale_window sale) \<or> now ctx > snd (sale_window sale)
      then fail ''launchpad commit outside sale_window''
      else
      rbind (ok_or (checked_add (lf_value (user_committed live)) (co_amount a))
               (Invariant ''launchpad commit overflow'')) (\<lambda>new_user_total.
      if new_user_total > lf_value (user_cap live) then fail ''launchpad commit exceeds user cap''
      else
        case hard_cap sale of
          None \<Rightarrow> Inr ()
        | Some hard \<Rightarrow>
            rbind (ok_or (checked_add (total_committed sale) (co_amount a))
                     (Invariant ''launchpad commit overflow on total_committed'')) (\<lambda>new_total.
              if new_total > hard then fail ''launchpad commit exceeds hard cap'' else Inr ())))"

definition commit_apply ::
  "position_serde \<Rightarrow> commit_action \<Rightarrow> wallet_state \<Rightarrow> eval_context \<Rightarrow> state_delta reducer_result" where
  "commit_apply C a s ctx =
     rbind (commit_guard a ctx) (\<lambda>_.
     rbind (debit s state_delta_new (ref_key (co_pay_token a)) (co_amount a)) (\<lambda>d.
       let i = launchpad_position_id (pr_name (co_platform a)) (co_sale_id a) (co_recipient a) in
       case effective_launchpad_position s d i of
         Some existing \<Rightarrow>
           rbind (as_allocation existing) (\<lambda>al.
           rbind (add_paid (co_pay_token a) (co_amount a) (paid al)) (\<lambda>rows.
             Inr (push_position_update C d
                    (existing\<lparr>pos_kind := LaunchpadAllocation (al\<lparr>paid := rows\<rparr>), pos_synced_at := now ctx\<rparr>))))
       | None \<Rightarrow> Inr (push_position_change d (OpenPosition (committed_position a ctx i)))))"

definition has_vest_window :: "vest_schedule \<Rightarrow> bool" where
  "has_vest_window v = (vs_start v < (case vs_end v of Some e \<Rightarrow> e | None \<Rightarrow> vs_start v))"

definition claim_allocation_apply ::
  "position_serde \<Rightarrow> claim_allocation_action \<Rightarrow> wallet_state \<Rightarrow> eval_context \<Rightarrow> state_delta reducer_result" where
  "claim_allocation_apply C a s ctx =
     (let live = cal_live_inputs a in
      if \<not> lf_value (is_claimable live) then fail ''launchpad allocation is not yet claimable''
      else
      let (alloc_token, alloc_amount) = lf_value (cal_allocated live); refund = lf_value (refund_due live) in
      rbind (credit s state_delta_new (ref_key alloc_token) alloc_amount) (\<lambda>d.
      let i = launchpad_position_id (pr_name (cal_platform a)) (cal_sale_id a) (cal_recipient a) in
      rbind (ok_or (effective_launchpad_position s d i) (PositionNotFound i)) (\<lambda>existing.
      rbind (as_allocation existing) (\<lambda>al.
      rbind (if refund \<noteq> 0
             then case paid al of
                    [] \<Rightarrow> fail ''ClaimAllocation refund but no paid entries''
                  | (pay_token, _) # _ \<Rightarrow> credit s d (ref_key pay_token) refund
             else Inr d) (\<lambda>d'.
        let al' = al\<lparr>allocated := (alloc_token, alloc_amount)\<rparr>;
            al'' = (if has_vest_window (vest al)
                    then al'\<lparr>vest := (vest al)\<lparr>vs_total := alloc_amount\<rparr>\<rparr>
                    else al'\<lparr>lp_claimed := alloc_amount, lp_claimable_now := 0\<rparr>)
        in Inr (push_position_update C d'
                  (existing\<lparr>pos_kind := LaunchpadAllocation al'', pos_synced_at := now ctx\<rparr>)))))))"

definition claim_vested_apply ::
  "position_serde \<Rightarrow> claim_vested_action \<Rightarrow> wallet_state \<Rightarrow> eval_context \<Rightarrow> state_delta reducer_result" where
  "claim_vested_apply C a s ctx =
     (let i = cv_position_id a in
      rbind (ok_or (effective_launchpad_position s state_delta_new i) (PositionNotFound i)) (\<lambda>existing.
      let available = lf_value (cv_claimable_now (cv_live_inputs a));
          requested = (case cv_amount a of Some x \<Rightarrow> x | None \<Rightarrow> available)
      in
      if requested > available then fail ''ClaimVested requests more than claimable_now''
      else if requested = 0 then Inr state_delta_new
      else
        case pos_kind existing of
          LaunchpadAllocation al \<Rightarrow>
            rbind (credit s state_delta_new (ref_key (fst (allocated al))) requested) (\<lambda>d.
            rbind (ok_or (checked_add (lp_claimed al) requested) (Invariant ''claimed overflow'')) (\<lambda>total.
              Inr (push_position_update C d
                     (existing\<lparr>pos_kind := LaunchpadAllocation
                        (al\<lparr>lp_claimed := total, lp_claimable_now := saturating_sub available requested\<rparr>),
                        pos_synced_at := now ctx\<rparr>))))
        | VestingSchedule vs \<Rightarrow>
            rbind (credit s state_delta_new (ref_key (vest_token vs)) requested) (\<lambda>d.
            rbind (ok_or (checked_add (vest_claimed vs) requested) (Invariant ''claimed overflow'')) (\<lambda>total.
              Inr (push_position_update C d
                     (existing\<lparr>pos_kind := VestingSchedule
                        (vs\<lparr>vest_claimed := total,
                            vest_claimable_now := saturating_sub (vest_claimable_now vs) requested\<rparr>),
                        pos_synced_at := now ctx\<rparr>))))
        | _ \<Rightarrow> fail ''ClaimVested target is not a LaunchpadAllocation or VestingSchedule''))"

definition refund_apply :: "refund_action \<Rightarrow> wallet_state \<Rightarrow> eval_context \<Rightarrow> state_delta reducer_result" where
  "refund_apply a s ctx =
     (let live = rf_live_inputs a; amount = lf_value (refund_amount live) in
      if amount = 0 then fail ''RefundAction has refund_amount = 0''
      else
      rbind (credit s state_delta_new (ref_key (lf_value (refund_token live))) amount) (\<lambda>d.
        let i = launchpad_position_id (pr_name (rf_platform a)) (rf_sale_id a) (rf_recipient a) in
        Inr (if effective_launchpad_position s d i \<noteq> None
             then push_position_change d (ClosePosition i) else d)))"

definition total_paid :: "(token_ref \<times> u256) list \<Rightarrow> u256" where
  "total_paid rows =
     foldl (\<lambda>acc x. case checked_add acc x of Some y \<Rightarrow> y | None \<Rightarrow> 0) 0 (map snd rows)"

definition withdraw_commit_apply ::
  "position_serde \<Rightarrow> withdraw_commit_action \<Rightarrow> wallet_state \<Rightarrow> eval_context \<Rightarrow> state_delta reducer_result" where
  "withdraw_commit_apply C a s ctx =
     (let live = wc_live_inputs a; available = lf_value (withdrawable live);
          requested = (case wc_amount a of Some x \<Rightarrow> x | None \<Rightarrow> available)
      in
      if \<not> is_active (lf_value (wc_sale_state live))
      then fail ''WithdrawCommit rejected: sale is no longer active''
      else if requested = 0 then fail ''WithdrawCommit requested zero''
      else if requested > available then fail ''WithdrawCommit: requested > withdrawable''
      else
      let i = launchpad_position_id (pr_name (wc_platform a)) (wc_sale_id a) (wid_address (ws_id s)) in
      rbind (ok_or (effective_launchpad_position s state_delta_new i) (PositionNotFound i)) (\<lambda>existing.
      rbind (as_allocation existing) (\<lambda>al.
        case paid al of
          [] \<Rightarrow> fail ''WithdrawCommit but position has no paid entries''
        | (pay_token, first) # rest \<Rightarrow>
            rbind (credit s state_delta_new (ref_key pay_token) requested) (\<lambda>d.
              if requested \<ge> total_paid (paid al) then Inr (push_position_change d (ClosePosition i))
              else Inr (push_position_update C d
                     (existing\<lparr>pos_kind := LaunchpadAllocation
                        (al\<lparr>paid := (pay_token, saturating_sub first requested) # rest\<rparr>),
                        pos_synced_at := now ctx\<rparr>))))))"

fun launchpad_action_apply ::
  "position_serde \<Rightarrow> launchpad_action \<Rightarrow> wallet_state \<Rightarrow> eval_context \<Rightarrow> state_delta reducer_result" where
  "launchpad_action_apply C (CommitSale a) s ctx = commit_apply C a s ctx"
| "launchpad_action_apply C (ClaimAllocation a) s ctx = claim_allocation_apply C a s ctx"
| "launchpad_action_apply C (ClaimVested a) s ctx = claim_vested_apply C a s ctx"
| "launchpad_action_apply C (Refund a) s ctx = refund_apply a s ctx"
| "launchpad_action_apply C (WithdrawCommit a) s ctx = withdraw_commit_apply C a s ctx"

section \<open>Hyperliquid core\<close>

definition hl_account_id :: string where
  "hl_account_id = ''hyperliquid/account''"

definition hl_protocol_ref :: protocol_ref where
  "hl_protocol_ref = protocol_ref_new ''hyperliquid''"

definition hl_account_position :: "hl_account \<Rightarrow> time \<Rightarrow> position" where
  "hl_account_position acct t =
     \<lparr>pos_id = hl_account_id, pos_protocol = hl_protocol_ref, pos_chain = None,
      pos_kind = HyperliquidAccount acct, pos_synced_at = t, pos_source = UserSupplied\<rparr>"

fun first_hl_account :: "position list \<Rightarrow> hl_account option" where
  "first_hl_account [] = None"
| "first_hl_account (p # ps) =
     (case pos_kind p of
        HyperliquidAccount acct \<Rightarrow> if pos_id p = hl_account_id then Some acct else first_hl_account ps
      | _ \<Rightarrow> first_hl_account ps)"

definition find_hl_account :: "wallet_state \<Rightarrow> hl_account option" where
  "find_hl_account s = first_hl_account (positions s)"

definition hl_parse :: "decimal_lib \<Rightarrow> decimal \<Rightarrow> rat reducer_result" where
  "hl_parse D d = ok_or (dl_parse D d) (Invariant ''HL decimal parse'')"

definition decimal_sub_nonneg :: "decimal_lib \<Rightarrow> decimal \<Rightarrow> decimal \<Rightarrow> decimal reducer_result" where
  "decimal_sub_nonneg D lhs rhs =
     rbind (hl_parse D lhs) (\<lambda>l. rbind (hl_parse D rhs) (\<lambda>r.
       let out = d_sub D l r in
       if out < 0 then fail ''HL balance underflow'' else Inr (dl_show D out)))"

definition decimal_nonneg :: "decimal_lib \<Rightarrow> decimal \<Rightarrow> decimal reducer_result" where
  "decimal_nonneg D d =
     rbind (hl_parse D d) (\<lambda>v.
       if v < 0 then fail ''HL amount must be non-negative'' else Inr (dl_show D v))"

definition decimal_add :: "decimal_lib \<Rightarrow> decimal \<Rightarrow> decimal \<Rightarrow> decimal reducer_result" where
  "decimal_add D lhs rhs =
     rbind (hl_parse D lhs) (\<lambda>l. rbind (hl_parse D rhs) (\<lambda>r. Inr (dl_show D (d_add D l r))))"

definition on_hl :: "(hl_account \<Rightarrow> hl_account) \<Rightarrow> position \<Rightarrow> position" where
  "on_hl f p = (case pos_kind p of HyperliquidAccount acct \<Rightarrow> p\<lparr>pos_kind := HyperliquidAccount (f acct)\<rparr> | _ \<Rightarrow> p)"

definition apply_outflow ::
  "decimal_lib \<Rightarrow> position_serde \<Rightarrow> decimal \<Rightarrow> wallet_state \<Rightarrow> eval_context \<Rightarrow> state_delta reducer_result" where
  "apply_outflow D C raw s ctx =
     rbind (decimal_nonneg D raw) (\<lambda>amount.
       case find_hl_account s of
         Some base \<Rightarrow>
           rbind (case perp_usdc base of
                    Some bal \<Rightarrow> rbind (decimal_sub_nonneg D bal amount) (\<lambda>r. Inr (Some r))
                  | None \<Rightarrow> Inr None) (\<lambda>new_usdc.
           rbind (decimal_add D (pending_outflow base) amount) (\<lambda>new_outflow.
             upsert_hl_account C s state_delta_new hl_account_id
               (on_hl (\<lambda>acct. acct\<lparr>perp_usdc := new_usdc, pending_outflow := new_outflow\<rparr>))))
       | None \<Rightarrow>
           open_position s state_delta_new
             (hl_account_position (hl_account_default\<lparr>perp_usdc := None, pending_outflow := amount\<rparr>) (now ctx)))"

definition hl_withdraw_apply ::
  "decimal_lib \<Rightarrow> position_serde \<Rightarrow> hl_withdraw_action \<Rightarrow> wallet_state \<Rightarrow> eval_context
     \<Rightarrow> state_delta reducer_result" where
  "hl_withdraw_apply D C a s ctx = apply_outflow D C (hlw_amount a) s ctx"

definition hl_usd_send_apply ::
  "decimal_lib \<Rightarrow> position_serde \<Rightarrow> hl_usd_send_action \<Rightarrow> wallet_state \<Rightarrow> eval_context
     \<Rightarrow> state_delta reducer_result" where
  "hl_usd_send_apply D C a s ctx = apply_outflow D C (hlu_amount a) s ctx"

fun hyperliquid_core_action_apply ::
  "decimal_lib \<Rightarrow> position_serde \<Rightarrow> hyperliquid_core_action \<Rightarrow> wallet_state \<Rightarrow> eval_context
     \<Rightarrow> state_delta reducer_result" where
  "hyperliquid_core_action_apply D C (HlWithdraw a) s ctx = hl_withdraw_apply D C a s ctx"
| "hyperliquid_core_action_apply D C (HlUsdSend a) s ctx = hl_usd_send_apply D C a s ctx"
| "hyperliquid_core_action_apply D C _ s ctx = Inr state_delta_new"

section \<open>The reducer contract\<close>

lemma push_position_update_plain [simp]: "plain_delta (push_position_update C d p) = plain_delta d"
  by (simp add: push_position_update_def Let_def)

lemma airdrop_action_plain: "airdrop_action_apply a s ctx = Inr d \<Longrightarrow> plain_delta d"
  by (cases a) (auto simp: claim_airdrop_apply_def delegate_governance_apply_def rbind_Inr_iff Let_def
      split: if_splits dest!: plain_helpers)

lemma launchpad_action_plain: "launchpad_action_apply C a s ctx = Inr d \<Longrightarrow> plain_delta d"
  by (cases a)
    (auto simp: commit_apply_def claim_allocation_apply_def claim_vested_apply_def refund_apply_def
      withdraw_commit_apply_def rbind_Inr_iff Let_def
      split: if_splits option.splits list.splits prod.splits position_kind.splits dest!: plain_helpers)

lemma apply_outflow_plain: "apply_outflow D C raw s ctx = Inr d \<Longrightarrow> plain_delta d"
  by (cases "find_hl_account s") (auto simp: apply_outflow_def rbind_Inr_iff dest!: plain_helpers)

lemma hyperliquid_core_action_plain: "hyperliquid_core_action_apply D C a s ctx = Inr d \<Longrightarrow> plain_delta d"
  by (cases a) (auto simp: hl_withdraw_apply_def hl_usd_send_apply_def dest: apply_outflow_plain)

interpretation airdrop_domain: reducer airdrop_action_apply
  by unfold_locales (use airdrop_action_plain in \<open>auto simp: plain_delta_def\<close>)

interpretation launchpad_domain: reducer "launchpad_action_apply C" for C
  by unfold_locales (use launchpad_action_plain in \<open>auto simp: plain_delta_def\<close>)

interpretation hyperliquid_core_domain: reducer "hyperliquid_core_action_apply D C" for D C
  by unfold_locales (use hyperliquid_core_action_plain in \<open>auto simp: plain_delta_def\<close>)

end
