(* ===== verification/StakingDomains.thy ===== *)
theory StakingDomains
  imports Wallets
begin

text \<open>
  The liquid-staking, restaking and staking domains (\<^verbatim>\<open>asset-model/action/src\<close> and \<^verbatim>\<open>asset-model/transition/src/effect\<close>).
  Each per-action reducer of these domains returns the empty delta: the state effect is left to the
  sync runtime, and the policies judge the action itself.
\<close>

section \<open>Liquid staking\<close>

datatype liquid_staking_venue =
    Lido chain_id

record liquid_stake_action =
  lss_venue :: liquid_staking_venue
  lss_amount :: u256
  lss_referral :: "address option"

record steth_wrap_live_inputs =
  lswl_expected_wsteth :: "u256 live_field"

record steth_wrap_action =
  lsw_venue :: liquid_staking_venue
  lsw_amount :: u256
  lsw_live_inputs :: steth_wrap_live_inputs

record steth_unwrap_live_inputs =
  lsul_expected_steth :: "u256 live_field"

record steth_unwrap_action =
  lsu_venue :: liquid_staking_venue
  lsu_amount :: u256
  lsu_live_inputs :: steth_unwrap_live_inputs

record embedded_permit =
  lsep_value :: u256
  lsep_deadline :: u256

record request_withdrawal_action =
  lsrw_venue :: liquid_staking_venue
  lsrw_token :: token_ref
  lsrw_amounts :: "u256 list"
  lsrw_owner :: address
  lsrw_embedded_permit :: "embedded_permit option"

record claim_withdrawal_action =
  lscw_venue :: liquid_staking_venue
  lscw_request_ids :: "u256 list"
  lscw_recipient :: "address option"

record transfer_shares_live_inputs =
  lstsl_pooled_eth :: "u256 live_field"

record transfer_shares_action =
  lsts_venue :: liquid_staking_venue
  lsts_recipient :: address
  lsts_shares :: u256
  lsts_from :: "address option"
  lsts_live_inputs :: transfer_shares_live_inputs

datatype liquid_staking_action =
    LiquidStake liquid_stake_action
  | LiquidWrap steth_wrap_action
  | LiquidUnwrap steth_unwrap_action
  | LiquidRequestWithdrawal request_withdrawal_action
  | LiquidClaimWithdrawal claim_withdrawal_action
  | LiquidTransferShares transfer_shares_action

fun liquid_staking_venue_name :: "liquid_staking_venue \<Rightarrow> string" where
  "liquid_staking_venue_name (Lido _) = ''lido''"

fun liquid_staking_action_tag :: "liquid_staking_action \<Rightarrow> string" where
  "liquid_staking_action_tag (LiquidStake _) = ''stake''"
| "liquid_staking_action_tag (LiquidWrap _) = ''wrap''"
| "liquid_staking_action_tag (LiquidUnwrap _) = ''unwrap''"
| "liquid_staking_action_tag (LiquidRequestWithdrawal _) = ''request_withdrawal''"
| "liquid_staking_action_tag (LiquidClaimWithdrawal _) = ''claim_withdrawal''"
| "liquid_staking_action_tag (LiquidTransferShares _) = ''transfer_shares''"

fun liquid_staking_venue_of :: "liquid_staking_action \<Rightarrow> string option" where
  "liquid_staking_venue_of (LiquidStake a) = Some (liquid_staking_venue_name (lss_venue a))"
| "liquid_staking_venue_of (LiquidWrap a) = Some (liquid_staking_venue_name (lsw_venue a))"
| "liquid_staking_venue_of (LiquidUnwrap a) = Some (liquid_staking_venue_name (lsu_venue a))"
| "liquid_staking_venue_of (LiquidRequestWithdrawal a) = Some (liquid_staking_venue_name (lsrw_venue a))"
| "liquid_staking_venue_of (LiquidClaimWithdrawal a) = Some (liquid_staking_venue_name (lscw_venue a))"
| "liquid_staking_venue_of (LiquidTransferShares a) = Some (liquid_staking_venue_name (lsts_venue a))"

definition liquid_staking_action_apply ::
  "liquid_staking_action \<Rightarrow> wallet_state \<Rightarrow> eval_context \<Rightarrow> state_delta reducer_result" where
  "liquid_staking_action_apply a s ctx = Inr state_delta_new"

section \<open>Restaking\<close>

datatype restaking_venue =
    EigenLayer chain_id

record delegate_to_action =
  rsdt_venue :: restaking_venue
  rsdt_operator :: address
  rsdt_approver_salt :: string

record redelegate_action =
  rsr_venue :: restaking_venue
  rsr_new_operator :: address
  rsr_approver_salt :: string

record undelegate_action =
  rsu_venue :: restaking_venue
  rsu_staker :: address

record restaking_deposit_action =
  rsd_venue :: restaking_venue
  rsd_strategy :: address
  rsd_token :: token_ref
  rsd_amount :: u256
  rsd_staker :: "address option"

record queue_withdrawal_action =
  rsqw_venue :: restaking_venue
  rsqw_strategies :: "address list"
  rsqw_deposit_shares :: "u256 list"
  rsqw_withdrawer :: address

record complete_withdrawal_action =
  rscw_venue :: restaking_venue
  rscw_staker :: address
  rscw_withdrawer :: address
  rscw_strategies :: "address list"
  rscw_receive_as_tokens :: "bool option"

record register_operator_action =
  rsro_venue :: restaking_venue
  rsro_delegation_approver :: address
  rsro_allocation_delay :: u32
  rsro_metadata_uri :: string

datatype restaking_action =
    RestakeDelegateTo delegate_to_action
  | RestakeRedelegate redelegate_action
  | RestakeUndelegate undelegate_action
  | RestakeDeposit restaking_deposit_action
  | RestakeQueueWithdrawal queue_withdrawal_action
  | RestakeCompleteWithdrawal complete_withdrawal_action
  | RestakeRegisterOperator register_operator_action

fun restaking_venue_name :: "restaking_venue \<Rightarrow> string" where
  "restaking_venue_name (EigenLayer _) = ''eigenlayer''"

fun restaking_action_tag :: "restaking_action \<Rightarrow> string" where
  "restaking_action_tag (RestakeDelegateTo _) = ''delegate_to''"
| "restaking_action_tag (RestakeRedelegate _) = ''redelegate''"
| "restaking_action_tag (RestakeUndelegate _) = ''undelegate''"
| "restaking_action_tag (RestakeDeposit _) = ''deposit''"
| "restaking_action_tag (RestakeQueueWithdrawal _) = ''queue_withdrawal''"
| "restaking_action_tag (RestakeCompleteWithdrawal _) = ''complete_withdrawal''"
| "restaking_action_tag (RestakeRegisterOperator _) = ''register_operator''"

fun restaking_venue_of :: "restaking_action \<Rightarrow> string option" where
  "restaking_venue_of (RestakeDelegateTo a) = Some (restaking_venue_name (rsdt_venue a))"
| "restaking_venue_of (RestakeRedelegate a) = Some (restaking_venue_name (rsr_venue a))"
| "restaking_venue_of (RestakeUndelegate a) = Some (restaking_venue_name (rsu_venue a))"
| "restaking_venue_of (RestakeDeposit a) = Some (restaking_venue_name (rsd_venue a))"
| "restaking_venue_of (RestakeQueueWithdrawal a) = Some (restaking_venue_name (rsqw_venue a))"
| "restaking_venue_of (RestakeCompleteWithdrawal a) = Some (restaking_venue_name (rscw_venue a))"
| "restaking_venue_of (RestakeRegisterOperator a) = Some (restaking_venue_name (rsro_venue a))"

definition restaking_action_apply ::
  "restaking_action \<Rightarrow> wallet_state \<Rightarrow> eval_context \<Rightarrow> state_delta reducer_result" where
  "restaking_action_apply a s ctx = Inr state_delta_new"

section \<open>Staking and vote escrow\<close>

datatype stake_venue =
    CurveVotingEscrow chain_id address
  | CurveMinter chain_id address
  | CurveGaugeController chain_id address
  | CurveGauge chain_id address
  | CurveFeeDistributor chain_id address
  | AaveSafetyModule chain_id address
  | AaveUmbrellaStakeToken chain_id address
  | AaveUmbrellaRewardsController chain_id address
  | AaveSavingsGho chain_id address
  | EthenaStakedUsde chain_id address

record lock_action =
  skl_venue :: stake_venue
  skl_token :: token_ref
  skl_amount :: u256
  skl_unlock_time :: u256

record increase_lock_amount_action =
  skila_venue :: stake_venue
  skila_token :: token_ref
  skila_amount :: u256
  skila_on_behalf_of :: "address option"

record increase_lock_time_action =
  skilt_venue :: stake_venue
  skilt_unlock_time :: u256

record unlock_action =
  sku_venue :: stake_venue
  sku_token :: token_ref

record claim_rewards_action =
  skcr_venue :: stake_venue
  skcr_reward_token :: "token_ref option"
  skcr_gauges :: "address list"
  skcr_on_behalf_of :: "address option"
  skcr_recipient :: "address option"

record vote_for_gauge_action =
  skvfg_venue :: stake_venue
  skvfg_gauge :: address
  skvfg_weight_bp :: u256

record gauge_deposit_action =
  skgd_venue :: stake_venue
  skgd_amount :: u256
  skgd_on_behalf_of :: "address option"

record gauge_withdraw_action =
  skgw_venue :: stake_venue
  skgw_amount :: u256

record stake_action =
  sks_venue :: stake_venue
  sks_asset :: "token_ref option"
  sks_amount :: u256
  sks_on_behalf_of :: "address option"
  sks_recipient :: "address option"

datatype cooldown_denomination =
    DenomShares
  | DenomAssets

record cooldown_action =
  skc_venue :: stake_venue
  skc_account :: "address option"
  skc_amount :: "u256 option"
  skc_denomination :: "cooldown_denomination option"

record redeem_action =
  skr_venue :: stake_venue
  skr_amount :: u256
  skr_recipient :: "address option"

datatype staking_action =
    StakeLock lock_action
  | StakeIncreaseLockAmount increase_lock_amount_action
  | StakeIncreaseLockTime increase_lock_time_action
  | StakeUnlock unlock_action
  | StakeClaimRewards claim_rewards_action
  | StakeVoteForGauge vote_for_gauge_action
  | StakeGaugeDeposit gauge_deposit_action
  | StakeGaugeWithdraw gauge_withdraw_action
  | StakeStake stake_action
  | StakeCooldown cooldown_action
  | StakeRedeem redeem_action

fun stake_venue_name :: "stake_venue \<Rightarrow> string" where
  "stake_venue_name (CurveVotingEscrow _ _) = ''curve_voting_escrow''"
| "stake_venue_name (CurveMinter _ _) = ''curve_minter''"
| "stake_venue_name (CurveGaugeController _ _) = ''curve_gauge_controller''"
| "stake_venue_name (CurveGauge _ _) = ''curve_gauge''"
| "stake_venue_name (CurveFeeDistributor _ _) = ''curve_fee_distributor''"
| "stake_venue_name (AaveSafetyModule _ _) = ''aave_safety_module''"
| "stake_venue_name (AaveUmbrellaStakeToken _ _) = ''aave_umbrella_stake_token''"
| "stake_venue_name (AaveUmbrellaRewardsController _ _) = ''aave_umbrella_rewards_controller''"
| "stake_venue_name (AaveSavingsGho _ _) = ''aave_savings_gho''"
| "stake_venue_name (EthenaStakedUsde _ _) = ''ethena_staked_usde''"

fun staking_action_tag :: "staking_action \<Rightarrow> string" where
  "staking_action_tag (StakeLock _) = ''lock''"
| "staking_action_tag (StakeIncreaseLockAmount _) = ''increase_lock_amount''"
| "staking_action_tag (StakeIncreaseLockTime _) = ''increase_lock_time''"
| "staking_action_tag (StakeUnlock _) = ''unlock''"
| "staking_action_tag (StakeClaimRewards _) = ''claim_rewards''"
| "staking_action_tag (StakeVoteForGauge _) = ''vote_for_gauge''"
| "staking_action_tag (StakeGaugeDeposit _) = ''gauge_deposit''"
| "staking_action_tag (StakeGaugeWithdraw _) = ''gauge_withdraw''"
| "staking_action_tag (StakeStake _) = ''stake''"
| "staking_action_tag (StakeCooldown _) = ''cooldown''"
| "staking_action_tag (StakeRedeem _) = ''redeem''"

fun staking_venue_of :: "staking_action \<Rightarrow> string option" where
  "staking_venue_of (StakeLock a) = Some (stake_venue_name (skl_venue a))"
| "staking_venue_of (StakeIncreaseLockAmount a) = Some (stake_venue_name (skila_venue a))"
| "staking_venue_of (StakeIncreaseLockTime a) = Some (stake_venue_name (skilt_venue a))"
| "staking_venue_of (StakeUnlock a) = Some (stake_venue_name (sku_venue a))"
| "staking_venue_of (StakeClaimRewards a) = Some (stake_venue_name (skcr_venue a))"
| "staking_venue_of (StakeVoteForGauge a) = Some (stake_venue_name (skvfg_venue a))"
| "staking_venue_of (StakeGaugeDeposit a) = Some (stake_venue_name (skgd_venue a))"
| "staking_venue_of (StakeGaugeWithdraw a) = Some (stake_venue_name (skgw_venue a))"
| "staking_venue_of (StakeStake a) = Some (stake_venue_name (sks_venue a))"
| "staking_venue_of (StakeCooldown a) = Some (stake_venue_name (skc_venue a))"
| "staking_venue_of (StakeRedeem a) = Some (stake_venue_name (skr_venue a))"

definition staking_action_apply ::
  "staking_action \<Rightarrow> wallet_state \<Rightarrow> eval_context \<Rightarrow> state_delta reducer_result" where
  "staking_action_apply a s ctx = Inr state_delta_new"

end
