(* ===== verification/ServiceDomains.thy ===== *)
theory ServiceDomains
  imports Wallets
begin

text \<open>
  The bridge, governance, marketplace, permission and yield domains (\<^verbatim>\<open>asset-model/action/src\<close> and
  \<^verbatim>\<open>asset-model/transition/src/effect\<close>).
  Each per-action reducer of these domains returns the empty delta: the state effect is left to the
  sync runtime, and the policies judge the action itself.
\<close>

section \<open>Bridges\<close>

datatype bridge_venue =
    AcrossSpokePool
  | LiFiDiamond

datatype bridge_recipient =
    RecipientEvm address
  | RecipientRaw string

record bridge_send_action =
  brbs_venue :: bridge_venue
  brbs_src_token :: token_ref
  brbs_input_amount :: u256
  brbs_dst_chain_id :: chain_id
  brbs_dst_recipient :: bridge_recipient
  brbs_dst_token :: "token_ref option"
  brbs_output_amount :: "u256 option"
  brbs_exclusive_relayer :: "address option"
  brbs_has_message :: bool

datatype bridge_action =
    BridgeSend bridge_send_action

fun bridge_venue_name :: "bridge_venue \<Rightarrow> string" where
  "bridge_venue_name AcrossSpokePool = ''across_spoke_pool''"
| "bridge_venue_name LiFiDiamond = ''lifi_diamond''"

fun bridge_action_tag :: "bridge_action \<Rightarrow> string" where
  "bridge_action_tag (BridgeSend _) = ''send''"

fun bridge_venue_of :: "bridge_action \<Rightarrow> string option" where
  "bridge_venue_of (BridgeSend a) = Some (bridge_venue_name (brbs_venue a))"

definition bridge_action_apply ::
  "bridge_action \<Rightarrow> wallet_state \<Rightarrow> eval_context \<Rightarrow> state_delta reducer_result" where
  "bridge_action_apply a s ctx = Inr state_delta_new"

section \<open>Governance\<close>

datatype governance_venue =
    AaveGovernanceV3 chain_id address
  | AaveVotingMachine chain_id address
  | GovernanceToken chain_id token_ref

datatype governance_delegation_kind =
    DelegatingAll
  | DelegatingVoting
  | DelegatingProposition
  | DelegatingRaw

record governance_proposal_ref_action =
  gvgpr_venue :: governance_venue
  gvgpr_proposal_id :: u256

record governance_delegate_live_inputs =
  gvgdl_current_delegate :: "address option live_field"
  gvgdl_governance_power :: "u256 live_field"

record governance_delegate_action =
  gvgd_venue :: governance_venue
  gvgd_token :: token_ref
  gvgd_delegatee :: address
  gvgd_delegation_kind :: governance_delegation_kind
  gvgd_raw_delegation_type :: "u8 option"
  gvgd_live_inputs :: governance_delegate_live_inputs

record governance_redeem_cancellation_fee_action =
  gvgrcf_venue :: governance_venue
  gvgrcf_proposal_id :: u256

record governance_update_representative_action =
  gvgur_venue :: governance_venue
  gvgur_representative :: address
  gvgur_representative_chain_id :: u256

record governance_propose_action =
  gvgp_venue :: governance_venue
  gvgp_payload_targets :: "address list"
  gvgp_payload_count :: u256
  gvgp_metadata :: string

record governance_vote_action =
  gvgv_venue :: governance_venue
  gvgv_proposal_id :: u256
  gvgv_support :: bool
  gvgv_reason :: "string option"

datatype governance_action =
    GovDelegate governance_delegate_action
  | GovVote governance_vote_action
  | GovPropose governance_propose_action
  | GovCancel governance_proposal_ref_action
  | GovActivateVoting governance_proposal_ref_action
  | GovQueue governance_proposal_ref_action
  | GovExecute governance_proposal_ref_action
  | GovStartVote governance_proposal_ref_action
  | GovCloseVote governance_proposal_ref_action
  | GovRedeemCancellationFee governance_redeem_cancellation_fee_action
  | GovUpdateRepresentative governance_update_representative_action

fun governance_venue_name :: "governance_venue \<Rightarrow> string" where
  "governance_venue_name (AaveGovernanceV3 _ _) = ''aave_governance_v3''"
| "governance_venue_name (AaveVotingMachine _ _) = ''aave_voting_machine''"
| "governance_venue_name (GovernanceToken _ _) = ''governance_token''"

fun governance_action_tag :: "governance_action \<Rightarrow> string" where
  "governance_action_tag (GovDelegate _) = ''delegate''"
| "governance_action_tag (GovVote _) = ''vote''"
| "governance_action_tag (GovPropose _) = ''propose''"
| "governance_action_tag (GovCancel _) = ''cancel''"
| "governance_action_tag (GovActivateVoting _) = ''activate_voting''"
| "governance_action_tag (GovQueue _) = ''queue''"
| "governance_action_tag (GovExecute _) = ''execute''"
| "governance_action_tag (GovStartVote _) = ''start_vote''"
| "governance_action_tag (GovCloseVote _) = ''close_vote''"
| "governance_action_tag (GovRedeemCancellationFee _) = ''redeem_cancellation_fee''"
| "governance_action_tag (GovUpdateRepresentative _) = ''update_representative''"

fun governance_venue_of :: "governance_action \<Rightarrow> string option" where
  "governance_venue_of (GovDelegate a) = Some (governance_venue_name (gvgd_venue a))"
| "governance_venue_of (GovVote a) = Some (governance_venue_name (gvgv_venue a))"
| "governance_venue_of (GovPropose a) = Some (governance_venue_name (gvgp_venue a))"
| "governance_venue_of (GovCancel a) = Some (governance_venue_name (gvgpr_venue a))"
| "governance_venue_of (GovActivateVoting a) = Some (governance_venue_name (gvgpr_venue a))"
| "governance_venue_of (GovQueue a) = Some (governance_venue_name (gvgpr_venue a))"
| "governance_venue_of (GovExecute a) = Some (governance_venue_name (gvgpr_venue a))"
| "governance_venue_of (GovStartVote a) = Some (governance_venue_name (gvgpr_venue a))"
| "governance_venue_of (GovCloseVote a) = Some (governance_venue_name (gvgpr_venue a))"
| "governance_venue_of (GovRedeemCancellationFee a) = Some (governance_venue_name (gvgrcf_venue a))"
| "governance_venue_of (GovUpdateRepresentative a) = Some (governance_venue_name (gvgur_venue a))"

definition governance_action_apply ::
  "governance_action \<Rightarrow> wallet_state \<Rightarrow> eval_context \<Rightarrow> state_delta reducer_result" where
  "governance_action_apply a s ctx = Inr state_delta_new"

section \<open>Marketplaces\<close>

datatype marketplace_venue =
    Seaport chain_id address

datatype market_item_kind =
    ItemNative
  | ItemErc20
  | ItemErc721
  | ItemErc1155
  | ItemErc721Criteria
  | ItemErc1155Criteria

record market_item =
  mkmi_idx :: u32
  mkmi_kind :: market_item_kind
  mkmi_token :: "address option"
  mkmi_token_id :: "u256 option"
  mkmi_criteria_root :: "string option"
  mkmi_start_amount :: u256
  mkmi_end_amount :: u256
  mkmi_recipient :: "address option"

record market_sign_order_action =
  mkso_venue :: marketplace_venue
  mkso_offerer :: address
  mkso_zone :: "address option"
  mkso_offer :: "market_item list"
  mkso_consideration :: "market_item list"
  mkso_order_type :: string
  mkso_start_time :: time
  mkso_end_time :: time
  mkso_conduit_key :: string
  mkso_counter :: u256

record market_fulfill_order_action =
  mkfo_venue :: marketplace_venue
  mkfo_offer :: "market_item list"
  mkfo_consideration :: "market_item list"
  mkfo_recipient :: address
  mkfo_fulfiller_conduit_key :: "string option"
  mkfo_order_count :: u32
  mkfo_is_batch :: bool

record market_cancel_order_action =
  mkco_venue :: marketplace_venue
  mkco_scope :: string
  mkco_order_count :: "u32 option"

datatype marketplace_action =
    MarketSignOrder market_sign_order_action
  | MarketFulfillOrder market_fulfill_order_action
  | MarketCancelOrder market_cancel_order_action

fun marketplace_venue_name :: "marketplace_venue \<Rightarrow> string" where
  "marketplace_venue_name (Seaport _ _) = ''seaport''"

fun marketplace_action_tag :: "marketplace_action \<Rightarrow> string" where
  "marketplace_action_tag (MarketSignOrder _) = ''sign_order''"
| "marketplace_action_tag (MarketFulfillOrder _) = ''fulfill_order''"
| "marketplace_action_tag (MarketCancelOrder _) = ''cancel_order''"

fun marketplace_venue_of :: "marketplace_action \<Rightarrow> string option" where
  "marketplace_venue_of (MarketSignOrder a) = Some (marketplace_venue_name (mkso_venue a))"
| "marketplace_venue_of (MarketFulfillOrder a) = Some (marketplace_venue_name (mkfo_venue a))"
| "marketplace_venue_of (MarketCancelOrder a) = Some (marketplace_venue_name (mkco_venue a))"

definition marketplace_action_apply ::
  "marketplace_action \<Rightarrow> wallet_state \<Rightarrow> eval_context \<Rightarrow> state_delta reducer_result" where
  "marketplace_action_apply a s ctx = Inr state_delta_new"

section \<open>Permissions\<close>

datatype protocol_permission_kind =
    PermitRelayer
  | PermitManager
  | PermitOperator
  | PermitAgent
  | PermitBuilderFee
  | PermitDelegate

record protocol_authorization_action =
  pmpa_chain :: chain_id
  pmpa_protocol :: address
  pmpa_protocol_name :: string
  pmpa_permission :: protocol_permission_kind
  pmpa_permission_label :: "string option"
  pmpa_permission_limit :: "string option"
  pmpa_authorizer :: "address option"
  pmpa_authorized :: address
  pmpa_is_authorized :: bool

datatype permission_action =
    PermProtocolAuthorization protocol_authorization_action

fun protocol_permission_kind_str :: "protocol_permission_kind \<Rightarrow> string" where
  "protocol_permission_kind_str PermitRelayer = ''relayer''"
| "protocol_permission_kind_str PermitManager = ''manager''"
| "protocol_permission_kind_str PermitOperator = ''operator''"
| "protocol_permission_kind_str PermitAgent = ''agent''"
| "protocol_permission_kind_str PermitBuilderFee = ''builder_fee''"
| "protocol_permission_kind_str PermitDelegate = ''delegate''"

fun permission_action_tag :: "permission_action \<Rightarrow> string" where
  "permission_action_tag (PermProtocolAuthorization _) = ''protocol_authorization''"

fun permission_venue_of :: "permission_action \<Rightarrow> string option" where
  "permission_venue_of (PermProtocolAuthorization a) = Some (pmpa_protocol_name a)"

definition permission_action_apply ::
  "permission_action \<Rightarrow> wallet_state \<Rightarrow> eval_context \<Rightarrow> state_delta reducer_result" where
  "permission_action_apply a s ctx = Inr state_delta_new"

section \<open>Yield tokenisation\<close>

datatype yield_venue =
    PendleV2 chain_id

record market_tokens_live_inputs =
  ydmtl_sy :: "address live_field"
  ydmtl_pt :: "address live_field"
  ydmtl_yt :: "address live_field"
  ydmtl_maturity :: "u256 live_field"

datatype pt_swap_direction =
    PtTokenForPt
  | PtSyForPt
  | PtPtForToken
  | PtPtForSy

record pt_swap_action =
  ydps_venue :: yield_venue
  ydps_market :: address
  ydps_direction :: pt_swap_direction
  ydps_external_token :: "token_ref option"
  ydps_exact_amount_in :: u256
  ydps_min_amount_out :: u256
  ydps_recipient :: address
  ydps_live_inputs :: market_tokens_live_inputs

datatype yt_swap_direction =
    YtTokenForYt
  | YtSyForYt
  | YtYtForToken
  | YtYtForSy

record yt_swap_action =
  ydys_venue :: yield_venue
  ydys_market :: address
  ydys_direction :: yt_swap_direction
  ydys_external_token :: "token_ref option"
  ydys_exact_amount_in :: u256
  ydys_min_amount_out :: u256
  ydys_recipient :: address
  ydys_live_inputs :: market_tokens_live_inputs

datatype add_liquidity_kind =
    AddDualTokenAndPt
  | AddDualSyAndPt
  | AddSinglePt
  | AddSingleToken
  | AddSingleSy
  | AddSingleTokenKeepYt
  | AddSingleSyKeepYt

record add_market_liquidity_action =
  ydaml_venue :: yield_venue
  ydaml_market :: address
  ydaml_kind :: add_liquidity_kind
  ydaml_external_token :: "token_ref option"
  ydaml_net_token_in :: u256
  ydaml_net_pt_in :: u256
  ydaml_net_sy_in :: u256
  ydaml_min_lp_out :: u256
  ydaml_recipient :: address
  ydaml_live_inputs :: market_tokens_live_inputs

datatype remove_liquidity_kind =
    RemoveDualTokenAndPt
  | RemoveDualSyAndPt
  | RemoveSinglePt
  | RemoveSingleToken
  | RemoveSingleSy

record remove_market_liquidity_action =
  ydrml_venue :: yield_venue
  ydrml_market :: address
  ydrml_kind :: remove_liquidity_kind
  ydrml_external_token :: "token_ref option"
  ydrml_net_lp_in :: u256
  ydrml_min_token_out :: u256
  ydrml_min_pt_out :: u256
  ydrml_min_sy_out :: u256
  ydrml_recipient :: address
  ydrml_live_inputs :: market_tokens_live_inputs

record mint_py_action =
  ydmp_venue :: yield_venue
  ydmp_yt :: address
  ydmp_external_token :: "token_ref option"
  ydmp_net_input :: u256
  ydmp_min_py_out :: u256
  ydmp_recipient :: address

record redeem_py_action =
  ydrp_venue :: yield_venue
  ydrp_yt :: address
  ydrp_external_token :: "token_ref option"
  ydrp_net_py_in :: u256
  ydrp_min_output :: u256
  ydrp_recipient :: address

record mint_sy_action =
  ydms_venue :: yield_venue
  ydms_sy :: address
  ydms_external_token :: token_ref
  ydms_net_token_in :: u256
  ydms_min_sy_out :: u256
  ydms_recipient :: address

record redeem_sy_action =
  ydrs_venue :: yield_venue
  ydrs_sy :: address
  ydrs_external_token :: token_ref
  ydrs_net_sy_in :: u256
  ydrs_min_token_out :: u256
  ydrs_recipient :: address

record claim_yield_action =
  ydcy_venue :: yield_venue
  ydcy_user :: address
  ydcy_sys :: "address list"
  ydcy_yts :: "address list"
  ydcy_markets :: "address list"

datatype limit_order_type =
    OrderSyForPt
  | OrderPtForSy
  | OrderSyForYt
  | OrderYtForSy

record sign_limit_order_action =
  ydslo_venue :: yield_venue
  ydslo_order_type :: limit_order_type
  ydslo_token :: token_ref
  ydslo_yt :: address
  ydslo_maker :: address
  ydslo_receiver :: address
  ydslo_making_amount :: u256
  ydslo_expiry :: u256

datatype cancel_kind =
    CancelSingle
  | CancelBatch

record cancel_limit_order_action =
  ydclo_venue :: yield_venue
  ydclo_kind :: cancel_kind

datatype yield_action =
    YieldPtSwap pt_swap_action
  | YieldYtSwap yt_swap_action
  | YieldAddMarketLiquidity add_market_liquidity_action
  | YieldRemoveMarketLiquidity remove_market_liquidity_action
  | YieldMintPy mint_py_action
  | YieldRedeemPy redeem_py_action
  | YieldMintSy mint_sy_action
  | YieldRedeemSy redeem_sy_action
  | YieldClaimYield claim_yield_action
  | YieldSignLimitOrder sign_limit_order_action
  | YieldCancelLimitOrder cancel_limit_order_action

fun yield_venue_name :: "yield_venue \<Rightarrow> string" where
  "yield_venue_name (PendleV2 _) = ''pendle_v2''"

fun yield_action_tag :: "yield_action \<Rightarrow> string" where
  "yield_action_tag (YieldPtSwap _) = ''pt_swap''"
| "yield_action_tag (YieldYtSwap _) = ''yt_swap''"
| "yield_action_tag (YieldAddMarketLiquidity _) = ''add_market_liquidity''"
| "yield_action_tag (YieldRemoveMarketLiquidity _) = ''remove_market_liquidity''"
| "yield_action_tag (YieldMintPy _) = ''mint_py''"
| "yield_action_tag (YieldRedeemPy _) = ''redeem_py''"
| "yield_action_tag (YieldMintSy _) = ''mint_sy''"
| "yield_action_tag (YieldRedeemSy _) = ''redeem_sy''"
| "yield_action_tag (YieldClaimYield _) = ''claim_yield''"
| "yield_action_tag (YieldSignLimitOrder _) = ''sign_limit_order''"
| "yield_action_tag (YieldCancelLimitOrder _) = ''cancel_limit_order''"

fun yield_venue_of :: "yield_action \<Rightarrow> string option" where
  "yield_venue_of (YieldPtSwap a) = Some (yield_venue_name (ydps_venue a))"
| "yield_venue_of (YieldYtSwap a) = Some (yield_venue_name (ydys_venue a))"
| "yield_venue_of (YieldAddMarketLiquidity a) = Some (yield_venue_name (ydaml_venue a))"
| "yield_venue_of (YieldRemoveMarketLiquidity a) = Some (yield_venue_name (ydrml_venue a))"
| "yield_venue_of (YieldMintPy a) = Some (yield_venue_name (ydmp_venue a))"
| "yield_venue_of (YieldRedeemPy a) = Some (yield_venue_name (ydrp_venue a))"
| "yield_venue_of (YieldMintSy a) = Some (yield_venue_name (ydms_venue a))"
| "yield_venue_of (YieldRedeemSy a) = Some (yield_venue_name (ydrs_venue a))"
| "yield_venue_of (YieldClaimYield a) = Some (yield_venue_name (ydcy_venue a))"
| "yield_venue_of (YieldSignLimitOrder a) = Some (yield_venue_name (ydslo_venue a))"
| "yield_venue_of (YieldCancelLimitOrder a) = Some (yield_venue_name (ydclo_venue a))"

definition yield_action_apply ::
  "yield_action \<Rightarrow> wallet_state \<Rightarrow> eval_context \<Rightarrow> state_delta reducer_result" where
  "yield_action_apply a s ctx = Inr state_delta_new"

end
