(* ===== verification/Reduce.thy ===== *)
theory Reduce
  imports PolicyTypes AmmEffects LendingEffects PerpEffects DistributionEffects StakingDomains ServiceDomains
begin

text \<open>
  \<^verbatim>\<open>asset-model/transition/src/apply.rs\<close> with the action type of \<^verbatim>\<open>asset-model/action/src/lib.rs\<close>: the
  dispatcher over all domains and the multicall loop, which threads the wallet through its children and
  merges their deltas. The parameters of the domains are collected in \<open>reduce_env\<close>: the JSON codec of
  positions, the decimal library, and the number readers of the AMM domain.
\<close>

section \<open>Actions\<close>

datatype action_body =
    BodyToken token_action
  | BodyAmm amm_action
  | BodyLending lending_action
  | BodyAirdrop airdrop_action
  | BodyLaunchpad launchpad_action
  | BodyPerp perp_action
  | BodyLiquidStaking liquid_staking_action
  | BodyPermission permission_action
  | BodyYield yield_action
  | BodyRestaking restaking_action
  | BodyStaking staking_action
  | BodyGovernance governance_action
  | BodyHyperliquidCore hyperliquid_core_action
  | BodyMarketplace marketplace_action
  | BodyBridge bridge_action
  | Multicall "action_body list"
  | UnknownCall address chain_id string u256

record action =
  act_meta :: action_meta
  act_body :: action_body

section \<open>The dispatcher\<close>

record reduce_env =
  env_serde :: position_serde
  env_decimals :: decimal_lib
  env_numbers :: number_readers

text \<open>The address in the error of an unknown call is its \<open>Debug\<close> form, lowercase hexadecimal.\<close>

fun body_apply ::
    "reduce_env \<Rightarrow> action_body \<Rightarrow> wallet_state \<Rightarrow> eval_context \<Rightarrow> state_delta reducer_result"
  and multicall_loop ::
    "reduce_env \<Rightarrow> action_body list \<Rightarrow> nat \<Rightarrow> eval_context \<Rightarrow> wallet_state \<Rightarrow> state_delta
       \<Rightarrow> state_delta reducer_result" where
  "body_apply E (BodyToken a) s ctx = token_action_apply a s ctx"
| "body_apply E (BodyAmm a) s ctx = amm_action_apply (env_numbers E) a s ctx"
| "body_apply E (BodyLending a) s ctx = lending_action_apply (env_decimals E) (env_serde E) a s ctx"
| "body_apply E (BodyAirdrop a) s ctx = airdrop_action_apply a s ctx"
| "body_apply E (BodyLaunchpad a) s ctx = launchpad_action_apply (env_serde E) a s ctx"
| "body_apply E (BodyPerp a) s ctx = perp_action_apply (env_decimals E) (env_serde E) a s ctx"
| "body_apply E (BodyLiquidStaking a) s ctx = liquid_staking_action_apply a s ctx"
| "body_apply E (BodyPermission a) s ctx = permission_action_apply a s ctx"
| "body_apply E (BodyYield a) s ctx = yield_action_apply a s ctx"
| "body_apply E (BodyRestaking a) s ctx = restaking_action_apply a s ctx"
| "body_apply E (BodyStaking a) s ctx = staking_action_apply a s ctx"
| "body_apply E (BodyGovernance a) s ctx = governance_action_apply a s ctx"
| "body_apply E (BodyHyperliquidCore a) s ctx =
     hyperliquid_core_action_apply (env_decimals E) (env_serde E) a s ctx"
| "body_apply E (BodyBridge a) s ctx = bridge_action_apply a s ctx"
| "body_apply E (BodyMarketplace a) s ctx = marketplace_action_apply a s ctx"
| "body_apply E (Multicall actions) s ctx = multicall_loop E actions 0 ctx s state_delta_new"
| "body_apply E (UnknownCall target _ _ _) s ctx =
     Inl (UnknownAction (''unidentified call to '' @ lowercase_hex target))"
| "multicall_loop E [] i ctx current accumulated = Inr accumulated"
| "multicall_loop E (body # bodies) i ctx current accumulated =
     rbind (body_apply E body current (with_action_index ctx i)) (\<lambda>sub_delta.
     rbind (apply_delta (env_serde E) current sub_delta) (\<lambda>current'.
     rbind (merge_delta accumulated sub_delta) (\<lambda>accumulated'.
       multicall_loop E bodies (Suc i) ctx current' accumulated')))"

definition apply_action ::
  "reduce_env \<Rightarrow> wallet_state \<Rightarrow> action \<Rightarrow> eval_context \<Rightarrow> state_delta reducer_result" where
  "apply_action E s a ctx = body_apply E (act_body a) s ctx"

section \<open>The dispatcher honours the reducer contract\<close>

lemmas stub_domain_defs =
  liquid_staking_action_apply_def permission_action_apply_def yield_action_apply_def
  restaking_action_apply_def staking_action_apply_def governance_action_apply_def
  bridge_action_apply_def marketplace_action_apply_def

lemma token_action_plain: "token_action_apply a s ctx = Inr d \<Longrightarrow> plain_delta d"
  using token_action_contract by (auto simp: plain_delta_def)

lemma merge_plain:
  "plain_delta a \<Longrightarrow> plain_delta b \<Longrightarrow> merge_delta a b = Inr (StateDelta (token_changes a @ token_changes b)
     (position_changes a @ position_changes b) (pending_changes a @ pending_changes b) None)"
  by (simp add: plain_delta_def merge_delta_no_gas)

lemma merge_plain_plain: "plain_delta a \<Longrightarrow> plain_delta b \<Longrightarrow> merge_delta a b = Inr m \<Longrightarrow> plain_delta m"
  by (auto simp: merge_plain plain_delta_def wf_delta_def)

lemma body_plain:
  "body_apply E b s ctx = Inr d \<Longrightarrow> plain_delta d"
  "multicall_loop E bs i ctx s acc = Inr d \<Longrightarrow> plain_delta acc \<Longrightarrow> plain_delta d"
proof (induction E b s ctx and E bs i ctx s acc arbitrary: d and d rule: body_apply_multicall_loop.induct)
  case (19 E body bodies i ctx current accumulated)
  from "19.prems"(1) obtain sub cur acc where
    "body_apply E body current (with_action_index ctx i) = Inr sub"
    "apply_delta (env_serde E) current sub = Inr cur" "merge_delta accumulated sub = Inr acc"
    "multicall_loop E bodies (Suc i) ctx cur acc = Inr d"
    by (auto simp: rbind_Inr_iff)
  with "19.IH"(1) "19.IH"(2) "19.prems"(2) show ?case by (blast intro: merge_plain_plain)
qed (auto simp: stub_domain_defs dest: token_action_plain amm_action_plain lending_action_plain
    airdrop_action_plain launchpad_action_plain perp_action_plain hyperliquid_core_action_plain)

interpretation dispatcher: reducer "body_apply E" for E
  by unfold_locales (use body_plain(1) in \<open>auto simp: plain_delta_def\<close>)

end
