(* ===== verification/ReduceFacts.thy ===== *)
theory ReduceFacts
  imports Reduce
begin

text \<open>
  How the multicall loop relates to running its children one after the other, and that no reducer looks
  at the position of an action inside its batch.
\<close>

section \<open>The index of an action is not observed\<close>

locale index_blind =
  fixes reduce :: "'a \<Rightarrow> wallet_state \<Rightarrow> eval_context \<Rightarrow> state_delta reducer_result"
  assumes blind: "reduce a s (ctx\<lparr>action_index := i\<rparr>) = reduce a s ctx"
begin

lemma reduce_at_index: "reduce a s (with_action_index ctx i) = reduce a s ctx"
  by (simp add: with_action_index_def blind)

end

lemma context_blind: "now (ctx\<lparr>action_index := i\<rparr>) = now ctx" "ec_chain (ctx\<lparr>action_index := i\<rparr>) = ec_chain ctx"
  by simp_all

interpretation token_blind: index_blind token_action_apply
proof unfold_locales
  fix a s ctx i
  show "token_action_apply a s (ctx\<lparr>action_index := i\<rparr>) = token_action_apply a s ctx"
    by (induct a) (unfold token_action_apply.simps token_effect_defs
        context_blind, (rule refl)+)
qed

interpretation amm_blind: index_blind "amm_action_apply R" for R
proof unfold_locales
  fix a s ctx i
  show "amm_action_apply R a s (ctx\<lparr>action_index := i\<rparr>) = amm_action_apply R a s ctx"
    by (induct a) (unfold amm_action_apply.simps swap_apply_def aggregator_hooks_def apply_permit_bundle_def gsm_swap_apply_def add_liquidity_apply_def
        remove_liquidity_apply_def collect_fees_apply_def sign_intent_order_apply_def
        settle_intent_order_apply_def cancel_intent_order_apply_def pre_sign_intent_order_apply_def
        context_blind, (rule refl)+)
qed

interpretation lending_blind: index_blind "lending_action_apply D C" for D C
proof unfold_locales
  fix a s ctx i
  show "lending_action_apply D C a s (ctx\<lparr>action_index := i\<rparr>) = lending_action_apply D C a s ctx"
    by (induct a) (unfold lending_action_apply.simps supply_apply_def withdraw_apply_def borrow_apply_def repay_apply_def
        swap_rate_mode_apply_def set_e_mode_apply_def set_collateral_apply_def delegate_borrow_apply_def
        liquidate_apply_def buy_collateral_apply_def set_authorization_apply_def
        periphery_operation_apply_def new_lending_account_def supply_derived_live_field_def
        context_blind, (rule refl)+)
qed

interpretation airdrop_blind: index_blind airdrop_action_apply
proof unfold_locales
  fix a s ctx i
  show "airdrop_action_apply a s (ctx\<lparr>action_index := i\<rparr>) = airdrop_action_apply a s ctx"
    by (induct a) (unfold airdrop_action_apply.simps claim_airdrop_apply_def claimed_position_def delegate_governance_apply_def
        context_blind, (rule refl)+)
qed

interpretation launchpad_blind: index_blind "launchpad_action_apply C" for C
proof unfold_locales
  fix a s ctx i
  show "launchpad_action_apply C a s (ctx\<lparr>action_index := i\<rparr>) = launchpad_action_apply C a s ctx"
    by (induct a) (unfold launchpad_action_apply.simps commit_apply_def commit_guard_def committed_position_def
        claim_allocation_apply_def claim_vested_apply_def refund_apply_def withdraw_commit_apply_def
        context_blind, (rule refl)+)
qed

interpretation perp_blind: index_blind "perp_action_apply D C" for D C
proof unfold_locales
  fix a s ctx i
  show "perp_action_apply D C a s (ctx\<lparr>action_index := i\<rparr>) = perp_action_apply D C a s ctx"
    by (induct a) (unfold perp_action_apply.simps open_perp_apply_def opened_position_def open_pending_def close_perp_apply_def
        increase_perp_apply_def decrease_perp_apply_def adjust_margin_apply_def change_leverage_apply_def
        change_leverage_step_def [abs_def] change_margin_mode_apply_def place_order_apply_def limit_pending_def
        stop_pending_def twap_pending_def order_pending_def cancel_order_apply_def claim_funding_apply_def
        context_blind, (rule refl)+)
qed

interpretation hyperliquid_core_blind: index_blind "hyperliquid_core_action_apply D C" for D C
proof unfold_locales
  fix a s ctx i
  show "hyperliquid_core_action_apply D C a s (ctx\<lparr>action_index := i\<rparr>) = hyperliquid_core_action_apply D C a s ctx"
    by (induct a) (unfold hyperliquid_core_action_apply.simps hl_withdraw_apply_def hl_usd_send_apply_def apply_outflow_def
        context_blind, (rule refl)+)
qed

lemmas domains_blind = token_blind.blind amm_blind.blind lending_blind.blind airdrop_blind.blind
  launchpad_blind.blind perp_blind.blind hyperliquid_core_blind.blind

section \<open>Batches as folds\<close>

definition batch_step ::
  "reduce_env \<Rightarrow> eval_context \<Rightarrow> wallet_state \<times> state_delta \<Rightarrow> action_body
     \<Rightarrow> (wallet_state \<times> state_delta) reducer_result" where
  "batch_step E ctx sd b =
     rbind (body_apply E b (fst sd) ctx) (\<lambda>d.
     rbind (apply_delta (env_serde E) (fst sd) d) (\<lambda>s'.
     rbind (merge_delta (snd sd) d) (\<lambda>acc. Inr (s', acc))))"

lemma body_blind:
  "body_apply E b s (ctx\<lparr>action_index := j\<rparr>) = body_apply E b s ctx"
  "multicall_loop E bs i (ctx\<lparr>action_index := j\<rparr>) s acc = rbind (rfold (batch_step E ctx) (s, acc) bs) (\<lambda>sd. Inr (snd sd))"
proof (induction E b s ctx and E bs i ctx s acc arbitrary: j and j rule: body_apply_multicall_loop.induct)
  case (16 E actions s ctx)
  have "ctx\<lparr>action_index := action_index ctx\<rparr> = ctx" by simp
  with "16.IH" show ?case by (metis body_apply.simps(16))
next
  case (19 E body bodies i ctx current accumulated)
  let ?r = "body_apply E body current ctx"
  have "(with_action_index ctx i)\<lparr>action_index := action_index ctx\<rparr> = ctx"
    "with_action_index (ctx\<lparr>action_index := j\<rparr>) i = with_action_index ctx i"
    by (simp_all add: with_action_index_def)
  with "19.IH"(1) [of "action_index ctx"]
  have here: "body_apply E body current (with_action_index ctx i) = ?r"
    and there: "body_apply E body current (with_action_index (ctx\<lparr>action_index := j\<rparr>) i) = ?r"
    by simp_all
  show ?case
  proof (cases ?r)
    case (Inr sub)
    show ?thesis
    proof (cases "apply_delta (env_serde E) current sub")
      case (Inr cur)
      then show ?thesis
        using "19.IH"(2) [OF here [unfolded \<open>?r = Inr sub\<close>] Inr] \<open>?r = Inr sub\<close>
        by (cases "merge_delta accumulated sub") (simp_all add: there batch_step_def)
    qed (simp add: there \<open>?r = Inr sub\<close> batch_step_def)
  qed (simp add: there batch_step_def)
qed (simp_all add: domains_blind stub_domain_defs)

lemma batch_apply: "body_apply E (Multicall bs) s ctx = rbind (rfold (batch_step E ctx) (s, state_delta_new) bs) (\<lambda>sd. Inr (snd sd))"
  using body_blind(2) [where E = E and bs = bs and i = 0 and ctx = ctx and j = "action_index ctx" and s = s
      and acc = state_delta_new] by simp

section \<open>Joining deltas\<close>

definition join_delta :: "state_delta \<Rightarrow> state_delta \<Rightarrow> state_delta" where
  "join_delta a b = StateDelta (token_changes a @ token_changes b) (position_changes a @ position_changes b)
     (pending_changes a @ pending_changes b) None"

lemma merge_join: "plain_delta a \<Longrightarrow> plain_delta b \<Longrightarrow> merge_delta a b = Inr (join_delta a b)"
  by (simp add: merge_plain join_delta_def)

lemma join_plain: "plain_delta a \<Longrightarrow> plain_delta b \<Longrightarrow> plain_delta (join_delta a b)"
  using merge_plain_plain merge_join by blast

lemma join_assoc: "join_delta (join_delta a b) c = join_delta a (join_delta b c)"
  by (simp add: join_delta_def)

lemma join_new: "plain_delta a \<Longrightarrow> join_delta a state_delta_new = a"
  by (cases a) (simp add: join_delta_def plain_delta_def)

lemma join_applied:
  "plain_delta a \<Longrightarrow> plain_delta b \<Longrightarrow> apply_delta C s a = Inr t \<Longrightarrow> apply_delta C t b = Inr u \<Longrightarrow>
     apply_delta C s (join_delta a b) = Inr u"
  using merge_is_sequence [of a b "join_delta a b" C s u] merge_join [of a b]
  by (simp add: plain_delta_def)

lemma batch_step_Inr:
  assumes "plain_delta acc"
  shows "batch_step E ctx (s, acc) b = Inr (s', acc') \<longleftrightarrow>
    (\<exists>d. body_apply E b s ctx = Inr d \<and> apply_delta (env_serde E) s d = Inr s' \<and> acc' = join_delta acc d)"
  using assms body_plain(1) [of E b s ctx]
  by (auto simp: batch_step_def rbind_Inr_iff merge_join)

text \<open>What was accumulated before a batch stays in front of what the batch adds.\<close>

lemma batch_shift:
  assumes "plain_delta a" and "plain_delta b"
  shows "rfold (batch_step E ctx) (s, join_delta a b) bs =
    rbind (rfold (batch_step E ctx) (s, b) bs) (\<lambda>(s', d). Inr (s', join_delta a d))"
  using assms(2)
proof (induction bs arbitrary: s b)
  case (Cons c cs)
  show ?case
  proof (cases "body_apply E c s ctx")
    case (Inr d)
    note plain = body_plain(1) [OF Inr]
    show ?thesis
    proof (cases "apply_delta (env_serde E) s d")
      case (Inr s')
      then show ?thesis
        using Cons plain \<open>body_apply E c s ctx = Inr d\<close> assms(1)
        by (simp add: batch_step_def merge_join join_plain join_assoc)
    qed (use Inr in \<open>simp add: batch_step_def\<close>)
  qed (simp add: batch_step_def)
qed simp

text \<open>The accumulated delta leads to the current state.\<close>

lemma batch_tracks:
  assumes "rfold (batch_step E ctx) (s, acc) bs = Inr (s', d)" and "plain_delta acc"
    and "apply_delta (env_serde E) s0 acc = Inr s"
  shows "plain_delta d \<and> apply_delta (env_serde E) s0 d = Inr s'"
  using assms
proof (induction bs arbitrary: s acc)
  case (Cons c cs)
  from Cons.prems(1) obtain t e where step: "batch_step E ctx (s, acc) c = Inr (t, e)"
    and rest: "rfold (batch_step E ctx) (t, e) cs = Inr (s', d)"
    by (auto simp: rbind_Inr_iff)
  from step obtain f where f: "body_apply E c s ctx = Inr f" "apply_delta (env_serde E) s f = Inr t"
    and e: "e = join_delta acc f"
    by (auto simp: batch_step_Inr [OF Cons.prems(2)])
  note plain = body_plain(1) [OF f(1)]
  show ?case
    using Cons.IH [OF rest] join_plain [OF Cons.prems(2) plain]
      join_applied [OF Cons.prems(2) plain Cons.prems(3) f(2)] by (simp add: e)
qed simp

section \<open>Nested batches\<close>

fun leaves :: "action_body \<Rightarrow> action_body list" where
  "leaves (Multicall bs) = concat (map leaves bs)"
| "leaves b = [b]"

lemma batch_nested:
  assumes "plain_delta acc"
  shows "batch_step E ctx (s, acc) (Multicall bs) = rfold (batch_step E ctx) (s, acc) bs"
proof (cases "rfold (batch_step E ctx) (s, state_delta_new) bs")
  case (Inl e)
  then show ?thesis
    using batch_shift [OF assms, of state_delta_new E ctx s bs] assms
    by (simp add: batch_step_def batch_apply join_new del: body_apply.simps)
next
  case (Inr sd)
  obtain s' d where sd: "sd = (s', d)" by fastforce
  from batch_tracks [OF Inr [unfolded sd]] have "plain_delta d" "apply_delta (env_serde E) s d = Inr s'"
    by simp_all
  then show ?thesis
    using batch_shift [OF assms, of state_delta_new E ctx s bs] assms Inr sd
    by (simp add: batch_step_def batch_apply join_new merge_join del: body_apply.simps)
qed

lemma batch_plain:
  "rfold (batch_step E ctx) (s, acc) bs = Inr (s', d) \<Longrightarrow> plain_delta acc \<Longrightarrow> plain_delta d"
proof (induction bs arbitrary: s acc)
  case (Cons c cs)
  then show ?case
    by (auto simp: rbind_Inr_iff batch_step_Inr intro: join_plain dest: body_plain(1))
qed simp

lemma batch_leaves:
  assumes "plain_delta acc"
  shows "rfold (batch_step E ctx) (s, acc) [b] = rfold (batch_step E ctx) (s, acc) (leaves b)"
  using assms
proof (induction b arbitrary: s acc)
  case (Multicall bs)
  have "rfold (batch_step E ctx) (s, acc) bs = rfold (batch_step E ctx) (s, acc) (concat (map leaves bs))"
    using Multicall
  proof (induction bs arbitrary: s acc)
    case (Cons c cs)
    have "rfold (batch_step E ctx) (s, acc) (c # cs) =
        rbind (rfold (batch_step E ctx) (s, acc) [c]) (\<lambda>sd. rfold (batch_step E ctx) sd cs)"
      by (cases "batch_step E ctx (s, acc) c") simp_all
    also have "\<dots> = rbind (rfold (batch_step E ctx) (s, acc) (leaves c)) (\<lambda>sd. rfold (batch_step E ctx) sd cs)"
      using Cons.prems by simp
    also have "\<dots> = rbind (rfold (batch_step E ctx) (s, acc) (leaves c))
        (\<lambda>sd. rfold (batch_step E ctx) sd (concat (map leaves cs)))"
    proof (cases "rfold (batch_step E ctx) (s, acc) (leaves c)")
      case (Inr sd)
      then have "plain_delta (snd sd)"
        using batch_plain Cons.prems(2) by (metis prod.collapse)
      then show ?thesis
        using Inr Cons.IH [of "snd sd" "fst sd"] Cons.prems(1) by simp
    qed simp
    finally show ?case by (simp add: rfold_append)
  qed simp
  then show ?case using batch_nested [OF Multicall.prems, of E ctx s bs] by simp
qed simp_all

end
