(* ===== verification/ReduceProperties.thy ===== *)
theory ReduceProperties
  imports ReduceFacts Fixtures DecimalFixtures
begin

text \<open>
  The properties of the dispatcher and of the distribution domains: a batch is its children run one
  after the other, nesting does not matter, unknown calls never pass, every action keeps the wallet
  well formed, and what claiming a vested allocation pays.
\<close>

section \<open>Batches\<close>

lemma batch_leaves_apply:
  "body_apply E (Multicall bs) s ctx =
     rbind (rfold (batch_step E ctx) (s, state_delta_new) (concat (map leaves bs))) (\<lambda>sd. Inr (snd sd))"
  using batch_leaves [of state_delta_new E ctx s "Multicall bs"] batch_nested [of state_delta_new E ctx s bs]
  by (simp add: batch_apply del: body_apply.simps)

text \<open>Running actions one after the other: reduce, apply, go on with the new wallet.\<close>

fun run_sequence ::
  "reduce_env \<Rightarrow> action_body list \<Rightarrow> eval_context \<Rightarrow> wallet_state \<Rightarrow> wallet_state reducer_result" where
  "run_sequence E [] ctx s = Inr s"
| "run_sequence E (b # bs) ctx s =
     rbind (body_apply E b s ctx) (\<lambda>d. rbind (apply_delta (env_serde E) s d) (run_sequence E bs ctx))"

lemma run_sequence_fold:
  "plain_delta acc \<Longrightarrow> run_sequence E bs ctx s = rbind (rfold (batch_step E ctx) (s, acc) bs) (\<lambda>sd. Inr (fst sd))"
proof (induction bs arbitrary: s acc)
  case (Cons b bs)
  show ?case
  proof (cases "body_apply E b s ctx")
    case (Inr d)
    note plain = body_plain(1) [OF Inr]
    show ?thesis
      using Inr Cons.IH [OF join_plain [OF Cons.prems plain]] Cons.prems plain
      by (cases "apply_delta (env_serde E) s d") (simp_all add: batch_step_def merge_join)
  qed (simp add: batch_step_def)
qed simp

text \<open>C4. A multicall implements the sequential run of its children: applying the merged delta it
  returns gives exactly the wallet that running the children one after the other gives, and when a child
  cannot be reduced or applied the multicall fails with the same error.\<close>

theorem multicall_runs_in_sequence:
  "rbind (body_apply E (Multicall bs) s ctx) (apply_delta (env_serde E) s) = run_sequence E bs ctx s"
proof (cases "rfold (batch_step E ctx) (s, state_delta_new) bs")
  case (Inr sd)
  obtain s' d where sd: "sd = (s', d)" by fastforce
  from batch_tracks [OF Inr [unfolded sd]] have "apply_delta (env_serde E) s d = Inr s'" by simp
  then show ?thesis
    using run_sequence_fold [of state_delta_new E bs ctx s] Inr sd
    by (simp add: batch_apply del: body_apply.simps)
qed (simp add: batch_apply run_sequence_fold [of state_delta_new] del: body_apply.simps)

text \<open>C5. Nesting of multicalls is transparent: a batch reduces to the same delta, or fails with the
  same error, as the flat batch of all its leaves in order.\<close>

theorem nested_multicalls_flatten:
  "body_apply E (Multicall bs) s ctx = body_apply E (Multicall (concat (map leaves bs))) s ctx"
  by (simp only: batch_leaves_apply [of E bs] batch_apply [of E "concat (map leaves bs)"])

section \<open>Unknown calls\<close>

lemma rfold_rejects:
  "x \<in> set xs \<Longrightarrow> (\<And>s. \<not> is_ok (f s x)) \<Longrightarrow> \<not> is_ok (rfold f s xs)"
proof (induction xs arbitrary: s)
  case (Cons y ys)
  show ?case
  proof (cases "f s y")
    case (Inr t)
    with Cons.prems(2) [of s] have "x \<noteq> y" by auto
    with Cons Inr show ?thesis by simp
  qed simp
qed simp

text \<open>C6. Fail closed: an action with an unidentified call anywhere inside it, however deeply nested in
  multicalls, is never reduced to a delta.\<close>

theorem unknown_call_fails_closed:
  assumes "UnknownCall target chain calldata value \<in> set (leaves b)"
  shows "\<not> is_ok (body_apply E b s ctx)"
proof (cases b)
  case (Multicall bs)
  have "\<not> is_ok (batch_step E ctx sd (UnknownCall target chain calldata value))" for sd
    by (simp add: batch_step_def)
  with assms have "\<not> is_ok (rfold (batch_step E ctx) (s, state_delta_new) (leaves b))"
    by (rule rfold_rejects)
  then show ?thesis
    using batch_leaves_apply [of E bs s ctx] by (auto simp: Multicall is_ok_def rbind_def split: sum.splits)
qed (use assms in auto)

definition sample_env :: reduce_env where
  "sample_env = \<lparr>env_serde = sample_serde, env_decimals = decimal96,
     env_numbers = \<lparr>read_u256 = (\<lambda>_. None), read_u64 = (\<lambda>_. None)\<rparr>\<rparr>"

theorem unknown_call_fails_closed_witness:
  "\<not> is_ok (body_apply sample_env (Multicall [Multicall [], Multicall [UnknownCall router ethereum_mainnet ''0x'' 0]])
     sample_wallet sample_ctx)"
  by (rule unknown_call_fails_closed [of router ethereum_mainnet "''0x''" 0]) simp

section \<open>Well-formedness\<close>

text \<open>C7. Every action of every domain, batches included, charges no gas in its delta and keeps the
  wallet well formed when its delta is applied.\<close>

theorem action_keeps_wf:
  assumes "apply_action E s a ctx = Inr d" and "apply_delta (env_serde E) s d = Inr s'" and "wf_wallet s"
  shows "wf_wallet s' \<and> gas_paid d = None"
  using assms dispatcher.reduce_keeps_wf dispatcher.reduce_no_gas unfolding apply_action_def by blast

definition sample_action :: action where
  "sample_action = \<lparr>act_meta = \<lparr>submitted_at = 0, submitter = alice, nature = OffchainSig
       \<lparr>dom_name = ''Permit2'', dom_version = None, dom_chain_id = None, verifying_contract = None, dom_salt = None\<rparr> 0 None\<rparr>,
     act_body = BodyToken (Erc20Approve \<lparr>eap_token = TokenRef usdc, eap_spender = router, eap_amount = 7\<rparr>)\<rparr>"

theorem action_keeps_wf_witness:
  "\<exists>d s'. apply_action sample_env sample_wallet sample_action sample_ctx = Inr d \<and>
     apply_delta sample_serde sample_wallet d = Inr s' \<and> wf_wallet s'"
proof -
  obtain d where d: "apply_action sample_env sample_wallet sample_action sample_ctx = Inr d"
    by (simp add: apply_action_def sample_action_def erc20_approve_apply_def set_erc20_allowance_eq)
  then obtain s' where s': "apply_delta (env_serde sample_env) sample_wallet d = Inr s'"
    by (auto simp: apply_action_def sample_action_def erc20_approve_apply_def set_erc20_allowance_eq usdc_def
        apply_grant_erc20)
  from action_keeps_wf [OF d s' sample_wallet_wf] d s' show ?thesis by (auto simp: sample_env_def)
qed

section \<open>Vested allocations\<close>

lemma position_update_applied:
  assumes "plain_delta d" and "apply_delta C s d = Inr t" and "find (\<lambda>p. pos_id p = i) (positions t) = Some p"
    and "pos_id p' = i" and "serde_ok C p'"
  shows "\<exists>before after. positions t = before @ p # after \<and>
    apply_delta C s (push_position_update C d p') = Inr (t\<lparr>positions := before @ p' # after\<rparr>)"
proof -
  let ?c = "UpdatePosition i (snapshot_patch C p')"
  have push: "push_position_update C d p' = push_position_change d ?c"
    using assms(4) by (simp add: push_position_update_def snapshot_patch_def Let_def)
  have "apply_position_patch C p (snapshot_patch C p') = Inr p'"
    by (rule snapshot_patch_roundtrip [OF assms(5)])
  from update_first_find [OF assms(3), where f = "\<lambda>q. apply_position_patch C q (snapshot_patch C p')",
      OF this, of "PositionNotFound i"]
  obtain before after where "positions t = before @ p # after"
    "update_first (\<lambda>p. pos_id p = i) (\<lambda>q. apply_position_patch C q (snapshot_patch C p'))
       (PositionNotFound i) (positions t) = Inr (before @ p' # after)"
    by blast
  moreover from this(2) have "apply_position_change C t ?c = Inr (t\<lparr>positions := before @ p' # after\<rparr>)" by simp
  moreover have "gas_paid d = None" using assms(1) by (simp add: plain_delta_def)
  ultimately show ?thesis unfolding push by (auto simp: apply_push_position [OF _ assms(2)])
qed

text \<open>Claiming the allocation of a sale with a vesting window (and no refund) pays the whole allocated
  amount into the wallet at once, while the position's claimed amount stays as it was; only the total
  of the vesting plan is recorded. Later vesting claims are paid on top of it.\<close>

theorem claim_allocation_pays_before_vesting:
  fixes a s p al ctx tok amt
  defines "i \<equiv> launchpad_position_id (pr_name (cal_platform a)) (cal_sale_id a) (cal_recipient a)"
    and "p' \<equiv> p\<lparr>pos_kind := LaunchpadAllocation (al\<lparr>allocated := (tok, amt),
        vest := (vest al)\<lparr>vs_total := amt\<rparr>\<rparr>), pos_synced_at := now ctx\<rparr>"
  assumes ok: "claim_allocation_apply C a s ctx = Inr d"
    and alloc: "lf_value (cal_allocated (cal_live_inputs a)) = (tok, amt)"
    and no_refund: "lf_value (refund_due (cal_live_inputs a)) = 0"
    and p: "find (\<lambda>p. pos_id p = i) (positions s) = Some p" "pos_kind p = LaunchpadAllocation al"
    and vesting: "has_vest_window (vest al)"
    and codec: "serde_ok C p'"
  shows "\<exists>ts before after b b'. positions s = before @ p # after \<and>
    apply_delta C s d = Inr (s\<lparr>tokens := ts, positions := before @ p' # after\<rparr>) \<and>
    fungible_balance s (ref_key tok) = Some b \<and> fungible_balance (s\<lparr>tokens := ts\<rparr>) (ref_key tok) = Some b' \<and>
    int (unat b') = min (min (int (unat b)) (2 ^ 255 - 1) + min (int (unat amt)) (2 ^ 255 - 1)) (2 ^ 255 - 1)"
proof -
  from ok alloc obtain d0 where d0: "credit s state_delta_new (ref_key tok) amt = Inr d0"
    by (auto simp: claim_allocation_apply_def rbind_Inr_iff Let_def split: if_splits)
  then have "position_changes d0 = []"
    by (auto simp: credit_def rbind_Inr_iff split: if_splits)
  then have "effective_launchpad_position s d0 i = Some p"
    using p(1) by (simp add: effective_launchpad_position_def)
  with ok alloc no_refund p(2) vesting d0 have d: "d = push_position_update C d0 p'"
    by (auto simp: claim_allocation_apply_def as_allocation_def i_def p'_def Let_def split: if_splits)
  from credit_applied [where C = C, OF _ apply_delta_new d0] obtain ts b b' where
    s0: "apply_delta C s d0 = Inr (s\<lparr>tokens := ts\<rparr>)" and b: "fungible_balance s (ref_key tok) = Some b"
      "fungible_balance (s\<lparr>tokens := ts\<rparr>) (ref_key tok) = Some b'"
      "int (unat b') = min (min (int (unat b)) (2 ^ 255 - 1) + min (int (unat amt)) (2 ^ 255 - 1)) (2 ^ 255 - 1)"
    by auto
  have "plain_delta d0" using credit_plain [OF d0] by simp
  moreover have "find (\<lambda>p. pos_id p = i) (positions (s\<lparr>tokens := ts\<rparr>)) = Some p" using p(1) by simp
  moreover have "pos_id p' = i" using p(1) by (auto simp: p'_def find_Some_iff)
  ultimately obtain before after where r: "positions s = before @ p # after"
    "apply_delta C s d = Inr (s\<lparr>tokens := ts, positions := before @ p' # after\<rparr>)"
    using position_update_applied [OF _ s0 _ _ codec, of i p] d by auto
  from r b show ?thesis by (intro exI conjI)
qed

definition sample_sale :: protocol_ref where
  "sample_sale = protocol_ref_new ''echo''"

definition sample_grant :: launchpad_allocation where
  "sample_grant = \<lparr>platform = sample_sale, sale_id = ''1'', paid = [(TokenRef ether, 1)],
     allocated = (TokenRef ether, 0),
     vest = \<lparr>vs_start = 0, cliff = None, vs_end = Some 100, curve = LinearVest, vs_total = 0\<rparr>,
     lp_claimed = 0, lp_claimable_now = 0\<rparr>"

definition grant_position :: "launchpad_allocation \<Rightarrow> time \<Rightarrow> position" where
  "grant_position al t = \<lparr>pos_id = launchpad_position_id ''echo'' ''1'' alice, pos_protocol = sample_sale,
     pos_chain = None, pos_kind = LaunchpadAllocation al, pos_synced_at = t, pos_source = UserSupplied\<rparr>"

definition sample_claim :: claim_allocation_action where
  "sample_claim = \<lparr>cal_platform = sample_sale, cal_sale_id = ''1'', cal_recipient = alice,
     cal_live_inputs = \<lparr>cal_allocated = live_field_new (TokenRef usdc, 500) UserSupplied 0,
       refund_due = live_field_new 0 UserSupplied 0, is_claimable = live_field_new True UserSupplied 0\<rparr>\<rparr>"

definition grant_wallet :: wallet_state where
  "grant_wallet = sample_wallet\<lparr>positions := [grant_position sample_grant 0]\<rparr>"

definition granted_position :: position where
  "granted_position = grant_position (sample_grant\<lparr>allocated := (TokenRef usdc, 500),
      vest := (vest sample_grant)\<lparr>vs_total := 500\<rparr>\<rparr>) (now sample_ctx)"

theorem claim_allocation_pays_before_vesting_witness:
  "\<exists>d ts b'. claim_allocation_apply (one_position_serde granted_position) sample_claim grant_wallet sample_ctx = Inr d \<and>
    apply_delta (one_position_serde granted_position) grant_wallet d =
      Inr (grant_wallet\<lparr>tokens := ts, positions := [granted_position]\<rparr>) \<and>
    fungible_balance (grant_wallet\<lparr>tokens := ts\<rparr>) usdc = Some b' \<and> int (unat b') = 1500"
proof -
  let ?C = "one_position_serde granted_position" and ?s = grant_wallet and ?p = "grant_position sample_grant 0"
  let ?i = "launchpad_position_id (pr_name (cal_platform sample_claim)) (cal_sale_id sample_claim) (cal_recipient sample_claim)"
  have i: "?i = launchpad_position_id ''echo'' ''1'' alice"
    by (simp add: sample_claim_def sample_sale_def protocol_ref_new_def)
  have live: "lf_value (cal_allocated (cal_live_inputs sample_claim)) = (TokenRef usdc, 500)"
    "lf_value (refund_due (cal_live_inputs sample_claim)) = 0" "lf_value (is_claimable (cal_live_inputs sample_claim))"
    by (simp_all add: sample_claim_def live_field_new_def)
  have found: "find (\<lambda>p. pos_id p = ?i) (positions ?s) = Some ?p" "pos_kind ?p = LaunchpadAllocation sample_grant"
    unfolding i by (simp_all add: grant_wallet_def grant_position_def)
  have vesting: "has_vest_window (vest sample_grant)" by (simp add: has_vest_window_def sample_grant_def)
  have p': "?p\<lparr>pos_kind := LaunchpadAllocation (sample_grant\<lparr>allocated := (TokenRef usdc, 500),
      vest := (vest sample_grant)\<lparr>vs_total := 500\<rparr>\<rparr>), pos_synced_at := now sample_ctx\<rparr> = granted_position"
    by (simp add: grant_position_def granted_position_def)
  have balance: "fungible_balance ?s usdc = Some 1000" by (simp add: grant_wallet_def fungible_balance_def)
  have "is_ok (claim_allocation_apply ?C sample_claim ?s sample_ctx)"
    using found(1) by (simp add: claim_allocation_apply_def live credit_def grant_wallet_def effective_launchpad_position_def
        as_allocation_def grant_position_def Let_def)
  then obtain d where d: "claim_allocation_apply ?C sample_claim ?s sample_ctx = Inr d" by (auto simp: is_ok_iff)
  from claim_allocation_pays_before_vesting [OF d live(1,2) found vesting, unfolded p'] obtain ts before after b' where
    "positions ?s = before @ ?p # after"
    "apply_delta ?C ?s d = Inr (?s\<lparr>tokens := ts, positions := before @ granted_position # after\<rparr>)"
    "fungible_balance (?s\<lparr>tokens := ts\<rparr>) usdc = Some b'" "int (unat b') = 1500"
    using balance one_position_serde_ok by auto
  moreover from this(1) have "before = []" "after = []"
    by (simp_all add: grant_wallet_def Cons_eq_append_conv)
  ultimately show ?thesis using d by auto
qed

end
