(* ===== verification/ActionViews.thy ===== *)
theory ActionViews
  imports Reduce
begin

text \<open>
  \<^verbatim>\<open>asset-model/action/src/view.rs\<close>: the projection of an action to the fields a policy trigger may match
  on, with the venue names of the AMM domain (\<^verbatim>\<open>action/src/amm\<close>). The venue names of the other domains
  are with their actions.
\<close>

fun intent_venue_name :: "intent_venue \<Rightarrow> string" where
  "intent_venue_name (UniswapX _ _) = ''uniswap_x''"
| "intent_venue_name (CowSwap _ _) = ''cow_swap''"
| "intent_venue_name (OneInchFusion _) = ''one_inch_fusion''"
| "intent_venue_name (Bebop _) = ''bebop''"
| "intent_venue_name (OneInchLimitOrder _ _) = ''one_inch_limit_order''"

fun amm_venue_of :: "amm_action \<Rightarrow> string option" where
  "amm_venue_of (Swap a) = Some (amm_venue_name (sw_venue a))"
| "amm_venue_of (GsmSwap a) = Some (amm_venue_name (gs_venue a))"
| "amm_venue_of (AddLiquidity a) = Some (amm_venue_name (al_venue a))"
| "amm_venue_of (RemoveLiquidity a) = Some (amm_venue_name (rl_venue a))"
| "amm_venue_of (CollectFees a) = Some (amm_venue_name (cf_venue a))"
| "amm_venue_of (SignIntentOrder a) = Some (intent_venue_name (si_venue a))"
| "amm_venue_of (SettleIntentOrder a) = Some (intent_venue_name (st_venue a))"
| "amm_venue_of (CancelIntentOrder a) = Some (intent_venue_name (ci_venue a))"
| "amm_venue_of (PreSignIntentOrder a) = Some (intent_venue_name (ps_venue a))"

definition tagged_view :: "string \<Rightarrow> string \<Rightarrow> string option \<Rightarrow> action_view" where
  "tagged_view d t v = \<lparr>vw_domain = d, vw_action_tag = Some t, vw_venue_name = v\<rparr>"

fun body_view :: "action_body \<Rightarrow> action_view" where
  "body_view (BodyToken a) = tagged_view ''token'' (token_action_tag a) None"
| "body_view (BodyAmm a) = tagged_view ''amm'' (amm_action_tag a) (amm_venue_of a)"
| "body_view (BodyLending a) = tagged_view ''lending'' (lending_action_tag a) (lending_venue_of a)"
| "body_view (BodyAirdrop a) = tagged_view ''airdrop'' (airdrop_action_tag a) None"
| "body_view (BodyLaunchpad a) = tagged_view ''launchpad'' (launchpad_action_tag a) None"
| "body_view (BodyPerp a) = tagged_view ''perp'' (perp_action_tag a) (perp_venue_of a)"
| "body_view (BodyLiquidStaking a) =
     tagged_view ''liquid_staking'' (liquid_staking_action_tag a) (liquid_staking_venue_of a)"
| "body_view (BodyPermission a) = tagged_view ''permission'' (permission_action_tag a) (permission_venue_of a)"
| "body_view (BodyYield a) = tagged_view ''yield'' (yield_action_tag a) (yield_venue_of a)"
| "body_view (BodyRestaking a) = tagged_view ''restaking'' (restaking_action_tag a) (restaking_venue_of a)"
| "body_view (BodyStaking a) = tagged_view ''staking'' (staking_action_tag a) (staking_venue_of a)"
| "body_view (BodyGovernance a) = tagged_view ''governance'' (governance_action_tag a) (governance_venue_of a)"
| "body_view (BodyHyperliquidCore a) =
     tagged_view ''hyperliquid_core'' (hyperliquid_core_action_tag a) (Some ''hyperliquid'')"
| "body_view (BodyBridge a) = tagged_view ''bridge'' (bridge_action_tag a) (bridge_venue_of a)"
| "body_view (BodyMarketplace a) =
     tagged_view ''marketplace'' (marketplace_action_tag a) (marketplace_venue_of a)"
| "body_view (Multicall _) = \<lparr>vw_domain = ''multicall'', vw_action_tag = None, vw_venue_name = None\<rparr>"
| "body_view (UnknownCall _ _ _ _) = \<lparr>vw_domain = ''unknown'', vw_action_tag = None, vw_venue_name = None\<rparr>"

end
