(* ===== verification/Verdicts.thy ===== *)
theory Verdicts
  imports Prelude
begin

text \<open>
  \<^verbatim>\<open>policy-engine/src/policy\<close>: verdicts and their aggregation (\<^verbatim>\<open>verdict.rs\<close>), requests and errors
  (\<^verbatim>\<open>request.rs\<close>, \<^verbatim>\<open>error.rs\<close>), the compiled engine and its evaluation (\<^verbatim>\<open>engine.rs\<close>) and its builder
  (\<^verbatim>\<open>builder.rs\<close>).

  The Cedar library is a parameter, the record \<open>cedar\<close>: its parsers, its validator and its authoriser
  as functions. What its documentation promises of them is stated in \<open>EngineFacts\<close>. Error texts keep the
  library's message only.
\<close>

section \<open>Verdicts\<close>

datatype severity = SevDeny | SevWarn

datatype policy_request_origin = OriginAction | OriginTx

record matched_policy =
  policy_id :: string
  mp_reason :: "string option"
  mp_severity :: severity
  mp_origin :: policy_request_origin

datatype verdict = Pass | Warn "matched_policy list" | Fail "matched_policy list"

fun is_failure :: "verdict \<Rightarrow> bool" where
  "is_failure (Fail _) = True"
| "is_failure _ = False"

fun matched :: "verdict \<Rightarrow> matched_policy list" where
  "matched Pass = []"
| "matched (Warn v) = v"
| "matched (Fail v) = v"

definition has_warnings :: "verdict \<Rightarrow> bool" where
  "has_warnings v = (\<exists>m \<in> set (matched v). mp_severity m = SevWarn)"

text \<open>The loop of \<open>Verdict::aggregate\<close> with its three variables.\<close>

fun aggregate_loop :: "matched_policy list \<Rightarrow> bool \<Rightarrow> bool \<Rightarrow> verdict list \<Rightarrow> verdict" where
  "aggregate_loop ms any_deny any_warn [] =
     (if any_deny then Fail ms else if any_warn then Warn ms else Pass)"
| "aggregate_loop ms any_deny any_warn (Pass # vs) = aggregate_loop ms any_deny any_warn vs"
| "aggregate_loop ms any_deny any_warn (Warn v # vs) = aggregate_loop (ms @ v) any_deny True vs"
| "aggregate_loop ms any_deny any_warn (Fail v # vs) =
     aggregate_loop (ms @ v) True (any_warn \<or> (\<exists>m \<in> set v. mp_severity m = SevWarn)) vs"

definition aggregate :: "verdict list \<Rightarrow> verdict" where
  "aggregate vs = aggregate_loop [] False False vs"

section \<open>Requests and errors\<close>

record policy_request =
  req_principal :: string
  req_action :: string
  req_resource :: string
  req_entities :: json
  req_context :: json

datatype policy_error =
    ParseError string
  | SchemaError string
  | ValidationError string
  | RequestError string
  | ContextError string
  | EntitiesError string
  | EntityUidError string
  | LoweringError string

section \<open>The Cedar library as a parameter\<close>

datatype cedar_decision = Allow | Deny

record cedar_response =
  decision :: cedar_decision
  reason_ids :: "string list"
  eval_errors :: "string list"

record ('uid, 'ents, 'cx, 'req, 'pol, 'pset, 'schema) cedar =
  parse_uid :: "string \<Rightarrow> string + 'uid"
  entities_from_json :: "json \<Rightarrow> 'schema option \<Rightarrow> string + 'ents"
  context_from_json :: "json \<Rightarrow> ('schema \<times> 'uid) option \<Rightarrow> string + 'cx"
  request_new :: "'uid \<Rightarrow> 'uid \<Rightarrow> 'uid \<Rightarrow> 'cx \<Rightarrow> 'schema option \<Rightarrow> string + 'req"
  is_authorized :: "'req \<Rightarrow> 'pset \<Rightarrow> 'ents \<Rightarrow> cedar_response"
  schema_from_str :: "string \<Rightarrow> string + 'schema"
  policies_from_str :: "string \<Rightarrow> string + 'pset"
  set_policies :: "'pset \<Rightarrow> 'pol list"
  set_new :: 'pset
  set_add :: "'pol \<Rightarrow> 'pset \<Rightarrow> string + 'pset"
  pol_id :: "'pol \<Rightarrow> string"
  pol_new_id :: "string \<Rightarrow> 'pol \<Rightarrow> 'pol"
  pol_annotation :: "'pol \<Rightarrow> string \<Rightarrow> string option"
  validation_errors :: "'schema \<Rightarrow> 'pset \<Rightarrow> string list"

section \<open>The compiled engine\<close>

record ('pset, 'schema) policy_engine =
  policy_set :: 'pset
  eng_schema :: "'schema option"
  severities :: "string \<rightharpoonup> severity"
  reasons :: "string \<rightharpoonup> string"

definition baseline_permit :: string where
  "baseline_permit = ''@id(\"engine/baseline-allow\")'' @ [char_of (10 :: nat)]
     @ ''permit(principal, action, resource);'' @ [char_of (10 :: nat)]"

definition schemaless_eval_error_id :: string where
  "schemaless_eval_error_id = ''__schemaless_eval_error__''"

fun join_with :: "string \<Rightarrow> string list \<Rightarrow> string" where
  "join_with sep [] = []"
| "join_with sep [x] = x"
| "join_with sep (x # y # ys) = x @ sep @ join_with sep (y # ys)"

definition validation_errors_message :: "string list \<Rightarrow> string" where
  "validation_errors_message messages =
     (if messages = [] then ''unknown validation error'' else join_with ''; '' messages)"

definition validate_policy_set ::
  "('uid, 'ents, 'cx, 'req, 'pol, 'pset, 'schema) cedar \<Rightarrow> 'pset \<Rightarrow> 'schema \<Rightarrow> policy_error + unit" where
  "validate_policy_set C ps schema =
     (let errs = validation_errors C schema ps
      in if errs = [] then Inr () else Inl (ValidationError (validation_errors_message errs)))"

definition map_error :: "('e \<Rightarrow> 'f) \<Rightarrow> 'e + 'a \<Rightarrow> 'f + 'a" where
  "map_error f r = (case r of Inl e \<Rightarrow> Inl (f e) | Inr x \<Rightarrow> Inr x)"

definition parse_severity :: "string \<Rightarrow> policy_error + severity" where
  "parse_severity sev =
     (if sev = ''deny'' then Inr SevDeny
      else if sev = ''warn'' then Inr SevWarn
      else Inl (ParseError ''unknown @severity''))"

type_synonym 'pset ingest_state = "'pset \<times> (string \<rightharpoonup> severity) \<times> (string \<rightharpoonup> string)"

definition ingest_policy ::
  "('uid, 'ents, 'cx, 'req, 'pol, 'pset, 'schema) cedar \<Rightarrow> 'pset ingest_state \<Rightarrow> 'pol
     \<Rightarrow> policy_error + 'pset ingest_state" where
  "ingest_policy C st p =
     (case st of (ps, sevs, rsns) \<Rightarrow>
        let user_id = (case pol_annotation C p ''id'' of Some i \<Rightarrow> i | None \<Rightarrow> pol_id C p);
            new_policy = pol_new_id C user_id p
        in rbind (case pol_annotation C p ''severity'' of
                    Some sev \<Rightarrow> rbind (parse_severity sev) (\<lambda>parsed. Inr (sevs(user_id \<mapsto> parsed)))
                  | None \<Rightarrow> Inr sevs) (\<lambda>sevs'.
           let rsns' = (case pol_annotation C p ''reason'' of
                          Some r \<Rightarrow> rsns(user_id \<mapsto> r) | None \<Rightarrow> rsns)
           in rbind (map_error ParseError (set_add C new_policy ps)) (\<lambda>ps'. Inr (ps', sevs', rsns'))))"

definition ingest_all ::
  "('uid, 'ents, 'cx, 'req, 'pol, 'pset, 'schema) cedar \<Rightarrow> string
     \<Rightarrow> policy_error + 'pset ingest_state" where
  "ingest_all C text =
     rbind (map_error ParseError (policies_from_str C text)) (\<lambda>initial.
       rfold (ingest_policy C) (set_new C, Map.empty, Map.empty) (set_policies C initial))"

definition build_from ::
  "('uid, 'ents, 'cx, 'req, 'pol, 'pset, 'schema) cedar \<Rightarrow> string \<Rightarrow> 'schema
     \<Rightarrow> policy_error + ('pset, 'schema) policy_engine" where
  "build_from C text schema =
     rbind (ingest_all C text) (\<lambda>(ps, sevs, rsns).
     rbind (validate_policy_set C ps schema) (\<lambda>_.
       Inr \<lparr>policy_set = ps, eng_schema = Some schema, severities = sevs, reasons = rsns\<rparr>))"

definition validate_bundle ::
  "('uid, 'ents, 'cx, 'req, 'pol, 'pset, 'schema) cedar \<Rightarrow> unit \<Rightarrow> string \<times> string
     \<Rightarrow> policy_error + unit" where
  "validate_bundle C u bundle =
     rbind (map_error SchemaError (schema_from_str C (snd bundle))) (\<lambda>schema.
     rbind (map_error ParseError (policies_from_str C (fst bundle))) (\<lambda>pset.
       validate_policy_set C pset schema))"

definition per_policy_text :: "(string \<times> string) list \<Rightarrow> string" where
  "per_policy_text bundles =
     baseline_permit @ concat (map (\<lambda>(policy_text, _). policy_text @ [char_of (10 :: nat)]) bundles)"

definition build_from_per_policy ::
  "('uid, 'ents, 'cx, 'req, 'pol, 'pset, 'schema) cedar \<Rightarrow> (string \<times> string) list
     \<Rightarrow> policy_error + ('pset, 'schema) policy_engine" where
  "build_from_per_policy C bundles =
     rbind (rfold (validate_bundle C) () bundles) (\<lambda>_.
     rbind (ingest_all C (per_policy_text bundles)) (\<lambda>(ps, sevs, rsns).
       Inr \<lparr>policy_set = ps, eng_schema = None, severities = sevs, reasons = rsns\<rparr>))"

text \<open>\<open>builder.rs\<close>: the builder collects texts and ends in \<open>build_from\<close>. The bundled schema text that
  \<open>new\<close> starts from is an argument.\<close>

record engine_builder =
  text_sources :: "string list"
  schema_sources :: "string list"

definition builder_with_schema_text :: "string \<Rightarrow> engine_builder" where
  "builder_with_schema_text schema_text = \<lparr>text_sources = [], schema_sources = [schema_text]\<rparr>"

definition add_text :: "string \<Rightarrow> engine_builder \<Rightarrow> engine_builder" where
  "add_text src b = b\<lparr>text_sources := text_sources b @ [src]\<rparr>"

definition add_schema_text :: "string \<Rightarrow> engine_builder \<Rightarrow> engine_builder" where
  "add_schema_text src b = b\<lparr>schema_sources := schema_sources b @ [src]\<rparr>"

definition engine_build ::
  "('uid, 'ents, 'cx, 'req, 'pol, 'pset, 'schema) cedar \<Rightarrow> engine_builder
     \<Rightarrow> policy_error + ('pset, 'schema) policy_engine" where
  "engine_build C b =
     rbind (map_error SchemaError
              (schema_from_str C (concat (map (\<lambda>src. src @ [char_of (10 :: nat)]) (schema_sources b)))))
       (\<lambda>schema. build_from C
          (baseline_permit @ concat (map (\<lambda>src. src @ [char_of (10 :: nat)]) (text_sources b))) schema)"

definition from_sources ::
  "('uid, 'ents, 'cx, 'req, 'pol, 'pset, 'schema) cedar \<Rightarrow> string \<Rightarrow> string list
     \<Rightarrow> policy_error + ('pset, 'schema) policy_engine" where
  "from_sources C bundled sources = engine_build C (fold add_text sources (builder_with_schema_text bundled))"

section \<open>Evaluation\<close>

text \<open>The iteration over the hash set of determining policies: a policy without a severity entry is
  skipped, so is the baseline. The order of a hash set is not fixed; the model keeps the order of the
  reported reasons.\<close>

definition matched_of ::
  "('pset, 'schema) policy_engine \<Rightarrow> string \<Rightarrow> matched_policy option" where
  "matched_of E pid =
     (if pid = ''engine/baseline-allow'' then None
      else case severities E pid of
             None \<Rightarrow> None
           | Some sev \<Rightarrow> Some \<lparr>policy_id = pid, mp_reason = reasons E pid, mp_severity = sev,
                                 mp_origin = OriginAction\<rparr>)"

definition decide :: "cedar_decision \<Rightarrow> matched_policy list \<Rightarrow> verdict" where
  "decide dec ms =
     (case dec of
        Allow \<Rightarrow> Pass
      | Deny \<Rightarrow> if \<exists>m \<in> set ms. mp_severity m = SevDeny then Fail ms
                else if ms \<noteq> [] then Warn ms
                else Fail [])"

definition verdict_of ::
  "('pset, 'schema) policy_engine \<Rightarrow> cedar_response \<Rightarrow> verdict" where
  "verdict_of E response =
     (if eng_schema E = None \<and> eval_errors response \<noteq> []
      then Fail [\<lparr>policy_id = schemaless_eval_error_id,
                  mp_reason = Some (''schema-less evaluation error: '' @ hd (eval_errors response)),
                  mp_severity = SevDeny, mp_origin = OriginAction\<rparr>]
      else decide (decision response) (List.map_filter (matched_of E) (remdups (reason_ids response))))"

definition evaluate ::
  "('uid, 'ents, 'cx, 'req, 'pol, 'pset, 'schema) cedar \<Rightarrow> ('pset, 'schema) policy_engine
     \<Rightarrow> string \<Rightarrow> string \<Rightarrow> string \<Rightarrow> json \<Rightarrow> json \<Rightarrow> policy_error + verdict" where
  "evaluate C E prin act res entities_json context_json =
     rbind (map_error EntityUidError (parse_uid C prin)) (\<lambda>p.
     rbind (map_error EntityUidError (parse_uid C act)) (\<lambda>a.
     rbind (map_error EntityUidError (parse_uid C res)) (\<lambda>r.
     rbind (map_error EntitiesError (entities_from_json C entities_json (eng_schema E))) (\<lambda>entities.
     rbind (map_error ContextError
              (context_from_json C context_json (map_option (\<lambda>s. (s, a)) (eng_schema E)))) (\<lambda>context.
     rbind (map_error RequestError (request_new C p a r context (eng_schema E))) (\<lambda>request.
       Inr (verdict_of E (is_authorized C request (policy_set E) entities))))))))"

definition with_origin :: "policy_request_origin \<Rightarrow> verdict \<Rightarrow> verdict" where
  "with_origin origin v =
     (case v of
        Pass \<Rightarrow> Pass
      | Warn ms \<Rightarrow> Warn (map (\<lambda>m. m\<lparr>mp_origin := origin\<rparr>) ms)
      | Fail ms \<Rightarrow> Fail (map (\<lambda>m. m\<lparr>mp_origin := origin\<rparr>) ms))"

definition evaluate_request_with_origin ::
  "('uid, 'ents, 'cx, 'req, 'pol, 'pset, 'schema) cedar \<Rightarrow> ('pset, 'schema) policy_engine
     \<Rightarrow> policy_request \<Rightarrow> policy_request_origin \<Rightarrow> policy_error + verdict" where
  "evaluate_request_with_origin C E req origin =
     rbind (evaluate C E (req_principal req) (req_action req) (req_resource req) (req_entities req)
              (req_context req)) (\<lambda>v. Inr (with_origin origin v))"

definition evaluate_request ::
  "('uid, 'ents, 'cx, 'req, 'pol, 'pset, 'schema) cedar \<Rightarrow> ('pset, 'schema) policy_engine
     \<Rightarrow> policy_request \<Rightarrow> policy_error + verdict" where
  "evaluate_request C E req = evaluate_request_with_origin C E req OriginAction"

definition evaluate_requests ::
  "('uid, 'ents, 'cx, 'req, 'pol, 'pset, 'schema) cedar \<Rightarrow> ('pset, 'schema) policy_engine
     \<Rightarrow> (policy_request \<times> policy_request_origin) list \<Rightarrow> policy_error + verdict" where
  "evaluate_requests C E reqs =
     rbind (rfold (\<lambda>vs (req, origin). rbind (evaluate_request_with_origin C E req origin)
                                        (\<lambda>v. Inr (vs @ [v]))) [] reqs)
       (\<lambda>vs. Inr (aggregate vs))"

section \<open>Aggregation\<close>

lemma map_error_iff [result_iff]:
  "map_error f r = Inr x \<longleftrightarrow> r = Inr x"
  "map_error f r = Inl e \<longleftrightarrow> (\<exists>e'. r = Inl e' \<and> e = f e')"
  by (auto simp: map_error_def split: sum.splits)

lemma map_error_simps [simp]: "map_error f (Inr x) = Inr x" "map_error f (Inl e) = Inl (f e)"
  by (simp_all add: map_error_def)

text \<open>How bad a verdict is: the order in which aggregation takes the worst.\<close>

fun rank :: "verdict \<Rightarrow> nat" where
  "rank Pass = 0"
| "rank (Warn _) = 1"
| "rank (Fail _) = 2"

lemma rank_facts [simp]:
  "rank v = 0 \<longleftrightarrow> v = Pass" "rank v = 2 \<longleftrightarrow> is_failure v" "rank v \<le> 2"
  by (cases v; simp)+

lemma aggregate_loop_matched:
  "matched (aggregate_loop ms d w vs)
     = (if d \<or> w \<or> (\<exists>v \<in> set vs. v \<noteq> Pass) then ms @ concat (map matched vs) else [])"
  by (induction ms d w vs rule: aggregate_loop.induct) auto

lemma aggregate_loop_rank:
  "rank (aggregate_loop ms d w vs)
     = Max (insert (if d then 2 else if w then 1 else 0) (rank ` set vs))"
proof (induction ms d w vs rule: aggregate_loop.induct)
  case (4 ms d w v vs)
  have "Max (insert (2 :: nat) (rank ` set vs)) = 2" by (rule Max_eqI) auto
  moreover have "Max (insert (if d then 2 else if w then 1 else (0 :: nat)) (insert 2 (rank ` set vs))) = 2"
    by (rule Max_eqI) auto
  ultimately show ?case using 4 by (simp add: insert_commute)
next
  case (3 ms d w v vs)
  then show ?case by (cases "vs = []"; cases d; cases w) (auto simp: max_def)
next
  case (2 ms d w vs)
  then show ?case by (cases "vs = []") (auto simp: max_def)
qed simp

end
