(* ===== verification/EngineFacts.thy ===== *)
theory EngineFacts
  imports Verdicts
begin

text \<open>
  What an engine compiled by \<^const>\<open>build_from_per_policy\<close> decides, under the documented behaviour of the
  Cedar library. \<open>outcome\<close> is what one policy does with one request; \<open>set_laws\<close>, \<open>answer_laws\<close> and
  \<open>parse_laws\<close> state the library's promises on policy sets, on the authoriser's answer and on parsing the
  text the engine assembles.
\<close>

section \<open>What the library promises\<close>

datatype outcome = Applies | Skips | Errs

definition set_laws ::
  "('uid, 'ents, 'cx, 'req, 'pol, 'pset, 'schema) cedar \<Rightarrow> bool" where
  "set_laws C \<longleftrightarrow>
     set_policies C (set_new C) = []
     \<and> (\<forall>p ps ps'. set_add C p ps = Inr ps' \<longrightarrow>
          pol_id C p \<notin> pol_id C ` set (set_policies C ps)
          \<and> set (set_policies C ps') = insert p (set (set_policies C ps)))
     \<and> (\<forall>p i. pol_id C (pol_new_id C i p) = i)
     \<and> (\<forall>p i k. pol_annotation C (pol_new_id C i p) k = pol_annotation C p k)"

definition answer_laws ::
  "('uid, 'ents, 'cx, 'req, 'pol, 'pset, 'schema) cedar \<Rightarrow> ('pol \<Rightarrow> bool)
     \<Rightarrow> ('pol \<Rightarrow> 'req \<Rightarrow> 'ents \<Rightarrow> outcome) \<Rightarrow> bool" where
  "answer_laws C forbids oc \<longleftrightarrow>
     (\<forall>p i. forbids (pol_new_id C i p) = forbids p \<and> oc (pol_new_id C i p) = oc p)
     \<and> (\<forall>req ps ents.
          let hits = {p \<in> set (set_policies C ps). oc p req ents = Applies};
              fs = {p \<in> hits. forbids p};
              resp = is_authorized C req ps ents
          in decision resp = (if fs = {} \<and> hits \<noteq> {} then Allow else Deny)
             \<and> set (reason_ids resp) = pol_id C ` (if fs = {} then hits else fs)
             \<and> (eval_errors resp = [] \<longleftrightarrow> (\<forall>p \<in> set (set_policies C ps). oc p req ents \<noteq> Errs)))"

text \<open>Parsing the assembled text yields the baseline permit and the policies of the bundles' own texts;
  the baseline applies to every request.\<close>

definition parse_laws ::
  "('uid, 'ents, 'cx, 'req, 'pol, 'pset, 'schema) cedar \<Rightarrow> ('pol \<Rightarrow> bool)
     \<Rightarrow> ('pol \<Rightarrow> 'req \<Rightarrow> 'ents \<Rightarrow> outcome) \<Rightarrow> (string \<times> string) list \<Rightarrow> 'pol list \<Rightarrow> bool" where
  "parse_laws C forbids oc bundles own \<longleftrightarrow>
     (\<forall>ps. policies_from_str C (per_policy_text bundles) = Inr ps \<longrightarrow>
        (\<exists>base. set (set_policies C ps) = insert base (set own)
           \<and> pol_annotation C base ''id'' = Some ''engine/baseline-allow'' \<and> \<not> forbids base
           \<and> (\<forall>req ents. oc base req ents = Applies)))"

section \<open>Ingesting policies\<close>

definition policy_severity ::
  "('uid, 'ents, 'cx, 'req, 'pol, 'pset, 'schema) cedar \<Rightarrow> 'pol \<Rightarrow> severity option" where
  "policy_severity C p =
     (case pol_annotation C p ''severity'' of
        Some sev \<Rightarrow> if sev = ''deny'' then Some SevDeny else if sev = ''warn'' then Some SevWarn else None
      | None \<Rightarrow> None)"

definition user_id ::
  "('uid, 'ents, 'cx, 'req, 'pol, 'pset, 'schema) cedar \<Rightarrow> 'pol \<Rightarrow> string" where
  "user_id C p = (case pol_annotation C p ''id'' of Some i \<Rightarrow> i | None \<Rightarrow> pol_id C p)"

definition renamed ::
  "('uid, 'ents, 'cx, 'req, 'pol, 'pset, 'schema) cedar \<Rightarrow> 'pol \<Rightarrow> 'pol" where
  "renamed C p = pol_new_id C (user_id C p) p"

fun ingested ::
  "('uid, 'ents, 'cx, 'req, 'pol, 'pset, 'schema) cedar \<Rightarrow> 'pset ingest_state \<Rightarrow> bool" where
  "ingested C (ps, sevs, rsns) \<longleftrightarrow>
     inj_on (pol_id C) (set (set_policies C ps))
     \<and> (\<forall>p \<in> set (set_policies C ps). sevs (pol_id C p) = policy_severity C p)
     \<and> dom sevs \<subseteq> pol_id C ` set (set_policies C ps)"

lemma ingest_policy_Inr:
  assumes "set_laws C" "ingest_policy C (ps, sevs, rsns) p = Inr (ps', sevs', rsns')"
  shows "user_id C p \<notin> pol_id C ` set (set_policies C ps)"
    and "set (set_policies C ps') = insert (renamed C p) (set (set_policies C ps))"
    and "sevs' = (case policy_severity C p of None \<Rightarrow> sevs | Some s \<Rightarrow> sevs(user_id C p \<mapsto> s))"
proof -
  have add: "set_add C (renamed C p) ps = Inr ps'"
    and sev: "sevs' = (case policy_severity C p of None \<Rightarrow> sevs | Some s \<Rightarrow> sevs(user_id C p \<mapsto> s))"
    using assms(2)
    by (auto simp: ingest_policy_def Let_def result_iff renamed_def user_id_def policy_severity_def
        parse_severity_def split: option.splits if_splits)
  have "pol_id C (renamed C p) = user_id C p"
    using assms(1) by (simp add: set_laws_def renamed_def)
  moreover have "pol_id C (renamed C p) \<notin> pol_id C ` set (set_policies C ps)
      \<and> set (set_policies C ps') = insert (renamed C p) (set (set_policies C ps))"
    using add assms(1) unfolding set_laws_def by blast
  ultimately show "user_id C p \<notin> pol_id C ` set (set_policies C ps)"
    and "set (set_policies C ps') = insert (renamed C p) (set (set_policies C ps))"
    by simp_all
  show "sevs' = (case policy_severity C p of None \<Rightarrow> sevs | Some s \<Rightarrow> sevs(user_id C p \<mapsto> s))"
    by (rule sev)
qed

lemma renamed_facts:
  assumes "set_laws C"
  shows "pol_id C (renamed C p) = user_id C p" "policy_severity C (renamed C p) = policy_severity C p"
  using assms by (simp_all add: set_laws_def renamed_def policy_severity_def)

lemma ingest_policy_keeps:
  assumes "set_laws C" "ingest_policy C st p = Inr st'" "ingested C st"
  shows "ingested C st'"
proof -
  obtain ps sevs rsns where st: "st = (ps, sevs, rsns)" by (cases st)
  obtain ps' sevs' rsns' where st': "st' = (ps', sevs', rsns')" by (cases st')
  note step = ingest_policy_Inr [OF assms(1) assms(2) [unfolded st st']]
  have fresh: "sevs (user_id C p) = None"
    using assms(3) step(1) unfolding st by (auto simp: domIff)
  show ?thesis
    using assms(3) step fresh unfolding st st'
    by (auto simp: renamed_facts [OF assms(1)] inj_on_insert rev_image_eqI split: option.splits if_splits)
qed

lemma ingest_loop:
  assumes "set_laws C" "rfold (ingest_policy C) (ps, sevs, rsns) xs = Inr (ps', sevs', rsns')"
    "ingested C (ps, sevs, rsns)"
  shows "ingested C (ps', sevs', rsns')
    \<and> set (set_policies C ps') = set (set_policies C ps) \<union> renamed C ` set xs"
  using assms(2,3)
proof (induction xs arbitrary: ps sevs rsns)
  case Nil
  then show ?case by simp
next
  case (Cons x xs)
  then obtain qs ts us where step: "ingest_policy C (ps, sevs, rsns) x = Inr (qs, ts, us)"
    and rest: "rfold (ingest_policy C) (qs, ts, us) xs = Inr (ps', sevs', rsns')"
    by (auto simp: result_iff)
  note IH = Cons.IH [OF rest ingest_policy_keeps [OF assms(1) step Cons.prems(2)]]
  have "set (set_policies C ps') = set (set_policies C ps) \<union> renamed C ` set (x # xs)"
    using IH ingest_policy_Inr(2) [OF assms(1) step] by (simp only:) auto
  with IH show ?case by blast
qed

lemma per_policy_engine:
  assumes "set_laws C" "parse_laws C forbids oc bundles own" "build_from_per_policy C bundles = Inr E"
  shows "eng_schema E = None"
    and "ingested C (policy_set E, severities E, reasons E)"
    and "\<exists>base. set (set_policies C (policy_set E)) = renamed C ` insert base (set own)
           \<and> user_id C base = ''engine/baseline-allow'' \<and> \<not> forbids base
           \<and> (\<forall>req ents. oc base req ents = Applies)"
proof -
  obtain initial ps sevs rsns where parse: "policies_from_str C (per_policy_text bundles) = Inr initial"
    and loop: "rfold (ingest_policy C) (set_new C, Map.empty, Map.empty) (set_policies C initial)
                 = Inr (ps, sevs, rsns)"
    and E: "E = \<lparr>policy_set = ps, eng_schema = None, severities = sevs, reasons = rsns\<rparr>"
    using assms(3) by (auto simp: build_from_per_policy_def ingest_all_def result_iff)
  have empty: "set_policies C (set_new C) = []" using assms(1) by (simp add: set_laws_def)
  have start: "ingested C (set_new C, Map.empty, Map.empty)" by (simp add: empty)
  have ing: "ingested C (ps, sevs, rsns)"
    and all: "set (set_policies C ps) = renamed C ` set (set_policies C initial)"
    using ingest_loop [OF assms(1) loop start] by (simp_all add: empty del: ingested.simps)
  show "eng_schema E = None" by (simp add: E)
  show "ingested C (policy_set E, severities E, reasons E)" using ing by (simp add: E del: ingested.simps)
  show "\<exists>base. set (set_policies C (policy_set E)) = renamed C ` insert base (set own)
           \<and> user_id C base = ''engine/baseline-allow'' \<and> \<not> forbids base
           \<and> (\<forall>req ents. oc base req ents = Applies)"
    using parse assms(2) unfolding E policy_engine.simps all parse_laws_def user_id_def by fastforce
qed

section \<open>What the engine decides\<close>

text \<open>The forbids of the bundles that apply to a request, with their severity.\<close>

definition firing ::
  "('pol \<Rightarrow> bool) \<Rightarrow> ('pol \<Rightarrow> 'req \<Rightarrow> 'ents \<Rightarrow> outcome) \<Rightarrow> 'pol list \<Rightarrow> 'req \<Rightarrow> 'ents \<Rightarrow> 'pol set" where
  "firing forbids oc own req ents = {p \<in> set own. forbids p \<and> oc p req ents = Applies}"

lemma map_filter_set: "set (List.map_filter f xs) = {y. \<exists>x \<in> set xs. f x = Some y}"
  by (induction xs) (auto simp: List.map_filter_simps split: option.splits)

lemma decide_cases:
  "decide Deny ms = Fail ms \<longleftrightarrow> (\<exists>m \<in> set ms. mp_severity m = SevDeny) \<or> ms = []"
  "is_failure (decide Deny ms) \<longleftrightarrow> (\<exists>m \<in> set ms. mp_severity m = SevDeny) \<or> ms = []"
  "decide Deny ms \<noteq> Pass" "decide Allow ms = Pass"
  by (auto simp: decide_def)

text \<open>The policies of a compiled bundle: the baseline permit and the bundle's own, all renamed.\<close>

definition compiled ::
  "('uid, 'ents, 'cx, 'req, 'pol, 'pset, 'schema) cedar \<Rightarrow> ('pol \<Rightarrow> bool)
     \<Rightarrow> ('pol \<Rightarrow> 'req \<Rightarrow> 'ents \<Rightarrow> outcome) \<Rightarrow> 'pol \<Rightarrow> 'pol list \<Rightarrow> 'pset \<Rightarrow> bool" where
  "compiled C forbids oc base own ps \<longleftrightarrow>
     set (set_policies C ps) = renamed C ` insert base (set own)
     \<and> user_id C base = ''engine/baseline-allow'' \<and> \<not> forbids base
     \<and> (\<forall>req ents. oc base req ents = Applies)"

lemma renamed_same:
  assumes "answer_laws C forbids oc"
  shows "forbids (renamed C p) = forbids p" "oc (renamed C p) = oc p"
  using assms by (simp_all add: answer_laws_def renamed_def)

lemma authorizer_answer:
  fixes req ents
  assumes laws: "set_laws C" "answer_laws C forbids oc" and comp: "compiled C forbids oc base own ps"
  defines "resp \<equiv> is_authorized C req ps ents" and "fs \<equiv> firing forbids oc own req ents"
  shows "decision resp = (if fs = {} then Allow else Deny)"
    and "fs \<noteq> {} \<Longrightarrow> set (reason_ids resp) = user_id C ` fs"
    and "eval_errors resp = [] \<longleftrightarrow> (\<forall>p \<in> set own. oc p req ents \<noteq> Errs)"
proof -
  note same = renamed_same [OF laws(2)]
  define hits where "hits = {p \<in> set (set_policies C ps). oc p req ents = Applies}"
  have fired: "{p \<in> hits. forbids p} = renamed C ` fs"
    unfolding hits_def fs_def firing_def using comp by (auto simp: same compiled_def)
  have hits: "hits \<noteq> {}" unfolding hits_def using comp by (auto simp: same compiled_def)
  have law: "decision resp = (if {p \<in> hits. forbids p} = {} \<and> hits \<noteq> {} then Allow else Deny)"
      "set (reason_ids resp) = pol_id C ` (if {p \<in> hits. forbids p} = {} then hits else {p \<in> hits. forbids p})"
      "eval_errors resp = [] \<longleftrightarrow> (\<forall>p \<in> set (set_policies C ps). oc p req ents \<noteq> Errs)"
    using laws(2) unfolding answer_laws_def resp_def hits_def Let_def by blast+
  show "decision resp = (if fs = {} then Allow else Deny)" by (simp add: law fired hits)
  show "set (reason_ids resp) = user_id C ` fs" if "fs \<noteq> {}"
    using that by (simp add: law fired image_image renamed_facts [OF laws(1)])
  show "eval_errors resp = [] \<longleftrightarrow> (\<forall>p \<in> set own. oc p req ents \<noteq> Errs)"
    using comp by (auto simp: law same compiled_def)
qed

lemma own_matched:
  assumes laws: "set_laws C" "answer_laws C forbids oc"
    and comp: "compiled C forbids oc base own (policy_set E)"
    and ing: "ingested C (policy_set E, severities E, reasons E)"
    and p: "p \<in> set own" "forbids p"
  shows "matched_of E (user_id C p) = map_option (\<lambda>s. \<lparr>policy_id = user_id C p,
        mp_reason = reasons E (user_id C p), mp_severity = s, mp_origin = OriginAction\<rparr>)
      (policy_severity C p)"
proof -
  have mem: "renamed C q \<in> set (set_policies C (policy_set E))" if "q \<in> insert base (set own)" for q
    using comp that by (auto simp: compiled_def)
  have sev: "severities E (user_id C p) = policy_severity C p"
    using ing mem [of p] p(1) by (auto simp: renamed_facts [OF laws(1)])
  have "user_id C p \<noteq> ''engine/baseline-allow''"
  proof
    assume eq: "user_id C p = ''engine/baseline-allow''"
    have "renamed C p = renamed C base"
    proof (rule inj_onD)
      show "inj_on (pol_id C) (set (set_policies C (policy_set E)))" using ing by simp
      show "pol_id C (renamed C p) = pol_id C (renamed C base)"
        using comp by (simp add: renamed_facts [OF laws(1)] eq compiled_def)
    qed (use p(1) in \<open>auto intro: mem\<close>)
    then have "forbids p = forbids base" using renamed_same(1) [OF laws(2)] by metis
    with p(2) comp show False by (simp add: compiled_def)
  qed
  then show ?thesis by (auto simp: matched_of_def sev split: option.splits)
qed

lemma matched_list:
  assumes reasons: "set rs = user_id C ` fs"
    and mo: "\<And>p. p \<in> fs \<Longrightarrow> matched_of E (user_id C p) = map_option (\<lambda>s. f p s) (policy_severity C p)"
    and f: "\<And>p s. mp_severity (f p s) = s"
  defines "ms \<equiv> List.map_filter (matched_of E) (remdups rs)"
  shows "(\<exists>m \<in> set ms. mp_severity m = SevDeny) \<longleftrightarrow> (\<exists>p \<in> fs. policy_severity C p = Some SevDeny)"
    and "ms = [] \<longleftrightarrow> (\<forall>p \<in> fs. policy_severity C p = None)"
proof -
  have ms: "set ms = {m. \<exists>p \<in> fs. matched_of E (user_id C p) = Some m}"
    unfolding ms_def by (auto simp: map_filter_set reasons)
  show "(\<exists>m \<in> set ms. mp_severity m = SevDeny) \<longleftrightarrow> (\<exists>p \<in> fs. policy_severity C p = Some SevDeny)"
    unfolding ms by (force simp: mo f)
  have "ms = [] \<longleftrightarrow> (\<forall>p \<in> fs. matched_of E (user_id C p) = None)"
    using ms by (auto simp: set_empty [symmetric] simp del: set_empty intro: option.exhaust)
  then show "ms = [] \<longleftrightarrow> (\<forall>p \<in> fs. policy_severity C p = None)" by (simp add: mo)
qed

lemma verdict_of_firing:
  assumes laws: "set_laws C" "answer_laws C forbids oc"
    and parsed: "parse_laws C forbids oc bundles own"
    and built: "build_from_per_policy C bundles = Inr E"
    and clean: "\<forall>p \<in> set own. oc p req ents \<noteq> Errs"
  defines "v \<equiv> verdict_of E (is_authorized C req (policy_set E) ents)"
    and "fs \<equiv> firing forbids oc own req ents"
  shows "v = Pass \<longleftrightarrow> fs = {}"
    and "is_failure v \<longleftrightarrow> fs \<noteq> {} \<and> ((\<exists>p \<in> fs. policy_severity C p = Some SevDeny)
                                       \<or> (\<forall>p \<in> fs. policy_severity C p = None))"
proof -
  note engine = per_policy_engine [OF laws(1) parsed built]
  obtain base where comp: "compiled C forbids oc base own (policy_set E)"
    using engine(3) by (auto simp: compiled_def)
  define resp where "resp = is_authorized C req (policy_set E) ents"
  note answer = authorizer_answer [OF laws comp, of req ents, folded resp_def fs_def]
  define ms where "ms = List.map_filter (matched_of E) (remdups (reason_ids resp))"
  have v: "v = decide (decision resp) ms"
    unfolding v_def verdict_of_def using answer(3) clean by (simp add: ms_def flip: resp_def)
  show "v = Pass \<longleftrightarrow> fs = {}" by (simp add: v answer(1) decide_cases)
  have own: "p \<in> set own" "forbids p" if "p \<in> fs" for p using that by (auto simp: fs_def firing_def)
  show "is_failure v \<longleftrightarrow> fs \<noteq> {} \<and> ((\<exists>p \<in> fs. policy_severity C p = Some SevDeny)
                                       \<or> (\<forall>p \<in> fs. policy_severity C p = None))"
  proof (cases "fs = {}")
    case False
    note ml = matched_list [OF answer(2) [OF False] own_matched [OF laws comp engine(2) own],
        folded ms_def, simplified]
    show ?thesis using False ml by (simp add: v answer(1) decide_cases(2))
  qed (simp add: v answer(1) decide_cases)
qed

lemma verdict_of_error:
  assumes laws: "set_laws C" "answer_laws C forbids oc"
    and parsed: "parse_laws C forbids oc bundles own"
    and built: "build_from_per_policy C bundles = Inr E"
    and err: "p \<in> set own" "oc p req ents = Errs"
  shows "is_failure (verdict_of E (is_authorized C req (policy_set E) ents))"
proof -
  note engine = per_policy_engine [OF laws(1) parsed built]
  have "renamed C p \<in> set (set_policies C (policy_set E))" using engine(3) err(1) by auto
  moreover have "oc (renamed C p) = oc p" using laws(2) by (simp add: answer_laws_def renamed_def)
  ultimately have "eval_errors (is_authorized C req (policy_set E) ents) \<noteq> []"
    using laws(2) err(2) unfolding answer_laws_def Let_def by metis
  then show ?thesis by (simp add: verdict_of_def engine(1))
qed

end
