(* ===== verification/PolicyRpc.thy ===== *)
theory PolicyRpc
  imports ActionViews EngineFacts
begin

text \<open>
  \<^verbatim>\<open>policy-engine/src/policy_rpc\<close>: per-policy manifests and their validation (\<^verbatim>\<open>manifest_v2.rs\<close>,
  \<^verbatim>\<open>manifest.rs\<close>), the trigger evaluator (\<^verbatim>\<open>trigger.rs\<close>), the selector resolver (\<^verbatim>\<open>selector.rs\<close>), the
  planner (\<^verbatim>\<open>planning_v2.rs\<close>), the projection of results into the Cedar context (\<^verbatim>\<open>materialize_v2.rs\<close>) and the
  fail-closed verdict (\<^verbatim>\<open>materialize.rs\<close>), with the Cedar JSON helpers (\<^verbatim>\<open>cedar_json.rs\<close>).

  Maps keyed by strings (\<open>BTreeMap\<close>, \<open>serde_json::Map\<close>) are association lists; a key is looked up at its
  first entry. JSON numbers carry their printed text. The map of results is a partial function. Error
  texts keep their fixed part.
\<close>

section \<open>Manifests\<close>

definition manifest_v2_schema_version :: u64 where
  "manifest_v2_schema_version = 2"

definition check_call ::
  "string list \<times> string list \<Rightarrow> call_spec \<Rightarrow> policy_rpc_error + (string list \<times> string list)" where
  "check_call st call =
     (case st of (call_ids, produced) \<Rightarrow>
        if spec_id call \<in> set call_ids then Inl (InvalidManifest ''duplicate policy_rpc id'')
        else Inr (spec_id call # call_ids, map prj_field (spec_outputs call) @ produced))"

definition check_field ::
  "string list \<Rightarrow> unit \<Rightarrow> string \<Rightarrow> policy_rpc_error + unit" where
  "check_field produced u field =
     (if field \<in> set produced then Inr ()
      else Inl (InvalidManifest ''custom_context field with no producing policy_rpc output''))"

definition manifest_validate :: "manifest \<Rightarrow> policy_rpc_error + unit" where
  "manifest_validate m =
     (if schema_version m \<noteq> manifest_v2_schema_version then Inl (InvalidManifest ''schema_version'')
      else rbind (rfold check_call ([], []) (man_rpc m)) (\<lambda>(call_ids, produced).
             rfold (check_field produced) () (map fst (custom_fields m))))"

section \<open>Triggers\<close>

fun trigger_lhs :: "trigger_field \<Rightarrow> action_view \<Rightarrow> tx_view \<Rightarrow> string option" where
  "trigger_lhs ActionDomain a tx = Some (vw_domain a)"
| "trigger_lhs ActionTag a tx = vw_action_tag a"
| "trigger_lhs ActionVenue a tx = vw_venue_name a"
| "trigger_lhs TxChainId a tx = Some (txv_chain_id tx)"
| "trigger_lhs TxFrom a tx = Some (txv_from tx)"
| "trigger_lhs TxTo a tx = Some (txv_to tx)"

definition matches_field ::
  "trigger_field \<Rightarrow> trigger_constraint \<Rightarrow> action_view \<Rightarrow> tx_view \<Rightarrow> bool" where
  "matches_field field con a tx =
     (case trigger_lhs field a tx of
        None \<Rightarrow> (case con of ConNe _ \<Rightarrow> True | ConNin _ \<Rightarrow> True | _ \<Rightarrow> False)
      | Some have \<Rightarrow> (case con of
            ConEq want \<Rightarrow> have = want
          | ConNe want \<Rightarrow> have \<noteq> want
          | ConIn vs \<Rightarrow> have \<in> set vs
          | ConNin vs \<Rightarrow> have \<notin> set vs))"

definition evaluate_trigger :: "trigger \<Rightarrow> action_view \<Rightarrow> tx_view \<Rightarrow> bool" where
  "evaluate_trigger t a tx = (\<forall>(field, con) \<in> set (trg_where t). matches_field field con a tx)"

section \<open>Selectors\<close>

text \<open>\<open>str::split\<close> at a character: always at least one part.\<close>

fun split_on :: "char \<Rightarrow> string \<Rightarrow> string list" where
  "split_on c [] = [[]]"
| "split_on c (x # xs) =
     (if x = c then [] # split_on c xs
      else case split_on c xs of [] \<Rightarrow> [[x]] | p # ps \<Rightarrow> (x # p) # ps)"

definition starts_with :: "string \<Rightarrow> string \<Rightarrow> bool" where
  "starts_with s prefix = (take (length prefix) s = prefix)"

definition selector_root :: "selector_roots \<Rightarrow> string \<Rightarrow> policy_rpc_error + json" where
  "selector_root R name =
     (if name = ''root'' then Inr (root_tx R)
      else if name = ''action'' then Inr (root_action R)
      else if name = ''context'' then Inr (root_context R)
      else if name = ''result'' then Inr (root_result R)
      else if name = ''params'' then Inr (root_params R)
      else Inl (SelectorError ''unknown selector root''))"

definition selector_step :: "json \<Rightarrow> string \<Rightarrow> policy_rpc_error + json" where
  "selector_step current field =
     (if field = [] then Inl (SelectorError ''empty selector segment'')
      else ok_or (json_get current field) (SelectorError ''selector field not found''))"

definition resolve_selector :: "string \<Rightarrow> selector_roots \<Rightarrow> policy_rpc_error + json" where
  "resolve_selector selector R =
     (if \<not> starts_with selector ''$.'' then Inl (SelectorError ''selector must start with $.'')
      else if \<exists>ch \<in> set selector. ch \<in> set ''[]*()''
        then Inl (SelectorError ''selector uses unsupported syntax'')
      else case split_on (CHR ''.'') (drop 2 selector) of
             [] \<Rightarrow> Inl (SelectorError ''selector is empty'')
           | root_name # parts \<Rightarrow>
               rbind (selector_root R root_name) (\<lambda>current. rfold selector_step current parts))"

section \<open>Planning\<close>

definition policy_rpc_call_id_v2 :: "string \<Rightarrow> string \<Rightarrow> string" where
  "policy_rpc_call_id_v2 manifest_id' spec_id' = manifest_id' @ ''::'' @ spec_id'"

definition root_selector_json :: "tx_view \<Rightarrow> json" where
  "root_selector_json tx =
     JObj [(''chain_id'', JStr (txv_chain_id tx)), (''from'', JStr (txv_from tx)), (''to'', JStr (txv_to tx))]"

abbreviation empty_json :: json where
  "empty_json \<equiv> JObj []"

definition planning_roots :: "json \<Rightarrow> tx_view \<Rightarrow> selector_roots" where
  "planning_roots lowered_context tx =
     \<lparr>root_tx = root_selector_json tx, root_action = lowered_context, root_context = empty_json,
      root_result = empty_json, root_params = empty_json\<rparr>"

definition resolve_template :: "selector_roots \<Rightarrow> json \<Rightarrow> policy_rpc_error + json" where
  "resolve_template R template =
     (case template of
        JStr selector \<Rightarrow> if starts_with selector ''$.'' then resolve_selector selector R else Inr template
      | _ \<Rightarrow> Inr template)"

definition resolve_param ::
  "selector_roots \<Rightarrow> (string \<times> json) list \<Rightarrow> string \<times> json \<Rightarrow> policy_rpc_error + (string \<times> json) list" where
  "resolve_param R params kt =
     rbind (resolve_template R (snd kt)) (\<lambda>value. Inr (json_insert (fst kt) value params))"

definition planned_of :: "manifest \<Rightarrow> call_spec \<Rightarrow> (string \<times> json) list \<Rightarrow> planned_call" where
  "planned_of m spec params =
     \<lparr>pc_manifest_id = man_id m, pc_call_id = policy_rpc_call_id_v2 (man_id m) (spec_id spec),
      pc_method = spec_method spec, pc_params = JObj params, pc_outputs = spec_outputs spec,
      pc_optional = spec_optional spec\<rparr>"

definition plan_spec ::
  "selector_roots \<Rightarrow> manifest \<Rightarrow> planned_call list \<Rightarrow> call_spec \<Rightarrow> policy_rpc_error + planned_call list" where
  "plan_spec R m calls spec =
     (case rfold (resolve_param R) [] (spec_params spec) of
        Inl error \<Rightarrow> if spec_optional spec then Inr calls else Inl error
      | Inr params \<Rightarrow> Inr (calls @ [planned_of m spec params]))"

definition plan_manifest ::
  "selector_roots \<Rightarrow> action_view \<Rightarrow> tx_view \<Rightarrow> planned_call list \<Rightarrow> manifest
     \<Rightarrow> policy_rpc_error + planned_call list" where
  "plan_manifest R view tx calls m =
     rbind (manifest_validate m) (\<lambda>_.
       if \<not> evaluate_trigger (man_trigger m) view tx then Inr calls
       else rfold (plan_spec R m) calls (man_rpc m))"

definition plan_policy_rpc_v2 ::
  "manifest list \<Rightarrow> action_view \<Rightarrow> json \<Rightarrow> tx_view \<Rightarrow> policy_rpc_error + planned_call list" where
  "plan_policy_rpc_v2 manifests view lowered_context tx =
     rfold (plan_manifest (planning_roots lowered_context tx) view tx) [] manifests"

section \<open>Materialisation\<close>

definition decimal_json :: "string \<Rightarrow> json" where
  "decimal_json value =
     JObj [(''__extn'', JObj [(''fn'', JStr ''decimal''), (''arg'', JStr value)])]"

text \<open>\<open>Value::as_i64\<close> and \<open>Value::as_u64\<close> on the printed text of a number: an optional minus sign and
  digits, within the range of the type. A number with a fraction or an exponent is no integer.\<close>

definition is_digit :: "char \<Rightarrow> bool" where
  "is_digit c = ((48 :: nat) \<le> of_char c \<and> (of_char c :: nat) \<le> 57)"

definition nat_of_text :: "string \<Rightarrow> nat option" where
  "nat_of_text s = (if s \<noteq> [] \<and> list_all is_digit s
     then Some (foldl (\<lambda>n c. 10 * n + (of_char c - 48)) 0 s) else None)"

definition json_as_i64 :: "json \<Rightarrow> int option" where
  "json_as_i64 v =
     (case v of
        JNum (CHR ''-'' # ds) \<Rightarrow>
          (case nat_of_text ds of Some n \<Rightarrow> if 0 < n \<and> n \<le> 2 ^ 63 then Some (- int n) else None | None \<Rightarrow> None)
      | JNum ds \<Rightarrow>
          (case nat_of_text ds of Some n \<Rightarrow> if n < 2 ^ 63 then Some (int n) else None | None \<Rightarrow> None)
      | _ \<Rightarrow> None)"

definition json_as_u64 :: "json \<Rightarrow> nat option" where
  "json_as_u64 v =
     (case v of
        JNum ds \<Rightarrow> (case nat_of_text ds of Some n \<Rightarrow> if n < 2 ^ 64 then Some n else None | None \<Rightarrow> None)
      | _ \<Rightarrow> None)"

definition int_text :: "int \<Rightarrow> string" where
  "int_text i = (if i < 0 then CHR ''-'' # dec_string (nat (- i)) else dec_string (nat i))"

fun json_as_str :: "json \<Rightarrow> string option" where
  "json_as_str (JStr s) = Some s"
| "json_as_str _ = None"

fun json_as_bool :: "json \<Rightarrow> bool option" where
  "json_as_bool (JBool b) = Some b"
| "json_as_bool _ = None"

fun json_as_array :: "json \<Rightarrow> json list option" where
  "json_as_array (JArr xs) = Some xs"
| "json_as_array _ = None"

definition set_entry :: "json list \<Rightarrow> json \<Rightarrow> policy_rpc_error + json list" where
  "set_entry out entry =
     rbind (ok_or (json_as_str entry) (RpcResult ''expected Set<String> entry string''))
       (\<lambda>s. Inr (out @ [JStr s]))"

fun materialize_value :: "json \<Rightarrow> projection_type \<Rightarrow> policy_rpc_error + json" where
  "materialize_value v ProjString =
     ok_or (map_option JStr (json_as_str v)) (RpcResult ''expected String'')"
| "materialize_value v ProjLong =
     ok_or (map_option (JNum \<circ> int_text)
              (case json_as_i64 v of
                 Some i \<Rightarrow> Some i
               | None \<Rightarrow> (case json_as_u64 v of Some n \<Rightarrow> if n < 2 ^ 63 then Some (int n) else None | None \<Rightarrow> None)))
       (RpcResult ''expected Long'')"
| "materialize_value v ProjBool =
     ok_or (map_option JBool (json_as_bool v)) (RpcResult ''expected Bool'')"
| "materialize_value v ProjDecimal =
     ok_or (map_option decimal_json (json_as_str v)) (RpcResult ''expected Decimal string'')"
| "materialize_value v ProjSetString =
     rbind (ok_or (json_as_array v) (RpcResult ''expected Set<String> array'')) (\<lambda>array.
     rbind (rfold set_entry [] array) (\<lambda>out. Inr (JArr out)))"
| "materialize_value v ProjUsdValuation =
     Inl (RpcResult (''projection type '' @ cedar_type ProjUsdValuation @ '' is not supported''))"
| "materialize_value v ProjWindowStats =
     Inl (RpcResult (''projection type '' @ cedar_type ProjWindowStats @ '' is not supported''))"

definition insert_custom_field :: "json \<Rightarrow> string \<Rightarrow> json \<Rightarrow> policy_rpc_error + json" where
  "insert_custom_field context field value =
     rbind (ok_or (json_as_object context) (RpcResult ''lowered action context is not an object'')) (\<lambda>object.
     rbind (ok_or (json_as_object (case map_of object ''custom'' of Some c \<Rightarrow> c | None \<Rightarrow> empty_json))
              (RpcResult ''context.custom is not an object'')) (\<lambda>custom.
       if map_of custom field \<noteq> None
       then Inl (InvalidManifest ''context projection would overwrite an existing context field'')
       else Inr (JObj (json_insert ''custom'' (JObj (json_insert field value custom)) object))))"

definition result_roots :: "json \<Rightarrow> selector_roots" where
  "result_roots payload =
     \<lparr>root_tx = empty_json, root_action = empty_json, root_context = empty_json, root_result = payload,
      root_params = empty_json\<rparr>"

text \<open>\<open>PolicyRpcError::to_string\<close>, which the reason of a system failure carries.\<close>

fun policy_rpc_error_text :: "policy_rpc_error \<Rightarrow> string" where
  "policy_rpc_error_text (InvalidManifest e) = ''invalid manifest: '' @ e"
| "policy_rpc_error_text (SelectorError e) = ''selector error: '' @ e"
| "policy_rpc_error_text (RpcResult e) = ''rpc result error: '' @ e"
| "policy_rpc_error_text (RpcSchema e) = ''schema error: '' @ e"
| "policy_rpc_error_text (SystemFail c r) =
     ''rpc unavailable for required requirement `'' @ c @ ''`: '' @ r"

definition projected :: "json \<Rightarrow> context_projection \<Rightarrow> policy_rpc_error + json" where
  "projected payload output =
     rbind (resolve_selector (prj_from output) (result_roots payload)) (\<lambda>selected.
       materialize_value selected (prj_type output))"

definition apply_output ::
  "planned_call \<Rightarrow> json \<Rightarrow> json \<Rightarrow> context_projection \<Rightarrow> policy_rpc_error + json" where
  "apply_output call payload context output =
     (if prj_kind output \<noteq> ''context'' then Inl (InvalidManifest ''unsupported projection kind'')
      else case projected payload output of
             Inr value \<Rightarrow> insert_custom_field context (prj_field output) value
           | Inl error \<Rightarrow> if pc_optional call then Inr context
                           else Inl (SystemFail (pc_call_id call) (policy_rpc_error_text error)))"

definition apply_call_outputs ::
  "json \<Rightarrow> planned_call \<Rightarrow> json \<Rightarrow> policy_rpc_error + json" where
  "apply_call_outputs context call payload = rfold (apply_output call payload) context (pc_outputs call)"

definition materialize_call ::
  "(string \<rightharpoonup> json) \<Rightarrow> json \<Rightarrow> planned_call \<Rightarrow> policy_rpc_error + json" where
  "materialize_call results context call =
     (case results (pc_call_id call) of
        None \<Rightarrow> if pc_optional call then Inr context
                 else Inl (SystemFail (pc_call_id call) ''missing rpc result'')
      | Some payload \<Rightarrow> apply_call_outputs context call payload)"

definition materialize_v2 ::
  "json \<Rightarrow> planned_call list \<Rightarrow> (string \<rightharpoonup> json) \<Rightarrow> policy_rpc_error + json" where
  "materialize_v2 context planned results = rfold (materialize_call results) context planned"

section \<open>System failures\<close>

definition system_policy_id :: string where
  "system_policy_id = ''__system__''"

fun system_fail_verdict :: "policy_rpc_error \<Rightarrow> verdict option" where
  "system_fail_verdict (SystemFail call_id r) =
     Some (Fail [\<lparr>policy_id = system_policy_id, mp_reason = Some (''rpc-unavailable: '' @ call_id),
                  mp_severity = SevDeny, mp_origin = OriginAction\<rparr>])"
| "system_fail_verdict _ = None"

section \<open>Validation\<close>

lemma check_calls_Inr:
  "rfold check_call (ids, produced) calls = Inr (ids', produced') \<Longrightarrow> distinct ids \<Longrightarrow>
   distinct (map spec_id calls) \<and> set (map spec_id calls) \<inter> set ids = {}
   \<and> set produced' = set produced \<union> (\<Union>call \<in> set calls. prj_field ` set (spec_outputs call))"
proof (induction calls arbitrary: ids produced)
  case (Cons call calls)
  from Cons.prems have fresh: "spec_id call \<notin> set ids"
    and rest: "rfold check_call (spec_id call # ids, map prj_field (spec_outputs call) @ produced) calls
                 = Inr (ids', produced')"
    by (auto simp: result_iff) (auto simp: check_call_def split: if_splits)
  from Cons.IH [OF rest] Cons.prems(2) fresh show ?case by auto
qed simp

lemma check_fields_Inr: "rfold (check_field produced) u fs = Inr v \<longleftrightarrow> set fs \<subseteq> set produced \<and> u = v"
  by (induction fs arbitrary: u) (auto simp: check_field_def)

lemma manifest_validate_Inr:
  assumes "manifest_validate m = Inr ()"
  shows "schema_version m = 2" "distinct (map spec_id (man_rpc m))"
    "\<And>field. field \<in> fst ` set (custom_fields m) \<Longrightarrow>
       \<exists>call \<in> set (man_rpc m). field \<in> prj_field ` set (spec_outputs call)"
proof -
  obtain ids produced where v: "schema_version m = 2"
    and calls: "rfold check_call ([], []) (man_rpc m) = Inr (ids, produced)"
    and fields: "rfold (check_field produced) () (map fst (custom_fields m)) = Inr ()"
    using assms by (auto simp: manifest_validate_def manifest_v2_schema_version_def result_iff split: if_splits)
  show "schema_version m = 2" by (rule v)
  note c = check_calls_Inr [OF calls]
  show "distinct (map spec_id (man_rpc m))" using c by simp
  show "\<exists>call \<in> set (man_rpc m). field \<in> prj_field ` set (spec_outputs call)"
    if "field \<in> fst ` set (custom_fields m)" for field
  proof -
    have "field \<in> set produced" using that fields by (auto simp: check_fields_Inr)
    then show ?thesis using c by auto
  qed
qed

end
