(* ===== verification/LowerCommon.thy ===== *)
theory LowerCommon
  imports PolicyRpc
begin

text \<open>
  \<^verbatim>\<open>policy-engine/src/lowering_v2/common\<close> and the contract types of \<^verbatim>\<open>lowering_v2/dispatch.rs\<close>: what the
  per-action lowerings share. A lowering turns an action into the Cedar principal, action and resource and
  a context object; the object is the list of its entries in the order the code inserts them, an optional
  entry being absent or a singleton (\<open>opt_fld\<close>).

  The text that \<open>serde_json::to_string\<close> gives a nonce key is a parameter of the context
  (\<open>lc_nonce_text\<close>), so is the decimal reader of \<open>U256\<close> (\<open>lc_u256_of\<close>); the maps the host injects are
  partial functions.
\<close>

section \<open>JSON builders\<close>

definition opt_fld :: "string \<Rightarrow> json option \<Rightarrow> (string \<times> json) list" where
  "opt_fld k v = (case v of None \<Rightarrow> [] | Some x \<Rightarrow> [(k, x)])"

definition num_u :: "'a::len word \<Rightarrow> json" where
  "num_u w = JNum (dec_string (unat w))"

definition num_n :: "nat \<Rightarrow> json" where
  "num_n n = JNum (dec_string n)"

definition num_i :: "int \<Rightarrow> json" where
  "num_i i = JNum (int_text i)"

fun hex_digits :: "nat \<Rightarrow> string" where
  "hex_digits n = (if n < 16 then [hex_char n] else hex_digits (n div 16) @ [hex_char (n mod 16)])"

declare hex_digits.simps [simp del]

definition u256_hex :: "u256 \<Rightarrow> string" where
  "u256_hex v = ''0x'' @ hex_digits (unat v)"

definition addr :: "address \<Rightarrow> string" where
  "addr a = lowercase_hex a"

text \<open>\<open>str::trim\<close> on ASCII text, and \<open>split_once(c).unwrap_or((s, ""))\<close>.\<close>

definition is_ws :: "char \<Rightarrow> bool" where
  "is_ws c = (let n = of_char c :: nat in n = 32 \<or> (9 \<le> n \<and> n \<le> 13))"

definition trim_ws :: "string \<Rightarrow> string" where
  "trim_ws s = rev (dropWhile is_ws (rev (dropWhile is_ws s)))"

definition split_once_or :: "char \<Rightarrow> string \<Rightarrow> string \<times> string" where
  "split_once_or c s = (takeWhile (\<lambda>x. x \<noteq> c) s, drop 1 (dropWhile (\<lambda>x. x \<noteq> c) s))"

section \<open>Injected host data\<close>

text \<open>\<open>char::to_lowercase\<close> on ASCII, which is what hexadecimal addresses consist of.\<close>

definition lower_char :: "char \<Rightarrow> char" where
  "lower_char c = (let n = of_char c :: nat in if 65 \<le> n \<and> n \<le> 90 then char_of (n + 32) else c)"

definition to_lowercase :: "string \<Rightarrow> string" where
  "to_lowercase s = map lower_char s"

definition token_decimals_new :: "(string \<times> u8) list \<Rightarrow> token_decimals" where
  "token_decimals_new m = map_of (rev (map (\<lambda>(k, v). (to_lowercase k, v)) m))"

fun decimals_for :: "token_decimals \<Rightarrow> token_key \<Rightarrow> u8 option" where
  "decimals_for D (Native _) = Some 18"
| "decimals_for D (Erc20 _ a) = D (addr a)"
| "decimals_for D (Erc721 _ _ _) = None"
| "decimals_for D (Erc1155 _ _ _) = None"

definition nano_scale :: nat where
  "nano_scale = 9"

definition i64_max :: int where
  "i64_max = 2 ^ 63 - 1"

definition saturating_mul :: "u256 \<Rightarrow> u256 \<Rightarrow> u256" where
  "saturating_mul a b = (if unat a * unat b < 2 ^ 256 then a * b else - 1)"

definition nano_from_decimals :: "u256 \<Rightarrow> u8 \<Rightarrow> int" where
  "nano_from_decimals raw d =
     (let decimals = unat d;
          nano = (if nano_scale \<le> decimals
                  then (let e = decimals - nano_scale
                        in if 77 < e then 0 else raw div 10 ^ e)
                  else saturating_mul raw (10 ^ (nano_scale - decimals)));
          as_u64 = (if unat nano < 2 ^ 64 then int (unat nano) else 2 ^ 64 - 1)
      in if as_u64 \<le> i64_max then as_u64 else i64_max)"

definition token_nano :: "token_decimals \<Rightarrow> token_key \<Rightarrow> u256 \<Rightarrow> int option" where
  "token_nano D key raw = map_option (nano_from_decimals raw) (decimals_for D key)"

section \<open>The contract of a lowering\<close>

definition lowered :: "lower_ctx \<Rightarrow> string \<Rightarrow> json \<Rightarrow> lowered_action" where
  "lowered C uid context =
     \<lparr>la_principal = ''Wallet::\"'' @ txm_from (lc_tx C) @ ''\"'', la_action_uid = uid,
      la_resource = ''Protocol::\"'' @ txm_to (lc_tx C) @ ''\"'', la_context = context\<rparr>"

definition amount_nano :: "lower_ctx \<Rightarrow> token_ref \<Rightarrow> u256 \<Rightarrow> int option" where
  "amount_nano C token raw = token_nano (lc_decimals C) (ref_key token) raw"

definition amount_nano_native18 :: "lower_ctx \<Rightarrow> u256 \<Rightarrow> int" where
  "amount_nano_native18 C raw = nano_from_decimals raw 18"

definition leverage_for_symbol :: "lower_ctx \<Rightarrow> string \<Rightarrow> int option" where
  "leverage_for_symbol C symbol' = lc_leverage C symbol'"

definition market_enrichment_of :: "lower_ctx \<Rightarrow> string \<Rightarrow> market_enrichment option" where
  "market_enrichment_of C symbol' = oe_markets (lc_enrichment C) symbol'"

definition account_enrichment_of :: "lower_ctx \<Rightarrow> account_enrichment" where
  "account_enrichment_of C = oe_account (lc_enrichment C)"

section \<open>Action metadata and tokens\<close>

definition lower_eip712 :: "eip712_domain \<Rightarrow> json" where
  "lower_eip712 d =
     JObj ([(''name'', JStr (dom_name d))]
       @ opt_fld ''version'' (map_option JStr (dom_version d))
       @ opt_fld ''chainId'' (map_option num_u (dom_chain_id d))
       @ opt_fld ''verifyingContract'' (map_option (\<lambda>a. JStr (addr a)) (verifying_contract d))
       @ opt_fld ''salt'' (map_option JStr (dom_salt d)))"

fun lower_nature :: "(nonce_key \<Rightarrow> string option) \<Rightarrow> action_nature \<Rightarrow> json" where
  "lower_nature nonce_text (OnchainTx chain nonce gas_limit gas_price value) =
     JObj [(''kind'', JStr ''onchain_tx''), (''chain'', JStr (as_str chain)), (''nonce'', num_u nonce),
       (''gasLimit'', JStr (u256_hex gas_limit)), (''gasPrice'', JStr (u256_hex (lf_value gas_price))),
       (''value'', JStr (u256_hex value))]"
| "lower_nature nonce_text (OffchainSig d deadline nonce_key') =
     JObj ([(''kind'', JStr ''offchain_sig''), (''domain'', lower_eip712 d), (''deadline'', num_u deadline)]
       @ opt_fld ''nonceKey'' (map_option JStr (Option.bind nonce_key' nonce_text)))"

definition lower_action_meta :: "(nonce_key \<Rightarrow> string option) \<Rightarrow> action_meta \<Rightarrow> json" where
  "lower_action_meta nonce_text m =
     JObj [(''submittedAt'', num_u (submitted_at m)), (''submitter'', JStr (addr (submitter m))),
       (''nature'', lower_nature nonce_text (nature m))]"

definition ctx_meta :: "lower_ctx \<Rightarrow> json" where
  "ctx_meta C = lower_action_meta (lc_nonce_text C) (lc_meta C)"

fun lower_token_key :: "token_key \<Rightarrow> json" where
  "lower_token_key (Native chain) =
     JObj [(''standard'', JStr ''native''), (''chain'', JStr (as_str chain))]"
| "lower_token_key (Erc20 chain a) =
     JObj [(''standard'', JStr ''erc20''), (''chain'', JStr (as_str chain)), (''address'', JStr (addr a))]"
| "lower_token_key (Erc721 chain contract tid) =
     JObj [(''standard'', JStr ''erc721''), (''chain'', JStr (as_str chain)),
       (''contract'', JStr (addr contract)), (''tokenId'', JStr (u256_hex tid))]"
| "lower_token_key (Erc1155 chain contract tid) =
     JObj [(''standard'', JStr ''erc1155''), (''chain'', JStr (as_str chain)),
       (''contract'', JStr (addr contract)), (''tokenId'', JStr (u256_hex tid))]"

definition lower_token_ref :: "token_ref \<Rightarrow> json" where
  "lower_token_ref token = JObj [(''key'', lower_token_key (ref_key token))]"

section \<open>What every lowering keeps\<close>

text \<open>
  The contract each per-action lowering honours: it succeeds, the principal and the resource come from the
  transaction, the context is an object that carries the action's metadata and has no entry \<open>custom\<close>, the
  slot reserved for the results of policy calls.
\<close>

definition clean_keys :: "(string \<times> json) list \<Rightarrow> bool" where
  "clean_keys kvs \<longleftrightarrow> list_all (\<lambda>kv. fst kv \<noteq> ''custom'') kvs"

lemma clean_keys_append [simp]: "clean_keys (xs @ ys) \<longleftrightarrow> clean_keys xs \<and> clean_keys ys"
  by (simp add: clean_keys_def)

lemma clean_keys_Cons [simp]: "clean_keys (kv # kvs) \<longleftrightarrow> fst kv \<noteq> ''custom'' \<and> clean_keys kvs"
  by (simp add: clean_keys_def)

lemma clean_keys_Nil [simp]: "clean_keys []"
  by (simp add: clean_keys_def)

lemma clean_keys_opt_fld [simp]: "k \<noteq> ''custom'' \<Longrightarrow> clean_keys (opt_fld k v)"
  by (simp add: opt_fld_def split: option.split)

lemma clean_keys_map_of: "clean_keys kvs \<Longrightarrow> map_of kvs ''custom'' = None"
  by (induction kvs) (auto simp: clean_keys_def)

lemma lowered_inject [simp]: "lowered C uid c = lowered C uid' c' \<longleftrightarrow> uid = uid' \<and> c = c'"
  by (auto simp: lowered_def)

locale lowering =
  fixes low :: "'a \<Rightarrow> lower_ctx \<Rightarrow> lower_error + lowered_action"
  assumes lowers: "\<exists>uid kvs. low a C = Inr (lowered C uid (JObj kvs)) \<and> clean_keys kvs
                       \<and> map_of kvs ''meta'' = Some (ctx_meta C)"
begin

lemma total: "\<exists>la. low a C = Inr la"
  using lowers by metis

lemma routed:
  assumes "low a C = Inr la"
  shows "la_principal la = ''Wallet::\"'' @ txm_from (lc_tx C) @ ''\"''"
    and "la_resource la = ''Protocol::\"'' @ txm_to (lc_tx C) @ ''\"''"
  using lowers [of a C] assms by (auto simp: lowered_def)

lemma context_clean:
  assumes "low a C = Inr la"
  shows "\<exists>kvs. la_context la = JObj kvs \<and> map_of kvs ''custom'' = None
           \<and> map_of kvs ''meta'' = Some (ctx_meta C)"
  using lowers [of a C] assms by (auto simp: lowered_def clean_keys_map_of)

end

end
