(* ===== verification/LowerTokens.thy ===== *)
theory LowerTokens
  imports LowerCommon
begin

text \<open>
  \<^verbatim>\<open>policy-engine/src/lowering_v2\<close>, the directories \<^verbatim>\<open>token\<close>, \<^verbatim>\<open>amm\<close>: the Cedar contexts of token and AMM actions, one
  definition per function of the source, and the proof that each domain honours the contract of a lowering.
\<close>

section \<open>Tokens\<close>

definition lower_token_erc20_approve :: "erc20_approve_action \<Rightarrow> lower_ctx \<Rightarrow> lower_error + lowered_action" where
  "lower_token_erc20_approve a C =
     Inr (lowered C ''Token::Action::\"Erc20Approve\"'' (JObj ([(''meta'', ctx_meta C),
      (''token'', lower_token_ref (eap_token a)),
      (''spender'', JStr (addr (eap_spender a))),
      (''amount'', JStr (u256_hex (eap_amount a)))]
    @ opt_fld ''amountNano'' (map_option (\<lambda>nano. num_i nano) (amount_nano C (eap_token a) (eap_amount a))))))"

definition lower_token_erc20_permit :: "erc20_permit_action \<Rightarrow> lower_ctx \<Rightarrow> lower_error + lowered_action" where
  "lower_token_erc20_permit a C =
     Inr (lowered C ''Token::Action::\"Erc20Permit\"'' (JObj ([(''meta'', ctx_meta C),
      (''token'', lower_token_ref (epm_token a)),
      (''spender'', JStr (addr (epm_spender a))),
      (''amount'', JStr (u256_hex (epm_amount a)))]
    @ opt_fld ''amountNano'' (map_option (\<lambda>nano. num_i nano) (amount_nano C (epm_token a) (epm_amount a)))
    @ [(''deadline'', num_u (epm_deadline a)),
      (''nonce'', JStr (u256_hex (lf_value (epm_nonce a))))])))"

definition lower_token_erc20_transfer :: "erc20_transfer_action \<Rightarrow> lower_ctx \<Rightarrow> lower_error + lowered_action" where
  "lower_token_erc20_transfer a C =
     Inr (lowered C ''Token::Action::\"Erc20Transfer\"'' (JObj ([(''meta'', ctx_meta C),
      (''token'', lower_token_ref (etr_token a)),
      (''recipient'', JStr (addr (etr_recipient a))),
      (''amount'', JStr (u256_hex (etr_amount a)))]
    @ opt_fld ''amountNano'' (map_option (\<lambda>nano. num_i nano) (amount_nano C (etr_token a) (etr_amount a))))))"

definition lower_token_permit2_approve :: "permit2_approve_action \<Rightarrow> lower_ctx \<Rightarrow> lower_error + lowered_action" where
  "lower_token_permit2_approve a C =
     Inr (lowered C ''Token::Action::\"Permit2Approve\"'' (JObj ([(''meta'', ctx_meta C),
      (''token'', lower_token_ref (p2a_token a)),
      (''spender'', JStr (addr (p2a_spender a))),
      (''amount'', JStr (u256_hex (p2a_amount a)))]
    @ opt_fld ''amountNano'' (map_option (\<lambda>nano. num_i nano) (amount_nano C (p2a_token a) (p2a_amount a)))
    @ [(''expiresAt'', num_u (p2a_expires_at a))])))"

definition lower_token_permit2_sign_allowance :: "permit2_sign_action \<Rightarrow> lower_ctx \<Rightarrow> lower_error + lowered_action" where
  "lower_token_permit2_sign_allowance a C =
     Inr (lowered C ''Token::Action::\"Permit2SignAllowance\"'' (JObj ([(''meta'', ctx_meta C),
      (''token'', lower_token_ref (p2s_token a)),
      (''spender'', JStr (addr (p2s_spender a))),
      (''amount'', JStr (u256_hex (p2s_amount a)))]
    @ opt_fld ''amountNano'' (map_option (\<lambda>nano. num_i nano) (amount_nano C (p2s_token a) (p2s_amount a)))
    @ [(''expiresAt'', num_u (p2s_expires_at a)),
      (''sigDeadline'', num_u (p2s_sig_deadline a)),
      (''nonce'', JObj [(''word'', JStr (u256_hex (fst (lf_value (p2s_nonce a))))),
      (''bit'', num_i (uint (snd (lf_value (p2s_nonce a)))))])])))"

definition lower_token_permit2_sign_transfer :: "permit2_sign_transfer_action \<Rightarrow> lower_ctx \<Rightarrow> lower_error + lowered_action" where
  "lower_token_permit2_sign_transfer a C =
     Inr (lowered C ''Token::Action::\"Permit2SignTransfer\"'' (JObj ([(''meta'', ctx_meta C),
      (''token'', lower_token_ref (p2t_token a)),
      (''owner'', JStr (addr (p2t_owner a))),
      (''spender'', JStr (addr (p2t_spender a))),
      (''amount'', JStr (u256_hex (p2t_amount a)))]
    @ opt_fld ''amountNano'' (map_option (\<lambda>nano. num_i nano) (amount_nano C (p2t_token a) (p2t_amount a)))
    @ [(''sigDeadline'', num_u (p2t_sig_deadline a)),
      (''nonce'', JObj [(''word'', JStr (u256_hex (fst (lf_value (p2t_nonce a))))),
      (''bit'', num_i (uint (snd (lf_value (p2t_nonce a)))))])]
    @ opt_fld ''witnessType'' (map_option (\<lambda>witness_type. JStr witness_type) (p2t_witness_type a)))))"

definition lower_token_permit2_transfer_from :: "permit2_transfer_from_action \<Rightarrow> lower_ctx \<Rightarrow> lower_error + lowered_action" where
  "lower_token_permit2_transfer_from a C =
     Inr (lowered C ''Token::Action::\"Permit2TransferFrom\"'' (JObj ([(''meta'', ctx_meta C),
      (''token'', lower_token_ref (p2f_token a)),
      (''owner'', JStr (addr (p2f_owner a))),
      (''spender'', JStr (addr (p2f_spender a))),
      (''recipient'', JStr (addr (p2f_recipient a))),
      (''amount'', JStr (u256_hex (p2f_amount a)))]
    @ opt_fld ''amountNano'' (map_option (\<lambda>nano. num_i nano) (amount_nano C (p2f_token a) (p2f_amount a)))
    @ [(''permittedAmount'', JStr (u256_hex (p2f_permitted_amount a)))]
    @ opt_fld ''permittedAmountNano'' (map_option (\<lambda>nano. num_i nano) (amount_nano C (p2f_token a) (p2f_permitted_amount a)))
    @ [(''sigDeadline'', num_u (p2f_sig_deadline a)),
      (''nonce'', JObj [(''word'', JStr (u256_hex (fst (lf_value (p2f_nonce a))))),
      (''bit'', num_i (uint (snd (lf_value (p2f_nonce a)))))])]
    @ opt_fld ''witnessType'' (map_option (\<lambda>witness_type. JStr witness_type) (p2f_witness_type a)))))"

definition lower_token_nft_approve :: "nft_approve_action \<Rightarrow> lower_ctx \<Rightarrow> lower_error + lowered_action" where
  "lower_token_nft_approve a C =
     Inr (lowered C ''Token::Action::\"NftApprove\"'' (JObj [(''meta'', ctx_meta C),
      (''nftKey'', lower_token_key (nap_nft_key a)),
      (''spender'', JStr (addr (nap_spender a)))]))"

definition lower_token_nft_set_approval_for_all :: "nft_set_for_all_action \<Rightarrow> lower_ctx \<Rightarrow> lower_error + lowered_action" where
  "lower_token_nft_set_approval_for_all a C =
     Inr (lowered C ''Token::Action::\"NftSetApprovalForAll\"'' (JObj [(''meta'', ctx_meta C),
      (''chain'', JStr (as_str (nsa_chain a))),
      (''contract'', JStr (addr (nsa_contract a))),
      (''spender'', JStr (addr (nsa_spender a))),
      (''approved'', JBool (nsa_approved a))]))"

definition lower_token_nft_transfer :: "nft_transfer_action \<Rightarrow> lower_ctx \<Rightarrow> lower_error + lowered_action" where
  "lower_token_nft_transfer a C =
     Inr (lowered C ''Token::Action::\"NftTransfer\"'' (JObj ([(''meta'', ctx_meta C),
      (''nftKey'', lower_token_key (ntr_nft_key a))]
    @ opt_fld ''amount'' (map_option (\<lambda>amount. JStr (u256_hex amount)) (ntr_amount a))
    @ [(''recipient'', JStr (addr (ntr_recipient a)))])))"

definition lower_revoke_scope :: "revoke_scope \<Rightarrow> json" where
  "lower_revoke_scope scope =
     JObj (case scope of
        RevokeErc20 token spender \<Rightarrow>
          [(''kind'', JStr ''erc20''),
          (''token'', lower_token_ref token),
          (''spender'', JStr (addr spender))]
      | NftSingleToken nft_key \<Rightarrow>
          [(''kind'', JStr ''nft_single_token''),
          (''nftKey'', lower_token_key nft_key)]
      | NftSetForAll chain contract spender \<Rightarrow>
          [(''kind'', JStr ''nft_set_for_all''),
          (''chain'', JStr (as_str chain)),
          (''contract'', JStr (addr contract)),
          (''spender'', JStr (addr spender))]
      | Permit2Lockdown token spender \<Rightarrow>
          [(''kind'', JStr ''permit2_lockdown''),
          (''token'', lower_token_ref token),
          (''spender'', JStr (addr spender))]
      | Permit2UnorderedNonce chain word_pos mask' \<Rightarrow>
          [(''kind'', JStr ''permit2_unordered_nonce''),
          (''chain'', JStr (as_str chain)),
          (''wordPos'', JStr (u256_hex word_pos)),
          (''mask'', JStr (u256_hex mask'))])"

definition lower_token_revoke_approval :: "revoke_approval_action \<Rightarrow> lower_ctx \<Rightarrow> lower_error + lowered_action" where
  "lower_token_revoke_approval a C =
     Inr (lowered C ''Token::Action::\"RevokeApproval\"'' (JObj [(''meta'', ctx_meta C),
      (''scope'', lower_revoke_scope (rva_scope a))]))"

definition lower_token_wrap_native :: "wrap_native_action \<Rightarrow> lower_ctx \<Rightarrow> lower_error + lowered_action" where
  "lower_token_wrap_native a C =
     Inr (lowered C ''Token::Action::\"WrapNative\"'' (JObj ([(''meta'', ctx_meta C),
      (''token'', lower_token_ref (wna_token a)),
      (''amount'', JStr (u256_hex (wna_amount a)))]
    @ opt_fld ''amountNano'' (map_option (\<lambda>nano. num_i nano) (amount_nano C (wna_token a) (wna_amount a))))))"

definition lower_token_unwrap_native :: "unwrap_native_action \<Rightarrow> lower_ctx \<Rightarrow> lower_error + lowered_action" where
  "lower_token_unwrap_native a C =
     Inr (lowered C ''Token::Action::\"UnwrapNative\"'' (JObj ([(''meta'', ctx_meta C),
      (''token'', lower_token_ref (una_token a)),
      (''amount'', JStr (u256_hex (una_amount a)))]
    @ opt_fld ''amountNano'' (map_option (\<lambda>nano. num_i nano) (amount_nano C (una_token a) (una_amount a))))))"

definition lower_token :: "token_action \<Rightarrow> lower_ctx \<Rightarrow> lower_error + lowered_action" where
  "lower_token a C =
     (case a of
        Erc20Approve a \<Rightarrow> lower_token_erc20_approve a C
      | Erc20Permit a \<Rightarrow> lower_token_erc20_permit a C
      | Permit2Approve a \<Rightarrow> lower_token_permit2_approve a C
      | Permit2SignAllowance a \<Rightarrow> lower_token_permit2_sign_allowance a C
      | Permit2SignTransfer a \<Rightarrow> lower_token_permit2_sign_transfer a C
      | Permit2TransferFrom a \<Rightarrow> lower_token_permit2_transfer_from a C
      | Erc20Transfer a \<Rightarrow> lower_token_erc20_transfer a C
      | NftApprove a \<Rightarrow> lower_token_nft_approve a C
      | NftSetApprovalForAll a \<Rightarrow> lower_token_nft_set_approval_for_all a C
      | NftTransfer a \<Rightarrow> lower_token_nft_transfer a C
      | RevokeApproval a \<Rightarrow> lower_token_revoke_approval a C
      | WrapNative a \<Rightarrow> lower_token_wrap_native a C
      | UnwrapNative a \<Rightarrow> lower_token_unwrap_native a C)"

lemmas token_lowerings =
  lower_token_erc20_approve_def lower_token_erc20_permit_def lower_token_erc20_transfer_def
  lower_token_permit2_approve_def lower_token_permit2_sign_allowance_def
  lower_token_permit2_sign_transfer_def lower_token_permit2_transfer_from_def
  lower_token_nft_approve_def lower_token_nft_set_approval_for_all_def lower_token_nft_transfer_def
  lower_token_revoke_approval_def lower_token_wrap_native_def lower_token_unwrap_native_def
  lower_token_def

interpretation low_token: lowering lower_token
  by unfold_locales (auto simp: token_lowerings split: token_action.split option.split)

section \<open>AMMs\<close>

fun gsm_swap_side_str :: "gsm_swap_side \<Rightarrow> string" where
  "gsm_swap_side_str BuyAsset = ''buy_asset''"
| "gsm_swap_side_str SellAsset = ''sell_asset''"

definition balancer_pool_type :: "balancer_pool_type \<Rightarrow> string" where
  "balancer_pool_type pool_type =
     (case pool_type of
        Weighted \<Rightarrow> ''weighted''
      | StableType \<Rightarrow> ''stable''
      | ComposableStable \<Rightarrow> ''composable_stable''
      | MetaStable \<Rightarrow> ''meta_stable''
      | LiquidityBootstrapping \<Rightarrow> ''liquidity_bootstrapping''
      | Linear \<Rightarrow> ''linear'')"

definition lower_amm_venue :: "amm_venue \<Rightarrow> json" where
  "lower_amm_venue venue =
     JObj ([(''name'', JStr (amm_venue_name venue))]
    @ (case venue of
        UniswapV2 chain pool factory \<Rightarrow>
          [(''chain'', JStr (as_str chain)),
          (''pool'', JStr (addr pool)),
          (''factory'', JStr (addr factory))]
      | UniswapV3 chain pool fee_tier_bp \<Rightarrow>
          [(''chain'', JStr (as_str chain)),
          (''pool'', JStr (addr pool)),
          (''feeTierBp'', num_i (uint fee_tier_bp))]
      | UniswapV4 chain pool_id' pool_manager hooks \<Rightarrow>
          [(''chain'', JStr (as_str chain)),
          (''poolId'', JStr pool_id'),
          (''poolManager'', JStr (addr pool_manager)),
          (''hooks'', JStr (addr hooks))]
      | SushiV2 chain pool \<Rightarrow>
          [(''chain'', JStr (as_str chain)),
          (''pool'', JStr (addr pool))]
      | CurveV2 chain pool \<Rightarrow>
          [(''chain'', JStr (as_str chain)),
          (''pool'', JStr (addr pool))]
      | MaverickV2 chain pool \<Rightarrow>
          [(''chain'', JStr (as_str chain)),
          (''pool'', JStr (addr pool))]
      | CurveV1 chain pool n_coins is_meta \<Rightarrow>
          [(''chain'', JStr (as_str chain)),
          (''pool'', JStr (addr pool)),
          (''nCoins'', num_i (uint n_coins)),
          (''isMeta'', JBool is_meta)]
      | BalancerV2 chain vault pool_id' pool_type \<Rightarrow>
          [(''chain'', JStr (as_str chain)),
          (''vault'', JStr (addr vault)),
          (''poolId'', JStr pool_id'),
          (''poolType'', JStr (balancer_pool_type pool_type))]
      | BalancerV3 chain pool_id' pool_type \<Rightarrow>
          [(''chain'', JStr (as_str chain)),
          (''poolId'', JStr pool_id'),
          (''poolType'', JStr (balancer_pool_type pool_type))]
      | TraderJoeLB chain pair bin_step \<Rightarrow>
          [(''chain'', JStr (as_str chain)),
          (''pair'', JStr (addr pair)),
          (''binStep'', num_i (uint bin_step))]
      | AaveGsm chain gsm \<Rightarrow>
          [(''chain'', JStr (as_str chain)),
          (''gsm'', JStr (addr gsm))]
      | AggregatorRoute chain router' route_hash executor \<Rightarrow>
          [(''chain'', JStr (as_str chain)),
          (''router'', JStr (addr router')),
          (''routeHash'', JStr route_hash)]
        @ opt_fld ''executor'' (map_option (\<lambda>executor. JStr (addr executor)) executor)))"

definition lower_token_amount_set :: "(token_ref \<times> u256) list \<Rightarrow> json" where
  "lower_token_amount_set items =
     JArr (map (\<lambda>(token, amount). JObj [(''token'', lower_token_ref token),
      (''amount'', JStr (u256_hex amount))]) items)"

definition lower_pool_pair :: "(token_ref \<times> token_ref) \<Rightarrow> json" where
  "lower_pool_pair pair =
     JObj [(''tokenA'', lower_token_ref (fst pair)),
      (''tokenB'', lower_token_ref (snd pair))]"

definition lower_amount_pair :: "(u256 \<times> u256) \<Rightarrow> json" where
  "lower_amount_pair pair =
     JObj [(''a'', JStr (u256_hex (fst pair))),
      (''b'', JStr (u256_hex (snd pair)))]"

definition lower_range_spec :: "range_spec \<Rightarrow> json" where
  "lower_range_spec range' =
     JObj (case range' of
        TickRange lower upper liquidity \<Rightarrow>
          [(''kind'', JStr ''tick''),
          (''tickLower'', num_i (sint lower)),
          (''tickUpper'', num_i (sint upper)),
          (''liquidity'', JStr (u256_hex (ucast liquidity)))]
      | BinRange active_id _ \<Rightarrow>
          [(''kind'', JStr ''bin''),
          (''activeId'', num_i (uint active_id))]
      | CustomRange protocol _ \<Rightarrow>
          [(''kind'', JStr ''custom''),
          (''protocol'', JStr protocol)])"

definition lower_add_liquidity_params :: "add_liquidity_params \<Rightarrow> json" where
  "lower_add_liquidity_params params =
     JObj (case params of
        AddPooled tokens' min_lp_out recipient \<Rightarrow>
          [(''kind'', JStr ''pooled''),
          (''tokens'', lower_token_amount_set tokens'),
          (''minLpOut'', JStr (u256_hex min_lp_out)),
          (''recipient'', JStr (addr recipient))]
      | ConcentratedMint pool_pair amount_desired amount_min range' recipient \<Rightarrow>
          [(''kind'', JStr ''concentrated_mint''),
          (''poolPair'', lower_pool_pair pool_pair),
          (''amountDesired'', lower_amount_pair amount_desired),
          (''amountMin'', lower_amount_pair amount_min),
          (''range'', lower_range_spec range'),
          (''recipient'', JStr (addr recipient))]
      | ConcentratedIncrease nft_key amount_desired amount_min \<Rightarrow>
          [(''kind'', JStr ''concentrated_increase''),
          (''nftKey'', lower_token_key nft_key),
          (''amountDesired'', lower_amount_pair amount_desired),
          (''amountMin'', lower_amount_pair amount_min)])"

definition lower_amm_add_liquidity :: "add_liquidity_action \<Rightarrow> lower_ctx \<Rightarrow> lower_error + lowered_action" where
  "lower_amm_add_liquidity a C =
     Inr (lowered C ''Amm::Action::\"AddLiquidity\"'' (JObj [(''meta'', ctx_meta C),
      (''venue'', lower_amm_venue (al_venue a)),
      (''params'', lower_add_liquidity_params (al_params a)),
      (''currentPrice'', JStr (lf_value (al_current_price (al_live_inputs a))))]))"

definition lower_intent_venue :: "intent_venue \<Rightarrow> json" where
  "lower_intent_venue venue =
     JObj ([(''name'', JStr (intent_venue_name venue))]
    @ (case venue of
        UniswapX chain reactor \<Rightarrow>
          [(''chain'', JStr (as_str chain)),
          (''reactor'', JStr (addr reactor))]
      | CowSwap chain settlement \<Rightarrow>
          [(''chain'', JStr (as_str chain)),
          (''settlement'', JStr (addr settlement))]
      | OneInchFusion chain \<Rightarrow>
          [(''chain'', JStr (as_str chain))]
      | Bebop chain \<Rightarrow>
          [(''chain'', JStr (as_str chain))]
      | OneInchLimitOrder chain verifying_contract' \<Rightarrow>
          [(''chain'', JStr (as_str chain)),
          (''verifyingContract'', JStr (addr verifying_contract'))]))"

definition lower_amm_cancel_intent_order :: "cancel_intent_order_action \<Rightarrow> lower_ctx \<Rightarrow> lower_error + lowered_action" where
  "lower_amm_cancel_intent_order a C =
     Inr (lowered C ''Amm::Action::\"CancelIntentOrder\"'' (JObj ([(''meta'', ctx_meta C),
      (''venue'', lower_intent_venue (ci_venue a)),
      (''orderHash'', JStr (ci_order_hash a))]
    @ opt_fld ''signature'' (map_option (\<lambda>signature. JStr signature) (ci_signature a)))))"

definition lower_amm_collect_fees :: "collect_fees_action \<Rightarrow> lower_ctx \<Rightarrow> lower_error + lowered_action" where
  "lower_amm_collect_fees a C =
     Inr (lowered C ''Amm::Action::\"CollectFees\"'' (JObj [(''meta'', ctx_meta C),
      (''venue'', lower_amm_venue (cf_venue a)),
      (''nftKey'', lower_token_key (cf_nft_key a)),
      (''recipient'', JStr (addr (cf_recipient a))),
      (''feesOwed'', lower_token_amount_set (lf_value (cf_fees_owed a)))]))"

definition lower_amm_gsm_swap :: "gsm_swap_action \<Rightarrow> lower_ctx \<Rightarrow> lower_error + lowered_action" where
  "lower_amm_gsm_swap a C =
     Inr (lowered C ''Amm::Action::\"GsmSwap\"'' (JObj ([(''meta'', ctx_meta C),
      (''venue'', lower_amm_venue (gs_venue a)),
      (''asset'', lower_token_ref (gs_asset a)),
      (''gho'', lower_token_ref (gs_gho a)),
      (''side'', JStr (gsm_swap_side_str (gs_side a))),
      (''amount'', JStr (u256_hex (gs_amount a)))]
    @ opt_fld ''amountNano'' (map_option (\<lambda>nano. num_i nano) (amount_nano C (gs_asset a) (gs_amount a)))
    @ [(''recipient'', JStr (addr (gs_recipient a)))])))"

definition lower_swap_direction :: "swap_direction \<Rightarrow> lower_ctx \<Rightarrow> token_ref \<Rightarrow> token_ref option \<Rightarrow> json" where
  "lower_swap_direction direction C token_in token_out =
     JObj (case direction of
        ExactInput amount_in min_amount_out \<Rightarrow>
          [(''kind'', JStr ''exact_input''),
          (''amountIn'', JStr (u256_hex amount_in))]
        @ opt_fld ''amountInNano'' (map_option (\<lambda>nano. num_i nano) (amount_nano C token_in amount_in))
        @ [(''minAmountOut'', JStr (u256_hex min_amount_out))]
        @ opt_fld ''minAmountOutNano'' (map_option (\<lambda>nano. num_i nano) (Option.bind token_out (\<lambda>t. amount_nano C t min_amount_out)))
      | ExactOutput max_amount_in amount_out \<Rightarrow>
          [(''kind'', JStr ''exact_output''),
          (''maxAmountIn'', JStr (u256_hex max_amount_in))]
        @ opt_fld ''maxAmountInNano'' (map_option (\<lambda>nano. num_i nano) (amount_nano C token_in max_amount_in))
        @ [(''amountOut'', JStr (u256_hex amount_out))]
        @ opt_fld ''amountOutNano'' (map_option (\<lambda>nano. num_i nano) (Option.bind token_out (\<lambda>t. amount_nano C t amount_out))))"

definition lower_amm_swap :: "swap_action \<Rightarrow> lower_ctx \<Rightarrow> lower_error + lowered_action" where
  "lower_amm_swap a C =
     Inr (lowered C ''Amm::Action::\"Swap\"'' (JObj ([(''meta'', ctx_meta C),
      (''venue'', lower_amm_venue (sw_venue a)),
      (''tokenIn'', lower_token_ref (sp_token_in (sw_params a)))]
    @ opt_fld ''tokenOut'' (map_option (\<lambda>token_out. lower_token_ref token_out) (sp_token_out (sw_params a)))
    @ [(''direction'', lower_swap_direction (sp_direction (sw_params a)) C (sp_token_in (sw_params a)) (sp_token_out (sw_params a))),
      (''recipient'', JStr (addr (sp_recipient (sw_params a)))),
      (''slippageBp'', num_i (uint (sp_slippage_bp (sw_params a)))),
      (''routeEstimatedOut'', JStr (u256_hex (foldl (\<lambda>acc p. saturating_add acc (rp_estimated_out p)) 0 (sr_paths (lf_value (sl_route (sw_live_inputs a))))))),
      (''expectedAmountOut'', JStr (u256_hex (lf_value (expected_amount_out (sw_live_inputs a))))),
      (''priceImpactBp'', num_i (uint (lf_value (price_impact_bp (sw_live_inputs a))))),
      (''gasEstimate'', JStr (u256_hex (lf_value (gas_estimate (sw_live_inputs a)))))])))"

definition lower_remove_liquidity_params :: "remove_liquidity_params \<Rightarrow> json" where
  "lower_remove_liquidity_params params =
     JObj (case params of
        PooledBurn lp_token lp_amount min_out recipient \<Rightarrow>
          [(''kind'', JStr ''pooled_burn''),
          (''lpToken'', lower_token_ref lp_token),
          (''lpAmount'', JStr (u256_hex lp_amount)),
          (''minOut'', lower_token_amount_set min_out),
          (''recipient'', JStr (addr recipient))]
      | PooledBurnOneCoin lp_token lp_amount token_out min_out recipient \<Rightarrow>
          [(''kind'', JStr ''pooled_burn_one_coin''),
          (''lpToken'', lower_token_ref lp_token),
          (''lpAmount'', JStr (u256_hex lp_amount)),
          (''tokenOut'', lower_token_ref token_out),
          (''minOutOne'', JStr (u256_hex min_out)),
          (''recipient'', JStr (addr recipient))]
      | PooledBurnImbalance lp_token max_lp_burn amounts_out recipient \<Rightarrow>
          [(''kind'', JStr ''pooled_burn_imbalance''),
          (''lpToken'', lower_token_ref lp_token),
          (''maxLpBurn'', JStr (u256_hex max_lp_burn)),
          (''amountsOut'', lower_token_amount_set amounts_out),
          (''recipient'', JStr (addr recipient))]
      | ConcentratedDecrease nft_key liquidity_burn amount_min \<Rightarrow>
          [(''kind'', JStr ''concentrated_decrease''),
          (''nftKey'', lower_token_key nft_key),
          (''liquidityBurn'', JStr (u256_hex (ucast liquidity_burn))),
          (''amountMin'', lower_amount_pair amount_min)]
      | ConcentratedBurn nft_key \<Rightarrow>
          [(''kind'', JStr ''concentrated_burn''),
          (''nftKey'', lower_token_key nft_key)])"

definition lower_amm_remove_liquidity :: "remove_liquidity_action \<Rightarrow> lower_ctx \<Rightarrow> lower_error + lowered_action" where
  "lower_amm_remove_liquidity a C =
     Inr (lowered C ''Amm::Action::\"RemoveLiquidity\"'' (JObj [(''meta'', ctx_meta C),
      (''venue'', lower_amm_venue (rl_venue a)),
      (''params'', lower_remove_liquidity_params (rl_params a)),
      (''feesOwed'', lower_token_amount_set (lf_value (rl_fees_owed (rl_live_inputs a))))]))"

definition sign_intent_order_intent_order_kind :: "intent_order_kind \<Rightarrow> string" where
  "sign_intent_order_intent_order_kind kind =
     (case kind of
        IntentDutch \<Rightarrow> ''dutch''
      | IntentLimit \<Rightarrow> ''limit''
      | IntentRfq \<Rightarrow> ''rfq'')"

definition lower_amm_sign_intent_order :: "sign_intent_order_action \<Rightarrow> lower_ctx \<Rightarrow> lower_error + lowered_action" where
  "lower_amm_sign_intent_order a C =
     Inr (lowered C ''Amm::Action::\"SignIntentOrder\"'' (JObj ([(''meta'', ctx_meta C),
      (''venue'', lower_intent_venue (si_venue a)),
      (''sell'', lower_token_ref (si_sell a)),
      (''buy'', lower_token_ref (si_buy a)),
      (''sellAmount'', JStr (u256_hex (si_sell_amount a)))]
    @ opt_fld ''sellAmountNano'' (map_option (\<lambda>nano. num_i nano) (amount_nano C (si_sell a) (si_sell_amount a)))
    @ [(''buyMin'', JStr (u256_hex (si_buy_min a)))]
    @ opt_fld ''buyMinNano'' (map_option (\<lambda>nano. num_i nano) (amount_nano C (si_buy a) (si_buy_min a)))
    @ [(''orderKind'', JStr (sign_intent_order_intent_order_kind (si_order_kind a))),
      (''recipient'', JStr (addr (si_recipient a))),
      (''validUntil'', num_u (si_valid_until a)),
      (''expectedFillPrice'', JStr (lf_value (si_expected_fill_price a))),
      (''competingOrders'', num_i (uint (lf_value (si_competing_orders a))))])))"

definition settle_intent_order_intent_order_kind :: "intent_order_kind \<Rightarrow> string" where
  "settle_intent_order_intent_order_kind kind =
     (case kind of
        IntentDutch \<Rightarrow> ''dutch''
      | IntentLimit \<Rightarrow> ''limit''
      | IntentRfq \<Rightarrow> ''rfq'')"

definition lower_amm_settle_intent_order :: "settle_intent_order_action \<Rightarrow> lower_ctx \<Rightarrow> lower_error + lowered_action" where
  "lower_amm_settle_intent_order a C =
     Inr (lowered C ''Amm::Action::\"SettleIntentOrder\"'' (JObj ([(''meta'', ctx_meta C),
      (''venue'', lower_intent_venue (st_venue a)),
      (''swapper'', JStr (addr (st_swapper a))),
      (''sell'', lower_token_ref (st_sell a)),
      (''buy'', lower_token_ref (st_buy a)),
      (''sellAmount'', JStr (u256_hex (st_sell_amount a)))]
    @ opt_fld ''sellAmountNano'' (map_option (\<lambda>nano. num_i nano) (amount_nano C (st_sell a) (st_sell_amount a)))
    @ [(''buyMin'', JStr (u256_hex (st_buy_min a)))]
    @ opt_fld ''buyMinNano'' (map_option (\<lambda>nano. num_i nano) (amount_nano C (st_buy a) (st_buy_min a)))
    @ [(''orderKind'', JStr (settle_intent_order_intent_order_kind (st_order_kind a))),
      (''recipient'', JStr (addr (st_recipient a))),
      (''validUntil'', num_u (st_valid_until a)),
      (''orderNonce'', JStr (u256_hex (st_order_nonce a)))]
    @ opt_fld ''signature'' (map_option (\<lambda>signature. JStr signature) (st_signature a)))))"

definition lower_amm_pre_sign_intent_order :: "pre_sign_intent_order_action \<Rightarrow> lower_ctx \<Rightarrow> lower_error + lowered_action" where
  "lower_amm_pre_sign_intent_order a C =
     Inr (lowered C ''Amm::Action::\"PreSignIntentOrder\"'' (JObj [(''meta'', ctx_meta C),
      (''venue'', lower_intent_venue (ps_venue a)),
      (''orderHash'', JStr (ps_order_hash a)),
      (''signed'', JBool (ps_signed a))]))"

definition lower_amm :: "amm_action \<Rightarrow> lower_ctx \<Rightarrow> lower_error + lowered_action" where
  "lower_amm a C =
     (case a of
        Swap a \<Rightarrow> lower_amm_swap a C
      | GsmSwap a \<Rightarrow> lower_amm_gsm_swap a C
      | AddLiquidity a \<Rightarrow> lower_amm_add_liquidity a C
      | RemoveLiquidity a \<Rightarrow> lower_amm_remove_liquidity a C
      | CollectFees a \<Rightarrow> lower_amm_collect_fees a C
      | SignIntentOrder a \<Rightarrow> lower_amm_sign_intent_order a C
      | SettleIntentOrder a \<Rightarrow> lower_amm_settle_intent_order a C
      | CancelIntentOrder a \<Rightarrow> lower_amm_cancel_intent_order a C
      | PreSignIntentOrder a \<Rightarrow> lower_amm_pre_sign_intent_order a C)"

lemmas amm_lowerings =
  lower_amm_add_liquidity_def lower_amm_cancel_intent_order_def lower_amm_collect_fees_def
  lower_amm_gsm_swap_def lower_amm_swap_def lower_amm_remove_liquidity_def
  lower_amm_sign_intent_order_def lower_amm_settle_intent_order_def
  lower_amm_pre_sign_intent_order_def lower_amm_def

interpretation low_amm: lowering lower_amm
  by unfold_locales (auto simp: amm_lowerings split: amm_action.split option.split)

end
