(* ===== verification/LowerCredit.thy ===== *)
theory LowerCredit
  imports LowerCommon
begin

text \<open>
  \<^verbatim>\<open>policy-engine/src/lowering_v2\<close>, the directories \<^verbatim>\<open>lending\<close>, \<^verbatim>\<open>perp\<close>: the Cedar contexts of lending and perpetual actions, one
  definition per function of the source, and the proof that each domain honours the contract of a lowering.
\<close>

section \<open>Lending\<close>

definition lower_lending_venue :: "lending_venue \<Rightarrow> json" where
  "lower_lending_venue venue =
     JObj ([(''name'', JStr (lending_venue_name venue))]
    @ (case venue of
        AaveV3 chain pool market_id \<Rightarrow>
          [(''chain'', JStr (as_str chain)),
          (''pool'', JStr (addr pool))]
        @ opt_fld ''marketId'' (map_option (\<lambda>market_id. num_i (uint market_id)) market_id)
      | AaveV2 chain pool \<Rightarrow>
          [(''chain'', JStr (as_str chain)),
          (''pool'', JStr (addr pool))]
      | Spark chain pool \<Rightarrow>
          [(''chain'', JStr (as_str chain)),
          (''pool'', JStr (addr pool))]
      | CompoundV3 chain comet base_asset \<Rightarrow>
          [(''chain'', JStr (as_str chain)),
          (''comet'', JStr (addr comet)),
          (''baseAsset'', lower_token_ref base_asset)]
      | CompoundV2 chain comptroller \<Rightarrow>
          [(''chain'', JStr (as_str chain)),
          (''comptroller'', JStr (addr comptroller))]
      | MorphoBlue chain market_id \<Rightarrow>
          [(''chain'', JStr (as_str chain)),
          (''marketIdStr'', JStr market_id)]
      | MorphoOptimizer chain vault \<Rightarrow>
          [(''chain'', JStr (as_str chain)),
          (''vault'', JStr (addr vault))]
      | Fluid chain vault \<Rightarrow>
          [(''chain'', JStr (as_str chain)),
          (''vault'', JStr (addr vault))]
      | MetaMorpho chain vault \<Rightarrow>
          [(''chain'', JStr (as_str chain)),
          (''vault'', JStr (addr vault))]
      | CrvUsd chain controller _ \<Rightarrow>
          [(''chain'', JStr (as_str chain)),
          (''pool'', JStr (addr controller))]
      | LlamaLend chain controller _ \<Rightarrow>
          [(''chain'', JStr (as_str chain)),
          (''pool'', JStr (addr controller))]
      | AaveV3Periphery chain adapter \<Rightarrow>
          [(''chain'', JStr (as_str chain)),
          (''adapter'', JStr (addr adapter))]))"

definition rate_mode_str :: "rate_mode \<Rightarrow> string" where
  "rate_mode_str mode =
     (case mode of
        VariableRate \<Rightarrow> ''variable''
      | StableRate \<Rightarrow> ''stable''
      | FixedRate \<Rightarrow> ''fixed'')"

definition lower_reserve_state :: "reserve_state \<Rightarrow> json" where
  "lower_reserve_state state =
     JObj ([(''totalSupply'', JStr (u256_hex (total_supply state))),
      (''totalBorrow'', JStr (u256_hex (total_borrow state))),
      (''utilizationBp'', num_i (uint (utilization_bp state)))]
    @ opt_fld ''supplyCap'' (map_option (\<lambda>supply_cap'. JStr (u256_hex supply_cap')) (supply_cap state))
    @ opt_fld ''borrowCap'' (map_option (\<lambda>borrow_cap'. JStr (u256_hex borrow_cap')) (borrow_cap state))
    @ [(''ltvBp'', num_i (uint (ltv_bp state))),
      (''liquidationThresholdBp'', num_i (uint (liquidation_threshold_bp state))),
      (''liquidationBonusBp'', num_i (uint (liquidation_bonus_bp state))),
      (''reserveFactorBp'', num_i (uint (reserve_factor_bp state))),
      (''isFrozen'', JBool (is_frozen state)),
      (''isPaused'', JBool (is_paused state))])"

definition lower_user_lending_state :: "user_lending_state \<Rightarrow> json" where
  "lower_user_lending_state state =
     JObj [(''healthFactor'', JStr (uls_health_factor state)),
      (''totalCollatUsd'', JStr (u256_hex (total_collat_usd state))),
      (''totalDebtUsd'', JStr (u256_hex (total_debt_usd state))),
      (''availableBorrowUsd'', JStr (u256_hex (available_borrow_usd state)))]"

definition lower_lending_borrow :: "borrow_action \<Rightarrow> lower_ctx \<Rightarrow> lower_error + lowered_action" where
  "lower_lending_borrow a C =
     Inr (lowered C ''Lending::Action::\"Borrow\"'' (JObj ([(''meta'', ctx_meta C),
      (''venue'', lower_lending_venue (bo_venue a)),
      (''asset'', lower_token_ref (bo_asset a)),
      (''amount'', JStr (u256_hex (bo_amount a)))]
    @ opt_fld ''amountNano'' (map_option (\<lambda>nano. num_i nano) (amount_nano C (bo_asset a) (bo_amount a)))
    @ [(''rateMode'', JStr (rate_mode_str (bo_rate_mode a)))]
    @ opt_fld ''onBehalfOf'' (map_option (\<lambda>on_behalf_of. JStr (addr on_behalf_of)) (bo_on_behalf_of a))
    @ [(''reserveState'', lower_reserve_state (lf_value (bo_reserve_state (bo_live_inputs a)))),
      (''userStateBefore'', lower_user_lending_state (lf_value (bo_user_state_before (bo_live_inputs a)))),
      (''assetPriceUsd'', JStr (lf_value (bo_asset_price_usd (bo_live_inputs a)))),
      (''currentBorrowRate'', JStr (lf_value (bo_current_borrow_rate (bo_live_inputs a)))),
      (''availableLiquidity'', JStr (u256_hex (lf_value (available_liquidity (bo_live_inputs a)))))])))"

definition lower_lending_buy_collateral :: "buy_collateral_action \<Rightarrow> lower_ctx \<Rightarrow> lower_error + lowered_action" where
  "lower_lending_buy_collateral a C =
     Inr (lowered C ''Lending::Action::\"BuyCollateral\"'' (JObj ([(''meta'', ctx_meta C),
      (''venue'', lower_lending_venue (bc_venue a)),
      (''collateralAsset'', lower_token_ref (bc_collateral_asset a)),
      (''baseAsset'', lower_token_ref (bc_base_asset a)),
      (''minCollateralAmount'', JStr (u256_hex (bc_min_collateral_amount a)))]
    @ opt_fld ''minCollateralAmountNano'' (map_option (\<lambda>nano. num_i nano) (amount_nano C (bc_collateral_asset a) (bc_min_collateral_amount a)))
    @ [(''baseAmount'', JStr (u256_hex (bc_base_amount a)))]
    @ opt_fld ''baseAmountNano'' (map_option (\<lambda>nano. num_i nano) (amount_nano C (bc_base_asset a) (bc_base_amount a)))
    @ [(''recipient'', JStr (addr (bc_recipient a)))])))"

definition lower_lending_delegate_borrow :: "delegate_borrow_action \<Rightarrow> lower_ctx \<Rightarrow> lower_error + lowered_action" where
  "lower_lending_delegate_borrow a C =
     Inr (lowered C ''Lending::Action::\"DelegateBorrow\"'' (JObj ([(''meta'', ctx_meta C),
      (''venue'', lower_lending_venue (db_venue a)),
      (''asset'', lower_token_ref (db_asset a)),
      (''delegatee'', JStr (addr (db_delegatee a))),
      (''amount'', JStr (u256_hex (db_amount a)))]
    @ opt_fld ''amountNano'' (map_option (\<lambda>nano. num_i nano) (amount_nano C (db_asset a) (db_amount a)))
    @ [(''rateMode'', JStr (rate_mode_str (db_rate_mode a)))])))"

definition lower_set_collateral_context :: "set_collateral_action \<Rightarrow> lower_ctx \<Rightarrow> json" where
  "lower_set_collateral_context a C =
     JObj ([(''meta'', ctx_meta C),
      (''venue'', lower_lending_venue (sc_venue a)),
      (''asset'', lower_token_ref (sc_asset a))]
    @ opt_fld ''onBehalfOf'' (map_option (\<lambda>on_behalf_of. JStr (addr on_behalf_of)) (sc_on_behalf_of a))
    @ [(''reserveState'', lower_reserve_state (lf_value (sc_reserve_state (sc_live_inputs a)))),
      (''userStateBefore'', lower_user_lending_state (lf_value (sc_user_state_before (sc_live_inputs a))))])"

definition lower_lending_disable_collateral :: "set_collateral_action \<Rightarrow> lower_ctx \<Rightarrow> lower_error + lowered_action" where
  "lower_lending_disable_collateral a C =
     Inr (lowered C ''Lending::Action::\"DisableCollateral\"'' (lower_set_collateral_context a C))"

definition lower_lending_enable_collateral :: "set_collateral_action \<Rightarrow> lower_ctx \<Rightarrow> lower_error + lowered_action" where
  "lower_lending_enable_collateral a C =
     Inr (lowered C ''Lending::Action::\"EnableCollateral\"'' (lower_set_collateral_context a C))"

definition lower_lending_liquidate :: "liquidate_action \<Rightarrow> lower_ctx \<Rightarrow> lower_error + lowered_action" where
  "lower_lending_liquidate a C =
     Inr (lowered C ''Lending::Action::\"Liquidate\"'' (JObj ([(''meta'', ctx_meta C),
      (''venue'', lower_lending_venue (lq_venue a)),
      (''victim'', JStr (addr (victim a))),
      (''debtAsset'', lower_token_ref (debt_asset a)),
      (''collatAsset'', lower_token_ref (collat_asset a)),
      (''debtToCover'', JStr (u256_hex (debt_to_cover a)))]
    @ opt_fld ''debtToCoverNano'' (map_option (\<lambda>nano. num_i nano) (amount_nano C (debt_asset a) (debt_to_cover a)))
    @ [(''receiveAToken'', JBool (receive_a_token a)),
      (''victimState'', lower_user_lending_state (lf_value (victim_state (lq_live_inputs a)))),
      (''liquidationBonus'', num_i (uint (lf_value (liquidation_bonus (lq_live_inputs a))))),
      (''debtAssetPrice'', JStr (lf_value (debt_asset_price (lq_live_inputs a)))),
      (''collatAssetPrice'', JStr (lf_value (collat_asset_price (lq_live_inputs a))))])))"

definition lower_lending_supply :: "supply_action \<Rightarrow> lower_ctx \<Rightarrow> lower_error + lowered_action" where
  "lower_lending_supply a C =
     Inr (lowered C ''Lending::Action::\"Supply\"'' (JObj ([(''meta'', ctx_meta C),
      (''venue'', lower_lending_venue (su_venue a)),
      (''asset'', lower_token_ref (su_asset a)),
      (''amount'', JStr (u256_hex (su_amount a)))]
    @ opt_fld ''amountNano'' (map_option (\<lambda>nano. num_i nano) (amount_nano C (su_asset a) (su_amount a)))
    @ opt_fld ''onBehalfOf'' (map_option (\<lambda>on_behalf_of. JStr (addr on_behalf_of)) (su_on_behalf_of a))
    @ [(''reserveState'', lower_reserve_state (lf_value (su_reserve_state (su_live_inputs a)))),
      (''supplyApy'', JStr (lf_value (supply_apy (su_live_inputs a)))),
      (''aTokenPriceUsd'', JStr (lf_value (a_token_price_usd (su_live_inputs a)))),
      (''eligibleAsCollat'', JBool (lf_value (eligible_as_collat (su_live_inputs a)))),
      (''userStateBefore'', lower_user_lending_state (lf_value (su_user_state_before (su_live_inputs a))))])))"

definition lower_lending_withdraw :: "withdraw_action \<Rightarrow> lower_ctx \<Rightarrow> lower_error + lowered_action" where
  "lower_lending_withdraw a C =
     Inr (lowered C ''Lending::Action::\"Withdraw\"'' (JObj ([(''meta'', ctx_meta C),
      (''venue'', lower_lending_venue (wd_venue a)),
      (''asset'', lower_token_ref (wd_asset a)),
      (''amount'', JStr (u256_hex (wd_amount a)))]
    @ opt_fld ''amountNano'' (map_option (\<lambda>nano. num_i nano) (amount_nano C (wd_asset a) (wd_amount a)))
    @ [(''recipient'', JStr (addr (wd_recipient a))),
      (''reserveState'', lower_reserve_state (lf_value (wd_reserve_state (wd_live_inputs a)))),
      (''availableToWithdraw'', JStr (u256_hex (lf_value (available_to_withdraw (wd_live_inputs a))))),
      (''userStateBefore'', lower_user_lending_state (lf_value (wd_user_state_before (wd_live_inputs a))))])))"

definition lower_lending_repay :: "repay_action \<Rightarrow> lower_ctx \<Rightarrow> lower_error + lowered_action" where
  "lower_lending_repay a C =
     Inr (lowered C ''Lending::Action::\"Repay\"'' (JObj ([(''meta'', ctx_meta C),
      (''venue'', lower_lending_venue (re_venue a)),
      (''asset'', lower_token_ref (re_asset a)),
      (''amount'', JStr (u256_hex (re_amount a)))]
    @ opt_fld ''amountNano'' (map_option (\<lambda>nano. num_i nano) (amount_nano C (re_asset a) (re_amount a)))
    @ [(''rateMode'', JStr (rate_mode_str (re_rate_mode a)))]
    @ opt_fld ''onBehalfOf'' (map_option (\<lambda>on_behalf_of. JStr (addr on_behalf_of)) (re_on_behalf_of a))
    @ [(''useATokens'', JBool (re_use_a_tokens a)),
      (''reserveState'', lower_reserve_state (lf_value (re_reserve_state (re_live_inputs a)))),
      (''currentDebt'', JStr (u256_hex (lf_value (re_current_debt (re_live_inputs a))))),
      (''userStateBefore'', lower_user_lending_state (lf_value (re_user_state_before (re_live_inputs a))))])))"

definition lower_lending_swap_rate_mode :: "swap_rate_mode_action \<Rightarrow> lower_ctx \<Rightarrow> lower_error + lowered_action" where
  "lower_lending_swap_rate_mode a C =
     Inr (lowered C ''Lending::Action::\"SwapRateMode\"'' (JObj [(''meta'', ctx_meta C),
      (''venue'', lower_lending_venue (sr_venue a)),
      (''asset'', lower_token_ref (sr_asset a)),
      (''newMode'', JStr (rate_mode_str (sr_new_mode a))),
      (''currentDebtVariable'', JStr (u256_hex (fst (lf_value (current_debts (sr_live_inputs a)))))),
      (''currentDebtStable'', JStr (u256_hex (snd (lf_value (current_debts (sr_live_inputs a)))))),
      (''rateVariable'', JStr (fst (lf_value (rates (sr_live_inputs a))))),
      (''rateStable'', JStr (snd (lf_value (rates (sr_live_inputs a)))))]))"

definition lower_emode_config :: "e_mode_config \<Rightarrow> json" where
  "lower_emode_config config =
     JObj ([(''ltvBp'', num_i (uint (em_ltv_bp config))),
      (''liquidationThresholdBp'', num_i (uint (em_liquidation_threshold_bp config))),
      (''liquidationBonusBp'', num_i (uint (em_liquidation_bonus_bp config)))]
    @ opt_fld ''priceSource'' (map_option (\<lambda>price_source'. JStr (addr price_source')) (price_source config))
    @ [(''assetsInCategory'', JArr (map lower_token_ref (assets_in_category config)))]
    @ opt_fld ''categoryCode'' (map_option (\<lambda>category. num_i (uint category)) (em_category config)))"

definition lower_lending_set_e_mode :: "set_e_mode_action \<Rightarrow> lower_ctx \<Rightarrow> lower_error + lowered_action" where
  "lower_lending_set_e_mode a C =
     Inr (lowered C ''Lending::Action::\"SetEMode\"'' (JObj ([(''meta'', ctx_meta C),
      (''venue'', lower_lending_venue (em_venue a)),
      (''categoryId'', num_i (uint (category_id a)))]
    @ opt_fld ''onBehalfOf'' (map_option (\<lambda>on_behalf_of. JStr (addr on_behalf_of)) (em_on_behalf_of a))
    @ [(''categoryConfig'', lower_emode_config (lf_value (category_config (em_live_inputs a)))),
      (''userStateBefore'', lower_user_lending_state (lf_value (em_user_state_before (em_live_inputs a))))])))"

definition lower_lending_set_authorization :: "set_authorization_action \<Rightarrow> lower_ctx \<Rightarrow> lower_error + lowered_action" where
  "lower_lending_set_authorization a C =
     Inr (lowered C ''Lending::Action::\"SetAuthorization\"'' (JObj ([(''meta'', ctx_meta C),
      (''chain'', JStr (as_str (sa_chain a))),
      (''protocol'', JStr (addr (sa_protocol a)))]
    @ opt_fld ''authorizer'' (map_option (\<lambda>authorizer. JStr (addr authorizer)) (sa_authorizer a))
    @ [(''authorized'', JStr (addr (sa_authorized a))),
      (''isAuthorized'', JBool (sa_is_authorized a))])))"

definition periphery_kind :: "lending_periphery_kind \<Rightarrow> string" where
  "periphery_kind kind =
     (case kind of
        SwapCollateral \<Rightarrow> ''swap_collateral''
      | RepayWithCollateral \<Rightarrow> ''repay_with_collateral''
      | DebtSwap \<Rightarrow> ''debt_swap''
      | Migration \<Rightarrow> ''migration''
      | WithdrawSwap \<Rightarrow> ''withdraw_swap''
      | RawPeriphery \<Rightarrow> ''raw'')"

definition lower_lending_periphery_operation :: "periphery_operation_action \<Rightarrow> lower_ctx \<Rightarrow> lower_error + lowered_action" where
  "lower_lending_periphery_operation a C =
     Inr (lowered C ''Lending::Action::\"PeripheryOperation\"'' (JObj ([(''meta'', ctx_meta C),
      (''venue'', lower_lending_venue (po_venue a)),
      (''adapter'', JStr (addr (po_adapter a))),
      (''kind'', JStr (periphery_kind (po_kind a)))]
    @ opt_fld ''assetIn'' (map_option (\<lambda>asset_in. lower_token_ref asset_in) (po_asset_in a))
    @ opt_fld ''assetOut'' (map_option (\<lambda>asset_out. lower_token_ref asset_out) (po_asset_out a))
    @ (case po_amount a of None \<Rightarrow> []
      | Some amount \<Rightarrow> [(''amount'', JStr (u256_hex amount))]
    @ opt_fld ''amountNano'' (map_option (\<lambda>nano. num_i nano) (Option.bind (po_asset_in a) (\<lambda>t. amount_nano C t amount))))
    @ (case po_limit_amount a of None \<Rightarrow> []
      | Some limit_amount \<Rightarrow> [(''limitAmount'', JStr (u256_hex limit_amount))]
    @ opt_fld ''limitAmountNano'' (map_option (\<lambda>nano. num_i nano) (Option.bind (po_asset_out a) (\<lambda>t. amount_nano C t limit_amount))))
    @ opt_fld ''user'' (map_option (\<lambda>user. JStr (addr user)) (po_user a))
    @ opt_fld ''recipient'' (map_option (\<lambda>recipient. JStr (addr recipient)) (po_recipient a))
    @ [(''calldata'', JStr (po_calldata a))])))"

definition lower_lending :: "lending_action \<Rightarrow> lower_ctx \<Rightarrow> lower_error + lowered_action" where
  "lower_lending a C =
     (case a of
        Supply a \<Rightarrow> lower_lending_supply a C
      | Withdraw a \<Rightarrow> lower_lending_withdraw a C
      | Borrow a \<Rightarrow> lower_lending_borrow a C
      | BuyCollateral a \<Rightarrow> lower_lending_buy_collateral a C
      | Repay a \<Rightarrow> lower_lending_repay a C
      | SwapRateMode a \<Rightarrow> lower_lending_swap_rate_mode a C
      | SetEMode a \<Rightarrow> lower_lending_set_e_mode a C
      | EnableCollateral a \<Rightarrow> lower_lending_enable_collateral a C
      | DisableCollateral a \<Rightarrow> lower_lending_disable_collateral a C
      | DelegateBorrow a \<Rightarrow> lower_lending_delegate_borrow a C
      | Liquidate a \<Rightarrow> lower_lending_liquidate a C
      | SetAuthorization a \<Rightarrow> lower_lending_set_authorization a C
      | PeripheryOperation a \<Rightarrow> lower_lending_periphery_operation a C)"

lemmas lending_lowerings =
  lower_lending_borrow_def lower_lending_buy_collateral_def lower_lending_delegate_borrow_def
  lower_lending_disable_collateral_def lower_lending_enable_collateral_def
  lower_lending_liquidate_def lower_lending_supply_def lower_lending_withdraw_def
  lower_lending_repay_def lower_lending_swap_rate_mode_def lower_lending_set_e_mode_def
  lower_lending_set_authorization_def lower_lending_periphery_operation_def lower_lending_def
  lower_set_collateral_context_def

interpretation low_lending: lowering lower_lending
  by unfold_locales (auto simp: lending_lowerings split: lending_action.split option.split)

section \<open>Perpetuals\<close>

text \<open>\<open>cedar_decimal_arg\<close>: the text of a decimal cut to the four fractional digits Cedar accepts.\<close>

definition cedar_decimal_arg :: "string \<Rightarrow> string" where
  "cedar_decimal_arg s0 =
     (let s = trim_ws s0;
          (int_part, frac) = split_once_or (CHR ''.'') s;
          int_part = (if int_part = [] then ''0'' else int_part);
          frac = take 4 frac;
          frac = (if frac = [] then ''0'' else frac)
      in int_part @ ''.'' @ frac)"

definition lower_perp_venue :: "perp_venue \<Rightarrow> json" where
  "lower_perp_venue venue =
     JObj ([(''name'', JStr (perp_venue_name venue))]
    @ (case venue of
        Hyperliquid chain \<Rightarrow>
          [(''chain'', JStr (as_str chain))]
      | GmxV2 chain \<Rightarrow>
          [(''chain'', JStr (as_str chain))]
      | DyDxV4 chain \<Rightarrow>
          [(''chain'', JStr (as_str chain))]
      | Vertex chain \<Rightarrow>
          [(''chain'', JStr (as_str chain))]
      | Aevo chain \<Rightarrow>
          [(''chain'', JStr (as_str chain))]
      | Drift chain \<Rightarrow>
          [(''chain'', JStr (as_str chain))]
      | JupiterPerps chain \<Rightarrow>
          [(''chain'', JStr (as_str chain))]
      | Synthetix chain \<Rightarrow>
          [(''chain'', JStr (as_str chain))]
      | GenericPerp chain contract \<Rightarrow>
          [(''chain'', JStr (as_str chain)),
          (''contract'', JStr (addr contract))]))"

definition lower_venue_ref :: "venue_ref \<Rightarrow> json" where
  "lower_venue_ref venue =
     JObj ([(''name'', JStr (venue_name venue))]
    @ opt_fld ''chain'' (map_option (\<lambda>chain. JStr (as_str chain)) (venue_chain venue)))"

definition lower_market_ref :: "market_ref \<Rightarrow> json" where
  "lower_market_ref market =
     JObj [(''symbol'', JStr (market_symbol market)),
      (''venue'', lower_venue_ref (market_venue market))]"

definition perp_side :: "perp_side \<Rightarrow> string" where
  "perp_side side =
     (case side of
        Long \<Rightarrow> ''long''
      | Short \<Rightarrow> ''short'')"

definition lower_perp_position_live :: "perp_position_live \<Rightarrow> json" where
  "lower_perp_position_live pos =
     JObj ([(''sizeBase'', JStr (u256_hex (pl_size_base pos))),
      (''notionalUsd'', JStr (u256_hex (pl_notional_usd pos))),
      (''entryPrice'', JStr (pl_entry_price pos)),
      (''markPrice'', JStr (pl_mark_price pos))]
    @ opt_fld ''liqPrice'' (map_option (\<lambda>liq_price'. JStr liq_price') (pl_liq_price pos))
    @ [(''unrealizedPnl'', JStr (int_text (sint (pl_unrealized_pnl pos))))])"

definition lower_perp_adjust_margin :: "adjust_margin_action \<Rightarrow> lower_ctx \<Rightarrow> lower_error + lowered_action" where
  "lower_perp_adjust_margin a C =
     Inr (lowered C ''Perp::Action::\"AdjustMargin\"'' (JObj ([(''meta'', ctx_meta C),
      (''venue'', lower_perp_venue (am_venue a))]
    @ opt_fld ''positionId'' (map_option (\<lambda>position_id. JStr position_id) (am_position_id a))
    @ opt_fld ''market'' (map_option (\<lambda>market. lower_market_ref market) (am_market a))
    @ opt_fld ''side'' (map_option (\<lambda>side. JStr (perp_side side)) (am_side a))
    @ [(''delta'', JStr (int_text (sint (am_delta a))))]
    @ (case am_live_inputs a of None \<Rightarrow> []
      | Some li \<Rightarrow> [(''positionState'', lower_perp_position_live (lf_value (position_state li))),
      (''freeMarginAfter'', JStr (u256_hex (lf_value (free_margin_after li))))]))))"

definition lower_perp_cancel_order :: "cancel_order_action \<Rightarrow> lower_ctx \<Rightarrow> lower_error + lowered_action" where
  "lower_perp_cancel_order a C =
     Inr (lowered C ''Perp::Action::\"CancelOrder\"'' (JObj [(''meta'', ctx_meta C),
      (''venue'', lower_perp_venue (co_venue a)),
      (''orderId'', JStr (order_id a))]))"

definition lower_perp_change_leverage :: "change_leverage_action \<Rightarrow> lower_ctx \<Rightarrow> lower_error + lowered_action" where
  "lower_perp_change_leverage a C =
     Inr (lowered C ''Perp::Action::\"ChangeLeverage\"'' (JObj ([(''meta'', ctx_meta C),
      (''venue'', lower_perp_venue (ch_venue a)),
      (''market'', lower_market_ref (ch_market a)),
      (''newLeverage'', decimal_json (cedar_decimal_arg (new_leverage a)))]
    @ (case ch_live_inputs a of None \<Rightarrow> []
      | Some li \<Rightarrow> [(''maxLeverage'', JStr (lf_value (ch_max_leverage li))),
      (''affectedPositions'', JArr (map (\<lambda>id'. JStr id') (lf_value (ch_affected_positions li)))),
      (''newLiqPrices'', JArr (map (\<lambda>(id', price). JObj ([(''positionId'', JStr id')]
    @ opt_fld ''liqPrice'' (map_option (\<lambda>price. JStr price) price))) (lf_value (new_liq_prices li))))]))))"

definition margin_mode :: "margin_mode \<Rightarrow> string" where
  "margin_mode mode =
     (case mode of
        Cross \<Rightarrow> ''cross''
      | Isolated \<Rightarrow> ''isolated'')"

definition lower_perp_change_margin_mode :: "change_margin_mode_action \<Rightarrow> lower_ctx \<Rightarrow> lower_error + lowered_action" where
  "lower_perp_change_margin_mode a C =
     Inr (lowered C ''Perp::Action::\"ChangeMarginMode\"'' (JObj [(''meta'', ctx_meta C),
      (''venue'', lower_perp_venue (mm_venue a)),
      (''market'', lower_market_ref (mm_market a)),
      (''newMode'', JStr (margin_mode (new_mode a))),
      (''affectedPositions'', JArr (map (\<lambda>id'. JStr id') (lf_value (mm_affected_positions (mm_live_inputs a))))),
      (''marginReallocation'', JArr (map (\<lambda>(id', amount). JObj [(''positionId'', JStr id'),
      (''amount'', JStr (u256_hex amount))]) (lf_value (margin_reallocation (mm_live_inputs a)))))]))"

definition lower_perp_claim_funding :: "claim_funding_action \<Rightarrow> lower_ctx \<Rightarrow> lower_error + lowered_action" where
  "lower_perp_claim_funding a C =
     Inr (lowered C ''Perp::Action::\"ClaimFunding\"'' (JObj ([(''meta'', ctx_meta C),
      (''venue'', lower_perp_venue (cl_venue a))]
    @ opt_fld ''market'' (map_option (\<lambda>market. lower_market_ref market) (cl_market a))
    @ [(''claimable'', JArr (map (\<lambda>(token, amount). JObj [(''token'', lower_token_ref token),
      (''amount'', JStr (u256_hex amount))]) (lf_value (cl_claimable (cl_live_inputs a)))))])))"

definition lower_size_spec :: "size_spec \<Rightarrow> json" where
  "lower_size_spec size' =
     JObj (case size' of
        BaseAmount amount \<Rightarrow>
          [(''kind'', JStr ''base_amount''),
          (''amount'', JStr (u256_hex amount))]
      | QuoteAmount amount_usd \<Rightarrow>
          [(''kind'', JStr ''quote_amount''),
          (''amountUsd'', JStr (u256_hex amount_usd))]
      | LeverageImplied collateral' leverage' \<Rightarrow>
          [(''kind'', JStr ''leverage_implied''),
          (''collateral'', JStr (u256_hex collateral')),
          (''leverage'', JStr leverage')]
      | BaseDecimal amount \<Rightarrow>
          [(''kind'', JStr ''base_decimal''),
          (''amountDecimal'', JStr amount)])"

definition lower_perp_close_position :: "close_perp_action \<Rightarrow> lower_ctx \<Rightarrow> lower_error + lowered_action" where
  "lower_perp_close_position a C =
     Inr (lowered C ''Perp::Action::\"ClosePosition\"'' (JObj ([(''meta'', ctx_meta C),
      (''venue'', lower_perp_venue (cp_venue a)),
      (''positionId'', JStr (cp_position_id a))]
    @ opt_fld ''size'' (map_option (\<lambda>size'. lower_size_spec size') (cp_size a))
    @ [(''slippageBp'', num_i (uint (cp_slippage_bp a))),
      (''markPrice'', JStr (lf_value (cp_mark_price (cp_live_inputs a)))),
      (''unrealizedPnlNow'', JStr (int_text (sint (lf_value (unrealized_pnl_now (cp_live_inputs a)))))),
      (''fundingAccrued'', JStr (int_text (sint (lf_value (cp_funding_accrued (cp_live_inputs a)))))),
      (''feeBp'', num_i (uint (lf_value (cp_fee_bp (cp_live_inputs a)))))])))"

definition lower_perp_decrease_position :: "decrease_perp_action \<Rightarrow> lower_ctx \<Rightarrow> lower_error + lowered_action" where
  "lower_perp_decrease_position a C =
     Inr (lowered C ''Perp::Action::\"DecreasePosition\"'' (JObj [(''meta'', ctx_meta C),
      (''venue'', lower_perp_venue (dp_venue a)),
      (''positionId'', JStr (dp_position_id a)),
      (''size'', lower_size_spec (dp_size a)),
      (''slippageBp'', num_i (uint (dp_slippage_bp a))),
      (''markPrice'', JStr (lf_value (cp_mark_price (dp_live_inputs a)))),
      (''unrealizedPnlNow'', JStr (int_text (sint (lf_value (unrealized_pnl_now (dp_live_inputs a)))))),
      (''fundingAccrued'', JStr (int_text (sint (lf_value (cp_funding_accrued (dp_live_inputs a)))))),
      (''feeBp'', num_i (uint (lf_value (cp_fee_bp (dp_live_inputs a)))))]))"

definition lower_perp_account_state :: "perp_account_state \<Rightarrow> json" where
  "lower_perp_account_state state =
     JObj [(''totalCollateralUsd'', JStr (u256_hex (total_collateral_usd state))),
      (''usedMarginUsd'', JStr (u256_hex (used_margin_usd state))),
      (''freeMarginUsd'', JStr (u256_hex (free_margin_usd state))),
      (''openPositions'', JArr (map (\<lambda>(market, size_base'). JObj [(''market'', lower_market_ref market),
      (''sizeBase'', JStr (u256_hex size_base'))]) (open_positions state)))]"

definition lower_perp_increase_position :: "increase_perp_action \<Rightarrow> lower_ctx \<Rightarrow> lower_error + lowered_action" where
  "lower_perp_increase_position a C =
     Inr (lowered C ''Perp::Action::\"IncreasePosition\"'' (JObj ([(''meta'', ctx_meta C),
      (''venue'', lower_perp_venue (ip_venue a)),
      (''positionId'', JStr (ip_position_id a)),
      (''size'', lower_size_spec (ip_size a))]
    @ (case add_collateral a of None \<Rightarrow> []
      | Some (token, amount) \<Rightarrow> [(''addCollateralToken'', lower_token_ref token),
      (''addCollateralAmount'', JStr (u256_hex amount))]
    @ opt_fld ''addCollateralAmountNano'' (map_option (\<lambda>nano. num_i nano) (amount_nano C token amount)))
    @ [(''slippageBp'', num_i (uint (ip_slippage_bp a))),
      (''markPrice'', JStr (lf_value (op_mark_price (ip_live_inputs a)))),
      (''oraclePrice'', JStr (lf_value (oracle_price (ip_live_inputs a)))),
      (''fundingRate'', JStr (lf_value (funding_rate (ip_live_inputs a)))),
      (''availableOi'', JStr (u256_hex (lf_value (available_oi (ip_live_inputs a))))),
      (''maxLeverage'', JStr (lf_value (op_max_leverage (ip_live_inputs a)))),
      (''initialMarginBp'', num_i (uint (lf_value (initial_margin_bp (ip_live_inputs a))))),
      (''maintenanceBp'', num_i (uint (lf_value (maintenance_bp (ip_live_inputs a))))),
      (''feeTakerBp'', num_i (uint (lf_value (fee_taker_bp (ip_live_inputs a))))),
      (''feeMakerBp'', num_i (uint (lf_value (fee_maker_bp (ip_live_inputs a))))),
      (''userAccountState'', lower_perp_account_state (lf_value (op_user_account_state (ip_live_inputs a))))])))"

definition lower_perp_open_position :: "open_perp_action \<Rightarrow> lower_ctx \<Rightarrow> lower_error + lowered_action" where
  "lower_perp_open_position a C =
     Inr (lowered C ''Perp::Action::\"OpenPosition\"'' (JObj ([(''meta'', ctx_meta C),
      (''venue'', lower_perp_venue (op_venue a)),
      (''market'', lower_market_ref (op_market a)),
      (''side'', JStr (perp_side (op_side a))),
      (''size'', lower_size_spec (op_size a)),
      (''leverage'', JStr (op_leverage a)),
      (''collateralToken'', lower_token_ref (fst (op_collateral a))),
      (''collateralAmount'', JStr (u256_hex (snd (op_collateral a))))]
    @ opt_fld ''collateralAmountNano'' (map_option (\<lambda>nano. num_i nano) (amount_nano C (fst (op_collateral a)) (snd (op_collateral a))))
    @ [(''marginMode'', JStr (margin_mode (op_margin_mode a))),
      (''slippageBp'', num_i (uint (op_slippage_bp a))),
      (''reduceOnly'', JBool (op_reduce_only a)),
      (''markPrice'', JStr (lf_value (op_mark_price (op_live_inputs a)))),
      (''oraclePrice'', JStr (lf_value (oracle_price (op_live_inputs a)))),
      (''fundingRate'', JStr (lf_value (funding_rate (op_live_inputs a)))),
      (''availableOi'', JStr (u256_hex (lf_value (available_oi (op_live_inputs a))))),
      (''maxLeverage'', JStr (lf_value (op_max_leverage (op_live_inputs a)))),
      (''initialMarginBp'', num_i (uint (lf_value (initial_margin_bp (op_live_inputs a))))),
      (''maintenanceBp'', num_i (uint (lf_value (maintenance_bp (op_live_inputs a))))),
      (''feeTakerBp'', num_i (uint (lf_value (fee_taker_bp (op_live_inputs a))))),
      (''feeMakerBp'', num_i (uint (lf_value (fee_maker_bp (op_live_inputs a))))),
      (''userAccountState'', lower_perp_account_state (lf_value (op_user_account_state (op_live_inputs a))))])))"

definition lower_time_in_force :: "time_in_force \<Rightarrow> json" where
  "lower_time_in_force tif =
     JObj (case tif of
        Gtc \<Rightarrow>
          [(''kind'', JStr ''gtc'')]
      | Ioc \<Rightarrow>
          [(''kind'', JStr ''ioc'')]
      | Fok \<Rightarrow>
          [(''kind'', JStr ''fok'')]
      | PostOnly \<Rightarrow>
          [(''kind'', JStr ''post_only'')]
      | Gtd until \<Rightarrow>
          [(''kind'', JStr ''gtd''),
          (''until'', num_u until)])"

definition stop_order_kind :: "stop_order_kind \<Rightarrow> string" where
  "stop_order_kind kind =
     (case kind of
        StopMarketOrder \<Rightarrow> ''stop_market''
      | StopLimitOrder \<Rightarrow> ''stop_limit''
      | TakeProfitOrder \<Rightarrow> ''take_profit''
      | TakeProfitLimitOrder \<Rightarrow> ''take_profit_limit'')"

definition lower_perp_place_order :: "place_order_action \<Rightarrow> lower_ctx \<Rightarrow> lower_error + lowered_action" where
  "lower_perp_place_order a C =
     Inr (lowered C ''Perp::Action::\"PlaceOrder\"'' (JObj ([(''meta'', ctx_meta C),
      (''venue'', lower_perp_venue (pl_venue a)),
      (''market'', lower_market_ref (pl_market a)),
      (''side'', JStr (perp_side (pl_side a))),
      (''size'', lower_size_spec (pl_size a)),
      (''reduceOnly'', JBool (pl_reduce_only a)),
      (''orderType'', JObj (case pl_order_type a of
        LimitType price time_in_force \<Rightarrow>
          [(''kind'', JStr ''limit''),
          (''price'', JStr price),
          (''timeInForce'', lower_time_in_force time_in_force)]
      | StopType trigger_price order_kind limit_price \<Rightarrow>
          [(''kind'', JStr ''stop''),
          (''triggerPrice'', JStr trigger_price),
          (''orderKind'', JStr (stop_order_kind order_kind))]
        @ opt_fld ''limitPrice'' (map_option (\<lambda>limit_price. JStr limit_price) limit_price)
      | TwapType duration_minutes randomize \<Rightarrow>
          [(''kind'', JStr ''twap''),
          (''durationMinutes'', num_i (uint duration_minutes)),
          (''randomize'', JBool randomize)]))]
    @ opt_fld ''leverage'' (map_option (\<lambda>leverage'. num_i leverage') (leverage_for_symbol C (market_symbol (pl_market a))))
    @ (case market_enrichment_of C (market_symbol (pl_market a)) of None \<Rightarrow> []
      | Some me \<Rightarrow> opt_fld ''maxLeverage'' (map_option (\<lambda>max_lev. num_i max_lev) (me_max_leverage me))
    @ opt_fld ''leverageType'' (map_option (\<lambda>lev_type. JStr lev_type) (me_leverage_type me))
    @ opt_fld ''notionalUsd'' (map_option (\<lambda>notional. num_i notional) (me_notional_usd me))
    @ opt_fld ''positionRoeBps'' (map_option (\<lambda>roe. num_i roe) (me_position_roe_bps me))
    @ opt_fld ''liquidationDistanceBps'' (map_option (\<lambda>liq. num_i liq) (me_liquidation_distance_bps me))
    @ opt_fld ''hasOpenPosition'' (map_option (\<lambda>has_pos. JBool has_pos) (me_has_open_position me)))
    @ opt_fld ''accountValueUsd'' (map_option (\<lambda>av. num_i av) (ae_account_value_usd (account_enrichment_of C)))
    @ opt_fld ''marginUsedRatioBps'' (map_option (\<lambda>mr. num_i mr) (ae_margin_used_ratio_bps (account_enrichment_of C)))
    @ (case pl_live_inputs a of None \<Rightarrow> []
      | Some li \<Rightarrow> [(''markPrice'', JStr (lf_value (pl_order_mark_price li))),
      (''bestBid'', JStr (fst (lf_value (best_bid_ask li)))),
      (''bestAsk'', JStr (snd (lf_value (best_bid_ask li)))),
      (''openOrdersCount'', num_i (uint (lf_value (open_orders_count li)))),
      (''userAccountState'', lower_perp_account_state (lf_value (pl_user_account_state li)))]))))"

definition lower_perp :: "perp_action \<Rightarrow> lower_ctx \<Rightarrow> lower_error + lowered_action" where
  "lower_perp a C =
     (case a of
        PerpOpen a \<Rightarrow> lower_perp_open_position a C
      | PerpClose a \<Rightarrow> lower_perp_close_position a C
      | PerpIncrease a \<Rightarrow> lower_perp_increase_position a C
      | PerpDecrease a \<Rightarrow> lower_perp_decrease_position a C
      | AdjustMargin a \<Rightarrow> lower_perp_adjust_margin a C
      | ChangeLeverage a \<Rightarrow> lower_perp_change_leverage a C
      | ChangeMarginMode a \<Rightarrow> lower_perp_change_margin_mode a C
      | PlaceOrder a \<Rightarrow> lower_perp_place_order a C
      | CancelOrder a \<Rightarrow> lower_perp_cancel_order a C
      | ClaimFunding a \<Rightarrow> lower_perp_claim_funding a C)"

lemmas perp_lowerings =
  lower_perp_adjust_margin_def lower_perp_cancel_order_def lower_perp_change_leverage_def
  lower_perp_change_margin_mode_def lower_perp_claim_funding_def lower_perp_close_position_def
  lower_perp_decrease_position_def lower_perp_increase_position_def lower_perp_open_position_def
  lower_perp_place_order_def lower_perp_def

interpretation low_perp: lowering lower_perp
  by unfold_locales (auto simp: perp_lowerings split: perp_action.split option.split)

end
