(* ===== verification/LowerDistribution.thy ===== *)
theory LowerDistribution
  imports LowerCommon
begin

text \<open>
  \<^verbatim>\<open>policy-engine/src/lowering_v2\<close>, the directories \<^verbatim>\<open>airdrop\<close>, \<^verbatim>\<open>launchpad\<close>, \<^verbatim>\<open>hyperliquid_core\<close>: the Cedar contexts of airdrops, launchpads and Hyperliquid core actions, one
  definition per function of the source, and the proof that each domain honours the contract of a lowering.
\<close>

section \<open>Airdrops\<close>

definition airdrop_lower_protocol_ref :: "protocol_ref \<Rightarrow> json" where
  "airdrop_lower_protocol_ref source =
     JObj ([(''name'', JStr (pr_name source))]
    @ opt_fld ''version'' (map_option (\<lambda>version. JStr version) (pr_version source))
    @ opt_fld ''chain'' (map_option (\<lambda>chain. JStr (as_str chain)) (pr_chain source))
    @ opt_fld ''market'' (map_option (\<lambda>market. JStr market) (pr_market source)))"

definition lower_claim_target :: "claim_target \<Rightarrow> json" where
  "lower_claim_target target =
     JObj (case target of
        MerkleDistributor chain contract index' \<Rightarrow>
          [(''kind'', JStr ''merkle_distributor''),
          (''chain'', JStr (as_str chain)),
          (''contract'', JStr (addr contract)),
          (''index'', num_u index')]
      | SignatureDistributor chain contract \<Rightarrow>
          [(''kind'', JStr ''signature_distributor''),
          (''chain'', JStr (as_str chain)),
          (''contract'', JStr (addr contract))]
      | StakingClaim chain contract \<Rightarrow>
          [(''kind'', JStr ''staking_claim''),
          (''chain'', JStr (as_str chain)),
          (''contract'', JStr (addr contract))])"

definition lower_airdrop_claim :: "claim_airdrop_action \<Rightarrow> lower_ctx \<Rightarrow> lower_error + lowered_action" where
  "lower_airdrop_claim a C =
     Inr (lowered C ''Airdrop::Action::\"Claim\"'' (JObj ([(''meta'', ctx_meta C),
      (''source'', airdrop_lower_protocol_ref (ca_source a)),
      (''claimTarget'', lower_claim_target (claim_target a)),
      (''recipient'', JStr (addr (ca_recipient a)))]
    @ opt_fld ''proof'' (map_option (\<lambda>proof. JArr (map (\<lambda>h. JStr h) (siblings proof))) (ca_proof a))
    @ opt_fld ''sig'' (map_option (\<lambda>sig. JStr sig) (ca_sig a))
    @ opt_fld ''donation'' (map_option (\<lambda>donation'. JObj ([(''amount'', JStr (u256_hex (do_amount donation')))]
    @ opt_fld ''amountNano'' (map_option (\<lambda>nano. num_i nano) (amount_nano C (do_token donation') (do_amount donation')))
    @ [(''token'', lower_token_ref (do_token donation')),
      (''claimAmount'', JStr (u256_hex (do_claim_amount donation')))])) (donation a))
    @ [(''isStillClaimable'', JBool (lf_value (is_still_claimable (ca_live_inputs a)))),
      (''actualAmount'', JStr (u256_hex (lf_value (actual_amount (ca_live_inputs a)))))]
    @ opt_fld ''actualAmountNano'' (map_option (\<lambda>nano. num_i nano) (amount_nano C (lf_value (claim_token (ca_live_inputs a))) (lf_value (actual_amount (ca_live_inputs a)))))
    @ [(''claimToken'', lower_token_ref (lf_value (claim_token (ca_live_inputs a))))]
    @ (case lf_value (ca_claim_window (ca_live_inputs a)) of None \<Rightarrow> []
      | Some (start, end') \<Rightarrow> [(''claimWindowStart'', num_u start),
      (''claimWindowEnd'', num_u end')]))))"

definition lower_airdrop_delegate :: "delegate_governance_action \<Rightarrow> lower_ctx \<Rightarrow> lower_error + lowered_action" where
  "lower_airdrop_delegate a C =
     Inr (lowered C ''Airdrop::Action::\"Delegate\"'' (JObj ([(''meta'', ctx_meta C),
      (''token'', lower_token_ref (dg_token a)),
      (''delegatee'', JStr (addr (dg_delegatee a))),
      (''powerType'', JStr (case power_type a of
        VotingAndProposition \<Rightarrow> ''voting_and_proposition''
      | VotingPower \<Rightarrow> ''voting''
      | PropositionPower \<Rightarrow> ''proposition''))]
    @ opt_fld ''currentDelegate'' (map_option (\<lambda>current_delegate'. JStr (addr current_delegate')) (lf_value (current_delegate (dg_live_inputs a))))
    @ [(''votingPower'', JStr (u256_hex (lf_value (voting_power (dg_live_inputs a)))))])))"

definition lower_airdrop :: "airdrop_action \<Rightarrow> lower_ctx \<Rightarrow> lower_error + lowered_action" where
  "lower_airdrop a C =
     (case a of
        AirdropClaimAction a \<Rightarrow> lower_airdrop_claim a C
      | AirdropDelegate a \<Rightarrow> lower_airdrop_delegate a C)"

lemmas airdrop_lowerings =
  lower_airdrop_claim_def lower_airdrop_delegate_def lower_airdrop_def

interpretation low_airdrop: lowering lower_airdrop
  by unfold_locales (auto simp: airdrop_lowerings split: airdrop_action.split option.split)

section \<open>Launchpads\<close>

definition launchpad_lower_protocol_ref :: "protocol_ref \<Rightarrow> json" where
  "launchpad_lower_protocol_ref protocol =
     JObj ([(''name'', JStr (pr_name protocol))]
    @ opt_fld ''version'' (map_option (\<lambda>version. JStr version) (pr_version protocol))
    @ opt_fld ''chain'' (map_option (\<lambda>chain. JStr (as_str chain)) (pr_chain protocol))
    @ opt_fld ''market'' (map_option (\<lambda>market. JStr market) (pr_market protocol)))"

definition lower_launchpad_claim_allocation :: "claim_allocation_action \<Rightarrow> lower_ctx \<Rightarrow> lower_error + lowered_action" where
  "lower_launchpad_claim_allocation a C =
     Inr (lowered C ''Launchpad::Action::\"ClaimAllocation\"'' (JObj ([(''meta'', ctx_meta C),
      (''platform'', launchpad_lower_protocol_ref (cal_platform a)),
      (''saleId'', JStr (cal_sale_id a)),
      (''recipient'', JStr (addr (cal_recipient a))),
      (''allocatedToken'', lower_token_ref (fst (lf_value (cal_allocated (cal_live_inputs a))))),
      (''allocatedAmount'', JStr (u256_hex (snd (lf_value (cal_allocated (cal_live_inputs a))))))]
    @ opt_fld ''allocatedAmountNano'' (map_option (\<lambda>nano. num_i nano) (amount_nano C (fst (lf_value (cal_allocated (cal_live_inputs a)))) (snd (lf_value (cal_allocated (cal_live_inputs a))))))
    @ [(''refundDue'', JStr (u256_hex (lf_value (refund_due (cal_live_inputs a))))),
      (''isClaimable'', JBool (lf_value (is_claimable (cal_live_inputs a))))])))"

definition lower_launchpad_claim_vested :: "claim_vested_action \<Rightarrow> lower_ctx \<Rightarrow> lower_error + lowered_action" where
  "lower_launchpad_claim_vested a C =
     Inr (lowered C ''Launchpad::Action::\"ClaimVested\"'' (JObj ([(''meta'', ctx_meta C),
      (''positionId'', JStr (cv_position_id a))]
    @ opt_fld ''amount'' (map_option (\<lambda>amount. JStr (u256_hex amount)) (cv_amount a))
    @ [(''claimableNow'', JStr (u256_hex (lf_value (cv_claimable_now (cv_live_inputs a)))))]
    @ (case lf_value (next_unlock (cv_live_inputs a)) of None \<Rightarrow> []
      | Some (unlock_time, unlock_amount) \<Rightarrow> [(''nextUnlockTime'', num_u unlock_time),
      (''nextUnlockAmount'', JStr (u256_hex unlock_amount))]))))"

definition lower_vest_curve :: "vest_curve \<Rightarrow> json" where
  "lower_vest_curve curve' =
     JObj (case curve' of
        LinearVest \<Rightarrow>
          [(''kind'', JStr ''linear'')]
      | Stepped points \<Rightarrow>
          [(''kind'', JStr ''stepped''),
          (''steppedPointTimes'', JArr (map (\<lambda>(t, _). num_u t) points)),
          (''steppedPointAmounts'', JArr (map (\<lambda>(_, a). JStr (u256_hex a)) points))]
      | CustomVest description' \<Rightarrow>
          [(''kind'', JStr ''custom''),
          (''description'', JStr description')])"

definition lower_vest_schedule :: "vest_schedule \<Rightarrow> json" where
  "lower_vest_schedule vest' =
     JObj ([(''start'', num_u (vs_start vest'))]
    @ opt_fld ''cliff'' (map_option (\<lambda>cliff'. num_u cliff') (cliff vest'))
    @ opt_fld ''end'' (map_option (\<lambda>end'. num_u end') (vs_end vest'))
    @ [(''curve'', lower_vest_curve (curve vest')),
      (''total'', JStr (u256_hex (vs_total vest')))])"

definition lower_sale_state :: "sale_state \<Rightarrow> json" where
  "lower_sale_state sale =
     JObj ([(''isActive'', JBool (is_active sale)),
      (''totalCommitted'', JStr (u256_hex (total_committed sale)))]
    @ opt_fld ''hardCap'' (map_option (\<lambda>hard_cap'. JStr (u256_hex hard_cap')) (hard_cap sale))
    @ opt_fld ''softCap'' (map_option (\<lambda>soft_cap'. JStr (u256_hex soft_cap')) (soft_cap sale))
    @ [(''saleWindowStart'', num_u (fst (sale_window sale))),
      (''saleWindowEnd'', num_u (snd (sale_window sale)))]
    @ opt_fld ''vestSchedule'' (map_option (\<lambda>vest'. lower_vest_schedule vest') (sale_vest_schedule sale)))"

definition lower_launchpad_commit :: "commit_action \<Rightarrow> lower_ctx \<Rightarrow> lower_error + lowered_action" where
  "lower_launchpad_commit a C =
     Inr (lowered C ''Launchpad::Action::\"Commit\"'' (JObj ([(''meta'', ctx_meta C),
      (''platform'', launchpad_lower_protocol_ref (co_platform a)),
      (''saleId'', JStr (co_sale_id a)),
      (''payToken'', lower_token_ref (co_pay_token a)),
      (''amount'', JStr (u256_hex (co_amount a)))]
    @ opt_fld ''amountNano'' (map_option (\<lambda>nano. num_i nano) (amount_nano C (co_pay_token a) (co_amount a)))
    @ [(''recipient'', JStr (addr (co_recipient a))),
      (''saleState'', lower_sale_state (lf_value (co_sale_state (co_live_inputs a)))),
      (''userCap'', JStr (u256_hex (lf_value (user_cap (co_live_inputs a))))),
      (''userCommitted'', JStr (u256_hex (lf_value (user_committed (co_live_inputs a)))))]
    @ opt_fld ''expectedTokenPrice'' (map_option (\<lambda>price. JStr price) (lf_value (expected_token_price (co_live_inputs a)))))))"

definition lower_launchpad_refund :: "refund_action \<Rightarrow> lower_ctx \<Rightarrow> lower_error + lowered_action" where
  "lower_launchpad_refund a C =
     Inr (lowered C ''Launchpad::Action::\"Refund\"'' (JObj ([(''meta'', ctx_meta C),
      (''platform'', launchpad_lower_protocol_ref (rf_platform a)),
      (''saleId'', JStr (rf_sale_id a)),
      (''recipient'', JStr (addr (rf_recipient a))),
      (''refundAmount'', JStr (u256_hex (lf_value (refund_amount (rf_live_inputs a)))))]
    @ opt_fld ''refundAmountNano'' (map_option (\<lambda>nano. num_i nano) (amount_nano C (lf_value (refund_token (rf_live_inputs a))) (lf_value (refund_amount (rf_live_inputs a)))))
    @ [(''refundToken'', lower_token_ref (lf_value (refund_token (rf_live_inputs a))))])))"

definition lower_launchpad_withdraw_commit :: "withdraw_commit_action \<Rightarrow> lower_ctx \<Rightarrow> lower_error + lowered_action" where
  "lower_launchpad_withdraw_commit a C =
     Inr (lowered C ''Launchpad::Action::\"WithdrawCommit\"'' (JObj ([(''meta'', ctx_meta C),
      (''platform'', launchpad_lower_protocol_ref (wc_platform a)),
      (''saleId'', JStr (wc_sale_id a))]
    @ opt_fld ''amount'' (map_option (\<lambda>amount. JStr (u256_hex amount)) (wc_amount a))
    @ [(''withdrawable'', JStr (u256_hex (lf_value (withdrawable (wc_live_inputs a))))),
      (''saleState'', lower_sale_state (lf_value (wc_sale_state (wc_live_inputs a))))])))"

definition lower_launchpad :: "launchpad_action \<Rightarrow> lower_ctx \<Rightarrow> lower_error + lowered_action" where
  "lower_launchpad a C =
     (case a of
        CommitSale a \<Rightarrow> lower_launchpad_commit a C
      | ClaimAllocation a \<Rightarrow> lower_launchpad_claim_allocation a C
      | ClaimVested a \<Rightarrow> lower_launchpad_claim_vested a C
      | Refund a \<Rightarrow> lower_launchpad_refund a C
      | WithdrawCommit a \<Rightarrow> lower_launchpad_withdraw_commit a C)"

lemmas launchpad_lowerings =
  lower_launchpad_claim_allocation_def lower_launchpad_claim_vested_def lower_launchpad_commit_def
  lower_launchpad_refund_def lower_launchpad_withdraw_commit_def lower_launchpad_def

interpretation low_launchpad: lowering lower_launchpad
  by unfold_locales (auto simp: launchpad_lowerings split: launchpad_action.split option.split)

section \<open>Hyperliquid core\<close>

text \<open>\<^verbatim>\<open>hyperliquid_core/amount.rs\<close>: a decimal text scaled to an integer amount and to nano units. The
  radix-10 reader of \<open>U256\<close> is a parameter.\<close>

record hl_amount =
  hl_raw_hex :: string
  hl_nano :: "int option"

definition hl_usdc_decimals :: u32 where
  "hl_usdc_decimals = 6"

definition hl_sentinel_chain :: string where
  "hl_sentinel_chain = ''hyperliquid:mainnet''"

definition hl_zero_addr :: string where
  "hl_zero_addr = ''0x0000000000000000000000000000000000000000''"

definition compute_nano :: "u256 \<Rightarrow> int \<Rightarrow> int option" where
  "compute_nano raw scale =
     Option.bind (if 0 \<le> scale then checked_mul raw (10 ^ nat scale) else Some (raw div 10 ^ nat (- scale)))
       (\<lambda>scaled. if unat scaled < 2 ^ 63 then Some (int (unat scaled)) else None)"

definition hl_digits :: "string \<Rightarrow> nat \<Rightarrow> string" where
  "hl_digits s decs =
     (let (int_part, frac_part) = split_once_or (CHR ''.'') s;
          frac = take decs frac_part
      in dropWhile (\<lambda>c. c = CHR ''+'') int_part @ frac @ replicate (decs - length frac) (CHR ''0''))"

definition hl_amount_projection :: "(string \<Rightarrow> u256 option) \<Rightarrow> decimal \<Rightarrow> u32 \<Rightarrow> hl_amount" where
  "hl_amount_projection reader amount decs =
     (let trimmed = dropWhile (\<lambda>c. c = CHR ''0'') (hl_digits amount (unat decs));
          raw = (if trimmed = [] then 0 else case reader trimmed of Some v \<Rightarrow> v | None \<Rightarrow> 0)
      in \<lparr>hl_raw_hex = u256_hex raw, hl_nano = compute_nano raw (9 - int (unat decs))\<rparr>)"

definition hl_stake_venue :: "json" where
  "hl_stake_venue =
     JObj [(''name'', JStr ''hyperliquid''),
      (''chain'', JStr ''hyperliquid:mainnet'')]"

definition lower_hyperliquid_core_c_deposit :: "decimal \<Rightarrow> lower_ctx \<Rightarrow> lower_error + lowered_action" where
  "lower_hyperliquid_core_c_deposit a C =
     Inr (lowered C ''Staking::Action::\"Stake\"'' (JObj [(''meta'', ctx_meta C),
      (''venue'', hl_stake_venue),
      (''amount'', JStr (hl_raw_hex (hl_amount_projection (lc_u256_of C) a 0)))]))"

definition lower_hyperliquid_core_c_withdraw :: "decimal \<Rightarrow> lower_ctx \<Rightarrow> lower_error + lowered_action" where
  "lower_hyperliquid_core_c_withdraw a C =
     Inr (lowered C ''Staking::Action::\"Redeem\"'' (JObj [(''meta'', ctx_meta C),
      (''venue'', hl_stake_venue),
      (''amount'', JStr (hl_raw_hex (hl_amount_projection (lc_u256_of C) a 0)))]))"

definition hl_token_ref :: "string \<Rightarrow> json" where
  "hl_token_ref hl_token =
     JObj [(''key'', JObj [(''standard'', JStr ''hyperliquid''),
      (''chain'', JStr ''hyperliquid:mainnet''),
      (''hlToken'', JStr hl_token)])]"

definition hl_usdc_token_ref :: "json" where
  "hl_usdc_token_ref =
     hl_token_ref ''USDC''"

definition hl_venue :: "json" where
  "hl_venue =
     JObj [(''name'', JStr ''hyperliquid'')]"

definition lower_hyperliquid_core_withdraw :: "hl_withdraw_action \<Rightarrow> lower_ctx \<Rightarrow> lower_error + lowered_action" where
  "lower_hyperliquid_core_withdraw a C =
     Inr (lowered C ''HyperliquidCore::Action::\"HlWithdraw\"'' (JObj [(''meta'', ctx_meta C),
      (''venue'', hl_venue),
      (''destination'', JStr (addr (hlw_destination a))),
      (''amount'', JStr (hlw_amount a))]))"

definition lower_hyperliquid_core_usd_send :: "hl_usd_send_action \<Rightarrow> lower_ctx \<Rightarrow> lower_error + lowered_action" where
  "lower_hyperliquid_core_usd_send a C =
     Inr (lowered C ''Token::Action::\"Erc20Transfer\"'' (JObj ([(''meta'', ctx_meta C),
      (''token'', hl_usdc_token_ref),
      (''recipient'', JStr (addr (hlu_destination a))),
      (''amount'', JStr (hl_raw_hex (hl_amount_projection (lc_u256_of C) (hlu_amount a) hl_usdc_decimals)))]
    @ opt_fld ''amountNano'' (map_option (\<lambda>nano. num_i nano) (hl_nano (hl_amount_projection (lc_u256_of C) (hlu_amount a) hl_usdc_decimals))))))"

definition lower_hyperliquid_core_spot_send :: "hl_spot_send_action \<Rightarrow> lower_ctx \<Rightarrow> lower_error + lowered_action" where
  "lower_hyperliquid_core_spot_send a C =
     Inr (lowered C ''Token::Action::\"Erc20Transfer\"'' (JObj ([(''meta'', ctx_meta C),
      (''token'', hl_token_ref (hls_token a)),
      (''recipient'', JStr (addr (hls_destination a)))]
    @ (if starts_with (hls_token a) ''USDC'' then [(''amount'', JStr (hl_raw_hex (hl_amount_projection (lc_u256_of C) (hls_amount a) hl_usdc_decimals)))]
    @ opt_fld ''amountNano'' (map_option (\<lambda>nano. num_i nano) (hl_nano (hl_amount_projection (lc_u256_of C) (hls_amount a) hl_usdc_decimals)))
      else [(''amount'', JStr ''0x0'')]))))"

definition lower_hyperliquid_core_usd_class_transfer :: "hl_usd_class_transfer_action \<Rightarrow> lower_ctx \<Rightarrow> lower_error + lowered_action" where
  "lower_hyperliquid_core_usd_class_transfer u0 C =
     Inr (lowered C ''Core::Action::\"Unknown\"'' (JObj [(''meta'', ctx_meta C),
      (''target'', JStr hl_zero_addr),
      (''chain'', JStr hl_sentinel_chain),
      (''calldata'', JStr ''0x''),
      (''value'', JStr ''0x0'')]))"

definition lower_hyperliquid_core_send_asset :: "hl_send_asset_action \<Rightarrow> lower_ctx \<Rightarrow> lower_error + lowered_action" where
  "lower_hyperliquid_core_send_asset a C =
     Inr (lowered C ''HyperliquidCore::Action::\"HlSendAsset\"'' (JObj [(''meta'', ctx_meta C),
      (''venue'', hl_venue),
      (''destination'', JStr (addr (hla_destination a))),
      (''sourceDex'', JStr (hla_source_dex a)),
      (''destinationDex'', JStr (hla_destination_dex a)),
      (''token'', JStr (hla_token a)),
      (''amount'', JStr (hla_amount a))]))"

definition lower_hyperliquid_core_send_to_evm_with_data :: "hl_send_to_evm_with_data_action \<Rightarrow> lower_ctx \<Rightarrow> lower_error + lowered_action" where
  "lower_hyperliquid_core_send_to_evm_with_data a C =
     Inr (lowered C ''Core::Action::\"Unknown\"'' (JObj [(''meta'', ctx_meta C),
      (''target'', JStr (addr (hle_destination_recipient a))),
      (''chain'', JStr hl_sentinel_chain),
      (''calldata'', JStr (hle_data a)),
      (''value'', JStr (hle_amount a))]))"

definition lower_hyperliquid_core_vault_transfer :: "hl_vault_transfer_action \<Rightarrow> lower_ctx \<Rightarrow> lower_error + lowered_action" where
  "lower_hyperliquid_core_vault_transfer a C =
     Inr (lowered C ''Token::Action::\"Erc20Transfer\"'' (JObj ([(''meta'', ctx_meta C),
      (''token'', hl_usdc_token_ref),
      (''recipient'', JStr (addr (hlv_vault_address a))),
      (''amount'', JStr (hl_raw_hex (hl_amount_projection (lc_u256_of C) (hlv_usd a) hl_usdc_decimals)))]
    @ opt_fld ''amountNano'' (map_option (\<lambda>nano. num_i nano) (hl_nano (hl_amount_projection (lc_u256_of C) (hlv_usd a) hl_usdc_decimals))))))"

definition lower_hyperliquid_core_sub_account_transfer :: "hl_sub_account_transfer_action \<Rightarrow> lower_ctx \<Rightarrow> lower_error + lowered_action" where
  "lower_hyperliquid_core_sub_account_transfer a C =
     Inr (lowered C ''Token::Action::\"Erc20Transfer\"'' (JObj ([(''meta'', ctx_meta C),
      (''token'', hl_usdc_token_ref),
      (''recipient'', JStr (addr (hlb_sub_account_user a))),
      (''amount'', JStr (hl_raw_hex (hl_amount_projection (lc_u256_of C) (hlb_usd a) hl_usdc_decimals)))]
    @ opt_fld ''amountNano'' (map_option (\<lambda>nano. num_i nano) (hl_nano (hl_amount_projection (lc_u256_of C) (hlb_usd a) hl_usdc_decimals))))))"

definition lower_hyperliquid_core_token_delegate :: "hl_token_delegate_action \<Rightarrow> lower_ctx \<Rightarrow> lower_error + lowered_action" where
  "lower_hyperliquid_core_token_delegate a C =
     Inr (lowered C ''HyperliquidCore::Action::\"HlTokenDelegate\"'' (JObj [(''meta'', ctx_meta C),
      (''venue'', hl_venue),
      (''validator'', JStr (addr (hlt_validator a))),
      (''isUndelegate'', JBool (hlt_is_undelegate a)),
      (''wei'', JStr (hlt_wei a))]))"

definition lower_hyperliquid_core_unknown :: "string \<Rightarrow> lower_ctx \<Rightarrow> lower_error + lowered_action" where
  "lower_hyperliquid_core_unknown u0 C =
     Inr (lowered C ''Core::Action::\"Unknown\"'' (JObj [(''meta'', ctx_meta C),
      (''target'', JStr hl_zero_addr),
      (''chain'', JStr hl_sentinel_chain),
      (''calldata'', JStr ''0x''),
      (''value'', JStr ''0x0'')]))"

definition lower_hyperliquid_core :: "hyperliquid_core_action \<Rightarrow> lower_ctx \<Rightarrow> lower_error + lowered_action" where
  "lower_hyperliquid_core a C =
     (case a of
        HlWithdraw a \<Rightarrow> lower_hyperliquid_core_withdraw a C
      | HlUsdSend a \<Rightarrow> lower_hyperliquid_core_usd_send a C
      | HlSpotSend a \<Rightarrow> lower_hyperliquid_core_spot_send a C
      | HlUsdClassTransfer a \<Rightarrow> lower_hyperliquid_core_usd_class_transfer a C
      | HlSendAsset a \<Rightarrow> lower_hyperliquid_core_send_asset a C
      | HlSendToEvmWithData a \<Rightarrow> lower_hyperliquid_core_send_to_evm_with_data a C
      | HlCDeposit a \<Rightarrow> lower_hyperliquid_core_c_deposit a C
      | HlCWithdraw a \<Rightarrow> lower_hyperliquid_core_c_withdraw a C
      | HlVaultTransfer a \<Rightarrow> lower_hyperliquid_core_vault_transfer a C
      | HlSubAccountTransfer a \<Rightarrow> lower_hyperliquid_core_sub_account_transfer a C
      | HlTokenDelegate a \<Rightarrow> lower_hyperliquid_core_token_delegate a C
      | HlUnknown a \<Rightarrow> lower_hyperliquid_core_unknown a C)"

lemmas hyperliquid_core_lowerings =
  lower_hyperliquid_core_c_deposit_def lower_hyperliquid_core_c_withdraw_def
  lower_hyperliquid_core_withdraw_def lower_hyperliquid_core_usd_send_def
  lower_hyperliquid_core_spot_send_def lower_hyperliquid_core_usd_class_transfer_def
  lower_hyperliquid_core_send_asset_def lower_hyperliquid_core_send_to_evm_with_data_def
  lower_hyperliquid_core_vault_transfer_def lower_hyperliquid_core_sub_account_transfer_def
  lower_hyperliquid_core_token_delegate_def lower_hyperliquid_core_unknown_def
  lower_hyperliquid_core_def

interpretation low_hyperliquid_core: lowering lower_hyperliquid_core
  by unfold_locales (auto simp: hyperliquid_core_lowerings split: hyperliquid_core_action.split option.split)

end
