(* ===== verification/LowerStaking.thy ===== *)
theory LowerStaking
  imports LowerCommon
begin

text \<open>
  \<^verbatim>\<open>policy-engine/src/lowering_v2\<close>, the directories \<^verbatim>\<open>liquid_staking\<close>, \<^verbatim>\<open>restaking\<close>, \<^verbatim>\<open>staking\<close>: the Cedar contexts of liquid staking, restaking and staking actions, one
  definition per function of the source, and the proof that each domain honours the contract of a lowering.
\<close>

section \<open>Liquid staking\<close>

definition lower_staking_venue :: "liquid_staking_venue \<Rightarrow> json" where
  "lower_staking_venue venue =
     JObj ([(''name'', JStr (liquid_staking_venue_name venue))]
    @ (case venue of
        Lido chain \<Rightarrow>
          [(''chain'', JStr (as_str chain))]))"

definition lower_liquid_staking_claim_withdrawal :: "claim_withdrawal_action \<Rightarrow> lower_ctx \<Rightarrow> lower_error + lowered_action" where
  "lower_liquid_staking_claim_withdrawal a C =
     Inr (lowered C ''LiquidStaking::Action::\"ClaimWithdrawal\"'' (JObj ([(''meta'', ctx_meta C),
      (''venue'', lower_staking_venue (lscw_venue a)),
      (''requestIds'', JArr (map (\<lambda>id'. JStr (u256_hex id')) (lscw_request_ids a)))]
    @ opt_fld ''recipient'' (map_option (\<lambda>recipient. JStr (addr recipient)) (lscw_recipient a)))))"

definition lower_liquid_staking_stake :: "liquid_stake_action \<Rightarrow> lower_ctx \<Rightarrow> lower_error + lowered_action" where
  "lower_liquid_staking_stake a C =
     Inr (lowered C ''LiquidStaking::Action::\"Stake\"'' (JObj ([(''meta'', ctx_meta C),
      (''venue'', lower_staking_venue (lss_venue a)),
      (''amount'', JStr (u256_hex (lss_amount a))),
      (''amountNano'', num_i (amount_nano_native18 C (lss_amount a)))]
    @ opt_fld ''referral'' (map_option (\<lambda>referral. JStr (addr referral)) (lss_referral a)))))"

definition lower_liquid_staking_wrap :: "steth_wrap_action \<Rightarrow> lower_ctx \<Rightarrow> lower_error + lowered_action" where
  "lower_liquid_staking_wrap a C =
     Inr (lowered C ''LiquidStaking::Action::\"Wrap\"'' (JObj [(''meta'', ctx_meta C),
      (''venue'', lower_staking_venue (lsw_venue a)),
      (''amount'', JStr (u256_hex (lsw_amount a))),
      (''amountNano'', num_i (amount_nano_native18 C (lsw_amount a))),
      (''expectedWsteth'', JStr (u256_hex (lf_value (lswl_expected_wsteth (lsw_live_inputs a)))))]))"

definition lower_liquid_staking_unwrap :: "steth_unwrap_action \<Rightarrow> lower_ctx \<Rightarrow> lower_error + lowered_action" where
  "lower_liquid_staking_unwrap a C =
     Inr (lowered C ''LiquidStaking::Action::\"Unwrap\"'' (JObj [(''meta'', ctx_meta C),
      (''venue'', lower_staking_venue (lsu_venue a)),
      (''amount'', JStr (u256_hex (lsu_amount a))),
      (''amountNano'', num_i (amount_nano_native18 C (lsu_amount a))),
      (''expectedSteth'', JStr (u256_hex (lf_value (lsul_expected_steth (lsu_live_inputs a)))))]))"

definition lower_liquid_staking_request_withdrawal :: "request_withdrawal_action \<Rightarrow> lower_ctx \<Rightarrow> lower_error + lowered_action" where
  "lower_liquid_staking_request_withdrawal a C =
     Inr (lowered C ''LiquidStaking::Action::\"RequestWithdrawal\"'' (JObj ([(''meta'', ctx_meta C),
      (''venue'', lower_staking_venue (lsrw_venue a)),
      (''token'', lower_token_ref (lsrw_token a)),
      (''amounts'', JArr (map (\<lambda>a. JStr (u256_hex a)) (lsrw_amounts a))),
      (''owner'', JStr (addr (lsrw_owner a)))]
    @ opt_fld ''embedded_permit'' (map_option (\<lambda>permit. JObj [(''value'', JStr (u256_hex (lsep_value permit))),
      (''deadline'', JStr (u256_hex (lsep_deadline permit)))]) (lsrw_embedded_permit a)))))"

definition lower_liquid_staking_transfer_shares :: "transfer_shares_action \<Rightarrow> lower_ctx \<Rightarrow> lower_error + lowered_action" where
  "lower_liquid_staking_transfer_shares a C =
     Inr (lowered C ''LiquidStaking::Action::\"TransferShares\"'' (JObj ([(''meta'', ctx_meta C),
      (''venue'', lower_staking_venue (lsts_venue a)),
      (''recipient'', JStr (addr (lsts_recipient a))),
      (''shares'', JStr (u256_hex (lsts_shares a))),
      (''pooledEth'', JStr (u256_hex (lf_value (lstsl_pooled_eth (lsts_live_inputs a)))))]
    @ opt_fld ''from'' (map_option (\<lambda>from'. JStr (addr from')) (lsts_from a)))))"

definition lower_liquid_staking :: "liquid_staking_action \<Rightarrow> lower_ctx \<Rightarrow> lower_error + lowered_action" where
  "lower_liquid_staking a C =
     (case a of
        LiquidStake a \<Rightarrow> lower_liquid_staking_stake a C
      | LiquidWrap a \<Rightarrow> lower_liquid_staking_wrap a C
      | LiquidUnwrap a \<Rightarrow> lower_liquid_staking_unwrap a C
      | LiquidRequestWithdrawal a \<Rightarrow> lower_liquid_staking_request_withdrawal a C
      | LiquidClaimWithdrawal a \<Rightarrow> lower_liquid_staking_claim_withdrawal a C
      | LiquidTransferShares a \<Rightarrow> lower_liquid_staking_transfer_shares a C)"

lemmas liquid_staking_lowerings =
  lower_liquid_staking_claim_withdrawal_def lower_liquid_staking_stake_def
  lower_liquid_staking_wrap_def lower_liquid_staking_unwrap_def
  lower_liquid_staking_request_withdrawal_def lower_liquid_staking_transfer_shares_def
  lower_liquid_staking_def

interpretation low_liquid_staking: lowering lower_liquid_staking
  by unfold_locales (auto simp: liquid_staking_lowerings split: liquid_staking_action.split option.split)

section \<open>Restaking\<close>

definition lower_restaking_venue :: "restaking_venue \<Rightarrow> json" where
  "lower_restaking_venue venue =
     JObj ([(''name'', JStr (restaking_venue_name venue))]
    @ (case venue of
        EigenLayer chain \<Rightarrow>
          [(''chain'', JStr (as_str chain))]))"

definition lower_restaking_complete_withdrawal :: "complete_withdrawal_action \<Rightarrow> lower_ctx \<Rightarrow> lower_error + lowered_action" where
  "lower_restaking_complete_withdrawal a C =
     Inr (lowered C ''Restaking::Action::\"CompleteWithdrawal\"'' (JObj ([(''meta'', ctx_meta C),
      (''venue'', lower_restaking_venue (rscw_venue a)),
      (''staker'', JStr (addr (rscw_staker a))),
      (''withdrawer'', JStr (addr (rscw_withdrawer a))),
      (''strategies'', JArr (map (\<lambda>a. JStr (addr a)) (rscw_strategies a)))]
    @ opt_fld ''receiveAsTokens'' (map_option (\<lambda>receive_as_tokens. JBool receive_as_tokens) (rscw_receive_as_tokens a)))))"

definition lower_restaking_delegate_to :: "delegate_to_action \<Rightarrow> lower_ctx \<Rightarrow> lower_error + lowered_action" where
  "lower_restaking_delegate_to a C =
     Inr (lowered C ''Restaking::Action::\"DelegateTo\"'' (JObj [(''meta'', ctx_meta C),
      (''venue'', lower_restaking_venue (rsdt_venue a)),
      (''operator'', JStr (addr (rsdt_operator a))),
      (''approverSalt'', JStr (rsdt_approver_salt a))]))"

definition lower_restaking_deposit :: "restaking_deposit_action \<Rightarrow> lower_ctx \<Rightarrow> lower_error + lowered_action" where
  "lower_restaking_deposit a C =
     Inr (lowered C ''Restaking::Action::\"Deposit\"'' (JObj ([(''meta'', ctx_meta C),
      (''venue'', lower_restaking_venue (rsd_venue a)),
      (''strategy'', JStr (addr (rsd_strategy a))),
      (''token'', lower_token_ref (rsd_token a)),
      (''amount'', JStr (u256_hex (rsd_amount a)))]
    @ opt_fld ''amountNano'' (map_option (\<lambda>nano. num_i nano) (amount_nano C (rsd_token a) (rsd_amount a)))
    @ opt_fld ''staker'' (map_option (\<lambda>staker. JStr (addr staker)) (rsd_staker a)))))"

definition lower_restaking_redelegate :: "redelegate_action \<Rightarrow> lower_ctx \<Rightarrow> lower_error + lowered_action" where
  "lower_restaking_redelegate a C =
     Inr (lowered C ''Restaking::Action::\"Redelegate\"'' (JObj [(''meta'', ctx_meta C),
      (''venue'', lower_restaking_venue (rsr_venue a)),
      (''newOperator'', JStr (addr (rsr_new_operator a))),
      (''approverSalt'', JStr (rsr_approver_salt a))]))"

definition lower_restaking_undelegate :: "undelegate_action \<Rightarrow> lower_ctx \<Rightarrow> lower_error + lowered_action" where
  "lower_restaking_undelegate a C =
     Inr (lowered C ''Restaking::Action::\"Undelegate\"'' (JObj [(''meta'', ctx_meta C),
      (''venue'', lower_restaking_venue (rsu_venue a)),
      (''staker'', JStr (addr (rsu_staker a)))]))"

definition lower_restaking_queue_withdrawal :: "queue_withdrawal_action \<Rightarrow> lower_ctx \<Rightarrow> lower_error + lowered_action" where
  "lower_restaking_queue_withdrawal a C =
     Inr (lowered C ''Restaking::Action::\"QueueWithdrawal\"'' (JObj [(''meta'', ctx_meta C),
      (''venue'', lower_restaking_venue (rsqw_venue a)),
      (''strategies'', JArr (map (\<lambda>a. JStr (addr a)) (rsqw_strategies a))),
      (''depositShares'', JArr (map (\<lambda>s. JStr (u256_hex s)) (rsqw_deposit_shares a))),
      (''withdrawer'', JStr (addr (rsqw_withdrawer a)))]))"

definition lower_restaking_register_operator :: "register_operator_action \<Rightarrow> lower_ctx \<Rightarrow> lower_error + lowered_action" where
  "lower_restaking_register_operator a C =
     Inr (lowered C ''Restaking::Action::\"RegisterOperator\"'' (JObj [(''meta'', ctx_meta C),
      (''venue'', lower_restaking_venue (rsro_venue a)),
      (''delegationApprover'', JStr (addr (rsro_delegation_approver a))),
      (''allocationDelay'', num_u (rsro_allocation_delay a)),
      (''metadataUri'', JStr (rsro_metadata_uri a))]))"

definition lower_restaking :: "restaking_action \<Rightarrow> lower_ctx \<Rightarrow> lower_error + lowered_action" where
  "lower_restaking a C =
     (case a of
        RestakeDelegateTo a \<Rightarrow> lower_restaking_delegate_to a C
      | RestakeRedelegate a \<Rightarrow> lower_restaking_redelegate a C
      | RestakeUndelegate a \<Rightarrow> lower_restaking_undelegate a C
      | RestakeDeposit a \<Rightarrow> lower_restaking_deposit a C
      | RestakeQueueWithdrawal a \<Rightarrow> lower_restaking_queue_withdrawal a C
      | RestakeCompleteWithdrawal a \<Rightarrow> lower_restaking_complete_withdrawal a C
      | RestakeRegisterOperator a \<Rightarrow> lower_restaking_register_operator a C)"

lemmas restaking_lowerings =
  lower_restaking_complete_withdrawal_def lower_restaking_delegate_to_def
  lower_restaking_deposit_def lower_restaking_redelegate_def lower_restaking_undelegate_def
  lower_restaking_queue_withdrawal_def lower_restaking_register_operator_def lower_restaking_def

interpretation low_restaking: lowering lower_restaking
  by unfold_locales (auto simp: restaking_lowerings split: restaking_action.split option.split)

section \<open>Staking\<close>

definition lower_stake_venue :: "stake_venue \<Rightarrow> json" where
  "lower_stake_venue venue =
     JObj ([(''name'', JStr (stake_venue_name venue))]
    @ (case venue of
        CurveVotingEscrow chain escrow \<Rightarrow>
          [(''chain'', JStr (as_str chain)),
          (''escrow'', JStr (addr escrow))]
      | CurveMinter chain minter \<Rightarrow>
          [(''chain'', JStr (as_str chain)),
          (''minter'', JStr (addr minter))]
      | CurveGaugeController chain controller \<Rightarrow>
          [(''chain'', JStr (as_str chain)),
          (''controller'', JStr (addr controller))]
      | AaveUmbrellaRewardsController chain controller \<Rightarrow>
          [(''chain'', JStr (as_str chain)),
          (''controller'', JStr (addr controller))]
      | CurveGauge chain gauge \<Rightarrow>
          [(''chain'', JStr (as_str chain)),
          (''gauge'', JStr (addr gauge))]
      | CurveFeeDistributor chain distributor \<Rightarrow>
          [(''chain'', JStr (as_str chain)),
          (''distributor'', JStr (addr distributor))]
      | AaveSafetyModule chain module' \<Rightarrow>
          [(''chain'', JStr (as_str chain)),
          (''module'', JStr (addr module'))]
      | AaveUmbrellaStakeToken chain stake_token \<Rightarrow>
          [(''chain'', JStr (as_str chain)),
          (''stakeToken'', JStr (addr stake_token))]
      | AaveSavingsGho chain vault \<Rightarrow>
          [(''chain'', JStr (as_str chain)),
          (''vault'', JStr (addr vault))]
      | EthenaStakedUsde chain vault \<Rightarrow>
          [(''chain'', JStr (as_str chain)),
          (''vault'', JStr (addr vault))]))"

definition lower_staking_claim_rewards :: "claim_rewards_action \<Rightarrow> lower_ctx \<Rightarrow> lower_error + lowered_action" where
  "lower_staking_claim_rewards a C =
     Inr (lowered C ''Staking::Action::\"ClaimRewards\"'' (JObj ([(''meta'', ctx_meta C),
      (''venue'', lower_stake_venue (skcr_venue a))]
    @ opt_fld ''rewardToken'' (map_option (\<lambda>reward_token. lower_token_ref reward_token) (skcr_reward_token a))
    @ [(''gauges'', JArr (map (\<lambda>g. JStr (addr g)) (skcr_gauges a)))]
    @ opt_fld ''onBehalfOf'' (map_option (\<lambda>on_behalf_of. JStr (addr on_behalf_of)) (skcr_on_behalf_of a))
    @ opt_fld ''recipient'' (map_option (\<lambda>recipient. JStr (addr recipient)) (skcr_recipient a)))))"

definition lower_staking_cooldown :: "cooldown_action \<Rightarrow> lower_ctx \<Rightarrow> lower_error + lowered_action" where
  "lower_staking_cooldown a C =
     Inr (lowered C ''Staking::Action::\"Cooldown\"'' (JObj ([(''meta'', ctx_meta C),
      (''venue'', lower_stake_venue (skc_venue a))]
    @ opt_fld ''account'' (map_option (\<lambda>account. JStr (addr account)) (skc_account a))
    @ (case skc_amount a of None \<Rightarrow> []
      | Some amount \<Rightarrow> [(''amount'', JStr (u256_hex amount)),
      (''amountNano'', num_i (amount_nano_native18 C amount))])
    @ opt_fld ''denomination'' (map_option (\<lambda>denom. JStr (case denom of
        DenomShares \<Rightarrow> ''shares''
      | DenomAssets \<Rightarrow> ''assets'')) (skc_denomination a)))))"

definition lower_staking_gauge_deposit :: "gauge_deposit_action \<Rightarrow> lower_ctx \<Rightarrow> lower_error + lowered_action" where
  "lower_staking_gauge_deposit a C =
     Inr (lowered C ''Staking::Action::\"GaugeDeposit\"'' (JObj ([(''meta'', ctx_meta C),
      (''venue'', lower_stake_venue (skgd_venue a)),
      (''amount'', JStr (u256_hex (skgd_amount a)))]
    @ opt_fld ''onBehalfOf'' (map_option (\<lambda>on_behalf_of. JStr (addr on_behalf_of)) (skgd_on_behalf_of a)))))"

definition lower_staking_gauge_withdraw :: "gauge_withdraw_action \<Rightarrow> lower_ctx \<Rightarrow> lower_error + lowered_action" where
  "lower_staking_gauge_withdraw a C =
     Inr (lowered C ''Staking::Action::\"GaugeWithdraw\"'' (JObj [(''meta'', ctx_meta C),
      (''venue'', lower_stake_venue (skgw_venue a)),
      (''amount'', JStr (u256_hex (skgw_amount a)))]))"

definition lower_staking_increase_lock_amount :: "increase_lock_amount_action \<Rightarrow> lower_ctx \<Rightarrow> lower_error + lowered_action" where
  "lower_staking_increase_lock_amount a C =
     Inr (lowered C ''Staking::Action::\"IncreaseLockAmount\"'' (JObj ([(''meta'', ctx_meta C),
      (''venue'', lower_stake_venue (skila_venue a)),
      (''token'', lower_token_ref (skila_token a)),
      (''amount'', JStr (u256_hex (skila_amount a)))]
    @ opt_fld ''amountNano'' (map_option (\<lambda>nano. num_i nano) (amount_nano C (skila_token a) (skila_amount a)))
    @ opt_fld ''onBehalfOf'' (map_option (\<lambda>on_behalf_of. JStr (addr on_behalf_of)) (skila_on_behalf_of a)))))"

definition lower_staking_increase_lock_time :: "increase_lock_time_action \<Rightarrow> lower_ctx \<Rightarrow> lower_error + lowered_action" where
  "lower_staking_increase_lock_time a C =
     Inr (lowered C ''Staking::Action::\"IncreaseLockTime\"'' (JObj [(''meta'', ctx_meta C),
      (''venue'', lower_stake_venue (skilt_venue a)),
      (''unlockTime'', JStr (u256_hex (skilt_unlock_time a)))]))"

definition lower_staking_lock :: "lock_action \<Rightarrow> lower_ctx \<Rightarrow> lower_error + lowered_action" where
  "lower_staking_lock a C =
     Inr (lowered C ''Staking::Action::\"Lock\"'' (JObj ([(''meta'', ctx_meta C),
      (''venue'', lower_stake_venue (skl_venue a)),
      (''token'', lower_token_ref (skl_token a)),
      (''amount'', JStr (u256_hex (skl_amount a)))]
    @ opt_fld ''amountNano'' (map_option (\<lambda>nano. num_i nano) (amount_nano C (skl_token a) (skl_amount a)))
    @ [(''unlockTime'', JStr (u256_hex (skl_unlock_time a)))])))"

definition lower_staking_unlock :: "unlock_action \<Rightarrow> lower_ctx \<Rightarrow> lower_error + lowered_action" where
  "lower_staking_unlock a C =
     Inr (lowered C ''Staking::Action::\"Unlock\"'' (JObj [(''meta'', ctx_meta C),
      (''venue'', lower_stake_venue (sku_venue a)),
      (''token'', lower_token_ref (sku_token a))]))"

definition lower_staking_vote_for_gauge :: "vote_for_gauge_action \<Rightarrow> lower_ctx \<Rightarrow> lower_error + lowered_action" where
  "lower_staking_vote_for_gauge a C =
     Inr (lowered C ''Staking::Action::\"VoteForGauge\"'' (JObj [(''meta'', ctx_meta C),
      (''venue'', lower_stake_venue (skvfg_venue a)),
      (''gauge'', JStr (addr (skvfg_gauge a))),
      (''weightBp'', JStr (u256_hex (skvfg_weight_bp a)))]))"

definition lower_staking_stake :: "stake_action \<Rightarrow> lower_ctx \<Rightarrow> lower_error + lowered_action" where
  "lower_staking_stake a C =
     Inr (lowered C ''Staking::Action::\"Stake\"'' (JObj ([(''meta'', ctx_meta C),
      (''venue'', lower_stake_venue (sks_venue a))]
    @ opt_fld ''asset'' (map_option (\<lambda>asset. lower_token_ref asset) (sks_asset a))
    @ [(''amount'', JStr (u256_hex (sks_amount a)))]
    @ opt_fld ''amountNano'' (map_option (\<lambda>nano. num_i nano) (Option.bind (sks_asset a) (\<lambda>t. amount_nano C t (sks_amount a))))
    @ opt_fld ''onBehalfOf'' (map_option (\<lambda>on_behalf_of. JStr (addr on_behalf_of)) (sks_on_behalf_of a))
    @ opt_fld ''recipient'' (map_option (\<lambda>recipient. JStr (addr recipient)) (sks_recipient a)))))"

definition lower_staking_redeem :: "redeem_action \<Rightarrow> lower_ctx \<Rightarrow> lower_error + lowered_action" where
  "lower_staking_redeem a C =
     Inr (lowered C ''Staking::Action::\"Redeem\"'' (JObj ([(''meta'', ctx_meta C),
      (''venue'', lower_stake_venue (skr_venue a)),
      (''amount'', JStr (u256_hex (skr_amount a)))]
    @ opt_fld ''recipient'' (map_option (\<lambda>recipient. JStr (addr recipient)) (skr_recipient a)))))"

definition lower_staking :: "staking_action \<Rightarrow> lower_ctx \<Rightarrow> lower_error + lowered_action" where
  "lower_staking a C =
     (case a of
        StakeLock a \<Rightarrow> lower_staking_lock a C
      | StakeIncreaseLockAmount a \<Rightarrow> lower_staking_increase_lock_amount a C
      | StakeIncreaseLockTime a \<Rightarrow> lower_staking_increase_lock_time a C
      | StakeUnlock a \<Rightarrow> lower_staking_unlock a C
      | StakeClaimRewards a \<Rightarrow> lower_staking_claim_rewards a C
      | StakeVoteForGauge a \<Rightarrow> lower_staking_vote_for_gauge a C
      | StakeGaugeDeposit a \<Rightarrow> lower_staking_gauge_deposit a C
      | StakeGaugeWithdraw a \<Rightarrow> lower_staking_gauge_withdraw a C
      | StakeStake a \<Rightarrow> lower_staking_stake a C
      | StakeCooldown a \<Rightarrow> lower_staking_cooldown a C
      | StakeRedeem a \<Rightarrow> lower_staking_redeem a C)"

lemmas staking_lowerings =
  lower_staking_claim_rewards_def lower_staking_cooldown_def lower_staking_gauge_deposit_def
  lower_staking_gauge_withdraw_def lower_staking_increase_lock_amount_def
  lower_staking_increase_lock_time_def lower_staking_lock_def lower_staking_unlock_def
  lower_staking_vote_for_gauge_def lower_staking_stake_def lower_staking_redeem_def
  lower_staking_def

interpretation low_staking: lowering lower_staking
  by unfold_locales (auto simp: staking_lowerings split: staking_action.split option.split)

end
