(* ===== verification/LowerServices.thy ===== *)
theory LowerServices
  imports LowerCommon
begin

text \<open>
  \<^verbatim>\<open>policy-engine/src/lowering_v2\<close>, the directories \<^verbatim>\<open>bridge\<close>, \<^verbatim>\<open>governance\<close>, \<^verbatim>\<open>marketplace\<close>, \<^verbatim>\<open>permission\<close>, \<^verbatim>\<open>yield_\<close>: the Cedar contexts of bridges, governance, marketplaces, permissions and yield markets, one
  definition per function of the source, and the proof that each domain honours the contract of a lowering.
\<close>

section \<open>Bridges\<close>

definition lower_bridge_venue :: "bridge_venue \<Rightarrow> json" where
  "lower_bridge_venue venue =
     JObj [(''name'', JStr (bridge_venue_name venue))]"

definition lower_bridge_recipient :: "bridge_recipient \<Rightarrow> json" where
  "lower_bridge_recipient r =
     JObj (case r of
        RecipientEvm address \<Rightarrow>
          [(''kind'', JStr ''evm''),
          (''address'', JStr (addr address))]
      | RecipientRaw bytes32 \<Rightarrow>
          [(''kind'', JStr ''raw''),
          (''bytes32'', JStr bytes32)])"

definition lower_bridge_send :: "bridge_send_action \<Rightarrow> lower_ctx \<Rightarrow> lower_error + lowered_action" where
  "lower_bridge_send a C =
     Inr (lowered C ''Bridge::Action::\"Send\"'' (JObj ([(''meta'', ctx_meta C),
      (''venue'', lower_bridge_venue (brbs_venue a)),
      (''srcToken'', lower_token_ref (brbs_src_token a)),
      (''inputAmount'', JStr (u256_hex (brbs_input_amount a))),
      (''dstChainId'', JStr (as_str (brbs_dst_chain_id a))),
      (''dstRecipient'', lower_bridge_recipient (brbs_dst_recipient a))]
    @ opt_fld ''dstToken'' (map_option (\<lambda>t. lower_token_ref t) (brbs_dst_token a))
    @ opt_fld ''outputAmount'' (map_option (\<lambda>out. JStr (u256_hex out)) (brbs_output_amount a))
    @ (case brbs_exclusive_relayer a of None \<Rightarrow> []
      | Some r \<Rightarrow> (if r \<noteq> 0 then [(''exclusiveRelayer'', JStr (addr r))]
      else []))
    @ [(''hasMessage'', JBool (brbs_has_message a))])))"

definition lower_bridge :: "bridge_action \<Rightarrow> lower_ctx \<Rightarrow> lower_error + lowered_action" where
  "lower_bridge a C =
     (case a of
        BridgeSend a \<Rightarrow> lower_bridge_send a C)"

lemmas bridge_lowerings =
  lower_bridge_send_def lower_bridge_def

interpretation low_bridge: lowering lower_bridge
  by unfold_locales (auto simp: bridge_lowerings split: bridge_action.split option.split)

section \<open>Governance\<close>

definition lower_governance_venue :: "governance_venue \<Rightarrow> json" where
  "lower_governance_venue venue =
     JObj ([(''name'', JStr (governance_venue_name venue))]
    @ (case venue of
        AaveGovernanceV3 chain governance \<Rightarrow>
          [(''chain'', JStr (as_str chain)),
          (''governance'', JStr (addr governance))]
      | AaveVotingMachine chain voting_machine \<Rightarrow>
          [(''chain'', JStr (as_str chain)),
          (''votingMachine'', JStr (addr voting_machine))]
      | GovernanceToken chain token \<Rightarrow>
          [(''chain'', JStr (as_str chain)),
          (''token'', lower_token_ref token)]))"

definition lower_proposal_id :: "u256 \<Rightarrow> json" where
  "lower_proposal_id id' =
     JStr (u256_hex id')"

definition lower_governance_activate_voting :: "governance_proposal_ref_action \<Rightarrow> lower_ctx \<Rightarrow> lower_error + lowered_action" where
  "lower_governance_activate_voting a C =
     Inr (lowered C ''Governance::Action::\"ActivateVoting\"'' (JObj [(''meta'', ctx_meta C),
      (''venue'', lower_governance_venue (gvgpr_venue a)),
      (''proposalId'', lower_proposal_id (gvgpr_proposal_id a))]))"

definition lower_governance_cancel :: "governance_proposal_ref_action \<Rightarrow> lower_ctx \<Rightarrow> lower_error + lowered_action" where
  "lower_governance_cancel a C =
     Inr (lowered C ''Governance::Action::\"Cancel\"'' (JObj [(''meta'', ctx_meta C),
      (''venue'', lower_governance_venue (gvgpr_venue a)),
      (''proposalId'', lower_proposal_id (gvgpr_proposal_id a))]))"

definition lower_governance_close_vote :: "governance_proposal_ref_action \<Rightarrow> lower_ctx \<Rightarrow> lower_error + lowered_action" where
  "lower_governance_close_vote a C =
     Inr (lowered C ''Governance::Action::\"CloseVote\"'' (JObj [(''meta'', ctx_meta C),
      (''venue'', lower_governance_venue (gvgpr_venue a)),
      (''proposalId'', lower_proposal_id (gvgpr_proposal_id a))]))"

definition kind_name :: "governance_delegation_kind \<Rightarrow> string" where
  "kind_name kind =
     (case kind of
        DelegatingAll \<Rightarrow> ''all''
      | DelegatingVoting \<Rightarrow> ''voting''
      | DelegatingProposition \<Rightarrow> ''proposition''
      | DelegatingRaw \<Rightarrow> ''raw'')"

definition lower_governance_delegate :: "governance_delegate_action \<Rightarrow> lower_ctx \<Rightarrow> lower_error + lowered_action" where
  "lower_governance_delegate a C =
     Inr (lowered C ''Governance::Action::\"Delegate\"'' (JObj ([(''meta'', ctx_meta C),
      (''venue'', lower_governance_venue (gvgd_venue a)),
      (''token'', lower_token_ref (gvgd_token a)),
      (''delegatee'', JStr (addr (gvgd_delegatee a))),
      (''delegationKind'', JStr (kind_name (gvgd_delegation_kind a)))]
    @ opt_fld ''rawDelegationType'' (map_option (\<lambda>raw. num_i (uint raw)) (gvgd_raw_delegation_type a))
    @ opt_fld ''currentDelegate'' (map_option (\<lambda>current_delegate'. JStr (addr current_delegate')) (lf_value (gvgdl_current_delegate (gvgd_live_inputs a))))
    @ [(''governancePower'', JStr (u256_hex (lf_value (gvgdl_governance_power (gvgd_live_inputs a)))))])))"

definition lower_governance_execute :: "governance_proposal_ref_action \<Rightarrow> lower_ctx \<Rightarrow> lower_error + lowered_action" where
  "lower_governance_execute a C =
     Inr (lowered C ''Governance::Action::\"Execute\"'' (JObj [(''meta'', ctx_meta C),
      (''venue'', lower_governance_venue (gvgpr_venue a)),
      (''proposalId'', lower_proposal_id (gvgpr_proposal_id a))]))"

definition lower_governance_vote :: "governance_vote_action \<Rightarrow> lower_ctx \<Rightarrow> lower_error + lowered_action" where
  "lower_governance_vote a C =
     Inr (lowered C ''Governance::Action::\"Vote\"'' (JObj ([(''meta'', ctx_meta C),
      (''venue'', lower_governance_venue (gvgv_venue a)),
      (''proposalId'', lower_proposal_id (gvgv_proposal_id a)),
      (''support'', JBool (gvgv_support a))]
    @ opt_fld ''reason'' (map_option (\<lambda>reason. JStr reason) (gvgv_reason a)))))"

definition lower_governance_propose :: "governance_propose_action \<Rightarrow> lower_ctx \<Rightarrow> lower_error + lowered_action" where
  "lower_governance_propose a C =
     Inr (lowered C ''Governance::Action::\"Propose\"'' (JObj [(''meta'', ctx_meta C),
      (''venue'', lower_governance_venue (gvgp_venue a)),
      (''payloadTargets'', JArr (map (\<lambda>a. JStr (addr a)) (gvgp_payload_targets a))),
      (''payloadCount'', JStr (u256_hex (gvgp_payload_count a))),
      (''metadata'', JStr (gvgp_metadata a))]))"

definition lower_governance_queue :: "governance_proposal_ref_action \<Rightarrow> lower_ctx \<Rightarrow> lower_error + lowered_action" where
  "lower_governance_queue a C =
     Inr (lowered C ''Governance::Action::\"Queue\"'' (JObj [(''meta'', ctx_meta C),
      (''venue'', lower_governance_venue (gvgpr_venue a)),
      (''proposalId'', lower_proposal_id (gvgpr_proposal_id a))]))"

definition lower_governance_start_vote :: "governance_proposal_ref_action \<Rightarrow> lower_ctx \<Rightarrow> lower_error + lowered_action" where
  "lower_governance_start_vote a C =
     Inr (lowered C ''Governance::Action::\"StartVote\"'' (JObj [(''meta'', ctx_meta C),
      (''venue'', lower_governance_venue (gvgpr_venue a)),
      (''proposalId'', lower_proposal_id (gvgpr_proposal_id a))]))"

definition lower_governance_redeem_cancellation_fee :: "governance_redeem_cancellation_fee_action \<Rightarrow> lower_ctx \<Rightarrow> lower_error + lowered_action" where
  "lower_governance_redeem_cancellation_fee a C =
     Inr (lowered C ''Governance::Action::\"RedeemCancellationFee\"'' (JObj [(''meta'', ctx_meta C),
      (''venue'', lower_governance_venue (gvgrcf_venue a)),
      (''proposalId'', lower_proposal_id (gvgrcf_proposal_id a))]))"

definition lower_governance_update_representative :: "governance_update_representative_action \<Rightarrow> lower_ctx \<Rightarrow> lower_error + lowered_action" where
  "lower_governance_update_representative a C =
     Inr (lowered C ''Governance::Action::\"UpdateRepresentative\"'' (JObj [(''meta'', ctx_meta C),
      (''venue'', lower_governance_venue (gvgur_venue a)),
      (''representative'', JStr (addr (gvgur_representative a))),
      (''representativeChainId'', JStr (u256_hex (gvgur_representative_chain_id a)))]))"

definition lower_governance :: "governance_action \<Rightarrow> lower_ctx \<Rightarrow> lower_error + lowered_action" where
  "lower_governance a C =
     (case a of
        GovDelegate a \<Rightarrow> lower_governance_delegate a C
      | GovVote a \<Rightarrow> lower_governance_vote a C
      | GovPropose a \<Rightarrow> lower_governance_propose a C
      | GovCancel a \<Rightarrow> lower_governance_cancel a C
      | GovActivateVoting a \<Rightarrow> lower_governance_activate_voting a C
      | GovQueue a \<Rightarrow> lower_governance_queue a C
      | GovExecute a \<Rightarrow> lower_governance_execute a C
      | GovStartVote a \<Rightarrow> lower_governance_start_vote a C
      | GovCloseVote a \<Rightarrow> lower_governance_close_vote a C
      | GovRedeemCancellationFee a \<Rightarrow> lower_governance_redeem_cancellation_fee a C
      | GovUpdateRepresentative a \<Rightarrow> lower_governance_update_representative a C)"

lemmas governance_lowerings =
  lower_governance_activate_voting_def lower_governance_cancel_def lower_governance_close_vote_def
  lower_governance_delegate_def lower_governance_execute_def lower_governance_vote_def
  lower_governance_propose_def lower_governance_queue_def lower_governance_start_vote_def
  lower_governance_redeem_cancellation_fee_def lower_governance_update_representative_def
  lower_governance_def

interpretation low_governance: lowering lower_governance
  by unfold_locales (auto simp: governance_lowerings split: governance_action.split option.split)

section \<open>Marketplaces\<close>

definition is_zero_bytes :: "string \<Rightarrow> bool" where
  "is_zero_bytes hex =
     (let body = (if starts_with hex ''0x'' then drop 2 hex else hex)
      in body \<noteq> [] \<and> list_all (\<lambda>b. b = CHR ''0'') body)"

definition long_secs :: "u64 \<Rightarrow> json" where
  "long_secs secs = num_n (min (unat secs) (2 ^ 63 - 1))"

definition lower_marketplace_venue :: "marketplace_venue \<Rightarrow> json" where
  "lower_marketplace_venue venue =
     JObj ([(''name'', JStr (marketplace_venue_name venue))]
    @ (case venue of
        Seaport chain settlement \<Rightarrow>
          [(''chain'', JStr (as_str chain)),
          (''settlement'', JStr (addr settlement))]))"

definition lower_marketplace_cancel_order :: "market_cancel_order_action \<Rightarrow> lower_ctx \<Rightarrow> lower_error + lowered_action" where
  "lower_marketplace_cancel_order a C =
     Inr (lowered C ''Marketplace::Action::\"CancelOrder\"'' (JObj ([(''meta'', ctx_meta C),
      (''venue'', lower_marketplace_venue (mkco_venue a)),
      (''scope'', JStr (mkco_scope a))]
    @ opt_fld ''orderCount'' (map_option (\<lambda>order_count. num_u order_count) (mkco_order_count a)))))"

definition market_item_kind :: "market_item_kind \<Rightarrow> string" where
  "market_item_kind kind =
     (case kind of
        ItemNative \<Rightarrow> ''native''
      | ItemErc20 \<Rightarrow> ''erc20''
      | ItemErc721 \<Rightarrow> ''erc721''
      | ItemErc1155 \<Rightarrow> ''erc1155''
      | ItemErc721Criteria \<Rightarrow> ''erc721_criteria''
      | ItemErc1155Criteria \<Rightarrow> ''erc1155_criteria'')"

definition is_criteria :: "market_item \<Rightarrow> bool" where
  "is_criteria item =
     (case mkmi_kind item of ItemErc721Criteria \<Rightarrow> True | ItemErc1155Criteria \<Rightarrow> True | _ \<Rightarrow> False)"

definition is_any_token :: "market_item \<Rightarrow> bool" where
  "is_any_token item =
     ((is_criteria item) \<and> (case mkmi_criteria_root item of None \<Rightarrow> False | Some v \<Rightarrow> is_zero_bytes v))"

definition lower_market_item :: "market_item \<Rightarrow> json" where
  "lower_market_item item =
     JObj ([(''idx'', num_u (mkmi_idx item)),
      (''kind'', JStr (market_item_kind (mkmi_kind item)))]
    @ opt_fld ''token'' (map_option (\<lambda>token. JStr (addr token)) (mkmi_token item))
    @ opt_fld ''tokenId'' (map_option (\<lambda>token_id. JStr (u256_hex token_id)) (mkmi_token_id item))
    @ opt_fld ''criteriaRoot'' (map_option (\<lambda>root. JStr root) (mkmi_criteria_root item))
    @ [(''anyToken'', JBool (is_any_token item)),
      (''startAmount'', JStr (u256_hex (mkmi_start_amount item))),
      (''endAmount'', JStr (u256_hex (mkmi_end_amount item)))]
    @ opt_fld ''recipient'' (map_option (\<lambda>recipient. JStr (addr recipient)) (mkmi_recipient item)))"

definition lower_market_items :: "market_item list \<Rightarrow> json" where
  "lower_market_items items =
     JArr (map lower_market_item items)"

definition lower_marketplace_fulfill_order :: "market_fulfill_order_action \<Rightarrow> lower_ctx \<Rightarrow> lower_error + lowered_action" where
  "lower_marketplace_fulfill_order a C =
     Inr (lowered C ''Marketplace::Action::\"FulfillOrder\"'' (JObj ([(''meta'', ctx_meta C),
      (''venue'', lower_marketplace_venue (mkfo_venue a)),
      (''offer'', lower_market_items (mkfo_offer a)),
      (''consideration'', lower_market_items (mkfo_consideration a)),
      (''recipient'', JStr (addr (mkfo_recipient a)))]
    @ opt_fld ''fulfillerConduitKey'' (map_option (\<lambda>key. JStr key) (mkfo_fulfiller_conduit_key a))
    @ [(''usesConduit'', JBool (case mkfo_fulfiller_conduit_key a of None \<Rightarrow> False | Some k \<Rightarrow> \<not> (is_zero_bytes k))),
      (''orderCount'', num_u (mkfo_order_count a)),
      (''isBatch'', JBool (mkfo_is_batch a))])))"

definition lower_marketplace_sign_order :: "market_sign_order_action \<Rightarrow> lower_ctx \<Rightarrow> lower_error + lowered_action" where
  "lower_marketplace_sign_order a C =
     Inr (lowered C ''Marketplace::Action::\"SignOrder\"'' (JObj ([(''meta'', ctx_meta C),
      (''venue'', lower_marketplace_venue (mkso_venue a)),
      (''offerer'', JStr (addr (mkso_offerer a)))]
    @ opt_fld ''zone'' (map_option (\<lambda>zone. JStr (addr zone)) (mkso_zone a))
    @ [(''offer'', lower_market_items (mkso_offer a)),
      (''consideration'', lower_market_items (mkso_consideration a)),
      (''orderType'', JStr (mkso_order_type a)),
      (''startTime'', long_secs (mkso_start_time a)),
      (''endTime'', long_secs (mkso_end_time a)),
      (''conduitKey'', JStr (mkso_conduit_key a)),
      (''usesConduit'', JBool (\<not> (is_zero_bytes (mkso_conduit_key a)))),
      (''offerHasCriteria'', JBool (list_ex is_criteria (mkso_offer a))),
      (''offerHasAnyToken'', JBool (list_ex is_any_token (mkso_offer a))),
      (''proceedsToOfferer'', JBool (list_ex (\<lambda>item. (case mkmi_recipient item of None \<Rightarrow> False | Some r \<Rightarrow> addr r = addr (mkso_offerer a))) (mkso_consideration a))),
      (''counter'', JStr (u256_hex (mkso_counter a)))])))"

definition lower_marketplace :: "marketplace_action \<Rightarrow> lower_ctx \<Rightarrow> lower_error + lowered_action" where
  "lower_marketplace a C =
     (case a of
        MarketSignOrder a \<Rightarrow> lower_marketplace_sign_order a C
      | MarketFulfillOrder a \<Rightarrow> lower_marketplace_fulfill_order a C
      | MarketCancelOrder a \<Rightarrow> lower_marketplace_cancel_order a C)"

lemmas marketplace_lowerings =
  lower_marketplace_cancel_order_def lower_marketplace_fulfill_order_def
  lower_marketplace_sign_order_def lower_marketplace_def

interpretation low_marketplace: lowering lower_marketplace
  by unfold_locales (auto simp: marketplace_lowerings split: marketplace_action.split option.split)

section \<open>Permissions\<close>

definition lower_permission_protocol_authorization :: "protocol_authorization_action \<Rightarrow> lower_ctx \<Rightarrow> lower_error + lowered_action" where
  "lower_permission_protocol_authorization a C =
     Inr (lowered C ''Permission::Action::\"ProtocolAuthorization\"'' (JObj ([(''meta'', ctx_meta C),
      (''chain'', JStr (as_str (pmpa_chain a))),
      (''protocol'', JStr (addr (pmpa_protocol a))),
      (''protocolName'', JStr (pmpa_protocol_name a)),
      (''permission'', JStr (protocol_permission_kind_str (pmpa_permission a)))]
    @ opt_fld ''permissionLabel'' (map_option (\<lambda>label. JStr label) (pmpa_permission_label a))
    @ opt_fld ''permissionLimit'' (map_option (\<lambda>limit. JStr limit) (pmpa_permission_limit a))
    @ opt_fld ''authorizer'' (map_option (\<lambda>authorizer. JStr (addr authorizer)) (pmpa_authorizer a))
    @ [(''authorized'', JStr (addr (pmpa_authorized a))),
      (''isAuthorized'', JBool (pmpa_is_authorized a))])))"

definition lower_permission :: "permission_action \<Rightarrow> lower_ctx \<Rightarrow> lower_error + lowered_action" where
  "lower_permission a C =
     (case a of
        PermProtocolAuthorization a \<Rightarrow> lower_permission_protocol_authorization a C)"

lemmas permission_lowerings =
  lower_permission_protocol_authorization_def lower_permission_def

interpretation low_permission: lowering lower_permission
  by unfold_locales (auto simp: permission_lowerings split: permission_action.split option.split)

section \<open>Yield markets\<close>

fun add_liquidity_kind_tag :: "add_liquidity_kind \<Rightarrow> string" where
  "add_liquidity_kind_tag AddDualTokenAndPt = ''dual_token_and_pt''"
| "add_liquidity_kind_tag AddDualSyAndPt = ''dual_sy_and_pt''"
| "add_liquidity_kind_tag AddSinglePt = ''single_pt''"
| "add_liquidity_kind_tag AddSingleToken = ''single_token''"
| "add_liquidity_kind_tag AddSingleSy = ''single_sy''"
| "add_liquidity_kind_tag AddSingleTokenKeepYt = ''single_token_keep_yt''"
| "add_liquidity_kind_tag AddSingleSyKeepYt = ''single_sy_keep_yt''"

fun cancel_kind_tag :: "cancel_kind \<Rightarrow> string" where
  "cancel_kind_tag CancelSingle = ''single''"
| "cancel_kind_tag CancelBatch = ''batch''"

fun limit_order_type_tag :: "limit_order_type \<Rightarrow> string" where
  "limit_order_type_tag OrderSyForPt = ''sy_for_pt''"
| "limit_order_type_tag OrderPtForSy = ''pt_for_sy''"
| "limit_order_type_tag OrderSyForYt = ''sy_for_yt''"
| "limit_order_type_tag OrderYtForSy = ''yt_for_sy''"

fun pt_swap_direction_tag :: "pt_swap_direction \<Rightarrow> string" where
  "pt_swap_direction_tag PtTokenForPt = ''token_for_pt''"
| "pt_swap_direction_tag PtSyForPt = ''sy_for_pt''"
| "pt_swap_direction_tag PtPtForToken = ''pt_for_token''"
| "pt_swap_direction_tag PtPtForSy = ''pt_for_sy''"

fun remove_liquidity_kind_tag :: "remove_liquidity_kind \<Rightarrow> string" where
  "remove_liquidity_kind_tag RemoveDualTokenAndPt = ''dual_token_and_pt''"
| "remove_liquidity_kind_tag RemoveDualSyAndPt = ''dual_sy_and_pt''"
| "remove_liquidity_kind_tag RemoveSinglePt = ''single_pt''"
| "remove_liquidity_kind_tag RemoveSingleToken = ''single_token''"
| "remove_liquidity_kind_tag RemoveSingleSy = ''single_sy''"

fun yt_swap_direction_tag :: "yt_swap_direction \<Rightarrow> string" where
  "yt_swap_direction_tag YtTokenForYt = ''token_for_yt''"
| "yt_swap_direction_tag YtSyForYt = ''sy_for_yt''"
| "yt_swap_direction_tag YtYtForToken = ''yt_for_token''"
| "yt_swap_direction_tag YtYtForSy = ''yt_for_sy''"

definition lower_yield_venue :: "yield_venue \<Rightarrow> json" where
  "lower_yield_venue venue =
     JObj ([(''name'', JStr (yield_venue_name venue))]
    @ (case venue of
        PendleV2 chain \<Rightarrow>
          [(''chain'', JStr (as_str chain))]))"

definition lower_yield_add_market_liquidity :: "add_market_liquidity_action \<Rightarrow> lower_ctx \<Rightarrow> lower_error + lowered_action" where
  "lower_yield_add_market_liquidity a C =
     Inr (lowered C ''Yield::Action::\"AddMarketLiquidity\"'' (JObj ([(''meta'', ctx_meta C),
      (''venue'', lower_yield_venue (ydaml_venue a)),
      (''market'', JStr (addr (ydaml_market a))),
      (''kind'', JStr (add_liquidity_kind_tag (ydaml_kind a)))]
    @ opt_fld ''externalToken'' (map_option (\<lambda>token. lower_token_ref token) (ydaml_external_token a))
    @ [(''netTokenIn'', JStr (u256_hex (ydaml_net_token_in a)))]
    @ opt_fld ''netTokenInNano'' (map_option (\<lambda>nano. num_i nano) (Option.bind (ydaml_external_token a) (\<lambda>t. amount_nano C t (ydaml_net_token_in a))))
    @ [(''netPtIn'', JStr (u256_hex (ydaml_net_pt_in a))),
      (''netSyIn'', JStr (u256_hex (ydaml_net_sy_in a))),
      (''minLpOut'', JStr (u256_hex (ydaml_min_lp_out a))),
      (''recipient'', JStr (addr (ydaml_recipient a))),
      (''sy'', JStr (addr (lf_value (ydmtl_sy (ydaml_live_inputs a))))),
      (''pt'', JStr (addr (lf_value (ydmtl_pt (ydaml_live_inputs a))))),
      (''yt'', JStr (addr (lf_value (ydmtl_yt (ydaml_live_inputs a))))),
      (''maturity'', JStr (u256_hex (lf_value (ydmtl_maturity (ydaml_live_inputs a)))))])))"

definition lower_yield_cancel_limit_order :: "cancel_limit_order_action \<Rightarrow> lower_ctx \<Rightarrow> lower_error + lowered_action" where
  "lower_yield_cancel_limit_order a C =
     Inr (lowered C ''Yield::Action::\"CancelLimitOrder\"'' (JObj [(''meta'', ctx_meta C),
      (''venue'', lower_yield_venue (ydclo_venue a)),
      (''kind'', JStr (cancel_kind_tag (ydclo_kind a)))]))"

definition lower_addr_set :: "address list \<Rightarrow> json" where
  "lower_addr_set addrs =
     JArr (map (\<lambda>a. JStr (addr a)) addrs)"

definition lower_yield_claim_yield :: "claim_yield_action \<Rightarrow> lower_ctx \<Rightarrow> lower_error + lowered_action" where
  "lower_yield_claim_yield a C =
     Inr (lowered C ''Yield::Action::\"ClaimYield\"'' (JObj [(''meta'', ctx_meta C),
      (''venue'', lower_yield_venue (ydcy_venue a)),
      (''user'', JStr (addr (ydcy_user a))),
      (''sys'', lower_addr_set (ydcy_sys a)),
      (''yts'', lower_addr_set (ydcy_yts a)),
      (''markets'', lower_addr_set (ydcy_markets a))]))"

definition lower_yield_mint_py :: "mint_py_action \<Rightarrow> lower_ctx \<Rightarrow> lower_error + lowered_action" where
  "lower_yield_mint_py a C =
     Inr (lowered C ''Yield::Action::\"MintPy\"'' (JObj ([(''meta'', ctx_meta C),
      (''venue'', lower_yield_venue (ydmp_venue a)),
      (''yt'', JStr (addr (ydmp_yt a)))]
    @ opt_fld ''externalToken'' (map_option (\<lambda>token. lower_token_ref token) (ydmp_external_token a))
    @ [(''netInput'', JStr (u256_hex (ydmp_net_input a)))]
    @ opt_fld ''netInputNano'' (map_option (\<lambda>nano. num_i nano) (Option.bind (ydmp_external_token a) (\<lambda>t. amount_nano C t (ydmp_net_input a))))
    @ [(''minPyOut'', JStr (u256_hex (ydmp_min_py_out a))),
      (''recipient'', JStr (addr (ydmp_recipient a)))])))"

definition lower_yield_mint_sy :: "mint_sy_action \<Rightarrow> lower_ctx \<Rightarrow> lower_error + lowered_action" where
  "lower_yield_mint_sy a C =
     Inr (lowered C ''Yield::Action::\"MintSy\"'' (JObj ([(''meta'', ctx_meta C),
      (''venue'', lower_yield_venue (ydms_venue a)),
      (''sy'', JStr (addr (ydms_sy a))),
      (''externalToken'', lower_token_ref (ydms_external_token a)),
      (''netTokenIn'', JStr (u256_hex (ydms_net_token_in a)))]
    @ opt_fld ''netTokenInNano'' (map_option (\<lambda>nano. num_i nano) (amount_nano C (ydms_external_token a) (ydms_net_token_in a)))
    @ [(''minSyOut'', JStr (u256_hex (ydms_min_sy_out a))),
      (''recipient'', JStr (addr (ydms_recipient a)))])))"

definition lower_yield_pt_swap :: "pt_swap_action \<Rightarrow> lower_ctx \<Rightarrow> lower_error + lowered_action" where
  "lower_yield_pt_swap a C =
     Inr (lowered C ''Yield::Action::\"PtSwap\"'' (JObj ([(''meta'', ctx_meta C),
      (''venue'', lower_yield_venue (ydps_venue a)),
      (''market'', JStr (addr (ydps_market a))),
      (''direction'', JStr (pt_swap_direction_tag (ydps_direction a)))]
    @ opt_fld ''externalToken'' (map_option (\<lambda>token. lower_token_ref token) (ydps_external_token a))
    @ [(''exactAmountIn'', JStr (u256_hex (ydps_exact_amount_in a)))]
    @ opt_fld ''exactAmountInNano'' (map_option (\<lambda>nano. num_i nano) (case ydps_direction a of
        PtTokenForPt \<Rightarrow> Option.bind (ydps_external_token a) (\<lambda>t. amount_nano C t (ydps_exact_amount_in a))
      | PtPtForToken \<Rightarrow> Some (amount_nano_native18 C (ydps_exact_amount_in a))
      | PtPtForSy \<Rightarrow> Some (amount_nano_native18 C (ydps_exact_amount_in a))
      | PtSyForPt \<Rightarrow> None))
    @ [(''minAmountOut'', JStr (u256_hex (ydps_min_amount_out a))),
      (''recipient'', JStr (addr (ydps_recipient a))),
      (''sy'', JStr (addr (lf_value (ydmtl_sy (ydps_live_inputs a))))),
      (''pt'', JStr (addr (lf_value (ydmtl_pt (ydps_live_inputs a))))),
      (''yt'', JStr (addr (lf_value (ydmtl_yt (ydps_live_inputs a))))),
      (''maturity'', JStr (u256_hex (lf_value (ydmtl_maturity (ydps_live_inputs a)))))])))"

definition lower_yield_yt_swap :: "yt_swap_action \<Rightarrow> lower_ctx \<Rightarrow> lower_error + lowered_action" where
  "lower_yield_yt_swap a C =
     Inr (lowered C ''Yield::Action::\"YtSwap\"'' (JObj ([(''meta'', ctx_meta C),
      (''venue'', lower_yield_venue (ydys_venue a)),
      (''market'', JStr (addr (ydys_market a))),
      (''direction'', JStr (yt_swap_direction_tag (ydys_direction a)))]
    @ opt_fld ''externalToken'' (map_option (\<lambda>token. lower_token_ref token) (ydys_external_token a))
    @ [(''exactAmountIn'', JStr (u256_hex (ydys_exact_amount_in a)))]
    @ opt_fld ''exactAmountInNano'' (map_option (\<lambda>nano. num_i nano) (case ydys_direction a of
        YtTokenForYt \<Rightarrow> Option.bind (ydys_external_token a) (\<lambda>t. amount_nano C t (ydys_exact_amount_in a))
      | YtYtForToken \<Rightarrow> Some (amount_nano_native18 C (ydys_exact_amount_in a))
      | YtYtForSy \<Rightarrow> Some (amount_nano_native18 C (ydys_exact_amount_in a))
      | YtSyForYt \<Rightarrow> None))
    @ [(''minAmountOut'', JStr (u256_hex (ydys_min_amount_out a))),
      (''recipient'', JStr (addr (ydys_recipient a))),
      (''sy'', JStr (addr (lf_value (ydmtl_sy (ydys_live_inputs a))))),
      (''pt'', JStr (addr (lf_value (ydmtl_pt (ydys_live_inputs a))))),
      (''yt'', JStr (addr (lf_value (ydmtl_yt (ydys_live_inputs a))))),
      (''maturity'', JStr (u256_hex (lf_value (ydmtl_maturity (ydys_live_inputs a)))))])))"

definition lower_yield_remove_market_liquidity :: "remove_market_liquidity_action \<Rightarrow> lower_ctx \<Rightarrow> lower_error + lowered_action" where
  "lower_yield_remove_market_liquidity a C =
     Inr (lowered C ''Yield::Action::\"RemoveMarketLiquidity\"'' (JObj ([(''meta'', ctx_meta C),
      (''venue'', lower_yield_venue (ydrml_venue a)),
      (''market'', JStr (addr (ydrml_market a))),
      (''kind'', JStr (remove_liquidity_kind_tag (ydrml_kind a)))]
    @ opt_fld ''externalToken'' (map_option (\<lambda>token. lower_token_ref token) (ydrml_external_token a))
    @ [(''netLpIn'', JStr (u256_hex (ydrml_net_lp_in a))),
      (''minTokenOut'', JStr (u256_hex (ydrml_min_token_out a)))]
    @ opt_fld ''minTokenOutNano'' (map_option (\<lambda>nano. num_i nano) (Option.bind (ydrml_external_token a) (\<lambda>t. amount_nano C t (ydrml_min_token_out a))))
    @ [(''minPtOut'', JStr (u256_hex (ydrml_min_pt_out a))),
      (''minSyOut'', JStr (u256_hex (ydrml_min_sy_out a))),
      (''recipient'', JStr (addr (ydrml_recipient a))),
      (''sy'', JStr (addr (lf_value (ydmtl_sy (ydrml_live_inputs a))))),
      (''pt'', JStr (addr (lf_value (ydmtl_pt (ydrml_live_inputs a))))),
      (''yt'', JStr (addr (lf_value (ydmtl_yt (ydrml_live_inputs a))))),
      (''maturity'', JStr (u256_hex (lf_value (ydmtl_maturity (ydrml_live_inputs a)))))])))"

definition lower_yield_redeem_py :: "redeem_py_action \<Rightarrow> lower_ctx \<Rightarrow> lower_error + lowered_action" where
  "lower_yield_redeem_py a C =
     Inr (lowered C ''Yield::Action::\"RedeemPy\"'' (JObj ([(''meta'', ctx_meta C),
      (''venue'', lower_yield_venue (ydrp_venue a)),
      (''yt'', JStr (addr (ydrp_yt a)))]
    @ opt_fld ''externalToken'' (map_option (\<lambda>token. lower_token_ref token) (ydrp_external_token a))
    @ [(''netPyIn'', JStr (u256_hex (ydrp_net_py_in a))),
      (''minOutput'', JStr (u256_hex (ydrp_min_output a)))]
    @ opt_fld ''minOutputNano'' (map_option (\<lambda>nano. num_i nano) (Option.bind (ydrp_external_token a) (\<lambda>t. amount_nano C t (ydrp_min_output a))))
    @ [(''recipient'', JStr (addr (ydrp_recipient a)))])))"

definition lower_yield_redeem_sy :: "redeem_sy_action \<Rightarrow> lower_ctx \<Rightarrow> lower_error + lowered_action" where
  "lower_yield_redeem_sy a C =
     Inr (lowered C ''Yield::Action::\"RedeemSy\"'' (JObj ([(''meta'', ctx_meta C),
      (''venue'', lower_yield_venue (ydrs_venue a)),
      (''sy'', JStr (addr (ydrs_sy a))),
      (''externalToken'', lower_token_ref (ydrs_external_token a)),
      (''netSyIn'', JStr (u256_hex (ydrs_net_sy_in a))),
      (''minTokenOut'', JStr (u256_hex (ydrs_min_token_out a)))]
    @ opt_fld ''minTokenOutNano'' (map_option (\<lambda>nano. num_i nano) (amount_nano C (ydrs_external_token a) (ydrs_min_token_out a)))
    @ [(''recipient'', JStr (addr (ydrs_recipient a)))])))"

definition lower_yield_sign_limit_order :: "sign_limit_order_action \<Rightarrow> lower_ctx \<Rightarrow> lower_error + lowered_action" where
  "lower_yield_sign_limit_order a C =
     Inr (lowered C ''Yield::Action::\"SignLimitOrder\"'' (JObj ([(''meta'', ctx_meta C),
      (''venue'', lower_yield_venue (ydslo_venue a)),
      (''orderType'', JStr (limit_order_type_tag (ydslo_order_type a))),
      (''token'', lower_token_ref (ydslo_token a)),
      (''yt'', JStr (addr (ydslo_yt a))),
      (''maker'', JStr (addr (ydslo_maker a))),
      (''receiver'', JStr (addr (ydslo_receiver a))),
      (''makingAmount'', JStr (u256_hex (ydslo_making_amount a)))]
    @ opt_fld ''makingAmountNano'' (map_option (\<lambda>nano. num_i nano) (case ydslo_order_type a of
        OrderSyForPt \<Rightarrow> amount_nano C (ydslo_token a) (ydslo_making_amount a)
      | OrderSyForYt \<Rightarrow> amount_nano C (ydslo_token a) (ydslo_making_amount a)
      | OrderPtForSy \<Rightarrow> Some (amount_nano_native18 C (ydslo_making_amount a))
      | OrderYtForSy \<Rightarrow> Some (amount_nano_native18 C (ydslo_making_amount a))))
    @ [(''expiry'', JStr (u256_hex (ydslo_expiry a)))])))"

definition lower_yield :: "yield_action \<Rightarrow> lower_ctx \<Rightarrow> lower_error + lowered_action" where
  "lower_yield a C =
     (case a of
        YieldPtSwap a \<Rightarrow> lower_yield_pt_swap a C
      | YieldYtSwap a \<Rightarrow> lower_yield_yt_swap a C
      | YieldAddMarketLiquidity a \<Rightarrow> lower_yield_add_market_liquidity a C
      | YieldRemoveMarketLiquidity a \<Rightarrow> lower_yield_remove_market_liquidity a C
      | YieldMintPy a \<Rightarrow> lower_yield_mint_py a C
      | YieldRedeemPy a \<Rightarrow> lower_yield_redeem_py a C
      | YieldMintSy a \<Rightarrow> lower_yield_mint_sy a C
      | YieldRedeemSy a \<Rightarrow> lower_yield_redeem_sy a C
      | YieldClaimYield a \<Rightarrow> lower_yield_claim_yield a C
      | YieldSignLimitOrder a \<Rightarrow> lower_yield_sign_limit_order a C
      | YieldCancelLimitOrder a \<Rightarrow> lower_yield_cancel_limit_order a C)"

lemmas yield_lowerings =
  lower_yield_add_market_liquidity_def lower_yield_cancel_limit_order_def
  lower_yield_claim_yield_def lower_yield_mint_py_def lower_yield_mint_sy_def
  lower_yield_pt_swap_def lower_yield_yt_swap_def lower_yield_remove_market_liquidity_def
  lower_yield_redeem_py_def lower_yield_redeem_sy_def lower_yield_sign_limit_order_def
  lower_yield_def

interpretation low_yield: lowering lower_yield
  by unfold_locales (auto simp: yield_lowerings split: yield_action.split option.split)

end
