(* ===== verification/Lowering.thy ===== *)
theory Lowering
  imports LowerTokens LowerCredit LowerDistribution LowerStaking LowerServices
begin

text \<open>
  \<^verbatim>\<open>lowering_v2/dispatch.rs\<close>, \<^verbatim>\<open>lowering_v2/multicall.rs\<close> and \<^verbatim>\<open>lowering_v2/unknown.rs\<close>: the dispatcher over
  all domains and the two bodies that are no domain. A multicall is lowered to a flat summary of its direct
  children.
\<close>

definition lower_child_summary :: "action_body \<Rightarrow> json" where
  "lower_child_summary child =
     (let view = body_view child
      in JObj [(''domain'', JStr (vw_domain view)),
           (''action'', JStr (case vw_action_tag view of Some t \<Rightarrow> t | None \<Rightarrow> vw_domain view))])"

definition lower_multicall :: "action_body \<Rightarrow> lower_ctx \<Rightarrow> lower_error + lowered_action" where
  "lower_multicall b C =
     (case b of
        Multicall actions \<Rightarrow>
          Inr (lowered C ''Core::Action::\"Multicall\"''
            (JObj [(''meta'', ctx_meta C), (''childCount'', num_n (length actions)),
               (''children'', JArr (map lower_child_summary actions))]))
      | _ \<Rightarrow> Inl (Unsupported ''multicall''))"

definition lower_unknown :: "action_body \<Rightarrow> lower_ctx \<Rightarrow> lower_error + lowered_action" where
  "lower_unknown b C =
     (case b of
        UnknownCall target chain calldata value' \<Rightarrow>
          Inr (lowered C ''Core::Action::\"Unknown\"''
            (JObj [(''meta'', ctx_meta C), (''target'', JStr (addr target)), (''chain'', JStr (as_str chain)),
               (''calldata'', JStr calldata), (''value'', JStr (u256_hex value'))]))
      | _ \<Rightarrow> Inl (Unsupported ''unknown''))"

fun lower_body :: "action_body \<Rightarrow> lower_ctx \<Rightarrow> lower_error + lowered_action" where
  "lower_body (BodyToken a) C = lower_token a C"
| "lower_body (BodyAmm a) C = lower_amm a C"
| "lower_body (BodyLending a) C = lower_lending a C"
| "lower_body (BodyAirdrop a) C = lower_airdrop a C"
| "lower_body (BodyLaunchpad a) C = lower_launchpad a C"
| "lower_body (BodyPerp a) C = lower_perp a C"
| "lower_body (BodyLiquidStaking a) C = lower_liquid_staking a C"
| "lower_body (BodyPermission a) C = lower_permission a C"
| "lower_body (BodyYield a) C = lower_yield a C"
| "lower_body (BodyRestaking a) C = lower_restaking a C"
| "lower_body (BodyStaking a) C = lower_staking a C"
| "lower_body (BodyGovernance a) C = lower_governance a C"
| "lower_body (BodyHyperliquidCore a) C = lower_hyperliquid_core a C"
| "lower_body (BodyBridge a) C = lower_bridge a C"
| "lower_body (BodyMarketplace a) C = lower_marketplace a C"
| "lower_body (Multicall actions) C = lower_multicall (Multicall actions) C"
| "lower_body (UnknownCall target chain calldata v) C = lower_unknown (UnknownCall target chain calldata v) C"

text \<open>The serialisation parameters of a context, fixed for a whole run.\<close>

definition lower_action_enriched ::
  "lower_env \<Rightarrow> action_body \<Rightarrow> action_meta \<Rightarrow> tx_meta \<Rightarrow> token_decimals \<Rightarrow> account_leverage
     \<Rightarrow> order_enrichment \<Rightarrow> lower_error + lowered_action" where
  "lower_action_enriched V action' meta' tx decimals' leverage' enrichment =
     lower_body action'
       \<lparr>lc_meta = meta', lc_tx = tx, lc_decimals = decimals', lc_leverage = leverage',
        lc_enrichment = enrichment, lc_nonce_text = le_nonce_text V, lc_u256_of = le_u256_of V\<rparr>"

definition lower_action_with_decimals ::
  "lower_env \<Rightarrow> action_body \<Rightarrow> action_meta \<Rightarrow> tx_meta \<Rightarrow> token_decimals \<Rightarrow> lower_error + lowered_action" where
  "lower_action_with_decimals V action' meta' tx decimals' =
     lower_action_enriched V action' meta' tx decimals' Map.empty order_enrichment_default"

definition lower_action ::
  "lower_env \<Rightarrow> action_body \<Rightarrow> action_meta \<Rightarrow> tx_meta \<Rightarrow> lower_error + lowered_action" where
  "lower_action V action' meta' tx =
     lower_action_enriched V action' meta' tx Map.empty Map.empty order_enrichment_default"

section \<open>Every action is lowered\<close>

interpretation low_body: lowering lower_body
proof
  fix b C
  show "\<exists>uid kvs. lower_body b C = Inr (lowered C uid (JObj kvs)) \<and> clean_keys kvs
          \<and> map_of kvs ''meta'' = Some (ctx_meta C)"
    by (cases b)
      (simp_all only: lower_body.simps low_token.lowers low_amm.lowers low_lending.lowers low_airdrop.lowers
        low_launchpad.lowers low_perp.lowers low_liquid_staking.lowers low_permission.lowers low_yield.lowers
        low_restaking.lowers low_staking.lowers low_governance.lowers low_hyperliquid_core.lowers
        low_bridge.lowers low_marketplace.lowers, simp_all add: lower_multicall_def lower_unknown_def)
qed

lemma lower_action_enriched_total: "\<exists>la. lower_action_enriched V b m tx D L O' = Inr la"
  unfolding lower_action_enriched_def by (rule low_body.total)

section \<open>Nano amounts\<close>

text \<open>A nano amount is the exact floor of the amount in units of one billionth, clamped to the signed
  64-bit range.\<close>

lemma unat_pow_ten: "e \<le> 77 \<Longrightarrow> unat (10 ^ e :: u256) = 10 ^ e"
proof -
  assume "e \<le> 77"
  then have "(10 :: nat) ^ e \<le> 10 ^ 77" by (intro power_increasing) auto
  also have "\<dots> < 2 ^ 256" by simp
  finally have "unat (of_nat (10 ^ e) :: u256) = 10 ^ e" by (simp only: unat_of_nat) simp
  then show ?thesis by simp
qed

text \<open>The unclamped amount: scaled down by whole-word division, or up with saturation.\<close>

definition nano_units :: "u256 \<Rightarrow> 8 word \<Rightarrow> u256" where
  "nano_units raw d =
     (if nano_scale \<le> unat d
      then (if 77 < unat d - nano_scale then 0 else raw div 10 ^ (unat d - nano_scale))
      else saturating_mul raw (10 ^ (nano_scale - unat d)))"

lemma nano_units_down:
  assumes "9 \<le> unat d"
  shows "unat (nano_units raw d) = unat raw * 10 ^ 9 div 10 ^ unat d"
proof -
  define e where "e = unat d - 9"
  have d: "unat d = 9 + e" using assms by (simp add: e_def)
  have "unat (nano_units raw d) = unat raw div 10 ^ e"
  proof (cases "77 < e")
    case True
    have "unat raw < 2 ^ 256" using unsigned_less [of raw] by simp
    also have "(2 :: nat) ^ 256 < 10 ^ 78" by simp
    also have "(10 :: nat) ^ 78 \<le> 10 ^ e" using True by (intro power_increasing) auto
    finally show ?thesis using True assms by (simp add: nano_units_def e_def nano_scale_def)
  next
    case False
    then show ?thesis using assms by (simp add: nano_units_def e_def nano_scale_def unat_div unat_pow_ten)
  qed
  then show ?thesis by (simp add: d power_add div_mult2_eq)
qed

lemma nano_units_up:
  assumes "unat d < 9"
  shows "min (unat (nano_units raw d)) (2 ^ 63 - 1) = min (unat raw * 10 ^ 9 div 10 ^ unat d) (2 ^ 63 - 1)"
proof -
  have pow: "unat (10 ^ (9 - unat d) :: u256) = 10 ^ (9 - unat d)" by (rule unat_pow_ten) simp
  have "(10 :: nat) ^ 9 = 10 ^ (9 - unat d) * 10 ^ unat d" using assms by (simp flip: power_add)
  then have shift: "unat raw * 10 ^ 9 div 10 ^ unat d = unat raw * 10 ^ (9 - unat d)"
    by (simp only: mult.assoc [symmetric]) simp
  have n: "nano_units raw d = saturating_mul raw (10 ^ (9 - unat d))"
    using assms by (simp add: nano_units_def nano_scale_def)
  show ?thesis
  proof (cases "unat raw * 10 ^ (9 - unat d) < 2 ^ 256")
    case True
    then have "unat (nano_units raw d) = unat raw * 10 ^ (9 - unat d)"
      by (simp add: n saturating_mul_def pow unat_word_ariths)
    then show ?thesis by (simp only: shift)
  next
    case False
    then have "nano_units raw d = - 1" by (simp add: n saturating_mul_def pow)
    then have "unat (nano_units raw d) = 2 ^ 256 - 1" by (simp only: unsigned_minus_1_eq_mask mask_eq_exp_minus_1) simp
    then show ?thesis unfolding shift using False by (simp add: min_def)
  qed
qed

lemma nano_exact:
  "nano_from_decimals raw d = int (min (unat raw * 10 ^ 9 div 10 ^ unat d) (2 ^ 63 - 1))"
proof -
  have clamp: "(let as_u64 = (if k < 2 ^ 64 then int k else 2 ^ 64 - 1) in if as_u64 \<le> i64_max then as_u64 else i64_max)
      = int (min k (2 ^ 63 - 1))" for k :: nat
    by (simp add: i64_max_def min_def)
  have "nano_from_decimals raw d = int (min (unat (nano_units raw d)) (2 ^ 63 - 1))"
    unfolding clamp [symmetric] nano_from_decimals_def nano_units_def Let_def by (rule refl)
  moreover have "min (unat (nano_units raw d)) (2 ^ 63 - 1) = min (unat raw * 10 ^ 9 div 10 ^ unat d) (2 ^ 63 - 1)"
    using nano_units_down [of d raw] nano_units_up [of d raw] by (cases "9 \<le> unat d") simp_all
  ultimately show ?thesis by simp
qed

end
