(* ===== verification/PolicySchema.thy ===== *)
theory PolicySchema
  imports Lowering "HOL-Library.Char_ord" "HOL-Library.List_Lexorder"
begin

text \<open>
  \<^verbatim>\<open>policy-engine/src/schema/per_policy.rs\<close> and the namespace merger of \<^verbatim>\<open>schema/mod.rs\<close>: the Cedar schema
  that is put together for one policy bundle, the linter of custom fields, and the scanners both use.

  A text is the list of its UTF-8 bytes. A shipped schema file (an \<open>include_str!\<close> constant) is named by
  the constant; the text behind the name is a parameter, the function \<open>T\<close>. Two rows of the resolver table
  have the same data pointer when they name the same constant. \<open>str::trim\<close> removes ASCII white space.
  The scanners are loops on the remaining suffix of the text, each with its termination proof; the depth
  counter of the brace matcher (an \<open>i32\<close>, at least 1 until the matching brace) is a natural number.
\<close>

section \<open>Text operations\<close>

abbreviation newline :: string where
  "newline \<equiv> [CHR 0x0A]"

abbreviation ch_newline :: char where
  "ch_newline \<equiv> CHR 0x0A"

text \<open>\<open>str::split_once\<close> at the first occurrence of a pattern, which also is \<open>str::find\<close> and
  \<open>str::contains\<close>.\<close>

fun cut :: "string \<Rightarrow> string \<Rightarrow> (string \<times> string) option" where
  "cut pat [] = (if pat = [] then Some ([], []) else None)"
| "cut pat (c # cs) =
     (if starts_with (c # cs) pat then Some ([], drop (length pat) (c # cs))
      else map_option (\<lambda>(before, after). (c # before, after)) (cut pat cs))"

definition text_contains :: "string \<Rightarrow> string \<Rightarrow> bool" where
  "text_contains s pat = (cut pat s \<noteq> None)"

text \<open>\<open>str::replace\<close> of a non-empty pattern: every occurrence from the left, none inside a replacement.\<close>

function text_replace :: "string \<Rightarrow> string \<Rightarrow> string \<Rightarrow> string" where
  "text_replace pat rep [] = []"
| "text_replace pat rep (c # cs) =
     (if pat \<noteq> [] \<and> starts_with (c # cs) pat then rep @ text_replace pat rep (drop (length pat) (c # cs))
      else c # text_replace pat rep cs)"
  by pat_completeness auto

termination
  by (relation "measure (\<lambda>(pat, rep, s). length s)") auto

text \<open>\<open>str::lines\<close>: no line after a final line break, no carriage return at the end of a line.\<close>

definition strip_cr :: "string \<Rightarrow> string" where
  "strip_cr l = (if l \<noteq> [] \<and> last l = CHR 0x0D then butlast l else l)"

definition text_lines :: "string \<Rightarrow> string list" where
  "text_lines s =
     (let parts = split_on ch_newline s
      in map strip_cr (if last parts = [] then butlast parts else parts))"

definition ascii_alnum :: "char \<Rightarrow> bool" where
  "ascii_alnum c = (let n = of_char c :: nat
     in (48 \<le> n \<and> n \<le> 57) \<or> (65 \<le> n \<and> n \<le> 90) \<or> (97 \<le> n \<and> n \<le> 122))"

definition ident_char :: "char \<Rightarrow> bool" where
  "ident_char c = (ascii_alnum c \<or> c = CHR ''_'')"

definition ascii_whitespace :: "char \<Rightarrow> bool" where
  "ascii_whitespace c = (let n = of_char c :: nat in n = 32 \<or> n = 9 \<or> n = 10 \<or> n = 12 \<or> n = 13)"

text \<open>\<open>String::push(byte as char)\<close>: the byte is read as a Latin-1 character and written in UTF-8.\<close>

definition push_byte :: "char \<Rightarrow> string" where
  "push_byte b = (let n = of_char b :: nat
     in if n < 128 then [b] else [char_of (192 + n div 64), char_of (128 + n mod 64)])"

section \<open>Merging namespace blocks\<close>

text \<open>The loop of \<open>find_matching_close_brace\<close>: the index \<open>i\<close>, the remaining bytes, the depth.\<close>

definition skip_line :: "string \<Rightarrow> string \<times> string" where
  "skip_line s = (takeWhile (\<lambda>c. c \<noteq> ch_newline) s, dropWhile (\<lambda>c. c \<noteq> ch_newline) s)"

lemma skip_comment_shorter:
  "starts_with (c # cs) ''//'' \<Longrightarrow> (comment, rest) = skip_line (c # cs) \<Longrightarrow> length rest \<le> length cs"
  by (auto simp: starts_with_def skip_line_def length_dropWhile_le)

function close_brace_loop :: "nat \<Rightarrow> nat \<Rightarrow> string \<Rightarrow> nat option" where
  "close_brace_loop i depth [] = None"
| "close_brace_loop i depth (c # cs) =
     (if starts_with (c # cs) ''//'' then
        (case skip_line (c # cs) of (comment, rest) \<Rightarrow> close_brace_loop (i + length comment) depth rest)
      else if c = CHR ''{'' then close_brace_loop (Suc i) (Suc depth) cs
      else if c = CHR ''}'' then
        (if depth = 1 then Some i else close_brace_loop (Suc i) (depth - 1) cs)
      else close_brace_loop (Suc i) depth cs)"
  by pat_completeness auto

termination
  by (relation "measure (\<lambda>(i, depth, s). length s)") (auto dest: skip_comment_shorter simp: less_Suc_eq_le)

definition find_matching_close_brace :: "string \<Rightarrow> nat option" where
  "find_matching_close_brace s = close_brace_loop 0 1 s"

text \<open>The header of a namespace block at the start of a text, when there is one: the name and the text
  after the opening brace.\<close>

definition namespace_header :: "string \<Rightarrow> (string \<times> string) option" where
  "namespace_header s =
     (let after_kw = drop (length ''namespace'') s in
      if \<not> starts_with s ''namespace'' then None
      else if after_kw \<noteq> [] \<and> \<not> ascii_whitespace (hd after_kw) then None
      else let p = dropWhile ascii_whitespace after_kw;
               is_name = (\<lambda>c. ident_char c \<or> c = CHR '':'');
               q = dropWhile ascii_whitespace (dropWhile is_name p)
           in if q = [] \<or> hd q \<noteq> CHR ''{'' then None else Some (takeWhile is_name p, tl q))"

lemma namespace_header_shorter: "namespace_header s = Some (name, body) \<Longrightarrow> length body < length s"
proof -
  assume h: "namespace_header s = Some (name, body)"
  define q where "q = dropWhile ascii_whitespace
    (dropWhile (\<lambda>c. ident_char c \<or> c = CHR '':'') (dropWhile ascii_whitespace (drop (length ''namespace'') s)))"
  have q: "q \<noteq> []" "body = tl q" using h by (auto simp: namespace_header_def q_def Let_def simp del: list.size split: if_splits)
  have "length q \<le> length s"
    unfolding q_def by (intro order_trans [OF length_dropWhile_le]) simp
  then show ?thesis using q by (cases q) auto
qed

function split_loop ::
  "string \<Rightarrow> (string \<times> string) list \<Rightarrow> string \<Rightarrow> string \<times> (string \<times> string) list" where
  "split_loop top_level blocks [] = (top_level, blocks)"
| "split_loop top_level blocks (c # cs) =
     (if starts_with (c # cs) ''//'' then
        (case skip_line (c # cs) of (comment, rest) \<Rightarrow>
           split_loop (top_level @ comment @ take 1 rest) blocks (drop 1 rest))
      else case namespace_header (c # cs) of
             None \<Rightarrow> split_loop (top_level @ push_byte c) blocks cs
           | Some (name, body) \<Rightarrow>
               (case find_matching_close_brace body of
                  None \<Rightarrow> (top_level, blocks)
                | Some rel \<Rightarrow> split_loop top_level (blocks @ [(name, take rel body)]) (drop (Suc rel) body)))"
  by pat_completeness auto

termination
  by (relation "measure (\<lambda>(top_level, blocks, s). length s)")
    (auto dest!: skip_comment_shorter namespace_header_shorter simp: less_Suc_eq_le)

definition split_top_level_and_namespaces :: "string \<Rightarrow> string \<times> (string \<times> string) list" where
  "split_top_level_and_namespaces s = split_loop [] [] s"

text \<open>\<open>bodies\<close> and \<open>order\<close> together: the namespaces in the order first seen, each with its body so far.\<close>

fun add_block :: "(string \<times> string) list \<Rightarrow> string \<times> string \<Rightarrow> (string \<times> string) list" where
  "add_block [] (name, body) = [(name, body)]"
| "add_block ((n, b) # bodies) (name, body) =
     (if n = name then (n, b @ body) # bodies else (n, b) # add_block bodies (name, body))"

definition merge_step :: "string \<times> (string \<times> string) list \<Rightarrow> string \<Rightarrow> string \<times> (string \<times> string) list" where
  "merge_step st text =
     (case split_top_level_and_namespaces text of (tops, blocks) \<Rightarrow>
        (if trim_ws tops = [] then fst st else fst st @ tops @ newline, foldl add_block (snd st) blocks))"

definition namespace_text :: "string \<times> string \<Rightarrow> string" where
  "namespace_text nb = ''namespace '' @ fst nb @ '' {'' @ newline @ snd nb @ newline @ ''}'' @ newline @ newline"

definition merge_namespace_blocks :: "string list \<Rightarrow> string" where
  "merge_namespace_blocks inputs =
     (case foldl merge_step ([], []) inputs of (top_level, bodies) \<Rightarrow>
        top_level @ concat (map namespace_text bodies))"

section \<open>The resolver table\<close>

definition action_entry_of :: "string \<Rightarrow> string option \<Rightarrow> string \<Rightarrow> string \<Rightarrow> action_entry" where
  "action_entry_of d t s p = \<lparr>ent_domain = d, ent_action_tag = t, ent_schema = s, pascal_stub = p\<rparr>"

definition rows_multicall :: "action_entry list" where
  "rows_multicall =
    [action_entry_of ''multicall'' None ''CORE_MULTICALL_SCHEMA'' ''Multicall'']"

definition rows_unknown :: "action_entry list" where
  "rows_unknown =
    [action_entry_of ''unknown'' None ''CORE_UNKNOWN_SCHEMA'' ''Unknown'']"

definition rows_bridge :: "action_entry list" where
  "rows_bridge =
    [action_entry_of ''bridge'' (Some ''send'') ''BRIDGE_SEND_SCHEMA'' ''Send'']"

definition rows_airdrop :: "action_entry list" where
  "rows_airdrop =
    [action_entry_of ''airdrop'' (Some ''claim'') ''AIRDROP_CLAIM_SCHEMA'' ''Claim'',
     action_entry_of ''airdrop'' (Some ''delegate'') ''AIRDROP_DELEGATE_SCHEMA'' ''Delegate'']"

definition rows_governance :: "action_entry list" where
  "rows_governance =
    [action_entry_of ''governance'' (Some ''delegate'') ''GOVERNANCE_DELEGATE_SCHEMA'' ''Delegate'',
     action_entry_of ''governance'' (Some ''vote'') ''GOVERNANCE_VOTE_SCHEMA'' ''Vote'',
     action_entry_of ''governance'' (Some ''propose'') ''GOVERNANCE_PROPOSE_SCHEMA'' ''Propose'',
     action_entry_of ''governance'' (Some ''cancel'') ''GOVERNANCE_CANCEL_SCHEMA'' ''Cancel'',
     action_entry_of ''governance'' (Some ''activate_voting'') ''GOVERNANCE_ACTIVATE_VOTING_SCHEMA'' ''ActivateVoting'',
     action_entry_of ''governance'' (Some ''queue'') ''GOVERNANCE_QUEUE_SCHEMA'' ''Queue'',
     action_entry_of ''governance'' (Some ''execute'') ''GOVERNANCE_EXECUTE_SCHEMA'' ''Execute'',
     action_entry_of ''governance'' (Some ''start_vote'') ''GOVERNANCE_START_VOTE_SCHEMA'' ''StartVote'',
     action_entry_of ''governance'' (Some ''close_vote'') ''GOVERNANCE_CLOSE_VOTE_SCHEMA'' ''CloseVote'',
     action_entry_of ''governance'' (Some ''redeem_cancellation_fee'') ''GOVERNANCE_REDEEM_CANCELLATION_FEE_SCHEMA'' ''RedeemCancellationFee'',
     action_entry_of ''governance'' (Some ''update_representative'') ''GOVERNANCE_UPDATE_REPRESENTATIVE_SCHEMA'' ''UpdateRepresentative'']"

definition rows_amm :: "action_entry list" where
  "rows_amm =
    [action_entry_of ''amm'' (Some ''swap'') ''AMM_SWAP_SCHEMA'' ''Swap'',
     action_entry_of ''amm'' (Some ''add_liquidity'') ''AMM_ADD_LIQUIDITY_SCHEMA'' ''AddLiquidity'',
     action_entry_of ''amm'' (Some ''remove_liquidity'') ''AMM_REMOVE_LIQUIDITY_SCHEMA'' ''RemoveLiquidity'',
     action_entry_of ''amm'' (Some ''collect_fees'') ''AMM_COLLECT_FEES_SCHEMA'' ''CollectFees'',
     action_entry_of ''amm'' (Some ''gsm_swap'') ''AMM_GSM_SWAP_SCHEMA'' ''GsmSwap'',
     action_entry_of ''amm'' (Some ''sign_intent_order'') ''AMM_SIGN_INTENT_ORDER_SCHEMA'' ''SignIntentOrder'',
     action_entry_of ''amm'' (Some ''settle_intent_order'') ''AMM_SETTLE_INTENT_ORDER_SCHEMA'' ''SettleIntentOrder'',
     action_entry_of ''amm'' (Some ''cancel_intent_order'') ''AMM_CANCEL_INTENT_ORDER_SCHEMA'' ''CancelIntentOrder'',
     action_entry_of ''amm'' (Some ''pre_sign_intent_order'') ''AMM_PRE_SIGN_INTENT_ORDER_SCHEMA'' ''PreSignIntentOrder'']"

definition rows_lending :: "action_entry list" where
  "rows_lending =
    [action_entry_of ''lending'' (Some ''supply'') ''LENDING_SUPPLY_SCHEMA'' ''Supply'',
     action_entry_of ''lending'' (Some ''withdraw'') ''LENDING_WITHDRAW_SCHEMA'' ''Withdraw'',
     action_entry_of ''lending'' (Some ''borrow'') ''LENDING_BORROW_SCHEMA'' ''Borrow'',
     action_entry_of ''lending'' (Some ''buy_collateral'') ''LENDING_BUY_COLLATERAL_SCHEMA'' ''BuyCollateral'',
     action_entry_of ''lending'' (Some ''repay'') ''LENDING_REPAY_SCHEMA'' ''Repay'',
     action_entry_of ''lending'' (Some ''swap_rate_mode'') ''LENDING_SWAP_RATE_MODE_SCHEMA'' ''SwapRateMode'',
     action_entry_of ''lending'' (Some ''set_e_mode'') ''LENDING_SET_EMODE_SCHEMA'' ''SetEMode'',
     action_entry_of ''lending'' (Some ''enable_collateral'') ''LENDING_ENABLE_COLLATERAL_SCHEMA'' ''EnableCollateral'',
     action_entry_of ''lending'' (Some ''disable_collateral'') ''LENDING_DISABLE_COLLATERAL_SCHEMA'' ''DisableCollateral'',
     action_entry_of ''lending'' (Some ''delegate_borrow'') ''LENDING_DELEGATE_BORROW_SCHEMA'' ''DelegateBorrow'',
     action_entry_of ''lending'' (Some ''liquidate'') ''LENDING_LIQUIDATE_SCHEMA'' ''Liquidate'',
     action_entry_of ''lending'' (Some ''set_authorization'') ''LENDING_SET_AUTHORIZATION_SCHEMA'' ''SetAuthorization'',
     action_entry_of ''lending'' (Some ''periphery_operation'') ''LENDING_PERIPHERY_OPERATION_SCHEMA'' ''PeripheryOperation'']"

definition rows_liquid_staking :: "action_entry list" where
  "rows_liquid_staking =
    [action_entry_of ''liquid_staking'' (Some ''claim_withdrawal'') ''LIQUID_STAKING_CLAIM_WITHDRAWAL_SCHEMA'' ''ClaimWithdrawal'',
     action_entry_of ''liquid_staking'' (Some ''request_withdrawal'') ''LIQUID_STAKING_REQUEST_WITHDRAWAL_SCHEMA'' ''RequestWithdrawal'',
     action_entry_of ''liquid_staking'' (Some ''stake'') ''LIQUID_STAKING_STAKE_SCHEMA'' ''Stake'',
     action_entry_of ''liquid_staking'' (Some ''transfer_shares'') ''LIQUID_STAKING_TRANSFER_SHARES_SCHEMA'' ''TransferShares'',
     action_entry_of ''liquid_staking'' (Some ''unwrap'') ''LIQUID_STAKING_UNWRAP_SCHEMA'' ''Unwrap'',
     action_entry_of ''liquid_staking'' (Some ''wrap'') ''LIQUID_STAKING_WRAP_SCHEMA'' ''Wrap'']"

definition rows_yield :: "action_entry list" where
  "rows_yield =
    [action_entry_of ''yield'' (Some ''pt_swap'') ''YIELD_PT_SWAP_SCHEMA'' ''PtSwap'',
     action_entry_of ''yield'' (Some ''yt_swap'') ''YIELD_YT_SWAP_SCHEMA'' ''YtSwap'',
     action_entry_of ''yield'' (Some ''add_market_liquidity'') ''YIELD_ADD_MARKET_LIQUIDITY_SCHEMA'' ''AddMarketLiquidity'',
     action_entry_of ''yield'' (Some ''remove_market_liquidity'') ''YIELD_REMOVE_MARKET_LIQUIDITY_SCHEMA'' ''RemoveMarketLiquidity'',
     action_entry_of ''yield'' (Some ''mint_py'') ''YIELD_MINT_PY_SCHEMA'' ''MintPy'',
     action_entry_of ''yield'' (Some ''redeem_py'') ''YIELD_REDEEM_PY_SCHEMA'' ''RedeemPy'',
     action_entry_of ''yield'' (Some ''mint_sy'') ''YIELD_MINT_SY_SCHEMA'' ''MintSy'',
     action_entry_of ''yield'' (Some ''redeem_sy'') ''YIELD_REDEEM_SY_SCHEMA'' ''RedeemSy'',
     action_entry_of ''yield'' (Some ''claim_yield'') ''YIELD_CLAIM_YIELD_SCHEMA'' ''ClaimYield'',
     action_entry_of ''yield'' (Some ''sign_limit_order'') ''YIELD_SIGN_LIMIT_ORDER_SCHEMA'' ''SignLimitOrder'',
     action_entry_of ''yield'' (Some ''cancel_limit_order'') ''YIELD_CANCEL_LIMIT_ORDER_SCHEMA'' ''CancelLimitOrder'']"

definition rows_launchpad :: "action_entry list" where
  "rows_launchpad =
    [action_entry_of ''launchpad'' (Some ''commit'') ''LAUNCHPAD_COMMIT_SCHEMA'' ''Commit'',
     action_entry_of ''launchpad'' (Some ''claim_allocation'') ''LAUNCHPAD_CLAIM_ALLOCATION_SCHEMA'' ''ClaimAllocation'',
     action_entry_of ''launchpad'' (Some ''claim_vested'') ''LAUNCHPAD_CLAIM_VESTED_SCHEMA'' ''ClaimVested'',
     action_entry_of ''launchpad'' (Some ''refund'') ''LAUNCHPAD_REFUND_SCHEMA'' ''Refund'',
     action_entry_of ''launchpad'' (Some ''withdraw_commit'') ''LAUNCHPAD_WITHDRAW_COMMIT_SCHEMA'' ''WithdrawCommit'']"

definition rows_perp :: "action_entry list" where
  "rows_perp =
    [action_entry_of ''perp'' (Some ''open_position'') ''PERP_OPEN_POSITION_SCHEMA'' ''OpenPosition'',
     action_entry_of ''perp'' (Some ''close_position'') ''PERP_CLOSE_POSITION_SCHEMA'' ''ClosePosition'',
     action_entry_of ''perp'' (Some ''increase_position'') ''PERP_INCREASE_POSITION_SCHEMA'' ''IncreasePosition'',
     action_entry_of ''perp'' (Some ''decrease_position'') ''PERP_DECREASE_POSITION_SCHEMA'' ''DecreasePosition'',
     action_entry_of ''perp'' (Some ''adjust_margin'') ''PERP_ADJUST_MARGIN_SCHEMA'' ''AdjustMargin'',
     action_entry_of ''perp'' (Some ''change_leverage'') ''PERP_CHANGE_LEVERAGE_SCHEMA'' ''ChangeLeverage'',
     action_entry_of ''perp'' (Some ''change_margin_mode'') ''PERP_CHANGE_MARGIN_MODE_SCHEMA'' ''ChangeMarginMode'',
     action_entry_of ''perp'' (Some ''place_order'') ''PERP_PLACE_ORDER_SCHEMA'' ''PlaceOrder'',
     action_entry_of ''perp'' (Some ''cancel_order'') ''PERP_CANCEL_ORDER_SCHEMA'' ''CancelOrder'',
     action_entry_of ''perp'' (Some ''claim_funding'') ''PERP_CLAIM_FUNDING_SCHEMA'' ''ClaimFunding'']"

definition rows_permission :: "action_entry list" where
  "rows_permission =
    [action_entry_of ''permission'' (Some ''protocol_authorization'') ''PERMISSION_PROTOCOL_AUTHORIZATION_SCHEMA'' ''ProtocolAuthorization'']"

definition rows_restaking :: "action_entry list" where
  "rows_restaking =
    [action_entry_of ''restaking'' (Some ''complete_withdrawal'') ''RESTAKING_COMPLETE_WITHDRAWAL_SCHEMA'' ''CompleteWithdrawal'',
     action_entry_of ''restaking'' (Some ''delegate_to'') ''RESTAKING_DELEGATE_TO_SCHEMA'' ''DelegateTo'',
     action_entry_of ''restaking'' (Some ''deposit'') ''RESTAKING_DEPOSIT_SCHEMA'' ''Deposit'',
     action_entry_of ''restaking'' (Some ''queue_withdrawal'') ''RESTAKING_QUEUE_WITHDRAWAL_SCHEMA'' ''QueueWithdrawal'',
     action_entry_of ''restaking'' (Some ''redelegate'') ''RESTAKING_REDELEGATE_SCHEMA'' ''Redelegate'',
     action_entry_of ''restaking'' (Some ''register_operator'') ''RESTAKING_REGISTER_OPERATOR_SCHEMA'' ''RegisterOperator'',
     action_entry_of ''restaking'' (Some ''undelegate'') ''RESTAKING_UNDELEGATE_SCHEMA'' ''Undelegate'']"

definition rows_staking :: "action_entry list" where
  "rows_staking =
    [action_entry_of ''staking'' (Some ''claim_rewards'') ''STAKING_CLAIM_REWARDS_SCHEMA'' ''ClaimRewards'',
     action_entry_of ''staking'' (Some ''gauge_deposit'') ''STAKING_GAUGE_DEPOSIT_SCHEMA'' ''GaugeDeposit'',
     action_entry_of ''staking'' (Some ''gauge_withdraw'') ''STAKING_GAUGE_WITHDRAW_SCHEMA'' ''GaugeWithdraw'',
     action_entry_of ''staking'' (Some ''increase_lock_amount'') ''STAKING_INCREASE_LOCK_AMOUNT_SCHEMA'' ''IncreaseLockAmount'',
     action_entry_of ''staking'' (Some ''increase_lock_time'') ''STAKING_INCREASE_LOCK_TIME_SCHEMA'' ''IncreaseLockTime'',
     action_entry_of ''staking'' (Some ''lock'') ''STAKING_LOCK_SCHEMA'' ''Lock'',
     action_entry_of ''staking'' (Some ''unlock'') ''STAKING_UNLOCK_SCHEMA'' ''Unlock'',
     action_entry_of ''staking'' (Some ''vote_for_gauge'') ''STAKING_VOTE_FOR_GAUGE_SCHEMA'' ''VoteForGauge'',
     action_entry_of ''staking'' (Some ''stake'') ''STAKING_STAKE_SCHEMA'' ''Stake'',
     action_entry_of ''staking'' (Some ''cooldown'') ''STAKING_COOLDOWN_SCHEMA'' ''Cooldown'',
     action_entry_of ''staking'' (Some ''redeem'') ''STAKING_REDEEM_SCHEMA'' ''Redeem'']"

definition rows_marketplace :: "action_entry list" where
  "rows_marketplace =
    [action_entry_of ''marketplace'' (Some ''sign_order'') ''MARKETPLACE_SIGN_ORDER_SCHEMA'' ''SignOrder'',
     action_entry_of ''marketplace'' (Some ''fulfill_order'') ''MARKETPLACE_FULFILL_ORDER_SCHEMA'' ''FulfillOrder'',
     action_entry_of ''marketplace'' (Some ''cancel_order'') ''MARKETPLACE_CANCEL_ORDER_SCHEMA'' ''CancelOrder'']"

definition rows_token :: "action_entry list" where
  "rows_token =
    [action_entry_of ''token'' (Some ''erc20_approve'') ''TOKEN_ERC20_APPROVE_SCHEMA'' ''Erc20Approve'',
     action_entry_of ''token'' (Some ''erc20_permit'') ''TOKEN_ERC20_PERMIT_SCHEMA'' ''Erc20Permit'',
     action_entry_of ''token'' (Some ''permit2_approve'') ''TOKEN_PERMIT2_APPROVE_SCHEMA'' ''Permit2Approve'',
     action_entry_of ''token'' (Some ''permit2_sign_allowance'') ''TOKEN_PERMIT2_SIGN_ALLOWANCE_SCHEMA'' ''Permit2SignAllowance'',
     action_entry_of ''token'' (Some ''permit2_sign_transfer'') ''TOKEN_PERMIT2_SIGN_TRANSFER_SCHEMA'' ''Permit2SignTransfer'',
     action_entry_of ''token'' (Some ''permit2_transfer_from'') ''TOKEN_PERMIT2_TRANSFER_FROM_SCHEMA'' ''Permit2TransferFrom'',
     action_entry_of ''token'' (Some ''erc20_transfer'') ''TOKEN_ERC20_TRANSFER_SCHEMA'' ''Erc20Transfer'',
     action_entry_of ''token'' (Some ''nft_approve'') ''TOKEN_NFT_APPROVE_SCHEMA'' ''NftApprove'',
     action_entry_of ''token'' (Some ''nft_set_approval_for_all'') ''TOKEN_NFT_SET_APPROVAL_FOR_ALL_SCHEMA'' ''NftSetApprovalForAll'',
     action_entry_of ''token'' (Some ''nft_transfer'') ''TOKEN_NFT_TRANSFER_SCHEMA'' ''NftTransfer'',
     action_entry_of ''token'' (Some ''revoke_approval'') ''TOKEN_REVOKE_APPROVAL_SCHEMA'' ''RevokeApproval'',
     action_entry_of ''token'' (Some ''unwrap_native'') ''TOKEN_UNWRAP_NATIVE_SCHEMA'' ''UnwrapNative'',
     action_entry_of ''token'' (Some ''wrap_native'') ''TOKEN_WRAP_NATIVE_SCHEMA'' ''WrapNative'']"

definition rows_hyperliquid_core :: "action_entry list" where
  "rows_hyperliquid_core =
    [action_entry_of ''hyperliquid_core'' (Some ''hl_withdraw'') ''HL_WITHDRAW_SCHEMA'' ''HlWithdraw'',
     action_entry_of ''hyperliquid_core'' (Some ''hl_usd_send'') ''TOKEN_ERC20_TRANSFER_SCHEMA'' ''Erc20Transfer'',
     action_entry_of ''hyperliquid_core'' (Some ''hl_unknown'') ''CORE_UNKNOWN_SCHEMA'' ''Unknown'',
     action_entry_of ''hyperliquid_core'' (Some ''hl_spot_send'') ''TOKEN_ERC20_TRANSFER_SCHEMA'' ''Erc20Transfer'',
     action_entry_of ''hyperliquid_core'' (Some ''hl_usd_class_transfer'') ''CORE_UNKNOWN_SCHEMA'' ''Unknown'',
     action_entry_of ''hyperliquid_core'' (Some ''hl_send_asset'') ''HL_SEND_ASSET_SCHEMA'' ''HlSendAsset'',
     action_entry_of ''hyperliquid_core'' (Some ''hl_send_to_evm_with_data'') ''CORE_UNKNOWN_SCHEMA'' ''Unknown'',
     action_entry_of ''hyperliquid_core'' (Some ''hl_c_deposit'') ''STAKING_STAKE_SCHEMA'' ''Stake'',
     action_entry_of ''hyperliquid_core'' (Some ''hl_c_withdraw'') ''STAKING_REDEEM_SCHEMA'' ''Redeem'',
     action_entry_of ''hyperliquid_core'' (Some ''hl_vault_transfer'') ''TOKEN_ERC20_TRANSFER_SCHEMA'' ''Erc20Transfer'',
     action_entry_of ''hyperliquid_core'' (Some ''hl_sub_account_transfer'') ''TOKEN_ERC20_TRANSFER_SCHEMA'' ''Erc20Transfer'',
     action_entry_of ''hyperliquid_core'' (Some ''hl_token_delegate'') ''HL_TOKEN_DELEGATE_SCHEMA'' ''HlTokenDelegate'']"

definition resolver_table :: "action_entry list" where
  "resolver_table =
     rows_multicall @ rows_unknown @ rows_bridge @ rows_airdrop @ rows_governance @ rows_amm @ rows_lending
     @ rows_liquid_staking @ rows_yield @ rows_launchpad @ rows_perp @ rows_permission @ rows_restaking
     @ rows_staking @ rows_marketplace @ rows_token @ rows_hyperliquid_core"

definition entry_view :: "action_entry \<Rightarrow> action_view" where
  "entry_view e = \<lparr>vw_domain = ent_domain e, vw_action_tag = ent_action_tag e, vw_venue_name = None\<rparr>"

definition matched_entries :: "trigger \<Rightarrow> action_entry list" where
  "matched_entries t =
     (let constraint = (\<lambda>f. case map_of (trg_where t) f of Some c \<Rightarrow> [(f, c)] | None \<Rightarrow> []);
          projected' = t\<lparr>trg_where := constraint ActionDomain @ constraint ActionTag\<rparr>;
          tx = \<lparr>txv_chain_id = [], txv_from = [], txv_to = []\<rparr>
      in filter (\<lambda>e. evaluate_trigger projected' (entry_view e) tx) resolver_table)"

section \<open>The shipped schema files\<close>

text \<open>The \<open>include_str!\<close> constants of \<^verbatim>\<open>schema/mod.rs\<close> that declare an action: the constant, and the
  namespace and the action that the file behind it declares.\<close>

definition files_core :: "(string \<times> string \<times> string) list" where
  "files_core =
    [(''CORE_MULTICALL_SCHEMA'', ''Core'', ''Multicall''),
     (''CORE_UNKNOWN_SCHEMA'', ''Core'', ''Unknown'')]"

definition files_airdrop :: "(string \<times> string \<times> string) list" where
  "files_airdrop =
    [(''AIRDROP_CLAIM_SCHEMA'', ''Airdrop'', ''Claim''),
     (''AIRDROP_DELEGATE_SCHEMA'', ''Airdrop'', ''Delegate'')]"

definition files_amm :: "(string \<times> string \<times> string) list" where
  "files_amm =
    [(''AMM_ADD_LIQUIDITY_SCHEMA'', ''Amm'', ''AddLiquidity''),
     (''AMM_CANCEL_INTENT_ORDER_SCHEMA'', ''Amm'', ''CancelIntentOrder''),
     (''AMM_COLLECT_FEES_SCHEMA'', ''Amm'', ''CollectFees''),
     (''AMM_GSM_SWAP_SCHEMA'', ''Amm'', ''GsmSwap''),
     (''AMM_PRE_SIGN_INTENT_ORDER_SCHEMA'', ''Amm'', ''PreSignIntentOrder''),
     (''AMM_REMOVE_LIQUIDITY_SCHEMA'', ''Amm'', ''RemoveLiquidity''),
     (''AMM_SETTLE_INTENT_ORDER_SCHEMA'', ''Amm'', ''SettleIntentOrder''),
     (''AMM_SIGN_INTENT_ORDER_SCHEMA'', ''Amm'', ''SignIntentOrder''),
     (''AMM_SWAP_SCHEMA'', ''Amm'', ''Swap'')]"

definition files_bridge :: "(string \<times> string \<times> string) list" where
  "files_bridge =
    [(''BRIDGE_SEND_SCHEMA'', ''Bridge'', ''Send'')]"

definition files_governance :: "(string \<times> string \<times> string) list" where
  "files_governance =
    [(''GOVERNANCE_ACTIVATE_VOTING_SCHEMA'', ''Governance'', ''ActivateVoting''),
     (''GOVERNANCE_CANCEL_SCHEMA'', ''Governance'', ''Cancel''),
     (''GOVERNANCE_CLOSE_VOTE_SCHEMA'', ''Governance'', ''CloseVote''),
     (''GOVERNANCE_DELEGATE_SCHEMA'', ''Governance'', ''Delegate''),
     (''GOVERNANCE_EXECUTE_SCHEMA'', ''Governance'', ''Execute''),
     (''GOVERNANCE_PROPOSE_SCHEMA'', ''Governance'', ''Propose''),
     (''GOVERNANCE_QUEUE_SCHEMA'', ''Governance'', ''Queue''),
     (''GOVERNANCE_REDEEM_CANCELLATION_FEE_SCHEMA'', ''Governance'', ''RedeemCancellationFee''),
     (''GOVERNANCE_START_VOTE_SCHEMA'', ''Governance'', ''StartVote''),
     (''GOVERNANCE_UPDATE_REPRESENTATIVE_SCHEMA'', ''Governance'', ''UpdateRepresentative''),
     (''GOVERNANCE_VOTE_SCHEMA'', ''Governance'', ''Vote'')]"

definition files_lending :: "(string \<times> string \<times> string) list" where
  "files_lending =
    [(''LENDING_BORROW_SCHEMA'', ''Lending'', ''Borrow''),
     (''LENDING_BUY_COLLATERAL_SCHEMA'', ''Lending'', ''BuyCollateral''),
     (''LENDING_DELEGATE_BORROW_SCHEMA'', ''Lending'', ''DelegateBorrow''),
     (''LENDING_DISABLE_COLLATERAL_SCHEMA'', ''Lending'', ''DisableCollateral''),
     (''LENDING_ENABLE_COLLATERAL_SCHEMA'', ''Lending'', ''EnableCollateral''),
     (''LENDING_LIQUIDATE_SCHEMA'', ''Lending'', ''Liquidate''),
     (''LENDING_PERIPHERY_OPERATION_SCHEMA'', ''Lending'', ''PeripheryOperation''),
     (''LENDING_REPAY_SCHEMA'', ''Lending'', ''Repay''),
     (''LENDING_SET_EMODE_SCHEMA'', ''Lending'', ''SetEMode''),
     (''LENDING_SUPPLY_SCHEMA'', ''Lending'', ''Supply''),
     (''LENDING_SWAP_RATE_MODE_SCHEMA'', ''Lending'', ''SwapRateMode''),
     (''LENDING_WITHDRAW_SCHEMA'', ''Lending'', ''Withdraw''),
     (''LENDING_SET_AUTHORIZATION_SCHEMA'', ''Lending'', ''SetAuthorization'')]"

definition files_liquid_staking :: "(string \<times> string \<times> string) list" where
  "files_liquid_staking =
    [(''LIQUID_STAKING_CLAIM_WITHDRAWAL_SCHEMA'', ''LiquidStaking'', ''ClaimWithdrawal''),
     (''LIQUID_STAKING_REQUEST_WITHDRAWAL_SCHEMA'', ''LiquidStaking'', ''RequestWithdrawal''),
     (''LIQUID_STAKING_STAKE_SCHEMA'', ''LiquidStaking'', ''Stake''),
     (''LIQUID_STAKING_TRANSFER_SHARES_SCHEMA'', ''LiquidStaking'', ''TransferShares''),
     (''LIQUID_STAKING_UNWRAP_SCHEMA'', ''LiquidStaking'', ''Unwrap''),
     (''LIQUID_STAKING_WRAP_SCHEMA'', ''LiquidStaking'', ''Wrap'')]"

definition files_yield :: "(string \<times> string \<times> string) list" where
  "files_yield =
    [(''YIELD_ADD_MARKET_LIQUIDITY_SCHEMA'', ''Yield'', ''AddMarketLiquidity''),
     (''YIELD_CANCEL_LIMIT_ORDER_SCHEMA'', ''Yield'', ''CancelLimitOrder''),
     (''YIELD_CLAIM_YIELD_SCHEMA'', ''Yield'', ''ClaimYield''),
     (''YIELD_MINT_PY_SCHEMA'', ''Yield'', ''MintPy''),
     (''YIELD_MINT_SY_SCHEMA'', ''Yield'', ''MintSy''),
     (''YIELD_PT_SWAP_SCHEMA'', ''Yield'', ''PtSwap''),
     (''YIELD_REDEEM_PY_SCHEMA'', ''Yield'', ''RedeemPy''),
     (''YIELD_REDEEM_SY_SCHEMA'', ''Yield'', ''RedeemSy''),
     (''YIELD_REMOVE_MARKET_LIQUIDITY_SCHEMA'', ''Yield'', ''RemoveMarketLiquidity''),
     (''YIELD_SIGN_LIMIT_ORDER_SCHEMA'', ''Yield'', ''SignLimitOrder''),
     (''YIELD_YT_SWAP_SCHEMA'', ''Yield'', ''YtSwap'')]"

definition files_staking :: "(string \<times> string \<times> string) list" where
  "files_staking =
    [(''STAKING_CLAIM_REWARDS_SCHEMA'', ''Staking'', ''ClaimRewards''),
     (''STAKING_COOLDOWN_SCHEMA'', ''Staking'', ''Cooldown''),
     (''STAKING_GAUGE_DEPOSIT_SCHEMA'', ''Staking'', ''GaugeDeposit''),
     (''STAKING_GAUGE_WITHDRAW_SCHEMA'', ''Staking'', ''GaugeWithdraw''),
     (''STAKING_INCREASE_LOCK_AMOUNT_SCHEMA'', ''Staking'', ''IncreaseLockAmount''),
     (''STAKING_INCREASE_LOCK_TIME_SCHEMA'', ''Staking'', ''IncreaseLockTime''),
     (''STAKING_LOCK_SCHEMA'', ''Staking'', ''Lock''),
     (''STAKING_REDEEM_SCHEMA'', ''Staking'', ''Redeem''),
     (''STAKING_STAKE_SCHEMA'', ''Staking'', ''Stake''),
     (''STAKING_UNLOCK_SCHEMA'', ''Staking'', ''Unlock''),
     (''STAKING_VOTE_FOR_GAUGE_SCHEMA'', ''Staking'', ''VoteForGauge'')]"

definition files_marketplace :: "(string \<times> string \<times> string) list" where
  "files_marketplace =
    [(''MARKETPLACE_SIGN_ORDER_SCHEMA'', ''Marketplace'', ''SignOrder''),
     (''MARKETPLACE_FULFILL_ORDER_SCHEMA'', ''Marketplace'', ''FulfillOrder''),
     (''MARKETPLACE_CANCEL_ORDER_SCHEMA'', ''Marketplace'', ''CancelOrder'')]"

definition files_launchpad :: "(string \<times> string \<times> string) list" where
  "files_launchpad =
    [(''LAUNCHPAD_CLAIM_ALLOCATION_SCHEMA'', ''Launchpad'', ''ClaimAllocation''),
     (''LAUNCHPAD_CLAIM_VESTED_SCHEMA'', ''Launchpad'', ''ClaimVested''),
     (''LAUNCHPAD_COMMIT_SCHEMA'', ''Launchpad'', ''Commit''),
     (''LAUNCHPAD_REFUND_SCHEMA'', ''Launchpad'', ''Refund''),
     (''LAUNCHPAD_WITHDRAW_COMMIT_SCHEMA'', ''Launchpad'', ''WithdrawCommit'')]"

definition files_perp :: "(string \<times> string \<times> string) list" where
  "files_perp =
    [(''PERP_ADJUST_MARGIN_SCHEMA'', ''Perp'', ''AdjustMargin''),
     (''PERP_CANCEL_ORDER_SCHEMA'', ''Perp'', ''CancelOrder''),
     (''PERP_CHANGE_LEVERAGE_SCHEMA'', ''Perp'', ''ChangeLeverage''),
     (''PERP_CHANGE_MARGIN_MODE_SCHEMA'', ''Perp'', ''ChangeMarginMode''),
     (''PERP_CLAIM_FUNDING_SCHEMA'', ''Perp'', ''ClaimFunding''),
     (''PERP_CLOSE_POSITION_SCHEMA'', ''Perp'', ''ClosePosition''),
     (''PERP_DECREASE_POSITION_SCHEMA'', ''Perp'', ''DecreasePosition''),
     (''PERP_INCREASE_POSITION_SCHEMA'', ''Perp'', ''IncreasePosition''),
     (''PERP_OPEN_POSITION_SCHEMA'', ''Perp'', ''OpenPosition''),
     (''PERP_PLACE_ORDER_SCHEMA'', ''Perp'', ''PlaceOrder'')]"

definition files_permission :: "(string \<times> string \<times> string) list" where
  "files_permission =
    [(''PERMISSION_PROTOCOL_AUTHORIZATION_SCHEMA'', ''Permission'', ''ProtocolAuthorization'')]"

definition files_restaking :: "(string \<times> string \<times> string) list" where
  "files_restaking =
    [(''RESTAKING_COMPLETE_WITHDRAWAL_SCHEMA'', ''Restaking'', ''CompleteWithdrawal''),
     (''RESTAKING_DELEGATE_TO_SCHEMA'', ''Restaking'', ''DelegateTo''),
     (''RESTAKING_DEPOSIT_SCHEMA'', ''Restaking'', ''Deposit''),
     (''RESTAKING_QUEUE_WITHDRAWAL_SCHEMA'', ''Restaking'', ''QueueWithdrawal''),
     (''RESTAKING_REDELEGATE_SCHEMA'', ''Restaking'', ''Redelegate''),
     (''RESTAKING_REGISTER_OPERATOR_SCHEMA'', ''Restaking'', ''RegisterOperator''),
     (''RESTAKING_UNDELEGATE_SCHEMA'', ''Restaking'', ''Undelegate'')]"

definition files_token :: "(string \<times> string \<times> string) list" where
  "files_token =
    [(''TOKEN_ERC20_APPROVE_SCHEMA'', ''Token'', ''Erc20Approve''),
     (''TOKEN_ERC20_PERMIT_SCHEMA'', ''Token'', ''Erc20Permit''),
     (''TOKEN_ERC20_TRANSFER_SCHEMA'', ''Token'', ''Erc20Transfer''),
     (''TOKEN_NFT_APPROVE_SCHEMA'', ''Token'', ''NftApprove''),
     (''TOKEN_NFT_SET_APPROVAL_FOR_ALL_SCHEMA'', ''Token'', ''NftSetApprovalForAll''),
     (''TOKEN_NFT_TRANSFER_SCHEMA'', ''Token'', ''NftTransfer''),
     (''TOKEN_PERMIT2_APPROVE_SCHEMA'', ''Token'', ''Permit2Approve''),
     (''TOKEN_PERMIT2_SIGN_ALLOWANCE_SCHEMA'', ''Token'', ''Permit2SignAllowance''),
     (''TOKEN_PERMIT2_SIGN_TRANSFER_SCHEMA'', ''Token'', ''Permit2SignTransfer''),
     (''TOKEN_PERMIT2_TRANSFER_FROM_SCHEMA'', ''Token'', ''Permit2TransferFrom''),
     (''TOKEN_REVOKE_APPROVAL_SCHEMA'', ''Token'', ''RevokeApproval''),
     (''TOKEN_UNWRAP_NATIVE_SCHEMA'', ''Token'', ''UnwrapNative''),
     (''TOKEN_WRAP_NATIVE_SCHEMA'', ''Token'', ''WrapNative'')]"

definition files_hyperliquid_core :: "(string \<times> string \<times> string) list" where
  "files_hyperliquid_core =
    [(''HL_WITHDRAW_SCHEMA'', ''HyperliquidCore'', ''HlWithdraw''),
     (''HL_SEND_ASSET_SCHEMA'', ''HyperliquidCore'', ''HlSendAsset''),
     (''HL_TOKEN_DELEGATE_SCHEMA'', ''HyperliquidCore'', ''HlTokenDelegate'')]"

definition shipped_files :: "(string \<times> string \<times> string) list" where
  "shipped_files =
     files_core @ files_airdrop @ files_amm @ files_bridge @ files_governance @ files_lending
     @ files_liquid_staking @ files_yield @ files_staking @ files_marketplace @ files_launchpad
     @ files_perp @ files_permission @ files_restaking @ files_token @ files_hyperliquid_core"

section \<open>Custom context fields\<close>

definition field_name :: "string \<Rightarrow> string option" where
  "field_name line =
     (let trimmed = trim_ws line in
      if trimmed = [] \<or> starts_with trimmed ''//'' then None
      else case cut '':'' trimmed of
             None \<Rightarrow> None
           | Some (before, _) \<Rightarrow>
               let name = trim_ws (rev (dropWhile (\<lambda>c. c = CHR ''?'') (rev (trim_ws before))))
               in if name \<noteq> [] \<and> name \<noteq> ''custom'' \<and> list_all ident_char name then Some name else None)"

definition context_base_fields :: "string \<Rightarrow> string \<Rightarrow> string list" where
  "context_base_fields schema_text stub =
     (case cut (''type '' @ stub @ ''Context = {'') schema_text of
        None \<Rightarrow> []
      | Some (_, body) \<Rightarrow>
          List.map_filter field_name
            (text_lines (case cut ''};'' body of Some (block, _) \<Rightarrow> block | None \<Rightarrow> body)))"

definition normalize_type :: "string \<Rightarrow> string" where
  "normalize_type raw = (if raw = ''Decimal'' then ''decimal'' else raw)"

definition entry_label :: "action_entry \<Rightarrow> string" where
  "entry_label e = (case ent_action_tag e of Some t \<Rightarrow> t | None \<Rightarrow> ent_domain e)"

definition render_field :: "string list \<Rightarrow> string \<Rightarrow> string \<Rightarrow> string \<times> string \<Rightarrow> policy_rpc_error + string" where
  "render_field base_fields label lines field =
     (if fst field \<in> set base_fields
      then Inl (RpcSchema (''custom_context field `'' @ fst field
                 @ ''` collides with base context field of action `'' @ label @ ''`''))
      else Inr (lines @ ''  '' @ fst field @ ''?: '' @ normalize_type (snd field) @ '','' @ newline))"

definition render_custom_body ::
  "(string \<Rightarrow> string) \<Rightarrow> action_entry \<Rightarrow> (string \<times> string) list \<Rightarrow> policy_rpc_error + string" where
  "render_custom_body T e custom =
     rbind (rfold (render_field (context_base_fields (T (ent_schema e)) (pascal_stub e)) (entry_label e)) [] custom)
       (\<lambda>lines. Inr (''type '' @ pascal_stub e @ ''CustomContext = {'' @ newline @ lines @ ''};'' @ newline))"

definition custom_stub :: "action_entry \<Rightarrow> string" where
  "custom_stub e = ''type '' @ pascal_stub e @ ''CustomContext = {};'' @ newline"

definition inject_custom_context ::
  "(string \<Rightarrow> string) \<Rightarrow> (string \<times> string) list \<Rightarrow> string \<Rightarrow> action_entry \<Rightarrow> policy_rpc_error + string" where
  "inject_custom_context T custom text e =
     (if \<not> text_contains text (custom_stub e)
      then Inl (RpcSchema (''per-policy base schema missing `type '' @ pascal_stub e
                 @ ''CustomContext = {};` stub for action `'' @ entry_label e @ ''`''))
      else rbind (render_custom_body T e custom) (\<lambda>body. Inr (text_replace (custom_stub e) body text)))"

text \<open>\<open>BTreeSet::insert\<close> as a guard: the first of the elements with the same key.\<close>

fun first_by :: "('a \<Rightarrow> 'k) \<Rightarrow> 'k list \<Rightarrow> 'a list \<Rightarrow> 'a list" where
  "first_by key seen [] = []"
| "first_by key seen (x # xs) =
     (if key x \<in> set seen then first_by key seen xs else x # first_by key (key x # seen) xs)"

definition core_schema :: string where
  "core_schema = ''CORE_SCHEMA''"

definition compose_per_policy ::
  "(string \<Rightarrow> string) \<Rightarrow> manifest \<Rightarrow> policy_rpc_error + string" where
  "compose_per_policy T m =
     (let matched_rows = matched_entries (man_trigger m);
          inputs = T core_schema # map (\<lambda>e. T (ent_schema e)) (first_by ent_schema [] matched_rows);
          text = merge_namespace_blocks inputs
      in if custom_fields m = [] then Inr text
         else rfold (inject_custom_context T (custom_fields m)) text (first_by pascal_stub [] matched_rows))"

section \<open>The linter of custom fields\<close>

definition leading_ident :: "string \<Rightarrow> string option" where
  "leading_ident s =
     (let ident = takeWhile ident_char s
      in if ident = [] \<or> is_digit (hd s) then None else Some ident)"

definition custom_ref_after :: "string \<Rightarrow> string option" where
  "custom_ref_after rest =
     (if starts_with rest ''.'' then leading_ident (drop 1 rest)
      else let r = dropWhile is_ws rest
           in if starts_with r ''has '' then leading_ident (dropWhile is_ws (drop 4 r)) else None)"

text \<open>\<open>match_indices\<close>: the occurrences of the prefix from the left, without overlap.\<close>

function custom_refs_loop :: "string \<Rightarrow> string list" where
  "custom_refs_loop [] = []"
| "custom_refs_loop (c # cs) =
     (if starts_with (c # cs) ''context.custom''
      then let rest = drop (length ''context.custom'') (c # cs)
           in (case custom_ref_after rest of Some i \<Rightarrow> [i] | None \<Rightarrow> []) @ custom_refs_loop rest
      else custom_refs_loop cs)"
  by pat_completeness auto

termination
  by (relation "measure length") auto

definition custom_field_refs :: "string \<Rightarrow> string list" where
  "custom_field_refs policy_cedar = sort (remdups (custom_refs_loop policy_cedar))"

definition lint_field :: "manifest \<Rightarrow> unit \<Rightarrow> string \<Rightarrow> policy_rpc_error + unit" where
  "lint_field m u field =
     (if map_of (custom_fields m) field \<noteq> None then Inr ()
      else Inl (RpcSchema (''policy `'' @ man_id m @ ''` references undeclared custom field `context.custom.''
                 @ field @ ''`'')))"

definition lint_custom_field_refs :: "string \<Rightarrow> manifest \<Rightarrow> policy_rpc_error + unit" where
  "lint_custom_field_refs policy_cedar m = rfold (lint_field m) () (custom_field_refs policy_cedar)"

end
