(* ===== verification/ActionEvaluation.thy ===== *)
theory ActionEvaluation
  imports PolicySchema
begin

text \<open>
  \<^verbatim>\<open>policy-engine-wasm/src/action_eval_exports.rs\<close> and \<^verbatim>\<open>trigger_exports.rs\<close>: the entry points the browser
  calls. An action is lowered, the policy calls of the installed bundles are planned, the host's results are
  written into the context, every bundle whose trigger matches is compiled with its own schema and evaluated,
  and the verdicts are aggregated. Errors become failing verdicts at this boundary.

  The deserialiser of the input (\<open>serde_json::from_str\<close>) is a parameter, so are the Cedar library, the texts
  of the shipped schema files and the serialisation parameters of the lowering. An entry point that returns
  a JSON text is modelled by the value it serialises. The size check compares the number of bytes.
\<close>

section \<open>Inputs\<close>

text \<open>\<open>de_lower_addr\<close>, which the deserialiser applies to the two addresses.\<close>

definition de_lower_addr :: "string \<Rightarrow> string" where
  "de_lower_addr s = to_lowercase s"

definition tx_input_of :: "string \<Rightarrow> string \<Rightarrow> string \<Rightarrow> tx_input" where
  "tx_input_of chain from to =
     \<lparr>ti_chain_id = chain, ti_from = de_lower_addr from, ti_to = de_lower_addr to\<rparr>"

record plan_action_input =
  pai_manifests :: "manifest list"
  pai_action :: action_body
  pai_meta :: action_meta
  pai_tx :: tx_input
  pai_token_decimals :: "(string \<times> u8) list"
  pai_account_leverage :: "(string \<times> int) list"
  pai_order_enrichment :: order_enrichment

record evaluate_action_input =
  eai_action :: action_body
  eai_meta :: action_meta
  eai_tx :: tx_input
  eai_bundles :: "bundle_input list"
  eai_results :: "string \<rightharpoonup> json"
  eai_token_decimals :: "(string \<times> u8) list"
  eai_account_leverage :: "(string \<times> int) list"
  eai_order_enrichment :: order_enrichment

definition engine_error :: "string \<Rightarrow> string \<Rightarrow> engine_error_dto" where
  "engine_error k m = \<lparr>err_kind = k, err_message = m\<rparr>"

definition max_wasm_input_json_len :: nat where
  "max_wasm_input_json_len = 4 * 1024 * 1024"

definition check_input_size :: "string \<Rightarrow> string \<Rightarrow> engine_error_dto + unit" where
  "check_input_size input_json entry =
     (if max_wasm_input_json_len < length input_json
      then Inl (engine_error ''input_too_large''
             (entry @ '' input json length '' @ dec_string (length input_json) @ '' exceeds ''
                @ dec_string max_wasm_input_json_len @ '' byte limit''))
      else Inr ())"

definition invalid_input :: "string \<Rightarrow> engine_error_dto" where
  "invalid_input message = engine_error ''invalid_input_json'' (''invalid input json: '' @ message)"

section \<open>Parameters of the pipeline\<close>

record ('uid, 'ents, 'cx, 'req, 'pol, 'pset, 'schema) wasm_env =
  we_cedar :: "('uid, 'ents, 'cx, 'req, 'pol, 'pset, 'schema) cedar"
  we_schema :: "string \<Rightarrow> string"
  we_lower :: lower_env
  we_read_plan :: "string \<Rightarrow> string + plan_action_input"
  we_read_evaluate :: "string \<Rightarrow> string + evaluate_action_input"

section \<open>Shared helpers\<close>

definition tx_view_of :: "tx_input \<Rightarrow> tx_view" where
  "tx_view_of tx = \<lparr>txv_chain_id = ti_chain_id tx, txv_from = ti_from tx, txv_to = ti_to tx\<rparr>"

fun lower_error_text :: "lower_error \<Rightarrow> string" where
  "lower_error_text (Unsupported what) = ''unsupported action: '' @ what"

definition wasm_lower ::
  "lower_env \<Rightarrow> action_body \<Rightarrow> action_meta \<Rightarrow> tx_input \<Rightarrow> token_decimals \<Rightarrow> account_leverage
     \<Rightarrow> order_enrichment \<Rightarrow> engine_error_dto + lowered_action" where
  "wasm_lower V action' meta' tx decimals' leverage' enrichment =
     map_error (\<lambda>e. engine_error ''unsupported_action'' (lower_error_text e))
       (lower_action_enriched V action' meta' \<lparr>txm_from = ti_from tx, txm_to = ti_to tx\<rparr>
          decimals' leverage' enrichment)"

definition wasm_plan ::
  "manifest list \<Rightarrow> action_body \<Rightarrow> lowered_action \<Rightarrow> tx_input \<Rightarrow> engine_error_dto + planned_call list" where
  "wasm_plan manifests action' la tx =
     map_error (\<lambda>e. engine_error ''plan_failed'' (policy_rpc_error_text e))
       (plan_policy_rpc_v2 manifests (body_view action') (la_context la) (tx_view_of tx))"

definition wasm_entities :: "tx_input \<Rightarrow> json" where
  "wasm_entities tx =
     JArr [JObj [(''uid'', JObj [(''type'', JStr ''Wallet''), (''id'', JStr (ti_from tx))]),
             (''attrs'', JObj [(''address'', JStr (ti_from tx))]), (''parents'', JArr [])],
           JObj [(''uid'', JObj [(''type'', JStr ''Protocol''), (''id'', JStr (ti_to tx))]),
             (''attrs'', JObj []), (''parents'', JArr [])]]"

fun is_multicall :: "action_body \<Rightarrow> bool" where
  "is_multicall (Multicall _) = True"
| "is_multicall _ = False"

text \<open>The gate of scope and position, then the trigger.\<close>

definition in_scope :: "trigger_scope \<Rightarrow> action_body \<Rightarrow> bool" where
  "in_scope scope action' = (case scope of ScopeOuter \<Rightarrow> is_multicall action' | ScopeInner \<Rightarrow> \<not> is_multicall action')"

fun policy_error_text :: "policy_error \<Rightarrow> string" where
  "policy_error_text (ParseError e) = ''failed to parse Cedar policy: '' @ e"
| "policy_error_text (SchemaError e) = ''failed to parse Cedar schema: '' @ e"
| "policy_error_text (ValidationError e) = ''failed to validate Cedar policy set against schema: '' @ e"
| "policy_error_text (RequestError e) = ''failed to build Cedar request: '' @ e"
| "policy_error_text (ContextError e) = ''failed to build Cedar context: '' @ e"
| "policy_error_text (EntitiesError e) = ''failed to build Cedar entities: '' @ e"
| "policy_error_text (EntityUidError e) = ''invalid entity uid: '' @ e"
| "policy_error_text (LoweringError e) = ''lowering failed: '' @ e"

definition run_bundle ::
  "('uid, 'ents, 'cx, 'req, 'pol, 'pset, 'schema) wasm_env \<Rightarrow> tx_input \<Rightarrow> lowered_action \<Rightarrow> json
     \<Rightarrow> bundle_input \<Rightarrow> string \<Rightarrow> engine_error_dto + verdict" where
  "run_bundle W tx la context' b schema =
     rbind (map_error (\<lambda>e. engine_error ''install_failed'' (policy_error_text e))
              (build_from_per_policy (we_cedar W) [(bi_policy b, schema)])) (\<lambda>engine.
       map_error (\<lambda>e. engine_error ''policy'' (policy_error_text e))
         (evaluate (we_cedar W) engine (la_principal la) (la_action_uid la) (la_resource la)
            (wasm_entities tx) context'))"

definition bundle_step ::
  "('uid, 'ents, 'cx, 'req, 'pol, 'pset, 'schema) wasm_env \<Rightarrow> action_body \<Rightarrow> tx_input \<Rightarrow> lowered_action
     \<Rightarrow> json \<Rightarrow> verdict list \<Rightarrow> bundle_input \<Rightarrow> engine_error_dto + verdict list" where
  "bundle_step W action' tx la context' verdicts b =
     rbind (map_error (\<lambda>e. engine_error ''invalid_manifest'' (policy_rpc_error_text e))
              (manifest_validate (bi_manifest b))) (\<lambda>_.
       if \<not> in_scope (trg_scope (man_trigger (bi_manifest b))) action' then Inr verdicts
       else if \<not> evaluate_trigger (man_trigger (bi_manifest b)) (body_view action') (tx_view_of tx) then Inr verdicts
       else rbind (map_error (\<lambda>e. engine_error ''schema_failed'' (policy_rpc_error_text e))
                     (compose_per_policy (we_schema W) (bi_manifest b))) (\<lambda>schema.
            rbind (run_bundle W tx la context' b schema) (\<lambda>v. Inr (verdicts @ [v]))))"

definition evaluate_matching_bundles ::
  "('uid, 'ents, 'cx, 'req, 'pol, 'pset, 'schema) wasm_env \<Rightarrow> bundle_input list \<Rightarrow> action_body \<Rightarrow> tx_input
     \<Rightarrow> lowered_action \<Rightarrow> json \<Rightarrow> engine_error_dto + verdict" where
  "evaluate_matching_bundles W bundles action' tx la context' =
     rbind (rfold (bundle_step W action' tx la context') [] bundles) (\<lambda>verdicts. Inr (aggregate verdicts))"

section \<open>Verdicts at the boundary\<close>

definition matched_to_dto :: "matched_policy \<Rightarrow> matched_policy_dto" where
  "matched_to_dto m =
     \<lparr>mpd_policy_id = policy_id m, mpd_reason = mp_reason m,
      mpd_severity = (case mp_severity m of SevDeny \<Rightarrow> ''deny'' | SevWarn \<Rightarrow> ''warn''),
      mpd_origin = (case mp_origin m of OriginAction \<Rightarrow> ''action'' | OriginTx \<Rightarrow> ''tx'')\<rparr>"

fun verdict_to_dto :: "verdict \<Rightarrow> verdict_dto" where
  "verdict_to_dto Pass = DtoPass"
| "verdict_to_dto (Warn ms) = DtoWarn (map matched_to_dto ms)"
| "verdict_to_dto (Fail ms) = DtoFail (map matched_to_dto ms)"

definition engine_error_verdict :: "engine_error_dto \<Rightarrow> verdict_dto" where
  "engine_error_verdict e =
     (let pid = ''__engine::'' @ err_kind e
      in DtoFail [\<lparr>mpd_policy_id = pid,
                   mpd_reason = Some (if err_message e = [] then pid else err_message e),
                   mpd_severity = ''deny'', mpd_origin = ''engine_error''\<rparr>])"

section \<open>The exports\<close>

definition plan_action_rpc_v2 ::
  "('uid, 'ents, 'cx, 'req, 'pol, 'pset, 'schema) wasm_env \<Rightarrow> string
     \<Rightarrow> engine_error_dto + planned_call list" where
  "plan_action_rpc_v2 W input_json =
     rbind (check_input_size input_json ''plan_action_rpc_v2_json'') (\<lambda>_.
     rbind (map_error invalid_input (we_read_plan W input_json)) (\<lambda>input.
     rbind (wasm_lower (we_lower W) (pai_action input) (pai_meta input) (pai_tx input)
              (token_decimals_new (pai_token_decimals input)) (map_of (pai_account_leverage input))
              (pai_order_enrichment input)) (\<lambda>la.
       wasm_plan (pai_manifests input) (pai_action input) la (pai_tx input))))"

definition evaluate_input ::
  "('uid, 'ents, 'cx, 'req, 'pol, 'pset, 'schema) wasm_env \<Rightarrow> evaluate_action_input
     \<Rightarrow> engine_error_dto + verdict" where
  "evaluate_input W input =
     rbind (wasm_lower (we_lower W) (eai_action input) (eai_meta input) (eai_tx input)
              (token_decimals_new (eai_token_decimals input)) (map_of (eai_account_leverage input))
              (eai_order_enrichment input)) (\<lambda>la.
     rbind (wasm_plan (map bi_manifest (eai_bundles input)) (eai_action input) la (eai_tx input)) (\<lambda>planned.
       case materialize_v2 (la_context la) planned (eai_results input) of
         Inl error \<Rightarrow>
           (case system_fail_verdict error of
              Some v \<Rightarrow> Inr v
            | None \<Rightarrow> Inl (engine_error ''projection_failed'' (policy_rpc_error_text error)))
       | Inr context' \<Rightarrow>
           evaluate_matching_bundles W (eai_bundles input) (eai_action input) (eai_tx input) la context'))"

definition evaluate_action_v2 ::
  "('uid, 'ents, 'cx, 'req, 'pol, 'pset, 'schema) wasm_env \<Rightarrow> string \<Rightarrow> verdict_dto" where
  "evaluate_action_v2 W input_json =
     (case rbind (check_input_size input_json ''evaluate_action_v2_json'') (\<lambda>_.
           rbind (map_error invalid_input (we_read_evaluate W input_json)) (\<lambda>input. evaluate_input W input)) of
        Inr v \<Rightarrow> verdict_to_dto v
      | Inl e \<Rightarrow> engine_error_verdict e)"

text \<open>\<open>let _ = materialize_v2(\<dots>)\<close>: the context is written in place, so a fault keeps what was written before
  it.\<close>

fun partial_fold :: "('s \<Rightarrow> 'x \<Rightarrow> 'e + 's) \<Rightarrow> 's \<Rightarrow> 'x list \<Rightarrow> 's \<times> bool" where
  "partial_fold f s [] = (s, True)"
| "partial_fold f s (x # xs) = (case f s x of Inl _ \<Rightarrow> (s, False) | Inr s' \<Rightarrow> partial_fold f s' xs)"

fun replay_calls :: "(string \<rightharpoonup> json) \<Rightarrow> json \<Rightarrow> planned_call list \<Rightarrow> json" where
  "replay_calls results context' [] = context'"
| "replay_calls results context' (call # calls) =
     (case results (pc_call_id call) of
        None \<Rightarrow> if pc_optional call then replay_calls results context' calls else context'
      | Some payload \<Rightarrow>
          (case partial_fold (apply_output call payload) context' (pc_outputs call) of
             (context'', True) \<Rightarrow> replay_calls results context'' calls
           | (context'', False) \<Rightarrow> context''))"

definition debug_lowered_context_v2 ::
  "('uid, 'ents, 'cx, 'req, 'pol, 'pset, 'schema) wasm_env \<Rightarrow> string \<Rightarrow> engine_error_dto + json" where
  "debug_lowered_context_v2 W input_json =
     rbind (check_input_size input_json ''debug_lowered_context_v2_json'') (\<lambda>_.
     rbind (map_error invalid_input (we_read_evaluate W input_json)) (\<lambda>input.
     rbind (wasm_lower (we_lower W) (eai_action input) (eai_meta input) (eai_tx input)
              (token_decimals_new (eai_token_decimals input)) (map_of (eai_account_leverage input))
              (eai_order_enrichment input)) (\<lambda>la.
       Inr (JObj [(''principal'', JStr (la_principal la)), (''actionUid'', JStr (la_action_uid la)),
              (''resource'', JStr (la_resource la)),
              (''context'',
                case wasm_plan (map bi_manifest (eai_bundles input)) (eai_action input) la (eai_tx input) of
                  Inl _ \<Rightarrow> la_context la
                | Inr planned \<Rightarrow> replay_calls (eai_results input) (la_context la) planned)]))))"

definition materialized_context ::
  "lower_env \<Rightarrow> action_body \<Rightarrow> action_meta \<Rightarrow> tx_input \<Rightarrow> bundle_input list \<Rightarrow> (string \<rightharpoonup> json)
     \<Rightarrow> engine_error_dto + (lowered_action \<times> json)" where
  "materialized_context V action' meta' tx bundles results =
     rbind (wasm_lower V action' meta' tx Map.empty Map.empty order_enrichment_default) (\<lambda>la.
     rbind (wasm_plan (map bi_manifest bundles) action' la tx) (\<lambda>planned.
       case materialize_v2 (la_context la) planned results of
         Inl error \<Rightarrow>
           Inl (engine_error (if system_fail_verdict error \<noteq> None then ''system_fail'' else ''projection_failed'')
                  (policy_rpc_error_text error))
       | Inr context' \<Rightarrow> Inr (la, context')))"

section \<open>The trigger pre-filter\<close>

definition manifest_matches :: "manifest \<Rightarrow> action_body \<Rightarrow> tx_view \<Rightarrow> bool" where
  "manifest_matches m action' tx =
     (case trg_scope (man_trigger m) of
        ScopeOuter \<Rightarrow> evaluate_trigger (man_trigger m) (body_view action') tx
      | ScopeInner \<Rightarrow>
          (case action' of
             Multicall actions \<Rightarrow> \<exists>child \<in> set actions. evaluate_trigger (man_trigger m) (body_view child) tx
           | other \<Rightarrow> evaluate_trigger (man_trigger m) (body_view other) tx))"

definition evaluate_triggers :: "manifest list \<Rightarrow> action_body \<Rightarrow> tx_input \<Rightarrow> string list" where
  "evaluate_triggers manifests action' tx =
     map man_id (filter (\<lambda>m. manifest_matches m action'
       \<lparr>txv_chain_id = ti_chain_id tx, txv_from = to_lowercase (ti_from tx), txv_to = to_lowercase (ti_to tx)\<rparr>) manifests)"

end
