(* ===== verification/SchemaTexts.thy ===== *)
theory SchemaTexts
  imports PolicySchema
begin

text \<open>
  Facts on the text of a composed schema: the merger puts all blocks of a namespace, from whatever file,
  into one block, in the order of the files; filling in the stubs of the custom context types replaces
  nothing else, so the head of a namespace block and the declaration of an action survive it.
\<close>

section \<open>Merged namespaces\<close>

text \<open>The namespace blocks of a schema text, each with its name and its body; the bodies that a list of texts
  has for a namespace, and how a text declares an action.\<close>

definition schema_blocks :: "string \<Rightarrow> (string \<times> string) list" where
  "schema_blocks s = snd (split_top_level_and_namespaces s)"

definition namespace_body :: "string list \<Rightarrow> string \<Rightarrow> string" where
  "namespace_body inputs ns = concat (map snd (filter (\<lambda>b. fst b = ns) (concat (map schema_blocks inputs))))"

definition action_declaration :: "string \<Rightarrow> string" where
  "action_declaration name = ''action \"'' @ name @ ''\"''"

lemma add_block_lookup:
  "map_of (add_block bs (n, b)) m =
     (if m = n then Some (case map_of bs n of None \<Rightarrow> b | Some b0 \<Rightarrow> b0 @ b) else map_of bs m)"
  by (induction bs "(n, b)" rule: add_block.induct) auto

lemma add_blocks_lookup:
  "map_of (foldl add_block bs xs) m =
     (if m \<in> fst ` set xs \<or> map_of bs m \<noteq> None
      then Some ((case map_of bs m of None \<Rightarrow> [] | Some b0 \<Rightarrow> b0) @ concat (map snd (filter (\<lambda>b. fst b = m) xs)))
      else None)"
proof (induction xs arbitrary: bs)
  case Nil
  then show ?case by auto
next
  case (Cons x xs)
  obtain n b where x: "x = (n, b)" by (cases x)
  show ?case by (auto simp: x Cons add_block_lookup split: option.splits)
qed

lemma merge_steps_blocks:
  "snd (foldl merge_step st inputs) = foldl add_block (snd st) (concat (map schema_blocks inputs))"
  by (induction inputs arbitrary: st) (simp_all add: merge_step_def schema_blocks_def case_prod_beta)

lemma merged_namespace:
  assumes "ns \<in> fst ` set (concat (map schema_blocks inputs))"
  shows "\<exists>a d. merge_namespace_blocks inputs = a @ namespace_text (ns, namespace_body inputs ns) @ d"
proof -
  define bodies where "bodies = snd (foldl merge_step ([], []) inputs)"
  have "map_of bodies ns = Some (namespace_body inputs ns)"
    using assms by (simp add: bodies_def merge_steps_blocks add_blocks_lookup namespace_body_def)
  then obtain xs ys where bodies: "bodies = xs @ (ns, namespace_body inputs ns) # ys"
    using map_of_SomeD split_list by metis
  have "merge_namespace_blocks inputs = fst (foldl merge_step ([], []) inputs) @ concat (map namespace_text bodies)"
    by (simp add: merge_namespace_blocks_def bodies_def case_prod_beta)
  then show ?thesis unfolding bodies by (metis append.assoc concat.simps(2) concat_append list.simps(9) map_append)
qed

lemma namespace_body_contains:
  assumes "t \<in> set inputs" "(ns, body) \<in> set (schema_blocks t)"
  shows "\<exists>p q. namespace_body inputs ns = p @ body @ q"
proof -
  have "body \<in> set (map snd (filter (\<lambda>b. fst b = ns) (concat (map schema_blocks inputs))))"
    using assms by (force simp: image_iff)
  then obtain xs ys where "map snd (filter (\<lambda>b. fst b = ns) (concat (map schema_blocks inputs))) = xs @ body # ys"
    by (metis split_list)
  then show ?thesis unfolding namespace_body_def by (metis concat.simps(2) concat_append)
qed

section \<open>Replacement of stubs\<close>

lemma starts_with_iff: "starts_with s pat \<longleftrightarrow> (\<exists>z. s = pat @ z)"
  unfolding starts_with_def by (metis append_eq_conv_conj append_take_drop_id)

lemma text_replace_split:
  assumes "\<And>u1 u2 z. u = u1 @ u2 \<Longrightarrow> u2 \<noteq> [] \<Longrightarrow> u2 @ v = pat @ z \<Longrightarrow> length pat \<le> length u2"
  shows "text_replace pat rep (u @ v) = text_replace pat rep u @ text_replace pat rep v"
  using assms
proof (induction u rule: length_induct)
  case (1 u)
  show ?case
  proof (cases u)
    case (Cons c cs)
    have crossing: "starts_with (u @ v) pat \<longleftrightarrow> starts_with u pat"
    proof
      assume "starts_with (u @ v) pat"
      then obtain z where z: "u @ v = pat @ z" by (auto simp: starts_with_iff)
      then have "length pat \<le> length u" using 1(2) [of "[]" u] Cons by simp
      with z show "starts_with u pat" by (auto simp: starts_with_iff append_eq_append_conv2)
    qed (auto simp: starts_with_iff)
    have IH: "text_replace pat rep (w @ v) = text_replace pat rep w @ text_replace pat rep v"
      if "u = p @ w" "p \<noteq> []" for p w
      using 1(1) 1(2) that by (metis append.assoc length_append length_greater_0_conv less_add_same_cancel2)
    show ?thesis
    proof (cases "pat \<noteq> [] \<and> starts_with u pat")
      case True
      then obtain w where w: "u = pat @ w" by (auto simp: starts_with_iff)
      with IH [of pat w] True Cons crossing show ?thesis
        by (smt (verit) append.assoc append_Cons append_eq_conv_conj text_replace.simps(2))
    next
      case False
      with IH [of "[c]" cs] Cons crossing show ?thesis by auto
    qed
  qed simp
qed

lemma text_replace_tail:
  assumes "pat \<noteq> []" "last pat \<notin> set w"
  shows "text_replace pat rep (u @ w) = text_replace pat rep u @ w"
proof -
  have w: "text_replace pat rep w = w"
    using assms(2)
  proof (induction w)
    case (Cons c cs)
    have "\<not> starts_with (c # cs) pat"
    proof
      assume "starts_with (c # cs) pat"
      then have "set pat \<subseteq> set (c # cs)" unfolding starts_with_iff by (metis Un_upper1 set_append)
      then show False using Cons.prems last_in_set [OF assms(1)] by blast
    qed
    then show ?case using Cons by simp
  qed simp
  have "text_replace pat rep (u @ w) = text_replace pat rep u @ text_replace pat rep w"
  proof (rule text_replace_split)
    fix u1 u2 z assume h: "u2 @ w = pat @ z"
    show "length pat \<le> length u2"
    proof (rule ccontr)
      assume "\<not> ?thesis"
      then obtain x where "pat = u2 @ x" "x \<noteq> []" "w = x @ z"
        using h by (auto simp: append_eq_append_conv2)
      then show False using assms(2) by simp
    qed
  qed
  then show ?thesis by (simp add: w)
qed

lemma text_replace_at:
  assumes "pat \<noteq> []" "q \<notin> set pat"
  shows "text_replace pat rep (u @ q # v) = text_replace pat rep u @ q # text_replace pat rep v"
proof -
  have "text_replace pat rep (u @ q # v) = text_replace pat rep u @ text_replace pat rep (q # v)"
  proof (rule text_replace_split)
    fix u1 u2 z assume h: "u2 @ q # v = pat @ z"
    show "length pat \<le> length u2"
    proof (rule ccontr)
      assume "\<not> ?thesis"
      then obtain x where "pat = u2 @ x" "x \<noteq> []" "q # v = x @ z"
        using h by (auto simp: append_eq_append_conv2)
      then show False using assms(2) by (cases x) auto
    qed
  qed
  moreover have "\<not> starts_with (q # v) pat"
    using assms by (cases pat) (auto simp: starts_with_iff)
  ultimately show ?thesis by simp
qed

text \<open>A name of the table: no quote, brace, equals sign or line break in it.\<close>

definition plain_name :: "string \<Rightarrow> bool" where
  "plain_name s = list_all (\<lambda>c. c \<noteq> CHR ''{'' \<and> c \<noteq> CHR ''='' \<and> c \<noteq> CHR 0x22 \<and> c \<noteq> CHR 0x0A) s"

lemma plain_rows: "list_all (\<lambda>e. plain_name (pascal_stub e)) resolver_table"
  by (simp add: resolver_table_def rows_multicall_def rows_unknown_def rows_bridge_def rows_airdrop_def
      rows_governance_def rows_amm_def rows_lending_def rows_liquid_staking_def rows_yield_def rows_launchpad_def
      rows_perp_def rows_permission_def rows_restaking_def rows_staking_def rows_marketplace_def rows_token_def
      rows_hyperliquid_core_def action_entry_of_def plain_name_def)

lemma plain_files: "list_all (\<lambda>(c, ns, name). plain_name ns) shipped_files"
  by (simp add: shipped_files_def files_core_def files_airdrop_def files_amm_def files_bridge_def
      files_governance_def files_lending_def files_liquid_staking_def files_yield_def files_staking_def
      files_marketplace_def files_launchpad_def files_perp_def files_permission_def files_restaking_def
      files_token_def files_hyperliquid_core_def plain_name_def)

lemma custom_stub_shape:
  "custom_stub e = (''type '' @ pascal_stub e @ ''CustomContext = '') @ CHR ''{'' # ''};'' @ newline"
  by (simp add: custom_stub_def)

lemma stub_keeps_declaration:
  assumes "plain_name (pascal_stub e)" "plain_name name"
  shows "text_replace (custom_stub e) r (u @ action_declaration name @ v)
    = text_replace (custom_stub e) r u @ action_declaration name @ text_replace (custom_stub e) r v"
proof -
  let ?p = "custom_stub e" and ?q = "CHR 0x22"
  have p: "?p \<noteq> []" "?q \<notin> set ?p" "last ?p = ch_newline"
    using assms(1) by (auto simp: custom_stub_def plain_name_def list_all_iff)
  have "text_replace ?p r (u @ action_declaration name @ v)
      = text_replace ?p r ((u @ ''action '') @ ?q # (name @ ?q # v))"
    by (simp add: action_declaration_def)
  also have "\<dots> = text_replace ?p r (u @ ''action '') @ ?q # text_replace ?p r name @ ?q # text_replace ?p r v"
    by (simp only: text_replace_at [OF p(1,2)])
  also have "text_replace ?p r (u @ ''action '') = text_replace ?p r u @ ''action ''"
    by (rule text_replace_tail [OF p(1)]) (simp add: p(3))
  also have "text_replace ?p r name = name"
    using text_replace_tail [OF p(1), of name r "[]"] assms(2) by (auto simp: p(3) plain_name_def list_all_iff)
  finally show ?thesis by (simp add: action_declaration_def)
qed

definition namespace_head :: "string \<Rightarrow> string" where
  "namespace_head ns = ''namespace '' @ ns @ '' {''"

lemma stub_keeps_head:
  assumes "plain_name (pascal_stub e)" "plain_name ns"
  shows "text_replace (custom_stub e) r (u @ namespace_head ns @ v)
    = text_replace (custom_stub e) r u @ namespace_head ns @ text_replace (custom_stub e) r v"
proof -
  let ?p = "custom_stub e" and ?front = "''type '' @ pascal_stub e @ ''CustomContext = ''"
  have p: "?p \<noteq> []" "last ?p = ch_newline" by (simp_all add: custom_stub_def)
  have plain: "CHR ''{'' \<notin> set ?front" "CHR ''{'' \<notin> set (''};'' @ newline)"
    using assms(1) by (auto simp: plain_name_def list_all_iff)
  have "text_replace ?p r ((u @ namespace_head ns) @ v)
      = text_replace ?p r (u @ namespace_head ns) @ text_replace ?p r v"
  proof (rule text_replace_split)
    fix u1 u2 z assume h: "u @ namespace_head ns = u1 @ u2" "u2 \<noteq> []" "u2 @ v = ?p @ z"
    show "length ?p \<le> length u2"
    proof (rule ccontr)
      assume "\<not> ?thesis"
      then have "\<exists>x. u2 @ x = ?p" using h(3) by (auto simp: append_eq_append_conv2)
      then obtain x where x: "?p = u2 @ x" by metis
      have "last (u1 @ u2) = CHR ''{''" unfolding h(1) [symmetric] by (simp add: namespace_head_def)
      then have "last u2 = CHR ''{''" using h(2) by simp
      then obtain u3 where u3: "u2 = u3 @ [CHR ''{'']" using h(2) by (metis append_butlast_last_id)
      have "?front @ CHR ''{'' # (''};'' @ newline) = u3 @ CHR ''{'' # x"
        using x u3 by (simp add: custom_stub_shape)
      then have "u3 = ?front" using plain by (metis append_Cons_eq_iff)
      then have "(u @ ''namespace '' @ ns) @ '' {'' = (u1 @ ''type '' @ pascal_stub e @ ''CustomContext ='') @ '' {''"
        using h(1) u3 by (simp add: namespace_head_def)
      then have "u @ ''namespace '' @ ns = u1 @ ''type '' @ pascal_stub e @ ''CustomContext =''"
        by (simp only: append_same_eq)
      from arg_cong [OF this, of last] have "last (u @ ''namespace '' @ ns) = CHR ''=''" by simp
      then show False using assms(2) last_in_set [of ns] by (auto simp: plain_name_def list_all_iff split: if_splits)
    qed
  qed
  also have "text_replace ?p r (u @ namespace_head ns) = text_replace ?p r u @ namespace_head ns"
    using assms(2) by (intro text_replace_tail [OF p(1)]) (auto simp: p(2) namespace_head_def plain_name_def list_all_iff)
  finally show ?thesis by simp
qed

section \<open>The composed schema\<close>

text \<open>One stub filled in; a text that opens a block of a namespace and then declares an action.\<close>

definition fill_stub :: "string \<Rightarrow> action_entry \<times> string \<Rightarrow> string" where
  "fill_stub schema er = text_replace (custom_stub (fst er)) (snd er) schema"

definition declares_in :: "string \<Rightarrow> string \<Rightarrow> string \<Rightarrow> bool" where
  "declares_in schema ns name \<longleftrightarrow>
     (\<exists>a x y. schema = a @ namespace_head ns @ x @ action_declaration name @ y)"

lemma filled_stubs_declare:
  assumes "declares_in schema ns name" "plain_name ns" "plain_name name"
    and "\<forall>er \<in> set ers. plain_name (pascal_stub (fst er))"
  shows "declares_in (foldl fill_stub schema ers) ns name"
  using assms(1,4)
proof (induction ers arbitrary: schema)
  case (Cons er ers)
  obtain a x y where "schema = a @ namespace_head ns @ x @ action_declaration name @ y"
    using Cons.prems(1) by (auto simp: declares_in_def)
  then have "declares_in (fill_stub schema er) ns name"
    using Cons.prems(2) assms(2,3)
    by (auto simp: fill_stub_def stub_keeps_head stub_keeps_declaration declares_in_def)
  then show ?case using Cons by simp
qed simp

lemma injected_stubs:
  assumes "rfold (inject_custom_context T custom) schema rows = Inr schema'"
  shows "\<exists>reps. list_all2 (\<lambda>e r. render_custom_body T e custom = Inr r) rows reps
           \<and> schema' = foldl fill_stub schema (zip rows reps)"
  using assms
proof (induction rows arbitrary: schema)
  case (Cons e rows)
  from Cons.prems obtain mid where mid: "inject_custom_context T custom schema e = Inr mid"
    and step: "rfold (inject_custom_context T custom) mid rows = Inr schema'" by (auto simp: result_iff)
  from mid obtain r where r: "render_custom_body T e custom = Inr r" and "mid = fill_stub schema (e, r)"
    by (auto simp: inject_custom_context_def fill_stub_def result_iff split: if_splits)
  then have rest: "rfold (inject_custom_context T custom) (fill_stub schema (e, r)) rows = Inr schema'"
    using step by simp
  from Cons.IH [OF rest] obtain reps where
    "list_all2 (\<lambda>e r. render_custom_body T e custom = Inr r) rows reps"
    "schema' = foldl fill_stub (fill_stub schema (e, r)) (zip rows reps)" by blast
  then show ?case using r by (intro exI [of _ "r # reps"]) simp
qed simp

lemma first_by_subset: "set (first_by key seen xs) \<subseteq> set xs"
  by (induction xs arbitrary: seen) auto

lemma first_by_keys: "key ` set (first_by key seen xs) = key ` set xs - set seen"
  by (induction xs arbitrary: seen) (auto simp: image_iff)

lemma first_by_distinct: "distinct (map key (first_by key seen xs))"
proof (induction xs arbitrary: seen)
  case (Cons x xs)
  have "key x \<notin> key ` set (first_by key (key x # seen) xs)" by (simp add: first_by_keys)
  then show ?case using Cons by simp
qed simp

text \<open>The schema composed for a bundle: the core file and the files of the matched rows, merged; where the
  bundle declares custom fields, the stubs of the matched rows filled in.\<close>

lemma composed_schema:
  assumes "compose_per_policy T m = Inr schema"
  shows "\<exists>files rows reps. set files = ent_schema ` set (matched_entries (man_trigger m)) \<and> distinct files
     \<and> set rows \<subseteq> set (matched_entries (man_trigger m))
     \<and> pascal_stub ` set rows = (if custom_fields m = [] then {}
                                else pascal_stub ` set (matched_entries (man_trigger m)))
     \<and> list_all2 (\<lambda>e r. render_custom_body T e (custom_fields m) = Inr r) rows reps
     \<and> schema = foldl fill_stub (merge_namespace_blocks (T core_schema # map T files)) (zip rows reps)"
proof -
  define es where "es = matched_entries (man_trigger m)"
  define files where "files = map ent_schema (first_by ent_schema [] es)"
  have files: "set files = ent_schema ` set es" "distinct files"
    by (simp_all add: files_def first_by_keys first_by_distinct)
  have inputs: "map (\<lambda>e. T (ent_schema e)) (first_by ent_schema [] es) = map T files"
    by (simp add: files_def)
  show ?thesis
  proof (cases "custom_fields m = []")
    case True
    then have "schema = merge_namespace_blocks (T core_schema # map T files)"
      using assms inputs by (simp add: compose_per_policy_def Let_def es_def)
    then show ?thesis using True files unfolding es_def
      by (intro exI [of _ files] exI [of _ "[]"] conjI) simp_all
  next
    case False
    then have "rfold (inject_custom_context T (custom_fields m)) (merge_namespace_blocks (T core_schema # map T files))
        (first_by pascal_stub [] es) = Inr schema"
      using assms inputs by (simp add: compose_per_policy_def Let_def es_def)
    from injected_stubs [OF this] obtain reps where
      "list_all2 (\<lambda>e r. render_custom_body T e (custom_fields m) = Inr r) (first_by pascal_stub [] es) reps"
      "schema = foldl fill_stub (merge_namespace_blocks (T core_schema # map T files)) (zip (first_by pascal_stub [] es) reps)"
      by blast
    then show ?thesis using False files first_by_subset [of pascal_stub "[]" es]
      first_by_keys [of pascal_stub "[]" es] unfolding es_def
      by (intro exI [of _ files] exI [of _ "first_by pascal_stub [] (matched_entries (man_trigger m))"] exI [of _ reps] conjI)
        simp_all
  qed
qed

lemma text_contains_iff: "text_contains s pat \<longleftrightarrow> (\<exists>a b. s = a @ pat @ b)"
proof (induction s)
  case (Cons c cs)
  have "(\<exists>a b. c # cs = a @ pat @ b) \<longleftrightarrow> starts_with (c # cs) pat \<or> (\<exists>a b. cs = a @ pat @ b)"
    unfolding starts_with_iff by (metis append_Cons append_Nil list.exhaust list.inject)
  then show ?case using Cons by (auto simp: text_contains_def)
qed (simp add: text_contains_def)

text \<open>A matched row whose file declares its action in a namespace: so does the schema.\<close>

lemma composed_declares:
  assumes e: "e \<in> set (matched_entries t)" and shipped: "(ent_schema e, ns, pascal_stub e) \<in> set shipped_files"
    and files: "set files = ent_schema ` set (matched_entries t)"
    and rows: "set rows \<subseteq> set (matched_entries t)"
    and body: "(ns, body) \<in> set (schema_blocks (T (ent_schema e)))"
  shows "\<exists>a p q d. merge_namespace_blocks (T core_schema # map T files) = a @ namespace_text (ns, p @ body @ q) @ d"
    and "text_contains body (action_declaration (pascal_stub e))
      \<Longrightarrow> declares_in (foldl fill_stub (merge_namespace_blocks (T core_schema # map T files)) (zip rows reps))
            ns (pascal_stub e)"
proof -
  let ?inputs = "T core_schema # map T files"
  have input: "T (ent_schema e) \<in> set ?inputs" using e files by auto
  have plain: "plain_name (pascal_stub r)" if "r \<in> set (matched_entries t)" for r
    using that plain_rows by (auto simp: matched_entries_def Let_def list_all_iff)
  have ns: "plain_name ns" using shipped plain_files by (auto simp: list_all_iff)
  have "ns \<in> fst ` set (concat (map schema_blocks ?inputs))"
    using input body by (force simp: image_iff)
  from merged_namespace [OF this] namespace_body_contains [OF input body]
  show merged: "\<exists>a p q d. merge_namespace_blocks ?inputs = a @ namespace_text (ns, p @ body @ q) @ d" by metis
  assume "text_contains body (action_declaration (pascal_stub e))"
  then obtain x y where body_text: "body = x @ action_declaration (pascal_stub e) @ y"
    by (auto simp: text_contains_iff)
  from merged obtain a p q d where "merge_namespace_blocks ?inputs = a @ namespace_text (ns, p @ body @ q) @ d" by blast
  then have "merge_namespace_blocks ?inputs = a @ namespace_head ns @ (newline @ p @ x)
      @ action_declaration (pascal_stub e) @ (y @ q @ newline @ ''}'' @ newline @ newline @ d)"
    by (simp add: body_text namespace_text_def namespace_head_def)
  then have "declares_in (merge_namespace_blocks ?inputs) ns (pascal_stub e)" unfolding declares_in_def by blast
  then show "declares_in (foldl fill_stub (merge_namespace_blocks ?inputs) (zip rows reps)) ns (pascal_stub e)"
    using ns plain e rows by (intro filled_stubs_declare) (auto dest!: set_zip_leftD)
qed

end
