(* ===== verification/SchemaFacts.thy ===== *)
theory SchemaFacts
  imports SchemaTexts
begin

text \<open>
  Facts on schema composition: every action resolves to a row of the table, the row is for the Cedar action
  under which the action is lowered, and a trigger that matches an action selects that row.
\<close>

section \<open>The table covers every action\<close>

text \<open>The identifier of a Cedar action in a namespace.\<close>

definition action_uid_in :: "string \<Rightarrow> string \<Rightarrow> string" where
  "action_uid_in ns name = ns @ ''::Action::\"'' @ name @ ''\"''"

text \<open>A list of rows has one for the domain and the tag whose action, in the namespace that \<open>g\<close> gives the row, has
  the given identifier.\<close>

fun has_row :: "action_entry list \<Rightarrow> (action_entry \<Rightarrow> string) \<Rightarrow> string \<Rightarrow> string option \<Rightarrow> string \<Rightarrow> bool" where
  "has_row [] g d t uid = False"
| "has_row (e # es) g d t uid =
     (if ent_action_tag e = t
      then (if ent_domain e = d
            then (if uid = action_uid_in (g e) (pascal_stub e) then True else has_row es g d t uid)
            else has_row es g d t uid)
      else has_row es g d t uid)"

lemma has_row_iff:
  "has_row es g d t uid \<longleftrightarrow>
     (\<exists>e \<in> set es. ent_domain e = d \<and> ent_action_tag e = t \<and> uid = action_uid_in (g e) (pascal_stub e))"
  by (induction es) auto

text \<open>The shipped file of every row declares the action of the row in that namespace.\<close>

definition rows_shipped :: "action_entry list \<Rightarrow> (action_entry \<Rightarrow> string) \<Rightarrow> (string \<times> string \<times> string) list \<Rightarrow> bool" where
  "rows_shipped es g fs = list_all (\<lambda>e. (ent_schema e, g e, pascal_stub e) \<in> set fs) es"

lemma entry_fields [simp]:
  "ent_domain (action_entry_of d t c n) = d" "ent_action_tag (action_entry_of d t c n) = t"
  "ent_schema (action_entry_of d t c n) = c" "pascal_stub (action_entry_of d t c n) = n"
  by (simp_all add: action_entry_of_def)

text \<open>The action resolves to a row of the table whose schema file declares it.\<close>

definition resolved :: "string \<Rightarrow> string option \<Rightarrow> string \<Rightarrow> bool" where
  "resolved d t uid \<longleftrightarrow>
     (\<exists>e \<in> set resolver_table. \<exists>ns. ent_domain e = d \<and> ent_action_tag e = t
        \<and> (ent_schema e, ns, pascal_stub e) \<in> set shipped_files \<and> uid = action_uid_in ns (pascal_stub e))"

lemma resolvedI:
  assumes "has_row es g d t uid" "rows_shipped es g fs" "set es \<subseteq> set resolver_table" "set fs \<subseteq> set shipped_files"
  shows "resolved d t uid"
  using assms unfolding has_row_iff rows_shipped_def resolved_def list_all_iff by blast

text \<open>The rows of each domain and the files behind them.\<close>

definition hl_namespace :: "action_entry \<Rightarrow> string" where
  "hl_namespace e =
     (if ent_schema e = ''CORE_UNKNOWN_SCHEMA'' then ''Core''
      else if ent_schema e = ''TOKEN_ERC20_TRANSFER_SCHEMA'' then ''Token''
      else if ent_schema e = ''STAKING_STAKE_SCHEMA'' \<or> ent_schema e = ''STAKING_REDEEM_SCHEMA'' then ''Staking''
      else ''HyperliquidCore'')"

lemma shipped_bridge: "rows_shipped rows_bridge (\<lambda>e. ''Bridge'') files_bridge"
  by (simp add: rows_shipped_def rows_bridge_def files_bridge_def)

lemma shipped_airdrop: "rows_shipped rows_airdrop (\<lambda>e. ''Airdrop'') files_airdrop"
  by (simp add: rows_shipped_def rows_airdrop_def files_airdrop_def)

lemma shipped_governance: "rows_shipped rows_governance (\<lambda>e. ''Governance'') files_governance"
  by (simp add: rows_shipped_def rows_governance_def files_governance_def)

lemma shipped_amm: "rows_shipped rows_amm (\<lambda>e. ''Amm'') files_amm"
  by (simp add: rows_shipped_def rows_amm_def files_amm_def)

lemma shipped_lending: "rows_shipped rows_lending (\<lambda>e. ''Lending'') files_lending"
  by (simp add: rows_shipped_def rows_lending_def files_lending_def)

lemma shipped_liquid_staking: "rows_shipped rows_liquid_staking (\<lambda>e. ''LiquidStaking'') files_liquid_staking"
  by (simp add: rows_shipped_def rows_liquid_staking_def files_liquid_staking_def)

lemma shipped_yield: "rows_shipped rows_yield (\<lambda>e. ''Yield'') files_yield"
  by (simp add: rows_shipped_def rows_yield_def files_yield_def)

lemma shipped_launchpad: "rows_shipped rows_launchpad (\<lambda>e. ''Launchpad'') files_launchpad"
  by (simp add: rows_shipped_def rows_launchpad_def files_launchpad_def)

lemma shipped_perp: "rows_shipped rows_perp (\<lambda>e. ''Perp'') files_perp"
  by (simp add: rows_shipped_def rows_perp_def files_perp_def)

lemma shipped_permission: "rows_shipped rows_permission (\<lambda>e. ''Permission'') files_permission"
  by (simp add: rows_shipped_def rows_permission_def files_permission_def)

lemma shipped_restaking: "rows_shipped rows_restaking (\<lambda>e. ''Restaking'') files_restaking"
  by (simp add: rows_shipped_def rows_restaking_def files_restaking_def)

lemma shipped_staking: "rows_shipped rows_staking (\<lambda>e. ''Staking'') files_staking"
  by (simp add: rows_shipped_def rows_staking_def files_staking_def)

lemma shipped_marketplace: "rows_shipped rows_marketplace (\<lambda>e. ''Marketplace'') files_marketplace"
  by (simp add: rows_shipped_def rows_marketplace_def files_marketplace_def)

lemma shipped_token: "rows_shipped rows_token (\<lambda>e. ''Token'') files_token"
  by (simp add: rows_shipped_def rows_token_def files_token_def)

lemma shipped_hyperliquid_core: "rows_shipped rows_hyperliquid_core hl_namespace (files_core @ files_staking @ files_token @ files_hyperliquid_core)"
  by (simp add: rows_shipped_def rows_hyperliquid_core_def hl_namespace_def files_core_def files_staking_def files_token_def files_hyperliquid_core_def)

text \<open>Only the identifier of a lowered action matters here, not its context.\<close>

lemma lowered_uid_cong: "uid = uid' \<Longrightarrow> lowered C uid c = lowered C uid' c"
  by simp

lemma lowered_uid [simp]: "la_action_uid (lowered C uid c) = uid"
  by (simp add: lowered_def)

text \<open>Each domain: the row of an action carries the name the action is lowered under.\<close>

lemma resolved_bridge:
  assumes "lower_bridge a C = Inr la"
  shows "resolved ''bridge'' (Some (bridge_action_tag a)) (la_action_uid la)"
  by (rule resolvedI [OF _ shipped_bridge])
    (use assms in \<open>cases a; auto simp: bridge_lowerings rows_bridge_def action_uid_in_def cong: lowered_uid_cong\<close>,
     auto simp: resolver_table_def shipped_files_def)

lemma resolved_airdrop:
  assumes "lower_airdrop a C = Inr la"
  shows "resolved ''airdrop'' (Some (airdrop_action_tag a)) (la_action_uid la)"
  by (rule resolvedI [OF _ shipped_airdrop])
    (use assms in \<open>cases a; auto simp: airdrop_lowerings rows_airdrop_def action_uid_in_def cong: lowered_uid_cong\<close>,
     auto simp: resolver_table_def shipped_files_def)

lemma resolved_governance:
  assumes "lower_governance a C = Inr la"
  shows "resolved ''governance'' (Some (governance_action_tag a)) (la_action_uid la)"
  by (rule resolvedI [OF _ shipped_governance])
    (use assms in \<open>cases a; auto simp: governance_lowerings rows_governance_def action_uid_in_def cong: lowered_uid_cong\<close>,
     auto simp: resolver_table_def shipped_files_def)

lemma resolved_amm:
  assumes "lower_amm a C = Inr la"
  shows "resolved ''amm'' (Some (amm_action_tag a)) (la_action_uid la)"
  by (rule resolvedI [OF _ shipped_amm])
    (use assms in \<open>cases a; auto simp: amm_lowerings rows_amm_def action_uid_in_def cong: lowered_uid_cong\<close>,
     auto simp: resolver_table_def shipped_files_def)

lemma resolved_lending:
  assumes "lower_lending a C = Inr la"
  shows "resolved ''lending'' (Some (lending_action_tag a)) (la_action_uid la)"
  by (rule resolvedI [OF _ shipped_lending])
    (use assms in \<open>cases a; auto simp: lending_lowerings rows_lending_def action_uid_in_def cong: lowered_uid_cong\<close>,
     auto simp: resolver_table_def shipped_files_def)

lemma resolved_liquid_staking:
  assumes "lower_liquid_staking a C = Inr la"
  shows "resolved ''liquid_staking'' (Some (liquid_staking_action_tag a)) (la_action_uid la)"
  by (rule resolvedI [OF _ shipped_liquid_staking])
    (use assms in \<open>cases a; auto simp: liquid_staking_lowerings rows_liquid_staking_def action_uid_in_def cong: lowered_uid_cong\<close>,
     auto simp: resolver_table_def shipped_files_def)

lemma resolved_yield:
  assumes "lower_yield a C = Inr la"
  shows "resolved ''yield'' (Some (yield_action_tag a)) (la_action_uid la)"
  by (rule resolvedI [OF _ shipped_yield])
    (use assms in \<open>cases a; auto simp: yield_lowerings rows_yield_def action_uid_in_def cong: lowered_uid_cong\<close>,
     auto simp: resolver_table_def shipped_files_def)

lemma resolved_launchpad:
  assumes "lower_launchpad a C = Inr la"
  shows "resolved ''launchpad'' (Some (launchpad_action_tag a)) (la_action_uid la)"
  by (rule resolvedI [OF _ shipped_launchpad])
    (use assms in \<open>cases a; auto simp: launchpad_lowerings rows_launchpad_def action_uid_in_def cong: lowered_uid_cong\<close>,
     auto simp: resolver_table_def shipped_files_def)

lemma resolved_perp:
  assumes "lower_perp a C = Inr la"
  shows "resolved ''perp'' (Some (perp_action_tag a)) (la_action_uid la)"
  by (rule resolvedI [OF _ shipped_perp])
    (use assms in \<open>cases a; auto simp: perp_lowerings rows_perp_def action_uid_in_def cong: lowered_uid_cong\<close>,
     auto simp: resolver_table_def shipped_files_def)

lemma resolved_permission:
  assumes "lower_permission a C = Inr la"
  shows "resolved ''permission'' (Some (permission_action_tag a)) (la_action_uid la)"
  by (rule resolvedI [OF _ shipped_permission])
    (use assms in \<open>cases a; auto simp: permission_lowerings rows_permission_def action_uid_in_def cong: lowered_uid_cong\<close>,
     auto simp: resolver_table_def shipped_files_def)

lemma resolved_restaking:
  assumes "lower_restaking a C = Inr la"
  shows "resolved ''restaking'' (Some (restaking_action_tag a)) (la_action_uid la)"
  by (rule resolvedI [OF _ shipped_restaking])
    (use assms in \<open>cases a; auto simp: restaking_lowerings rows_restaking_def action_uid_in_def cong: lowered_uid_cong\<close>,
     auto simp: resolver_table_def shipped_files_def)

lemma resolved_staking:
  assumes "lower_staking a C = Inr la"
  shows "resolved ''staking'' (Some (staking_action_tag a)) (la_action_uid la)"
  by (rule resolvedI [OF _ shipped_staking])
    (use assms in \<open>cases a; auto simp: staking_lowerings rows_staking_def action_uid_in_def cong: lowered_uid_cong\<close>,
     auto simp: resolver_table_def shipped_files_def)

lemma resolved_marketplace:
  assumes "lower_marketplace a C = Inr la"
  shows "resolved ''marketplace'' (Some (marketplace_action_tag a)) (la_action_uid la)"
  by (rule resolvedI [OF _ shipped_marketplace])
    (use assms in \<open>cases a; auto simp: marketplace_lowerings rows_marketplace_def action_uid_in_def cong: lowered_uid_cong\<close>,
     auto simp: resolver_table_def shipped_files_def)

lemma resolved_token:
  assumes "lower_token a C = Inr la"
  shows "resolved ''token'' (Some (token_action_tag a)) (la_action_uid la)"
  by (rule resolvedI [OF _ shipped_token])
    (use assms in \<open>cases a; auto simp: token_lowerings rows_token_def action_uid_in_def cong: lowered_uid_cong\<close>,
     auto simp: resolver_table_def shipped_files_def)

lemma resolved_hyperliquid_core:
  assumes "lower_hyperliquid_core a C = Inr la"
  shows "resolved ''hyperliquid_core'' (Some (hyperliquid_core_action_tag a)) (la_action_uid la)"
  by (rule resolvedI [OF _ shipped_hyperliquid_core])
    (use assms in \<open>cases a; auto simp: hyperliquid_core_lowerings rows_hyperliquid_core_def hl_namespace_def action_uid_in_def cong: lowered_uid_cong\<close>,
     auto simp: resolver_table_def shipped_files_def)

lemma resolved_multicall:
  assumes "lower_multicall b C = Inr la"
  shows "resolved ''multicall'' None (la_action_uid la)"
proof (rule resolvedI)
  have "la_action_uid la = ''Core::Action::\"Multicall\"''"
    using assms by (auto simp: lower_multicall_def split: action_body.splits)
  then show "has_row rows_multicall (\<lambda>e. ''Core'') ''multicall'' None (la_action_uid la)"
    by (simp add: rows_multicall_def action_uid_in_def)
  show "rows_shipped rows_multicall (\<lambda>e. ''Core'') files_core"
    by (simp add: rows_shipped_def rows_multicall_def files_core_def)
qed (auto simp: resolver_table_def shipped_files_def)

lemma resolved_unknown:
  assumes "lower_unknown b C = Inr la"
  shows "resolved ''unknown'' None (la_action_uid la)"
proof (rule resolvedI)
  have "la_action_uid la = ''Core::Action::\"Unknown\"''"
    using assms by (auto simp: lower_unknown_def split: action_body.splits)
  then show "has_row rows_unknown (\<lambda>e. ''Core'') ''unknown'' None (la_action_uid la)"
    by (simp add: rows_unknown_def action_uid_in_def)
  show "rows_shipped rows_unknown (\<lambda>e. ''Core'') files_core"
    by (simp add: rows_shipped_def rows_unknown_def files_core_def)
qed (auto simp: resolver_table_def shipped_files_def)

lemma resolved_body:
  assumes "lower_body b C = Inr la"
  shows "resolved (vw_domain (body_view b)) (vw_action_tag (body_view b)) (la_action_uid la)"
  using assms
  by (cases b)
    (simp_all add: tagged_view_def resolved_token resolved_amm resolved_lending resolved_airdrop resolved_launchpad
      resolved_perp resolved_liquid_staking resolved_permission resolved_yield resolved_restaking resolved_staking
      resolved_governance resolved_hyperliquid_core resolved_bridge resolved_marketplace resolved_multicall
      resolved_unknown)

section \<open>Triggers select the rows of the actions they match\<close>

lemma matched_entries_complete:
  assumes e: "e \<in> set resolver_table"
    and view: "vw_domain a = ent_domain e" "vw_action_tag a = ent_action_tag e"
    and fires: "evaluate_trigger t a tx"
  shows "e \<in> set (matched_entries t)"
proof -
  have "matches_field f c (entry_view e) tx'"
    if "map_of (trg_where t) f = Some c" "f = ActionDomain \<or> f = ActionTag" for f c tx'
  proof -
    have "matches_field f c a tx" using fires map_of_SomeD [OF that(1)] by (auto simp: evaluate_trigger_def)
    then show ?thesis using that(2) view by (auto simp: matches_field_def entry_view_def)
  qed
  then show ?thesis
    using e by (auto simp: matched_entries_def evaluate_trigger_def Let_def split: option.splits)
qed

end
