(* ===== verification/PolicyFacts.thy ===== *)
theory PolicyFacts
  imports ActionEvaluation SchemaFacts
begin

text \<open>
  Facts on the evaluation pipeline. A loop that may fail and only adds to its state is the interface
  \<open>growing_loop\<close>: every item of a loop that succeeded was visited, and what its step added is in the result.
  A loop that collects elements (\<open>collecting_loop\<close>) is such a loop, and each collected element has an item it
  comes from. The planner, the materialiser and the loop over the bundles are instances.
\<close>

section \<open>Loops that add to their state\<close>

locale growing_loop =
  fixes step :: "'s \<Rightarrow> 'x \<Rightarrow> 'e + 's"
    and le :: "'s \<Rightarrow> 's \<Rightarrow> bool"
  assumes le_refl: "le s s"
    and le_trans: "le a b \<Longrightarrow> le b c \<Longrightarrow> le a c"
    and step_grows: "step s x = Inr s' \<Longrightarrow> le s s'"
begin

lemma loop_grows: "rfold step s xs = Inr r \<Longrightarrow> le s r"
  by (induction xs arbitrary: s) (auto simp: result_iff le_refl intro: le_trans step_grows)

lemma loop_visits:
  "rfold step s xs = Inr r \<Longrightarrow> x \<in> set xs \<Longrightarrow> \<exists>s0 s1. le s s0 \<and> step s0 x = Inr s1 \<and> le s1 r"
proof (induction xs arbitrary: s)
  case (Cons y ys)
  obtain s' where s': "step s y = Inr s'" "rfold step s' ys = Inr r"
    using Cons.prems(1) by (auto simp: result_iff)
  show ?case
  proof (cases "x = y")
    case True
    then show ?thesis using s' le_refl loop_grows by blast
  next
    case False
    then obtain s0 s1 where "le s' s0" "step s0 x = Inr s1" "le s1 r"
      using Cons.IH [OF s'(2)] Cons.prems(2) by auto
    then show ?thesis using le_trans [OF step_grows [OF s'(1)]] by blast
  qed
qed simp

end

locale collecting_loop =
  fixes step :: "'s \<Rightarrow> 'x \<Rightarrow> 'e + 's"
    and elems :: "'s \<Rightarrow> 'a set"
    and new :: "'x \<Rightarrow> 'a set"
  assumes step_collects: "step s x = Inr s' \<Longrightarrow> elems s \<subseteq> elems s' \<and> elems s' \<subseteq> elems s \<union> new x"
begin

lemma loop_origin: "rfold step s xs = Inr r \<Longrightarrow> elems r \<subseteq> elems s \<union> (\<Union>x \<in> set xs. new x)"
proof (induction xs arbitrary: s)
  case (Cons y ys)
  then obtain s' where "step s y = Inr s'" "elems r \<subseteq> elems s' \<union> (\<Union>x \<in> set ys. new x)"
    by (auto simp: result_iff)
  then show ?case using step_collects by fastforce
qed simp

end

sublocale collecting_loop \<subseteq> growing_loop step "\<lambda>s t. elems s \<subseteq> elems t"
  by unfold_locales (use step_collects in auto)

section \<open>Planning\<close>

text \<open>The call planned for a specification, when its parameters resolve.\<close>

definition planned_for :: "selector_roots \<Rightarrow> manifest \<Rightarrow> call_spec \<Rightarrow> planned_call set" where
  "planned_for R m spec =
     (case rfold (resolve_param R) [] (spec_params spec) of
        Inl _ \<Rightarrow> {} | Inr params \<Rightarrow> {planned_of m spec params})"

lemma plan_spec_Inr:
  assumes "plan_spec R m calls spec = Inr calls'"
  shows "set calls' = set calls \<union> planned_for R m spec" "\<not> spec_optional spec \<Longrightarrow> planned_for R m spec \<noteq> {}"
  using assms by (auto simp: plan_spec_def planned_for_def split: sum.splits if_splits)

interpretation plan_specs: collecting_loop "plan_spec R m" set "planned_for R m" for R m
  by unfold_locales (auto dest: plan_spec_Inr)

definition planned_by :: "selector_roots \<Rightarrow> action_view \<Rightarrow> tx_view \<Rightarrow> manifest \<Rightarrow> planned_call set" where
  "planned_by R view tx m =
     (if evaluate_trigger (man_trigger m) view tx then (\<Union>spec \<in> set (man_rpc m). planned_for R m spec) else {})"

lemma plan_specs_all: "rfold (plan_spec R m) calls specs = Inr calls' \<Longrightarrow>
    set calls' = set calls \<union> (\<Union>spec \<in> set specs. planned_for R m spec)"
  by (induction specs arbitrary: calls) (auto simp: result_iff plan_spec_Inr(1))

lemma plan_manifest_Inr:
  assumes "plan_manifest R view tx calls m = Inr calls'"
  shows "manifest_validate m = Inr ()"
    and "set calls' = set calls \<union> planned_by R view tx m"
    and "evaluate_trigger (man_trigger m) view tx \<Longrightarrow> spec \<in> set (man_rpc m) \<Longrightarrow> \<not> spec_optional spec
           \<Longrightarrow> planned_for R m spec \<noteq> {}"
proof -
  show "manifest_validate m = Inr ()" using assms by (auto simp: plan_manifest_def result_iff)
  show "set calls' = set calls \<union> planned_by R view tx m"
    using assms by (auto simp: plan_manifest_def planned_by_def result_iff plan_specs_all split: if_splits)
  assume "evaluate_trigger (man_trigger m) view tx" and spec: "spec \<in> set (man_rpc m)" "\<not> spec_optional spec"
  then have "rfold (plan_spec R m) calls (man_rpc m) = Inr calls'"
    using assms by (auto simp: plan_manifest_def result_iff)
  from plan_specs.loop_visits [OF this spec(1)] obtain s0 s1 where "plan_spec R m s0 spec = Inr s1" by blast
  then show "planned_for R m spec \<noteq> {}" using plan_spec_Inr(2) spec(2) by blast
qed

interpretation plan_manifests: collecting_loop "plan_manifest R view tx" set "planned_by R view tx" for R view tx
  by unfold_locales (auto dest: plan_manifest_Inr(2))

lemma plan_all: "rfold (plan_manifest R view tx) calls ms = Inr calls' \<Longrightarrow>
    set calls' = set calls \<union> (\<Union>m \<in> set ms. planned_by R view tx m)"
  by (induction ms arbitrary: calls) (auto simp: result_iff plan_manifest_Inr(2))

lemma required_is_planned:
  assumes plan: "plan_policy_rpc_v2 ms view ctx tx = Inr calls"
    and m: "m \<in> set ms" "evaluate_trigger (man_trigger m) view tx"
    and spec: "spec \<in> set (man_rpc m)" "\<not> spec_optional spec"
  shows "\<exists>call \<in> set calls. pc_call_id call = policy_rpc_call_id_v2 (man_id m) (spec_id spec)
           \<and> \<not> pc_optional call \<and> pc_outputs call = spec_outputs spec"
proof -
  define R where "R = planning_roots ctx tx"
  have loop: "rfold (plan_manifest R view tx) [] ms = Inr calls"
    using plan by (simp add: plan_policy_rpc_v2_def R_def)
  from plan_manifests.loop_visits [OF loop m(1)] obtain s0 s1 where "plan_manifest R view tx s0 m = Inr s1" by blast
  from plan_manifest_Inr(3) [OF this m(2) spec] obtain call where call: "call \<in> planned_for R m spec" by blast
  then have "call \<in> set calls" using plan_all [OF loop] m spec(1) by (auto simp: planned_by_def)
  moreover have "pc_call_id call = policy_rpc_call_id_v2 (man_id m) (spec_id spec)
      \<and> \<not> pc_optional call \<and> pc_outputs call = spec_outputs spec"
    using call spec(2) by (auto simp: planned_for_def planned_of_def split: sum.splits)
  ultimately show ?thesis by blast
qed

lemma planned_call_of:
  assumes "plan_manifest R view tx [] m = Inr new" "evaluate_trigger (man_trigger m) view tx"
    "spec \<in> set (man_rpc m)" "\<not> spec_optional spec"
  shows "\<exists>call \<in> set new. \<not> pc_optional call \<and> pc_outputs call = spec_outputs spec"
proof -
  obtain call where call: "call \<in> planned_for R m spec" using plan_manifest_Inr(3) [OF assms] by blast
  then have "call \<in> set new" using plan_manifest_Inr(2) [OF assms(1)] assms by (auto simp: planned_by_def)
  moreover have "\<not> pc_optional call \<and> pc_outputs call = spec_outputs spec"
    using call assms(4) by (auto simp: planned_for_def planned_of_def split: sum.splits)
  ultimately show ?thesis by blast
qed

text \<open>Planning appends: the calls of a manifest stand together, in the order of the manifests.\<close>

lemma plan_manifest_appends:
  assumes "plan_manifest R view tx calls m = Inr calls'"
  shows "\<exists>new. calls' = calls @ new \<and> plan_manifest R view tx [] m = Inr new"
proof -
  have shift: "plan_spec R m (xs @ ys) spec = rbind (plan_spec R m ys spec) (\<lambda>zs. Inr (xs @ zs))" for xs ys spec
    by (auto simp: plan_spec_def split: sum.splits)
  have loop: "rfold (plan_spec R m) (xs @ ys) specs = rbind (rfold (plan_spec R m) ys specs) (\<lambda>zs. Inr (xs @ zs))"
    for xs ys specs
  proof (induction specs arbitrary: ys)
    case (Cons spec specs)
    then show ?case by (simp add: shift rbind_assoc)
  qed simp
  show ?thesis
  proof (cases "evaluate_trigger (man_trigger m) view tx")
    case True
    with assms have valid: "manifest_validate m = Inr ()"
      and run: "rfold (plan_spec R m) (calls @ []) (man_rpc m) = Inr calls'"
      by (auto simp: plan_manifest_def result_iff)
    from run [unfolded loop] obtain new where "rfold (plan_spec R m) [] (man_rpc m) = Inr new" "calls' = calls @ new"
      by (auto simp: result_iff)
    then show ?thesis using True valid by (simp add: plan_manifest_def)
  next
    case False
    then show ?thesis using assms by (auto simp: plan_manifest_def result_iff)
  qed
qed

lemma plan_appends: "rfold (plan_manifest R view tx) calls ms = Inr calls' \<Longrightarrow> \<exists>new. calls' = calls @ new"
proof (induction ms arbitrary: calls)
  case (Cons m ms)
  then obtain c where c: "plan_manifest R view tx calls m = Inr c" "rfold (plan_manifest R view tx) c ms = Inr calls'"
    by (auto simp: result_iff)
  from plan_manifest_appends [OF c(1)] Cons.IH [OF c(2)] show ?case by auto
qed simp

lemma plan_split:
  assumes "rfold (plan_manifest R view tx) calls (ms1 @ m # ms2) = Inr calls'"
  shows "\<exists>xs new ys. calls' = calls @ xs @ new @ ys \<and> plan_manifest R view tx [] m = Inr new
           \<and> rfold (plan_manifest R view tx) (calls @ xs @ new) ms2 = Inr calls'"
proof -
  from assms obtain c1 c2 where c1: "rfold (plan_manifest R view tx) calls ms1 = Inr c1"
    and c2: "plan_manifest R view tx c1 m = Inr c2" and rest: "rfold (plan_manifest R view tx) c2 ms2 = Inr calls'"
    by (auto simp: rfold_append result_iff)
  from plan_appends [OF c1] plan_manifest_appends [OF c2] plan_appends [OF rest] obtain xs new ys
    where "c1 = calls @ xs" "c2 = c1 @ new" "plan_manifest R view tx [] m = Inr new" "calls' = c2 @ ys" by blast
  with rest show ?thesis by (intro exI [of _ xs] exI [of _ new] exI [of _ ys]) simp
qed

section \<open>Materialisation\<close>

lemma map_of_json_insert: "map_of (json_insert k v kvs) = (map_of kvs)(k \<mapsto> v)"
  by (induction k v kvs rule: json_insert.induct) (auto simp: fun_eq_iff)

text \<open>The custom part of a context.\<close>

definition custom_of :: "json \<Rightarrow> string \<rightharpoonup> json" where
  "custom_of ctx = (case json_get ctx ''custom'' of Some (JObj kvs) \<Rightarrow> map_of kvs | _ \<Rightarrow> Map.empty)"

definition extends :: "json \<Rightarrow> json \<Rightarrow> bool" where
  "extends ctx ctx' \<longleftrightarrow>
     (\<forall>k. k \<noteq> ''custom'' \<longrightarrow> json_get ctx' k = json_get ctx k) \<and> custom_of ctx \<subseteq>\<^sub>m custom_of ctx'"

lemma extends_refl: "extends c c"
  by (simp add: extends_def)

lemma extends_trans: "extends a b \<Longrightarrow> extends b c \<Longrightarrow> extends a c"
  by (auto simp: extends_def intro: map_le_trans)

lemma extends_custom: "extends a b \<Longrightarrow> custom_of a f = Some v \<Longrightarrow> custom_of b f = Some v"
  by (auto simp: extends_def map_le_def dom_def)

lemma insert_custom_field_Inr:
  assumes "insert_custom_field ctx field v = Inr ctx'"
  shows "custom_of ctx field = None" "custom_of ctx' = (custom_of ctx)(field \<mapsto> v)" "extends ctx ctx'"
proof -
  from assms obtain object custom where ctx: "ctx = JObj object"
    and custom: "json_as_object (case map_of object ''custom'' of Some c \<Rightarrow> c | None \<Rightarrow> JObj []) = Some custom"
    and fresh: "map_of custom field = None"
    and ctx': "ctx' = JObj (json_insert ''custom'' (JObj (json_insert field v custom)) object)"
    by (cases ctx) (auto simp: insert_custom_field_def result_iff split: if_splits)
  have old: "custom_of ctx = map_of custom"
    using custom by (auto simp: custom_of_def ctx split: option.splits json.splits elim: json_as_object.elims)
  show "custom_of ctx field = None" by (simp add: old fresh)
  show new: "custom_of ctx' = (custom_of ctx)(field \<mapsto> v)"
    by (simp add: old) (simp add: custom_of_def ctx' map_of_json_insert)
  show "extends ctx ctx'"
    unfolding extends_def new using fresh by (auto simp: ctx ctx' map_of_json_insert old [unfolded ctx] map_le_def)
qed

text \<open>The entries one call may write, given the host's results.\<close>

definition entries_of :: "(string \<rightharpoonup> json) \<Rightarrow> planned_call \<Rightarrow> (string \<times> json) set" where
  "entries_of results call =
     {(prj_field out, v) | out v payload. results (pc_call_id call) = Some payload
        \<and> out \<in> set (pc_outputs call) \<and> projected payload out = Inr v}"

lemma apply_output_Inr:
  assumes "apply_output call payload ctx out = Inr ctx'"
  shows "extends ctx ctx'"
    and "custom_of ctx' = custom_of ctx
         \<or> (\<exists>v. projected payload out = Inr v \<and> custom_of ctx' = (custom_of ctx)(prj_field out \<mapsto> v))"
    and "\<not> pc_optional call \<Longrightarrow> \<exists>v. projected payload out = Inr v \<and> custom_of ctx (prj_field out) = None
           \<and> custom_of ctx' (prj_field out) = Some v"
  using assms
  by (auto simp: apply_output_def extends_refl insert_custom_field_Inr split: if_splits sum.splits)

interpretation outputs: growing_loop "apply_output call payload" extends for call payload
  by unfold_locales (auto intro: extends_refl extends_trans apply_output_Inr(1))

lemma apply_outputs_origin:
  "rfold (apply_output call payload) ctx outs = Inr ctx' \<Longrightarrow> custom_of ctx' f = Some v \<Longrightarrow>
     custom_of ctx f = Some v \<or> (\<exists>out \<in> set outs. prj_field out = f \<and> projected payload out = Inr v)"
proof (induction outs arbitrary: ctx)
  case (Cons out outs)
  then obtain ctx1 where step: "apply_output call payload ctx out = Inr ctx1"
    and rest: "rfold (apply_output call payload) ctx1 outs = Inr ctx'" by (auto simp: result_iff)
  from Cons.IH [OF rest Cons.prems(2)] apply_output_Inr(2) [OF step] show ?case by (auto split: if_splits)
qed simp

lemma materialize_call_Inr:
  assumes "materialize_call results ctx call = Inr ctx'"
  shows "extends ctx ctx'"
    and "custom_of ctx' f = Some v \<Longrightarrow> custom_of ctx f = Some v \<or> (f, v) \<in> entries_of results call"
    and "\<not> pc_optional call \<Longrightarrow> out \<in> set (pc_outputs call) \<Longrightarrow>
           \<exists>v. (prj_field out, v) \<in> entries_of results call \<and> custom_of ctx (prj_field out) = None
             \<and> custom_of ctx' (prj_field out) = Some v"
    and "\<not> pc_optional call \<Longrightarrow> results (pc_call_id call) \<noteq> None"
proof -
  have cases: "(results (pc_call_id call) = None \<and> pc_optional call \<and> ctx' = ctx)
    \<or> (\<exists>payload. results (pc_call_id call) = Some payload
         \<and> rfold (apply_output call payload) ctx (pc_outputs call) = Inr ctx')"
    using assms by (auto simp: materialize_call_def apply_call_outputs_def split: option.splits if_splits)
  then show "extends ctx ctx'" using extends_refl outputs.loop_grows by blast
  show "\<not> pc_optional call \<Longrightarrow> results (pc_call_id call) \<noteq> None" using cases by auto
  show "custom_of ctx' f = Some v \<Longrightarrow> custom_of ctx f = Some v \<or> (f, v) \<in> entries_of results call"
    using cases by (auto simp: entries_of_def dest: apply_outputs_origin)
  assume req: "\<not> pc_optional call" and out: "out \<in> set (pc_outputs call)"
  with cases obtain payload where p: "results (pc_call_id call) = Some payload"
    and loop: "rfold (apply_output call payload) ctx (pc_outputs call) = Inr ctx'" by auto
  from outputs.loop_visits [OF loop out] obtain s0 s1 where s: "extends ctx s0"
      "apply_output call payload s0 out = Inr s1" "extends s1 ctx'" by blast
  from apply_output_Inr(3) [OF s(2) req] obtain v where v: "projected payload out = Inr v"
      "custom_of s0 (prj_field out) = None" "custom_of s1 (prj_field out) = Some v" by blast
  have "custom_of ctx (prj_field out) = None"
    using extends_custom [OF s(1)] v(2) by (cases "custom_of ctx (prj_field out)") auto
  then show "\<exists>v. (prj_field out, v) \<in> entries_of results call \<and> custom_of ctx (prj_field out) = None
      \<and> custom_of ctx' (prj_field out) = Some v"
    using p v out extends_custom [OF s(3)] by (auto simp: entries_of_def)
qed

interpretation calls: growing_loop "materialize_call results" extends for results
  by unfold_locales (auto intro: extends_refl extends_trans materialize_call_Inr(1))

lemma materialize_origin:
  "rfold (materialize_call results) ctx calls = Inr ctx' \<Longrightarrow> custom_of ctx' f = Some v \<Longrightarrow>
     custom_of ctx f = Some v \<or> (\<exists>call \<in> set calls. (f, v) \<in> entries_of results call)"
proof (induction calls arbitrary: ctx)
  case (Cons call calls)
  then obtain ctx1 where step: "materialize_call results ctx call = Inr ctx1"
    and rest: "rfold (materialize_call results) ctx1 calls = Inr ctx'" by (auto simp: result_iff)
  from Cons.IH [OF rest Cons.prems(2)] materialize_call_Inr(2) [OF step] show ?case by auto
qed simp

lemma materialize_required:
  assumes "materialize_v2 ctx calls results = Inr ctx'" "call \<in> set calls" "\<not> pc_optional call"
  shows "results (pc_call_id call) \<noteq> None"
    and "out \<in> set (pc_outputs call) \<Longrightarrow>
           \<exists>v. (prj_field out, v) \<in> entries_of results call \<and> custom_of ctx (prj_field out) = None
             \<and> custom_of ctx' (prj_field out) = Some v"
proof -
  from calls.loop_visits [OF assms(1) [unfolded materialize_v2_def] assms(2)] obtain s0 s1
    where s: "extends ctx s0" "materialize_call results s0 call = Inr s1" "extends s1 ctx'" by blast
  show "results (pc_call_id call) \<noteq> None" by (rule materialize_call_Inr(4) [OF s(2) assms(3)])
  assume out: "out \<in> set (pc_outputs call)"
  from materialize_call_Inr(3) [OF s(2) assms(3) out] obtain v
    where v: "(prj_field out, v) \<in> entries_of results call" "custom_of s0 (prj_field out) = None"
      "custom_of s1 (prj_field out) = Some v" by blast
  have "custom_of ctx (prj_field out) = None"
    using extends_custom [OF s(1)] v(2) by (cases "custom_of ctx (prj_field out)") auto
  then show "\<exists>v. (prj_field out, v) \<in> entries_of results call \<and> custom_of ctx (prj_field out) = None
      \<and> custom_of ctx' (prj_field out) = Some v"
    using v extends_custom [OF s(3)] by blast
qed

text \<open>Two required calls that project the same field cannot both be written.\<close>

lemma materialize_clash:
  assumes mat: "materialize_v2 ctx (xs @ c1 # ys @ c2 # zs) results = Inr ctx'"
    and req: "\<not> pc_optional c1" "\<not> pc_optional c2"
    and outs: "out1 \<in> set (pc_outputs c1)" "out2 \<in> set (pc_outputs c2)" "prj_field out1 = prj_field out2"
  shows False
proof -
  from mat obtain s1 s2 s3 s4 where "materialize_call results s1 c1 = Inr s2"
    "rfold (materialize_call results) s2 ys = Inr s3" "materialize_call results s3 c2 = Inr s4"
    by (auto simp: materialize_v2_def rfold_append result_iff)
  then have "custom_of s3 (prj_field out1) \<noteq> None" "custom_of s3 (prj_field out2) = None"
    using materialize_call_Inr(3) [OF _ req(1) outs(1)] materialize_call_Inr(3) [OF _ req(2) outs(2)]
      extends_custom [OF calls.loop_grows] by fastforce+
  with outs(3) show False by simp
qed

end
