(* ===== verification/PipelineFacts.thy ===== *)
theory PipelineFacts
  imports PolicyFacts
begin

text \<open>
  Facts on the evaluation entry point: the stages a verdict goes through, what the loop over the bundles
  collects, and how the verdicts of the bundles show in the aggregate.
\<close>

section \<open>Aggregation\<close>

lemma aggregate_rank: "rank (aggregate vs) = Max (insert 0 (rank ` set vs))"
  using aggregate_loop_rank [of "[]" False False vs] by (simp add: aggregate_def)

lemma aggregate_bounds: "v \<in> set vs \<Longrightarrow> rank v \<le> rank (aggregate vs)"
  by (simp add: aggregate_rank)

lemma aggregate_Pass: "aggregate vs = Pass \<longleftrightarrow> (\<forall>v \<in> set vs. v = Pass)"
proof -
  have "rank (aggregate vs) \<le> 0 \<longleftrightarrow> (\<forall>v \<in> set vs. rank v \<le> 0)"
    unfolding aggregate_rank by (subst Max_le_iff) auto
  then show ?thesis by simp
qed

lemma aggregate_failure: "v \<in> set vs \<Longrightarrow> is_failure v \<Longrightarrow> is_failure (aggregate vs)"
proof -
  assume "v \<in> set vs" "is_failure v"
  then have "2 \<le> rank (aggregate vs)" using aggregate_bounds rank_facts(2) by metis
  then have "rank (aggregate vs) = 2" using rank_facts(3) by (rule antisym [rotated])
  then show ?thesis by simp
qed

section \<open>The stages\<close>

text \<open>The request an engine without a schema puts to the authoriser.\<close>

definition cedar_request ::
  "('uid, 'ents, 'cx, 'req, 'pol, 'pset, 'schema) cedar \<Rightarrow> lowered_action \<Rightarrow> json \<Rightarrow> json
     \<Rightarrow> policy_error + ('req \<times> 'ents)" where
  "cedar_request C la entities_json context_json =
     rbind (map_error EntityUidError (parse_uid C (la_principal la))) (\<lambda>p.
     rbind (map_error EntityUidError (parse_uid C (la_action_uid la))) (\<lambda>a.
     rbind (map_error EntityUidError (parse_uid C (la_resource la))) (\<lambda>r.
     rbind (map_error EntitiesError (entities_from_json C entities_json None)) (\<lambda>ents.
     rbind (map_error ContextError (context_from_json C context_json None)) (\<lambda>cx.
     rbind (map_error RequestError (request_new C p a r cx None)) (\<lambda>req. Inr (req, ents)))))))"

lemma evaluate_schemaless:
  assumes "eng_schema E = None"
  shows "evaluate C E (la_principal la) (la_action_uid la) (la_resource la) ents ctx =
     rbind (cedar_request C la ents ctx) (\<lambda>(req, es). Inr (verdict_of E (is_authorized C req (policy_set E) es)))"
  unfolding evaluate_def cedar_request_def assms by (simp add: rbind_assoc)

text \<open>An input that has been lowered, planned and materialised.\<close>

definition staged ::
  "('uid, 'ents, 'cx, 'req, 'pol, 'pset, 'schema) wasm_env \<Rightarrow> evaluate_action_input \<Rightarrow> lowered_action
     \<Rightarrow> json \<Rightarrow> bool" where
  "staged W input la ctx \<longleftrightarrow>
     wasm_lower (we_lower W) (eai_action input) (eai_meta input) (eai_tx input)
       (token_decimals_new (eai_token_decimals input)) (map_of (eai_account_leverage input))
       (eai_order_enrichment input) = Inr la
     \<and> (\<exists>planned. wasm_plan (map bi_manifest (eai_bundles input)) (eai_action input) la (eai_tx input) = Inr planned
          \<and> materialize_v2 (la_context la) planned (eai_results input) = Inr ctx)"

lemma staged_unique: "staged W input la ctx \<Longrightarrow> staged W input la' ctx' \<Longrightarrow> la' = la \<and> ctx' = ctx"
  by (auto simp: staged_def)

lemma system_fail_failure: "system_fail_verdict e = Some v \<Longrightarrow> is_failure v"
  by (cases e) auto

lemma evaluate_input_staged:
  assumes "evaluate_input W input = Inr v" "\<not> is_failure v"
  shows "\<exists>la ctx. staged W input la ctx
           \<and> evaluate_matching_bundles W (eai_bundles input) (eai_action input) (eai_tx input) la ctx = Inr v"
proof -
  from assms(1) obtain la planned where lower: "wasm_lower (we_lower W) (eai_action input) (eai_meta input)
      (eai_tx input) (token_decimals_new (eai_token_decimals input)) (map_of (eai_account_leverage input))
      (eai_order_enrichment input) = Inr la"
    and plan: "wasm_plan (map bi_manifest (eai_bundles input)) (eai_action input) la (eai_tx input) = Inr planned"
    by (auto simp: evaluate_input_def result_iff)
  show ?thesis
  proof (cases "materialize_v2 (la_context la) planned (eai_results input)")
    case (Inl e)
    then have "is_failure v"
      using assms(1) lower plan system_fail_failure [of e v]
      by (auto simp: evaluate_input_def split: option.splits)
    with assms(2) show ?thesis by simp
  next
    case (Inr ctx)
    then show ?thesis using assms(1) lower plan by (auto simp: evaluate_input_def staged_def)
  qed
qed

lemma staged_evaluate:
  assumes "staged W input la ctx"
  shows "evaluate_input W input
    = evaluate_matching_bundles W (eai_bundles input) (eai_action input) (eai_tx input) la ctx"
  using assms by (auto simp: staged_def evaluate_input_def)

text \<open>A failing value at the boundary.\<close>

fun dto_failure :: "verdict_dto \<Rightarrow> bool" where
  "dto_failure (DtoFail _) = True"
| "dto_failure _ = False"

lemma verdict_to_dto_failure [simp]: "dto_failure (verdict_to_dto v) \<longleftrightarrow> is_failure v"
  by (cases v) auto

lemma verdict_to_dto_Pass [simp]: "verdict_to_dto v = DtoPass \<longleftrightarrow> v = Pass"
  by (cases v) auto

lemma engine_error_failure [simp]: "dto_failure (engine_error_verdict e)" "engine_error_verdict e \<noteq> DtoPass"
  by (simp_all add: engine_error_verdict_def Let_def)

lemma evaluate_action_cases:
  "(\<exists>input. we_read_evaluate W j = Inr input \<and> length j \<le> max_wasm_input_json_len
       \<and> evaluate_action_v2 W j = (case evaluate_input W input of Inr v \<Rightarrow> verdict_to_dto v | Inl e \<Rightarrow> engine_error_verdict e))
   \<or> (dto_failure (evaluate_action_v2 W j)
       \<and> (max_wasm_input_json_len < length j \<or> (\<exists>e. we_read_evaluate W j = Inl e)))"
  by (cases "we_read_evaluate W j") (auto simp: evaluate_action_v2_def check_input_size_def not_less)

lemma evaluate_action_Pass:
  assumes "we_read_evaluate W j = Inr input" "evaluate_action_v2 W j = DtoPass"
  shows "evaluate_input W input = Inr Pass"
  using evaluate_action_cases [of W j] assms
  by (cases "evaluate_input W input") (auto dest: sym)

lemma evaluate_action_failure:
  assumes "we_read_evaluate W j = Inr input" "\<And>v. evaluate_input W input = Inr v \<Longrightarrow> is_failure v"
  shows "dto_failure (evaluate_action_v2 W j)"
  using evaluate_action_cases [of W j] assms by (auto split: sum.splits)

section \<open>The loop over the bundles\<close>

definition selected :: "action_body \<Rightarrow> tx_input \<Rightarrow> bundle_input \<Rightarrow> bool" where
  "selected act tx b \<longleftrightarrow> in_scope (trg_scope (man_trigger (bi_manifest b))) act
     \<and> evaluate_trigger (man_trigger (bi_manifest b)) (body_view act) (tx_view_of tx)"

lemma bundle_step_Inr:
  assumes "bundle_step W act tx la ctx vs b = Inr vs'"
  shows "set vs \<subseteq> set vs'"
    and "selected act tx b \<Longrightarrow> \<exists>schema v. compose_per_policy (we_schema W) (bi_manifest b) = Inr schema
           \<and> run_bundle W tx la ctx b schema = Inr v \<and> v \<in> set vs'"
  using assms by (auto simp: bundle_step_def selected_def result_iff split: if_splits)

interpretation bundles: growing_loop "bundle_step W act tx la ctx" "\<lambda>s t. set s \<subseteq> set t" for W act tx la ctx
  by unfold_locales (use bundle_step_Inr(1) in \<open>auto dest: bundle_step_Inr(1)\<close>)

lemma selected_bundle_runs:
  assumes "evaluate_matching_bundles W bs act tx la ctx = Inr v" "b \<in> set bs" "selected act tx b"
  shows "\<exists>schema vb vs. compose_per_policy (we_schema W) (bi_manifest b) = Inr schema
           \<and> run_bundle W tx la ctx b schema = Inr vb \<and> vb \<in> set vs \<and> v = aggregate vs"
proof -
  obtain vs where vs: "rfold (bundle_step W act tx la ctx) [] bs = Inr vs" "v = aggregate vs"
    using assms(1) by (auto simp: evaluate_matching_bundles_def result_iff)
  from bundles.loop_visits [OF vs(1) assms(2)] obtain s0 s1
    where s: "bundle_step W act tx la ctx s0 b = Inr s1" "set s1 \<subseteq> set vs" by blast
  from bundle_step_Inr(2) [OF s(1) assms(3)] s(2) vs(2) show ?thesis by blast
qed

text \<open>What one bundle's run amounts to, under the promises of the Cedar library.\<close>

lemma run_bundle_request:
  assumes laws: "set_laws (we_cedar W)" and parsed: "parse_laws (we_cedar W) forbids oc [(bi_policy b, schema)] own"
    and run: "run_bundle W tx la ctx b schema = Inr v"
  shows "\<exists>E req ents. build_from_per_policy (we_cedar W) [(bi_policy b, schema)] = Inr E
           \<and> cedar_request (we_cedar W) la (wasm_entities tx) ctx = Inr (req, ents)
           \<and> v = verdict_of E (is_authorized (we_cedar W) req (policy_set E) ents)"
proof -
  obtain E where E: "build_from_per_policy (we_cedar W) [(bi_policy b, schema)] = Inr E"
    and ev: "evaluate (we_cedar W) E (la_principal la) (la_action_uid la) (la_resource la) (wasm_entities tx) ctx = Inr v"
    using run by (auto simp: run_bundle_def result_iff)
  have "eng_schema E = None" by (rule per_policy_engine(1) [OF laws parsed E])
  with ev show ?thesis by (auto simp: evaluate_schemaless result_iff E)
qed

lemma run_bundle_Pass:
  assumes laws: "set_laws (we_cedar W)" "answer_laws (we_cedar W) forbids oc"
    and parsed: "parse_laws (we_cedar W) forbids oc [(bi_policy b, schema)] own"
    and run: "run_bundle W tx la ctx b schema = Inr Pass"
  shows "\<exists>req ents. cedar_request (we_cedar W) la (wasm_entities tx) ctx = Inr (req, ents)
           \<and> (\<forall>p \<in> set own. oc p req ents \<noteq> Errs) \<and> firing forbids oc own req ents = {}"
proof -
  from run_bundle_request [OF laws(1) parsed run] obtain E req ents
    where E: "build_from_per_policy (we_cedar W) [(bi_policy b, schema)] = Inr E"
      and req: "cedar_request (we_cedar W) la (wasm_entities tx) ctx = Inr (req, ents)"
      and v: "Pass = verdict_of E (is_authorized (we_cedar W) req (policy_set E) ents)" by blast
  have clean: "\<forall>p \<in> set own. oc p req ents \<noteq> Errs"
    using verdict_of_error [OF laws parsed E, of _ req ents] v by (metis is_failure.simps(2))
  then have "firing forbids oc own req ents = {}" using verdict_of_firing(1) [OF laws parsed E clean] v by simp
  with req clean show ?thesis by blast
qed

text \<open>When a policy of the bundle errs, or a deny-tagged forbid of it applies, the run fails.\<close>

definition objects ::
  "('uid, 'ents, 'cx, 'req, 'pol, 'pset, 'schema) cedar \<Rightarrow> ('pol \<Rightarrow> bool)
     \<Rightarrow> ('pol \<Rightarrow> 'req \<Rightarrow> 'ents \<Rightarrow> outcome) \<Rightarrow> 'req \<Rightarrow> 'ents \<Rightarrow> 'pol \<Rightarrow> bool" where
  "objects C forbids oc req ents p \<longleftrightarrow>
     oc p req ents = Errs \<or> (forbids p \<and> oc p req ents = Applies \<and> policy_severity C p = Some SevDeny)"

lemma run_bundle_objects:
  assumes laws: "set_laws (we_cedar W)" "answer_laws (we_cedar W) forbids oc"
    and parsed: "parse_laws (we_cedar W) forbids oc [(bi_policy b, schema)] own"
    and run: "run_bundle W tx la ctx b schema = Inr v"
    and req: "cedar_request (we_cedar W) la (wasm_entities tx) ctx = Inr (req, ents)"
    and p: "p \<in> set own" "objects (we_cedar W) forbids oc req ents p"
  shows "is_failure v"
proof -
  from run_bundle_request [OF laws(1) parsed run] req obtain E
    where E: "build_from_per_policy (we_cedar W) [(bi_policy b, schema)] = Inr E"
      and v: "v = verdict_of E (is_authorized (we_cedar W) req (policy_set E) ents)" by auto
  show ?thesis
  proof (cases "\<exists>q \<in> set own. oc q req ents = Errs")
    case True
    then show ?thesis using verdict_of_error [OF laws parsed E] v by blast
  next
    case False
    then have clean: "\<forall>q \<in> set own. oc q req ents \<noteq> Errs" by blast
    have "p \<in> firing forbids oc own req ents" "policy_severity (we_cedar W) p = Some SevDeny"
      using p clean by (auto simp: firing_def objects_def)
    then show ?thesis using verdict_of_firing(2) [OF laws parsed E clean] v by blast
  qed
qed

end
