(* ===== verification/PolicyFixtures.thy ===== *)
theory PolicyFixtures
  imports PipelineFacts Fixtures
begin

text \<open>
  A small policy library that keeps the promises of \<open>EngineFacts\<close>, a bundle and an action, at which the
  properties of the policy pipeline are instantiated. Nothing here models code.
\<close>

record demo_policy =
  dp_id :: string
  dp_annotations :: "(string \<times> string) list"
  dp_forbid :: bool
  dp_when :: "json \<Rightarrow> outcome"

type_synonym demo_cedar = "(string, json, json, json, demo_policy, demo_policy list, string) cedar"

definition demo_baseline :: demo_policy where
  "demo_baseline = \<lparr>dp_id = ''policy0'', dp_annotations = [(''id'', ''engine/baseline-allow'')], dp_forbid = False,
     dp_when = (\<lambda>_. Applies)\<rparr>"

definition demo_authorized :: "json \<Rightarrow> demo_policy list \<Rightarrow> json \<Rightarrow> cedar_response" where
  "demo_authorized req ps ents =
     (let hits = filter (\<lambda>p. dp_when p req = Applies) ps; fs = filter dp_forbid hits
      in \<lparr>decision = (if fs = [] \<and> hits \<noteq> [] then Allow else Deny),
          reason_ids = map dp_id (if fs = [] then hits else fs),
          eval_errors = map dp_id (filter (\<lambda>p. dp_when p req = Errs) ps)\<rparr>)"

definition demo_cedar :: "demo_policy list \<Rightarrow> demo_cedar" where
  "demo_cedar own =
     \<lparr>parse_uid = Inr, entities_from_json = (\<lambda>j _. Inr j), context_from_json = (\<lambda>j _. Inr j),
      request_new = (\<lambda>p a r cx _. Inr cx), is_authorized = demo_authorized, schema_from_str = Inr,
      policies_from_str = (\<lambda>t. Inr (if starts_with t baseline_permit then demo_baseline # own else own)),
      set_policies = (\<lambda>ps. ps), set_new = [],
      set_add = (\<lambda>p ps. if dp_id p \<in> dp_id ` set ps then Inl ''duplicate id'' else Inr (p # ps)),
      pol_id = dp_id, pol_new_id = (\<lambda>i p. p\<lparr>dp_id := i\<rparr>),
      pol_annotation = (\<lambda>p k. map_of (dp_annotations p) k), validation_errors = (\<lambda>_ _. [])\<rparr>"

abbreviation demo_outcome :: "demo_policy \<Rightarrow> json \<Rightarrow> json \<Rightarrow> outcome" where
  "demo_outcome p req ents \<equiv> dp_when p req"

lemma demo_set_laws: "set_laws (demo_cedar own)"
  by (auto simp: set_laws_def demo_cedar_def split: if_splits)

lemma demo_answer_laws: "answer_laws (demo_cedar own) dp_forbid demo_outcome"
  by (auto simp: answer_laws_def demo_cedar_def demo_authorized_def Let_def filter_empty_conv fun_eq_iff)

lemma assembled_start: "starts_with (per_policy_text bundles) baseline_permit"
proof -
  have "starts_with (p @ s) p" for p s by (simp add: starts_with_def)
  then show ?thesis unfolding per_policy_text_def by blast
qed

lemma demo_parse_laws: "parse_laws (demo_cedar own) dp_forbid demo_outcome bundles own"
proof -
  have start: "starts_with (per_policy_text bundles) baseline_permit"
    by (rule assembled_start)
  have parsed: "policies_from_str (demo_cedar own) (per_policy_text bundles) = Inr (demo_baseline # own)"
    by (simp add: demo_cedar_def start)
  show ?thesis
    unfolding parse_laws_def parsed by (auto intro!: exI [of _ demo_baseline] simp: demo_cedar_def demo_baseline_def)
qed

text \<open>One deny-tagged forbid: it applies when the host reports the action as risky.\<close>

definition risk_policy :: demo_policy where
  "risk_policy =
     \<lparr>dp_id = ''policy1'', dp_annotations = [(''id'', ''no-risk''), (''severity'', ''deny'')], dp_forbid = True,
      dp_when = (\<lambda>ctx. case custom_of ctx ''risky'' of
                    None \<Rightarrow> Errs | Some v \<Rightarrow> if v = JBool True then Applies else Skips)\<rparr>"

definition risk_spec :: call_spec where
  "risk_spec =
     \<lparr>spec_id = ''risk'', spec_method = ''risk.score'', spec_params = [],
      spec_outputs = [\<lparr>prj_kind = ''context'', prj_field = ''risky'', prj_type = ProjBool, prj_from = ''$.result'',
                       prj_required = True\<rparr>],
      spec_optional = False\<rparr>"

definition risk_manifest :: manifest where
  "risk_manifest =
     \<lparr>man_id = ''m'', schema_version = 2,
      man_trigger = \<lparr>trg_scope = ScopeInner, trg_where = [(ActionDomain, ConEq ''unknown'')]\<rparr>,
      man_rpc = [risk_spec], custom_fields = []\<rparr>"

definition risk_bundle :: bundle_input where
  "risk_bundle = \<lparr>bi_policy = ''forbid'', bi_manifest = risk_manifest\<rparr>"

definition demo_meta :: action_meta where
  "demo_meta = \<lparr>submitted_at = 1, submitter = alice,
     nature = OffchainSig \<lparr>dom_name = ''D'', dom_version = None, dom_chain_id = None, verifying_contract = None,
       dom_salt = None\<rparr> 2 None\<rparr>"

definition demo_input :: "(string \<rightharpoonup> json) \<Rightarrow> evaluate_action_input" where
  "demo_input results =
     \<lparr>eai_action = UnknownCall router ethereum_mainnet ''0x'' 0, eai_meta = demo_meta,
      eai_tx = tx_input_of ''eip155:1'' ''0xA1'' ''0xB2'', eai_bundles = [risk_bundle], eai_results = results,
      eai_token_decimals = [], eai_account_leverage = [], eai_order_enrichment = order_enrichment_default\<rparr>"

definition demo_env ::
  "evaluate_action_input \<Rightarrow> (string, json, json, json, demo_policy, demo_policy list, string) wasm_env" where
  "demo_env input =
     \<lparr>we_cedar = demo_cedar [risk_policy], we_schema = (\<lambda>_. []),
      we_lower = \<lparr>le_nonce_text = (\<lambda>_. None), le_u256_of = (\<lambda>_. None)\<rparr>,
      we_read_plan = (\<lambda>_. Inl ''no plan''), we_read_evaluate = (\<lambda>_. Inr input)\<rparr>"

lemma demo_env_sel [simp]:
  "we_cedar (demo_env input) = demo_cedar [risk_policy]" "we_read_evaluate (demo_env input) j = Inr input"
  by (simp_all add: demo_env_def)

lemma demo_env_schema [simp]: "we_schema (demo_env input) = (\<lambda>_. [])"
  by (simp add: demo_env_def)

lemma demo_input_sel [simp]:
  "eai_action (demo_input r) = UnknownCall router ethereum_mainnet ''0x'' 0" "eai_bundles (demo_input r) = [risk_bundle]"
  "eai_tx (demo_input r) = tx_input_of ''eip155:1'' ''0xA1'' ''0xB2''" "eai_results (demo_input r) = r"
  by (simp_all add: demo_input_def)

lemma demo_selected: "selected (UnknownCall router ethereum_mainnet ''0x'' 0) tx risk_bundle"
  by (simp add: selected_def risk_bundle_def risk_manifest_def in_scope_def evaluate_trigger_def matches_field_def)

abbreviation safe_results :: "string \<rightharpoonup> json" where
  "safe_results \<equiv> [''m::risk'' \<mapsto> JBool False]"

abbreviation risky_results :: "string \<rightharpoonup> json" where
  "risky_results \<equiv> [''m::risk'' \<mapsto> JBool True]"

lemma demo_schema: "compose_per_policy (\<lambda>_. []) risk_manifest = Inr []"
proof -
  have step: "merge_step ([], []) [] = ([], [])"
    by (simp add: merge_step_def split_top_level_and_namespaces_def trim_ws_def)
  have "foldl merge_step ([], []) (map (\<lambda>e. []) es) = ([], [])" for es :: "action_entry list"
    by (induction es) (simp_all add: step)
  then show ?thesis
    by (simp add: compose_per_policy_def merge_namespace_blocks_def step risk_manifest_def)
qed

definition demo_engine :: "(demo_policy list, string) policy_engine" where
  "demo_engine =
     \<lparr>policy_set = [risk_policy\<lparr>dp_id := ''no-risk''\<rparr>, demo_baseline\<lparr>dp_id := ''engine/baseline-allow''\<rparr>],
      eng_schema = None, severities = [''no-risk'' \<mapsto> SevDeny], reasons = Map.empty\<rparr>"

lemma demo_build: "build_from_per_policy (demo_cedar [risk_policy]) [(''forbid'', [])] = Inr demo_engine"
proof -
  have "starts_with (per_policy_text [(''forbid'', [])]) baseline_permit"
    by (rule assembled_start)
  then show ?thesis
    by (simp add: build_from_per_policy_def validate_bundle_def validate_policy_set_def ingest_all_def demo_cedar_def)
      (simp add: ingest_policy_def demo_baseline_def risk_policy_def parse_severity_def Let_def demo_engine_def)
qed

lemmas demo_stage_simps = wasm_lower_def lower_action_enriched_def lower_unknown_def wasm_plan_def
  plan_policy_rpc_v2_def plan_manifest_def risk_manifest_def risk_bundle_def risk_spec_def manifest_validate_def
  manifest_v2_schema_version_def check_call_def evaluate_trigger_def matches_field_def plan_spec_def planned_of_def
  policy_rpc_call_id_v2_def materialize_v2_def materialize_call_def apply_call_outputs_def apply_output_def
  projected_def resolve_selector_def starts_with_def selector_root_def result_roots_def insert_custom_field_def

lemma demo_staged:
  "\<exists>la ctx. staged (demo_env (demo_input [''m::risk'' \<mapsto> JBool b])) (demo_input [''m::risk'' \<mapsto> JBool b]) la ctx
     \<and> custom_of ctx ''risky'' = Some (JBool b)"
  unfolding staged_def by (simp add: demo_stage_simps) (simp add: lowered_def custom_of_def)

lemma demo_verdict:
  assumes "custom_of ctx ''risky'' = Some (JBool b)"
  shows "verdict_of demo_engine (is_authorized (demo_cedar [risk_policy]) ctx (policy_set demo_engine) ents) =
    (if b then Fail [\<lparr>policy_id = ''no-risk'', mp_reason = None, mp_severity = SevDeny, mp_origin = OriginAction\<rparr>]
     else Pass)"
  using assms
  by (simp add: verdict_of_def demo_engine_def demo_cedar_def demo_authorized_def risk_policy_def demo_baseline_def
      decide_def matched_of_def List.map_filter_simps)

lemma demo_request: "cedar_request (demo_cedar own) la ents ctx = Inr (ctx, ents)"
  by (simp add: cedar_request_def demo_cedar_def)

lemma demo_run:
  assumes "custom_of ctx ''risky'' = Some (JBool False)"
  shows "run_bundle (demo_env i) tx la ctx risk_bundle [] = Inr Pass"
proof -
  have "eng_schema demo_engine = None" by (simp add: demo_engine_def)
  then show ?thesis
    using demo_verdict [OF assms]
    by (simp add: run_bundle_def risk_bundle_def demo_build evaluate_schemaless demo_request)
qed

lemma demo_pass: "evaluate_action_v2 (demo_env (demo_input safe_results)) [] = DtoPass"
proof -
  let ?i = "demo_input safe_results"
  obtain la ctx where st: "staged (demo_env ?i) ?i la ctx" and c: "custom_of ctx ''risky'' = Some (JBool False)"
    using demo_staged by blast
  have valid: "manifest_validate risk_manifest = Inr ()" and man: "bi_manifest risk_bundle = risk_manifest"
    by (simp_all add: demo_stage_simps)
  have "evaluate_input (demo_env ?i) ?i = Inr (aggregate [Pass])"
    unfolding staged_evaluate [OF st] using demo_selected
    by (simp add: evaluate_matching_bundles_def bundle_step_def selected_def valid man demo_schema demo_run [OF c])
  then show ?thesis
    by (simp add: evaluate_action_v2_def check_input_size_def max_wasm_input_json_len_def aggregate_def)
qed

section \<open>A schema file\<close>

text \<open>\<^verbatim>\<open>actions/unknown.cedarschema\<close> without the fields of its context and the comment above it.\<close>

definition unknown_body :: string where
  "unknown_body = newline @ ''  type UnknownCustomContext = {};'' @ newline @ newline
     @ ''  action \"Unknown\" appliesTo {'' @ newline @ ''    principal: Wallet,'' @ newline @ ''  };'' @ newline"

definition unknown_files :: "string \<Rightarrow> string" where
  "unknown_files c =
     (if c = ''CORE_UNKNOWN_SCHEMA'' then ''namespace Core {'' @ unknown_body @ ''}'' @ newline else [])"

lemma unknown_file_block:
  "(''Core'', unknown_body) \<in> set (schema_blocks (unknown_files ''CORE_UNKNOWN_SCHEMA''))"
  "text_contains unknown_body (action_declaration ''Unknown'')"
proof -
  have "namespace_header (unknown_files ''CORE_UNKNOWN_SCHEMA'') = Some (''Core'', unknown_body @ ''}'' @ newline)"
    by (simp add: namespace_header_def unknown_files_def unknown_body_def starts_with_def ascii_whitespace_def
        ident_char_def ascii_alnum_def Let_def)
  moreover have "find_matching_close_brace (unknown_body @ ''}'' @ newline) = Some (length unknown_body)"
    by (simp add: find_matching_close_brace_def unknown_body_def starts_with_def)
  moreover have "unknown_files ''CORE_UNKNOWN_SCHEMA''
      = CHR ''n'' # (''amespace Core {'' @ unknown_body @ ''}'' @ newline)"
    by (simp add: unknown_files_def)
  moreover have "split_loop [] bs newline = (push_byte ch_newline, bs)" for bs
    by (simp add: namespace_header_def starts_with_def)
  ultimately show "(''Core'', unknown_body) \<in> set (schema_blocks (unknown_files ''CORE_UNKNOWN_SCHEMA''))"
    by (simp add: schema_blocks_def split_top_level_and_namespaces_def starts_with_def del: append_Cons)
  show "text_contains unknown_body (action_declaration ''Unknown'')"
    by (simp add: text_contains_def unknown_body_def action_declaration_def starts_with_def)
qed

lemma unknown_row:
  assumes "e \<in> set (matched_entries t)" "ent_domain e = ''unknown''"
  shows "ent_schema e = ''CORE_UNKNOWN_SCHEMA''" "pascal_stub e = ''Unknown''"
proof -
  have "list_all (\<lambda>e. if ent_domain e = ''unknown'' then ent_schema e = ''CORE_UNKNOWN_SCHEMA'' \<and> pascal_stub e = ''Unknown''
      else True) resolver_table"
    by (simp add: resolver_table_def rows_multicall_def rows_unknown_def rows_bridge_def rows_airdrop_def
        rows_governance_def rows_amm_def rows_lending_def rows_liquid_staking_def rows_yield_def rows_launchpad_def
        rows_perp_def rows_permission_def rows_restaking_def rows_staking_def rows_marketplace_def rows_token_def
        rows_hyperliquid_core_def)
  moreover have "e \<in> set resolver_table" using assms(1) by (auto simp: matched_entries_def Let_def)
  ultimately show "ent_schema e = ''CORE_UNKNOWN_SCHEMA''" "pascal_stub e = ''Unknown''"
    using assms(2) by (auto simp: list_all_iff)
qed

end
