(* ===== verification/PolicyProperties.thy ===== *)
theory PolicyProperties
  imports PolicyFixtures "HOL-Library.Multiset"
begin

text \<open>
  The properties of the policy pipeline: what a verdict means for the installed policies, what blocks an
  action, what planning and materialisation do to the context, and how actions, triggers and schemas fit.
\<close>

section \<open>Verdicts\<close>

text \<open>C1. When the evaluation of an action passes, every installed bundle that is in scope and triggered was
  lowered, planned and enriched, its request could be built, none of its policies failed to evaluate and none
  of its forbids applies. (The hypotheses on the Cedar library are its documented behaviour; \<open>own\<close> are the
  policies of the bundle's text.)\<close>

theorem pass_means_unforbidden:
  assumes laws: "set_laws (we_cedar W)" "answer_laws (we_cedar W) forbids oc"
    and parsed: "\<And>schema. parse_laws (we_cedar W) forbids oc [(bi_policy b, schema)] own"
    and read: "we_read_evaluate W j = Inr input"
    and pass: "evaluate_action_v2 W j = DtoPass"
    and b: "b \<in> set (eai_bundles input)" "selected (eai_action input) (eai_tx input) b"
  shows "\<exists>la ctx req ents. staged W input la ctx
      \<and> cedar_request (we_cedar W) la (wasm_entities (eai_tx input)) ctx = Inr (req, ents)
      \<and> (\<forall>p \<in> set own. oc p req ents \<noteq> Errs) \<and> firing forbids oc own req ents = {}"
proof -
  obtain la ctx where st: "staged W input la ctx"
    and ev: "evaluate_matching_bundles W (eai_bundles input) (eai_action input) (eai_tx input) la ctx = Inr Pass"
    using evaluate_input_staged [OF evaluate_action_Pass [OF read pass]] by auto
  from selected_bundle_runs [OF ev b] obtain schema v vs
    where run: "run_bundle W (eai_tx input) la ctx b schema = Inr v" and v: "v \<in> set vs" "Pass = aggregate vs"
    by blast
  have "v = Pass" using v aggregate_Pass by metis
  from run_bundle_Pass [OF laws parsed run [unfolded this]] st show ?thesis by blast
qed

lemma pass_means_unforbidden_witness:
  "\<exists>la ctx req ents. staged (demo_env (demo_input safe_results)) (demo_input safe_results) la ctx
      \<and> cedar_request (demo_cedar [risk_policy]) la (wasm_entities (tx_input_of ''eip155:1'' ''0xA1'' ''0xB2'')) ctx
          = Inr (req, ents)
      \<and> (\<forall>p \<in> set [risk_policy]. demo_outcome p req ents \<noteq> Errs)
      \<and> firing dp_forbid demo_outcome [risk_policy] req ents = {}"
  using pass_means_unforbidden [OF _ _ _ _ demo_pass, of dp_forbid demo_outcome risk_bundle "[risk_policy]"]
    demo_set_laws demo_answer_laws demo_parse_laws demo_selected by simp

text \<open>C2. An action is blocked as soon as one bundle in scope and triggered objects to it: a policy of the
  bundle fails to evaluate on the action's request, or a forbid tagged as deny applies. No other bundle, and no
  error elsewhere, turns the answer into a pass or a warning.\<close>

theorem objecting_policy_blocks:
  assumes laws: "set_laws (we_cedar W)" "answer_laws (we_cedar W) forbids oc"
    and parsed: "\<And>schema. parse_laws (we_cedar W) forbids oc [(bi_policy b, schema)] own"
    and read: "we_read_evaluate W j = Inr input"
    and b: "b \<in> set (eai_bundles input)" "selected (eai_action input) (eai_tx input) b"
    and st: "staged W input la ctx"
    and req: "cedar_request (we_cedar W) la (wasm_entities (eai_tx input)) ctx = Inr (req, ents)"
    and p: "p \<in> set own" "objects (we_cedar W) forbids oc req ents p"
  shows "dto_failure (evaluate_action_v2 W j)"
proof (rule evaluate_action_failure [OF read])
  fix v
  assume "evaluate_input W input = Inr v"
  then have ev: "evaluate_matching_bundles W (eai_bundles input) (eai_action input) (eai_tx input) la ctx = Inr v"
    using staged_evaluate [OF st] by simp
  from selected_bundle_runs [OF ev b] obtain schema vb vs
    where run: "run_bundle W (eai_tx input) la ctx b schema = Inr vb" and v: "vb \<in> set vs" "v = aggregate vs"
    by blast
  from run_bundle_objects [OF laws parsed run req p] show "is_failure v" using v aggregate_failure by blast
qed

lemma objecting_policy_blocks_witness: "dto_failure (evaluate_action_v2 (demo_env (demo_input risky_results)) [])"
proof -
  let ?i = "demo_input risky_results"
  obtain la ctx where st: "staged (demo_env ?i) ?i la ctx" and c: "custom_of ctx ''risky'' = Some (JBool True)"
    using demo_staged by blast
  have p: "objects (we_cedar (demo_env ?i)) dp_forbid demo_outcome ctx ents risk_policy" for ents
    using c by (simp add: objects_def policy_severity_def demo_cedar_def) (simp add: risk_policy_def)
  have req: "cedar_request (we_cedar (demo_env ?i)) la ents ctx = Inr (ctx, ents)" for ents
    by (simp add: demo_request)
  show ?thesis
    by (rule objecting_policy_blocks [OF _ _ _ demo_env_sel(2) _ _ st req _ p, where b = risk_bundle and own = "[risk_policy]"])
      (simp_all add: demo_set_laws demo_answer_laws demo_parse_laws demo_selected)
qed

text \<open>C3. The pipeline fails closed: when the trigger of an installed bundle matches the action and a
  non-optional call of its manifest has no result, the action is blocked, whatever the policies say, also when
  the scope of the bundle excludes the action.\<close>

theorem missing_result_blocks:
  assumes read: "we_read_evaluate W j = Inr input"
    and b: "b \<in> set (eai_bundles input)"
      "evaluate_trigger (man_trigger (bi_manifest b)) (body_view (eai_action input)) (tx_view_of (eai_tx input))"
    and spec: "spec \<in> set (man_rpc (bi_manifest b))" "\<not> spec_optional spec"
    and missing: "eai_results input (policy_rpc_call_id_v2 (man_id (bi_manifest b)) (spec_id spec)) = None"
  shows "dto_failure (evaluate_action_v2 W j)"
proof (rule evaluate_action_failure [OF read], rule ccontr)
  fix v
  assume ev: "evaluate_input W input = Inr v" "\<not> is_failure v"
  from evaluate_input_staged [OF ev] obtain la :: lowered_action and ctx planned
    where plan: "plan_policy_rpc_v2 (map bi_manifest (eai_bundles input)) (body_view (eai_action input))
        (la_context la) (tx_view_of (eai_tx input)) = Inr planned"
      and mat: "materialize_v2 (la_context la) planned (eai_results input) = Inr ctx"
    unfolding staged_def wasm_plan_def map_error_iff by blast
  from required_is_planned [OF plan _ b(2) spec] b(1) obtain call where "call \<in> set planned"
    "pc_call_id call = policy_rpc_call_id_v2 (man_id (bi_manifest b)) (spec_id spec)" "\<not> pc_optional call"
    by auto
  then show False using materialize_required(1) [OF mat] missing by metis
qed

lemma missing_result_blocks_witness: "dto_failure (evaluate_action_v2 (demo_env (demo_input Map.empty)) [])"
  by (rule missing_result_blocks [OF demo_env_sel(2), where b = risk_bundle and spec = risk_spec])
    (simp_all add: risk_bundle_def risk_manifest_def risk_spec_def evaluate_trigger_def matches_field_def)

text \<open>C15. The verdict of one compiled bundle whose policies all evaluate: it passes exactly when none of its
  forbids applies; otherwise it fails when an applying forbid is tagged deny or when no applying forbid has a
  severity tag, and it only warns in the remaining case, when some carry the warn tag and none is tagged deny.
  So a warning hides a forbid without a tag.\<close>

theorem bundle_verdict:
  assumes laws: "set_laws C" "answer_laws C forbids oc"
    and parsed: "parse_laws C forbids oc bundles own"
    and built: "build_from_per_policy C bundles = Inr E"
    and clean: "\<forall>p \<in> set own. oc p req ents \<noteq> Errs"
  shows "rank (verdict_of E (is_authorized C req (policy_set E) ents)) =
    (let fs = firing forbids oc own req ents in
     if fs = {} then 0
     else if (\<exists>p \<in> fs. policy_severity C p = Some SevDeny) \<or> (\<forall>p \<in> fs. policy_severity C p = None) then 2
     else 1)"
proof -
  define v where "v = verdict_of E (is_authorized C req (policy_set E) ents)"
  note facts = verdict_of_firing [OF laws parsed built clean, folded v_def]
  have "rank v = 1" if "v \<noteq> Pass" "\<not> is_failure v" using that by (cases v) auto
  then show ?thesis unfolding v_def [symmetric] Let_def using facts by (cases v) auto
qed

lemma bundle_verdict_witness:
  "rank (verdict_of demo_engine (is_authorized (demo_cedar [risk_policy])
     (JObj [(''custom'', JObj [(''risky'', JBool True)])]) (policy_set demo_engine) JNull)) = 2"
proof -
  let ?req = "JObj [(''custom'', JObj [(''risky'', JBool True)])]"
  have fires: "dp_when risk_policy ?req = Applies" by (simp add: risk_policy_def custom_of_def)
  have fs: "firing dp_forbid demo_outcome [risk_policy] ?req JNull = {risk_policy}"
    using fires by (auto simp: firing_def) (simp add: risk_policy_def)
  have "policy_severity (demo_cedar [risk_policy]) risk_policy = Some SevDeny"
    by (simp add: policy_severity_def demo_cedar_def) (simp add: risk_policy_def)
  then show ?thesis
    using bundle_verdict [OF demo_set_laws demo_answer_laws demo_parse_laws demo_build, of ?req JNull] fires
    by (simp only: fs) (simp add: Let_def)
qed

text \<open>C20. Aggregation takes the worst of the verdicts and forgets no match: the rank of the aggregate is the
  maximum of the ranks, it lists exactly the matches of the verdicts, and the order of the verdicts only permutes
  them.\<close>

theorem aggregate_takes_worst:
  "rank (aggregate vs) = Max (insert 0 (rank ` set vs)) \<and> matched (aggregate vs) = concat (map matched vs)
   \<and> (mset vs' = mset vs \<longrightarrow>
        rank (aggregate vs') = rank (aggregate vs) \<and> mset (matched (aggregate vs')) = mset (matched (aggregate vs)))"
proof -
  have matched: "matched (aggregate vs) = concat (map matched vs)" for vs
  proof (cases "\<exists>v \<in> set vs. v \<noteq> Pass")
    case False
    then have "concat (map matched vs) = []" by auto
    with False show ?thesis by (simp only: aggregate_def aggregate_loop_matched) simp
  qed (auto simp: aggregate_def aggregate_loop_matched)
  have "mset (concat (map matched vs')) = mset (concat (map matched vs))" if "mset vs' = mset vs"
  proof -
    have "mset (concat (map matched ws)) = (\<Sum>v \<in># mset ws. mset (matched v))" for ws
      by (induction ws) auto
    then show ?thesis using that by simp
  qed
  moreover have "rank (aggregate vs') = rank (aggregate vs)" if "mset vs' = mset vs"
    using mset_eq_setD [OF that] by (simp add: aggregate_rank)
  ultimately show ?thesis using matched aggregate_rank by auto
qed

lemma aggregate_takes_worst_witness:
  "rank (aggregate [Pass, Warn [], Fail []]) = 2 \<and> rank (aggregate [Fail [], Pass, Warn []]) = rank (aggregate [Pass, Warn [], Fail []])"
  using aggregate_takes_worst [of "[Pass, Warn [], Fail []]" "[Fail [], Pass, Warn []]"]
  by (simp add: add_mset_commute)

section \<open>Planning and materialisation\<close>

text \<open>C18. Planning yields exactly the calls of the manifests whose trigger matches: a manifest that does not
  match contributes none, a matching one contributes each specification whose parameters resolve; every
  manifest is valid, and a required specification always contributes its call.\<close>

theorem plan_is_exact:
  assumes "plan_policy_rpc_v2 ms view ctx tx = Inr calls"
  shows "set calls = (\<Union>m \<in> {m \<in> set ms. evaluate_trigger (man_trigger m) view tx}.
             \<Union>spec \<in> set (man_rpc m). planned_for (planning_roots ctx tx) m spec)
    \<and> (\<forall>m \<in> set ms. manifest_validate m = Inr ()
         \<and> (evaluate_trigger (man_trigger m) view tx \<longrightarrow>
              (\<forall>spec \<in> set (man_rpc m). \<not> spec_optional spec \<longrightarrow> planned_for (planning_roots ctx tx) m spec \<noteq> {})))"
proof -
  have loop: "rfold (plan_manifest (planning_roots ctx tx) view tx) [] ms = Inr calls"
    using assms by (simp add: plan_policy_rpc_v2_def)
  have visited: "\<exists>s0 s1. plan_manifest (planning_roots ctx tx) view tx s0 m = Inr s1" if "m \<in> set ms" for m
    using plan_manifests.loop_visits [OF loop that] by blast
  show ?thesis
  proof (intro conjI ballI impI)
    show "set calls = (\<Union>m \<in> {m \<in> set ms. evaluate_trigger (man_trigger m) view tx}.
             \<Union>spec \<in> set (man_rpc m). planned_for (planning_roots ctx tx) m spec)"
      using plan_all [OF loop] by (auto simp: planned_by_def split: if_splits)
  qed (use visited plan_manifest_Inr(1,3) in blast)+
qed

lemma plan_is_exact_witness:
  "\<exists>calls. set calls = (\<Union>m \<in> {m \<in> set [risk_manifest]. evaluate_trigger (man_trigger m)
        (body_view (UnknownCall router ethereum_mainnet [] 0)) \<lparr>txv_chain_id = [], txv_from = [], txv_to = []\<rparr>}.
      \<Union>spec \<in> set (man_rpc m). planned_for (planning_roots (JObj []) \<lparr>txv_chain_id = [], txv_from = [], txv_to = []\<rparr>) m spec)"
proof -
  let ?tx = "\<lparr>txv_chain_id = [], txv_from = [], txv_to = []\<rparr>"
  obtain calls where "plan_policy_rpc_v2 [risk_manifest] (body_view (UnknownCall router ethereum_mainnet [] 0))
      (JObj []) ?tx = Inr calls"
    by (simp add: demo_stage_simps)
  from plan_is_exact [OF this] show ?thesis by blast
qed

text \<open>C19. Materialisation only adds: it leaves every entry of the context outside \<open>custom\<close> and every custom
  field that was there, each new custom field is the projection of an output of a planned call from that call's
  own result, and every output of a required call is written.\<close>

theorem materialize_is_exact:
  assumes "materialize_v2 ctx calls results = Inr ctx'"
  shows "extends ctx ctx'
    \<and> (\<forall>f v. custom_of ctx' f = Some v \<longrightarrow>
         custom_of ctx f = Some v \<or> (\<exists>call \<in> set calls. (f, v) \<in> entries_of results call))
    \<and> (\<forall>call \<in> set calls. \<not> pc_optional call \<longrightarrow> results (pc_call_id call) \<noteq> None
         \<and> (\<forall>out \<in> set (pc_outputs call). \<exists>v. (prj_field out, v) \<in> entries_of results call
              \<and> custom_of ctx (prj_field out) = None \<and> custom_of ctx' (prj_field out) = Some v))"
proof (intro conjI allI impI ballI)
  have loop: "rfold (materialize_call results) ctx calls = Inr ctx'" using assms by (simp add: materialize_v2_def)
  show "extends ctx ctx'" by (rule calls.loop_grows [OF loop])
  show "custom_of ctx f = Some v \<or> (\<exists>call \<in> set calls. (f, v) \<in> entries_of results call)"
    if "custom_of ctx' f = Some v" for f v by (rule materialize_origin [OF loop that])
qed (use materialize_required [OF assms] in blast)+

lemma materialize_is_exact_witness:
  "\<exists>ctx'. extends (JObj [(''meta'', JNull)]) ctx' \<and> custom_of ctx' ''risky'' = Some (JBool True)"
proof -
  let ?call = "planned_of risk_manifest risk_spec []"
  obtain ctx' where mat: "materialize_v2 (JObj [(''meta'', JNull)]) [?call] risky_results = Inr ctx'"
    by (simp add: demo_stage_simps)
  have "entries_of risky_results ?call = {(''risky'', JBool True)}"
    by (auto simp: entries_of_def demo_stage_simps)
  then show ?thesis using materialize_is_exact [OF mat] by (auto simp: planned_of_def risk_spec_def)
qed

text \<open>C21. Custom fields are shared between bundles: when two installed bundles are both triggered and each has
  a required call that projects a field of the same name, the action is blocked, whatever the results and the
  policies are.\<close>

theorem shared_field_blocks:
  assumes read: "we_read_evaluate W j = Inr input"
    and bundles: "eai_bundles input = bs1 @ b1 # bs2 @ b2 # bs3"
    and trigger: "\<forall>b \<in> {b1, b2}. evaluate_trigger (man_trigger (bi_manifest b)) (body_view (eai_action input))
                    (tx_view_of (eai_tx input))"
    and spec1: "spec1 \<in> set (man_rpc (bi_manifest b1))" "\<not> spec_optional spec1" "out1 \<in> set (spec_outputs spec1)"
    and spec2: "spec2 \<in> set (man_rpc (bi_manifest b2))" "\<not> spec_optional spec2" "out2 \<in> set (spec_outputs spec2)"
    and same: "prj_field out1 = prj_field out2"
  shows "dto_failure (evaluate_action_v2 W j)"
proof (rule evaluate_action_failure [OF read], rule ccontr)
  fix v
  assume ev: "evaluate_input W input = Inr v" "\<not> is_failure v"
  let ?view = "body_view (eai_action input)" and ?tx = "tx_view_of (eai_tx input)"
  from evaluate_input_staged [OF ev] obtain la :: lowered_action and ctx planned
    where plan: "plan_policy_rpc_v2 (map bi_manifest (eai_bundles input)) ?view (la_context la) ?tx = Inr planned"
      and mat: "materialize_v2 (la_context la) planned (eai_results input) = Inr ctx"
    unfolding staged_def wasm_plan_def map_error_iff by blast
  define R where "R = planning_roots (la_context la) ?tx"
  from plan_split [of R ?view ?tx "[]" "map bi_manifest bs1" "bi_manifest b1" "map bi_manifest (bs2 @ b2 # bs3)"]
  obtain xs new1 where new1: "plan_manifest R ?view ?tx [] (bi_manifest b1) = Inr new1"
    and rest: "rfold (plan_manifest R ?view ?tx) (xs @ new1)
      (map bi_manifest bs2 @ bi_manifest b2 # map bi_manifest bs3) = Inr planned"
    using plan by (auto simp: plan_policy_rpc_v2_def bundles R_def)
  from plan_split [OF rest] obtain ys new2 zs where planned: "planned = (xs @ new1) @ ys @ new2 @ zs"
    and new2: "plan_manifest R ?view ?tx [] (bi_manifest b2) = Inr new2" by blast
  obtain c1 where c1: "c1 \<in> set new1" "\<not> pc_optional c1" "pc_outputs c1 = spec_outputs spec1"
    using planned_call_of [OF new1 _ spec1(1,2)] trigger by blast
  obtain c2 where c2: "c2 \<in> set new2" "\<not> pc_optional c2" "pc_outputs c2 = spec_outputs spec2"
    using planned_call_of [OF new2 _ spec2(1,2)] trigger by blast
  obtain us vs where us: "new1 = us @ c1 # vs" using split_list [OF c1(1)] by blast
  obtain ws ts where ws: "new2 = ws @ c2 # ts" using split_list [OF c2(1)] by blast
  have split: "planned = (xs @ us) @ c1 # (vs @ ys @ ws) @ c2 # (ts @ zs)" by (simp add: planned us ws)
  show False
    using materialize_clash [OF mat [unfolded split] c1(2) c2(2)] c1(3) c2(3) spec1(3) spec2(3) same by auto
qed

lemma shared_field_blocks_witness:
  "dto_failure (evaluate_action_v2 (demo_env (demo_input risky_results\<lparr>eai_bundles := [risk_bundle, risk_bundle]\<rparr>)) [])"
  by (rule shared_field_blocks [OF demo_env_sel(2), where ?bs1.0 = "[]" and ?bs2.0 = "[]" and ?bs3.0 = "[]"
        and ?b1.0 = risk_bundle and ?b2.0 = risk_bundle and ?spec1.0 = risk_spec and ?spec2.0 = risk_spec
        and ?out1.0 = "hd (spec_outputs risk_spec)" and ?out2.0 = "hd (spec_outputs risk_spec)"])
    (simp_all add: risk_bundle_def risk_manifest_def risk_spec_def evaluate_trigger_def matches_field_def)

section \<open>Actions, schemas and triggers\<close>

text \<open>C17. Every action of every domain is lowered: the principal is the wallet and the resource the contract of
  the transaction, and the context is an object that carries the action's metadata and leaves the slot for
  custom fields free.\<close>

theorem every_action_lowers:
  "\<exists>la kvs. lower_action_enriched V b meta tx D L O' = Inr la
     \<and> la_principal la = ''Wallet::\"'' @ txm_from tx @ ''\"'' \<and> la_resource la = ''Protocol::\"'' @ txm_to tx @ ''\"''
     \<and> la_context la = JObj kvs \<and> map_of kvs ''custom'' = None
     \<and> map_of kvs ''meta'' = Some (lower_action_meta (le_nonce_text V) meta)"
proof -
  define C where "C = \<lparr>lc_meta = meta, lc_tx = tx, lc_decimals = D, lc_leverage = L, lc_enrichment = O',
    lc_nonce_text = le_nonce_text V, lc_u256_of = le_u256_of V\<rparr>"
  obtain la where la: "lower_body b C = Inr la" using low_body.total by blast
  have "lower_action_enriched V b meta tx D L O' = Inr la" using la by (simp add: lower_action_enriched_def C_def)
  moreover have "lc_tx C = tx" "ctx_meta C = lower_action_meta (le_nonce_text V) meta"
    by (simp_all add: C_def ctx_meta_def)
  ultimately show ?thesis using low_body.routed [OF la] low_body.context_clean [OF la] by auto
qed

text \<open>C16. Schemas match actions: when the trigger of a bundle matches an action and the bundle's schema is
  composed, the resolver table has a row with the action's domain and tag; the schema file of the row declares,
  by the table of the shipped files, exactly the Cedar action, with its namespace, under which the action is
  lowered. The schema is the merge of the core file and of the files of exactly the matched rows, with, when
  the bundle has custom fields, the stubs of the matched rows replaced by the rendered fields. So a block of
  the namespace in the row's file is part of the block of that namespace in the merged text, and when it
  declares the action, the composed schema does.\<close>

theorem triggered_action_has_schema:
  assumes low: "lower_body b C = Inr la"
    and fires: "evaluate_trigger (man_trigger m) (body_view b) tx"
    and composed: "compose_per_policy T m = Inr schema"
  shows "\<exists>e ns files rows reps merged.
      e \<in> set (matched_entries (man_trigger m))
    \<and> ent_domain e = vw_domain (body_view b) \<and> ent_action_tag e = vw_action_tag (body_view b)
    \<and> (ent_schema e, ns, pascal_stub e) \<in> set shipped_files
    \<and> la_action_uid la = ns @ ''::Action::\"'' @ pascal_stub e @ ''\"''
    \<and> set files = ent_schema ` set (matched_entries (man_trigger m)) \<and> distinct files
    \<and> merged = merge_namespace_blocks (T core_schema # map T files)
    \<and> set rows \<subseteq> set (matched_entries (man_trigger m))
    \<and> pascal_stub ` set rows = (if custom_fields m = [] then {}
                               else pascal_stub ` set (matched_entries (man_trigger m)))
    \<and> list_all2 (\<lambda>r rep. render_custom_body T r (custom_fields m) = Inr rep) rows reps
    \<and> schema = foldl fill_stub merged (zip rows reps)
    \<and> (\<forall>body. (ns, body) \<in> set (schema_blocks (T (ent_schema e))) \<longrightarrow>
         (\<exists>a p q d. merged = a @ namespace_text (ns, p @ body @ q) @ d)
         \<and> (text_contains body (action_declaration (pascal_stub e)) \<longrightarrow> declares_in schema ns (pascal_stub e)))"
proof -
  from resolved_body [OF low] obtain e ns where e: "e \<in> set resolver_table" "ent_domain e = vw_domain (body_view b)"
    "ent_action_tag e = vw_action_tag (body_view b)" "(ent_schema e, ns, pascal_stub e) \<in> set shipped_files"
    "la_action_uid la = ns @ ''::Action::\"'' @ pascal_stub e @ ''\"''"
    unfolding resolved_def action_uid_in_def by blast
  have matched: "e \<in> set (matched_entries (man_trigger m))"
    by (rule matched_entries_complete [OF e(1) _ _ fires]) (simp_all add: e)
  from composed_schema [OF composed] obtain files rows reps where
    files: "set files = ent_schema ` set (matched_entries (man_trigger m))" "distinct files"
    and rows: "set rows \<subseteq> set (matched_entries (man_trigger m))"
    and rest: "pascal_stub ` set rows = (if custom_fields m = [] then {}
        else pascal_stub ` set (matched_entries (man_trigger m)))"
      "list_all2 (\<lambda>r rep. render_custom_body T r (custom_fields m) = Inr rep) rows reps"
    and schema: "schema = foldl fill_stub (merge_namespace_blocks (T core_schema # map T files)) (zip rows reps)"
    by (elim exE conjE) (rule that)
  note declared = composed_declares(1) [OF matched e(4) files(1) rows, where T = T]
    composed_declares(2) [OF matched e(4) files(1) rows, where T = T and reps = reps, folded schema]
  show ?thesis
    by (rule exI [of _ e], rule exI [of _ ns], rule exI [of _ files], rule exI [of _ rows], rule exI [of _ reps],
        rule exI [of _ "merge_namespace_blocks (T core_schema # map T files)"])
      (intro conjI allI impI matched e files rows rest refl schema declared; assumption)
qed

text \<open>The bundle of the example against a schema file of the shape of the shipped one.\<close>

lemma triggered_action_has_schema_witness:
  "\<exists>schema. compose_per_policy unknown_files risk_manifest = Inr schema \<and> declares_in schema ''Core'' ''Unknown''"
proof -
  let ?C = "\<lparr>lc_meta = demo_meta, lc_tx = \<lparr>txm_from = [], txm_to = []\<rparr>, lc_decimals = Map.empty,
      lc_leverage = Map.empty, lc_enrichment = order_enrichment_default, lc_nonce_text = (\<lambda>_. None),
      lc_u256_of = (\<lambda>_. None)\<rparr>"
    and ?b = "UnknownCall router ethereum_mainnet [] 0"
  obtain la where low: "lower_body ?b ?C = Inr la" and uid: "la_action_uid la = ''Core::Action::\"Unknown\"''"
    by (simp add: lower_unknown_def)
  have fires: "evaluate_trigger (man_trigger risk_manifest) (body_view ?b) \<lparr>txv_chain_id = [], txv_from = [], txv_to = []\<rparr>"
    by (simp add: demo_stage_simps)
  obtain schema where composed: "compose_per_policy unknown_files risk_manifest = Inr schema"
    by (simp add: compose_per_policy_def risk_manifest_def Let_def)
  from triggered_action_has_schema [OF low fires composed] obtain e ns where
    e: "e \<in> set (matched_entries (man_trigger risk_manifest))" "ent_domain e = ''unknown''"
      "la_action_uid la = ns @ ''::Action::\"'' @ pascal_stub e @ ''\"''"
    and declared: "\<And>body. (ns, body) \<in> set (schema_blocks (unknown_files (ent_schema e))) \<Longrightarrow>
        text_contains body (action_declaration (pascal_stub e)) \<Longrightarrow> declares_in schema ns (pascal_stub e)"
    by auto
  note row = unknown_row [OF e(1,2)]
  have "ns = ''Core''" using e(3) by (simp add: uid row)
  with declared row composed unknown_file_block show ?thesis by auto
qed

text \<open>C22. A token amount in the context is exact: the nano amount is the amount in billionths of a whole token,
  rounded down and clamped to the signed 64-bit range; no multiplication wraps.\<close>

theorem amount_nano_exact:
  "amount_nano C token raw =
     map_option (\<lambda>d. int (min (unat raw * 10 ^ 9 div 10 ^ unat d) (2 ^ 63 - 1)))
       (decimals_for (lc_decimals C) (ref_key token))"
  unfolding amount_nano_def token_nano_def nano_exact by (rule refl)

text \<open>C23. The trigger pre-filter is sound for an action and its direct children: whenever a bundle would be
  evaluated on the action or on a direct child of a batch, its manifest is among the matches.\<close>

theorem prefilter_is_sound:
  assumes "node \<in> insert act (case act of Multicall actions \<Rightarrow> set actions | _ \<Rightarrow> {})"
    and "m \<in> set manifests"
    and "in_scope (trg_scope (man_trigger m)) node"
    and "evaluate_trigger (man_trigger m) (body_view node) (tx_view_of tx)"
    and tx: "tx = tx_input_of chain from to"
  shows "man_id m \<in> set (evaluate_triggers manifests act tx)"
proof -
  have lower: "to_lowercase (to_lowercase s) = to_lowercase s" for s
    by (auto simp: to_lowercase_def lower_char_def Let_def)
  have view: "\<lparr>txv_chain_id = ti_chain_id tx, txv_from = to_lowercase (ti_from tx), txv_to = to_lowercase (ti_to tx)\<rparr>
      = tx_view_of tx"
    by (simp add: tx tx_input_of_def de_lower_addr_def tx_view_of_def lower)
  have multi: "is_multicall x \<Longrightarrow> body_view x = \<lparr>vw_domain = ''multicall'', vw_action_tag = None, vw_venue_name = None\<rparr>" for x
    by (cases x) auto
  have "manifest_matches m act (tx_view_of tx)"
  proof (cases "trg_scope (man_trigger m)")
    case ScopeInner
    then show ?thesis using assms by (cases act) (auto simp: manifest_matches_def in_scope_def)
  next
    case ScopeOuter
    then have "is_multicall node" "is_multicall act"
      using assms(1,3) by (auto simp: in_scope_def split: action_body.splits)
    then show ?thesis using assms(4) ScopeOuter by (simp add: manifest_matches_def multi)
  qed
  then show ?thesis unfolding evaluate_triggers_def view using assms(2) by auto
qed

lemma prefilter_is_sound_witness:
  "''m'' \<in> set (evaluate_triggers [risk_manifest] (Multicall [UnknownCall router ethereum_mainnet [] 0])
     (tx_input_of [] [] []))"
  using prefilter_is_sound [of "UnknownCall router ethereum_mainnet [] 0"
      "Multicall [UnknownCall router ethereum_mainnet [] 0]" risk_manifest "[risk_manifest]" _ "[]" "[]" "[]"]
  by (simp add: risk_manifest_def in_scope_def evaluate_trigger_def matches_field_def)

end
