(* ===== verification/SyncTypes.thy ===== *)
theory SyncTypes
  imports Wallets
begin

text \<open>
  The data of the synchroniser (\<^verbatim>\<open>policy-server/sync/src\<close>): errors, the places of live fields and the batches
  they are fetched in (\<^verbatim>\<open>live\<close>), the fetchers the orchestrator is wired with, and the reports of its passes
  (\<^verbatim>\<open>runtime\<close>, \<^verbatim>\<open>sources/primitives.rs\<close>). The fetchers, the RPC router and the wallet store are I/O; they are
  records of functions that give the answer of one call. Floating-point numbers (\<open>f64\<close>) are the type variable of
  \<open>f64_ops\<close>.
\<close>

section \<open>Errors and dependency nodes\<close>

datatype sync_error =
    StoreError string
  | FetchFailed string string
  | DeriveFailed string string
  | CyclicDeps string
  | UnknownCalcId string
  | UnknownDecoder string

record dep_node =
  node_id :: string
  depends_on :: "string list"

datatype topo_outcome = Sorted "string list" | Rejected sync_error | Panicked

section \<open>Live fields and their places\<close>

text \<open>\<open>ActionSlot\<close>, one type per domain: the names carry the domain in the source.\<close>

datatype token_slot =
    TokenErc20PermitNonce | TokenPermit2SignNonce

datatype amm_slot =
    AmmSwapRoute | AmmSwapExpectedAmountOut | AmmSwapPriceImpactBp | AmmSwapGasEstimate
  | AmmAddLiquidityPoolState | AmmAddLiquidityCurrentPrice | AmmRemoveLiquidityPoolState
  | AmmRemoveLiquidityFeesOwed | AmmCollectFeesOwed | AmmSignIntentExpectedFillPrice
  | AmmSignIntentCompetingOrders

datatype lending_slot =
    LendingSupplyReserveState | LendingSupplySupplyApy | LendingSupplyATokenPriceUsd
  | LendingSupplyEligibleAsCollat | LendingSupplyUserState | LendingWithdrawReserveState
  | LendingWithdrawAvailableToWithdraw | LendingWithdrawUserState | LendingBorrowReserveState
  | LendingBorrowUserState | LendingBorrowAssetPriceUsd | LendingBorrowCurrentRate
  | LendingBorrowAvailableLiquidity | LendingRepayReserveState | LendingRepayCurrentDebt | LendingRepayUserState
  | LendingSwapRateModeCurrentDebts | LendingSwapRateModeRates | LendingSetEModeCategoryConfig
  | LendingSetEModeUserState | LendingSetCollateralReserveState | LendingSetCollateralUserState
  | LendingLiquidateVictimState | LendingLiquidateBonus | LendingLiquidateDebtAssetPrice
  | LendingLiquidateCollatAssetPrice

datatype airdrop_slot =
    AirdropClaimIsStillClaimable | AirdropClaimActualAmount | AirdropClaimToken | AirdropClaimWindow
  | AirdropDelegateCurrentDelegate | AirdropDelegateVotingPower

datatype launchpad_slot =
    LaunchpadCommitSaleState | LaunchpadCommitUserCap | LaunchpadCommitUserCommitted
  | LaunchpadCommitExpectedTokenPrice | LaunchpadClaimAllocationAllocated | LaunchpadClaimAllocationRefundDue
  | LaunchpadClaimAllocationIsClaimable | LaunchpadClaimVestedClaimableNow | LaunchpadClaimVestedNextUnlock
  | LaunchpadRefundAmount | LaunchpadRefundToken | LaunchpadWithdrawCommitWithdrawable
  | LaunchpadWithdrawCommitSaleState

datatype perp_slot =
    PerpOpenMarkPrice | PerpOpenOraclePrice | PerpOpenFundingRate | PerpOpenAvailableOi | PerpOpenMaxLeverage
  | PerpOpenInitialMarginBp | PerpOpenMaintenanceBp | PerpOpenFeeTakerBp | PerpOpenFeeMakerBp
  | PerpOpenUserAccountState | PerpCloseMarkPrice | PerpCloseUnrealizedPnl | PerpCloseFundingAccrued
  | PerpCloseFeeBp | PerpIncreaseMarkPrice | PerpIncreaseOraclePrice | PerpIncreaseFundingRate
  | PerpIncreaseAvailableOi | PerpIncreaseMaxLeverage | PerpIncreaseInitialMarginBp | PerpIncreaseMaintenanceBp
  | PerpIncreaseFeeTakerBp | PerpIncreaseFeeMakerBp | PerpIncreaseUserAccountState | PerpDecreaseMarkPrice
  | PerpDecreaseUnrealizedPnl | PerpDecreaseFundingAccrued | PerpDecreaseFeeBp | PerpAdjustMarginPositionState
  | PerpAdjustMarginFreeMarginAfter | PerpChangeLeverageMaxLeverage | PerpChangeLeverageAffectedPositions
  | PerpChangeLeverageNewLiqPrices | PerpChangeMarginModeAffectedPositions | PerpChangeMarginModeReallocation
  | PerpPlaceLimitMarkPrice | PerpPlaceLimitBestBidAsk | PerpPlaceLimitOpenOrdersCount
  | PerpPlaceLimitUserAccountState | PerpClaimFundingClaimable

datatype liquid_staking_slot =
    LiquidStakingWrapExpectedWsteth | LiquidStakingUnwrapExpectedSteth | LiquidStakingTransferSharesPooledEth

datatype action_slot =
    TokenSlot token_slot | AmmSlot amm_slot | LendingSlot lending_slot | AirdropSlot airdrop_slot
  | LaunchpadSlot launchpad_slot | PerpSlot perp_slot | LiquidStakingSlot liquid_staking_slot

datatype field_location =
    TokenPrice string
  | LendingHealthFactor string
  | LendingLtv string
  | LendingLiquidationThreshold string
  | PerpMarkPrice string
  | PerpLiqPrice string
  | PerpUnrealizedPnl string
  | PerpFundingOwed string
  | PerpLeverage string
  | ActionField nat action_slot

record stale_field =
  sf_location :: field_location
  sf_source :: data_source
  sf_synced_at :: time

record walk_stats =
  total_live_fields :: nat
  stale_count :: nat
  fresh_count :: nat

record sync_codec =
  key_text :: "token_key \<Rightarrow> string"
  read_key :: "string \<Rightarrow> token_key option"
  read_i256 :: "string \<Rightarrow> i256 option"
  read_dec_u256 :: "string \<Rightarrow> u256 option"
  checksum_text :: "address \<Rightarrow> string"

section \<open>Batches\<close>

datatype batch_kind =
    BatchOnchain chain_id | BatchOracle | BatchVenue string | BatchRegistry string | BatchDerived
  | BatchUserSupplied

record fetch_batch =
  fb_kind :: batch_kind
  fb_items :: "stale_field list"

record source_groups =
  onchain_by_chain :: "(chain_id \<times> stale_field list) list"
  oracle_items :: "stale_field list"
  venue_by_endpoint :: "(string \<times> stale_field list) list"
  registry_by_endpoint :: "(string \<times> stale_field list) list"
  derived_items :: "stale_field list"

section \<open>Fetchers\<close>

record onchain_call =
  oc_chain :: chain_id
  oc_contract :: address
  oc_calldata :: "u8 list"
  oc_decoder_id :: string

record onchain_outcome =
  oo_success :: bool
  oo_value :: "json option"
  oo_error :: "string option"

record longtail_fresh =
  lt_staking :: bool
  lt_vault_equities :: bool
  lt_borrow_lend :: bool
  lt_agents :: bool
  lt_fills :: bool
  lt_ledger :: bool

record 'f f64_ops =
  f64_parse :: "string \<Rightarrow> 'f option"
  f64_literal :: "string \<Rightarrow> 'f"
  f64_show :: "'f \<Rightarrow> string"
  f64_zero :: 'f
  f64_add :: "'f \<Rightarrow> 'f \<Rightarrow> 'f"
  f64_sub :: "'f \<Rightarrow> 'f \<Rightarrow> 'f"
  f64_mul :: "'f \<Rightarrow> 'f \<Rightarrow> 'f"
  f64_div :: "'f \<Rightarrow> 'f \<Rightarrow> 'f"
  f64_mul_add :: "'f \<Rightarrow> 'f \<Rightarrow> 'f \<Rightarrow> 'f"
  f64_neg :: "'f \<Rightarrow> 'f"
  f64_abs :: "'f \<Rightarrow> 'f"
  f64_less :: "'f \<Rightarrow> 'f \<Rightarrow> bool"
  f64_eq :: "'f \<Rightarrow> 'f \<Rightarrow> bool"
  f64_is_finite :: "'f \<Rightarrow> bool"
  f64_show_exp :: "'f \<Rightarrow> string"
  f64_show_fixed8 :: "'f \<Rightarrow> string"

record hl_fetcher =
  hl_info_endpoint :: string
  hl_fetch :: "data_source \<Rightarrow> sync_error + json"
  hl_fetch_state_value :: "data_source \<Rightarrow> field_location \<Rightarrow> string \<Rightarrow> address \<Rightarrow> sync_error + json"
  hl_fetch_account_snapshot :: "address \<Rightarrow> sync_error + hl_account"
  hl_fetch_core :: "address \<Rightarrow> time \<Rightarrow> hl_account \<times> core_fresh \<times> string list"
  hl_fetch_longtail :: "address \<Rightarrow> time \<Rightarrow> u64 \<Rightarrow> hl_account \<times> longtail_fresh \<times> string list"

record intent_fetcher =
  fetch_orders :: "address \<Rightarrow> time \<Rightarrow> sync_error + pending_tx list"
  authoritative_prefix :: "string option"

record call3_result =
  cr_success :: bool
  cr_return_data :: "u8 list"

record call3 =
  c3_target :: address
  c3_allow_failure :: bool
  c3_call_data :: "u8 list"

record provider_health =
  consecutive_failures :: u32
  unhealthy_until :: "nat option"

record failover_config =
  mark_unhealthy_after :: u32
  unhealthy_cooldown_sec :: u64

record 'a attempt =
  at_name :: string
  at_checked :: nat
  at_answer :: "sync_error + 'a"
  at_finished :: nat

record rpc_router =
  eth_call :: "chain_id \<Rightarrow> address \<Rightarrow> u8 list \<Rightarrow> sync_error + u8 list"
  eth_block_number :: "chain_id \<Rightarrow> sync_error + u64"
  eth_balance :: "chain_id \<Rightarrow> address \<Rightarrow> sync_error + u256"
  aggregate3 :: "chain_id \<Rightarrow> call3 list \<Rightarrow> sync_error + call3_result list"

record onchain_fetcher =
  of_router :: rpc_router
  of_decoders :: "string \<rightharpoonup> (u8 list \<Rightarrow> sync_error + json)"
  of_abi_knows :: "string \<Rightarrow> bool"
  of_abi_decode :: "string \<Rightarrow> u8 list \<Rightarrow> sync_error + json"
  of_fees_json :: "(token_key \<times> u256) list \<Rightarrow> sync_error + json"

record orchestrator =
  orc_onchain :: onchain_fetcher
  price_fetchers :: "string \<rightharpoonup> (data_source \<Rightarrow> sync_error + price)"
  orc_registry :: "(data_source \<Rightarrow> sync_error + json) option"
  orc_hyperliquid :: "hl_fetcher option"
  uniswap_x :: "intent_fetcher option"
  cow_swap :: "intent_fetcher option"
  one_inch_fusion :: "intent_fetcher option"
  one_inch_fusion_plus :: "intent_fetcher option"
  one_inch_lop :: "intent_fetcher option"
  calc_by_id :: "string \<rightharpoonup> (wallet_state \<Rightarrow> json list \<Rightarrow> sync_error + json)"
  orc_globals :: "string \<rightharpoonup> json"
  orc_router :: "rpc_router option"
  function_selector :: "string \<Rightarrow> u8 list"

section \<open>Reports\<close>

record refresh_report =
  rf_walked :: walk_stats
  rf_batches_processed :: nat
  rf_fields_updated :: nat
  rf_fields_failed :: nat
  rf_errors :: "string list"

record hyperliquid_account_report =
  account_updated :: bool
  hr_errors :: "string list"

record intent_orders_report =
  orders_updated :: nat
  orders_pruned :: nat
  ir_errors :: "string list"

record permit_reconcile_report =
  permits_retired :: nat
  pr_errors :: "string list"

record primitives_report =
  block_heights_updated :: nat
  native_balances_updated :: nat
  erc20_balances_updated :: nat
  approvals_updated :: nat
  pm_errors :: "string list"

datatype primitive_fetch_request =
    ReqBlockHeight chain_id
  | ReqNativeBalance chain_id
  | ReqErc20Balances chain_id "address list"
  | ReqErc20Approval chain_id address address

record primitive_fetch_plan =
  plan_owner :: address
  plan_requests :: "primitive_fetch_request list"

datatype primitive_fetch_update =
    UpdBlockHeight chain_id u64
  | UpdNativeBalance chain_id u256
  | UpdErc20Balance chain_id address u256
  | UpdErc20Approval chain_id address address u256

section \<open>The scheduler\<close>

record scheduler_config =
  max_wallets_per_tick :: nat
  sync_primitives_flag :: bool
  sync_hyperliquid_accounts :: bool
  sync_intent_orders_flag :: bool
  refresh_live_fields :: bool
  hl_longtail_every :: u64

record wallet_sync_counts =
  wsc_wallet :: wallet_id
  wsc_fields_updated :: nat
  wsc_fields_failed :: nat

record tick_report =
  wallets_processed :: nat
  total_primitives_updated :: nat
  total_primitive_errors :: nat
  total_hyperliquid_accounts_updated :: nat
  total_hyperliquid_errors :: nat
  total_fields_updated :: nat
  total_fields_failed :: nat
  tk_errors :: "string list"
  synced_wallets :: "wallet_sync_counts list"

record 'st wallet_store =
  list_wallets :: "'st \<Rightarrow> string + wallet_id list"
  load_wallet :: "'st \<Rightarrow> wallet_id \<Rightarrow> string + wallet_state"
  save_wallet :: "'st \<Rightarrow> wallet_state \<Rightarrow> (string + 'st)"

end
