(* ===== verification/SyncLive.thy ===== *)
theory SyncLive
  imports SyncTypes PolicyRpc "HOL-Library.Sublist" "HOL-Library.Char_ord"
    "HOL-Library.List_Lexorder" "HOL-Library.Product_Lexorder"
begin

text \<open>
  \<^verbatim>\<open>policy-server/sync/src/live\<close> and the state side of \<^verbatim>\<open>runtime/orchestrator.rs\<close>: the stale live fields of a
  wallet (\<^verbatim>\<open>walker.rs\<close>), their grouping by source (\<^verbatim>\<open>batcher.rs\<close>), the inputs of derived fields
  (\<^verbatim>\<open>resolver.rs\<close>) and the assignment of a fetched value (\<open>apply_value\<close>). A \<open>BTreeMap\<close> is iterated in the
  order of its keys; the derived orders of chains and token keys are instances of \<^theory_text>\<open>linorder\<close>. A
  \<open>usize\<close> counter is a natural number. The JSON text of a token key and the readers of 256-bit numbers are
  the argument \<open>sync_codec\<close>.
\<close>

section \<open>The order of chains and token keys\<close>

instantiation chain_id :: linorder
begin

definition less_eq_chain_id :: "chain_id \<Rightarrow> chain_id \<Rightarrow> bool" where
  "less_eq_chain_id a b = (as_str a \<le> as_str b)"

definition less_chain_id :: "chain_id \<Rightarrow> chain_id \<Rightarrow> bool" where
  "less_chain_id a b = (as_str a < as_str b)"

instance
  by standard (auto simp: less_eq_chain_id_def less_chain_id_def intro: chain_id.expand)

end

text \<open>The derived order compares the variant first and then the fields in their order.\<close>

fun key_code :: "token_key \<Rightarrow> nat \<times> chain_id \<times> address \<times> u256" where
  "key_code (Native c) = (0, c, 0, 0)"
| "key_code (Erc20 c a) = (1, c, a, 0)"
| "key_code (Erc721 c a i) = (2, c, a, i)"
| "key_code (Erc1155 c a i) = (3, c, a, i)"

lemma key_code_inject: "key_code k = key_code k' \<longleftrightarrow> k = k'"
  by (cases k; cases k') auto

instantiation token_key :: linorder
begin

definition less_eq_token_key :: "token_key \<Rightarrow> token_key \<Rightarrow> bool" where
  "less_eq_token_key a b = (key_code a \<le> key_code b)"

definition less_token_key :: "token_key \<Rightarrow> token_key \<Rightarrow> bool" where
  "less_token_key a b = (key_code a < key_code b)"

instance
  by standard (auto simp: less_eq_token_key_def less_token_key_def key_code_inject less_le)

end

section \<open>Locations\<close>

definition walk_stats_default :: walk_stats where
  "walk_stats_default = \<lparr>total_live_fields = 0, stale_count = 0, fresh_count = 0\<rparr>"

type_synonym walk_acc = "stale_field list \<times> walk_stats"

section \<open>The walker\<close>

definition check_and_push :: "'a live_field \<Rightarrow> time \<Rightarrow> field_location \<Rightarrow> walk_acc \<Rightarrow> walk_acc" where
  "check_and_push field now' location acc =
     (case acc of (stale, stats) \<Rightarrow>
        let stats = stats\<lparr>total_live_fields := total_live_fields stats + 1\<rparr> in
        if is_stale field now'
        then (stale @ [\<lparr>sf_location = location, sf_source = lf_source field, sf_synced_at = synced_at field\<rparr>],
              stats\<lparr>stale_count := stale_count stats + 1\<rparr>)
        else (stale, stats\<lparr>fresh_count := fresh_count stats + 1\<rparr>))"

definition walk_token :: "sync_codec \<Rightarrow> time \<Rightarrow> token_key \<times> token_holding \<Rightarrow> walk_acc \<Rightarrow> walk_acc" where
  "walk_token S now' kh acc =
     (case price_usd (snd kh) of
        None \<Rightarrow> acc
      | Some p \<Rightarrow> check_and_push p now' (TokenPrice (key_text S (fst kh))) acc)"

definition walk_position :: "time \<Rightarrow> position \<Rightarrow> walk_acc \<Rightarrow> walk_acc" where
  "walk_position now' pos acc =
     (case pos_kind pos of
        LendingAccount la \<Rightarrow>
          (let acc = check_and_push (health_factor la) now' (LendingHealthFactor (pos_id pos)) acc;
               acc = check_and_push (ltv la) now' (LendingLtv (pos_id pos)) acc
           in check_and_push (liquidation_threshold la) now' (LendingLiquidationThreshold (pos_id pos)) acc)
      | PerpPosition p \<Rightarrow>
          (let acc = check_and_push (mark_price p) now' (PerpMarkPrice (pos_id pos)) acc;
               acc = check_and_push (liq_price p) now' (PerpLiqPrice (pos_id pos)) acc;
               acc = check_and_push (unrealized_pnl p) now' (PerpUnrealizedPnl (pos_id pos)) acc;
               acc = check_and_push (funding_owed p) now' (PerpFundingOwed (pos_id pos)) acc
           in check_and_push (leverage p) now' (PerpLeverage (pos_id pos)) acc)
      | _ \<Rightarrow> acc)"

definition walk_stale :: "sync_codec \<Rightarrow> wallet_state \<Rightarrow> time \<Rightarrow> walk_acc" where
  "walk_stale S state now' =
     fold (walk_position now') (positions state)
       (fold (walk_token S now') (Mapping.ordered_entries (tokens state)) ([], walk_stats_default))"

section \<open>The batcher\<close>

text \<open>\<open>entry(k).or_default().push(v)\<close> on a \<open>BTreeMap\<close>, kept as the list of its entries in key order.\<close>

fun group_push :: "'k::linorder \<Rightarrow> 'v \<Rightarrow> ('k \<times> 'v list) list \<Rightarrow> ('k \<times> 'v list) list" where
  "group_push k v [] = [(k, [v])]"
| "group_push k v ((k', vs) # rest) =
     (if k = k' then (k', vs @ [v]) # rest
      else if k < k' then (k, [v]) # (k', vs) # rest
      else (k', vs) # group_push k v rest)"

definition sort_by_source :: "stale_field \<Rightarrow> source_groups \<Rightarrow> source_groups" where
  "sort_by_source f g =
     (case sf_source f of
        OnchainView chain _ _ _ \<Rightarrow> g\<lparr>onchain_by_chain := group_push chain f (onchain_by_chain g)\<rparr>
      | OracleFeed _ _ \<Rightarrow> g\<lparr>oracle_items := oracle_items g @ [f]\<rparr>
      | VenueApi endpoint _ _ \<Rightarrow> g\<lparr>venue_by_endpoint := group_push endpoint f (venue_by_endpoint g)\<rparr>
      | RegistryApi endpoint _ _ \<Rightarrow> g\<lparr>registry_by_endpoint := group_push endpoint f (registry_by_endpoint g)\<rparr>
      | DerivedFrom _ _ \<Rightarrow> g\<lparr>derived_items := derived_items g @ [f]\<rparr>
      | UserSupplied \<Rightarrow> g)"

definition batch_by_source :: "stale_field list \<Rightarrow> fetch_batch list" where
  "batch_by_source stale =
     (let g = fold sort_by_source stale
                \<lparr>onchain_by_chain = [], oracle_items = [], venue_by_endpoint = [], registry_by_endpoint = [], derived_items = []\<rparr>
      in map (\<lambda>(chain, items). \<lparr>fb_kind = BatchOnchain chain, fb_items = items\<rparr>) (onchain_by_chain g)
         @ (if oracle_items g = [] then [] else [\<lparr>fb_kind = BatchOracle, fb_items = oracle_items g\<rparr>])
         @ map (\<lambda>(endpoint, items). \<lparr>fb_kind = BatchVenue endpoint, fb_items = items\<rparr>) (venue_by_endpoint g)
         @ map (\<lambda>(endpoint, items). \<lparr>fb_kind = BatchRegistry endpoint, fb_items = items\<rparr>) (registry_by_endpoint g)
         @ (if derived_items g = [] then [] else [\<lparr>fb_kind = BatchDerived, fb_items = derived_items g\<rparr>]))"

section \<open>The inputs of derived fields\<close>

type_synonym global_values = "string \<rightharpoonup> json"

fun pending_status_debug :: "pending_status \<Rightarrow> string" where
  "pending_status_debug Active = ''Active''"
| "pending_status_debug PartiallyFilled = ''PartiallyFilled''"
| "pending_status_debug Filled = ''Filled''"
| "pending_status_debug Cancelled = ''Cancelled''"
| "pending_status_debug Expired = ''Expired''"
| "pending_status_debug Failed = ''Failed''"
| "pending_status_debug UnknownStatus = ''Unknown''"

definition resolve_position_field :: "position_kind \<Rightarrow> position_field_name \<Rightarrow> json option" where
  "resolve_position_field kind fld =
     (case (kind, fld) of
        (LendingAccount la, HealthFactor) \<Rightarrow> Some (JStr (lf_value (health_factor la)))
      | (LendingAccount la, Ltv) \<Rightarrow> Some (JStr (lf_value (ltv la)))
      | (LendingAccount la, LiquidationThreshold) \<Rightarrow> Some (JStr (lf_value (liquidation_threshold la)))
      | (PerpPosition p, MarkPrice) \<Rightarrow> Some (JStr (lf_value (mark_price p)))
      | (PerpPosition p, LiqPrice) \<Rightarrow> map_option JStr (lf_value (liq_price p))
      | (PerpPosition p, UnrealizedPnl) \<Rightarrow> Some (JStr (int_text (sint (lf_value (unrealized_pnl p)))))
      | (PerpPosition p, FundingOwed) \<Rightarrow> Some (JStr (int_text (sint (lf_value (funding_owed p)))))
      | (PerpPosition p, Leverage) \<Rightarrow> Some (JStr (lf_value (leverage p)))
      | _ \<Rightarrow> None)"

fun resolve_field :: "sync_codec \<Rightarrow> wallet_state \<Rightarrow> global_values \<Rightarrow> field_ref \<Rightarrow> json option" where
  "resolve_field S state globals (TokenField key_json PriceUsd) =
     Option.bind (read_key S key_json) (\<lambda>key.
     Option.bind (Mapping.lookup (tokens state) key) (\<lambda>holding.
     map_option (\<lambda>p. JStr (lf_value p)) (price_usd holding)))"
| "resolve_field S state globals (PositionField i fld) =
     Option.bind (find (\<lambda>p. pos_id p = i) (positions state)) (\<lambda>pos. resolve_position_field (pos_kind pos) fld)"
| "resolve_field S state globals (PendingField i _) =
     map_option (\<lambda>p. JStr (pending_status_debug (pl_status (ptx_lifecycle p))))
       (find (\<lambda>p. ptx_id p = i) (pending state))"
| "resolve_field S state globals (GlobalField n) = globals n"

definition resolve_inputs :: "sync_codec \<Rightarrow> wallet_state \<Rightarrow> global_values \<Rightarrow> field_ref list \<Rightarrow> json list" where
  "resolve_inputs S state globals inputs =
     map (\<lambda>fr. case resolve_field S state globals fr of None \<Rightarrow> JNull | Some v \<Rightarrow> v) inputs"

section \<open>Assigning a fetched value\<close>

fun value_to_price :: "json \<Rightarrow> price option" where
  "value_to_price (JStr s) = Some s"
| "value_to_price (JNum n) = Some n"
| "value_to_price _ = None"

fun value_to_i256 :: "sync_codec \<Rightarrow> json \<Rightarrow> i256 option" where
  "value_to_i256 S (JStr s) = read_i256 S s"
| "value_to_i256 S (JNum n) = map_option word_of_int (json_as_i64 (JNum n))"
| "value_to_i256 S _ = None"

definition refreshed :: "'a \<Rightarrow> time \<Rightarrow> 'a live_field \<Rightarrow> 'a live_field" where
  "refreshed v now' field = field\<lparr>lf_value := v, synced_at := now', lf_confidence := Some confidence_fresh\<rparr>"

definition set_if :: "'a option \<Rightarrow> time \<Rightarrow> 'a live_field \<Rightarrow> 'a live_field" where
  "set_if v now' field = (case v of None \<Rightarrow> field | Some x \<Rightarrow> refreshed x now' field)"

definition set_decimal :: "json \<Rightarrow> time \<Rightarrow> decimal live_field \<Rightarrow> decimal live_field" where
  "set_decimal v now' = set_if (value_to_price v) now'"

text \<open>\<open>positions.iter_mut().find(..)\<close>: the first position with the id, when it has the right kind.\<close>

fun update_position :: "string \<Rightarrow> (position_kind \<Rightarrow> position_kind) \<Rightarrow> position list \<Rightarrow> position list" where
  "update_position i f [] = []"
| "update_position i f (p # ps) =
     (if pos_id p = i then p\<lparr>pos_kind := f (pos_kind p)\<rparr> # ps else p # update_position i f ps)"

definition lending_field_mut ::
  "wallet_state \<Rightarrow> string \<Rightarrow> (lending_account \<Rightarrow> lending_account) \<Rightarrow> wallet_state" where
  "lending_field_mut state i f =
     state\<lparr>positions := update_position i
       (\<lambda>k. case k of LendingAccount la \<Rightarrow> LendingAccount (f la) | _ \<Rightarrow> k) (positions state)\<rparr>"

definition perp_position_mut :: "wallet_state \<Rightarrow> string \<Rightarrow> (perp_position \<Rightarrow> perp_position) \<Rightarrow> wallet_state" where
  "perp_position_mut state i f =
     state\<lparr>positions := update_position i
       (\<lambda>k. case k of PerpPosition p \<Rightarrow> PerpPosition (f p) | _ \<Rightarrow> k) (positions state)\<rparr>"

fun liq_price_of :: "json \<Rightarrow> price option option" where
  "liq_price_of JNull = Some None"
| "liq_price_of v = map_option Some (value_to_price v)"

definition apply_value :: "sync_codec \<Rightarrow> wallet_state \<Rightarrow> field_location \<Rightarrow> json \<Rightarrow> time \<Rightarrow> wallet_state" where
  "apply_value S state loc v now' =
     (case loc of
        TokenPrice key_json \<Rightarrow>
          (case read_key S key_json of
             None \<Rightarrow> state
           | Some key \<Rightarrow>
               (case Mapping.lookup (tokens state) key of
                  None \<Rightarrow> state
                | Some holding \<Rightarrow>
                    state\<lparr>tokens := Mapping.update key
                      (holding\<lparr>price_usd := map_option (set_if (value_to_price v) now') (price_usd holding)\<rparr>)
                      (tokens state)\<rparr>))
      | LendingHealthFactor i \<Rightarrow>
          lending_field_mut state i (\<lambda>la. la\<lparr>health_factor := set_decimal v now' (health_factor la)\<rparr>)
      | LendingLtv i \<Rightarrow> lending_field_mut state i (\<lambda>la. la\<lparr>ltv := set_decimal v now' (ltv la)\<rparr>)
      | LendingLiquidationThreshold i \<Rightarrow>
          lending_field_mut state i (\<lambda>la. la\<lparr>liquidation_threshold := set_decimal v now' (liquidation_threshold la)\<rparr>)
      | PerpMarkPrice i \<Rightarrow>
          perp_position_mut state i (\<lambda>p. p\<lparr>mark_price := set_if (value_to_price v) now' (mark_price p)\<rparr>)
      | PerpLiqPrice i \<Rightarrow>
          perp_position_mut state i (\<lambda>p. p\<lparr>liq_price := set_if (liq_price_of v) now' (liq_price p)\<rparr>)
      | PerpUnrealizedPnl i \<Rightarrow>
          perp_position_mut state i (\<lambda>p. p\<lparr>unrealized_pnl := set_if (value_to_i256 S v) now' (unrealized_pnl p)\<rparr>)
      | PerpFundingOwed i \<Rightarrow>
          perp_position_mut state i (\<lambda>p. p\<lparr>funding_owed := set_if (value_to_i256 S v) now' (funding_owed p)\<rparr>)
      | PerpLeverage i \<Rightarrow>
          perp_position_mut state i (\<lambda>p. p\<lparr>leverage := set_decimal v now' (leverage p)\<rparr>)
      | ActionField _ _ \<Rightarrow> state)"

end
