(* ===== verification/RpcLayer.thy ===== *)
theory RpcLayer
  imports SyncTypes
begin

text \<open>
  The pure part of \<^verbatim>\<open>policy-server/sync/src/sources/fetchers\<close>: the byte encodings (\<^verbatim>\<open>decoder.rs\<close>), Multicall3
  calldata and return data (\<^verbatim>\<open>rpc/multicall.rs\<close>), the batched on-chain reads (\<^verbatim>\<open>onchain.rs\<close>) and the failover of
  the RPC router with its health tracker (\<^verbatim>\<open>rpc/router.rs\<close>, \<^verbatim>\<open>rpc/health.rs\<close>). \<open>usize\<close> is 64 bits wide and
  its arithmetic wraps, as in the release profile; \<open>None\<close> is a panic. The Keccak hash behind a selector, the
  dynamic ABI decoder and the JSON writer of token references are arguments.
\<close>

section \<open>Words as bytes\<close>

definition be_bytes :: "nat \<Rightarrow> 'a::len word \<Rightarrow> u8 list" where
  "be_bytes n w = map (\<lambda>i. ucast (drop_bit (8 * (n - 1 - i)) w)) [0..<n]"

definition from_be_bytes :: "u8 list \<Rightarrow> 'a::len word" where
  "from_be_bytes bs = foldl (\<lambda>acc b. acc * 256 + ucast b) 0 bs"

definition encode_address :: "address \<Rightarrow> u8 list" where
  "encode_address a = replicate 12 0 @ be_bytes 20 a"

definition encode_u256 :: "u256 \<Rightarrow> u8 list" where
  "encode_u256 v = be_bytes 32 v"

section \<open>Multicall3 calldata\<close>

definition aggregate3_selector :: "u8 list" where
  "aggregate3_selector = [0x82, 0xad, 0x56, 0xcb]"

definition u256_to_32bytes :: "u256 \<Rightarrow> u8 list" where
  "u256_to_32bytes v = be_bytes 32 v"

definition address_to_32bytes :: "address \<Rightarrow> u8 list" where
  "address_to_32bytes a = replicate 12 0 @ be_bytes 20 a"

definition bool_to_32bytes :: "bool \<Rightarrow> u8 list" where
  "bool_to_32bytes b = replicate 31 0 @ [if b then 1 else 0]"

text \<open>\<open>U256::from(n as u64)\<close> of a length.\<close>

definition usize_word :: "nat \<Rightarrow> u8 list" where
  "usize_word n = u256_to_32bytes (ucast (word_of_nat n :: u64))"

definition bytes_padded :: "nat \<Rightarrow> nat" where
  "bytes_padded n = (n + 31) div 32 * 32"

definition encode_call3_element :: "call3 \<Rightarrow> u8 list" where
  "encode_call3_element call =
     (let bytes_len = length (c3_call_data call)
      in address_to_32bytes (c3_target call) @ bool_to_32bytes (c3_allow_failure call) @ u256_to_32bytes 96
         @ usize_word bytes_len @ c3_call_data call @ replicate (bytes_padded bytes_len - bytes_len) 0)"

fun element_offsets :: "nat \<Rightarrow> u8 list list \<Rightarrow> nat list" where
  "element_offsets running [] = []"
| "element_offsets running (body # bodies) = running # element_offsets (running + length body) bodies"

definition encode_aggregate3_calldata :: "call3 list \<Rightarrow> u8 list" where
  "encode_aggregate3_calldata calls =
     (let bodies = map encode_call3_element calls
      in aggregate3_selector @ u256_to_32bytes 32 @ usize_word (length calls)
         @ concat (map usize_word (element_offsets (32 * length calls) bodies)) @ concat bodies)"

section \<open>Multicall3 return data\<close>

definition multicall_error :: "string \<Rightarrow> sync_error" where
  "multicall_error reason = FetchFailed ''multicall'' reason"

definition read_u256_usize :: "u8 list \<Rightarrow> sync_error + u64" where
  "read_u256_usize bytes =
     (if length bytes \<noteq> 32 then Inl (multicall_error (''expected 32 bytes, got '' @ dec_string (length bytes)))
      else if list_ex (\<lambda>b. b \<noteq> 0) (take 24 bytes) then Inl (multicall_error ''u256 too large for usize'')
      else Inr (from_be_bytes (drop 24 bytes)))"

text \<open>\<open>data[a..b]\<close> and \<open>data[i]\<close>.\<close>

definition slice_range :: "u8 list \<Rightarrow> u64 \<Rightarrow> u64 \<Rightarrow> u8 list option" where
  "slice_range data a b =
     (if a \<le> b \<and> unat b \<le> length data then Some (take (unat b - unat a) (drop (unat a) data)) else None)"

definition byte_at :: "u8 list \<Rightarrow> u64 \<Rightarrow> u8 option" where
  "byte_at data i = (if unat i < length data then Some (data ! unat i) else None)"

text \<open>A step that may panic and may fail.\<close>

definition pbind :: "('e + 'a) option \<Rightarrow> ('a \<Rightarrow> ('e + 'b) option) \<Rightarrow> ('e + 'b) option" where
  "pbind m f = (case m of None \<Rightarrow> None | Some (Inl e) \<Rightarrow> Some (Inl e) | Some (Inr x) \<Rightarrow> f x)"

definition read_at :: "u8 list \<Rightarrow> u64 \<Rightarrow> u64 \<Rightarrow> (sync_error + u64) option" where
  "read_at data a b = map_option read_u256_usize (slice_range data a b)"

definition decode_element :: "u8 list \<Rightarrow> u64 \<Rightarrow> nat \<Rightarrow> (sync_error + call3_result) option" where
  "decode_element data table_base i =
     pbind (read_at data (table_base + word_of_nat i * 32) (table_base + (word_of_nat i + 1) * 32)) (\<lambda>elem_off.
       let elem_start = table_base + elem_off in
       if length data < unat (elem_start + 96)
       then Some (Inl (multicall_error (''returnData truncated at element '' @ dec_string i)))
       else case byte_at data (elem_start + 31) of
              None \<Rightarrow> None
            | Some flag \<Rightarrow>
                pbind (read_at data (elem_start + 64) (elem_start + 96)) (\<lambda>bytes_len.
                  if length data < unat (elem_start + 96 + bytes_len)
                  then Some (Inl (multicall_error (''returnData truncated at element '' @ dec_string i @ '' bytes'')))
                  else map_option (\<lambda>body. Inr \<lparr>cr_success = (flag \<noteq> 0), cr_return_data = body\<rparr>)
                         (slice_range data (elem_start + 96) (elem_start + 96 + bytes_len))))"

fun decode_elements :: "u8 list \<Rightarrow> u64 \<Rightarrow> nat list \<Rightarrow> (sync_error + call3_result list) option" where
  "decode_elements data table_base [] = Some (Inr [])"
| "decode_elements data table_base (i # is) =
     pbind (decode_element data table_base i) (\<lambda>r.
     pbind (decode_elements data table_base is) (\<lambda>rs. Some (Inr (r # rs))))"

text \<open>\<open>Vec::with_capacity(n)\<close> panics when the \<open>n\<close> elements of 32 bytes exceed \<open>isize::MAX\<close>.\<close>

definition decode_aggregate3_returndata :: "u8 list \<Rightarrow> (sync_error + call3_result list) option" where
  "decode_aggregate3_returndata data =
     (if length data < 64 then Some (Inl (multicall_error (''returnData too short: '' @ dec_string (length data))))
      else
        pbind (read_at data 0 32) (\<lambda>array_base.
          if length data < unat (array_base + 32)
          then Some (Inl (multicall_error ''returnData truncated at array length''))
          else
            pbind (read_at data array_base (array_base + 32)) (\<lambda>n.
              let table_base = array_base + 32; table_size = n * 32 in
              if length data < unat (table_base + table_size)
              then Some (Inl (multicall_error ''returnData truncated at offsets table''))
              else if 2 ^ 63 \<le> unat n * 32 then None
              else decode_elements data table_base [0..<unat n])))"

text \<open>\<open>Multicall::aggregate3\<close>, over the router's call and its Multicall3 address.\<close>

definition multicall_aggregate3 ::
  "(chain_id \<Rightarrow> address option) \<Rightarrow> (chain_id \<Rightarrow> address \<Rightarrow> u8 list \<Rightarrow> sync_error + u8 list)
     \<Rightarrow> chain_id \<Rightarrow> call3 list \<Rightarrow> (sync_error + call3_result list) option" where
  "multicall_aggregate3 multicall_addr call chain calls =
     (case multicall_addr chain of
        None \<Rightarrow> Some (Inl (multicall_error (''no multicall3 address configured for '' @ as_str chain)))
      | Some mc_addr \<Rightarrow>
          (case call chain mc_addr (encode_aggregate3_calldata calls) of
             Inl e \<Rightarrow> Some (Inl e)
           | Inr return_data \<Rightarrow> decode_aggregate3_returndata return_data))"

section \<open>The built-in decoders\<close>

definition decoder_error :: "string \<Rightarrow> sync_error" where
  "decoder_error reason = FetchFailed ''decoder'' reason"

definition u256_text :: "u8 list \<Rightarrow> nat \<Rightarrow> string" where
  "u256_text data start = dec_string (unat (from_be_bytes (take 32 (drop start data)) :: u256))"

definition decode_u256_as_string :: "u8 list \<Rightarrow> sync_error + json" where
  "decode_u256_as_string data =
     (if length data < 32
      then Inl (decoder_error (''u256 decoder needs >=32 bytes, got '' @ dec_string (length data)))
      else Inr (JStr (u256_text data 0)))"

definition decode_bool :: "u8 list \<Rightarrow> sync_error + json" where
  "decode_bool data =
     (if length data < 32 then Inl (decoder_error ''bool decoder needs >=32 bytes'')
      else Inr (JBool (data ! 31 \<noteq> 0)))"

definition decode_address :: "u8 list \<Rightarrow> sync_error + json" where
  "decode_address data =
     (if length data < 32 then Inl (decoder_error ''address decoder needs >=32 bytes'')
      else Inr (JStr (''0x'' @ concat (map (\<lambda>b. hex_fixed 2 (unat b)) (take 20 (drop 12 data))))))"

definition decode_permit2_allowance :: "u8 list \<Rightarrow> sync_error + json" where
  "decode_permit2_allowance data =
     (if length data < 96 then Inl (decoder_error (''permit2 needs >=96 bytes, got '' @ dec_string (length data)))
      else Inr (JObj [(''amount'', JStr (u256_text data 0)), (''expiration'', JStr (u256_text data 32)),
                      (''nonce'', JStr (u256_text data 64))]))"

definition decode_aave_user_data :: "u8 list \<Rightarrow> sync_error + json" where
  "decode_aave_user_data data =
     (if length data < 192
      then Inl (decoder_error (''aave_user_data needs >=192 bytes, got '' @ dec_string (length data)))
      else Inr (JObj [(''availableBorrowsBase'', JStr (u256_text data 64)),
                      (''currentLiquidationThreshold'', JStr (u256_text data 96)),
                      (''healthFactor'', JStr (u256_text data 160)), (''ltv'', JStr (u256_text data 128)),
                      (''totalCollateralBase'', JStr (u256_text data 0)), (''totalDebtBase'', JStr (u256_text data 32))]))"

definition decoder_builtins :: "string \<rightharpoonup> (u8 list \<Rightarrow> sync_error + json)" where
  "decoder_builtins =
     map_of [(''u256'', decode_u256_as_string), (''erc20_balance'', decode_u256_as_string),
             (''erc20_allowance'', decode_u256_as_string), (''erc20_total_supply'', decode_u256_as_string),
             (''permit2_allowance'', decode_permit2_allowance), (''permit2_nonce_bitmap'', decode_u256_as_string),
             (''aave_user_data'', decode_aave_user_data), (''bool'', decode_bool), (''address'', decode_address)]"

definition registry_decode ::
  "(string \<rightharpoonup> (u8 list \<Rightarrow> sync_error + json)) \<Rightarrow> string \<Rightarrow> u8 list \<Rightarrow> sync_error + json" where
  "registry_decode by_id decoder_id data =
     (case by_id decoder_id of None \<Rightarrow> Inl (UnknownDecoder decoder_id) | Some f \<Rightarrow> f data)"

section \<open>Batched reads\<close>

fun onchain_call_from_source :: "(string \<Rightarrow> u8 list) \<Rightarrow> u8 list \<Rightarrow> data_source \<Rightarrow> sync_error + onchain_call" where
  "onchain_call_from_source selector args (OnchainView chain contract fn decoder) =
     Inr \<lparr>oc_chain = chain, oc_contract = contract, oc_calldata = selector fn @ args, oc_decoder_id = decoder\<rparr>"
| "onchain_call_from_source selector args _ = Inl (FetchFailed ''onchain_fetcher'' ''expected OnchainView'')"

definition word_at :: "u8 list \<Rightarrow> nat \<Rightarrow> sync_error + u8 list" where
  "word_at data i =
     (if 32 * i + 32 \<le> length data then Inr (take 32 (drop (32 * i) data))
      else Inl (FetchFailed ''onchain_fetcher''
             (''uniswap_v3_position_fees_owed needs >=384 bytes, got '' @ dec_string (length data))))"

definition u256_word :: "u8 list \<Rightarrow> nat \<Rightarrow> sync_error + u256" where
  "u256_word data i = rbind (word_at data i) (\<lambda>w. Inr (from_be_bytes w))"

definition address_word :: "u8 list \<Rightarrow> nat \<Rightarrow> sync_error + address" where
  "address_word data i = rbind (word_at data i) (\<lambda>w. Inr (from_be_bytes (drop 12 w)))"

definition decode_uniswap_v3_position_fees_owed ::
  "onchain_fetcher \<Rightarrow> chain_id \<Rightarrow> u8 list \<Rightarrow> sync_error + json" where
  "decode_uniswap_v3_position_fees_owed O' chain data =
     rbind (address_word data 2) (\<lambda>token0.
     rbind (address_word data 3) (\<lambda>token1.
     rbind (u256_word data 10) (\<lambda>owed0.
     rbind (u256_word data 11) (\<lambda>owed1.
       of_fees_json O' [(Erc20 chain token0, owed0), (Erc20 chain token1, owed1)]))))"

definition decode_any :: "onchain_fetcher \<Rightarrow> string \<Rightarrow> u8 list \<Rightarrow> sync_error + json" where
  "decode_any O' decoder_id data =
     (case registry_decode (of_decoders O') decoder_id data of
        Inr v \<Rightarrow> Inr v
      | Inl _ \<Rightarrow>
          if of_abi_knows O' decoder_id then of_abi_decode O' decoder_id data
          else Inl (UnknownDecoder decoder_id))"

definition decode_call_value :: "onchain_fetcher \<Rightarrow> onchain_call \<Rightarrow> u8 list \<Rightarrow> sync_error + json" where
  "decode_call_value O' call data =
     (if oc_decoder_id call = ''uniswap_v3_position_fees_owed''
      then decode_uniswap_v3_position_fees_owed O' (oc_chain call) data
      else decode_any O' (oc_decoder_id call) data)"

fun sync_error_text :: "sync_error \<Rightarrow> string" where
  "sync_error_text (StoreError e) = ''store error: '' @ e"
| "sync_error_text (FetchFailed s r) = ''fetch failed: source_id='' @ s @ '', reason='' @ r"
| "sync_error_text (DeriveFailed c r) = ''derive failed: calc_id='' @ c @ '', reason='' @ r"
| "sync_error_text (CyclicDeps c) = ''cyclic DerivedFrom graph at calc_id='' @ c"
| "sync_error_text (UnknownCalcId c) = ''unknown calc_id: '' @ c"
| "sync_error_text (UnknownDecoder d) = ''unknown decoder_id: '' @ d"

definition outcome_of :: "onchain_fetcher \<Rightarrow> onchain_call \<times> call3_result \<Rightarrow> onchain_outcome" where
  "outcome_of O' cr =
     (if \<not> cr_success (snd cr)
      then \<lparr>oo_success = False, oo_value = None, oo_error = Some ''multicall returned !success''\<rparr>
      else case decode_call_value O' (fst cr) (cr_return_data (snd cr)) of
             Inr v \<Rightarrow> \<lparr>oo_success = True, oo_value = Some v, oo_error = None\<rparr>
           | Inl e \<Rightarrow> \<lparr>oo_success = False, oo_value = None, oo_error = Some (sync_error_text e)\<rparr>)"

definition fetch_batch_calls :: "onchain_fetcher \<Rightarrow> chain_id \<Rightarrow> onchain_call list \<Rightarrow> sync_error + onchain_outcome list" where
  "fetch_batch_calls O' chain calls =
     (if calls = [] then Inr []
      else case find (\<lambda>c. oc_chain c \<noteq> chain) calls of
        Some c \<Rightarrow> Inl (FetchFailed ''onchain_fetcher''
                    (''batch chain mismatch: expected '' @ as_str chain @ '', got '' @ as_str (oc_chain c)))
      | None \<Rightarrow>
          rbind (aggregate3 (of_router O') chain
                   (map (\<lambda>c. \<lparr>c3_target = oc_contract c, c3_allow_failure = True, c3_call_data = oc_calldata c\<rparr>) calls))
            (\<lambda>results. Inr (map (outcome_of O') (zip calls results))))"

section \<open>Failover\<close>

text \<open>
  \<open>HealthTracker\<close>: the state of every provider by name. An instant is a number of seconds of the monotonic
  clock. One call goes through a list of attempts: a provider, when its health is read, what it answers and when
  the answer is recorded.
\<close>

type_synonym health = "string \<rightharpoonup> provider_health"

definition provider_health_default :: provider_health where
  "provider_health_default = \<lparr>consecutive_failures = 0, unhealthy_until = None\<rparr>"

definition is_unhealthy :: "health \<Rightarrow> string \<Rightarrow> nat \<Rightarrow> bool" where
  "is_unhealthy H provider t =
     (case H provider of
        Some s \<Rightarrow> (case unhealthy_until s of Some u \<Rightarrow> t < u | None \<Rightarrow> False)
      | None \<Rightarrow> False)"

definition health_entry :: "health \<Rightarrow> string \<Rightarrow> provider_health" where
  "health_entry H provider = (case H provider of None \<Rightarrow> provider_health_default | Some s \<Rightarrow> s)"

definition record_success :: "health \<Rightarrow> string \<Rightarrow> health" where
  "record_success H provider = H(provider \<mapsto> \<lparr>consecutive_failures = 0, unhealthy_until = None\<rparr>)"

definition record_failure :: "failover_config \<Rightarrow> health \<Rightarrow> string \<Rightarrow> nat \<Rightarrow> health" where
  "record_failure C H provider t =
     (let entry = health_entry H provider;
          n = (if consecutive_failures entry = - 1 then - 1 else consecutive_failures entry + 1);
          entry = entry\<lparr>consecutive_failures := n\<rparr>
      in H(provider \<mapsto> (if mark_unhealthy_after C \<le> n
            then entry\<lparr>unhealthy_until := Some (t + unat (unhealthy_cooldown_sec C))\<rparr> else entry)))"

definition router_record :: "failover_config \<Rightarrow> health \<Rightarrow> string \<Rightarrow> nat \<Rightarrow> bool \<Rightarrow> health" where
  "router_record C H provider t ok = (if ok then record_success H provider else record_failure C H provider t)"

fun try_providers ::
  "failover_config \<Rightarrow> chain_id \<Rightarrow> sync_error option \<Rightarrow> 'a attempt list \<Rightarrow> health \<Rightarrow> health \<times> (sync_error + 'a)" where
  "try_providers C chain last_err [] H =
     (H, Inl (case last_err of
        Some e \<Rightarrow> e
      | None \<Rightarrow> FetchFailed ''router'' (''all providers failed for chain '' @ as_str chain)))"
| "try_providers C chain last_err (p # ps) H =
     (if is_unhealthy H (at_name p) (at_checked p) then try_providers C chain last_err ps H
      else case at_answer p of
             Inr v \<Rightarrow> (router_record C H (at_name p) (at_finished p) True, Inr v)
           | Inl e \<Rightarrow>
               try_providers C chain (Some e) ps (router_record C H (at_name p) (at_finished p) False))"

definition try_all ::
  "failover_config \<Rightarrow> (chain_id \<rightharpoonup> 'a attempt list) \<Rightarrow> chain_id \<Rightarrow> health \<Rightarrow> health \<times> (sync_error + 'a)" where
  "try_all C by_chain chain H =
     (case by_chain chain of
        None \<Rightarrow> (H, Inl (FetchFailed ''router'' (''no providers for chain '' @ as_str chain)))
      | Some providers \<Rightarrow> try_providers C chain None providers H)"

definition health_sweep :: "failover_config \<Rightarrow> unit attempt list \<Rightarrow> health \<Rightarrow> health \<times> (string \<times> (sync_error + unit)) list" where
  "health_sweep C providers H =
     (fold (\<lambda>p H. router_record C H (at_name p) (at_finished p) (is_ok (at_answer p))) providers H,
      map (\<lambda>p. (at_name p, at_answer p)) providers)"

end
