(* ===== verification/SyncRuntime.thy ===== *)
theory SyncRuntime
  imports SyncLive RpcLayer
begin

text \<open>
  The state passes of \<^verbatim>\<open>policy-server/sync/src/runtime/orchestrator.rs\<close>: refreshing live fields batch by batch,
  the Hyperliquid account merges (with \<^verbatim>\<open>state/src/position/hyperliquid.rs\<close>), the sync of intent orders and the
  reconciliation of signed permits; the refresh of a scope (\<^verbatim>\<open>actions/scope.rs\<close>); and the primitive facts of
  \<^verbatim>\<open>sources/primitives.rs\<close>. A pass returns the new wallet and its report. Error texts keep their fixed part. The
  loops run over the fetchers' answers, which are functions of the request during one pass.
\<close>

section \<open>Bytes\<close>

definition decode_u256_be :: "u8 list \<Rightarrow> u256 option" where
  "decode_u256_be return_data = (if length return_data < 32 then None else Some (from_be_bytes (take 32 return_data)))"

definition nonce_bitmap_selector :: "u8 list" where
  "nonce_bitmap_selector = [0x4f, 0xe0, 0x2b, 0x44]"

definition encode_nonce_bitmap :: "address \<Rightarrow> u256 \<Rightarrow> u8 list" where
  "encode_nonce_bitmap owner word = nonce_bitmap_selector @ replicate 12 0 @ be_bytes 20 owner @ be_bytes 32 word"

definition nonces_selector :: "u8 list" where
  "nonces_selector = [0x7e, 0xce, 0xbe, 0x00]"

definition encode_nonces :: "address \<Rightarrow> u8 list" where
  "encode_nonces owner = nonces_selector @ replicate 12 0 @ be_bytes 20 owner"

definition bitmap_bit_is_set :: "u256 \<Rightarrow> u8 \<Rightarrow> bool" where
  "bitmap_bit_is_set bitmap b =
     (let bytes = be_bytes 32 bitmap; byte_index = 31 - unat (b div 8); bit_index = unat (b mod 8)
      in and (bytes ! byte_index) (push_bit bit_index 1) \<noteq> 0)"

section \<open>The built-in calculations\<close>

text \<open>\<^verbatim>\<open>live/calc.rs\<close>; \<open>as_f64\<close> of a JSON number reads its text.\<close>

fun parse_decimal_f64 :: "'f f64_ops \<Rightarrow> json \<Rightarrow> string \<Rightarrow> sync_error + 'f" where
  "parse_decimal_f64 F (JStr s) name =
     ok_or (f64_parse F s) (DeriveFailed ''calc'' (name @ '': parse f64 from '' @ [CHR 0x27] @ s @ [CHR 0x27]))"
| "parse_decimal_f64 F (JNum n) name =
     ok_or (f64_parse F n) (DeriveFailed ''calc'' (name @ '': number not convertible to f64''))"
| "parse_decimal_f64 F _ name = Inl (DeriveFailed ''calc'' (name @ '': expected number or string''))"

definition trim_end_matches :: "char \<Rightarrow> string \<Rightarrow> string" where
  "trim_end_matches c s = rev (dropWhile (\<lambda>x. x = c) (rev s))"

definition trim_trailing_zeros :: "string \<Rightarrow> string" where
  "trim_trailing_zeros s =
     (if CHR ''.'' \<notin> set s then s else trim_end_matches (CHR ''.'') (trim_end_matches (CHR ''0'') s))"

definition format_decimal :: "'f f64_ops \<Rightarrow> 'f \<Rightarrow> string" where
  "format_decimal F v =
     (let big = f64_literal F ''1e15'' in
      if f64_less F big (f64_abs F v) \<or> f64_eq F (f64_abs F v) big then f64_show_exp F v
      else trim_trailing_zeros (f64_show_fixed8 F v))"

definition too_few_inputs :: "string \<Rightarrow> string \<Rightarrow> json list \<Rightarrow> sync_error" where
  "too_few_inputs calc_id n inputs =
     DeriveFailed calc_id (''expected '' @ n @ '' inputs, got '' @ dec_string (length inputs))"

definition aave_hf :: "'f f64_ops \<Rightarrow> json list \<Rightarrow> sync_error + json" where
  "aave_hf F inputs =
     (if length inputs < 3 then Inl (too_few_inputs ''aave_hf'' ''3'' inputs)
      else
        rbind (parse_decimal_f64 F (inputs ! 0) ''collateral'') (\<lambda>collateral.
        rbind (parse_decimal_f64 F (inputs ! 1) ''debt'') (\<lambda>debt.
        rbind (parse_decimal_f64 F (inputs ! 2) ''liq_threshold'') (\<lambda>liq_threshold.
          Inr (JStr (format_decimal F
            (if f64_eq F debt (f64_zero F) then f64_literal F ''1e18''
             else f64_div F (f64_mul F collateral liq_threshold) debt)))))))"

definition json_str_or :: "string \<Rightarrow> json \<Rightarrow> string" where
  "json_str_or d v = (case v of JStr s \<Rightarrow> s | _ \<Rightarrow> d)"

definition perp_pnl :: "'f f64_ops \<Rightarrow> json list \<Rightarrow> sync_error + json" where
  "perp_pnl F inputs =
     (if length inputs < 4 then Inl (too_few_inputs ''perp_pnl'' ''4'' inputs)
      else
        rbind (parse_decimal_f64 F (inputs ! 0) ''entry'') (\<lambda>entry.
        rbind (parse_decimal_f64 F (inputs ! 1) ''mark'') (\<lambda>mark.
        rbind (parse_decimal_f64 F (inputs ! 2) ''size'') (\<lambda>sz.
          let side = json_str_or ''long'' (inputs ! 3);
              sign = f64_literal F (if side = ''short'' then ''-1'' else ''1'')
          in Inr (JStr (format_decimal F (f64_mul F (f64_mul F (f64_sub F mark entry) sz) sign)))))))"

definition perp_liq_price :: "'f f64_ops \<Rightarrow> json list \<Rightarrow> sync_error + json" where
  "perp_liq_price F inputs =
     (if length inputs < 4 then Inl (too_few_inputs ''perp_liq_price'' ''4'' inputs)
      else
        rbind (parse_decimal_f64 F (inputs ! 0) ''entry'') (\<lambda>entry.
        rbind (parse_decimal_f64 F (inputs ! 1) ''leverage'') (\<lambda>lev.
        rbind (parse_decimal_f64 F (inputs ! 2) ''maintenance_factor'') (\<lambda>maint.
          let side = json_str_or ''long'' (inputs ! 3) in
          if f64_eq F lev (f64_zero F) then Inl (DeriveFailed ''perp_liq_price'' ''leverage cannot be 0'')
          else
            let factor = f64_mul_add F (f64_div F (f64_literal F ''1'') lev) (f64_neg F maint) (f64_literal F ''1'');
                liq = (if side = ''short'' then f64_mul F entry (f64_sub F (f64_literal F ''2'') factor)
                       else f64_mul F entry factor)
            in Inr (JStr (format_decimal F liq))))))"

definition calc_builtins :: "'f f64_ops \<Rightarrow> string \<rightharpoonup> (wallet_state \<Rightarrow> json list \<Rightarrow> sync_error + json)" where
  "calc_builtins F =
     map_of [(''aave_hf'', \<lambda>_. aave_hf F), (''perp_pnl'', \<lambda>_. perp_pnl F), (''perp_liq_price'', \<lambda>_. perp_liq_price F)]"

section \<open>Refreshing live fields\<close>

fun provider_key :: "oracle_provider \<Rightarrow> string" where
  "provider_key Chainlink = ''chainlink''"
| "provider_key Pyth = ''pyth''"
| "provider_key RedStone = ''redstone''"
| "provider_key (OtherOracle s) = s"

fun price_fetcher_for :: "orchestrator \<Rightarrow> data_source \<Rightarrow> (data_source \<Rightarrow> sync_error + price) option" where
  "price_fetcher_for orc (OracleFeed provider _) = price_fetchers orc (provider_key provider)"
| "price_fetcher_for orc _ = None"

definition calc_run :: "orchestrator \<Rightarrow> string \<Rightarrow> wallet_state \<Rightarrow> json list \<Rightarrow> sync_error + json" where
  "calc_run orc calc_id state inputs =
     (case calc_by_id orc calc_id of None \<Rightarrow> Inl (UnknownCalcId calc_id) | Some f \<Rightarrow> f state inputs)"

definition is_hyperliquid_endpoint :: "string \<Rightarrow> bool" where
  "is_hyperliquid_endpoint endpoint =
     (endpoint = [] \<or> sublist ''hyperliquid'' endpoint \<or> endpoint = ''https://api.hyperliquid.xyz/info'')"

definition state_position_market_symbol :: "wallet_state \<Rightarrow> string \<Rightarrow> string option" where
  "state_position_market_symbol state i =
     Option.bind (find (\<lambda>p. pos_id p = i) (positions state))
       (\<lambda>p. case pos_kind p of PerpPosition perp \<Rightarrow> Some (market_symbol (pp_market perp)) | _ \<Rightarrow> None)"

fun state_market_symbol :: "wallet_state \<Rightarrow> field_location \<Rightarrow> string option" where
  "state_market_symbol state (PerpMarkPrice i) = state_position_market_symbol state i"
| "state_market_symbol state (PerpLiqPrice i) = state_position_market_symbol state i"
| "state_market_symbol state (PerpUnrealizedPnl i) = state_position_market_symbol state i"
| "state_market_symbol state (PerpFundingOwed i) = state_position_market_symbol state i"
| "state_market_symbol state (PerpLeverage i) = state_position_market_symbol state i"
| "state_market_symbol state _ = None"

text \<open>The state of a batch loop: the wallet and the counters \<open>ok\<close> and \<open>fail\<close>.\<close>

type_synonym batch_acc = "wallet_state \<times> nat \<times> nat"

definition settle_item :: "sync_codec \<Rightarrow> time \<Rightarrow> stale_field \<Rightarrow> json option \<Rightarrow> batch_acc \<Rightarrow> batch_acc" where
  "settle_item S now' item v acc =
     (case acc of (state, ok, failed) \<Rightarrow>
        (case v of
           Some x \<Rightarrow> (apply_value S state (sf_location item) x now', ok + 1, failed)
         | None \<Rightarrow> (state, ok, failed + 1)))"

definition outcome_value :: "onchain_outcome \<Rightarrow> json option" where
  "outcome_value o' = (if oo_success o' then oo_value o' else None)"

definition oracle_value :: "orchestrator \<Rightarrow> stale_field \<Rightarrow> json option" where
  "oracle_value orc item =
     (case price_fetcher_for orc (sf_source item) of
        None \<Rightarrow> None
      | Some fetch \<Rightarrow> (case fetch (sf_source item) of Inr p \<Rightarrow> Some (JStr p) | Inl _ \<Rightarrow> None))"

fun ok_value :: "'e + 'a \<Rightarrow> 'a option" where
  "ok_value (Inr v) = Some v"
| "ok_value (Inl _) = None"

definition derived_value :: "sync_codec \<Rightarrow> orchestrator \<Rightarrow> wallet_state \<Rightarrow> stale_field \<Rightarrow> json option" where
  "derived_value S orc state item =
     (case sf_source item of
        DerivedFrom inputs calc_id \<Rightarrow>
          ok_value (calc_run orc calc_id state (resolve_inputs S state (orc_globals orc) inputs))
      | _ \<Rightarrow> None)"

definition venue_value :: "hl_fetcher \<Rightarrow> wallet_state \<Rightarrow> stale_field \<Rightarrow> json option" where
  "venue_value hl state item =
     ok_value (case state_market_symbol state (sf_location item) of
        Some coin \<Rightarrow> hl_fetch_state_value hl (sf_source item) (sf_location item) coin (wid_address (ws_id state))
      | None \<Rightarrow> hl_fetch hl (sf_source item))"

text \<open>One batch. The wallet is returned also when the batch fails: nothing was assigned then.\<close>

definition process_batch ::
  "sync_codec \<Rightarrow> orchestrator \<Rightarrow> fetch_batch \<Rightarrow> wallet_state \<Rightarrow> time \<Rightarrow> wallet_state \<times> (sync_error + (nat \<times> nat))" where
  "process_batch S orc batch state now' =
     (let items = fb_items batch; done_with = (\<lambda>(st, ok, failed). (st, Inr (ok, failed))) in
      case fb_kind batch of
        BatchOnchain chain \<Rightarrow>
          (case rfold (\<lambda>calls item. rbind (onchain_call_from_source (function_selector orc) [] (sf_source item)) (\<lambda>c. Inr (calls @ [c]))) [] items of
             Inl e \<Rightarrow> (state, Inl e)
           | Inr calls \<Rightarrow>
               (case fetch_batch_calls (orc_onchain orc) chain calls of
                  Inl e \<Rightarrow> (state, Inl e)
                | Inr outcomes \<Rightarrow>
                    done_with (fold (\<lambda>(item, o'). settle_item S now' item (outcome_value o')) (zip items outcomes) (state, 0, 0))))
      | BatchOracle \<Rightarrow>
          done_with (fold (\<lambda>item. settle_item S now' item (oracle_value orc item)) items (state, 0, 0))
      | BatchRegistry _ \<Rightarrow>
          (case orc_registry orc of
             None \<Rightarrow> (state, Inr (0, length items))
           | Some reg \<Rightarrow>
               done_with (fold (\<lambda>item. settle_item S now' item (ok_value (reg (sf_source item)))) items (state, 0, 0)))
      | BatchDerived \<Rightarrow>
          done_with (fold (\<lambda>item acc. settle_item S now' item (derived_value S orc (fst acc) item) acc) items (state, 0, 0))
      | BatchVenue endpoint \<Rightarrow>
          (case if is_hyperliquid_endpoint endpoint then orc_hyperliquid orc else None of
             None \<Rightarrow> (state, Inr (0, length items))
           | Some hl \<Rightarrow>
               done_with (fold (\<lambda>item acc. settle_item S now' item (venue_value hl (fst acc) item) acc) items (state, 0, 0)))
      | BatchUserSupplied \<Rightarrow> (state, Inr (0, 0)))"

definition refresh_report_default :: refresh_report where
  "refresh_report_default =
     \<lparr>rf_walked = walk_stats_default, rf_batches_processed = 0, rf_fields_updated = 0, rf_fields_failed = 0,
      rf_errors = []\<rparr>"

definition refresh_batch ::
  "sync_codec \<Rightarrow> orchestrator \<Rightarrow> time \<Rightarrow> fetch_batch \<Rightarrow> wallet_state \<times> refresh_report \<Rightarrow> wallet_state \<times> refresh_report" where
  "refresh_batch S orc now' batch acc =
     (case acc of (state, report) \<Rightarrow>
        let report = report\<lparr>rf_batches_processed := rf_batches_processed report + 1\<rparr> in
        case process_batch S orc batch state now' of
          (state', Inr (ok, failed)) \<Rightarrow>
            (state', report\<lparr>rf_fields_updated := rf_fields_updated report + ok,
                            rf_fields_failed := rf_fields_failed report + failed\<rparr>)
        | (state', Inl e) \<Rightarrow> (state', report\<lparr>rf_errors := rf_errors report @ [sync_error_text e]\<rparr>))"

definition refresh_walked ::
  "sync_codec \<Rightarrow> orchestrator \<Rightarrow> walk_acc \<Rightarrow> wallet_state \<Rightarrow> time \<Rightarrow> wallet_state \<times> refresh_report" where
  "refresh_walked S orc walk state now' =
     (let report = refresh_report_default\<lparr>rf_walked := snd walk\<rparr> in
      if fst walk = [] then (state, report)
      else fold (refresh_batch S orc now') (batch_by_source (fst walk)) (state, report))"

definition refresh :: "sync_codec \<Rightarrow> orchestrator \<Rightarrow> wallet_state \<Rightarrow> time \<Rightarrow> wallet_state \<times> refresh_report" where
  "refresh S orc state now' = refresh_walked S orc (walk_stale S state now') state now'"

section \<open>Refreshing the fields of a scope\<close>

text \<open>\<open>ActionScope\<close>: the three hash sets are lists in the order of their iteration.\<close>

definition push_field :: "data_source \<Rightarrow> time \<Rightarrow> field_location \<Rightarrow> walk_acc \<Rightarrow> walk_acc" where
  "push_field source synced location acc =
     (fst acc @ [\<lparr>sf_location = location, sf_source = source, sf_synced_at = synced\<rparr>],
      (snd acc)\<lparr>total_live_fields := total_live_fields (snd acc) + 1, stale_count := stale_count (snd acc) + 1\<rparr>)"

definition scope_token :: "sync_codec \<Rightarrow> wallet_state \<Rightarrow> token_key \<Rightarrow> walk_acc \<Rightarrow> walk_acc" where
  "scope_token S state key acc =
     (case Option.bind (Mapping.lookup (tokens state) key) price_usd of
        None \<Rightarrow> acc
      | Some p \<Rightarrow> push_field (lf_source p) (synced_at p) (TokenPrice (key_text S key)) acc)"

definition scope_lending :: "wallet_state \<Rightarrow> string \<Rightarrow> walk_acc \<Rightarrow> walk_acc" where
  "scope_lending state i acc =
     (case map_option pos_kind (find (\<lambda>p. pos_id p = i) (positions state)) of
        Some (LendingAccount la) \<Rightarrow>
          (let push = (\<lambda>(f :: decimal live_field) loc. push_field (lf_source f) (synced_at f) loc) in
           push (liquidation_threshold la) (LendingLiquidationThreshold i)
             (push (ltv la) (LendingLtv i) (push (health_factor la) (LendingHealthFactor i) acc)))
      | _ \<Rightarrow> acc)"

definition scope_perp :: "wallet_state \<Rightarrow> string \<Rightarrow> walk_acc \<Rightarrow> walk_acc" where
  "scope_perp state i acc =
     (case map_option pos_kind (find (\<lambda>p. pos_id p = i) (positions state)) of
        Some (PerpPosition p) \<Rightarrow>
          (let acc = push_field (lf_source (mark_price p)) (synced_at (mark_price p)) (PerpMarkPrice i) acc;
               acc = push_field (lf_source (liq_price p)) (synced_at (liq_price p)) (PerpLiqPrice i) acc;
               acc = push_field (lf_source (unrealized_pnl p)) (synced_at (unrealized_pnl p)) (PerpUnrealizedPnl i) acc;
               acc = push_field (lf_source (funding_owed p)) (synced_at (funding_owed p)) (PerpFundingOwed i) acc
           in push_field (lf_source (leverage p)) (synced_at (leverage p)) (PerpLeverage i) acc)
      | _ \<Rightarrow> acc)"

definition walk_scope ::
  "sync_codec \<Rightarrow> wallet_state \<Rightarrow> token_key list \<times> string list \<times> string list \<Rightarrow> walk_acc" where
  "walk_scope S state scope =
     (case scope of (keys, lending, perps) \<Rightarrow>
        fold (scope_perp state) perps
          (fold (scope_lending state) lending
            (fold (scope_token S state) keys ([], walk_stats_default))))"

definition refresh_for_scope ::
  "sync_codec \<Rightarrow> orchestrator \<Rightarrow> wallet_state \<Rightarrow> token_key list \<times> string list \<times> string list \<Rightarrow> time
     \<Rightarrow> wallet_state \<times> refresh_report" where
  "refresh_for_scope S orc state scope now' =
     (if scope = ([], [], []) then (state, refresh_report_default)
      else refresh_walked S orc (walk_scope S state scope) state now')"

end
