(* ===== verification/SyncPasses.thy ===== *)
theory SyncPasses
  imports SyncRuntime
begin

text \<open>
  The remaining passes over a wallet: the Hyperliquid account (\<^verbatim>\<open>sync_hyperliquid_*\<close> with the merges of
  \<^verbatim>\<open>state/src/position/hyperliquid.rs\<close>), intent orders, signed permits and primitive facts; and the scheduler of
  \<^verbatim>\<open>runtime/scheduler.rs\<close>, which runs them over the stored wallets.
\<close>

section \<open>The Hyperliquid account\<close>

definition f64_or_zero :: "'f f64_ops \<Rightarrow> decimal \<Rightarrow> 'f" where
  "f64_or_zero F s = (case f64_parse F s of None \<Rightarrow> f64_zero F | Some x \<Rightarrow> x)"

definition merge_longtail :: "'f f64_ops \<Rightarrow> hl_account \<Rightarrow> hl_account \<Rightarrow> longtail_fresh \<Rightarrow> hl_account" where
  "merge_longtail F self lt which =
     (let s1 = (if lt_staking which then self\<lparr>staking := staking lt\<rparr> else self);
          s2 = (if lt_vault_equities which then s1\<lparr>vault_equities := vault_equities lt\<rparr> else s1);
          s3 = (if lt_borrow_lend which then s2\<lparr>borrow_lend := borrow_lend lt\<rparr> else s2);
          s4 = (if lt_agents which then s3\<lparr>agents := agents lt\<rparr> else s3);
          s5 = (if lt_fills which then s4\<lparr>fill_window := fill_window lt\<rparr> else s4)
      in if lt_ledger which
         then s5\<lparr>cumulative_net_flow := f64_show F (f64_add F (f64_or_zero F (cumulative_net_flow s5))
                    (f64_or_zero F (cumulative_net_flow lt))),
                 ledger_cursor_ms := ledger_cursor_ms lt\<rparr>
         else s5)"

definition roll_anchors_at :: "'f f64_ops \<Rightarrow> hl_account \<Rightarrow> 'f \<Rightarrow> decimal \<Rightarrow> time \<Rightarrow> hl_account" where
  "roll_anchors_at F self cur_f current now' =
     (let hwm_f = Option.bind (equity_hwm self) (f64_parse F);
          s1 = (if case hwm_f of None \<Rightarrow> True | Some h \<Rightarrow> f64_less F h cur_f
                then self\<lparr>equity_hwm := Some current\<rparr> else self);
          today = utc_day now';
          prev_day = map_option (\<lambda>b. utc_day (anchored_at b)) (equity_baseline s1)
      in if prev_day \<noteq> Some today
         then s1\<lparr>equity_baseline := Some \<lparr>ea_value = current, anchored_at = now',
                    trusted = (case prev_day of None \<Rightarrow> False | Some d \<Rightarrow> d + 1 = today)\<rparr>\<rparr>
         else s1)"

definition roll_equity_anchors :: "'f f64_ops \<Rightarrow> hl_account \<Rightarrow> time \<Rightarrow> hl_account" where
  "roll_equity_anchors F self now' =
     (case perp_account_value_usd self of
        None \<Rightarrow> self
      | Some raw \<Rightarrow>
          (case f64_parse F raw of
             None \<Rightarrow> self
           | Some raw_f \<Rightarrow>
               if \<not> f64_is_finite F raw_f then self
               else let flow_f = f64_or_zero F (cumulative_net_flow self) in
                    if f64_eq F flow_f (f64_zero F) \<or> \<not> f64_is_finite F flow_f
                    then roll_anchors_at F self raw_f raw now'
                    else let adjusted = f64_sub F raw_f flow_f
                         in roll_anchors_at F self adjusted (f64_show F adjusted) now'))"

text \<open>Load or create the account position. A position of another kind under the id is left alone.\<close>

fun merge_hl_position :: "(hl_account \<Rightarrow> hl_account) \<Rightarrow> time \<Rightarrow> position list \<Rightarrow> position list option" where
  "merge_hl_position f now' [] = None"
| "merge_hl_position f now' (p # ps) =
     (if pos_id p = hl_account_id
      then Some ((case pos_kind p of
                    HyperliquidAccount a \<Rightarrow> p\<lparr>pos_kind := HyperliquidAccount (f a), pos_synced_at := now'\<rparr>
                  | _ \<Rightarrow> p) # ps)
      else map_option (\<lambda>qs. p # qs) (merge_hl_position f now' ps))"

definition upsert_hyperliquid_merge :: "wallet_state \<Rightarrow> (hl_account \<Rightarrow> hl_account) \<Rightarrow> time \<Rightarrow> wallet_state" where
  "upsert_hyperliquid_merge state f now' =
     (case merge_hl_position f now' (positions state) of
        Some ps \<Rightarrow> state\<lparr>positions := ps\<rparr>
      | None \<Rightarrow>
          state\<lparr>positions := positions state
            @ [\<lparr>pos_id = hl_account_id, pos_protocol = protocol_ref_new ''hyperliquid'', pos_chain = None,
                pos_kind = HyperliquidAccount (f hl_account_default), pos_synced_at = now',
                pos_source = VenueApi ''https://api.hyperliquid.xyz/info'' ''hl_account'' None\<rparr>]\<rparr>)"

definition apply_hl_core ::
  "'f f64_ops \<Rightarrow> wallet_state \<Rightarrow> hl_account \<Rightarrow> core_fresh \<Rightarrow> time \<Rightarrow> wallet_state" where
  "apply_hl_core F state core fresh now' =
     upsert_hyperliquid_merge state
       (\<lambda>a. let a' = merge_core a core fresh
            in if cf_clearinghouse fresh then roll_equity_anchors F a' now' else a') now'"

definition hl_not_configured :: hyperliquid_account_report where
  "hl_not_configured = \<lparr>account_updated = False, hr_errors = [''hyperliquid fetcher is not configured'']\<rparr>"

definition sync_hyperliquid_core ::
  "'f f64_ops \<Rightarrow> orchestrator \<Rightarrow> wallet_state \<Rightarrow> time \<Rightarrow> wallet_state \<times> hyperliquid_account_report" where
  "sync_hyperliquid_core F orc state now' =
     (case orc_hyperliquid orc of
        None \<Rightarrow> (state, hl_not_configured)
      | Some hl \<Rightarrow>
          (case hl_fetch_core hl (wid_address (ws_id state)) now' of (core, fresh, errors) \<Rightarrow>
             (apply_hl_core F state core fresh now', \<lparr>account_updated = True, hr_errors = errors\<rparr>)))"

fun find_ledger_cursor :: "position list \<Rightarrow> u64 option" where
  "find_ledger_cursor [] = None"
| "find_ledger_cursor (p # ps) =
     (case pos_kind p of HyperliquidAccount a \<Rightarrow> Some (ledger_cursor_ms a) | _ \<Rightarrow> find_ledger_cursor ps)"

definition saturating_mul_u64 :: "u64 \<Rightarrow> u64 \<Rightarrow> u64" where
  "saturating_mul_u64 a b = (if unat a * unat b < 2 ^ 64 then a * b else - 1)"

definition ledger_since :: "wallet_state \<Rightarrow> time \<Rightarrow> u64" where
  "ledger_since state now' =
     (case find_ledger_cursor (positions state) of
        Some c \<Rightarrow> if 0 < c then c else saturating_mul_u64 now' 1000
      | None \<Rightarrow> saturating_mul_u64 now' 1000)"

definition sync_hyperliquid_longtail ::
  "'f f64_ops \<Rightarrow> orchestrator \<Rightarrow> wallet_state \<Rightarrow> time \<Rightarrow> wallet_state \<times> hyperliquid_account_report" where
  "sync_hyperliquid_longtail F orc state now' =
     (case orc_hyperliquid orc of
        None \<Rightarrow> (state, hl_not_configured)
      | Some hl \<Rightarrow>
          (case hl_fetch_longtail hl (wid_address (ws_id state)) now' (ledger_since state now') of (lt, fresh, errors) \<Rightarrow>
             (upsert_hyperliquid_merge state (\<lambda>a. merge_longtail F a lt fresh) now',
              \<lparr>account_updated = True, hr_errors = errors\<rparr>)))"

definition upsert_hyperliquid_account ::
  "wallet_state \<Rightarrow> hl_account \<Rightarrow> data_source \<Rightarrow> time \<Rightarrow> sync_error + wallet_state" where
  "upsert_hyperliquid_account state account source now' =
     (let pos = \<lparr>pos_id = hl_account_id, pos_protocol = protocol_ref_new ''hyperliquid'', pos_chain = None,
                 pos_kind = HyperliquidAccount account, pos_synced_at = now', pos_source = source\<rparr>
      in case find (\<lambda>p. pos_id p = hl_account_id) (positions state) of
           None \<Rightarrow> Inr (state\<lparr>positions := positions state @ [pos]\<rparr>)
         | Some existing \<Rightarrow>
             (case pos_kind existing of
                HyperliquidAccount _ \<Rightarrow>
                  Inr (state\<lparr>positions := takeWhile (\<lambda>p. pos_id p \<noteq> hl_account_id) (positions state)
                         @ pos # tl (dropWhile (\<lambda>p. pos_id p \<noteq> hl_account_id) (positions state))\<rparr>)
              | _ \<Rightarrow> Inl (FetchFailed ''hyperliquid'' ''hyperliquid/account exists but is not a HyperliquidAccount'')))"

definition sync_hyperliquid_account ::
  "orchestrator \<Rightarrow> wallet_state \<Rightarrow> time \<Rightarrow> sync_error + (wallet_state \<times> hyperliquid_account_report)" where
  "sync_hyperliquid_account orc state now' =
     (case orc_hyperliquid orc of
        None \<Rightarrow> Inr (state, hl_not_configured)
      | Some hl \<Rightarrow>
          rbind (hl_fetch_account_snapshot hl (wid_address (ws_id state))) (\<lambda>account.
          rbind (upsert_hyperliquid_account state account (VenueApi (hl_info_endpoint hl) ''hl_account'' None) now')
            (\<lambda>state'. Inr (state', \<lparr>account_updated = True, hr_errors = []\<rparr>))))"

section \<open>Intent orders\<close>

definition intent_fetchers :: "orchestrator \<Rightarrow> intent_fetcher list" where
  "intent_fetchers orc =
     List.map_filter (\<lambda>f. f)
       [uniswap_x orc, cow_swap orc, one_inch_fusion orc, one_inch_fusion_plus orc, one_inch_lop orc]"

fun is_terminal :: "pending_status \<Rightarrow> bool" where
  "is_terminal Filled = True"
| "is_terminal Cancelled = True"
| "is_terminal Expired = True"
| "is_terminal Failed = True"
| "is_terminal _ = False"

fun replace_first :: "('a \<Rightarrow> bool) \<Rightarrow> 'a \<Rightarrow> 'a list \<Rightarrow> 'a list option" where
  "replace_first P y [] = None"
| "replace_first P y (x # xs) = (if P x then Some (y # xs) else map_option (\<lambda>zs. x # zs) (replace_first P y xs))"

definition upsert_order :: "pending_tx \<Rightarrow> pending_tx list \<Rightarrow> pending_tx list" where
  "upsert_order order ps =
     (if is_terminal (pl_status (ptx_lifecycle order)) then filter (\<lambda>p. ptx_id p \<noteq> ptx_id order) ps
      else case replace_first (\<lambda>p. ptx_id p = ptx_id order) order ps of
             Some qs \<Rightarrow> qs
           | None \<Rightarrow> ps @ [order])"

definition upsert_intent_orders :: "wallet_state \<Rightarrow> pending_tx list \<Rightarrow> wallet_state" where
  "upsert_intent_orders state orders = state\<lparr>pending := fold upsert_order orders (pending state)\<rparr>"

definition apply_intent_orders :: "wallet_state \<Rightarrow> pending_tx list \<Rightarrow> string option \<Rightarrow> wallet_state \<times> nat" where
  "apply_intent_orders state orders prefix' =
     (let state = upsert_intent_orders state orders in
      case prefix' of
        None \<Rightarrow> (state, 0)
      | Some pre \<Rightarrow>
          (let kept = filter (\<lambda>p. \<not> prefix pre (ptx_id p) \<or> ptx_id p \<in> set (map ptx_id orders)) (pending state)
           in (state\<lparr>pending := kept\<rparr>, length (pending state) - length kept)))"

definition intent_step ::
  "address \<Rightarrow> time \<Rightarrow> intent_fetcher \<Rightarrow> wallet_state \<times> intent_orders_report \<Rightarrow> wallet_state \<times> intent_orders_report" where
  "intent_step swapper now' fetcher acc =
     (case acc of (state, report) \<Rightarrow>
        case fetch_orders fetcher swapper now' of
          Inr orders \<Rightarrow>
            (case apply_intent_orders state orders (authoritative_prefix fetcher) of (state', pruned) \<Rightarrow>
               (state', report\<lparr>orders_updated := orders_updated report + length orders,
                               orders_pruned := orders_pruned report + pruned\<rparr>))
        | Inl e \<Rightarrow> (state, report\<lparr>ir_errors := ir_errors report @ [sync_error_text e]\<rparr>))"

definition run_intent_sync ::
  "intent_fetcher list \<Rightarrow> wallet_state \<Rightarrow> address \<Rightarrow> time \<Rightarrow> wallet_state \<times> intent_orders_report" where
  "run_intent_sync fetchers state swapper now' =
     fold (intent_step swapper now') fetchers
       (state, \<lparr>orders_updated = 0, orders_pruned = 0, ir_errors = []\<rparr>)"

definition sync_intent_orders :: "orchestrator \<Rightarrow> wallet_state \<Rightarrow> time \<Rightarrow> wallet_state \<times> intent_orders_report" where
  "sync_intent_orders orc state now' = run_intent_sync (intent_fetchers orc) state (wid_address (ws_id state)) now'"

section \<open>Signed permits\<close>

fun is_signed_permit_kind :: "pending_kind \<Rightarrow> bool" where
  "is_signed_permit_kind (SignedEIP2612 _ _ _ _ _) = True"
| "is_signed_permit_kind (SignedPermit2 _ _ _ _ _) = True"
| "is_signed_permit_kind (SignedPermit2Transfer _ _ _ _ _ _ _) = True"
| "is_signed_permit_kind _ = False"

definition permit_is_expired :: "time option \<Rightarrow> time \<Rightarrow> bool" where
  "permit_is_expired until now' = (case until of Some u \<Rightarrow> u < now' | None \<Rightarrow> False)"

definition eip2612_nonce_is_consumed :: "u256 \<Rightarrow> u256 \<Rightarrow> bool" where
  "eip2612_nonce_is_consumed onchain signed' = (signed' < onchain)"

definition permit2_contract_address :: address where
  "permit2_contract_address = 0x000000000022d473030f116ddee9f6b43ac78ba3"

definition permit2_nonce_consumed :: "orchestrator \<Rightarrow> chain_id \<Rightarrow> address \<Rightarrow> u256 \<Rightarrow> u8 \<Rightarrow> sync_error + bool" where
  "permit2_nonce_consumed orc chain owner word b =
     (case orc_router orc of
        None \<Rightarrow> Inl (FetchFailed ''permit2_nonce_bitmap'' ''no RpcRouter configured'')
      | Some router \<Rightarrow>
          rbind (eth_call router chain permit2_contract_address (encode_nonce_bitmap owner word)) (\<lambda>ret.
          rbind (ok_or (decode_u256_be ret) (FetchFailed ''permit2_nonce_bitmap'' (''short nonceBitmap return ('' @ dec_string (length ret) @ '' bytes)'')))
            (\<lambda>bitmap. Inr (bitmap_bit_is_set bitmap b))))"

definition eip2612_nonce_consumed :: "orchestrator \<Rightarrow> chain_id \<Rightarrow> address \<Rightarrow> address \<Rightarrow> u256 \<Rightarrow> sync_error + bool" where
  "eip2612_nonce_consumed orc chain token owner signed_nonce =
     (case orc_router orc of
        None \<Rightarrow> Inl (FetchFailed ''eip2612_nonces'' ''no RpcRouter configured'')
      | Some router \<Rightarrow>
          rbind (eth_call router chain token (encode_nonces owner)) (\<lambda>ret.
          rbind (ok_or (decode_u256_be ret) (FetchFailed ''eip2612_nonces'' (''short nonces return ('' @ dec_string (length ret) @ '' bytes)'')))
            (\<lambda>onchain. Inr (eip2612_nonce_is_consumed onchain signed_nonce))))"

definition permit_consumed :: "orchestrator \<Rightarrow> address \<Rightarrow> pending_tx \<Rightarrow> (string \<times> sync_error) + bool" where
  "permit_consumed orc owner p =
     (case ptx_kind p of
        SignedPermit2Transfer token _ _ _ _ (word, b) _ \<Rightarrow>
          (case permit2_nonce_consumed orc (key_chain (ref_key token)) owner word b of
             Inr c \<Rightarrow> Inr c | Inl e \<Rightarrow> Inl (''permit2 nonce-bitmap read for '', e))
      | SignedEIP2612 token _ _ _ nonce \<Rightarrow>
          (case ref_key token of
             Erc20 chain a \<Rightarrow>
               (case eip2612_nonce_consumed orc chain a owner nonce of
                  Inr c \<Rightarrow> Inr c | Inl e \<Rightarrow> Inl (''eip2612 nonces read for '', e))
           | _ \<Rightarrow> Inr False)
      | _ \<Rightarrow> Inr False)"

definition permit_step ::
  "orchestrator \<Rightarrow> address \<Rightarrow> time \<Rightarrow> pending_tx \<Rightarrow> string list \<times> permit_reconcile_report
     \<Rightarrow> string list \<times> permit_reconcile_report" where
  "permit_step orc owner now' p acc =
     (case acc of (to_prune, report) \<Rightarrow>
        if \<not> is_signed_permit_kind (ptx_kind p) then acc
        else if permit_is_expired (valid_until (ptx_lifecycle p)) now'
        then (to_prune @ [ptx_id p], report\<lparr>permits_retired := permits_retired report + 1\<rparr>)
        else case permit_consumed orc owner p of
               Inr True \<Rightarrow> (to_prune @ [ptx_id p], report\<lparr>permits_retired := permits_retired report + 1\<rparr>)
             | Inr False \<Rightarrow> acc
             | Inl (what, e) \<Rightarrow>
                 (to_prune, report\<lparr>pr_errors := pr_errors report @ [what @ ptx_id p @ '': '' @ sync_error_text e]\<rparr>))"

definition reconcile_permits :: "orchestrator \<Rightarrow> wallet_state \<Rightarrow> time \<Rightarrow> wallet_state \<times> permit_reconcile_report" where
  "reconcile_permits orc state now' =
     (case fold (permit_step orc (wid_address (ws_id state)) now') (pending state)
             ([], \<lparr>permits_retired = 0, pr_errors = []\<rparr>) of
        (to_prune, report) \<Rightarrow>
          (if to_prune = [] then state
           else state\<lparr>pending := filter (\<lambda>p. ptx_id p \<notin> set to_prune) (pending state)\<rparr>, report))"

end
