(* ===== verification/SyncSchedule.thy ===== *)
theory SyncSchedule
  imports SyncPasses
begin

text \<open>
  The primitive facts of a wallet (\<^verbatim>\<open>sync/src/sources/primitives.rs\<close>: block heights, balances and allowances) and
  the scheduler that runs every pass over the stored wallets (\<^verbatim>\<open>sync/src/runtime/scheduler.rs\<close>). One tick reads
  the store, syncs the first \<open>max_wallets_per_tick\<close> wallets one after the other and writes each back. The store is
  an argument: its state is threaded through the calls.
\<close>

section \<open>Primitive facts\<close>

definition chain_requests :: "wallet_state \<Rightarrow> chain_id \<Rightarrow> primitive_fetch_request list" where
  "chain_requests state chain =
     (let token_addresses = List.map_filter
            (\<lambda>key. case key of Erc20 c a \<Rightarrow> if c = chain then Some a else None | _ \<Rightarrow> None)
            (Mapping.ordered_keys (tokens state))
      in [ReqBlockHeight chain]
         @ (if Mapping.lookup (tokens state) (Native chain) \<noteq> None then [ReqNativeBalance chain] else [])
         @ (if token_addresses = [] then [] else [ReqErc20Balances chain token_addresses]))"

definition approval_requests :: "wallet_state \<Rightarrow> primitive_fetch_request list" where
  "approval_requests state =
     concat (map (\<lambda>((chain, token), spenders).
         map (\<lambda>spender. ReqErc20Approval chain token spender) (Mapping.ordered_keys spenders))
       (Mapping.ordered_entries (erc20 (approvals state))))"

definition plan_primitive_fetches :: "wallet_state \<Rightarrow> primitive_fetch_plan" where
  "plan_primitive_fetches state =
     \<lparr>plan_owner = wid_address (ws_id state),
      plan_requests = concat (map (chain_requests state) (sorted_list_of_set (wid_chains (ws_id state))))
        @ approval_requests state\<rparr>"

fun primitive_request_label :: "primitive_fetch_request \<Rightarrow> string" where
  "primitive_request_label (ReqBlockHeight chain) = ''blockNumber '' @ as_str chain"
| "primitive_request_label (ReqNativeBalance chain) = ''balance native '' @ as_str chain"
| "primitive_request_label (ReqErc20Balances chain _) = ''erc20 multicall '' @ as_str chain"
| "primitive_request_label (ReqErc20Approval chain token spender) =
     ''allowance '' @ as_str chain @ '' token='' @ lowercase_hex token @ '' spender='' @ lowercase_hex spender"

definition balance_update :: "chain_id \<Rightarrow> address \<times> call3_result \<Rightarrow> primitive_fetch_update option" where
  "balance_update chain tr =
     (if cr_success (snd tr) \<and> 32 \<le> length (cr_return_data (snd tr))
      then Some (UpdErc20Balance chain (fst tr) (from_be_bytes (take 32 (cr_return_data (snd tr))))) else None)"

definition fetch_primitive_update ::
  "orchestrator \<Rightarrow> primitive_fetch_request \<Rightarrow> address \<Rightarrow> sync_error + primitive_fetch_update list" where
  "fetch_primitive_update orc request owner =
     (case orc_router orc of
        None \<Rightarrow> Inl (FetchFailed (primitive_request_label request) ''primitive fetch requires a configured RPC router'')
      | Some router \<Rightarrow>
          (case request of
             ReqBlockHeight chain \<Rightarrow>
               rbind (eth_block_number router chain) (\<lambda>number. Inr [UpdBlockHeight chain number])
           | ReqNativeBalance chain \<Rightarrow>
               rbind (eth_balance router chain owner) (\<lambda>amount. Inr [UpdNativeBalance chain amount])
           | ReqErc20Balances chain token_addresses \<Rightarrow>
               rbind (aggregate3 router chain
                        (map (\<lambda>token. \<lparr>c3_target = token, c3_allow_failure = True,
                            c3_call_data = function_selector orc ''balanceOf(address)'' @ encode_address owner\<rparr>)
                          token_addresses))
                 (\<lambda>results. Inr (List.map_filter (balance_update chain) (zip token_addresses results)))
           | ReqErc20Approval chain token spender \<Rightarrow>
               rbind (eth_call router chain token (function_selector orc ''allowance(address,address)''
                        @ encode_address owner @ encode_address spender))
                 (\<lambda>ret. Inr (if 32 \<le> length ret
                    then [UpdErc20Approval chain token spender (from_be_bytes (take 32 ret))] else []))))"

definition set_balance :: "token_key \<Rightarrow> u256 \<Rightarrow> time \<Rightarrow> wallet_state \<Rightarrow> wallet_state" where
  "set_balance key amount now' state =
     (case Mapping.lookup (tokens state) key of
        None \<Rightarrow> state
      | Some holding \<Rightarrow>
          state\<lparr>tokens := Mapping.update key
            (holding\<lparr>th_balance := Fungible amount, last_synced_at := now'\<rparr>) (tokens state)\<rparr>)"

definition set_allowance :: "contract_addr_key_t \<Rightarrow> spender \<Rightarrow> u256 \<Rightarrow> time \<Rightarrow> wallet_state \<Rightarrow> wallet_state" where
  "set_allowance key spender amount now' state =
     (case Mapping.lookup (erc20 (approvals state)) key of
        None \<Rightarrow> state
      | Some spenders \<Rightarrow>
          (case Mapping.lookup spenders spender of
             None \<Rightarrow> state
           | Some spec \<Rightarrow>
               state\<lparr>approvals := (approvals state)\<lparr>erc20 := Mapping.update key
                 (Mapping.update spender
                   (spec\<lparr>alw_amount := amount, is_unlimited := (amount = u256_max), last_set_at := now'\<rparr>) spenders)
                 (erc20 (approvals state))\<rparr>\<rparr>))"

fun apply_primitive_update ::
  "time \<Rightarrow> primitive_fetch_update \<Rightarrow> wallet_state \<times> primitives_report \<Rightarrow> wallet_state \<times> primitives_report" where
  "apply_primitive_update now' (UpdBlockHeight chain number) (state, report) =
     (state\<lparr>block_heights := Mapping.update chain \<lparr>bh_number = number, bh_time = now'\<rparr> (block_heights state)\<rparr>,
      report\<lparr>block_heights_updated := block_heights_updated report + 1\<rparr>)"
| "apply_primitive_update now' (UpdNativeBalance chain amount) (state, report) =
     (set_balance (Native chain) amount now' state,
      if Mapping.lookup (tokens state) (Native chain) = None then report
      else report\<lparr>native_balances_updated := native_balances_updated report + 1\<rparr>)"
| "apply_primitive_update now' (UpdErc20Balance chain token amount) (state, report) =
     (set_balance (Erc20 chain token) amount now' state,
      if Mapping.lookup (tokens state) (Erc20 chain token) = None then report
      else report\<lparr>erc20_balances_updated := erc20_balances_updated report + 1\<rparr>)"
| "apply_primitive_update now' (UpdErc20Approval chain token spender amount) (state, report) =
     (set_allowance (chain, token) spender amount now' state,
      if allowance (approvals state) (chain, token) spender = None then report
      else report\<lparr>approvals_updated := approvals_updated report + 1\<rparr>)"

definition primitives_report_default :: primitives_report where
  "primitives_report_default =
     \<lparr>block_heights_updated = 0, native_balances_updated = 0, erc20_balances_updated = 0, approvals_updated = 0,
      pm_errors = []\<rparr>"

definition primitive_step ::
  "orchestrator \<Rightarrow> address \<Rightarrow> time \<Rightarrow> primitive_fetch_request \<Rightarrow> wallet_state \<times> primitives_report
     \<Rightarrow> wallet_state \<times> primitives_report" where
  "primitive_step orc owner now' request acc =
     (case fetch_primitive_update orc request owner of
        Inr updates \<Rightarrow> fold (apply_primitive_update now') updates acc
      | Inl e \<Rightarrow>
          (fst acc, (snd acc)\<lparr>pm_errors := pm_errors (snd acc)
             @ [primitive_request_label request @ '': '' @ sync_error_text e]\<rparr>))"

definition sync_primitives :: "orchestrator \<Rightarrow> wallet_state \<Rightarrow> time \<Rightarrow> wallet_state \<times> primitives_report" where
  "sync_primitives orc state now' =
     (if orc_router orc = None
      then (state, primitives_report_default\<lparr>pm_errors := [''no router configured'']\<rparr>)
      else let plan = plan_primitive_fetches state
           in fold (primitive_step orc (plan_owner plan) now') (plan_requests plan) (state, primitives_report_default))"

section \<open>One wallet of a tick\<close>

definition scheduler_config_default :: scheduler_config where
  "scheduler_config_default =
     \<lparr>max_wallets_per_tick = 100, sync_primitives_flag = True, sync_hyperliquid_accounts = True,
      sync_intent_orders_flag = True, refresh_live_fields = True, hl_longtail_every = 10\<rparr>"

definition tick_report_default :: tick_report where
  "tick_report_default =
     \<lparr>wallets_processed = 0, total_primitives_updated = 0, total_primitive_errors = 0,
      total_hyperliquid_accounts_updated = 0, total_hyperliquid_errors = 0, total_fields_updated = 0,
      total_fields_failed = 0, tk_errors = [], synced_wallets = []\<rparr>"

text \<open>
  What a pass adds to the report of the tick and to the counters of its wallet. Every pass of the source returns
  \<open>Result\<close>, but none of those a tick runs returns an error: the \<open>Err\<close> arms of the tick are not reached.
\<close>

type_synonym wallet_acc = "wallet_state \<times> tick_report \<times> nat \<times> nat"

definition tick_errors :: "string \<Rightarrow> string \<Rightarrow> string list \<Rightarrow> tick_report \<Rightarrow> tick_report" where
  "tick_errors what who errors report =
     report\<lparr>tk_errors := tk_errors report @ map (\<lambda>e. what @ '' '' @ who @ '': '' @ e) errors\<rparr>"

definition pass_primitives :: "orchestrator \<Rightarrow> string \<Rightarrow> time \<Rightarrow> wallet_acc \<Rightarrow> wallet_acc" where
  "pass_primitives orc who now' acc =
     (case acc of (state, report, updated, failed) \<Rightarrow>
        case sync_primitives orc state now' of (state', pr) \<Rightarrow>
          let n = block_heights_updated pr + native_balances_updated pr + erc20_balances_updated pr
                    + approvals_updated pr
          in (state',
              tick_errors ''primitives'' who (pm_errors pr)
                (report\<lparr>total_primitives_updated := total_primitives_updated report + n,
                        total_primitive_errors := total_primitive_errors report + length (pm_errors pr)\<rparr>),
              updated + n, failed))"

definition pass_hl_core :: "'f f64_ops \<Rightarrow> orchestrator \<Rightarrow> string \<Rightarrow> time \<Rightarrow> wallet_acc \<Rightarrow> wallet_acc" where
  "pass_hl_core F orc who now' acc =
     (case acc of (state, report, updated, failed) \<Rightarrow>
        case sync_hyperliquid_core F orc state now' of (state', hr) \<Rightarrow>
          let n = (if account_updated hr then 1 else 0)
          in (state',
              tick_errors ''hyperliquid core'' who (hr_errors hr)
                (report\<lparr>total_hyperliquid_accounts_updated := total_hyperliquid_accounts_updated report + n,
                        total_hyperliquid_errors := total_hyperliquid_errors report + length (hr_errors hr)\<rparr>),
              updated + n, failed + length (hr_errors hr)))"

definition pass_hl_longtail :: "'f f64_ops \<Rightarrow> orchestrator \<Rightarrow> string \<Rightarrow> time \<Rightarrow> wallet_acc \<Rightarrow> wallet_acc" where
  "pass_hl_longtail F orc who now' acc =
     (case acc of (state, report, counts) \<Rightarrow>
        case sync_hyperliquid_longtail F orc state now' of (state', hr) \<Rightarrow>
          (state',
           tick_errors ''hyperliquid longtail'' who (hr_errors hr)
             (report\<lparr>total_hyperliquid_errors := total_hyperliquid_errors report + length (hr_errors hr)\<rparr>),
           counts))"

definition pass_intents :: "orchestrator \<Rightarrow> string \<Rightarrow> time \<Rightarrow> wallet_acc \<Rightarrow> wallet_acc" where
  "pass_intents orc who now' acc =
     (case acc of (state, report, updated, failed) \<Rightarrow>
        case sync_intent_orders orc state now' of (state', ir) \<Rightarrow>
          (state', tick_errors ''intent'' who (ir_errors ir) report,
           updated + orders_updated ir, failed + length (ir_errors ir)))"

definition pass_permits :: "orchestrator \<Rightarrow> string \<Rightarrow> time \<Rightarrow> wallet_acc \<Rightarrow> wallet_acc" where
  "pass_permits orc who now' acc =
     (case acc of (state, report, updated, failed) \<Rightarrow>
        case reconcile_permits orc state now' of (state', pr) \<Rightarrow>
          (state', tick_errors ''permit'' who (pr_errors pr) report,
           updated + permits_retired pr, failed + length (pr_errors pr)))"

definition pass_refresh :: "sync_codec \<Rightarrow> orchestrator \<Rightarrow> string \<Rightarrow> time \<Rightarrow> wallet_acc \<Rightarrow> wallet_acc" where
  "pass_refresh S orc who now' acc =
     (case acc of (state, report, updated, failed) \<Rightarrow>
        case refresh S orc state now' of (state', rr) \<Rightarrow>
          (state',
           tick_errors ''refresh'' who (rf_errors rr)
             (report\<lparr>total_fields_updated := total_fields_updated report + rf_fields_updated rr,
                     total_fields_failed := total_fields_failed report + rf_fields_failed rr\<rparr>),
           updated + rf_fields_updated rr, failed + rf_fields_failed rr))"

definition longtail_due :: "scheduler_config \<Rightarrow> u64 \<Rightarrow> bool" where
  "longtail_due cfg tick = (tick mod max (hl_longtail_every cfg) 1 = 0)"

definition sync_wallet ::
  "sync_codec \<Rightarrow> 'f f64_ops \<Rightarrow> orchestrator \<Rightarrow> scheduler_config \<Rightarrow> u64 \<Rightarrow> time \<Rightarrow> wallet_id \<Rightarrow> wallet_state
     \<Rightarrow> tick_report \<Rightarrow> wallet_acc" where
  "sync_wallet S F orc cfg tick now' wid state report =
     (let who = checksum_text S (wid_address wid);
          a0 = (state, report, 0, 0);
          a1 = (if sync_primitives_flag cfg then pass_primitives orc who now' a0 else a0);
          a2 = (if sync_hyperliquid_accounts cfg then pass_hl_core F orc who now' a1 else a1);
          a3 = (if sync_hyperliquid_accounts cfg \<and> longtail_due cfg tick then pass_hl_longtail F orc who now' a2 else a2);
          a4 = (if sync_intent_orders_flag cfg then pass_intents orc who now' a3 else a3);
          a5 = (if sync_intent_orders_flag cfg then pass_permits orc who now' a4 else a4)
      in if refresh_live_fields cfg then pass_refresh S orc who now' a5 else a5)"

section \<open>A tick\<close>

definition tick_wallet ::
  "sync_codec \<Rightarrow> 'f f64_ops \<Rightarrow> orchestrator \<Rightarrow> 'st wallet_store \<Rightarrow> scheduler_config \<Rightarrow> u64 \<Rightarrow> time \<Rightarrow> wallet_id
     \<Rightarrow> 'st \<times> tick_report \<Rightarrow> 'st \<times> tick_report" where
  "tick_wallet S F orc W cfg tick now' wid acc =
     (case acc of (st, report) \<Rightarrow>
        let who = checksum_text S (wid_address wid) in
        case load_wallet W st wid of
          Inl e \<Rightarrow> (st, report\<lparr>tk_errors := tk_errors report @ [''load '' @ who @ '': '' @ e]\<rparr>)
        | Inr state \<Rightarrow>
            (case sync_wallet S F orc cfg tick now' wid state report of (state', report', updated, failed) \<Rightarrow>
               (case save_wallet W st state' of
                  Inr st' \<Rightarrow>
                    (st', report'\<lparr>wallets_processed := wallets_processed report' + 1,
                       synced_wallets := synced_wallets report'
                         @ [\<lparr>wsc_wallet = wid, wsc_fields_updated = updated, wsc_fields_failed = failed\<rparr>]\<rparr>)
                | Inl e \<Rightarrow> (st, report'\<lparr>tk_errors := tk_errors report' @ [''save '' @ who @ '': '' @ e]\<rparr>))))"

text \<open>The store, the tick index and the outcome. The index counts the ticks whose listing succeeded.\<close>

definition tick_once ::
  "sync_codec \<Rightarrow> 'f f64_ops \<Rightarrow> orchestrator \<Rightarrow> 'st wallet_store \<Rightarrow> scheduler_config \<Rightarrow> time \<Rightarrow> 'st \<times> u64
     \<Rightarrow> ('st \<times> u64) \<times> (sync_error + tick_report)" where
  "tick_once S F orc W cfg now' sys =
     (case sys of (st, tick) \<Rightarrow>
        case list_wallets W st of
          Inl e \<Rightarrow> ((st, tick), Inl (StoreError e))
        | Inr wallets \<Rightarrow>
            (case fold (tick_wallet S F orc W cfg tick now') (take (max_wallets_per_tick cfg) wallets)
                    (st, tick_report_default) of
               (st', report) \<Rightarrow> ((st', tick + 1), Inr report)))"

text \<open>\<open>run_forever\<close> up to a given number of ticks: the answers of the outside world and the clock of each tick.\<close>

fun run_ticks ::
  "sync_codec \<Rightarrow> 'f f64_ops \<Rightarrow> 'st wallet_store \<Rightarrow> scheduler_config \<Rightarrow> (orchestrator \<times> time) list \<Rightarrow> 'st \<times> u64
     \<Rightarrow> ('st \<times> u64) \<times> (sync_error + tick_report) list" where
  "run_ticks S F W cfg [] sys = (sys, [])"
| "run_ticks S F W cfg ((orc, now') # ticks) sys =
     (case tick_once S F orc W cfg now' sys of (sys', r) \<Rightarrow>
        case run_ticks S F W cfg ticks sys' of (sys'', rs) \<Rightarrow> (sys'', r # rs))"

end
