(* ===== verification/RpcFacts.thy ===== *)
theory RpcFacts
  imports RpcLayer
begin

text \<open>
  Facts about the RPC layer: big-endian bytes read back, the ABI encoding of a dynamic array is decoded element
  by element, and the failover of the router.
\<close>

unbundle bit_operations_syntax

section \<open>Bytes\<close>

lemma length_be_bytes [simp]: "length (be_bytes n w) = n"
  by (simp add: be_bytes_def)

lemma be_bytes_nth: "i < n \<Longrightarrow> be_bytes n w ! i = ucast (drop_bit (8 * (n - 1 - i)) w)"
  by (simp add: be_bytes_def)

lemma byte_split: "8 \<le> LENGTH('a::len) \<Longrightarrow> drop_bit 8 v * 256 + ucast (ucast v :: u8) = (v :: 'a word)"
proof -
  assume "8 \<le> LENGTH('a)"
  then have "ucast (ucast v :: u8) = take_bit 8 v"
    by (intro bit_word_eqI) (auto simp: bit_simps)
  moreover have "drop_bit 8 v * 256 = push_bit 8 (drop_bit 8 v)"
    by (simp add: push_bit_eq_mult)
  ultimately show ?thesis
    by (simp only: bits_ident)
qed

lemma from_be_bytes_prefix:
  fixes w :: "'a::len word"
  assumes "8 \<le> LENGTH('a)" "drop_bit (8 * n) w = 0" "k \<le> n"
  shows "from_be_bytes (take k (be_bytes n w)) = drop_bit (8 * (n - k)) w"
  using assms(3)
proof (induction k)
  case 0
  then show ?case using assms(2) by (simp add: from_be_bytes_def)
next
  case (Suc k)
  then have k: "k < n" by simp
  let ?v = "drop_bit (8 * (n - Suc k)) w"
  have "drop_bit (8 * (n - k)) w = drop_bit 8 ?v"
    using k by (simp add: Suc_diff_Suc [symmetric] algebra_simps del: Suc_diff_Suc)
  moreover have "(from_be_bytes (take (Suc k) (be_bytes n w)) :: 'a word)
      = from_be_bytes (take k (be_bytes n w)) * 256 + ucast (be_bytes n w ! k)"
    using k by (simp add: from_be_bytes_def take_Suc_conv_app_nth)
  ultimately show ?case
    using Suc k byte_split [OF assms(1), of ?v] by (simp add: be_bytes_nth)
qed

lemma from_be_bytes_be: "8 \<le> LENGTH('a::len) \<Longrightarrow> drop_bit (8 * n) w = 0 \<Longrightarrow> from_be_bytes (be_bytes n w) = (w :: 'a word)"
  using from_be_bytes_prefix [of n w n] by simp

lemma u256_bytes [simp]: "from_be_bytes (be_bytes 32 w) = (w :: u256)"
  by (rule from_be_bytes_be) (simp_all add: bit_eq_iff bit_simps)

lemma length_words [simp]:
  "length (u256_to_32bytes v) = 32" "length (usize_word n) = 32" "length (bool_to_32bytes b) = 32"
  "length (address_to_32bytes a) = 32"
  by (simp_all add: u256_to_32bytes_def usize_word_def bool_to_32bytes_def address_to_32bytes_def)

lemma widened_bytes:
  fixes w :: u64
  shows "take 24 (be_bytes 32 (ucast w :: u256)) = replicate 24 0"
    and "drop 24 (be_bytes 32 (ucast w :: u256)) = be_bytes 8 w"
proof -
  have high: "\<not> bit w (8 * (31 - i) + m)" if "i < 24" for i m
    using bit_imp_le_length [of w "8 * (31 - i) + m"] that by auto
  show "take 24 (be_bytes 32 (ucast w :: u256)) = replicate 24 0"
    by (rule nth_equalityI) (auto simp: be_bytes_nth bit_simps high intro!: bit_word_eqI)
  show "drop 24 (be_bytes 32 (ucast w :: u256)) = be_bytes 8 w"
    by (rule nth_equalityI) (auto simp: be_bytes_nth bit_simps intro!: bit_word_eqI)
qed

lemma read_usize_word: "n < 2 ^ 64 \<Longrightarrow> read_u256_usize (usize_word n) = Inr (word_of_nat n)"
  by (simp add: read_u256_usize_def usize_word_def u256_to_32bytes_def widened_bytes list_ex_iff)
     (rule from_be_bytes_be, simp_all add: bit_eq_iff bit_simps)

lemma bitmap_byte_bit:
  fixes b :: u8
  shows "unat (b div 8) \<le> 31" "8 * unat (b div 8) + unat (b mod 8) = unat b" "unat (b mod 8) < 8"
proof -
  have "unat b < 256"
    using unat_less [of b] by simp
  then show "unat (b div 8) \<le> 31" "8 * unat (b div 8) + unat (b mod 8) = unat b" "unat (b mod 8) < 8"
    by (simp_all add: unat_div unat_mod)
qed

section \<open>The ABI encoding of an array of dynamic tuples\<close>

definition abi_array :: "u8 list list \<Rightarrow> u8 list" where
  "abi_array bodies =
     u256_to_32bytes 32 @ usize_word (length bodies)
       @ concat (map usize_word (element_offsets (32 * length bodies) bodies)) @ concat bodies"

definition result_body :: "call3_result \<Rightarrow> u8 list" where
  "result_body r =
     bool_to_32bytes (cr_success r) @ u256_to_32bytes 64 @ usize_word (length (cr_return_data r))
       @ cr_return_data r @ replicate (bytes_padded (length (cr_return_data r)) - length (cr_return_data r)) 0"

lemma calldata_layout: "encode_aggregate3_calldata calls = aggregate3_selector @ abi_array (map encode_call3_element calls)"
  by (simp add: encode_aggregate3_calldata_def abi_array_def Let_def)

lemma length_element_offsets [simp]: "length (element_offsets k bodies) = length bodies"
  by (induction bodies arbitrary: k) auto

lemma element_offsets_nth:
  "i < length bodies \<Longrightarrow> element_offsets k bodies ! i = k + length (concat (take i bodies))"
  by (induction bodies arbitrary: k i) (auto simp: nth_Cons split: nat.split)

lemma concat_split: "i < length xs \<Longrightarrow> concat xs = concat (take i xs) @ xs ! i @ concat (drop (Suc i) xs)"
  by (metis append_take_drop_id Cons_nth_drop_Suc concat.simps(2) concat_append)

lemma length_concat_words [simp]: "length (concat (map usize_word ns)) = 32 * length ns"
  by (induction ns) auto

lemma slice_range_append:
  assumes "unat a = length pre" "unat b = length pre + length mid"
  shows "slice_range (pre @ mid @ post) a b = Some mid"
  using assms by (simp add: slice_range_def word_le_nat_alt)

lemma read_at_append:
  assumes "unat a = length pre" "unat b = length pre + 32" "n < 2 ^ 64"
  shows "read_at (pre @ usize_word n @ post) a b = Some (Inr (word_of_nat n))"
  using assms by (simp add: read_at_def slice_range_append read_usize_word)

lemma pbind_simps [simp]:
  "pbind (Some (Inr x)) f = f x" "pbind (Some (Inl e)) f = Some (Inl e)" "pbind None f = None"
  by (simp_all add: pbind_def)

lemma unat_small: "n < 2 ^ 64 \<Longrightarrow> unat (word_of_nat n :: u64) = n"
  by (simp add: unsigned_of_nat take_bit_nat_eq_self)

lemma word_sum: "(word_of_nat a :: u64) + word_of_nat b = word_of_nat (a + b)"
  "(word_of_nat a :: u64) + numeral k = word_of_nat (a + numeral k)"
  by simp_all

lemma decode_result_at:
  assumes data: "data = pre @ result_body r @ post" and size: "length data < 2 ^ 64"
    and off: "read_at data (64 + word_of_nat i * 32) (64 + (word_of_nat i + 1) * 32) = Some (Inr (word_of_nat off))"
    and start: "64 + off = length pre"
  shows "decode_element data 64 i = Some (Inr r)"
proof -
  let ?p = "length pre" and ?d = "cr_return_data r"
  let ?pad = "replicate (bytes_padded (length ?d) - length ?d) 0 @ post"
  have layout: "data = (pre @ bool_to_32bytes (cr_success r) @ u256_to_32bytes 64) @ usize_word (length ?d) @ ?d @ ?pad"
    "data = (pre @ bool_to_32bytes (cr_success r) @ u256_to_32bytes 64 @ usize_word (length ?d)) @ ?d @ ?pad"
    by (simp_all add: data result_body_def)
  have bound: "?p + 96 + length ?d \<le> length data"
    by (simp add: data result_body_def)
  have es: "64 + word_of_nat off = (word_of_nat ?p :: u64)"
    using start by (metis of_nat_add of_nat_numeral)
  have words: "unat (word_of_nat ?p + 96 :: u64) = ?p + 96" "unat (word_of_nat ?p + 64 :: u64) = ?p + 64"
    "unat (word_of_nat ?p + 31 :: u64) = ?p + 31"
    unfolding word_sum using bound size by (intro unat_small, simp)+
  have far: "unat (word_of_nat ?p + 96 + word_of_nat (length ?d) :: u64) = ?p + 96 + length ?d"
    unfolding word_sum by (rule unat_small) (use bound size in simp)
  note words = words far
  have flag: "byte_at data (word_of_nat ?p + 31) = Some (if cr_success r then 1 else 0)"
    using bound by (simp add: byte_at_def words data result_body_def nth_append bool_to_32bytes_def)
  have len: "read_at data (word_of_nat ?p + 64) (word_of_nat ?p + 96) = Some (Inr (word_of_nat (length ?d)))"
    unfolding layout(1) using bound size by (intro read_at_append) (simp_all add: words)
  have body: "slice_range data (word_of_nat ?p + 96) (word_of_nat ?p + 96 + word_of_nat (length ?d)) = Some ?d"
    unfolding layout(2) by (intro slice_range_append) (simp_all add: words)
  show ?thesis
    unfolding decode_element_def off pbind_simps Let_def es flag option.case len words body
    using bound by simp
qed

lemma decode_elements_all:
  "(\<And>i. i \<in> set is \<Longrightarrow> decode_element data tb i = Some (Inr (f i))) \<Longrightarrow> decode_elements data tb is = Some (Inr (map f is))"
  by (induction "is") auto

lemma decode_abi_results:
  assumes size: "length (abi_array (map result_body rs)) < 2 ^ 63"
  shows "decode_aggregate3_returndata (abi_array (map result_body rs)) = Some (Inr rs)"
proof -
  let ?bodies = "map result_body rs" and ?n = "length rs"
  let ?data = "abi_array ?bodies" and ?table = "concat (map usize_word (element_offsets (32 * length ?bodies) ?bodies))"
  have head: "u256_to_32bytes 32 = usize_word 32"
    by (simp add: usize_word_def)
  have len: "length ?data = 64 + 32 * ?n + length (concat ?bodies)"
    by (simp add: abi_array_def)
  have bits: "32 * ?n < 2 ^ 63" "length ?data < 2 ^ 64"
    using size by (simp_all add: len)
  have element: "decode_element ?data 64 i = Some (Inr (rs ! i))" if i: "i < ?n" for i
  proof (rule decode_result_at)
    let ?off = "32 * ?n + length (concat (take i ?bodies))"
    let ?words = "map usize_word (element_offsets (32 * length ?bodies) ?bodies)"
    have off: "?off < 2 ^ 64"
      using bits(2) concat_split [of i ?bodies] i by (simp add: len)
    have "?table = concat (take i ?words) @ usize_word ?off @ concat (drop (Suc i) ?words)"
      using concat_split [of i ?words] i by (simp add: element_offsets_nth)
    then have data: "?data = (u256_to_32bytes 32 @ usize_word ?n @ concat (take i ?words)) @ usize_word ?off
        @ concat (drop (Suc i) ?words) @ concat ?bodies"
      by (simp add: abi_array_def)
    have at: "unat (64 + word_of_nat i * 32 :: u64) = 64 + 32 * i"
      "unat (64 + (word_of_nat i + 1) * 32 :: u64) = 64 + 32 * i + 32"
    proof -
      have "(64 + word_of_nat i * 32 :: u64) = word_of_nat (64 + 32 * i)"
        "(64 + (word_of_nat i + 1) * 32 :: u64) = word_of_nat (64 + 32 * i + 32)"
        by (simp_all add: algebra_simps)
      moreover have "64 + 32 * i + 32 < 2 ^ 64"
        using i bits(1) by simp
      ultimately show "unat (64 + word_of_nat i * 32 :: u64) = 64 + 32 * i"
        "unat (64 + (word_of_nat i + 1) * 32 :: u64) = 64 + 32 * i + 32"
        by (simp_all only: unat_small)
    qed
    have "length (concat (take i ?words)) = 32 * i"
      using i by (simp add: take_map)
    then show "read_at ?data (64 + word_of_nat i * 32) (64 + (word_of_nat i + 1) * 32) = Some (Inr (word_of_nat ?off))"
      unfolding data using off at by (intro read_at_append) simp_all
    show "?data = (u256_to_32bytes 32 @ usize_word ?n @ ?table @ concat (take i ?bodies)) @ result_body (rs ! i)
        @ concat (drop (Suc i) ?bodies)"
      using concat_split [of i ?bodies] i by (simp add: abi_array_def)
    show "64 + ?off = length (u256_to_32bytes 32 @ usize_word ?n @ ?table @ concat (take i ?bodies))"
      by simp
  qed (use bits in simp)
  have base: "read_at ?data 0 32 = Some (Inr 32)"
    using read_at_append [of 0 "[]" 32 32 "usize_word ?n @ ?table @ concat ?bodies"] by (simp add: abi_array_def head)
  have count: "read_at ?data 32 64 = Some (Inr (word_of_nat ?n))"
    using read_at_append [of 32 "usize_word 32" 64 ?n "?table @ concat ?bodies"] bits(1) by (simp add: abi_array_def head)
  have table: "unat (64 + word_of_nat ?n * 32 :: u64) = 64 + 32 * ?n" "unat (word_of_nat ?n :: u64) = ?n"
  proof -
    have "(64 + word_of_nat ?n * 32 :: u64) = word_of_nat (64 + 32 * ?n)"
      by (simp add: algebra_simps)
    moreover have "64 + 32 * ?n < 2 ^ 64"
      using size by (simp add: len)
    ultimately show "unat (64 + word_of_nat ?n * 32 :: u64) = 64 + 32 * ?n" "unat (word_of_nat ?n :: u64) = ?n"
      by (simp_all only: unat_small)
  qed
  have "decode_elements ?data 64 [0..<?n] = Some (Inr (map ((!) rs) [0..<?n]))"
    by (rule decode_elements_all) (simp add: element)
  then show ?thesis
    using bits by (simp add: decode_aggregate3_returndata_def base count table len Let_def map_nth)
qed

section \<open>Failover\<close>

lemma health_other: "name \<noteq> p \<Longrightarrow> router_record C H p t ok name = H name"
  by (simp add: router_record_def record_success_def record_failure_def Let_def)

lemma is_unhealthy_cong: "H name = H' name \<Longrightarrow> is_unhealthy H name t = is_unhealthy H' name t"
  by (simp add: is_unhealthy_def)

text \<open>A provider is asked when it is healthy; the call is answered by the first one asked that succeeds.\<close>

definition asked :: "health \<Rightarrow> 'a attempt \<Rightarrow> bool" where
  "asked H p = (\<not> is_unhealthy H (at_name p) (at_checked p))"

definition answering :: "health \<Rightarrow> 'a attempt list \<Rightarrow> 'a attempt option" where
  "answering H ps = find (\<lambda>p. asked H p \<and> is_ok (at_answer p)) ps"

definition passed_over :: "health \<Rightarrow> 'a attempt \<Rightarrow> bool" where
  "passed_over H p = (\<not> (asked H p \<and> is_ok (at_answer p)))"

lemma answering_simps [simp]:
  "answering H [] = None"
  "answering H (p # ps) = (if asked H p \<and> is_ok (at_answer p) then Some p else answering H ps)"
  by (simp_all add: answering_def)

lemma try_providers_asked:
  "try_providers C chain err (p # ps) H =
     (if \<not> asked H p then try_providers C chain err ps H
      else case at_answer p of
             Inr v \<Rightarrow> (router_record C H (at_name p) (at_finished p) True, Inr v)
           | Inl e \<Rightarrow> try_providers C chain (Some e) ps (router_record C H (at_name p) (at_finished p) False))"
  by (simp add: asked_def)

lemma asked_other: "at_name q \<noteq> name \<Longrightarrow> asked (router_record C H name t ok) q = asked H q"
  unfolding asked_def by (simp add: is_unhealthy_cong [OF health_other])

lemma answering_other:
  "name \<notin> at_name ` set ps \<Longrightarrow> answering (router_record C H name t ok) ps = answering H ps"
  by (induction ps) (auto simp: answering_def asked_other)

lemma find_mem: "find P xs = Some q \<Longrightarrow> q \<in> set xs"
  by (induction xs) (auto split: if_splits)

lemma other_name: "distinct (map f (p # ps)) \<Longrightarrow> q \<in> set ps \<Longrightarrow> f q \<noteq> f p"
  by (simp add: image_iff) metis

lemma try_providers_answer:
  assumes "distinct (map at_name ps)"
  shows "snd (try_providers C chain err ps H) =
    (case answering H ps of
       Some p \<Rightarrow> at_answer p
     | None \<Rightarrow> Inl (case (if filter (asked H) ps = [] then err else Some (projl (at_answer (last (filter (asked H) ps))))) of
         Some e \<Rightarrow> e | None \<Rightarrow> FetchFailed ''router'' (''all providers failed for chain '' @ as_str chain)))"
  using assms
proof (induction ps arbitrary: err H)
  case (Cons p ps)
  have same: "filter (asked (router_record C H (at_name p) t ok)) ps = filter (asked H) ps" for t ok
    using Cons.prems by (intro filter_cong refl asked_other) (rule other_name)
  have other: "answering (router_record C H (at_name p) t ok) ps = answering H ps" for t ok
    using Cons.prems by (intro answering_other) simp
  show ?case
    using Cons.prems Cons.IH by (cases "at_answer p") (auto simp: try_providers_asked same other simp del: try_providers.simps
        split: option.split)
qed simp

text \<open>After the call: the answering provider is healthy, those that failed before it have one failure more.\<close>

lemma try_providers_health:
  assumes "distinct (map at_name ps)"
  shows "fst (try_providers C chain err ps H) name =
    (case find (\<lambda>p. at_name p = name) (takeWhile (passed_over H) ps) of
       Some p \<Rightarrow> if asked H p then record_failure C H name (at_finished p) name else H name
     | None \<Rightarrow> if map_option at_name (answering H ps) = Some name then Some provider_health_default else H name)"
  using assms
proof (induction ps arbitrary: err H)
  case (Cons p ps)
  let ?H = "router_record C H (at_name p) (at_finished p) False"
  have away: "asked ?H q = asked H q" if "q \<in> set ps" for q
    using Cons.prems that by (intro asked_other) (rule other_name)
  have walk: "takeWhile (passed_over ?H) ps = takeWhile (passed_over H) ps"
    by (intro takeWhile_cong) (auto simp: away passed_over_def)
  have other: "answering ?H ps = answering H ps"
    using Cons.prems by (intro answering_other) auto
  have absent: "find (\<lambda>q. at_name q = at_name p) (takeWhile Q ps) = None" for Q
    using other_name [OF Cons.prems] by (auto simp: find_None_iff dest: set_takeWhileD)
  have unanswered: "map_option at_name (answering G ps) \<noteq> Some (at_name p)" for G
    using other_name [OF Cons.prems] by (fastforce simp: answering_def find_Some_iff)
  have fail_other: "record_failure C ?H name t name = record_failure C H name t name" if "name \<noteq> at_name p" for t
    using health_other [OF that, of C H "at_finished p" False] by (simp add: record_failure_def health_entry_def Let_def)
  show ?case
  proof (cases "name = at_name p")
    case True
    have own: "?H (at_name p) = record_failure C H (at_name p) (at_finished p) (at_name p)"
      "router_record C H (at_name p) (at_finished p) True (at_name p) = Some provider_health_default"
      by (simp_all add: router_record_def record_success_def provider_health_default_def)
    have rest: "fst (try_providers C chain e ps G) (at_name p) = G (at_name p)" for e G
      using Cons.IH [of e G] Cons.prems unanswered [of G] absent True by auto
    show ?thesis
      using unanswered [of H] absent
      by (cases "at_answer p") (simp_all add: True try_providers_asked rest own passed_over_def del: try_providers.simps)
  next
    case False
    let ?failed = "takeWhile (passed_over H) ps"
    note away_from = health_other [OF False, of C H "at_finished p"]
    have found: "asked ?H q = asked H q" if "find (\<lambda>p. at_name p = name) ?failed = Some q" for q
      using set_takeWhileD [OF find_mem [OF that]] by (intro away) simp
    have inner: "fst (try_providers C chain e ps ?H) name = fst (try_providers C chain e ps H) name" for e
      using Cons.prems found fail_other [OF False] away_from
      by (auto simp: Cons.IH walk other split: option.splits)
    have skip: "fst (try_providers C chain e ps H) name =
      (case find (\<lambda>p. at_name p = name) ?failed of
         Some p \<Rightarrow> if asked H p then record_failure C H name (at_finished p) name else H name
       | None \<Rightarrow> if map_option at_name (answering H ps) = Some name then Some provider_health_default else H name)" for e
      using Cons.prems by (intro Cons.IH) simp
    show ?thesis
      using False away_from
      by (cases "at_answer p") (auto simp: try_providers_asked inner skip passed_over_def [of H p] simp del: try_providers.simps)
  qed
qed simp

definition failures_in_row :: "failover_config \<Rightarrow> health \<Rightarrow> string \<Rightarrow> nat list \<Rightarrow> health" where
  "failures_in_row C H name ts = foldl (\<lambda>H t. record_failure C H name t) (record_success H name) ts"

lemma failures_in_row_snoc [simp]:
  "failures_in_row C H name (ts @ [t]) = record_failure C (failures_in_row C H name ts) name t"
  by (simp add: failures_in_row_def)

lemma failures_counted:
  "\<exists>s. failures_in_row C H name ts name = Some s \<and> unat (consecutive_failures s) = min (length ts) (2 ^ 32 - 1)
     \<and> unhealthy_until s = (if ts \<noteq> [] \<and> unat (mark_unhealthy_after C) \<le> length ts
          then Some (last ts + unat (unhealthy_cooldown_sec C)) else None)"
proof (induction ts rule: rev_induct)
  case Nil
  show ?case by (simp add: failures_in_row_def record_success_def)
next
  case (snoc t ts)
  then obtain s where s: "failures_in_row C H name ts name = Some s"
    "unat (consecutive_failures s) = min (length ts) (2 ^ 32 - 1)"
    "unhealthy_until s = (if ts \<noteq> [] \<and> unat (mark_unhealthy_after C) \<le> length ts
          then Some (last ts + unat (unhealthy_cooldown_sec C)) else None)"
    by blast
  let ?n = "if consecutive_failures s = - 1 then - 1 else consecutive_failures s + 1"
  have top: "unat (- 1 :: u32) = 2 ^ 32 - 1"
    by (simp add: unsigned_minus_1_eq_mask mask_eq_exp_minus_1)
  have "unat ?n = min (Suc (length ts)) (2 ^ 32 - 1)"
  proof (cases "consecutive_failures s = - 1")
    case False
    have "1 + consecutive_failures s \<noteq> 0"
      using False by (metis add_eq_0_iff add.commute)
    then have "unat (consecutive_failures s) \<noteq> 2 ^ 32 - 1" "unat (consecutive_failures s + 1) = unat (consecutive_failures s) + 1"
      using top False by (metis word_unat_eq_iff, metis add.commute unatSuc plus_1_eq_Suc)
    then show ?thesis using False s(2) by auto
  qed (use s(2) top in simp)
  moreover have "mark_unhealthy_after C \<le> ?n \<longleftrightarrow> unat (mark_unhealthy_after C) \<le> Suc (length ts)"
    using calculation unat_less [of "mark_unhealthy_after C"] by (auto simp: word_le_nat_alt)
  ultimately show ?case
    using s by (auto simp: record_failure_def health_entry_def Let_def)
qed

lemma breaker:
  "is_unhealthy (failures_in_row C H name ts) name t \<longleftrightarrow>
     ts \<noteq> [] \<and> unat (mark_unhealthy_after C) \<le> length ts \<and> t < last ts + unat (unhealthy_cooldown_sec C)"
  using failures_counted [of C H name ts] by (auto simp: is_unhealthy_def split: if_splits)

end
