(* ===== verification/SyncFacts.thy ===== *)
theory SyncFacts
  imports SyncSchedule RpcFacts
begin

text \<open>
  What the passes of the synchroniser promise. \<open>synced_from\<close> relates a wallet before and after a pass; it is the
  contract \<open>wallet_pass\<close> that every pass of a tick meets, and it composes. Then the retirement of permits, the
  refinement of the intent sync to a map of tracked orders, and the ticks.
\<close>

section \<open>The contract of a pass\<close>

definition synced_from :: "wallet_state \<Rightarrow> wallet_state \<Rightarrow> bool" where
  "synced_from s s' \<longleftrightarrow>
     ws_id s' = ws_id s
     \<and> (\<forall>k. map_option (\<lambda>h. (th_key h, committed h)) (Mapping.lookup (tokens s') k)
           = map_option (\<lambda>h. (th_key h, committed h)) (Mapping.lookup (tokens s) k))
     \<and> (\<forall>k sp. allowance (approvals s') k sp = None \<longleftrightarrow> allowance (approvals s) k sp = None)
     \<and> set_for_all (approvals s') = set_for_all (approvals s) \<and> permit2 (approvals s') = permit2 (approvals s)
     \<and> (wf_wallet s \<longrightarrow> wf_wallet s')
     \<and> (distinct (map pos_id (positions s)) \<longrightarrow> distinct (map pos_id (positions s')))"

locale wallet_pass =
  fixes run :: "wallet_state \<Rightarrow> wallet_state"
  assumes run_synced: "synced_from s (run s)"
begin

lemma run_keeps_wf: "wf_wallet s \<Longrightarrow> wf_wallet (run s)"
  using run_synced [of s] by (simp add: synced_from_def)

lemma run_keeps_owner: "ws_id (run s) = ws_id s"
  using run_synced [of s] by (simp add: synced_from_def)

lemma run_keeps_keys: "Mapping.keys (tokens (run s)) = Mapping.keys (tokens s)"
proof -
  have "Mapping.lookup (tokens (run s)) k = None \<longleftrightarrow> Mapping.lookup (tokens s) k = None" for k
    using run_synced [of s] by (cases "Mapping.lookup (tokens (run s)) k"; cases "Mapping.lookup (tokens s) k")
      (auto simp: synced_from_def dest!: spec [of _ k])
  then show ?thesis
    by (simp add: keys_dom_lookup dom_def)
qed

end

lemma synced_from_refl [simp]: "synced_from s s"
  by (simp add: synced_from_def)

lemma synced_from_trans: "synced_from s t \<Longrightarrow> synced_from t u \<Longrightarrow> synced_from s u"
  by (auto simp: synced_from_def)

lemma synced_from_pending [simp]: "synced_from s (s\<lparr>pending := ps\<rparr>)"
  "synced_from s (s\<lparr>block_heights := bs\<rparr>)"
  by (simp_all add: synced_from_def wf_wallet_def)

lemma synced_from_positions:
  "(distinct (map pos_id (positions s)) \<Longrightarrow> distinct (map pos_id ps)) \<Longrightarrow> synced_from s (s\<lparr>positions := ps\<rparr>)"
  by (simp add: synced_from_def wf_wallet_def)

lemma synced_from_token:
  "Mapping.lookup (tokens s) k = Some h \<Longrightarrow> th_key h' = th_key h \<Longrightarrow> committed h' = committed h \<Longrightarrow>
     synced_from s (s\<lparr>tokens := Mapping.update k h' (tokens s)\<rparr>)"
  by (auto simp: synced_from_def wf_wallet_def lookup_update')

lemma synced_from_fold:
  "(\<And>x acc. synced_from (fst acc) (fst (f x acc))) \<Longrightarrow> synced_from (fst a) (fst (fold f xs a))"
proof (induction xs arbitrary: a)
  case (Cons x xs)
  then show ?case
    using synced_from_trans [of "fst a" "fst (f x a)"] by simp
qed simp

section \<open>Live fields\<close>

lemma update_position_ids [simp]: "map pos_id (update_position i f ps) = map pos_id ps"
  by (induction ps) auto

lemma apply_value_synced: "synced_from s (apply_value S s loc v t)"
  by (auto simp: apply_value_def lending_field_mut_def perp_position_mut_def
      split: field_location.split option.split intro!: synced_from_positions synced_from_token)

lemma settle_item_synced: "synced_from (fst acc) (fst (settle_item S t item v acc))"
  by (auto simp: settle_item_def apply_value_synced split: prod.split option.split)

lemma batch_fold_synced:
  fixes f :: "'x \<Rightarrow> batch_acc \<Rightarrow> batch_acc"
  assumes "\<And>x acc. synced_from (fst acc) (fst (f x acc))"
  shows "synced_from s (fst (fold f xs (s, 0, 0)))"
  using synced_from_fold [of f "(s, 0, 0)" xs] assms by simp

lemma process_batch_synced: "synced_from s (fst (process_batch S orc batch s t))"
  unfolding process_batch_def Let_def
  by (simp add: batch_fold_synced settle_item_synced split_beta split: batch_kind.split sum.split option.split)

lemma refresh_batch_synced: "synced_from (fst acc) (fst (refresh_batch S orc t batch acc))"
  using process_batch_synced [of "fst acc" S orc batch t]
  by (auto simp: refresh_batch_def Let_def split: prod.split sum.split)

lemma refresh_walked_synced: "synced_from s (fst (refresh_walked S orc walk s t))"
  using synced_from_fold [of "refresh_batch S orc t" "(s, r)" for r, OF refresh_batch_synced]
  by (simp add: refresh_walked_def Let_def)

section \<open>The other passes\<close>

lemma merge_hl_position_ids: "merge_hl_position f t ps = Some qs \<Longrightarrow> map pos_id qs = map pos_id ps"
  by (induction ps arbitrary: qs) (auto split: if_splits position_kind.splits)

lemma merge_hl_position_None: "merge_hl_position f t ps = None \<longleftrightarrow> hl_account_id \<notin> pos_id ` set ps"
  by (induction ps) auto

lemma upsert_hyperliquid_merge_synced: "synced_from s (upsert_hyperliquid_merge s f t)"
  unfolding upsert_hyperliquid_merge_def
  by (auto split: option.split intro!: synced_from_positions simp: merge_hl_position_ids merge_hl_position_None)

lemma set_balance_synced: "synced_from s (set_balance k amount t s)"
  by (auto simp: set_balance_def split: option.split intro!: synced_from_token)

lemma set_allowance_synced: "synced_from s (set_allowance k sp amount t s)"
proof (cases "allowance (approvals s) k sp")
  case None
  then show ?thesis by (auto simp: set_allowance_def allowance_def split: option.split)
next
  case (Some al)
  then obtain m where m: "Mapping.lookup (erc20 (approvals s)) k = Some m" "Mapping.lookup m sp = Some al"
    by (auto simp: allowance_def bind_eq_Some_conv)
  let ?al = "al\<lparr>alw_amount := amount, is_unlimited := (amount = u256_max), last_set_at := t\<rparr>"
  let ?a = "(approvals s)\<lparr>erc20 := Mapping.update k (Mapping.update sp ?al m) (erc20 (approvals s))\<rparr>"
  have step: "set_allowance k sp amount t s = s\<lparr>approvals := ?a\<rparr>"
    by (simp add: set_allowance_def m)
  have rows: "allowance ?a k' sp' = (if k' = k \<and> sp' = sp then Some ?al else allowance (approvals s) k' sp')" for k' sp'
    using m by (auto simp: allowance_def lookup_update')
  have "wf_approvals ?a" if wf: "wf_approvals (approvals s)"
  proof (rule wf_approvalsI)
    show "wf_allowance al'" if "allowance ?a k' sp' = Some al'" for k' sp' al'
      using that wf_approvalsD(3) [OF wf, of k' sp'] by (auto simp: rows wf_allowance_def split: if_splits)
    show "\<not> Mapping.is_empty m'" if "Mapping.lookup (erc20 ?a) k' = Some m'" for k' m'
      using that wf_approvalsD(1) [OF wf, of k'] by (auto simp: lookup_update' mapping_is_empty_iff split: if_splits)
    show "ss \<noteq> {}" if "Mapping.lookup (set_for_all ?a) k' = Some ss" for k' ss
      using that wf_approvalsD(2) [OF wf, of k'] by simp
  qed
  then show ?thesis
    by (simp add: step synced_from_def rows wf_wallet_def Some)
qed

lemma apply_primitive_update_synced: "synced_from (fst acc) (fst (apply_primitive_update t u acc))"
  by (cases acc; cases u) (simp_all add: set_balance_synced set_allowance_synced)

lemma primitive_step_synced: "synced_from (fst acc) (fst (primitive_step orc owner t req acc))"
  by (auto simp: primitive_step_def split: sum.split intro!: synced_from_fold apply_primitive_update_synced)

lemma intent_step_synced: "synced_from (fst acc) (fst (intent_step swapper t f acc))"
  by (auto simp: intent_step_def apply_intent_orders_def upsert_intent_orders_def Let_def
      split: prod.split sum.split option.split)

interpretation primitives: wallet_pass "\<lambda>s. fst (sync_primitives orc s t)"
  by unfold_locales
     (use synced_from_fold [OF primitive_step_synced] in \<open>force simp: sync_primitives_def Let_def\<close>)

interpretation hl_core: wallet_pass "\<lambda>s. fst (sync_hyperliquid_core F orc s t)"
  by unfold_locales
     (auto simp: sync_hyperliquid_core_def apply_hl_core_def upsert_hyperliquid_merge_synced
        split: option.split prod.split)

interpretation hl_longtail: wallet_pass "\<lambda>s. fst (sync_hyperliquid_longtail F orc s t)"
  by unfold_locales
     (auto simp: sync_hyperliquid_longtail_def upsert_hyperliquid_merge_synced split: option.split prod.split)

interpretation intents: wallet_pass "\<lambda>s. fst (sync_intent_orders orc s t)"
  by unfold_locales
     (use synced_from_fold [OF intent_step_synced] in \<open>force simp: sync_intent_orders_def run_intent_sync_def\<close>)

interpretation permits: wallet_pass "\<lambda>s. fst (reconcile_permits orc s t)"
  by unfold_locales (auto simp: reconcile_permits_def split: prod.split)

interpretation live_fields: wallet_pass "\<lambda>s. fst (refresh S orc s t)"
  by unfold_locales (simp add: refresh_def refresh_walked_synced)

lemmas pass_synced = primitives.run_synced hl_core.run_synced hl_longtail.run_synced intents.run_synced
  permits.run_synced live_fields.run_synced

lemma pass_wallets:
  "fst (pass_primitives orc who t acc) = fst (sync_primitives orc (fst acc) t)"
  "fst (pass_hl_core F orc who t acc) = fst (sync_hyperliquid_core F orc (fst acc) t)"
  "fst (pass_hl_longtail F orc who t acc) = fst (sync_hyperliquid_longtail F orc (fst acc) t)"
  "fst (pass_intents orc who t acc) = fst (sync_intent_orders orc (fst acc) t)"
  "fst (pass_permits orc who t acc) = fst (reconcile_permits orc (fst acc) t)"
  "fst (pass_refresh S orc who t acc) = fst (refresh S orc (fst acc) t)"
  by (simp_all add: pass_primitives_def pass_hl_core_def pass_hl_longtail_def pass_intents_def pass_permits_def
      pass_refresh_def Let_def split: prod.split)

lemma sync_wallet_synced: "synced_from s (fst (sync_wallet S F orc cfg tick t wid s report))"
proof -
  have pass: "synced_from s (fst (if b then f acc else acc))"
    if "synced_from s (fst acc)" "\<And>acc. synced_from (fst acc) (fst (f acc))" for b and f :: "wallet_acc \<Rightarrow> wallet_acc" and acc
    using that(1) synced_from_trans [OF that(1) that(2)] by simp
  show ?thesis
    unfolding sync_wallet_def Let_def
    by (intro pass) (simp_all add: pass_wallets pass_synced)
qed

section \<open>Retired permits\<close>

unbundle bit_operations_syntax

lemma byte_mask: "r < 8 \<Longrightarrow> (x AND push_bit r 1) \<noteq> 0 \<longleftrightarrow> bit x r" for x :: u8
  by (simp add: push_bit_of_1 and_exp_eq_0_iff_not_bit)

lemma bitmap_bit_is_set_bit: "bitmap_bit_is_set bitmap b \<longleftrightarrow> bit bitmap (unat b)"
proof -
  let ?q = "unat (b div 8)" and ?r = "unat (b mod 8)"
  note split = bitmap_byte_bit [of b]
  have byte: "be_bytes 32 bitmap ! (31 - ?q) = ucast (drop_bit (8 * ?q) bitmap)"
    using split(1) by (simp add: be_bytes_nth)
  show ?thesis
    using split byte_mask [OF split(3)] by (simp add: bitmap_bit_is_set_def byte bit_simps Let_def)
qed

text \<open>The nonce of a signed permit is spent on chain, by the answers of the router.\<close>

definition nonce_spent :: "orchestrator \<Rightarrow> address \<Rightarrow> pending_tx \<Rightarrow> bool" where
  "nonce_spent orc owner p \<longleftrightarrow>
     (\<exists>R ret. orc_router orc = Some R \<and> 32 \<le> length ret \<and>
        (case ptx_kind p of
           SignedPermit2Transfer token _ _ _ _ (word, b) _ \<Rightarrow>
             eth_call R (key_chain (ref_key token)) permit2_contract_address (encode_nonce_bitmap owner word) = Inr ret
               \<and> bit (from_be_bytes (take 32 ret) :: u256) (unat b)
         | SignedEIP2612 token _ _ _ nonce \<Rightarrow>
             (\<exists>chain a. ref_key token = Erc20 chain a \<and> eth_call R chain a (encode_nonces owner) = Inr ret
               \<and> unat nonce < unat (from_be_bytes (take 32 ret) :: u256))
         | _ \<Rightarrow> False))"

definition permit_settled :: "orchestrator \<Rightarrow> address \<Rightarrow> time \<Rightarrow> pending_tx \<Rightarrow> bool" where
  "permit_settled orc owner t p \<longleftrightarrow>
     is_signed_permit_kind (ptx_kind p) \<and>
     ((\<exists>u. valid_until (ptx_lifecycle p) = Some u \<and> unat u < unat t) \<or> nonce_spent orc owner p)"

lemma decode_u256_be_iff:
  "decode_u256_be ret = Some w \<longleftrightarrow> 32 \<le> length ret \<and> w = from_be_bytes (take 32 ret)"
  "decode_u256_be ret = None \<longleftrightarrow> length ret < 32"
  by (auto simp: decode_u256_be_def)

lemma permit_consumed_iff: "permit_consumed orc owner p = Inr True \<longleftrightarrow> nonce_spent orc owner p"
proof (cases "ptx_kind p")
  case (SignedPermit2Transfer token a b c d nonce e)
  then show ?thesis
    by (cases nonce; cases "orc_router orc") (auto simp: permit_consumed_def nonce_spent_def permit2_nonce_consumed_def
        result_iff ok_or_Inr_iff decode_u256_be_iff bitmap_bit_is_set_bit split: sum.splits)
next
  case (SignedEIP2612 token a b c nonce)
  then show ?thesis
    by (cases "ref_key token"; cases "orc_router orc") (auto simp: permit_consumed_def nonce_spent_def
        eip2612_nonce_consumed_def eip2612_nonce_is_consumed_def result_iff ok_or_Inr_iff decode_u256_be_iff
        word_less_nat_alt split: sum.splits)
qed (simp_all add: permit_consumed_def nonce_spent_def)

lemma permit_step_settled:
  "fst (permit_step orc owner t p acc) = fst acc @ (if permit_settled orc owner t p then [ptx_id p] else [])"
  "permits_retired (snd (permit_step orc owner t p acc))
     = permits_retired (snd acc) + (if permit_settled orc owner t p then 1 else 0)"
  using permit_consumed_iff [of orc owner p]
  by (auto simp: permit_step_def permit_settled_def permit_is_expired_def word_less_nat_alt
      split: prod.splits option.splits sum.splits bool.splits)

lemma permit_steps:
  "fst (fold (permit_step orc owner t) ps acc) = fst acc @ map ptx_id (filter (permit_settled orc owner t) ps)
   \<and> permits_retired (snd (fold (permit_step orc owner t) ps acc))
     = permits_retired (snd acc) + length (filter (permit_settled orc owner t) ps)"
  by (induction ps arbitrary: acc) (simp_all add: permit_step_settled)

section \<open>Tracked orders\<close>

definition tracked :: "pending_tx list \<Rightarrow> (string \<rightharpoonup> pending_tx)" where
  "tracked ps = map_of (map (\<lambda>p. (ptx_id p, p)) ps)"

definition track_order :: "pending_tx \<Rightarrow> (string \<rightharpoonup> pending_tx) \<Rightarrow> (string \<rightharpoonup> pending_tx)" where
  "track_order o' m = (if is_terminal (pl_status (ptx_lifecycle o')) then m(ptx_id o' := None) else m(ptx_id o' \<mapsto> o'))"

definition track_venue ::
  "sync_error + pending_tx list \<Rightarrow> string option \<Rightarrow> (string \<rightharpoonup> pending_tx) \<Rightarrow> (string \<rightharpoonup> pending_tx)" where
  "track_venue fetched scope m =
     (case fetched of
        Inl _ \<Rightarrow> m
      | Inr orders \<Rightarrow>
          fold track_order orders m |` {i. i \<in> ptx_id ` set orders \<or> (\<forall>pre. scope = Some pre \<longrightarrow> \<not> prefix pre i)})"

lemma tracked_filter: "tracked (filter (\<lambda>p. P (ptx_id p)) ps) = tracked ps |` {i. P i}"
  by (induction ps) (auto simp: tracked_def restrict_map_def)

lemma tracked_append: "ptx_id o' \<notin> ptx_id ` set ps \<Longrightarrow> tracked (ps @ [o']) = (tracked ps)(ptx_id o' \<mapsto> o')"
  by (induction ps) (auto simp: tracked_def)

lemma replace_first_None: "replace_first P y xs = None \<longleftrightarrow> (\<forall>x \<in> set xs. \<not> P x)"
  by (induction xs) auto

lemma replace_first_tracked:
  "replace_first (\<lambda>p. ptx_id p = ptx_id o') o' ps = Some qs \<Longrightarrow>
     map ptx_id qs = map ptx_id ps \<and> tracked qs = (tracked ps)(ptx_id o' \<mapsto> o')"
  by (induction ps arbitrary: qs) (auto simp: tracked_def split: if_splits)

lemma upsert_order_tracked:
  assumes "distinct (map ptx_id ps)"
  shows "distinct (map ptx_id (upsert_order o' ps)) \<and> tracked (upsert_order o' ps) = track_order o' (tracked ps)"
proof (cases "is_terminal (pl_status (ptx_lifecycle o'))")
  case True
  then have "upsert_order o' ps = filter (\<lambda>p. ptx_id p \<noteq> ptx_id o') ps"
    by (simp add: upsert_order_def)
  then show ?thesis
    using assms True tracked_filter [of "\<lambda>i. i \<noteq> ptx_id o'" ps]
    by (auto simp: track_order_def distinct_map_filter restrict_map_def)
next
  case False
  show ?thesis
  proof (cases "replace_first (\<lambda>p. ptx_id p = ptx_id o') o' ps")
    case None
    then have "ptx_id o' \<notin> ptx_id ` set ps"
      by (auto simp: replace_first_None)
    with None False assms show ?thesis
      by (simp add: upsert_order_def track_order_def tracked_append)
  next
    case (Some qs)
    then have "map ptx_id qs = map ptx_id ps" "tracked qs = (tracked ps)(ptx_id o' \<mapsto> o')"
      using replace_first_tracked by blast+
    with Some False assms show ?thesis
      by (simp add: upsert_order_def track_order_def)
  qed
qed

lemma upsert_orders_tracked:
  "distinct (map ptx_id ps) \<Longrightarrow>
     distinct (map ptx_id (fold upsert_order orders ps))
       \<and> tracked (fold upsert_order orders ps) = fold track_order orders (tracked ps)"
  by (induction orders arbitrary: ps) (simp_all add: upsert_order_tracked)

lemma intent_step_tracked:
  assumes "distinct (map ptx_id (pending (fst acc)))"
  shows "distinct (map ptx_id (pending (fst (intent_step swapper t f acc))))
    \<and> tracked (pending (fst (intent_step swapper t f acc)))
      = track_venue (fetch_orders f swapper t) (authoritative_prefix f) (tracked (pending (fst acc)))
    \<and> (\<exists>ps. fst (intent_step swapper t f acc) = (fst acc)\<lparr>pending := ps\<rparr>)"
proof (cases "fetch_orders f swapper t")
  case (Inl e)
  then show ?thesis
    using assms by (cases acc) (auto simp: intent_step_def track_venue_def intro: exI [of _ "pending (fst acc)"])
next
  case (Inr orders)
  note upsert = upsert_orders_tracked [OF assms, of orders]
  show ?thesis
  proof (cases "authoritative_prefix f")
    case None
    then show ?thesis
      using Inr upsert by (cases acc) (auto simp: intent_step_def apply_intent_orders_def upsert_intent_orders_def
          track_venue_def Let_def)
  next
    case (Some pre)
    let ?ps = "fold upsert_order orders (pending (fst acc))"
    have "pending (fst (intent_step swapper t f acc)) = filter (\<lambda>p. \<not> prefix pre (ptx_id p) \<or> ptx_id p \<in> ptx_id ` set orders) ?ps"
      using Inr Some by (cases acc) (simp add: intent_step_def apply_intent_orders_def upsert_intent_orders_def Let_def)
    moreover have "\<exists>ps. fst (intent_step swapper t f acc) = (fst acc)\<lparr>pending := ps\<rparr>"
      using Inr Some by (cases acc) (auto simp: intent_step_def apply_intent_orders_def upsert_intent_orders_def Let_def)
    ultimately show ?thesis
      using Inr Some upsert tracked_filter [of "\<lambda>i. \<not> prefix pre i \<or> i \<in> ptx_id ` set orders" ?ps]
      by (simp add: track_venue_def distinct_map_filter disj_commute)
  qed
qed

lemma run_intent_sync_tracked:
  assumes "distinct (map ptx_id (pending s))"
  shows "distinct (map ptx_id (pending (fst (run_intent_sync fs s swapper t))))
    \<and> tracked (pending (fst (run_intent_sync fs s swapper t)))
      = fold (\<lambda>f. track_venue (fetch_orders f swapper t) (authoritative_prefix f)) fs (tracked (pending s))
    \<and> (\<exists>ps. fst (run_intent_sync fs s swapper t) = s\<lparr>pending := ps\<rparr>)"
proof -
  have run: "distinct (map ptx_id (pending (fst (fold (intent_step swapper t) fs acc))))
    \<and> tracked (pending (fst (fold (intent_step swapper t) fs acc)))
      = fold (\<lambda>f. track_venue (fetch_orders f swapper t) (authoritative_prefix f)) fs (tracked (pending (fst acc)))
    \<and> (\<exists>ps. fst (fold (intent_step swapper t) fs acc) = (fst acc)\<lparr>pending := ps\<rparr>)"
    if "distinct (map ptx_id (pending (fst acc)))" for acc :: "wallet_state \<times> intent_orders_report"
    using that
  proof (induction fs arbitrary: acc)
    case Nil
    then show ?case by (auto intro: exI [of _ "pending (fst acc)"])
  next
    case (Cons f fs)
    note step = intent_step_tracked [OF Cons.prems, of swapper t f]
    show ?case
      using step Cons.IH [of "intent_step swapper t f acc"] by auto
  qed
  then show ?thesis
    using run [of "(s, \<lparr>orders_updated = 0, orders_pruned = 0, ir_errors = []\<rparr>)"] assms
    unfolding run_intent_sync_def fst_conv by blast
qed

section \<open>Ticks\<close>

lemma tick_errors_sel [simp]: "synced_wallets (tick_errors what who errors report) = synced_wallets report"
  by (simp add: tick_errors_def)

lemma pass_reports:
  "synced_wallets (fst (snd (pass_primitives orc who t acc))) = synced_wallets (fst (snd acc))"
  "synced_wallets (fst (snd (pass_hl_core F orc who t acc))) = synced_wallets (fst (snd acc))"
  "synced_wallets (fst (snd (pass_hl_longtail F orc who t acc))) = synced_wallets (fst (snd acc))"
  "synced_wallets (fst (snd (pass_intents orc who t acc))) = synced_wallets (fst (snd acc))"
  "synced_wallets (fst (snd (pass_permits orc who t acc))) = synced_wallets (fst (snd acc))"
  "synced_wallets (fst (snd (pass_refresh S orc who t acc))) = synced_wallets (fst (snd acc))"
  by (simp_all add: pass_primitives_def pass_hl_core_def pass_hl_longtail_def pass_intents_def pass_permits_def
      pass_refresh_def Let_def split: prod.split)

lemma sync_wallet_report [simp]:
  "synced_wallets (fst (snd (sync_wallet S F orc cfg tick t wid s report))) = synced_wallets report"
  by (simp add: sync_wallet_def Let_def pass_reports if_distrib [of snd] if_distrib [of fst] if_distrib [of synced_wallets] cong: if_cong)

definition served :: "'st \<times> tick_report \<Rightarrow> wallet_id list" where
  "served acc = map wsc_wallet (synced_wallets (snd acc))"

text \<open>A wallet is reported exactly when it could be loaded and its new state could be saved.\<close>

lemma tick_wallet_served:
  "served (tick_wallet S F orc W cfg tick t wid acc) =
     served acc @ (case load_wallet W (fst acc) wid of
        Inl _ \<Rightarrow> []
      | Inr s \<Rightarrow> if is_ok (save_wallet W (fst acc) (fst (sync_wallet S F orc cfg tick t wid s (snd acc)))) then [wid] else [])"
proof (cases "load_wallet W (fst acc) wid")
  case (Inl e)
  then show ?thesis by (simp add: served_def tick_wallet_def Let_def split_beta)
next
  case (Inr s)
  let ?r = "sync_wallet S F orc cfg tick t wid s (snd acc)"
  show ?thesis
    using Inr sync_wallet_report [of S F orc cfg tick t wid s "snd acc"]
    by (cases "save_wallet W (fst acc) (fst ?r)") (auto simp: served_def tick_wallet_def Let_def split_beta)
qed

lemma tick_wallets_served:
  "set (served (fold (tick_wallet S F orc W cfg tick t) wids acc)) \<subseteq> set (served acc) \<union> set wids"
proof (induction wids arbitrary: acc)
  case (Cons wid wids)
  then show ?case
    using tick_wallet_served [of S F orc W cfg tick t wid acc] by (fastforce split: sum.splits if_splits)
qed simp

lemma tick_wallets_keep: "set (served acc) \<subseteq> set (served (fold (tick_wallet S F orc W cfg tick t) wids acc))"
proof (induction wids arbitrary: acc)
  case (Cons wid wids)
  then show ?case
    using tick_wallet_served [of S F orc W cfg tick t wid acc] by fastforce
qed simp

section \<open>One wallet through the ticks\<close>

text \<open>
  A tick seen by one wallet: the passes that are due, in their order, each applied to the wallet's state. The
  long-tail pass is due at the multiples of its cadence.
\<close>

datatype sync_pass = PrimitivesPass | HlCorePass | HlLongtailPass | IntentsPass | PermitsPass | LiveFieldsPass

fun run_pass ::
  "sync_codec \<Rightarrow> 'f f64_ops \<Rightarrow> orchestrator \<Rightarrow> time \<Rightarrow> sync_pass \<Rightarrow> wallet_state \<Rightarrow> wallet_state" where
  "run_pass S F orc t PrimitivesPass s = fst (sync_primitives orc s t)"
| "run_pass S F orc t HlCorePass s = fst (sync_hyperliquid_core F orc s t)"
| "run_pass S F orc t HlLongtailPass s = fst (sync_hyperliquid_longtail F orc s t)"
| "run_pass S F orc t IntentsPass s = fst (sync_intent_orders orc s t)"
| "run_pass S F orc t PermitsPass s = fst (reconcile_permits orc s t)"
| "run_pass S F orc t LiveFieldsPass s = fst (refresh S orc s t)"

definition due_passes :: "scheduler_config \<Rightarrow> nat \<Rightarrow> sync_pass list" where
  "due_passes cfg i =
     (if sync_primitives_flag cfg then [PrimitivesPass] else [])
     @ (if sync_hyperliquid_accounts cfg then [HlCorePass] else [])
     @ (if sync_hyperliquid_accounts cfg \<and> i mod max 1 (unat (hl_longtail_every cfg)) = 0 then [HlLongtailPass] else [])
     @ (if sync_intent_orders_flag cfg then [IntentsPass, PermitsPass] else [])
     @ (if refresh_live_fields cfg then [LiveFieldsPass] else [])"

fun wallet_run ::
  "sync_codec \<Rightarrow> 'f f64_ops \<Rightarrow> scheduler_config \<Rightarrow> (orchestrator \<times> time) list \<Rightarrow> nat \<Rightarrow> wallet_state
     \<Rightarrow> wallet_state" where
  "wallet_run S F cfg [] i s = s"
| "wallet_run S F cfg ((orc, t) # ticks) i s =
     wallet_run S F cfg ticks (Suc i) (fold (run_pass S F orc t) (due_passes cfg i) s)"

lemma longtail_due_iff: "longtail_due cfg tick \<longleftrightarrow> unat tick mod max 1 (unat (hl_longtail_every cfg)) = 0"
proof -
  have "unat (max (hl_longtail_every cfg) 1) = max 1 (unat (hl_longtail_every cfg))"
    by (auto simp: max_def word_le_nat_alt)
  then show ?thesis by (simp add: longtail_due_def word_unat_eq_iff unat_mod)
qed

lemma sync_wallet_passes:
  "fst (sync_wallet S F orc cfg tick t wid s report) = fold (run_pass S F orc t) (due_passes cfg (unat tick)) s"
  by (simp add: sync_wallet_def due_passes_def longtail_due_iff pass_wallets Let_def)

text \<open>What the store promises: a loaded state is the one last saved under its id, and saving touches no other.\<close>

definition store_laws :: "'st wallet_store \<Rightarrow> bool" where
  "store_laws W \<longleftrightarrow>
     (\<forall>st w s. load_wallet W st w = Inr s \<longrightarrow> ws_id s = w) \<and>
     (\<forall>st s st'. save_wallet W st s = Inr st' \<longrightarrow>
        load_wallet W st' (ws_id s) = Inr s \<and> (\<forall>w. w \<noteq> ws_id s \<longrightarrow> load_wallet W st' w = load_wallet W st w))"

lemma store_law:
  assumes "store_laws W"
  shows "load_wallet W st w = Inr s \<Longrightarrow> ws_id s = w"
    and "save_wallet W st s = Inr st' \<Longrightarrow> load_wallet W st' (ws_id s) = Inr s"
    and "save_wallet W st s = Inr st' \<Longrightarrow> w \<noteq> ws_id s \<Longrightarrow> load_wallet W st' w = load_wallet W st w"
  using assms unfolding store_laws_def by blast+

lemma sync_wallet_id: "ws_id (fst (sync_wallet S F orc cfg tick t wid s report)) = ws_id s"
  using sync_wallet_synced [of s S F orc cfg tick t wid report] by (simp add: synced_from_def)

lemma tick_wallet_state:
  "load_wallet W (fst acc) wid = Inr s \<Longrightarrow>
     save_wallet W (fst acc) (fst (sync_wallet S F orc cfg tick t wid s (snd acc))) = Inr st' \<Longrightarrow>
     fst (tick_wallet S F orc W cfg tick t wid acc) = st'"
  "load_wallet W (fst acc) wid = Inr s \<Longrightarrow>
     save_wallet W (fst acc) (fst (sync_wallet S F orc cfg tick t wid s (snd acc))) = Inl e \<Longrightarrow>
     fst (tick_wallet S F orc W cfg tick t wid acc) = fst acc"
  "load_wallet W (fst acc) wid = Inl e \<Longrightarrow> fst (tick_wallet S F orc W cfg tick t wid acc) = fst acc"
  by (simp_all add: tick_wallet_def Let_def split_beta)

lemma other_wallet_untouched:
  assumes laws: "store_laws W" and "x \<noteq> wid"
  shows "load_wallet W (fst (tick_wallet S F orc W cfg tick t x acc)) wid = load_wallet W (fst acc) wid"
proof (cases "load_wallet W (fst acc) x")
  case (Inr s)
  let ?s' = "fst (sync_wallet S F orc cfg tick t x s (snd acc))"
  have id: "ws_id ?s' = x" using store_law(1) [OF laws Inr] by (simp add: sync_wallet_id)
  show ?thesis
  proof (cases "save_wallet W (fst acc) ?s'")
    case (Inr st')
    then show ?thesis
      using store_law(3) [OF laws Inr] id assms(2) tick_wallet_state(1) [OF \<open>load_wallet W (fst acc) x = Inr s\<close> Inr]
      by simp
  qed (simp add: tick_wallet_state(2) [OF Inr])
qed (simp add: tick_wallet_state(3))

lemma listed_wallet_synced:
  assumes laws: "store_laws W" and save: "\<And>st s. ws_id s = wid \<Longrightarrow> \<exists>st'. save_wallet W st s = Inr st'"
  shows "distinct wids \<Longrightarrow> load_wallet W (fst acc) wid = Inr s \<Longrightarrow>
    load_wallet W (fst (fold (tick_wallet S F orc W cfg tick t) wids acc)) wid
      = Inr (if wid \<in> set wids then fold (run_pass S F orc t) (due_passes cfg (unat tick)) s else s) \<and>
    (wid \<in> set wids \<longrightarrow> wid \<in> set (served (fold (tick_wallet S F orc W cfg tick t) wids acc)))"
proof (induction wids arbitrary: acc s)
  case (Cons x wids)
  let ?acc = "tick_wallet S F orc W cfg tick t x acc"
  show ?case
  proof (cases "x = wid")
    case True
    let ?s' = "fst (sync_wallet S F orc cfg tick t wid s (snd acc))"
    have id: "ws_id ?s' = wid" using store_law(1) [OF laws Cons.prems(2)] by (simp add: sync_wallet_id)
    obtain st' where st': "save_wallet W (fst acc) ?s' = Inr st'" using save [OF id] by blast
    have loaded: "load_wallet W (fst ?acc) wid = Inr ?s'"
      using store_law(2) [OF laws st'] tick_wallet_state(1) [OF Cons.prems(2) st'] by (simp add: id True)
    have "wid \<in> set (served ?acc)"
      using Cons.prems(2) st' by (simp add: tick_wallet_served True is_ok_def)
    then have "wid \<in> set (served (fold (tick_wallet S F orc W cfg tick t) wids ?acc))"
      using tick_wallets_keep by blast
    moreover have "distinct wids" "wid \<notin> set wids" using Cons.prems(1) by (simp_all add: True)
    ultimately show ?thesis
      using Cons.IH [OF _ loaded] by (simp add: True sync_wallet_passes)
  next
    case False
    have "load_wallet W (fst ?acc) wid = Inr s"
      using Cons.prems(2) by (simp only: other_wallet_untouched [OF laws False])
    with Cons.IH Cons.prems(1) have "load_wallet W (fst (fold (tick_wallet S F orc W cfg tick t) wids ?acc)) wid
        = Inr (if wid \<in> set wids then fold (run_pass S F orc t) (due_passes cfg (unat tick)) s else s) \<and>
      (wid \<in> set wids \<longrightarrow> wid \<in> set (served (fold (tick_wallet S F orc W cfg tick t) wids ?acc)))"
      by simp
    then show ?thesis using False by simp
  qed
qed simp

lemma tick_once_listed:
  assumes "list_wallets W st = Inr ws"
  shows "tick_once S F orc W cfg t (st, tick) =
    (let r = fold (tick_wallet S F orc W cfg tick t) (take (max_wallets_per_tick cfg) ws) (st, tick_report_default)
     in ((fst r, tick + 1), Inr (snd r)))"
  using assms by (simp add: tick_once_def Let_def split_beta)

lemma wallet_in_ticks:
  assumes laws: "store_laws W" and save: "\<And>st s. ws_id s = wid \<Longrightarrow> \<exists>st'. save_wallet W st s = Inr st'"
    and listed: "\<And>st. \<exists>ws. list_wallets W st = Inr ws \<and> distinct ws \<and> wid \<in> set (take (max_wallets_per_tick cfg) ws)"
  shows "load_wallet W st wid = Inr s \<Longrightarrow> unat tick + length ticks < 2 ^ 64 \<Longrightarrow>
    load_wallet W (fst (fst (run_ticks S F W cfg ticks (st, tick)))) wid
      = Inr (wallet_run S F cfg ticks (unat tick) s) \<and>
    (\<forall>k < length ticks. \<exists>r. snd (run_ticks S F W cfg ticks (st, tick)) ! k = Inr r \<and>
       wid \<in> wsc_wallet ` set (synced_wallets r))"
proof (induction ticks arbitrary: st tick s)
  case (Cons x ticks)
  obtain orc t where x: "x = (orc, t)" by fastforce
  obtain ws where ws: "list_wallets W st = Inr ws" "distinct ws" "wid \<in> set (take (max_wallets_per_tick cfg) ws)"
    using listed by blast
  let ?r = "fold (tick_wallet S F orc W cfg tick t) (take (max_wallets_per_tick cfg) ws) (st, tick_report_default)"
  have tick: "tick_once S F orc W cfg t (st, tick) = ((fst ?r, tick + 1), Inr (snd ?r))"
    by (simp add: tick_once_listed [OF ws(1)] Let_def)
  have "load_wallet W (fst (st, tick_report_default)) wid = Inr s" using Cons.prems(1) by simp
  note served = listed_wallet_synced [OF laws save distinct_take [OF ws(2)] this, of S F orc cfg tick t]
  from served ws(3) have here:
    "load_wallet W (fst ?r) wid = Inr (fold (run_pass S F orc t) (due_passes cfg (unat tick)) s)"
    "wid \<in> set (served ?r)"
    by simp_all
  have next_tick: "unat (tick + 1) = Suc (unat tick)"
    using Cons.prems(2) by (simp add: unat_add_lem [THEN iffD1])
  have room: "unat (tick + 1) + length ticks < 2 ^ 64" using Cons.prems(2) by (simp add: next_tick)
  note rest = Cons.IH [OF here(1) room]
  have run: "run_ticks S F W cfg (x # ticks) (st, tick)
      = (fst (run_ticks S F W cfg ticks (fst ?r, tick + 1)), Inr (snd ?r) # snd (run_ticks S F W cfg ticks (fst ?r, tick + 1)))"
    by (simp add: x tick split_beta)
  have "\<exists>r. snd (run_ticks S F W cfg (x # ticks) (st, tick)) ! k = Inr r \<and> wid \<in> wsc_wallet ` set (synced_wallets r)"
    if "k < length (x # ticks)" for k
    using that rest here(2) unfolding run by (cases k) (auto simp: served_def)
  then show ?case using rest unfolding run by (simp add: x next_tick)
qed simp

lemma longtail_comes:
  assumes "sync_hyperliquid_accounts cfg"
  shows "\<exists>i. j \<le> i \<and> i < j + max 1 (unat (hl_longtail_every cfg)) \<and> HlLongtailPass \<in> set (due_passes cfg i)"
proof -
  let ?n = "max 1 (unat (hl_longtail_every cfg))"
  let ?k = "(?n - j mod ?n) mod ?n"
  have n: "0 < ?n" by simp
  have "(j + ?k) mod ?n = (j mod ?n + (?n - j mod ?n)) mod ?n" by (simp only: mod_simps)
  also have "j mod ?n + (?n - j mod ?n) = ?n" using mod_less_divisor [OF n, of j] by linarith
  finally have "(j + ?k) mod ?n = 0" by simp
  moreover have "?k < ?n" using n by (rule mod_less_divisor)
  ultimately show ?thesis using assms by (intro exI [of _ "j + ?k"]) (simp add: due_passes_def)
qed

end
