(* ===== verification/SyncOrder.thy ===== *)
theory SyncOrder
  imports SyncTypes
begin

text \<open>
  \<^verbatim>\<open>policy-server/sync/src/live/topo.rs\<close>: the order in which derived fields can be computed, by counting
  unresolved dependencies. The order in which the \<open>HashSet\<close> of identifiers is iterated is not specified; it
  is the argument \<open>order\<close>. A \<open>HashMap\<close> is a partial function. The subtraction \<open>*d -= 1\<close> panics at zero (with
  overflow checks on); the panic is the value \<open>Panicked\<close>. The loop over the queue is a
  \<^theory_text>\<open>partial_function\<close>, and \<open>topo_loop_returns\<close> shows that it always returns.
\<close>

section \<open>Definitions\<close>

definition push_edge :: "string \<Rightarrow> (string \<rightharpoonup> string list) \<Rightarrow> string \<Rightarrow> (string \<rightharpoonup> string list)" where
  "push_edge n adj dep = adj(dep \<mapsto> (case adj dep of None \<Rightarrow> [] | Some ids \<Rightarrow> ids) @ [n])"

definition build_adj :: "dep_node list \<Rightarrow> (string \<rightharpoonup> string list)" where
  "build_adj nodes = foldl (\<lambda>adj n. foldl (push_edge (node_id n)) adj (depends_on n)) Map.empty nodes"

definition build_degrees :: "dep_node list \<Rightarrow> (string \<rightharpoonup> nat)" where
  "build_degrees nodes = foldl (\<lambda>m n. m(node_id n \<mapsto> length (depends_on n))) Map.empty nodes"

definition all_ids :: "dep_node list \<Rightarrow> string list" where
  "all_ids nodes = remdups (concat (map (\<lambda>n. node_id n # depends_on n) nodes))"

text \<open>The inner loop: the successors of a finished identifier lose one dependency each.\<close>

fun release :: "(string \<rightharpoonup> nat) \<Rightarrow> string list \<Rightarrow> string list \<Rightarrow> ((string \<rightharpoonup> nat) \<times> string list) option" where
  "release m queue [] = Some (m, queue)"
| "release m queue (nxt # rest) =
     (case m nxt of
        None \<Rightarrow> release m queue rest
      | Some 0 \<Rightarrow> None
      | Some (Suc d) \<Rightarrow> release (m(nxt \<mapsto> d)) (if d = 0 then queue @ [nxt] else queue) rest)"

partial_function (option) topo_loop ::
  "(string \<rightharpoonup> string list) \<Rightarrow> (string \<rightharpoonup> nat) \<Rightarrow> string list \<Rightarrow> string list \<Rightarrow> string list option option" where
  "topo_loop adj m queue out =
     (case queue of
        [] \<Rightarrow> Some (Some out)
      | x # queue' \<Rightarrow>
          (case release m queue' (case adj x of None \<Rightarrow> [] | Some next \<Rightarrow> next) of
             None \<Rightarrow> Some None
           | Some (m', queue'') \<Rightarrow> topo_loop adj m' queue'' (out @ [x])))"

definition topological_sort :: "string list \<Rightarrow> dep_node list \<Rightarrow> topo_outcome option" where
  "topological_sort order nodes =
     (let m = build_degrees nodes;
          queue = filter (\<lambda>x. (case m x of None \<Rightarrow> 0 | Some d \<Rightarrow> d) = 0) order
      in map_option
           (\<lambda>result. case result of
              None \<Rightarrow> Panicked
            | Some out \<Rightarrow>
                if length out \<noteq> length order
                then Rejected (CyclicDeps (if out = [] then ''<unknown>'' else last out))
                else Sorted out)
           (topo_loop (build_adj nodes) m queue []))"

section \<open>The loop returns\<close>

text \<open>What the queue and the map promise for later: entries still to come and keys that can still be queued.\<close>

definition waiting :: "(string \<rightharpoonup> nat) \<Rightarrow> string set" where
  "waiting m = {k. \<exists>d. m k = Some (Suc d)}"

lemma release_measure:
  assumes "release m queue nexts = Some (m', queue')" "finite (waiting m)"
  shows "finite (waiting m') \<and> length queue' + card (waiting m') \<le> length queue + card (waiting m)"
  using assms
proof (induction nexts arbitrary: m queue)
  case (Cons nxt rest)
  show ?case
  proof (cases "m nxt")
    case (Some d)
    then obtain d' where d: "m nxt = Some (Suc d')" using Cons.prems(1) by (cases d) auto
    let ?m = "m(nxt \<mapsto> d')" and ?q = "if d' = 0 then queue @ [nxt] else queue"
    have sub: "waiting ?m = (if d' = 0 then waiting m - {nxt} else waiting m)"
      using d by (cases d') (auto simp: waiting_def split: if_splits)
    have "nxt \<in> waiting m" using d by (simp add: waiting_def)
    then have "0 < card (waiting m)" using Cons.prems(2) card_gt_0_iff by blast
    then have "length ?q + card (waiting ?m) \<le> length queue + card (waiting m)" "finite (waiting ?m)"
      using Cons.prems(2) \<open>nxt \<in> waiting m\<close> by (auto simp: sub)
    moreover have "release ?m ?q rest = Some (m', queue')" using Cons.prems(1) d by simp
    ultimately show ?thesis using Cons.IH [of ?m ?q] by (simp del: fun_upd_apply)
  qed (use Cons in auto)
qed auto

lemma topo_loop_returns:
  "finite (waiting m) \<Longrightarrow> \<exists>r. topo_loop adj m queue out = Some r"
proof (induction "length queue + card (waiting m)" arbitrary: m queue out rule: less_induct)
  case less
  show ?case
  proof (cases queue)
    case (Cons x queue')
    let ?nexts = "case adj x of None \<Rightarrow> [] | Some next \<Rightarrow> next"
    show ?thesis
    proof (cases "release m queue' ?nexts")
      case (Some r)
      obtain m' queue'' where r: "r = (m', queue'')" by (cases r)
      have "finite (waiting m')" "length queue'' + card (waiting m') < length queue + card (waiting m)"
        using release_measure [OF Some [unfolded r] less.prems] Cons by auto
      from less.hyps [OF this(2,1)] show ?thesis
        by (subst topo_loop.simps) (simp add: Cons Some r)
    qed (subst topo_loop.simps, simp add: Cons)
  qed (subst topo_loop.simps, simp)
qed

lemma build_degrees_snoc: "build_degrees (ns @ [n]) = (build_degrees ns)(node_id n \<mapsto> length (depends_on n))"
  by (simp add: build_degrees_def)

lemma build_degrees_dom: "dom (build_degrees nodes) = node_id ` set nodes"
proof (induction nodes rule: rev_induct)
  case Nil
  show ?case by (simp add: build_degrees_def)
next
  case (snoc n nodes)
  then show ?case unfolding build_degrees_snoc dom_fun_upd by simp
qed

lemma finite_waiting: "finite (waiting (build_degrees nodes))"
proof (rule finite_subset)
  show "waiting (build_degrees nodes) \<subseteq> node_id ` set nodes"
    unfolding build_degrees_dom [symmetric] by (auto simp: waiting_def)
qed simp

lemma build_degrees_lookup:
  "distinct (map node_id nodes) \<Longrightarrow> n \<in> set nodes \<Longrightarrow> build_degrees nodes (node_id n) = Some (length (depends_on n))"
  by (induction nodes rule: rev_induct) (auto simp: build_degrees_snoc image_iff)

section \<open>The result is a topological order\<close>

lemma push_edge_lookup:
  "case_option [] (\<lambda>ids. ids) (push_edge n adj dep d) = case_option [] (\<lambda>ids. ids) (adj d) @ (if d = dep then [n] else [])"
  by (simp add: push_edge_def)

lemma push_edges_lookup:
  "case_option [] (\<lambda>ids. ids) (foldl (push_edge n) adj deps d) =
     case_option [] (\<lambda>ids. ids) (adj d) @ map (\<lambda>_. n) (filter (\<lambda>e. e = d) deps)"
  by (induction deps arbitrary: adj) (auto simp: push_edge_lookup)

lemma build_adj_lookup:
  "case_option [] (\<lambda>ids. ids) (build_adj nodes d) =
     concat (map (\<lambda>n. map (\<lambda>_. node_id n) (filter (\<lambda>e. e = d) (depends_on n))) nodes)"
  by (induction nodes rule: rev_induct) (auto simp: build_adj_def push_edges_lookup)

lemma count_const: "count_list (map (\<lambda>_. c) xs) k = (if k = c then length xs else 0)"
  by (induction xs) auto

lemma count_concat_other:
  "n \<notin> set (map node_id ns) \<Longrightarrow> count_list (concat (map (\<lambda>n. map (\<lambda>_. node_id n) (f n)) ns)) n = 0"
  by (induction ns) (auto simp: count_const)

lemma successor_count:
  assumes "distinct (map node_id nodes)" "n \<in> set nodes"
  shows "count_list (case_option [] (\<lambda>ids. ids) (build_adj nodes d)) (node_id n)
    = length (filter (\<lambda>e. e = d) (depends_on n))"
  unfolding build_adj_lookup using assms
proof (induction nodes)
  case (Cons a nodes)
  then show ?case by (cases "n = a") (auto simp: count_const count_concat_other image_iff)
qed simp

text \<open>Releasing subtracts the number of occurrences and queues the identifiers that reach zero, once each.\<close>

lemma release_exact:
  assumes "\<forall>k \<in> set nexts. \<exists>d. m k = Some d \<and> count_list nexts k \<le> d"
  shows "\<exists>m' new. release m queue nexts = Some (m', queue @ new) \<and> distinct new
    \<and> set new = {k \<in> set nexts. m k = Some (count_list nexts k)}
    \<and> (\<forall>k. m' k = map_option (\<lambda>d. d - count_list nexts k) (m k))"
  using assms
proof (induction nexts arbitrary: m queue)
  case Nil
  then show ?case by (simp add: option.map_ident)
next
  case (Cons x rest)
  from Cons.prems obtain d where d: "m x = Some (Suc d)" "count_list rest x \<le> d" by (auto dest: Suc_le_D)
  let ?m = "m(x \<mapsto> d)" and ?q = "if d = 0 then queue @ [x] else queue"
  have "\<forall>k \<in> set rest. \<exists>e. ?m k = Some e \<and> count_list rest k \<le> e" using Cons.prems d by auto
  from Cons.IH [OF this, of ?q] obtain m' new where new: "release ?m ?q rest = Some (m', ?q @ new)" "distinct new"
    "set new = {k \<in> set rest. ?m k = Some (count_list rest k)}"
    "\<forall>k. m' k = map_option (\<lambda>e. e - count_list rest k) (?m k)" by blast
  have zero: "d = 0 \<Longrightarrow> x \<notin> set rest" using d(2) count_list_0_iff by fastforce
  let ?new = "if d = 0 then x # new else new"
  have "release m queue (x # rest) = Some (m', queue @ ?new)" using new(1) d(1) by auto
  moreover have "distinct ?new" using new(2,3) zero by auto
  moreover have "set ?new = {k \<in> set (x # rest). m k = Some (count_list (x # rest) k)}"
  proof (intro set_eqI)
    fix k
    have mem: "k \<in> set new \<longleftrightarrow> k \<in> set rest \<and> ?m k = Some (count_list rest k)" unfolding new(3) by blast
    show "k \<in> set ?new \<longleftrightarrow> k \<in> {k \<in> set (x # rest). m k = Some (count_list (x # rest) k)}"
    proof (cases "k = x")
      case True
      then show ?thesis using d mem count_list_0_iff [of rest x] zero by (cases "d = 0") auto
    qed (use mem in auto)
  qed
  moreover have "\<forall>k. m' k = map_option (\<lambda>e. e - count_list (x # rest) k) (m k)" using new(4) d(1) by auto
  ultimately show ?case by blast
qed

text \<open>The dependency graph and what it means for a list of identifiers to respect it.\<close>

definition dependencies :: "dep_node list \<Rightarrow> (string \<times> string) set" where
  "dependencies nodes = {(dep, node_id n) | dep n. n \<in> set nodes \<and> dep \<in> set (depends_on n)}"

definition dependency_ordered :: "dep_node list \<Rightarrow> string list \<Rightarrow> bool" where
  "dependency_ordered nodes xs \<longleftrightarrow>
     (\<forall>i < length xs. \<forall>n \<in> set nodes. node_id n = xs ! i \<longrightarrow> set (depends_on n) \<subseteq> set (take i xs))"

definition topo_inv :: "dep_node list \<Rightarrow> (string \<rightharpoonup> nat) \<Rightarrow> string list \<Rightarrow> string list \<Rightarrow> bool" where
  "topo_inv nodes m queue out \<longleftrightarrow>
     distinct (out @ queue) \<and> dependency_ordered nodes out
     \<and> (\<forall>n \<in> set nodes. m (node_id n) = Some (length (filter (\<lambda>d. d \<notin> set out) (depends_on n))))
     \<and> set (out @ queue) = {x \<in> set (all_ids nodes). \<forall>n \<in> set nodes. node_id n = x \<longrightarrow> set (depends_on n) \<subseteq> set out}"

lemma dependency_ordered_snoc:
  "dependency_ordered nodes (xs @ [x]) \<longleftrightarrow>
     dependency_ordered nodes xs \<and> (\<forall>n \<in> set nodes. node_id n = x \<longrightarrow> set (depends_on n) \<subseteq> set xs)"
  by (auto simp: dependency_ordered_def All_less_Suc nth_append)

lemma all_ids_mem: "n \<in> set nodes \<Longrightarrow> node_id n \<in> set (all_ids nodes)"
  "n \<in> set nodes \<Longrightarrow> d \<in> set (depends_on n) \<Longrightarrow> d \<in> set (all_ids nodes)"
  by (auto simp: all_ids_def)

lemma filter_split_length:
  assumes "x \<notin> A"
  shows "length (filter (\<lambda>d. d \<notin> A) xs) - length (filter (\<lambda>e. e = x) xs) = length (filter (\<lambda>d. d \<notin> insert x A) xs)"
    and "length (filter (\<lambda>e. e = x) xs) \<le> length (filter (\<lambda>d. d \<notin> A) xs)"
proof -
  have "length (filter (\<lambda>d. d \<notin> A) xs) = length (filter (\<lambda>e. e = x) xs) + length (filter (\<lambda>d. d \<notin> insert x A) xs)"
    using assms by (induction xs) auto
  then show "length (filter (\<lambda>d. d \<notin> A) xs) - length (filter (\<lambda>e. e = x) xs) = length (filter (\<lambda>d. d \<notin> insert x A) xs)"
    and "length (filter (\<lambda>e. e = x) xs) \<le> length (filter (\<lambda>d. d \<notin> A) xs)" by simp_all
qed

lemma topo_step:
  assumes uniq: "distinct (map node_id nodes)" and inv: "topo_inv nodes m (x # queue) out"
  shows "\<exists>m' queue'. release m queue (case_option [] (\<lambda>ids. ids) (build_adj nodes x)) = Some (m', queue')
    \<and> topo_inv nodes m' queue' (out @ [x])"
proof -
  let ?nexts = "case_option [] (\<lambda>ids. ids) (build_adj nodes x)" and ?out = "out @ [x]"
  have x: "x \<notin> set out" and deg: "\<And>n. n \<in> set nodes \<Longrightarrow> m (node_id n) = Some (length (filter (\<lambda>d. d \<notin> set out) (depends_on n)))"
    and mem: "set (out @ x # queue) = {x \<in> set (all_ids nodes). \<forall>n \<in> set nodes. node_id n = x \<longrightarrow> set (depends_on n) \<subseteq> set out}"
    and dist: "distinct (out @ x # queue)" and res: "dependency_ordered nodes out"
    using inv by (auto simp: topo_inv_def)
  note cnt = successor_count [OF uniq, of _ x]
  have nexts: "k \<in> set ?nexts \<longleftrightarrow> (\<exists>n \<in> set nodes. node_id n = k \<and> x \<in> set (depends_on n))" for k
    unfolding build_adj_lookup by auto
  have "\<forall>k \<in> set ?nexts. \<exists>d. m k = Some d \<and> count_list ?nexts k \<le> d"
  proof
    fix k
    assume "k \<in> set ?nexts"
    then obtain n where n: "n \<in> set nodes" "node_id n = k" unfolding nexts by blast
    show "\<exists>d. m k = Some d \<and> count_list ?nexts k \<le> d"
      unfolding n(2) [symmetric] deg [OF n(1)] cnt [OF n(1)] using filter_split_length(2) [OF x] by blast
  qed
  from release_exact [OF this, of queue] obtain m' new
    where rel: "release m queue ?nexts = Some (m', queue @ new)" and new: "distinct new"
      "set new = {k \<in> set ?nexts. m k = Some (count_list ?nexts k)}"
      and m': "\<forall>k. m' k = map_option (\<lambda>d. d - count_list ?nexts k) (m k)" by blast
  have same: "n = n'" if "n \<in> set nodes" "n' \<in> set nodes" "node_id n = node_id n'" for n n'
    using inj_onD [OF _ that(3,1,2)] uniq unfolding distinct_map by blast
  have newk: "k \<in> set new \<longleftrightarrow> (\<exists>n \<in> set nodes. node_id n = k \<and> x \<in> set (depends_on n) \<and> set (depends_on n) \<subseteq> set ?out)" for k
  proof -
    have "m (node_id n) = Some (count_list ?nexts (node_id n)) \<longleftrightarrow> set (depends_on n) \<subseteq> set ?out" if "n \<in> set nodes" for n
    proof -
      have "m (node_id n) = Some (count_list ?nexts (node_id n))
          \<longleftrightarrow> length (filter (\<lambda>d. d \<notin> insert x (set out)) (depends_on n)) = 0"
        unfolding deg [OF that] cnt [OF that] option.inject
        using filter_split_length [OF x, of "depends_on n"] by linarith
      also have "\<dots> \<longleftrightarrow> set (depends_on n) \<subseteq> set ?out" by (auto simp: filter_empty_conv)
      finally show ?thesis .
    qed
    then show ?thesis unfolding new(2) mem_Collect_eq nexts by blast
  qed
  show ?thesis
  proof (intro exI conjI)
    show "topo_inv nodes m' (queue @ new) ?out"
      unfolding topo_inv_def
    proof (intro conjI ballI)
      show "dependency_ordered nodes ?out"
        unfolding dependency_ordered_snoc using res mem by auto
      show "m' (node_id n) = Some (length (filter (\<lambda>d. d \<notin> set ?out) (depends_on n)))" if "n \<in> set nodes" for n
        unfolding m' [rule_format] deg [OF that] cnt [OF that] option.map filter_split_length(1) [OF x] by simp
      have fresh: "set new \<inter> set (out @ x # queue) = {}" using newk mem x same by (fastforce dest: subsetD)
      show "distinct (?out @ queue @ new)" using dist new(1) fresh by auto
      show "set (?out @ queue @ new) =
          {y \<in> set (all_ids nodes). \<forall>n \<in> set nodes. node_id n = y \<longrightarrow> set (depends_on n) \<subseteq> set ?out}" (is "?L = ?R")
      proof (intro set_eqI iffI)
        fix y
        assume "y \<in> ?L"
        then consider "y \<in> set (out @ x # queue)" | "y \<in> set new" by auto
        then show "y \<in> ?R"
        proof cases
          case 2
          then show ?thesis using newk same all_ids_mem(1) by fastforce
        qed (use mem in auto)
      next
        fix y
        assume y: "y \<in> ?R"
        show "y \<in> ?L"
        proof (cases "\<forall>n \<in> set nodes. node_id n = y \<longrightarrow> set (depends_on n) \<subseteq> set out")
          case True
          then have "y \<in> set (out @ x # queue)" unfolding mem using y by blast
          then show ?thesis by auto
        next
          case False
          then have "y \<in> set new" using y newk by fastforce
          then show ?thesis by simp
        qed
      qed
    qed
  qed (rule rel)
qed

lemma topo_inv_start:
  assumes uniq: "distinct (map node_id nodes)" and order: "distinct order" "set order = set (all_ids nodes)"
  shows "topo_inv nodes (build_degrees nodes)
    (filter (\<lambda>x. (case build_degrees nodes x of None \<Rightarrow> 0 | Some d \<Rightarrow> d) = 0) order) []"
proof -
  note lookup = build_degrees_lookup [OF uniq]
  have "(case build_degrees nodes x of None \<Rightarrow> 0 | Some d \<Rightarrow> d) = 0
      \<longleftrightarrow> (\<forall>n \<in> set nodes. node_id n = x \<longrightarrow> depends_on n = [])" for x
  proof (cases "x \<in> node_id ` set nodes")
    case True
    then show ?thesis using lookup uniq by (auto simp: distinct_map inj_on_def)
  next
    case False
    then have "build_degrees nodes x = None" using build_degrees_dom [of nodes] by blast
    then show ?thesis using False by auto
  qed
  then show ?thesis using order lookup by (auto simp: topo_inv_def dependency_ordered_def filter_id_conv)
qed

lemma topo_loop_sorts:
  assumes uniq: "distinct (map node_id nodes)" and "finite (waiting m)" "topo_inv nodes m queue out"
  shows "\<exists>result m'. topo_loop (build_adj nodes) m queue out = Some (Some result) \<and> topo_inv nodes m' [] result"
  using assms(2,3)
proof (induction "length queue + card (waiting m)" arbitrary: m queue out rule: less_induct)
  case less
  show ?case
  proof (cases queue)
    case Nil
    then show ?thesis using less.prems(2) by (subst topo_loop.simps) auto
  next
    case (Cons x queue')
    from topo_step [OF uniq less.prems(2) [unfolded Cons]] obtain m' queue''
      where step: "release m queue' (case_option [] (\<lambda>ids. ids) (build_adj nodes x)) = Some (m', queue'')"
        and inv: "topo_inv nodes m' queue'' (out @ [x])" by blast
    have "finite (waiting m')" "length queue'' + card (waiting m') < length queue + card (waiting m)"
      using release_measure [OF step less.prems(1)] Cons by auto
    from less.hyps [OF this(2,1) inv] show ?thesis
      by (subst topo_loop.simps) (simp add: Cons step)
  qed
qed

lemma dependency_before:
  assumes "dependency_ordered nodes out" "(y, out ! i) \<in> dependencies nodes" "i < length out"
  shows "\<exists>j < i. out ! j = y"
proof -
  obtain n where n: "n \<in> set nodes" "node_id n = out ! i" "y \<in> set (depends_on n)"
    using assms(2) by (auto simp: dependencies_def)
  have "y \<in> set (take i out)"
    using assms(1) [unfolded dependency_ordered_def, rule_format, OF assms(3) n(1,2)] n(3) by blast
  then show ?thesis using assms(3) by (auto simp: in_set_conv_nth)
qed

lemma dependency_chain_before:
  assumes "dependency_ordered nodes out" "(y, x) \<in> (dependencies nodes)\<^sup>+"
  shows "i < length out \<Longrightarrow> out ! i = x \<Longrightarrow> \<exists>j < i. out ! j = y"
  using assms(2)
proof (induction arbitrary: i rule: trancl_induct)
  case (base z)
  then show ?case using dependency_before [OF assms(1), of y i] by simp
next
  case (step z w)
  then obtain j where "j < i" "out ! j = z"
    using dependency_before [OF assms(1), of z i] by auto
  with step.IH [of j] step.prems(1) show ?case by (meson less_trans)
qed

lemma ordered_not_cyclic:
  assumes "dependency_ordered nodes out" "distinct out" "x \<in> set out"
  shows "(x, x) \<notin> (dependencies nodes)\<^sup>+"
proof
  assume cycle: "(x, x) \<in> (dependencies nodes)\<^sup>+"
  obtain i where i: "i < length out" "out ! i = x"
    using assms(3) by (auto simp: in_set_conv_nth)
  from dependency_chain_before [OF assms(1) cycle i] obtain j where "j < i" "out ! j = x" by blast
  with i assms(2) show False by (auto simp: nth_eq_iff_index_eq)
qed

text \<open>When the loop stops early, the identifiers left over all wait for one another.\<close>

lemma topo_inv_end:
  assumes "topo_inv nodes m [] out" "distinct order" "set order = set (all_ids nodes)"
  shows "length out = length order \<longleftrightarrow> acyclic (dependencies nodes)"
    and "set out = set (all_ids nodes) \<longleftrightarrow> length out = length order"
proof -
  have ready: "set out = {x \<in> set (all_ids nodes). \<forall>n \<in> set nodes. node_id n = x \<longrightarrow> set (depends_on n) \<subseteq> set out}"
    and out: "distinct out" "set out \<subseteq> set order" "dependency_ordered nodes out"
    using assms unfolding topo_inv_def by auto
  have left: "\<exists>n \<in> set nodes. node_id n = x \<and> \<not> set (depends_on n) \<subseteq> set out"
    if "x \<in> set (all_ids nodes) - set out" for x
  proof (rule ccontr)
    assume "\<not> ?thesis"
    with that have "x \<in> {x \<in> set (all_ids nodes). \<forall>n \<in> set nodes. node_id n = x \<longrightarrow> set (depends_on n) \<subseteq> set out}" by blast
    then show False using ready that by blast
  qed
  show len: "set out = set (all_ids nodes) \<longleftrightarrow> length out = length order"
    using out(1,2) assms(2,3) by (metis card_subset_eq distinct_card finite_set)
  have "finite (dependencies nodes)"
    by (rule finite_subset [of _ "set (all_ids nodes) \<times> set (all_ids nodes)"])
      (auto simp: dependencies_def all_ids_mem)
  show "length out = length order \<longleftrightarrow> acyclic (dependencies nodes)"
  proof
    assume "acyclic (dependencies nodes)"
    then have "wf (dependencies nodes)" using \<open>finite _\<close> finite_acyclic_wf by blast
    have "set (all_ids nodes) - set out = {}"
    proof (rule ccontr)
      assume "set (all_ids nodes) - set out \<noteq> {}"
      from wfE_min' [OF \<open>wf _\<close> this] obtain x where x: "x \<in> set (all_ids nodes) - set out"
        "\<And>y. (y, x) \<in> dependencies nodes \<Longrightarrow> y \<notin> set (all_ids nodes) - set out" by blast
      from left [OF x(1)] obtain n d where "n \<in> set nodes" "node_id n = x" "d \<in> set (depends_on n)" "d \<notin> set out"
        by blast
      then show False using x(2) [of d] all_ids_mem(2) by (auto simp: dependencies_def)
    qed
    then show "length out = length order" using len out(2) assms(3) by blast
  next
    assume "length out = length order"
    then have all: "set out = set (all_ids nodes)" using len by blast
    note before = dependency_before [OF out(3)]
    have "dependencies nodes \<subseteq> (inv_image less_than (\<lambda>x. LEAST i. out ! i = x))"
    proof safe
      fix y x
      assume dep: "(y, x) \<in> dependencies nodes"
      then have "x \<in> set out" unfolding all by (auto simp: dependencies_def all_ids_mem)
      then obtain i where i: "i < length out" "out ! i = x" by (auto simp: in_set_conv_nth)
      define k where "k = (LEAST i. out ! i = x)"
      have k: "out ! k = x" "k < length out"
        unfolding k_def using i by (auto intro: LeastI le_less_trans [OF Least_le])
      from before [of y k] k dep obtain j where j: "j < k" "out ! j = y" by auto
      then have "(LEAST i. out ! i = y) < k" by (auto intro: le_less_trans [OF Least_le])
      then show "(y, x) \<in> inv_image less_than (\<lambda>x. LEAST i. out ! i = x)" by (simp add: k_def)
    qed
    then show "acyclic (dependencies nodes)"
      using wf_subset wf_acyclic wf_inv_image wf_less_than by blast
  qed
qed

end
