(* ===== verification/SyncFixtures.thy ===== *)
theory SyncFixtures
  imports SyncSchedule Fixtures
begin

text \<open>
  Concrete inputs of the synchroniser: a network that answers every call with 32 zero bytes, venues that list
  nothing, and a store that lists two wallets. Nothing here models code.
\<close>

definition quiet_router :: rpc_router where
  "quiet_router =
     \<lparr>eth_call = (\<lambda>_ _ _. Inr (replicate 32 0)), eth_block_number = (\<lambda>_. Inr 7), eth_balance = (\<lambda>_ _. Inr 9),
      aggregate3 = (\<lambda>_ calls. Inr (map (\<lambda>_. \<lparr>cr_success = True, cr_return_data = replicate 32 0\<rparr>) calls))\<rparr>"

definition quiet_onchain :: onchain_fetcher where
  "quiet_onchain =
     \<lparr>of_router = quiet_router, of_decoders = decoder_builtins, of_abi_knows = (\<lambda>_. False),
      of_abi_decode = (\<lambda>d _. Inl (UnknownDecoder d)), of_fees_json = (\<lambda>_. Inr (JArr []))\<rparr>"

definition empty_venue :: intent_fetcher where
  "empty_venue = \<lparr>fetch_orders = (\<lambda>_ _. Inr []), authoritative_prefix = Some ''intent:cow:''\<rparr>"

definition quiet_orchestrator :: orchestrator where
  "quiet_orchestrator =
     \<lparr>orc_onchain = quiet_onchain, price_fetchers = Map.empty, orc_registry = None, orc_hyperliquid = None,
      uniswap_x = None, cow_swap = Some empty_venue, one_inch_fusion = None, one_inch_fusion_plus = None,
      one_inch_lop = None, calc_by_id = Map.empty, orc_globals = Map.empty, orc_router = Some quiet_router,
      function_selector = (\<lambda>_. [0, 0, 0, 0])\<rparr>"

definition plain_codec :: sync_codec where
  "plain_codec =
     \<lparr>key_text = (\<lambda>_. ''key''), read_key = (\<lambda>_. None), read_i256 = (\<lambda>_. None), read_dec_u256 = (\<lambda>_. None),
      checksum_text = lowercase_hex\<rparr>"

definition unit_f64 :: "unit f64_ops" where
  "unit_f64 =
     \<lparr>f64_parse = (\<lambda>_. None), f64_literal = (\<lambda>_. ()), f64_show = (\<lambda>_. ''0''), f64_zero = (), f64_add = (\<lambda>_ _. ()),
      f64_sub = (\<lambda>_ _. ()), f64_mul = (\<lambda>_ _. ()), f64_div = (\<lambda>_ _. ()), f64_mul_add = (\<lambda>_ _ _. ()),
      f64_neg = (\<lambda>_. ()), f64_abs = (\<lambda>_. ()), f64_less = (\<lambda>_ _. False), f64_eq = (\<lambda>_ _. True),
      f64_is_finite = (\<lambda>_. True), f64_show_exp = (\<lambda>_. ''0''), f64_show_fixed8 = (\<lambda>_. ''0'')\<rparr>"

definition alice_id :: wallet_id where
  "alice_id = \<lparr>wid_address = alice, wid_chains = {ethereum_mainnet}\<rparr>"

text \<open>A store that lists two wallets; saving keeps the last state of each.\<close>

definition bob_id :: wallet_id where
  "bob_id = \<lparr>wid_address = router, wid_chains = {ethereum_mainnet}\<rparr>"

definition two_wallet_store :: "(wallet_id \<Rightarrow> wallet_state option) wallet_store" where
  "two_wallet_store =
     \<lparr>list_wallets = (\<lambda>_. Inr [bob_id, alice_id]),
      load_wallet = (\<lambda>st w. case st w of Some s \<Rightarrow> if ws_id s = w then Inr s else Inl ''damaged'' | None \<Rightarrow> Inl ''missing''),
      save_wallet = (\<lambda>st s. Inr (st(ws_id s \<mapsto> s)))\<rparr>"

definition open_order :: "string \<Rightarrow> pending_tx" where
  "open_order i =
     PendingTx i (OffchainLimitOrder (venue_ref_new ''cow'') (TokenRef usdc) (TokenRef ether) 10 1 LimitOrder)
       (SpendCap (TokenRef usdc) 10) state_delta_new
       \<lparr>pl_status = Active, valid_until = None, pl_nonce = None, on_chain_tx = None, raw_status = None\<rparr>
       UserSupplied 0 []"

lemma sample_wallet_id: "ws_id sample_wallet = alice_id"
  by (simp add: sample_wallet_def wallet_state_new_def alice_id_def)

end
