(* ===== verification/SyncProperties.thy ===== *)
theory SyncProperties
  imports SyncFacts SyncOrder SyncFixtures
begin

text \<open>
  The properties of the synchroniser: sorting derived fields, retiring permits, tracking orders, what a whole
  sync keeps of the wallet, which wallets the scheduler reaches, and the RPC layer below them.
\<close>

section \<open>Sorting derived fields\<close>

text \<open>C12. The topological sort terminates. On nodes with distinct identifiers, for every order in which the map of
  identifiers is iterated, it returns a dependency order of all identifiers when the graph has no cycle, and the error
  \<open>CyclicDeps\<close> otherwise; the identifier the error names is never one on a cycle.\<close>
theorem topological_sort_decides:
  assumes uniq: "distinct (map node_id nodes)" and order: "distinct order" "set order = set (all_ids nodes)"
  shows "if acyclic (dependencies nodes)
    then \<exists>out. topological_sort order nodes = Some (Sorted out) \<and> distinct out \<and> set out = set (all_ids nodes)
      \<and> dependency_ordered nodes out
    else \<exists>x. topological_sort order nodes = Some (Rejected (CyclicDeps x))
      \<and> (x = ''<unknown>'' \<or> (x, x) \<notin> (dependencies nodes)\<^sup>+)"
proof -
  let ?queue = "filter (\<lambda>x. (case build_degrees nodes x of None \<Rightarrow> 0 | Some d \<Rightarrow> d) = 0) order"
  obtain out m' where loop: "topo_loop (build_adj nodes) (build_degrees nodes) ?queue [] = Some (Some out)"
    and inv: "topo_inv nodes m' [] out"
    using topo_loop_sorts [OF uniq finite_waiting topo_inv_start [OF uniq order]] by blast
  have out: "distinct out" "dependency_ordered nodes out"
    using inv by (auto simp: topo_inv_def)
  have named: "out = [] \<or> (last out, last out) \<notin> (dependencies nodes)\<^sup>+"
    using ordered_not_cyclic [OF out(2,1)] by (cases "out = []") auto
  show ?thesis
    using topo_inv_end [OF inv order] out named by (auto simp: topological_sort_def loop Let_def)
qed

theorem topological_sort_decides_witness:
  "\<exists>out. topological_sort [''b'', ''a''] [\<lparr>node_id = ''b'', depends_on = [''a'']\<rparr>] = Some (Sorted out)
     \<and> dependency_ordered [\<lparr>node_id = ''b'', depends_on = [''a'']\<rparr>] out"
proof -
  let ?nodes = "[\<lparr>node_id = ''b'', depends_on = [''a'']\<rparr>]"
  have "dependencies ?nodes = {(''a'', ''b'')}"
    by (auto simp: dependencies_def)
  moreover have "acyclic {(''a'', ''b'')}"
    by (simp add: acyclic_insert) (simp add: acyclic_def)
  ultimately show ?thesis
    using topological_sort_decides [of ?nodes "[''b'', ''a'']"] by (auto simp: all_ids_def)
qed

section \<open>Signed permits\<close>

text \<open>C9. Reconciling permits removes exactly the entries that carry the id of a settled permit: a signed permit
  past its deadline, an EIP-2612 permit whose nonce the token has passed, or a signature transfer whose bit is set in
  the bitmap on chain. Every other entry stays, whatever the network answers, and the rest of the wallet is untouched.\<close>
theorem permits_retired_exactly:
  "fst (reconcile_permits orc s t) =
     s\<lparr>pending := filter (\<lambda>p. ptx_id p \<notin> ptx_id ` {q \<in> set (pending s). permit_settled orc (wid_address (ws_id s)) t q})
         (pending s)\<rparr>
   \<and> permits_retired (snd (reconcile_permits orc s t))
     = length (filter (permit_settled orc (wid_address (ws_id s)) t) (pending s))"
proof -
  let ?settled = "permit_settled orc (wid_address (ws_id s)) t"
  let ?start = "([], \<lparr>permits_retired = 0, pr_errors = []\<rparr>)"
  obtain ids rep where run: "fold (permit_step orc (wid_address (ws_id s)) t) (pending s) ?start = (ids, rep)"
    by fastforce
  have ids: "ids = map ptx_id (filter ?settled (pending s))" "permits_retired rep = length (filter ?settled (pending s))"
    using permit_steps [of orc "wid_address (ws_id s)" t "pending s" ?start] by (simp_all add: run)
  have result: "reconcile_permits orc s t
      = (if ids = [] then s else s\<lparr>pending := filter (\<lambda>p. ptx_id p \<notin> set ids) (pending s)\<rparr>, rep)"
    by (simp add: reconcile_permits_def run)
  have "fst (reconcile_permits orc s t) = s\<lparr>pending := filter (\<lambda>p. ptx_id p \<notin> set ids) (pending s)\<rparr>"
    unfolding result by simp
  moreover have "set ids = ptx_id ` {q \<in> set (pending s). ?settled q}"
    unfolding ids by auto
  ultimately show ?thesis
    using ids(2) by (simp add: result)
qed

section \<open>Intent orders\<close>

text \<open>C10. The sync of intent orders implements the tracking of orders by id, one venue after the other: a failed fetch
  changes nothing; a successful one drops the finished orders, records the open ones and, for a venue whose listing is
  complete, drops every order under its prefix that it did not list. Ids stay unique and only the pending list changes.\<close>
theorem intent_sync_refines_tracking:
  assumes "distinct (map ptx_id (pending s))"
  shows "distinct (map ptx_id (pending (fst (sync_intent_orders orc s t))))
    \<and> tracked (pending (fst (sync_intent_orders orc s t)))
      = fold (\<lambda>f. track_venue (fetch_orders f (wid_address (ws_id s)) t) (authoritative_prefix f))
          (intent_fetchers orc) (tracked (pending s))
    \<and> (\<exists>ps. fst (sync_intent_orders orc s t) = s\<lparr>pending := ps\<rparr>)"
  unfolding sync_intent_orders_def by (rule run_intent_sync_tracked [OF assms])

theorem intent_sync_refines_tracking_witness:
  "tracked (pending (fst (sync_intent_orders quiet_orchestrator
       (sample_wallet\<lparr>pending := [open_order ''intent:cow:1'', open_order ''intent:x:2'']\<rparr>) 5)))
     = [''intent:x:2'' \<mapsto> open_order ''intent:x:2'']"
proof -
  let ?s = "sample_wallet\<lparr>pending := [open_order ''intent:cow:1'', open_order ''intent:x:2'']\<rparr>"
  have ids: "distinct (map ptx_id (pending ?s))" by (simp add: open_order_def)
  have "tracked (pending (fst (sync_intent_orders quiet_orchestrator ?s 5)))
      = track_venue (Inr []) (Some ''intent:cow:'') (tracked (pending ?s))"
    using intent_sync_refines_tracking [OF ids, of quiet_orchestrator 5]
    by (simp add: quiet_orchestrator_def intent_fetchers_def List.map_filter_def empty_venue_def)
  also have "\<dots> = [''intent:x:2'' \<mapsto> open_order ''intent:x:2'']"
    by (auto simp: track_venue_def tracked_def open_order_def restrict_map_def fun_eq_iff)
  finally show ?thesis .
qed

section \<open>A whole sync of a wallet\<close>

text \<open>C8. Whatever the network and the venues answer, a sync of a wallet keeps its id, the set of its holdings with their
  keys and committed amounts, which allowances exist, its operators and Permit2 rows, the well-formedness of the wallet
  and the uniqueness of position ids.\<close>
theorem sync_wallet_keeps_wallet:
  assumes "wf_wallet s" "distinct (map pos_id (positions s))"
  shows "wf_wallet (fst (sync_wallet S F orc cfg tick t wid s report))
    \<and> distinct (map pos_id (positions (fst (sync_wallet S F orc cfg tick t wid s report))))
    \<and> synced_from s (fst (sync_wallet S F orc cfg tick t wid s report))"
  using sync_wallet_synced [of s S F orc cfg tick t wid report] assms by (simp add: synced_from_def)

theorem sync_wallet_keeps_wallet_witness:
  "wf_wallet (fst (sync_wallet plain_codec unit_f64 quiet_orchestrator scheduler_config_default 0 5 alice_id sample_wallet
     tick_report_default))"
  using sync_wallet_keeps_wallet [of sample_wallet plain_codec unit_f64 quiet_orchestrator scheduler_config_default 0 5
      alice_id tick_report_default] sample_wallet_wf by simp

section \<open>The scheduler\<close>

lemma two_wallet_store_ok: "store_laws two_wallet_store"
  by (auto simp: store_laws_def two_wallet_store_def split: option.splits if_splits)

text \<open>C11. A wallet that the store lists, once, among the first \<open>max_wallets_per_tick\<close>, holds and can save is
  synced by every tick, whatever happens to the wallets around it: after any number of ticks the store holds
  the state that results from running exactly the passes due at each tick, in order, on this wallet alone,
  and every tick reports it. When Hyperliquid accounts are synced, the long-tail pass is due, and so is run,
  within any number of successive ticks as large as its cadence.\<close>
theorem ticks_reach_listed_wallets:
  assumes "store_laws W"
    and "\<And>st. \<exists>ws. list_wallets W st = Inr ws \<and> distinct ws \<and> wid \<in> set (take (max_wallets_per_tick cfg) ws)"
    and "\<And>st s. ws_id s = wid \<Longrightarrow> \<exists>st'. save_wallet W st s = Inr st'"
    and "load_wallet W st wid = Inr s" and "unat tick + length ticks < 2 ^ 64"
  shows "load_wallet W (fst (fst (run_ticks S F W cfg ticks (st, tick)))) wid
      = Inr (wallet_run S F cfg ticks (unat tick) s)
    \<and> (\<forall>k < length ticks. \<exists>r. snd (run_ticks S F W cfg ticks (st, tick)) ! k = Inr r
         \<and> wid \<in> wsc_wallet ` set (synced_wallets r))
    \<and> (sync_hyperliquid_accounts cfg \<longrightarrow>
         (\<exists>i. unat tick \<le> i \<and> i < unat tick + max 1 (unat (hl_longtail_every cfg))
            \<and> HlLongtailPass \<in> set (due_passes cfg i)))"
  using wallet_in_ticks [OF assms(1,3,2,4,5)] longtail_comes by blast

theorem ticks_reach_listed_wallets_witness:
  "load_wallet two_wallet_store (fst (fst (run_ticks plain_codec unit_f64 two_wallet_store scheduler_config_default
       [(quiet_orchestrator, 5), (quiet_orchestrator, 20)] ([alice_id \<mapsto> sample_wallet], 0)))) alice_id
     = Inr (wallet_run plain_codec unit_f64 scheduler_config_default
         [(quiet_orchestrator, 5), (quiet_orchestrator, 20)] 0 sample_wallet)"
proof -
  have ids: "bob_id \<noteq> alice_id" by (simp add: bob_id_def alice_id_def alice_def router_def)
  have "load_wallet two_wallet_store [alice_id \<mapsto> sample_wallet] alice_id = Inr sample_wallet"
    by (simp add: two_wallet_store_def sample_wallet_id)
  from ticks_reach_listed_wallets [OF two_wallet_store_ok _ _ this, of scheduler_config_default 0
      "[(quiet_orchestrator, 5), (quiet_orchestrator, 20)]" plain_codec unit_f64] ids
  show ?thesis by (simp add: two_wallet_store_def scheduler_config_default_def)
qed

text \<open>A wallet that is listed behind the first \<open>max_wallets_per_tick\<close> is never synced.\<close>

theorem wallets_past_the_limit_wait:
  assumes "list_wallets W st = Inr ws" "wid \<notin> set (take (max_wallets_per_tick cfg) ws)"
  shows "\<exists>r. snd (tick_once S F orc W cfg t (st, tick)) = Inr r \<and> wid \<notin> wsc_wallet ` set (synced_wallets r)"
  using tick_wallets_served [of S F orc W cfg tick t "take (max_wallets_per_tick cfg) ws" "(st, tick_report_default)"] assms(2)
  by (auto simp: tick_once_listed [OF assms(1)] served_def tick_report_default_def Let_def)

section \<open>The RPC layer\<close>

text \<open>C13. Return data that is the ABI encoding of a list of call results is decoded to that list, without an error and
  without a panic, as long as it fits the address space.\<close>
theorem multicall_results_decode:
  assumes "length (abi_array (map result_body rs)) < 2 ^ 63"
  shows "decode_aggregate3_returndata (abi_array (map result_body rs)) = Some (Inr rs)"
  using assms by (rule decode_abi_results)

theorem multicall_results_decode_witness:
  "decode_aggregate3_returndata (abi_array (map result_body
       [\<lparr>cr_success = True, cr_return_data = [1, 2]\<rparr>, \<lparr>cr_success = False, cr_return_data = []\<rparr>]))
     = Some (Inr [\<lparr>cr_success = True, cr_return_data = [1, 2]\<rparr>, \<lparr>cr_success = False, cr_return_data = []\<rparr>])"
  using multicall_results_decode [of "[\<lparr>cr_success = True, cr_return_data = [1, 2]\<rparr>, \<lparr>cr_success = False, cr_return_data = []\<rparr>]"]
  by (simp add: abi_array_def result_body_def bytes_padded_def)

text \<open>An offset of the array at the end of the address space makes the decoder panic: the bound check wraps.\<close>

theorem hostile_offset_panics:
  "decode_aggregate3_returndata (replicate 24 0 @ [255, 255, 255, 255, 255, 255, 255, 255] @ replicate 32 0) = None"
proof -
  have "from_be_bytes [255 :: u8, 255, 255, 255, 255, 255, 255, 255] = (18446744073709551615 :: u64)"
    by (simp add: from_be_bytes_def)
  then have "read_at (replicate 24 0 @ [255, 255, 255, 255, 255, 255, 255, 255] @ replicate 32 0) 0 32 = Some (Inr 18446744073709551615)"
    by (simp add: read_at_def slice_range_def read_u256_usize_def list_ex_iff)
  then show ?thesis
    by (simp add: decode_aggregate3_returndata_def read_at_def [of _ 18446744073709551615] slice_range_def)
qed

text \<open>C14. A call is answered by the first provider, in order of priority, that is healthy and succeeds; each provider
  tried before it has one failure more, and it is healthy afterwards. A provider that failed \<open>ts\<close> times in a row since
  its last success is skipped exactly from the threshold on and until the cooldown after the last failure is over.\<close>
theorem router_failover:
  assumes "distinct (map at_name ps)"
  shows "(case answering H ps of
       Some p \<Rightarrow> snd (try_providers C chain None ps H) = at_answer p
     | None \<Rightarrow> \<not> is_ok (snd (try_providers C chain None ps H)))
    \<and> fst (try_providers C chain None ps H) name =
      (case find (\<lambda>p. at_name p = name) (takeWhile (passed_over H) ps) of
         Some p \<Rightarrow> if asked H p then record_failure C H name (at_finished p) name else H name
       | None \<Rightarrow> if map_option at_name (answering H ps) = Some name then Some provider_health_default else H name)
    \<and> is_unhealthy (failures_in_row C H name ts) name now'
      = (ts \<noteq> [] \<and> unat (mark_unhealthy_after C) \<le> length ts \<and> now' < last ts + unat (unhealthy_cooldown_sec C))"
  using try_providers_answer [OF assms, of C chain None H] try_providers_health [OF assms, of C chain None H name]
  by (auto simp: breaker split: option.split)

theorem router_failover_witness:
  "snd (try_providers \<lparr>mark_unhealthy_after = 5, unhealthy_cooldown_sec = 60\<rparr> ethereum_mainnet None
       [\<lparr>at_name = ''a'', at_checked = 0, at_answer = Inl (StoreError ''down''), at_finished = 1\<rparr>,
        \<lparr>at_name = ''b'', at_checked = 1, at_answer = Inr (7 :: u64), at_finished = 2\<rparr>] Map.empty) = Inr 7"
  using router_failover [where ps = "[\<lparr>at_name = ''a'', at_checked = 0, at_answer = Inl (StoreError ''down''), at_finished = 1\<rparr>,
        \<lparr>at_name = ''b'', at_checked = 1, at_answer = Inr (7 :: u64), at_finished = 2\<rparr>]" and H = Map.empty
      and C = "\<lparr>mark_unhealthy_after = 5, unhealthy_cooldown_sec = 60\<rparr>" and chain = ethereum_mainnet]
  by (simp add: asked_def is_unhealthy_def is_ok_iff)

end
