(* ===== verification/Spec2Isabelle.thy ===== *)
theory Spec2Isabelle
  imports WalletProperties AmmProperties LendingProperties PerpProperties ReduceProperties PolicyProperties
    SyncProperties
begin

text \<open>
  A verification of the wallet policy engine. The program judges an action of a wallet before it is signed: the
  asset model says what the action would do to the wallet, the policy engine evaluates the installed policies on
  it, and the synchroniser keeps the wallet's view of the world fresh.

  \<^bold>\<open>The asset model\<close> (\<^verbatim>\<open>src/crates/policy-server/asset-model\<close>). The state of a wallet is the record
  \<open>wallet_state\<close> (\<open>Primitives\<close>, \<open>LiveFields\<close>, \<open>Tokens\<close>, \<open>Approvals\<close>, \<open>Positions\<close>, \<open>Deltas\<close>, \<open>Wallets\<close>, after
  \<^verbatim>\<open>state/src\<close>). An action describes an intention (\<open>TokenActions\<close>, \<open>AmmActions\<close>, \<open>LendingActions\<close>, \<open>PerpActions\<close>,
  \<open>DistributionActions\<close>, \<open>StakingDomains\<close>, \<open>ServiceDomains\<close>, after \<^verbatim>\<open>action/src\<close>); its reducer computes a
  \<open>state_delta\<close> and never touches the wallet (\<open>TokenEffects\<close>, \<open>AmmEffects\<close>, \<open>LendingEffects\<close>, \<open>PerpEffects\<close>,
  \<open>DistributionEffects\<close>, with the venue arithmetic in \<open>AmmMath\<close>, \<open>LendingMath\<close>, \<open>PerpMath\<close>, \<open>Derived\<close>, after
  \<^verbatim>\<open>transition/src/effect\<close>). The reducers write their deltas with the helpers \<open>Balances\<close>, \<open>ApprovalHelpers\<close>
  and \<open>PositionHelpers\<close>; \<open>DeltaEngine\<close> applies and merges deltas (\<^verbatim>\<open>transition/src/helpers\<close>); \<open>Reduce\<close> is the
  dispatcher with the multicall loop (\<^verbatim>\<open>transition/src/apply.rs\<close>). What every reducer owes its caller is the
  locale \<open>reducer_contract\<close> in \<open>ReducerContract\<close>, interpreted for each domain.

  \<^bold>\<open>The policy engine\<close> (\<^verbatim>\<open>src/crates/policy-engine\<close> and \<^verbatim>\<open>src/crates/policy-engine-wasm\<close>). An action is
  projected to its trigger fields (\<open>ActionViews\<close>) and lowered to a Cedar principal, action, resource and context
  (\<open>LowerCommon\<close> with the locale of a lowering, \<open>LowerTokens\<close>, \<open>LowerCredit\<close>, \<open>LowerDistribution\<close>, \<open>LowerStaking\<close>,
  \<open>LowerServices\<close>, \<open>Lowering\<close>). \<open>PolicyRpc\<close> has the manifests, the trigger evaluator, the planner of the calls a
  policy needs and the materialisation of their results. \<open>PolicySchema\<close> composes the schema of one bundle.
  \<open>Verdicts\<close> compiles policies and evaluates a request. \<open>ActionEvaluation\<close> is the entry point of the browser that
  runs these stages for every installed bundle and aggregates the verdicts.

  \<^bold>\<open>The synchroniser\<close> (\<^verbatim>\<open>src/crates/policy-server/sync\<close>). \<open>SyncTypes\<close> has its data. \<open>RpcLayer\<close> is the layer of
  calls: Multicall3 encoding and decoding (\<^verbatim>\<open>rpc/multicall.rs\<close>), the built-in decoders, batched reads, and the
  failover of the router with its health tracker. \<open>SyncLive\<close> finds the stale live fields of a wallet, groups them by
  source and assigns fetched values; \<open>SyncOrder\<close> is the topological sort of derived fields; \<open>SyncRuntime\<close> processes a
  batch and refreshes a wallet or a scope. \<open>SyncPasses\<close> has the other passes (Hyperliquid accounts, intent orders,
  permits), \<open>SyncSchedule\<close> the primitive facts and the scheduler, which runs every pass over the stored wallets in
  each tick. What every pass owes the wallet is the locale \<open>wallet_pass\<close> in \<open>SyncFacts\<close>, interpreted for each of them.

  \<^bold>\<open>Lemma libraries.\<close> \<open>Prelude\<close> has the collections and the generic lemmas. \<open>AmmQuotes\<close>, \<open>LendingFacts\<close> and
  \<open>ReduceFacts\<close> state what the arithmetic and the reducers do in terms of natural numbers and ledgers.
  \<open>SchemaFacts\<close> shows that the resolver table and the lowering agree on every action; \<open>EngineFacts\<close> what a compiled
  bundle decides; \<open>PolicyFacts\<close> and \<open>PipelineFacts\<close> what the loops of the pipeline collect, over the locales
  \<open>growing_loop\<close> and \<open>collecting_loop\<close>. \<open>RpcFacts\<close> relates bytes, ABI arrays and the breaker of the router to numbers
  and lists; \<open>SyncFacts\<close> states what the passes and the ticks do. \<open>Fixtures\<close>, \<open>DecimalFixtures\<close>, \<open>PolicyFixtures\<close> and
  \<open>SyncFixtures\<close> are concrete inputs.

  \<^bold>\<open>Properties.\<close> \<open>PolicyProperties\<close>: what a pass means, what blocks an action, exactness of planning,
  materialisation and lowering, agreement of schemas and triggers. \<open>ReduceProperties\<close>: a batch is the sequence of
  its children, unknown calls fail closed, every action keeps the wallet well formed. \<open>WalletProperties\<close>: the
  accounting of deltas and merging, the helpers' contracts. \<open>AmmProperties\<close>, \<open>LendingProperties\<close>,
  \<open>PerpProperties\<close>: the domains' quotes, rates, margins and settlements. \<open>SyncProperties\<close>: a sync keeps the wallet,
  retires exactly the settled permits, tracks intent orders by id; every wallet within the limit is reached in every
  tick; the sort of derived fields terminates and decides cycles; return data decodes; calls fail over.

  \<^bold>\<open>Parameters.\<close> Code outside the repository is an argument of the definitions that use it: the Cedar library (the
  record \<open>cedar\<close>, its promises are the predicates \<open>set_laws\<close>, \<open>answer_laws\<close>, \<open>parse_laws\<close>), the JSON codec of
  positions (\<open>position_serde\<close>), the number readers of the Maverick payload (\<open>number_readers\<close>), the decimal library
  (\<open>decimal_lib\<close>), the serialisation of nonce keys (\<open>lower_env\<close>), the deserialisers of the entry points
  (\<open>wasm_env\<close>), floating-point numbers (\<open>f64_ops\<close>), the venue fetchers and RPC providers (functions of the request
  that give one answer during a pass: fields of \<open>orchestrator\<close>, \<open>hl_fetcher\<close>, \<open>intent_fetcher\<close>, \<open>rpc_router\<close>), the JSON
  text of token keys (\<open>sync_codec\<close>), the wallet store (\<open>wallet_store\<close>) and the texts of the shipped schema files. Machine integers are words of their width and every
  checked operation returns an error value on overflow. The Newton loops of the stable-swap quotes run for 255
  steps, the bound the source has; the queue loop of the topological sort is a partial function that is shown to
  return; every other loop is total, with its termination proof. \<open>usize\<close> is 64 bits wide and wraps in the decoder of
  return data, where a panic is the value \<open>None\<close>; elsewhere counters are natural numbers.

  \<^bold>\<open>Not modelled.\<close> The ABI resolver and the declarative mappers decode calldata with third-party libraries and
  registry data; the venue clients and discovery of the synchroniser, the HTTP server and the database are I/O; the
  browser extension is not Rust. The walkers that refresh the live inputs of an action (\<^verbatim>\<open>sync/src/actions/walk\<close>)
  copy each field in and out and are left out. Display and serde attributes have no logic of their own.
\<close>

end
